(* ===== verification/Go_Prelude.thy ===== *)
theory Go_Prelude
  imports Main "HOL-Library.Char_ord" "HOL-Library.List_Lexorder" "HOL-Library.AList"
begin

text \<open>
  Shared vocabulary of the development: what the Go sources use of the standard library
  packages \<^verbatim>\<open>strings\<close>, \<^verbatim>\<open>strconv\<close>, \<^verbatim>\<open>errors\<close> and \<^verbatim>\<open>fmt\<close>, association lists for
  Go maps, the error values of the program, and the generic lemmas the components share.
  A Go string is a sequence of bytes, here a \<^typ>\<open>string\<close> (list of 8-bit characters).
  Case mapping is modelled on ASCII letters only: bytes from 128 on are left alone.
\<close>

named_theorems go_str \<open>simplification rules for string helpers\<close>
named_theorems go_err \<open>simplification rules for error values\<close>

section \<open>Strings\<close>

definition has_prefix :: "string \<Rightarrow> string \<Rightarrow> bool" where
  "has_prefix s p \<longleftrightarrow> take (length p) s = p"

definition has_suffix :: "string \<Rightarrow> string \<Rightarrow> bool" where
  "has_suffix s p \<longleftrightarrow> has_prefix (rev s) (rev p)"

definition trim_prefix :: "string \<Rightarrow> string \<Rightarrow> string" where
  "trim_prefix s p = (if has_prefix s p then drop (length p) s else s)"

definition trim_suffix :: "string \<Rightarrow> string \<Rightarrow> string" where
  "trim_suffix s p = (if has_suffix s p then take (length s - length p) s else s)"

fun str_contains :: "string \<Rightarrow> string \<Rightarrow> bool" where
  "str_contains [] p = (p = [])"
| "str_contains (c # s) p = (has_prefix (c # s) p \<or> str_contains s p)"

text \<open>
  \<^verbatim>\<open>strings.ReplaceAll\<close> for a non-empty pattern (the sources never pass an empty one):
  leftmost, non-overlapping occurrences.
\<close>

function replace_all :: "string \<Rightarrow> string \<Rightarrow> string \<Rightarrow> string" where
  "replace_all old new [] = []"
| "replace_all old new (c # s) =
     (if old \<noteq> [] \<and> has_prefix (c # s) old
      then new @ replace_all old new (drop (length old) (c # s))
      else c # replace_all old new s)"
  by pat_completeness auto
termination
proof (relation "measure (\<lambda>(old, new, s). length s)", goal_cases)
  case (2 old new c s)
  then show ?case by (cases old) auto
qed auto

text \<open>\<^verbatim>\<open>strings.Split\<close> on a one-byte separator: never empty.\<close>

fun split_char :: "char \<Rightarrow> string \<Rightarrow> string list" where
  "split_char c [] = [[]]"
| "split_char c (x # s) =
     (if x = c then [] # split_char c s
      else (case split_char c s of [] \<Rightarrow> [[x]] | t # ts \<Rightarrow> (x # t) # ts))"

fun join_with :: "string \<Rightarrow> string list \<Rightarrow> string" where
  "join_with sep [] = []"
| "join_with sep [s] = s"
| "join_with sep (s # t # ts) = s @ sep @ join_with sep (t # ts)"

text \<open>\<^verbatim>\<open>strings.Index\<close> of a one-byte pattern and \<^verbatim>\<open>strings.Cut\<close>.\<close>

fun index_char :: "char \<Rightarrow> string \<Rightarrow> nat option" where
  "index_char c [] = None"
| "index_char c (x # s) = (if x = c then Some 0 else map_option Suc (index_char c s))"

fun str_cut :: "string \<Rightarrow> string \<Rightarrow> (string \<times> string) option" where
  "str_cut [] p = (if p = [] then Some ([], []) else None)"
| "str_cut (c # s) p =
     (if has_prefix (c # s) p then Some ([], drop (length p) (c # s))
      else (case str_cut s p of None \<Rightarrow> None | Some (a, b) \<Rightarrow> Some (c # a, b)))"

text \<open>
  White space as \<^verbatim>\<open>unicode.IsSpace\<close> has it, by UTF-8 encoding: the six ASCII
  characters, U+0085, U+00A0, U+1680, U+2000 to U+200A, U+2028, U+2029, U+202F, U+205F
  and U+3000. \<open>space_len s\<close> is the number of bytes of the space \<open>s\<close> starts with, or 0.
\<close>

definition ascii_space :: "char \<Rightarrow> bool" where
  "ascii_space c \<longleftrightarrow>
     c = CHR '' '' \<or> c = CHR 0x09 \<or> c = CHR 0x0A \<or> c = CHR 0x0B \<or> c = CHR 0x0C \<or> c = CHR 0x0D"

definition space_pair :: "char \<Rightarrow> char \<Rightarrow> bool" where
  "space_pair c d \<longleftrightarrow> c = CHR 0xC2 \<and> (d = CHR 0x85 \<or> d = CHR 0xA0)"

definition space_triple :: "char \<Rightarrow> char \<Rightarrow> char \<Rightarrow> bool" where
  "space_triple c d e \<longleftrightarrow>
     (c = CHR 0xE1 \<and> d = CHR 0x9A \<and> e = CHR 0x80) \<or>
     (c = CHR 0xE2 \<and> d = CHR 0x81 \<and> e = CHR 0x9F) \<or>
     (c = CHR 0xE3 \<and> d = CHR 0x80 \<and> e = CHR 0x80) \<or>
     (c = CHR 0xE2 \<and> d = CHR 0x80 \<and>
        (let n = of_char e :: nat in (128 \<le> n \<and> n \<le> 138) \<or> n = 168 \<or> n = 169 \<or> n = 175))"

definition space_len :: "string \<Rightarrow> nat" where
  "space_len s =
     (case s of
        [] \<Rightarrow> 0
      | c # t \<Rightarrow>
          if ascii_space c then 1
          else if \<not> digit7 c then 0
          else (case t of
             [] \<Rightarrow> 0
           | d # u \<Rightarrow>
               if space_pair c d then 2
               else (case u of [] \<Rightarrow> 0 | e # _ \<Rightarrow> if space_triple c d e then 3 else 0)))"

lemma space_len_le: "space_len s \<le> length s"
  by (auto simp: space_len_def split: list.splits)

function trim_left :: "string \<Rightarrow> string" where
  "trim_left s = (if space_len s = 0 then s else trim_left (drop (space_len s) s))"
  by pat_completeness auto
termination
proof (relation "measure length", goal_cases)
  case (2 s)
  then have "0 < space_len s" and "space_len s \<le> length s"
    using space_len_le by auto
  then show ?case by simp
qed simp

declare trim_left.simps [simp del]

text \<open>The text up to the point from which only white space follows.\<close>

fun trim_right :: "string \<Rightarrow> string" where
  "trim_right [] = []"
| "trim_right (c # s) =
     (if space_len (c # s) \<noteq> 0 \<and> trim_left (c # s) = [] then [] else c # trim_right s)"

text \<open>\<^verbatim>\<open>strings.TrimSpace\<close>.\<close>

definition trim_space :: "string \<Rightarrow> string" where
  "trim_space s = trim_right (trim_left s)"

text \<open>\<^verbatim>\<open>strings.IndexFunc(s, unicode.IsSpace) >= 0\<close>.\<close>

fun has_space :: "string \<Rightarrow> bool" where
  "has_space [] = False"
| "has_space (c # s) = (space_len (c # s) \<noteq> 0 \<or> has_space s)"

text \<open>\<^verbatim>\<open>strings.Fields\<close>: the maximal runs of non-space characters.\<close>

fun fields_from :: "nat \<Rightarrow> string \<Rightarrow> string \<Rightarrow> string list" where
  "fields_from k acc [] = (if acc = [] then [] else [rev acc])"
| "fields_from (Suc k) acc (c # s) = fields_from k acc s"
| "fields_from 0 acc (c # s) =
     (case space_len (c # s) of
        0 \<Rightarrow> fields_from 0 (c # acc) s
      | Suc n \<Rightarrow> (if acc = [] then fields_from n [] s else rev acc # fields_from n [] s))"

definition str_fields :: "string \<Rightarrow> string list" where
  "str_fields s = fields_from 0 [] s"

text \<open>ASCII case mapping and case folding.\<close>

definition lower_char :: "char \<Rightarrow> char" where
  "lower_char c = (let n = of_char c :: nat in if 65 \<le> n \<and> n \<le> 90 then char_of (n + 32) else c)"

definition upper_char :: "char \<Rightarrow> char" where
  "upper_char c = (let n = of_char c :: nat in if 97 \<le> n \<and> n \<le> 122 then char_of (n - 32) else c)"

definition to_lower :: "string \<Rightarrow> string" where
  "to_lower s = map lower_char s"

definition to_upper :: "string \<Rightarrow> string" where
  "to_upper s = map upper_char s"

definition equal_fold :: "string \<Rightarrow> string \<Rightarrow> bool" where
  "equal_fold s t \<longleftrightarrow> to_lower s = to_lower t"

definition is_digit :: "char \<Rightarrow> bool" where
  "is_digit c \<longleftrightarrow> (let n = of_char c :: nat in 48 \<le> n \<and> n \<le> 57)"

definition is_letter :: "char \<Rightarrow> bool" where
  "is_letter c \<longleftrightarrow> (let n = of_char c :: nat in (65 \<le> n \<and> n \<le> 90) \<or> (97 \<le> n \<and> n \<le> 122))"

text \<open>\<^verbatim>\<open>unicode.IsControl\<close>: U+0000 to U+001F and U+007F to U+009F.\<close>

fun has_control :: "string \<Rightarrow> bool" where
  "has_control [] = False"
| "has_control (c # s) =
     ((let n = of_char c :: nat in n < 32 \<or> n = 127 \<or>
        (n = 194 \<and> s \<noteq> [] \<and> 128 \<le> (of_char (hd s) :: nat) \<and> (of_char (hd s) :: nat) \<le> 159))
      \<or> has_control s)"

text \<open>\<^verbatim>\<open>strconv.Itoa\<close>.\<close>

fun nat_text :: "nat \<Rightarrow> string" where
  "nat_text n = (if n < 10 then [char_of (48 + n)] else nat_text (n div 10) @ [char_of (48 + n mod 10)])"

declare nat_text.simps [simp del]

definition itoa :: "int \<Rightarrow> string" where
  "itoa i = (if i < 0 then ''-'' @ nat_text (nat (- i)) else nat_text (nat i))"

text \<open>\<^verbatim>\<open>strconv.Atoi\<close>: optional sign, at least one digit, digits only, 64-bit range.\<close>

fun digits_value :: "nat \<Rightarrow> string \<Rightarrow> nat option" where
  "digits_value acc [] = Some acc"
| "digits_value acc (c # s) =
     (if is_digit c then digits_value (10 * acc + ((of_char c :: nat) - 48)) s else None)"

definition atoi :: "string \<Rightarrow> int option" where
  "atoi s =
     (let neg = has_prefix s ''-'';
          t = (if has_prefix s ''-'' \<or> has_prefix s ''+'' then tl s else s)
      in if t = [] then None
         else case digits_value 0 t of
           None \<Rightarrow> None
         | Some n \<Rightarrow>
             (let v = (if neg then - int n else int n)
              in if - (2 ^ 63) \<le> v \<and> v < 2 ^ 63 then Some v else None))"

text \<open>\<^verbatim>\<open>%q\<close>: double quotes, with quotes, backslashes and ASCII control bytes escaped.\<close>

definition hex_digit :: "nat \<Rightarrow> char" where
  "hex_digit n = (if n < 10 then char_of (48 + n) else char_of (87 + n))"

definition quote_char :: "char \<Rightarrow> string" where
  "quote_char c =
     (let n = of_char c :: nat in
      if n = 34 then [CHR 0x5C, CHR 0x22] else if n = 92 then [CHR 0x5C, CHR 0x5C]
      else if n = 7 then [CHR 0x5C, CHR ''a''] else if n = 8 then [CHR 0x5C, CHR ''b'']
      else if n = 12 then [CHR 0x5C, CHR ''f''] else if n = 10 then [CHR 0x5C, CHR ''n'']
      else if n = 13 then [CHR 0x5C, CHR ''r''] else if n = 9 then [CHR 0x5C, CHR ''t'']
      else if n = 11 then [CHR 0x5C, CHR ''v'']
      else if n < 32 \<or> n = 127 then [CHR 0x5C, CHR ''x'', hex_digit (n div 16), hex_digit (n mod 16)]
      else [c])"

definition go_quote :: "string \<Rightarrow> string" where
  "go_quote s = [CHR 0x22] @ concat (map quote_char s) @ [CHR 0x22]"

section \<open>Maps\<close>

text \<open>
  A \<^verbatim>\<open>map[string]string\<close> is an association list with distinct keys; reading a missing
  key gives the empty string, as in Go.
\<close>

type_synonym gomap = "(string \<times> string) list"

definition map_get :: "gomap \<Rightarrow> string \<Rightarrow> string" where
  "map_get m k = (case map_of m k of None \<Rightarrow> [] | Some v \<Rightarrow> v)"

abbreviation map_put :: "string \<Rightarrow> 'v \<Rightarrow> (string \<times> 'v) list \<Rightarrow> (string \<times> 'v) list" where
  "map_put k v m \<equiv> AList.update k v m"

lemma map_get_put: "map_get (map_put k v m) k' = (if k = k' then v else map_get m k')"
  by (simp add: map_get_def update_conv')

section \<open>String lemmas\<close>

lemma has_prefix_append [simp]: "has_prefix (p @ s) p"
  by (simp add: has_prefix_def)

lemma has_prefix_iff: "has_prefix s p \<longleftrightarrow> (\<exists>t. s = p @ t)"
  unfolding has_prefix_def by (metis append_eq_conv_conj append_take_drop_id)

lemma has_prefix_Nil [simp]: "has_prefix s []"
  by (simp add: has_prefix_def)

lemma str_contains_iff: "str_contains s p \<longleftrightarrow> (\<exists>a b. s = a @ p @ b)"
proof (induction s)
  case (Cons c s)
  show ?case
    unfolding str_contains.simps Cons.IH has_prefix_iff
    by (metis append_Cons append_Nil list.exhaust_sel list.sel(1) list.sel(3))
qed auto

lemma str_contains_append: "str_contains s p \<Longrightarrow> str_contains (a @ s @ b) p"
  unfolding str_contains_iff by (metis append.assoc)

lemma split_char_nonempty [simp]: "split_char c s \<noteq> []"
  by (induction s) (auto split: list.splits)

lemma join_split_char: "join_with [c] (split_char c s) = s"
proof (induction s)
  case (Cons x s)
  obtain t ts where ts: "split_char c s = t # ts"
    by (cases "split_char c s") auto
  show ?case
    using Cons.IH by (cases ts) (auto simp: ts)
qed simp

lemma split_char_no_sep: "t \<in> set (split_char c s) \<Longrightarrow> c \<notin> set t"
proof (induction s arbitrary: t)
  case (Cons x s)
  obtain u us where us: "split_char c s = u # us"
    by (cases "split_char c s") auto
  with Cons show ?case
    by (auto split: if_splits)
qed simp

lemma trim_left_suffix: "\<exists>a. s = a @ trim_left s"
proof (induction s rule: trim_left.induct)
  case (1 s)
  show ?case
  proof (cases "space_len s = 0")
    case True
    then show ?thesis by (simp add: trim_left.simps [of s])
  next
    case False
    with 1 obtain a where "drop (space_len s) s = a @ trim_left (drop (space_len s) s)" by blast
    then have "s = (take (space_len s) s @ a) @ trim_left (drop (space_len s) s)"
      by (metis append.assoc append_take_drop_id)
    moreover have "trim_left s = trim_left (drop (space_len s) s)"
      using False by (simp add: trim_left.simps [of s])
    ultimately show ?thesis by metis
  qed
qed

lemma trim_left_space_len: "space_len (trim_left s) = 0"
proof (induction s rule: trim_left.induct)
  case (1 s)
  then show ?case
    by (cases "space_len s = 0") (simp_all add: trim_left.simps [of s])
qed

lemma trim_left_idem: "trim_left (trim_left s) = trim_left s"
  using trim_left_space_len [of s] by (simp add: trim_left.simps [of "trim_left s"])

lemma trim_right_prefix: "\<exists>b. s = trim_right s @ b"
  by (induction s) auto

lemma trim_space_infix: "\<exists>a b. s = a @ trim_space s @ b"
  using trim_left_suffix [of s] trim_right_prefix [of "trim_left s"]
  unfolding trim_space_def by metis

lemma trim_space_subset: "set (trim_space s) \<subseteq> set s"
  using trim_space_infix [of s] by (metis Un_upper1 Un_upper2 set_append subset_trans)

lemma trim_space_length: "length (trim_space s) \<le> length s"
  using trim_space_infix [of s] by (metis le_add1 le_add2 le_trans length_append)

text \<open>
  Texts joined by a blank: white-space fields and the search for a blank-free pattern
  distribute over the joined parts.
\<close>

lemma space_triple_blank [simp]: "\<not> space_triple c d CHR '' ''" "\<not> space_triple c CHR '' '' e"
    "\<not> space_pair c CHR '' ''"
  by (simp_all add: space_triple_def space_pair_def)

lemma space_len_before_blank: "space_len (c # a @ CHR '' '' # b) = space_len (c # a)"
proof (cases a)
  case (Cons d a')
  then show ?thesis by (cases a') (auto simp: space_len_def)
qed (auto simp: space_len_def split: list.splits)

lemma fields_from_blank:
  "k \<le> length a \<Longrightarrow> fields_from k acc (a @ CHR '' '' # b) = fields_from k acc a @ fields_from 0 [] b"
proof (induction k acc a rule: fields_from.induct)
  case (1 k acc)
  then show ?case by (simp add: space_len_def ascii_space_def)
next
  case (3 acc c s)
  have "space_len (c # s) \<le> length (c # s)" by (rule space_len_le)
  then have "\<And>n. space_len (c # s) = Suc n \<Longrightarrow> n \<le> length s" by simp
  with 3 show ?case
    by (auto simp: space_len_before_blank split: nat.splits)
qed simp

lemma str_fields_blank: "str_fields (a @ CHR '' '' # b) = str_fields a @ str_fields b"
  by (simp add: str_fields_def fields_from_blank)

lemma str_fields_join: "str_fields (join_with '' '' xs) = concat (map str_fields xs)"
proof (induction xs rule: induct_list012)
  case 1
  show ?case by (simp add: str_fields_def)
next
  case (3 s t ts)
  then show ?case unfolding join_with.simps(3) by (simp add: str_fields_blank)
qed simp

lemma str_contains_sep:
  "p \<noteq> [] \<Longrightarrow> c \<notin> set p \<Longrightarrow> str_contains (a @ c # b) p = (str_contains a p \<or> str_contains b p)"
proof (induction a)
  case Nil
  then have "\<not> has_prefix (c # b) p" by (cases p) (auto simp: has_prefix_def)
  with Nil show ?case by simp
next
  case (Cons x a)
  have "has_prefix ((x # a) @ c # b) p = has_prefix (x # a) p"
  proof
    assume "has_prefix ((x # a) @ c # b) p"
    then obtain t where t: "(x # a) @ c # b = p @ t" by (auto simp: has_prefix_iff)
    have "length p \<le> length (x # a)"
    proof (rule ccontr)
      assume "\<not> length p \<le> length (x # a)"
      then have "length (x # a) < length p" by simp
      moreover have "(p @ t) ! length (x # a) = c" using t by (metis nth_append_length)
      ultimately have "p ! length (x # a) = c" by (simp add: nth_append)
      with Cons.prems(2) \<open>length (x # a) < length p\<close> show False by (metis nth_mem)
    qed
    with t show "has_prefix (x # a) p"
      by (metis append_eq_append_conv_if append_take_drop_id has_prefix_append)
  next
    assume "has_prefix (x # a) p"
    then obtain t where "x # a = p @ t" by (auto simp: has_prefix_iff)
    then have "(x # a) @ c # b = p @ (t @ c # b)" by simp
    then show "has_prefix ((x # a) @ c # b) p" unfolding has_prefix_iff by blast
  qed
  with Cons show ?case by simp
qed

lemma str_contains_join:
  "p \<noteq> [] \<Longrightarrow> c \<notin> set p \<Longrightarrow> str_contains (join_with [c] xs) p = (\<exists>x \<in> set xs. str_contains x p)"
proof (induction xs rule: induct_list012)
  case (3 s t ts)
  then show ?case unfolding join_with.simps(3) by (simp add: str_contains_sep)
qed auto

lemma to_lower_append [simp]: "to_lower (a @ b) = to_lower a @ to_lower b"
  by (simp add: to_lower_def)

lemma to_lower_join: "to_lower (join_with sep xs) = join_with (to_lower sep) (map to_lower xs)"
proof (induction xs rule: induct_list012)
  case 1
  show ?case by (simp add: to_lower_def)
qed simp_all

text \<open>Evaluation of fields on concrete ASCII texts: conditional steps over the bits of a byte.\<close>

lemma ascii_space_bits [go_str]:
  "ascii_space (Char b0 b1 b2 b3 b4 b5 b6 b7) \<longleftrightarrow>
     \<not> b6 \<and> \<not> b7 \<and> \<not> b4 \<and>
     (b5 \<and> \<not> b3 \<and> \<not> b2 \<and> \<not> b1 \<and> \<not> b0 \<or>
      \<not> b5 \<and> b3 \<and> (\<not> b2 \<and> b0 \<or> \<not> b2 \<and> b1 \<or> b2 \<and> \<not> b1))"
  by (cases b0; cases b1; cases b2; cases b3) (auto simp: ascii_space_def)

lemma space_len_plain [go_str]: "\<not> digit7 c \<Longrightarrow> space_len (c # s) = (if ascii_space c then 1 else 0)"
  by (simp add: space_len_def)

lemma fields_plain [go_str]:
  "\<not> digit7 c \<Longrightarrow> \<not> ascii_space c \<Longrightarrow> fields_from 0 acc (c # s) = fields_from 0 (c # acc) s"
  "ascii_space c \<Longrightarrow> fields_from 0 [] (c # s) = fields_from 0 [] s"
  "ascii_space c \<Longrightarrow> fields_from 0 (a # acc) (c # s) = rev (a # acc) # fields_from 0 [] s"
  by (simp_all add: space_len_def)

lemma trim_left_plain [go_str]:
  "trim_left [] = []"
  "\<not> digit7 c \<Longrightarrow> \<not> ascii_space c \<Longrightarrow> trim_left (c # s) = c # s"
  "ascii_space c \<Longrightarrow> trim_left (c # s) = trim_left s"
  by (simp_all add: trim_left.simps [of "c # s"] trim_left.simps [of "[]"] space_len_def)

lemma trim_right_plain [go_str]:
  "\<not> digit7 c \<Longrightarrow> \<not> ascii_space c \<Longrightarrow> trim_right (c # s) = c # trim_right s"
  "ascii_space c \<Longrightarrow> trim_right (c # s) = (if trim_left s = [] then [] else c # trim_right s)"
  by (simp_all add: space_len_def trim_left_plain)

lemma has_space_plain [go_str]:
  "\<not> digit7 c \<Longrightarrow> has_space (c # s) = (ascii_space c \<or> has_space s)"
  by (simp add: space_len_def)

lemma of_char_bits:
  "(of_char (Char b0 b1 b2 b3 b4 b5 b6 b7) :: nat) =
     of_bool b0 + 2 * of_bool b1 + 4 * of_bool b2 + 8 * of_bool b3 + 16 * of_bool b4 +
     32 * of_bool b5 + 64 * of_bool b6 + 128 * of_bool b7"
  by (simp add: of_char_def algebra_simps)

lemma lower_char_bits [go_str]:
  "\<not> b6 \<or> b5 \<Longrightarrow> lower_char (Char b0 b1 b2 b3 b4 b5 b6 b7) = Char b0 b1 b2 b3 b4 b5 b6 b7"
proof -
  assume b: "\<not> b6 \<or> b5"
  have le: "(of_bool b0 :: nat) \<le> 1" "(of_bool b1 :: nat) \<le> 1" "(of_bool b2 :: nat) \<le> 1"
    "(of_bool b3 :: nat) \<le> 1" "(of_bool b4 :: nat) \<le> 1" "(of_bool b5 :: nat) \<le> 1" by simp_all
  have "(of_char (Char b0 b1 b2 b3 b4 b5 b6 b7) :: nat) < 65 \<or>
        90 < (of_char (Char b0 b1 b2 b3 b4 b5 b6 b7) :: nat)"
    using b le unfolding of_char_bits by (cases b7; cases b6) simp_all
  then show ?thesis by (auto simp: lower_char_def Let_def)
qed

lemma lower_char_upper:
  "lower_char (Char b0 b1 b2 b3 b4 False True False) =
     Char b0 b1 b2 b3 b4
       ((b0 \<or> b1 \<or> b2 \<or> b3 \<or> b4) \<and> \<not> (b4 \<and> b3 \<and> (b2 \<or> b1 \<and> b0))) True False"
  by (cases b0; cases b1; cases b2; cases b3; cases b4)
    (simp_all add: lower_char_def of_char_bits char_of_def bit_iff_odd)

lemma equal_fold_refl [simp]: "equal_fold s s"
  by (simp add: equal_fold_def)

section \<open>Errors\<close>

text \<open>
  Error values. \<open>Errorf\<close> is a leaf (\<^verbatim>\<open>errors.New\<close>, or \<^verbatim>\<open>fmt.Errorf\<close> with no
  \<^verbatim>\<open>%w\<close>), \<open>Sentinel\<close> one of the exported sentinel values, \<open>Wrapf pre e post\<close> a
  \<^verbatim>\<open>fmt.Errorf\<close> that wraps \<open>e\<close> between two texts, \<open>OpError\<close> the
  \<^verbatim>\<open>*OperationError\<close> of \<^verbatim>\<open>internal/deployments/errors.go\<close>, \<open>JoinErr\<close> the result of
  \<^verbatim>\<open>errors.Join\<close>, and \<open>GoPanic\<close> a run-time panic that ends the call.
\<close>

datatype error_kind = ErrorValidation | ErrorConflict | ErrorDependency | ErrorUnavailable

datatype sentinel =
    ErrIdempotencyConflict | ErrRecoveryPerformed | ErrContainerNotFound
  | ErrServiceUnauthorized | ErrNotFound | ContextCanceled | DeadlineExceeded
  | ErrInvalid | ErrExpired | ErrReplay | OsNotExist | OsExist

datatype gerror =
    Errorf string
  | Sentinel sentinel
  | Wrapf string gerror string
  | OpError error_kind string gerror
  | JoinErr "gerror list"
  | GoPanic string

fun sentinel_text :: "sentinel \<Rightarrow> string" where
  "sentinel_text ErrIdempotencyConflict = ''idempotency key already used for a different request''"
| "sentinel_text ErrRecoveryPerformed =
     ''incomplete idempotent request was reconciled; use a new idempotency key to create a new deployment''"
| "sentinel_text ErrContainerNotFound = ''container not found''"
| "sentinel_text ErrServiceUnauthorized = ''model service rejected the API key''"
| "sentinel_text ErrNotFound = ''deployment not found''"
| "sentinel_text ContextCanceled = ''context canceled''"
| "sentinel_text DeadlineExceeded = ''context deadline exceeded''"
| "sentinel_text ErrInvalid = ''invalid launch authorization''"
| "sentinel_text ErrExpired = ''expired launch authorization''"
| "sentinel_text ErrReplay = ''launch authorization was already used''"
| "sentinel_text OsNotExist = ''file does not exist''"
| "sentinel_text OsExist = ''file already exists''"

fun err_text :: "gerror \<Rightarrow> string" where
  "err_text (Errorf s) = s"
| "err_text (Sentinel s) = sentinel_text s"
| "err_text (Wrapf pre e post) = pre @ err_text e @ post"
| "err_text (OpError k op e) = (if op = [] then err_text e else op @ '': '' @ err_text e)"
| "err_text (JoinErr es) = join_with [CHR 0x0A] (map err_text es)"
| "err_text (GoPanic s) = ''panic: '' @ s"

text \<open>\<^verbatim>\<open>errors.Is\<close> for a sentinel.\<close>

fun err_is :: "gerror \<Rightarrow> sentinel \<Rightarrow> bool" where
  "err_is (Errorf s) t = False"
| "err_is (Sentinel s) t = (s = t)"
| "err_is (Wrapf pre e post) t = err_is e t"
| "err_is (OpError k op e) t = err_is e t"
| "err_is (JoinErr es) t = (\<exists>e \<in> set es. err_is e t)"
| "err_is (GoPanic s) t = False"

text \<open>
  \<^verbatim>\<open>ErrorKindOf\<close>: the kind of the first \<^verbatim>\<open>*OperationError\<close> that \<^verbatim>\<open>errors.As\<close> finds,
  outermost first; \<^verbatim>\<open>None\<close> stands for the empty kind.
\<close>

fun error_kind_of :: "gerror \<Rightarrow> error_kind option"
  and first_kind_of :: "gerror list \<Rightarrow> error_kind option" where
  "error_kind_of (Errorf s) = None"
| "error_kind_of (Sentinel s) = None"
| "error_kind_of (Wrapf pre e post) = error_kind_of e"
| "error_kind_of (OpError k op e) = Some k"
| "error_kind_of (JoinErr es) = first_kind_of es"
| "error_kind_of (GoPanic s) = None"
| "first_kind_of [] = None"
| "first_kind_of (e # es) =
     (case error_kind_of e of Some k \<Rightarrow> Some k | None \<Rightarrow> first_kind_of es)"

text \<open>\<^verbatim>\<open>WrapError\<close> keeps an error that already carries a kind.\<close>

definition wrap_error :: "error_kind \<Rightarrow> string \<Rightarrow> gerror \<Rightarrow> gerror" where
  "wrap_error k op e = (if error_kind_of e \<noteq> None then e else OpError k op e)"

lemma wrap_error_kind [go_err]:
  "error_kind_of (wrap_error k op e) = (case error_kind_of e of None \<Rightarrow> Some k | Some k' \<Rightarrow> Some k')"
  by (auto simp: wrap_error_def split: option.splits)

lemma wrap_error_is [go_err]: "err_is (wrap_error k op e) s = err_is e s"
  by (simp add: wrap_error_def)

lemma wrap_error_idem: "wrap_error k op (wrap_error k' op' e) = wrap_error k' op' e"
  by (simp add: wrap_error_def)

fun is_panic :: "gerror \<Rightarrow> bool" where
  "is_panic (GoPanic s) = True"
| "is_panic e = False"

lemma is_panic_wrap [go_err]: "is_panic (wrap_error k op e) = (is_panic e \<and> error_kind_of e \<noteq> None)"
  by (cases e) (auto simp: wrap_error_def)

section \<open>Lists\<close>

text \<open>\<^verbatim>\<open>for index := range xs { if p(xs[index]) { return index } }\<close>.\<close>

fun find_index :: "('a \<Rightarrow> bool) \<Rightarrow> 'a list \<Rightarrow> nat option" where
  "find_index p [] = None"
| "find_index p (x # xs) = (if p x then Some 0 else map_option Suc (find_index p xs))"

lemma find_index_Some:
  "find_index p xs = Some i \<Longrightarrow> i < length xs \<and> p (xs ! i) \<and> (\<forall>j < i. \<not> p (xs ! j))"
  by (induction xs arbitrary: i) (auto split: if_splits simp: less_Suc_eq_0_disj)

lemma find_index_None: "find_index p xs = None \<longleftrightarrow> (\<forall>x \<in> set xs. \<not> p x)"
  by (induction xs) auto

lemma find_index_cong: "(\<And>x. x \<in> set xs \<Longrightarrow> p x = q x) \<Longrightarrow> find_index p xs = find_index q xs"
  by (induction xs) auto

lemma find_index_map: "find_index p (map f xs) = find_index (p \<circ> f) xs"
  by (induction xs) auto

lemma find_Some_mem: "find p xs = Some x \<Longrightarrow> x \<in> set xs \<and> p x"
  by (auto simp: find_Some_iff)

text \<open>\<^verbatim>\<open>appendUniqueStrings\<close> and de-duplication share this insertion.\<close>

definition snoc_new :: "'a list \<Rightarrow> 'a \<Rightarrow> 'a list" where
  "snoc_new xs x = (if x \<in> set xs then xs else xs @ [x])"

lemma set_snoc_new [simp]: "set (snoc_new xs x) = insert x (set xs)"
  by (auto simp: snoc_new_def)

lemma distinct_snoc_new: "distinct xs \<Longrightarrow> distinct (snoc_new xs x)"
  by (auto simp: snoc_new_def)

lemma set_foldl_snoc_new: "set (foldl snoc_new xs ys) = set xs \<union> set ys"
  by (induction ys arbitrary: xs) auto

lemma distinct_foldl_snoc_new: "distinct xs \<Longrightarrow> distinct (foldl snoc_new xs ys)"
  by (induction ys arbitrary: xs) (auto simp: distinct_snoc_new)

end
