(* ===== verification/Bkc_Types.thy ===== *)
theory Bkc_Types
  imports Complex_Main Go_Prelude
begin

text \<open>
  The data model of the recipe catalog, \<^verbatim>\<open>internal/bkc/catalog.go\<close>: a catalog entry
  (\<^verbatim>\<open>Config\<close>), the coordinated two-node recipe (\<^verbatim>\<open>MultiDeviceDeployment\<close>) with its
  roles, runtime patches and pinned upstream recipe, and the container runtime options of
  \<^verbatim>\<open>internal/config/config.go\<close>. Optional pointers are options, string maps association
  lists, 64-bit floats rationals (only compared, never computed with).
\<close>

type_synonym restart_policy = string

record runtime_options =
  rt_ipc_mode :: string
  rt_shm_size :: string
  rt_ulimits :: gomap
  rt_restart_policy :: restart_policy

definition runtime_zero :: runtime_options where
  "runtime_zero = \<lparr>rt_ipc_mode = [], rt_shm_size = [], rt_ulimits = [], rt_restart_policy = []\<rparr>"

definition restart_policy_no :: restart_policy where
  "restart_policy_no = ''no''"

record multi_device_role =
  role_name :: string
  role_rank :: int
  role_api :: bool

record runtime_patch =
  patch_label :: string
  patch_source_path :: string
  patch_original_line :: string
  patch_replacement_line :: string
  patch_original_sha :: string
  patch_patched_sha :: string

record md_recipe =
  rcp_repository :: string
  rcp_commit :: string
  rcp_image_tag :: string
  rcp_image_digest :: string
  rcp_drafter_model :: string
  rcp_drafter_revision :: string
  rcp_context_tokens :: int
  rcp_parallel_requests :: int
  rcp_kv_cache :: string
  rcp_dense :: string
  rcp_drafter :: string
  rcp_vision :: bool
  rcp_memory_reserve :: string
  rcp_kv_pool :: string
  rcp_nccl_rails :: int
  rcp_readiness_timeout_sec :: int

record multi_device =
  md_world_size :: int
  md_tp_size :: int
  md_backend :: string
  md_gpus_per_node :: int
  md_rendezvous_port :: int
  md_service_port :: int
  md_model_revision :: string
  md_served_model :: string
  md_source_revision :: string
  md_requires_local_model :: bool
  md_requires_fabric :: bool
  md_common_args :: "string list"
  md_role_args :: "(string \<times> string list) list"
  md_launch_order :: "string list"
  md_patches :: "runtime_patch list"
  md_roles :: "multi_device_role list"
  md_capabilities :: "string list"
  md_driver :: string
  md_recipe_opt :: "md_recipe option"

record bkc_config =
  cfg_id :: string
  cfg_name :: string
  cfg_workload :: string
  cfg_model_id :: string
  cfg_image :: string
  cfg_port :: string
  cfg_extra_args :: string
  cfg_env :: gomap
  cfg_volumes :: gomap
  cfg_plugins :: "string list"
  cfg_runtime :: runtime_options
  cfg_description :: string
  cfg_source :: string
  cfg_notes :: "string list"
  cfg_multi :: "multi_device option"
  cfg_targets :: "string list"
  cfg_min_vram :: rat
  cfg_min_gpus :: int
  cfg_quant :: string
  cfg_arch :: string

definition workload_vllm :: string where "workload_vllm = ''vllm''"
definition workload_sglang :: string where "workload_sglang = ''sglang''"
definition workload_tensorfold :: string where "workload_tensorfold = ''tensorfold''"
definition workload_llamacpp :: string where "workload_llamacpp = ''llamacpp''"

definition role_head :: string where "role_head = ''head''"
definition role_worker :: string where "role_worker = ''worker''"

lemma role_head_neq_worker [simp]: "role_head \<noteq> role_worker" "role_worker \<noteq> role_head"
  by (simp_all add: role_head_def role_worker_def)

definition backend_torch :: string where "backend_torch = ''torch_distributed''"
definition backend_vllm :: string where "backend_vllm = ''vllm_multi_node''"
definition backend_tensorfold :: string where "backend_tensorfold = ''tensorfold_recipe''"
definition driver_containers :: string where "driver_containers = ''per_rank_containers''"
definition driver_head_recipe :: string where "driver_head_recipe = ''head_recipe''"
definition rank_placeholder :: string where "rank_placeholder = ''{ROLE_RANK}''"
definition head_addr_placeholder :: string where "head_addr_placeholder = ''{HEAD_FABRIC_ADDRESS}''"

definition head_role :: multi_device_role where
  "head_role = \<lparr>role_name = role_head, role_rank = 0, role_api = True\<rparr>"

definition worker_role :: multi_device_role where
  "worker_role = \<lparr>role_name = role_worker, role_rank = 1, role_api = False\<rparr>"

text \<open>Whether a configuration names a role, and the rank it gives the role.\<close>

definition role_names :: "multi_device \<Rightarrow> string list" where
  "role_names md = map role_name (md_roles md)"

text \<open>The runtime defaults shared by the multi-process recipes.\<close>

definition runtime_default :: runtime_options where
  "runtime_default = \<lparr>rt_ipc_mode = ''host'', rt_shm_size = ''16g'',
     rt_ulimits = [(''memlock'', ''-1''), (''stack'', ''67108864'')], rt_restart_policy = []\<rparr>"

definition hf_mount_default :: gomap where
  "hf_mount_default = [(''/var/lib/yokai/huggingface'', ''/root/.cache/huggingface'')]"

definition qwen38_dual_id :: string where "qwen38_dual_id = ''qwen3-8-flash-next-nvfp4-dual-gb10''"
definition glm53_nvfp4_id :: string where "glm53_nvfp4_id = ''glm-5-3-flash-nvfp4-dual-gb10''"
definition glm53_tensorfold_id :: string where
  "glm53_tensorfold_id = ''glm-5-3-flash-exl3-tensorfold-dual-gb10''"

end
