(* ===== verification/Go_Net.thy ===== *)
theory Go_Net
  imports Go_Prelude
begin

text \<open>
  IP addresses as \<^verbatim>\<open>net.ParseIP\<close> and \<^verbatim>\<open>net.IP\<close> treat them: an address is its 16
  bytes, IPv4 in the IPv4-mapped form. Two addresses have the same canonical text
  (\<^verbatim>\<open>IP.String\<close>) exactly when their 16 bytes agree, so the maps the sources key by
  that text are keyed here by the bytes.
\<close>

type_synonym ip = "nat list"

definition mapped_v4 :: "nat list \<Rightarrow> ip" where
  "mapped_v4 q = replicate 10 0 @ [255, 255] @ q"

definition to_v4 :: "ip \<Rightarrow> nat list option" where
  "to_v4 a = (if length a = 16 \<and> take 12 a = replicate 10 0 @ [255, 255] then Some (drop 12 a) else None)"

text \<open>One decimal field of an IPv4 address: 0 to 255, no leading zero.\<close>

definition v4_field :: "string \<Rightarrow> nat option" where
  "v4_field s =
     (if s = [] \<or> 3 < length s \<or> (1 < length s \<and> has_prefix s ''0'') then None
      else case digits_value 0 s of
        None \<Rightarrow> None
      | Some n \<Rightarrow> if n \<le> 255 then Some n else None)"

definition parse_v4 :: "string \<Rightarrow> nat list option" where
  "parse_v4 s =
     (let fs = map v4_field (split_char (CHR ''.'') s)
      in if length fs = 4 \<and> (\<forall>f \<in> set fs. f \<noteq> None) then Some (map the fs) else None)"

definition hex_value :: "char \<Rightarrow> nat option" where
  "hex_value c =
     (let n = of_char c :: nat in
      if 48 \<le> n \<and> n \<le> 57 then Some (n - 48)
      else if 97 \<le> n \<and> n \<le> 102 then Some (n - 87)
      else if 65 \<le> n \<and> n \<le> 70 then Some (n - 55) else None)"

text \<open>The longest run of hexadecimal digits, its value, and the rest.\<close>

fun hex_run :: "nat \<Rightarrow> nat \<Rightarrow> string \<Rightarrow> nat \<times> nat \<times> string" where
  "hex_run k acc [] = (k, acc, [])"
| "hex_run k acc (c # s) =
     (case hex_value c of None \<Rightarrow> (k, acc, c # s) | Some d \<Rightarrow> hex_run (Suc k) (16 * acc + d) s)"

text \<open>
  The group loop of the IPv6 parser. \<open>room\<close> is the number of 16-bit groups still free,
  \<open>gs\<close> the groups read, \<open>e\<close> the position of the ellipsis. The result is the
  groups, the ellipsis and the unread text.
\<close>

fun v6_groups :: "nat \<Rightarrow> nat list \<Rightarrow> nat option \<Rightarrow> string \<Rightarrow> (nat list \<times> nat option \<times> string) option" where
  "v6_groups 0 gs e s = Some (gs, e, s)"
| "v6_groups (Suc room) gs e s =
     (case hex_run 0 0 s of (k, v, r) \<Rightarrow>
       if k = 0 \<or> 4 < k then None
       else if r \<noteq> [] \<and> hd r = CHR ''.'' then
         (if (e = None \<and> length gs \<noteq> 6) \<or> 6 < length gs then None
          else case parse_v4 s of
            None \<Rightarrow> None
          | Some q \<Rightarrow> Some (gs @ [256 * q ! 0 + q ! 1, 256 * q ! 2 + q ! 3], e, []))
       else if r = [] then Some (gs @ [v], e, [])
       else if hd r \<noteq> CHR '':'' \<or> length r = 1 then None
       else if hd (tl r) = CHR '':'' then
         (if e \<noteq> None then None
          else if tl (tl r) = [] then Some (gs @ [v], Some (Suc (length gs)), [])
          else v6_groups room (gs @ [v]) (Some (Suc (length gs))) (tl (tl r)))
       else v6_groups room (gs @ [v]) e (tl r))"

definition parse_v6 :: "string \<Rightarrow> ip option" where
  "parse_v6 s =
     (let bytes = (\<lambda>gs. concat (map (\<lambda>g. [g div 256, g mod 256]) gs));
          finish = (\<lambda>gs e r.
            if r \<noteq> [] then None
            else if length gs < 8 then
              (case e of None \<Rightarrow> None
               | Some p \<Rightarrow> Some (bytes (take p gs @ replicate (8 - length gs) 0 @ drop p gs)))
            else if e \<noteq> None then None else Some (bytes gs))
      in if has_prefix s ''::'' then
           (if length s = 2 then Some (replicate 16 0)
            else case v6_groups 8 [] (Some 0) (drop 2 s) of
              None \<Rightarrow> None | Some (gs, e, r) \<Rightarrow> finish gs e r)
         else case v6_groups 8 [] None s of
              None \<Rightarrow> None | Some (gs, e, r) \<Rightarrow> finish gs e r)"

text \<open>\<^verbatim>\<open>net.ParseIP\<close>: the first dot or colon decides the family; a zone is refused.\<close>

definition parse_ip :: "string \<Rightarrow> ip option" where
  "parse_ip s =
     (if CHR ''%'' \<in> set s then None
      else case find (\<lambda>c. c = CHR ''.'' \<or> c = CHR '':'') s of
        None \<Rightarrow> None
      | Some c \<Rightarrow> if c = CHR ''.'' then map_option mapped_v4 (parse_v4 s) else parse_v6 s)"

definition ip_unspecified :: "ip \<Rightarrow> bool" where
  "ip_unspecified a \<longleftrightarrow> a = replicate 16 0 \<or> a = mapped_v4 [0, 0, 0, 0]"

definition ip_loopback :: "ip \<Rightarrow> bool" where
  "ip_loopback a =
     (case to_v4 a of Some q \<Rightarrow> q ! 0 = 127 | None \<Rightarrow> a = replicate 15 0 @ [1])"

definition ip_multicast :: "ip \<Rightarrow> bool" where
  "ip_multicast a =
     (case to_v4 a of Some q \<Rightarrow> 224 \<le> q ! 0 \<and> q ! 0 < 240 | None \<Rightarrow> length a = 16 \<and> a ! 0 = 255)"

definition ip_private :: "ip \<Rightarrow> bool" where
  "ip_private a =
     (case to_v4 a of
        Some q \<Rightarrow> q ! 0 = 10 \<or> (q ! 0 = 172 \<and> 16 \<le> q ! 1 \<and> q ! 1 < 32) \<or> (q ! 0 = 192 \<and> q ! 1 = 168)
      | None \<Rightarrow> length a = 16 \<and> 252 \<le> a ! 0 \<and> a ! 0 < 254)"

text \<open>A usable endpoint address: what every address check of the program asks for.\<close>

definition ip_usable :: "ip option \<Rightarrow> bool" where
  "ip_usable a = (case a of None \<Rightarrow> False
     | Some b \<Rightarrow> \<not> ip_unspecified b \<and> \<not> ip_loopback b \<and> \<not> ip_multicast b)"

lemma parse_v4_length: "parse_v4 s = Some q \<Longrightarrow> length q = 4"
  by (auto simp: parse_v4_def Let_def split: if_splits)

lemma v4_field_bound: "v4_field s = Some n \<Longrightarrow> n \<le> 255"
  by (auto simp: v4_field_def split: if_splits option.splits)

lemma parse_v4_bound: "parse_v4 s = Some q \<Longrightarrow> \<forall>b \<in> set q. b \<le> 255"
  by (auto simp: parse_v4_def Let_def split: if_splits)
     (metis option.sel v4_field_bound)

lemma to_v4_mapped [simp]: "length q = 4 \<Longrightarrow> to_v4 (mapped_v4 q) = Some q"
  by (simp add: to_v4_def mapped_v4_def)

lemma mapped_v4_inj: "mapped_v4 p = mapped_v4 q \<longleftrightarrow> p = q"
  by (simp add: mapped_v4_def)

end
