(* ===== verification/Bkc_Validate.thy ===== *)
theory Bkc_Validate
  imports Bkc_Types Go_Net
begin

text \<open>
  Validation of coordinated recipes, \<^verbatim>\<open>internal/bkc/multi_device.go\<close> and
  \<^verbatim>\<open>catalog_qwen38_dual.go\<close>: the pinned constants, the generic topology checks and
  the per-recipe provenance checks, in the order the code makes them. A validator returns
  the first failing check as an error, or nothing.
\<close>

section \<open>Pinned constants\<close>

definition tf_model :: string where
  "tf_model = ''Mia-AiLab/GLM-5.3-Flash-EXL3-4bpw-TensorFold''"

definition tf_model_revision :: string where
  "tf_model_revision = ''078455ffe6472f9a52fbc1139f58b9db2881b25c''"

definition tf_drafter :: string where
  "tf_drafter = ''incoai/GLM-5.3-Flash-DFlash2''"

definition tf_drafter_revision :: string where
  "tf_drafter_revision = ''bf582e4eacc1810f76656d1811693ff6c6737d2a''"

definition tf_repository :: string where
  "tf_repository = ''https://github.com/MiaAI-Lab/GLM-5.3-Flash-EXL3-2x-DGX-Sparks-TensorFold.git''"

definition tf_commit :: string where
  "tf_commit = ''cf28cc4f8038be322cdeda220c6f1c8ace8f27d1''"

definition tf_image_repository :: string where
  "tf_image_repository = ''ghcr.io/miaai-lab/glm-5.3-flash-exl3-2x-dgx-sparks-tensorfold''"

definition tf_image_tag :: string where
  "tf_image_tag = ''v0.6.0-5e01f1bb74d8''"

definition tf_image_digest :: string where
  "tf_image_digest = ''14f15591eae5d6a540f09218d3852068962fe5381371bbfefe0e9194cd834529''"

definition tf_served_model :: string where
  "tf_served_model = ''GLM-5.3-Flash-EXL3''"

definition glm53_model :: string where
  "glm53_model = ''LibertAIDAI/GLM-5.3-Flash-NVFP4''"

definition glm53_revision :: string where
  "glm53_revision = ''aa28e1f54130286c95fee10d0705c74ce8743734''"

definition glm53_image :: string where
  "glm53_image = ''lmsysorg/sglang@sha256:73f9294b78e38d8cc297bfed16daec8ac192b126a2d1fb9055e259a632c68f00''"

definition glm53_patch_label :: string where
  "glm53_patch_label = ''sglang-unbalanced-model-loading-timeout-3600-v1''"

definition glm53_patch_path :: string where
  "glm53_patch_path = ''/sgl-workspace/sglang/python/sglang/srt/model_executor/model_runner_components/load_model_utils.py''"

definition glm53_patch_old_line :: string where
  "glm53_patch_old_line = ''UNBALANCED_MODEL_LOADING_TIMEOUT_S = 480  # leave more time for post data processing''"

definition glm53_patch_new_line :: string where
  "glm53_patch_new_line = ''UNBALANCED_MODEL_LOADING_TIMEOUT_S = 3600  # align asymmetric cold loads with Yokai guards''"

definition glm53_patch_old_sha :: string where
  "glm53_patch_old_sha = ''f0193bfaab96053919e3a260f9ccb10e2137ad108cfae03816c867628f611e1f''"

definition glm53_patch_new_sha :: string where
  "glm53_patch_new_sha = ''fc3ae35cce5f712fd3681dc4bcef05157df6d232ac991ce60b78dae492784ff5''"

definition glm53_tile_label :: string where
  "glm53_tile_label = ''sglang-dsa-gb10-tile-tp2-v1''"

definition glm53_tile_path :: string where
  "glm53_tile_path = ''/sgl-workspace/sglang/python/sglang/kernels/ops/attention/dsa/tilelang_kernel.py''"

definition glm53_tile_old_line :: string where
  "glm53_tile_old_line = ''            num_heads, d_v, tail_dim, topk, sm_scale=sm_scale, return_lse=return_lse''"

definition glm53_tile_new_line :: string where
  "glm53_tile_new_line = (''            num_heads, d_v, tail_dim, topk, sm_scale=sm_scale, return_lse=return_lse, **({'' @ [CHR 0x27] @ ''block_I'' @ [CHR 0x27] @ '': 32, '' @ [CHR 0x27] @ ''num_stages'' @ [CHR 0x27] @ '': 1, '' @ [CHR 0x27] @ ''threads'' @ [CHR 0x27] @ '': 128} if tail_dim == 0 else {})'')"

definition glm53_tile_old_sha :: string where
  "glm53_tile_old_sha = ''526988aa5fd8fa61529f2d3cf245d1061e30982d2bd0d6e64ea2e51e31f30f7f''"

definition glm53_tile_new_sha :: string where
  "glm53_tile_new_sha = ''3150ec691843c84bb5db9ed5bf763c4da03842fde4666489e107bf7a9fcddd7b''"

definition qwen38_model :: string where
  "qwen38_model = ''nvidia/Qwen3.8-Flash-Next-NVFP4''"

definition qwen38_revision :: string where
  "qwen38_revision = ''fc694b54fb0174e0913e6adf86691ef85a4ead47''"

definition qwen38_source_revision :: string where
  "qwen38_source_revision = ''d2f54b78c0d2f9d74ac61aa56200e3c40fac3f22''"

definition qwen38_image_digest :: string where
  "qwen38_image_digest = ''3b0e188ffceb3d07e09c3cb5215433a0020eacf02d7f882ed3a8bfd15454477e''"

definition qwen38_served_model :: string where
  "qwen38_served_model = ''qwen3.8-flash-next''"

definition qwen38_hf_cache_dir :: string where
  "qwen38_hf_cache_dir = ''models--nvidia--Qwen3.8-Flash-Next-NVFP4''"

definition qwen38_container_root :: string where
  "qwen38_container_root = ''/models/yokai-qwen38-repository''"

definition qwen38_patch_capability :: string where
  "qwen38_patch_capability = ''container.runtime_patch.qwen38_flash_next.v1''"

definition qwen38_launch_capability :: string where
  "qwen38_launch_capability = ''deployments.qwen_launch_authorization.v1''"

definition fabric_capability :: string where
  "fabric_capability = ''deployments.fabric.v1''"

definition qwen38_patch_root :: string where
  "qwen38_patch_root = ''/usr/local/lib/python3.12/dist-packages/vllm''"

definition tf_image :: string where
  "tf_image = tf_image_repository @ ''@sha256:'' @ tf_image_digest"

definition qwen38_image :: string where
  "qwen38_image = ''vllm/vllm-openai@sha256:'' @ qwen38_image_digest"

definition qwen38_container_model :: string where
  "qwen38_container_model = qwen38_container_root @ ''/snapshots/'' @ qwen38_revision"

definition tf_service_port :: int where "tf_service_port = 8888"
definition tf_rendezvous_port :: int where "tf_rendezvous_port = 29551"
definition glm53_rendezvous_port :: int where "glm53_rendezvous_port = 25000"
definition glm53_service_port :: int where "glm53_service_port = 8000"
definition glm53_guard_seconds :: int where "glm53_guard_seconds = 3600"
definition qwen38_rendezvous_port :: int where "qwen38_rendezvous_port = 50000"
definition qwen38_service_port :: int where "qwen38_service_port = 8888"

definition base_capabilities :: "string list" where
  "base_capabilities =
     [''deployments.v1'', ''deployments.preflight.v1'', ''deployments.members.v1'',
      ''deployments.logs.tail.v1'', ''container.inventory.all'', ''container.labels'',
      ''container.network.host'', ''container.device_mounts'', ''container.cap_add'']"

definition tf_capabilities :: "string list" where
  "tf_capabilities =
     [''deployments.v1'', ''deployments.preflight.v1'', ''deployments.recipe.tensorfold.v1'',
      ''deployments.recipe.reservations.v1'', ''deployments.recipe.logs.v1'']"

definition qwen38_capabilities :: "string list" where
  "qwen38_capabilities =
     base_capabilities @ [fabric_capability, qwen38_patch_capability, qwen38_launch_capability]"

definition glm53_fabric_env :: gomap where
  "glm53_fabric_env =
     [(''GLOO_SOCKET_IFNAME'', ''enP2p1s0f0np0''), (''NCCL_SOCKET_IFNAME'', ''enP2p1s0f0np0''),
      (''NCCL_IB_HCA'', ''roceP2p1s0f0''), (''NCCL_IB_GID_INDEX'', ''3''),
      (''NCCL_IB_ADDR_FAMILY'', ''AF_INET''), (''NCCL_IB_ROCE_VERSION_NUM'', ''2''),
      (''NCCL_IB_DISABLE'', ''0''), (''NCCL_NET'', ''IB''), (''NCCL_CROSS_NIC'', ''1''),
      (''NCCL_CUMEM_ENABLE'', ''0''), (''NCCL_IGNORE_CPU_AFFINITY'', ''1''),
      (''NCCL_NVLS_ENABLE'', ''0''), (''NCCL_DEBUG'', ''INFO'')]"

definition glm53_patches :: "runtime_patch list" where
  "glm53_patches =
     [\<lparr>patch_label = glm53_patch_label, patch_source_path = glm53_patch_path,
       patch_original_line = glm53_patch_old_line, patch_replacement_line = glm53_patch_new_line,
       patch_original_sha = glm53_patch_old_sha, patch_patched_sha = glm53_patch_new_sha\<rparr>,
      \<lparr>patch_label = glm53_tile_label, patch_source_path = glm53_tile_path,
       patch_original_line = glm53_tile_old_line, patch_replacement_line = glm53_tile_new_line,
       patch_original_sha = glm53_tile_old_sha, patch_patched_sha = glm53_tile_new_sha\<rparr>]"

definition plain_patch :: "string \<Rightarrow> string \<Rightarrow> string \<Rightarrow> string \<Rightarrow> runtime_patch" where
  "plain_patch label path old new =
     \<lparr>patch_label = label, patch_source_path = path, patch_original_line = [],
      patch_replacement_line = [], patch_original_sha = old, patch_patched_sha = new\<rparr>"

definition qwen38_patches :: "runtime_patch list" where
  "qwen38_patches =
    [plain_patch ''qwen38-ple-nvfp4-fp8-v1'' (qwen38_patch_root @ ''/models/qwen3_8_flash_next/nvidia/ple_layer.py'')
       ''a71144c1d36e06f22a2da1b1ada900076597fe5e824a911e7ada86249a0993e7''
       ''fae9fd5242748e8cdb314445a25ad628a0ce335cf26f794623f8679497a65186'',
     plain_patch ''qwen38-modelopt-mxfp8-fp8-block-moe-v1'' (qwen38_patch_root @ ''/model_executor/layers/quantization/modelopt.py'')
       ''3f3ca743fd3c66d72be92b7544591a8632f1aa422b73bb50c83e8a3281196e7d''
       ''ed14a21a9331d78deddd78f3c953536c7b827dc35edbb1acabd0f0fe68c64802'',
     plain_patch ''qwen38-mtp-draft-vocab-tp2-v1'' (qwen38_patch_root @ ''/models/qwen3_8_flash_next/nvidia/mtp.py'')
       ''7735cee47d0d1e4776bebd30d907e4a62160409ce4ef2d65611559f8d58af431''
       ''30e3bad24d151f50f318b3836e6a6c5c1979c1b6ef7264a9fef21bdc162e01a2'',
     plain_patch ''qwen38-qsa-fp8-kv-ops-v1'' (qwen38_patch_root @ ''/models/qwen3_8_flash_next/nvidia/ops/qsa.py'')
       ''c4ffe3674cafa0ce2dabc39a39f0ddbb4b594bc358ad210ffce9d04383350c7f''
       ''0669d6334f58a624c89c15f3e46c90f28e59b0b913507101dec1c5765e3c3b12'',
     plain_patch ''qwen38-qsa-fp8-kv-impl-v1'' (qwen38_patch_root @ ''/models/qwen3_8_flash_next/nvidia/qsa.py'')
       ''748addc85efaa8f7df940d1245bc900192f92e1f17af8fa774625758600751cb''
       ''ee5de40742ad48a6064ea24b99a285ff69c47d57bbb170f57c4eef71567a1df3'',
     plain_patch ''qwen38-mtp-config-alias-v1'' (qwen38_container_model @ ''/config.json'')
       ''deef67a61f3311faf051b23dc4192f442c7fee4f9cd2f38cbcbe4da55c763a80''
       ''b3ff72b8164d31f902106ad8a54e06e41cf0a8136cc8b75d02781b8a6c30b322'',
     plain_patch ''qwen38-mtp-legacy-config-alias-v1'' (qwen38_container_model @ ''/hf_quant_config.json'')
       ''331ad11d57c8bc374554579977198084e0d4d0933d5b3558f125f6f670aba0e8''
       ''dd8727422cafbb0257d11a7163442bda46421f6e67c78eb9acd58669cb6eb5f8'']"

definition qwen38_common_args :: "string list" where
  "qwen38_common_args =
    [''--served-model-name'',
     qwen38_served_model,
     ''--tensor-parallel-size'',
     ''2'',
     ''--gpu-memory-utilization'',
     ''0.835'',
     ''--max-num-seqs'',
     ''8'',
     ''--max-num-batched-tokens'',
     ''8192'',
     ''--max-model-len'',
     ''262144'',
     ''--kv-cache-dtype'',
     ''fp8'',
     ''--mamba-ssm-cache-dtype'',
     ''bfloat16'',
     ''--load-format'',
     ''safetensors'',
     ''--safetensors-load-strategy'',
     ''lazy'',
     ''--enable-chunked-prefill'',
     ''--reasoning-parser'',
     ''qwen3'',
     ''--enable-auto-tool-choice'',
     ''--tool-call-parser'',
     ''qwen3_coder'',
     ''--distributed-executor-backend'',
     ''mp'',
     ''--mm-encoder-tp-mode'',
     ''data'',
     ''--nnodes'',
     ''2'',
     ''--master-addr'',
     head_addr_placeholder,
     ''--master-port'',
     ''50000'',
     ''--enable-expert-parallel'',
     ''--all2all-backend'',
     ''allgather_reducescatter'',
     ''--speculative-config'',
     (''{'' @ [CHR 0x22] @ ''method'' @ [CHR 0x22] @ '':'' @ [CHR 0x22] @ ''mtp'' @ [CHR 0x22] @ '','' @ [CHR 0x22] @ ''num_speculative_tokens'' @ [CHR 0x22] @ '':3,'' @ [CHR 0x22] @ ''use_local_argmax_reduction'' @ [CHR 0x22] @ '':true}''),
     ''--compilation-config'',
     (''{'' @ [CHR 0x22] @ ''mode'' @ [CHR 0x22] @ '':0,'' @ [CHR 0x22] @ ''cudagraph_mode'' @ [CHR 0x22] @ '':'' @ [CHR 0x22] @ ''FULL_DECODE_ONLY'' @ [CHR 0x22] @ ''}''),
     ''--hf-overrides'',
     (''{'' @ [CHR 0x22] @ ''text_config'' @ [CHR 0x22] @ '':{'' @ [CHR 0x22] @ ''ple_embedding_dtype'' @ [CHR 0x22] @ '':'' @ [CHR 0x22] @ ''float8_e4m3fn'' @ [CHR 0x22] @ ''}}''),
     ''--revision'',
     qwen38_revision]"

definition qwen38_role_args :: "(string \<times> string list) list" where
  "qwen38_role_args =
     [(role_head, [''--node-rank'', ''0'', ''--host'', ''{SERVICE_ADDRESS}'', ''--port'', ''8888'']),
      (role_worker, [''--node-rank'', ''1'', ''--headless''])]"

definition qwen38_static_env :: gomap where
  "qwen38_static_env =
     [(''NCCL_IB_DISABLE'', ''0''), (''NCCL_IB_AUTO_DETECT'', ''0''), (''NCCL_DEBUG'', ''WARN''),
      (''HF_HUB_OFFLINE'', ''1''), (''TRANSFORMERS_OFFLINE'', ''1''),
      (''HF_HOME'', ''/root/.cache/huggingface'')]"

text \<open>\<^verbatim>\<open>RuntimePatchSetLabel\<close>.\<close>

definition runtime_patch_set_label :: "runtime_patch list \<Rightarrow> string" where
  "runtime_patch_set_label ps = join_with ''+'' (map patch_label ps)"

section \<open>Comparisons and argument scanning\<close>

text \<open>\<^verbatim>\<open>equalStrings\<close>, \<^verbatim>\<open>equalRuntimePatches\<close>: same length, same elements in order.\<close>

definition equal_lists :: "'a list \<Rightarrow> 'a list \<Rightarrow> bool" where
  "equal_lists left right \<longleftrightarrow> length left = length right \<and> list_all2 (=) left right"

lemma equal_lists_eq [simp]: "equal_lists left right \<longleftrightarrow> left = right"
  by (auto simp: equal_lists_def list.rel_eq)

text \<open>\<^verbatim>\<open>equalStringSliceMaps\<close> and \<^verbatim>\<open>equalStringMaps\<close>: a missing key reads as empty.\<close>

definition equal_slice_maps :: "(string \<times> string list) list \<Rightarrow> (string \<times> string list) list \<Rightarrow> bool" where
  "equal_slice_maps left right \<longleftrightarrow>
     length left = length right \<and>
     list_all (\<lambda>(k, vs). equal_lists vs (case map_of right k of None \<Rightarrow> [] | Some ws \<Rightarrow> ws)) left"

definition equal_string_maps :: "gomap \<Rightarrow> gomap \<Rightarrow> bool" where
  "equal_string_maps left right \<longleftrightarrow>
     length left = length right \<and> list_all (\<lambda>(k, v). map_get right k = v) left"

text \<open>\<^verbatim>\<open>sameRoleSet\<close>: no repetition on the left, and every right name seen.\<close>

definition same_role_set :: "string list \<Rightarrow> string list \<Rightarrow> bool" where
  "same_role_set left right \<longleftrightarrow>
     length left = length right \<and> distinct left \<and> list_all (\<lambda>r. r \<in> set left) right"

text \<open>\<^verbatim>\<open>flagValueCount\<close>: the last value given to a flag and how often it is given.\<close>

fun flag_scan :: "string \<Rightarrow> string \<Rightarrow> nat \<Rightarrow> string list \<Rightarrow> string \<times> nat" where
  "flag_scan flag v n [] = (v, n)"
| "flag_scan flag v n [t] =
     (if t = flag then (v, Suc n)
      else if has_prefix t (flag @ ''='') then (trim_prefix t (flag @ ''=''), Suc n) else (v, n))"
| "flag_scan flag v n (t # u # ts) =
     (if t = flag then flag_scan flag u (Suc n) ts
      else if has_prefix t (flag @ ''='')
        then flag_scan flag (trim_prefix t (flag @ ''='')) (Suc n) (u # ts)
      else flag_scan flag v n (u # ts))"

definition flag_value_count :: "string \<Rightarrow> string \<Rightarrow> string \<times> nat" where
  "flag_value_count args flag = flag_scan flag [] 0 (str_fields args)"

text \<open>\<^verbatim>\<open>containsArgSequence\<close>: the required tokens occur consecutively.\<close>

fun contains_tokens :: "string list \<Rightarrow> string list \<Rightarrow> bool" where
  "contains_tokens [] want = (want = [])"
| "contains_tokens (t # ts) want =
     (take (length want) (t # ts) = want \<or> contains_tokens ts want)"

definition contains_arg_sequence :: "string \<Rightarrow> string \<Rightarrow> bool" where
  "contains_arg_sequence args required = contains_tokens (str_fields args) (str_fields required)"

lemma contains_tokens_iff: "contains_tokens ts want \<longleftrightarrow> (\<exists>a b. ts = a @ want @ b)"
proof (induction ts)
  case (Cons t ts)
  have here: "take (length want) (t # ts) = want \<longleftrightarrow> (\<exists>b. t # ts = want @ b)"
    by (metis append_eq_conv_conj append_take_drop_id)
  have "(\<exists>a b. t # ts = a @ want @ b) \<longleftrightarrow> (\<exists>b. t # ts = want @ b) \<or> (\<exists>a b. ts = a @ want @ b)"
    (is "?L \<longleftrightarrow> ?R")
  proof
    assume ?L
    then obtain a b where "t # ts = a @ want @ b" by blast
    then show ?R by (cases a) auto
  next
    assume ?R
    then show ?L
    proof
      assume "\<exists>b. t # ts = want @ b"
      then obtain b where "t # ts = [] @ want @ b" by auto
      then show ?L by blast
    next
      assume "\<exists>a b. ts = a @ want @ b"
      then obtain a b where "t # ts = (t # a) @ want @ b" by auto
      then show ?L by blast
    qed
  qed
  with here Cons.IH show ?case by simp
qed auto

text \<open>\<^verbatim>\<open>strings.Trim\<close> with a set of ASCII characters.\<close>

definition trim_chars :: "string \<Rightarrow> string \<Rightarrow> string" where
  "trim_chars cs s =
     rev (dropWhile (\<lambda>c. c \<in> set cs) (rev (dropWhile (\<lambda>c. c \<in> set cs) s)))"

section \<open>The validators\<close>

definition bkc_error :: "bkc_config \<Rightarrow> string \<Rightarrow> gerror option" where
  "bkc_error cfg msg = Some (Errorf (''bkc '' @ cfg_id cfg @ '' '' @ msg))"

definition validate_tensorfold_recipe :: "bkc_config \<Rightarrow> multi_device \<Rightarrow> gerror option" where
  "validate_tensorfold_recipe cfg md =
    (if cfg_id cfg \<noteq> glm53_tensorfold_id \<or> cfg_model_id cfg \<noteq> tf_model \<or> cfg_image cfg \<noteq> tf_image
       then bkc_error cfg ''immutable TensorFold provenance mismatch''
     else if md_driver md \<noteq> driver_head_recipe \<or> md_backend md \<noteq> backend_tensorfold
       then bkc_error cfg ''requires the TensorFold head-recipe driver''
     else if md_world_size md \<noteq> 2 \<or> md_tp_size md \<noteq> 2 \<or> md_gpus_per_node md \<noteq> 1
       then bkc_error cfg ''requires two one-GPU nodes with TP=2''
     else if md_rendezvous_port md \<noteq> tf_rendezvous_port \<or> md_service_port md \<noteq> tf_service_port \<or>
             cfg_port cfg \<noteq> ''8888''
       then bkc_error cfg ''TensorFold ports drifted''
     else if md_model_revision md \<noteq> tf_model_revision \<or> md_served_model md \<noteq> tf_served_model \<or>
             length (md_patches md) \<noteq> 0
       then bkc_error cfg ''TensorFold model provenance drifted''
     else if \<not> equal_lists (md_launch_order md) [role_worker, role_head]
       then bkc_error cfg ''must reserve the worker before launching the head recipe''
     else if md_source_revision md \<noteq> [] \<or> md_requires_local_model md \<or> md_requires_fabric md \<or>
             length (md_common_args md) \<noteq> 0 \<or> length (md_role_args md) \<noteq> 0
       then bkc_error cfg ''must leave execution inputs to the pinned upstream recipe''
     else if md_roles md \<noteq> [head_role, worker_role]
       then bkc_error cfg ''must define ordered head and worker roles''
     else if \<not> equal_lists (md_capabilities md) tf_capabilities
       then bkc_error cfg ''TensorFold capabilities mismatch''
     else (case md_recipe_opt md of
        None \<Rightarrow> bkc_error cfg ''immutable TensorFold recipe source mismatch''
      | Some r \<Rightarrow>
          if rcp_repository r \<noteq> tf_repository \<or> rcp_commit r \<noteq> tf_commit \<or>
             rcp_image_tag r \<noteq> tf_image_tag \<or> rcp_image_digest r \<noteq> tf_image_digest
            then bkc_error cfg ''immutable TensorFold recipe source mismatch''
          else if rcp_drafter_model r \<noteq> tf_drafter \<or> rcp_drafter_revision r \<noteq> tf_drafter_revision
            then bkc_error cfg ''immutable DFlash2 provenance mismatch''
          else if rcp_context_tokens r \<noteq> 1048576 \<or> rcp_parallel_requests r \<noteq> 4 \<or>
                  rcp_kv_cache r \<noteq> ''fp8'' \<or> rcp_dense r \<noteq> ''q4'' \<or> rcp_drafter r \<noteq> ''dflash2'' \<or>
                  \<not> rcp_vision r
            then bkc_error cfg ''TensorFold serving policy drifted''
          else if rcp_memory_reserve r \<noteq> ''14.5'' \<or> rcp_kv_pool r \<noteq> ''12.5'' \<or>
                  rcp_nccl_rails r \<noteq> 1 \<or> rcp_readiness_timeout_sec r \<noteq> 14400
            then bkc_error cfg ''TensorFold memory, rail, or readiness policy drifted''
          else if trim_space (cfg_extra_args cfg) \<noteq> [] \<or> length (cfg_env cfg) \<noteq> 0 \<or>
                  length (cfg_volumes cfg) \<noteq> 0
            then bkc_error cfg ''must leave execution inputs to the pinned upstream recipe''
          else None))"

definition embeds_address :: "multi_device \<Rightarrow> bool" where
  "embeds_address md =
     (let role_values = (\<lambda>r. case map_of (md_role_args md) r of None \<Rightarrow> [] | Some vs \<Rightarrow> vs)
      in list_ex (\<lambda>v. list_ex (\<lambda>t. parse_ip (trim_chars ''[],:;()'' t) \<noteq> None) (str_fields v))
           (md_common_args md @ role_values role_head @ role_values role_worker))"

definition qwen38_source :: string where
  "qwen38_source =
     ''https://github.com/MiaAI-Lab/Qwen3.8-Flash-Next-Dual-DGX-Sparks/tree/'' @ qwen38_source_revision"

definition validate_qwen38_recipe :: "bkc_config \<Rightarrow> multi_device \<Rightarrow> gerror option" where
  "validate_qwen38_recipe cfg md =
    (if cfg_workload cfg \<noteq> workload_vllm \<or> md_backend md \<noteq> backend_vllm \<or>
        cfg_model_id cfg \<noteq> qwen38_model \<or> cfg_image cfg \<noteq> qwen38_image \<or>
        cfg_source cfg \<noteq> qwen38_source \<or> md_model_revision md \<noteq> qwen38_revision \<or>
        md_source_revision md \<noteq> qwen38_source_revision
       then bkc_error cfg ''immutable provenance mismatch''
     else if \<not> equal_lists (cfg_targets cfg) [''gb10''] \<or> cfg_min_vram cfg \<noteq> 100 \<or>
             cfg_min_gpus cfg \<noteq> 1 \<or> cfg_quant cfg \<noteq> ''NVFP4'' \<or> cfg_arch cfg \<noteq> ''blackwell''
       then bkc_error cfg ''hardware contract mismatch''
     else if cfg_port cfg \<noteq> ''8888'' \<or> md_service_port md \<noteq> qwen38_service_port \<or>
             md_rendezvous_port md \<noteq> qwen38_rendezvous_port \<or>
             md_served_model md \<noteq> qwen38_served_model \<or> \<not> md_requires_local_model md \<or>
             \<not> md_requires_fabric md
       then bkc_error cfg ''topology or staging contract mismatch''
     else if \<not> equal_lists (md_patches md) qwen38_patches \<or>
             \<not> equal_lists (md_common_args md) qwen38_common_args \<or>
             \<not> equal_slice_maps (md_role_args md) qwen38_role_args \<or>
             \<not> equal_lists (md_launch_order md) [role_worker, role_head]
       then bkc_error cfg ''argv, launch order, or patch provenance mismatch''
     else if \<not> equal_lists (md_capabilities md) qwen38_capabilities \<or>
             \<not> equal_string_maps (cfg_env cfg) qwen38_static_env \<or> length (cfg_volumes cfg) \<noteq> 0 \<or>
             cfg_extra_args cfg \<noteq> [] \<or> rt_ipc_mode (cfg_runtime cfg) \<noteq> ''host''
       then bkc_error cfg ''capability or environment mismatch''
     else if embeds_address md
       then bkc_error cfg ''embeds a host-specific address''
     else None)"

text \<open>The flags the GLM-5.3 NVFP4 recipe must carry, in the order they are checked.\<close>

definition glm53_required_flags :: "string list" where
  "glm53_required_flags =
     [''--trust-remote-code'', ''--tp-size 2'', ''--nnodes 2'',
      ''--node-rank '' @ rank_placeholder,
      ''--dist-init-addr '' @ head_addr_placeholder @ '':25000'',
      ''--dist-timeout '' @ itoa glm53_guard_seconds,
      ''--watchdog-timeout '' @ itoa glm53_guard_seconds,
      ''--attention-backend dsa'', ''--dsa-prefill-backend tilelang'',
      ''--dsa-decode-backend tilelang'', ''--moe-runner-backend flashinfer_cutlass'',
      ''--kv-cache-dtype bfloat16'', ''--disable-shared-experts-fusion'',
      ''--reasoning-parser glm45'', ''--tool-call-parser glm47'', ''--mem-fraction-static 0.84'',
      ''--context-length 65536'', ''--max-running-requests 2'', ''--log-level warning'',
      ''--enable-metrics'', ''--revision '' @ glm53_revision]"

definition validate_glm53_recipe :: "bkc_config \<Rightarrow> multi_device \<Rightarrow> gerror option" where
  "validate_glm53_recipe cfg md =
    (if cfg_model_id cfg \<noteq> glm53_model \<or> cfg_image cfg \<noteq> glm53_image \<or>
        md_model_revision md \<noteq> glm53_revision
       then bkc_error cfg ''immutable provenance mismatch''
     else if \<not> equal_lists (md_patches md) glm53_patches
       then bkc_error cfg ''ordered runtime patch provenance mismatch''
     else if \<not> equal_lists (md_capabilities md) base_capabilities
       then bkc_error cfg ''required capabilities mismatch''
     else if md_service_port md \<noteq> glm53_service_port
       then bkc_error cfg (''must preserve the rank-0 API/metrics port '' @ itoa glm53_service_port)
     else if str_contains (cfg_extra_args cfg) ''--host'' \<or> str_contains (cfg_extra_args cfg) ''--port''
       then bkc_error cfg ''service bind must come from the explicit head binding''
     else (case find (\<lambda>f. \<not> contains_arg_sequence (cfg_extra_args cfg) f) glm53_required_flags of
        Some f \<Rightarrow> bkc_error cfg (''missing pinned flag '' @ go_quote f)
      | None \<Rightarrow>
          if flag_value_count (cfg_extra_args cfg) ''--revision'' \<noteq> (glm53_revision, 1)
            then bkc_error cfg ''must contain exactly one pinned model revision''
          else if flag_value_count (cfg_extra_args cfg) ''--tp-size'' \<noteq> (''2'', 1)
            then bkc_error cfg ''must contain exactly one TP=2 setting''
          else if flag_value_count (cfg_extra_args cfg) ''--nnodes'' \<noteq> (''2'', 1)
            then bkc_error cfg ''must contain exactly one nnodes=2 setting''
          else if length (cfg_env cfg) \<noteq> length glm53_fabric_env
            then bkc_error cfg ''fabric environment mismatch''
          else (case find (\<lambda>(k, v). map_get (cfg_env cfg) k \<noteq> v) glm53_fabric_env of
             Some (k, v) \<Rightarrow> bkc_error cfg (''fabric environment '' @ k @ '' mismatch'')
           | None \<Rightarrow>
               if str_contains (to_lower (cfg_extra_args cfg)) ''mtp'' \<or>
                  str_contains (to_lower (cfg_extra_args cfg)) ''--speculative''
                 then bkc_error cfg ''must not enable MTP or speculative decoding''
               else None)))"

text \<open>\<^verbatim>\<open>ValidateMultiDeviceRecipe\<close>.\<close>

definition validate_multi_device_recipe :: "bkc_config \<Rightarrow> gerror option" where
  "validate_multi_device_recipe cfg =
    (case cfg_multi cfg of
       None \<Rightarrow> bkc_error cfg ''is not a multi-device recipe''
     | Some md \<Rightarrow>
         if cfg_workload cfg = workload_tensorfold then validate_tensorfold_recipe cfg md
         else if (cfg_workload cfg \<noteq> workload_sglang \<or> md_backend md \<noteq> backend_torch) \<and>
                 (cfg_workload cfg \<noteq> workload_vllm \<or> md_backend md \<noteq> backend_vllm)
           then bkc_error cfg ''has an unsupported coordinated runtime''
         else if md_world_size md \<noteq> 2 \<or> md_tp_size md \<noteq> 2 \<or> md_gpus_per_node md \<noteq> 1
           then bkc_error cfg ''requires two one-GPU nodes with TP=2''
         else if md_rendezvous_port md < 1 \<or> md_rendezvous_port md > 65535
           then bkc_error cfg ''has invalid rendezvous port''
         else if md_service_port md < 1 \<or> md_service_port md > 65535 \<or>
                 cfg_port cfg \<noteq> itoa (md_service_port md)
           then bkc_error cfg ''has inconsistent service port''
         else if md_roles md \<noteq> [head_role, worker_role]
           then bkc_error cfg ''must define ordered head and worker roles''
         else if length (md_launch_order md) \<noteq> 0 \<and>
                 \<not> same_role_set (md_launch_order md) [role_head, role_worker]
           then bkc_error cfg ''launch order must contain head and worker exactly once''
         else if cfg_id cfg = qwen38_dual_id then validate_qwen38_recipe cfg md
         else if cfg_id cfg \<noteq> glm53_nvfp4_id then
           (if length (md_patches md) \<noteq> 0
              then bkc_error cfg ''must not declare the GLM runtime patches''
            else None)
         else validate_glm53_recipe cfg md)"

end
