(* ===== verification/Bkc_Recipes.thy ===== *)
theory Bkc_Recipes
  imports Bkc_Validate
begin

text \<open>
  The three coordinated recipes the catalog ships (\<^verbatim>\<open>catalog_glm.go\<close>,
  \<^verbatim>\<open>catalog_qwen38_dual.go\<close>), what a validated recipe guarantees to the deployment
  engine, and the proof that each shipped recipe passes its own validator.
\<close>

section \<open>The shipped recipes\<close>

definition tf_recipe :: md_recipe where
  "tf_recipe =
     \<lparr>rcp_repository = tf_repository, rcp_commit = tf_commit, rcp_image_tag = tf_image_tag,
      rcp_image_digest = tf_image_digest, rcp_drafter_model = tf_drafter,
      rcp_drafter_revision = tf_drafter_revision, rcp_context_tokens = 1048576,
      rcp_parallel_requests = 4, rcp_kv_cache = ''fp8'', rcp_dense = ''q4'',
      rcp_drafter = ''dflash2'', rcp_vision = True, rcp_memory_reserve = ''14.5'',
      rcp_kv_pool = ''12.5'', rcp_nccl_rails = 1, rcp_readiness_timeout_sec = 14400\<rparr>"

definition tf_multi :: multi_device where
  "tf_multi =
     \<lparr>md_world_size = 2, md_tp_size = 2, md_backend = backend_tensorfold, md_gpus_per_node = 1,
      md_rendezvous_port = tf_rendezvous_port, md_service_port = tf_service_port,
      md_model_revision = tf_model_revision, md_served_model = tf_served_model,
      md_source_revision = [], md_requires_local_model = False, md_requires_fabric = False,
      md_common_args = [], md_role_args = [], md_launch_order = [role_worker, role_head],
      md_patches = [], md_roles = [head_role, worker_role], md_capabilities = tf_capabilities,
      md_driver = driver_head_recipe, md_recipe_opt = Some tf_recipe\<rparr>"

definition glm53_tensorfold_cfg :: bkc_config where
  "glm53_tensorfold_cfg =
     \<lparr>cfg_id = glm53_tensorfold_id, cfg_name = ''GLM-5.3-Flash EXL3 4bpw (dual GB10 TensorFold)'',
      cfg_workload = workload_tensorfold, cfg_model_id = tf_model, cfg_image = tf_image,
      cfg_port = ''8888'', cfg_extra_args = [], cfg_env = [], cfg_volumes = [], cfg_plugins = [],
      cfg_runtime = runtime_zero,
      cfg_description = ''Native two-Spark TensorFold deployment driven by MiaAI-Lab'' @ [CHR 0x27] @
        ''s immutable upstream recipe from the head node.'',
      cfg_source = tf_repository @ ''@'' @ tf_commit,
      cfg_notes = [''The head executes the pinned upstream prepare/start/stop scripts; start.sh orchestrates both ranks over passwordless SSH and must not be run independently on each member.'',
      ''DFlash2 is licensed CC BY-NC-ND 4.0 for non-commercial use only; a commercial deployment must use a separately reviewed MTP recipe.'',
      ''The API binds only the explicit private-LAN head address on port 8888; wildcard and loopback service bindings are rejected.'',
      ''This two-node policy uses one addressed ConnectX-7 rail, full 1,048,576-token context, four concurrent requests, FP8 KV, q4 dense weights, vision, a 14.5 GiB host reserve, and a 12.5 GiB KV pool.''],
      cfg_multi = Some tf_multi, cfg_targets = [''gb10''], cfg_min_vram = 100, cfg_min_gpus = 1,
      cfg_quant = ''EXL3 4bpw'', cfg_arch = ''blackwell''\<rparr>"

definition glm53_extra_args :: string where
  "glm53_extra_args =
     join_with '' ''
      [''sglang serve'', ''--trust-remote-code'', ''--tp-size 2'', ''--nnodes 2'',
       ''--node-rank '' @ rank_placeholder,
       ''--dist-init-addr '' @ head_addr_placeholder @ '':25000'',
       ''--dist-timeout '' @ itoa glm53_guard_seconds,
       ''--watchdog-timeout '' @ itoa glm53_guard_seconds,
       ''--attention-backend dsa'', ''--dsa-prefill-backend tilelang'',
       ''--dsa-decode-backend tilelang'', ''--moe-runner-backend flashinfer_cutlass'',
       ''--kv-cache-dtype bfloat16'', ''--disable-shared-experts-fusion'',
       ''--reasoning-parser glm45'', ''--tool-call-parser glm47'', ''--mem-fraction-static 0.84'',
       ''--context-length 65536'', ''--max-running-requests 2'', ''--log-level warning'',
       ''--enable-metrics'', ''--revision '' @ glm53_revision]"

definition glm53_multi :: multi_device where
  "glm53_multi =
     \<lparr>md_world_size = 2, md_tp_size = 2, md_backend = backend_torch, md_gpus_per_node = 1,
      md_rendezvous_port = glm53_rendezvous_port, md_service_port = glm53_service_port,
      md_model_revision = glm53_revision, md_served_model = [],
      md_source_revision = [], md_requires_local_model = False, md_requires_fabric = False,
      md_common_args = [], md_role_args = [], md_launch_order = [],
      md_patches = glm53_patches, md_roles = [head_role, worker_role],
      md_capabilities = base_capabilities, md_driver = [], md_recipe_opt = None\<rparr>"

definition glm53_nvfp4_cfg :: bkc_config where
  "glm53_nvfp4_cfg =
     \<lparr>cfg_id = glm53_nvfp4_id, cfg_name = ''GLM-5.3-Flash NVFP4 (dual GB10 SGLang TP=2)'',
      cfg_workload = workload_sglang, cfg_model_id = glm53_model, cfg_image = glm53_image,
      cfg_port = ''8000'', cfg_extra_args = glm53_extra_args, cfg_env = glm53_fabric_env,
      cfg_volumes = hf_mount_default, cfg_plugins = [], cfg_runtime = runtime_default,
      cfg_description = ''Pinned two-node SGLang torch-distributed canary for one GB10 GPU per DGX Spark.'',
      cfg_source = ''Yokai BKC '' @ glm53_nvfp4_id,
      cfg_notes = [''Requires explicit head and worker device bindings with fabric IP addresses.'',
      ''Uses host networking and TCP rendezvous on port 25000; rank 0 binds the explicitly supplied client address on port 8000.'',
      ''Pins one-hour SGLang and torch-distributed guards so asymmetric 181 GiB cold loads do not trip shorter engine defaults.'',
      ''Carries exact loader-timeout and CUDA DSA TileLang source patches that are not both present in the pinned image.'',
      ''The 32/1/128 DSA tile and its 100352-byte shared-memory budget are correctness-bound to this two-node TP=2 topology.'',
      ''The one-hour SGLang watchdog is a supervised-canary setting; retune it after cold-load behavior is proven.'',
      ''No MTP is enabled for the first canary.''],
      cfg_multi = Some glm53_multi, cfg_targets = [''gb10''], cfg_min_vram = 100, cfg_min_gpus = 1,
      cfg_quant = ''NVFP4'', cfg_arch = ''blackwell''\<rparr>"

definition qwen38_multi :: multi_device where
  "qwen38_multi =
     \<lparr>md_world_size = 2, md_tp_size = 2, md_backend = backend_vllm, md_gpus_per_node = 1,
      md_rendezvous_port = qwen38_rendezvous_port, md_service_port = qwen38_service_port,
      md_model_revision = qwen38_revision, md_served_model = qwen38_served_model,
      md_source_revision = qwen38_source_revision, md_requires_local_model = True,
      md_requires_fabric = True, md_common_args = qwen38_common_args,
      md_role_args = qwen38_role_args, md_launch_order = [role_worker, role_head],
      md_patches = qwen38_patches, md_roles = [head_role, worker_role],
      md_capabilities = qwen38_capabilities, md_driver = [], md_recipe_opt = None\<rparr>"

definition qwen38_cfg :: bkc_config where
  "qwen38_cfg =
     \<lparr>cfg_id = qwen38_dual_id,
      cfg_name = ''Qwen3.8 Flash Next NVFP4 (dual DGX Spark vLLM TP2+EP+MTP3)'',
      cfg_workload = workload_vllm, cfg_model_id = qwen38_model, cfg_image = qwen38_image,
      cfg_port = ''8888'', cfg_extra_args = [], cfg_env = qwen38_static_env, cfg_volumes = [],
      cfg_plugins = [], cfg_runtime = runtime_default,
      cfg_description = ''Pinned two-node vLLM deployment for one GB10 GPU per DGX Spark with TP2, expert parallelism, and three-token MTP speculation.'',
      cfg_source = qwen38_source,
      cfg_notes = [''Requires the exact standard Hugging Face cache snapshot revision pre-staged at the same absolute path on both nodes.'',
      ''Requires explicit per-node fabric IP, interface, HCA, and GID index bindings; no host network identity is stored in the catalog.'',
      ''Launches rank 1 headless before rank 0 and requires native vLLM metrics plus an exact semantic API response before promotion.'',
      ''Applies only the source- and hash-pinned upstream PLE, MXFP8, MTP, and FP8-KV adaptations without a shell.''],
      cfg_multi = Some qwen38_multi, cfg_targets = [''gb10''], cfg_min_vram = 100, cfg_min_gpus = 1,
      cfg_quant = ''NVFP4'', cfg_arch = ''blackwell''\<rparr>"

section \<open>Evaluation of the shipped argument strings\<close>

lemma itoa_3600: "itoa glm53_guard_seconds = ''3600''"
  by (simp add: itoa_def glm53_guard_seconds_def nat_text.simps char_of_def bit_Suc_0_iff)

lemmas fields_eval =
  str_fields_def fields_from.simps(1) char.sel simp_thms list.map concat.simps append.simps
  rev.simps if_True if_False list.simps(3) not_True_eq_False not_False_eq_True

lemma glm53_tokens:
  "str_fields glm53_extra_args =
     [''sglang'', ''serve'', ''--trust-remote-code'', ''--tp-size'', ''2'', ''--nnodes'', ''2'',
      ''--node-rank'', rank_placeholder, ''--dist-init-addr'', head_addr_placeholder @ '':25000'',
      ''--dist-timeout'', ''3600'', ''--watchdog-timeout'', ''3600'', ''--attention-backend'', ''dsa'',
      ''--dsa-prefill-backend'', ''tilelang'', ''--dsa-decode-backend'', ''tilelang'',
      ''--moe-runner-backend'', ''flashinfer_cutlass'', ''--kv-cache-dtype'', ''bfloat16'',
      ''--disable-shared-experts-fusion'', ''--reasoning-parser'', ''glm45'', ''--tool-call-parser'',
      ''glm47'', ''--mem-fraction-static'', ''0.84'', ''--context-length'', ''65536'',
      ''--max-running-requests'', ''2'', ''--log-level'', ''warning'', ''--enable-metrics'',
      ''--revision'', glm53_revision]"
  unfolding glm53_extra_args_def str_fields_join itoa_3600 rank_placeholder_def
    head_addr_placeholder_def glm53_revision_def
  by (simp only: go_str fields_eval)


section \<open>What a validated recipe guarantees\<close>

text \<open>
  The deployment engine indexes members by role and rank. This is what it relies on: two
  roles, head of rank 0 that serves the API and worker of rank 1, and a launch order that
  is either empty (the engine then uses rank order) or names both roles once.
\<close>

definition validated_topology :: "multi_device \<Rightarrow> bool" where
  "validated_topology md \<longleftrightarrow>
     md_world_size md = 2 \<and> md_tp_size md = 2 \<and> md_gpus_per_node md = 1 \<and>
     md_roles md = [head_role, worker_role] \<and>
     0 < md_rendezvous_port md \<and> md_rendezvous_port md < 65536 \<and>
     0 < md_service_port md \<and> md_service_port md < 65536 \<and>
     (md_launch_order md = [] \<or>
      distinct (md_launch_order md) \<and> set (md_launch_order md) = {role_head, role_worker})"

lemma same_role_set_pair:
  "same_role_set xs [a, b] \<Longrightarrow> a \<noteq> b \<Longrightarrow> distinct xs \<and> set xs = {a, b}"
  unfolding same_role_set_def by (cases xs; cases "tl xs"; cases "tl (tl xs)") auto

lemma bkc_error_neq [simp]: "bkc_error cfg msg \<noteq> None" "None \<noteq> bkc_error cfg msg"
  by (simp_all add: bkc_error_def)

lemma tensorfold_topology:
  "validate_tensorfold_recipe cfg md = None \<Longrightarrow> validated_topology md"
  unfolding validate_tensorfold_recipe_def validated_topology_def
  by (auto simp: tf_rendezvous_port_def tf_service_port_def split: if_splits)

lemma multi_device_topology:
  assumes "validate_multi_device_recipe cfg = None"
  shows "\<exists>md. cfg_multi cfg = Some md \<and> validated_topology md"
proof (cases "cfg_multi cfg")
  case None
  with assms show ?thesis by (simp add: validate_multi_device_recipe_def)
next
  case (Some md)
  have "validated_topology md"
  proof (cases "cfg_workload cfg = workload_tensorfold")
    case True
    with assms Some show ?thesis
      by (simp add: validate_multi_device_recipe_def tensorfold_topology)
  next
    case False
    with assms Some show ?thesis
      unfolding validate_multi_device_recipe_def validated_topology_def
      by (auto split: if_splits dest: same_role_set_pair)
  qed
  with Some show ?thesis by blast
qed

section \<open>The shipped recipes validate\<close>

lemma glm53_tensorfold_valid: "validate_multi_device_recipe glm53_tensorfold_cfg = None"
  by (simp add: validate_multi_device_recipe_def validate_tensorfold_recipe_def
      glm53_tensorfold_cfg_def tf_multi_def tf_recipe_def trim_space_def go_str)

lemma flag_free:
  "\<forall>x \<in> set xs. \<not> str_contains x p \<Longrightarrow> p \<noteq> [] \<Longrightarrow> CHR '' '' \<notin> set p \<Longrightarrow>
   \<not> str_contains (join_with '' '' xs) p"
  by (simp add: str_contains_join)

lemma glm53_no_bind:
  "\<not> str_contains glm53_extra_args ''--host''" "\<not> str_contains glm53_extra_args ''--port''"
  unfolding glm53_extra_args_def itoa_3600 rank_placeholder_def head_addr_placeholder_def
    glm53_revision_def
  by (rule flag_free; simp add: has_prefix_def)+

lemma glm53_no_mtp:
  "\<not> str_contains (to_lower glm53_extra_args) ''mtp''"
  "\<not> str_contains (to_lower glm53_extra_args) ''--speculative''"
proof -
  have blank: "to_lower '' '' = '' ''"
    by (simp add: to_lower_def lower_char_bits)
  show "\<not> str_contains (to_lower glm53_extra_args) ''mtp''"
    unfolding glm53_extra_args_def itoa_3600 rank_placeholder_def head_addr_placeholder_def
      glm53_revision_def to_lower_join blank
    by (rule flag_free) (simp_all add: to_lower_def lower_char_bits lower_char_upper has_prefix_def)
  show "\<not> str_contains (to_lower glm53_extra_args) ''--speculative''"
    unfolding glm53_extra_args_def itoa_3600 rank_placeholder_def head_addr_placeholder_def
      glm53_revision_def to_lower_join blank
    by (rule flag_free) (simp_all add: to_lower_def lower_char_bits lower_char_upper has_prefix_def)
qed

lemma contains_tokens_step:
  "contains_tokens [] (w # ws) = False"
  "contains_tokens (t # ts) (w # ws) =
     (if t = w then take (length ws) ts = ws \<or> contains_tokens ts (w # ws)
      else contains_tokens ts (w # ws))"
  by auto

lemma glm53_flags: "find (\<lambda>f. \<not> contains_arg_sequence glm53_extra_args f) glm53_required_flags = None"
  unfolding contains_arg_sequence_def glm53_tokens glm53_required_flags_def itoa_3600
    rank_placeholder_def head_addr_placeholder_def glm53_revision_def
  by (simp only: go_str fields_eval find.simps contains_tokens_step list.size add_0_left
      add_0_right add_Suc_right plus_nat.add_Suc plus_nat.add_0 take_Suc_Cons take_0 list.inject char.inject cong: if_weak_cong)

lemma glm53_counts:
  "flag_value_count glm53_extra_args ''--revision'' = (glm53_revision, 1)"
  "flag_value_count glm53_extra_args ''--tp-size'' = (''2'', 1)"
  "flag_value_count glm53_extra_args ''--nnodes'' = (''2'', 1)"
  unfolding flag_value_count_def glm53_tokens rank_placeholder_def head_addr_placeholder_def glm53_revision_def
  by (simp_all add: has_prefix_def)

lemma glm53_env_ok: "find (\<lambda>(k, v). map_get glm53_fabric_env k \<noteq> v) glm53_fabric_env = None"
  by (simp add: glm53_fabric_env_def map_get_def)

lemma qwen38_no_address: "\<not> embeds_address qwen38_multi"
  by code_simp

lemma glm53_nvfp4_valid: "validate_multi_device_recipe glm53_nvfp4_cfg = None"
proof -
  have port: "itoa 8000 = ''8000''" "itoa glm53_service_port = ''8000''"
    by (simp_all add: itoa_def nat_text.simps char_of_def bit_Suc_0_iff glm53_service_port_def)
  have cfg: "cfg_multi glm53_nvfp4_cfg = Some glm53_multi" "cfg_workload glm53_nvfp4_cfg = ''sglang''"
    "cfg_port glm53_nvfp4_cfg = ''8000''" "cfg_id glm53_nvfp4_cfg = glm53_nvfp4_id"
    by (simp_all add: glm53_nvfp4_cfg_def workload_sglang_def)
  have "validate_glm53_recipe glm53_nvfp4_cfg glm53_multi = None"
    by (simp add: validate_glm53_recipe_def glm53_nvfp4_cfg_def glm53_multi_def glm53_no_bind
        glm53_no_mtp glm53_flags glm53_counts glm53_env_ok)
  moreover have "md_world_size glm53_multi = 2" "md_tp_size glm53_multi = 2"
    "md_gpus_per_node glm53_multi = 1" "md_rendezvous_port glm53_multi = 25000"
    "md_service_port glm53_multi = 8000" "md_roles glm53_multi = [head_role, worker_role]"
    "md_launch_order glm53_multi = []" "md_backend glm53_multi = backend_torch"
    by (simp_all add: glm53_multi_def glm53_rendezvous_port_def glm53_service_port_def)
  moreover have "glm53_nvfp4_id \<noteq> qwen38_dual_id"
    by (simp add: glm53_nvfp4_id_def qwen38_dual_id_def)
  ultimately show ?thesis
    by (simp add: validate_multi_device_recipe_def cfg port workload_tensorfold_def
        workload_sglang_def)
qed

lemma qwen38_valid: "validate_multi_device_recipe qwen38_cfg = None"
proof -
  have port: "itoa 8888 = ''8888''"
    by (simp add: itoa_def nat_text.simps char_of_def bit_Suc_0_iff)
  have cfg: "cfg_multi qwen38_cfg = Some qwen38_multi" "cfg_workload qwen38_cfg = ''vllm''"
    "cfg_port qwen38_cfg = ''8888''" "cfg_id qwen38_cfg = qwen38_dual_id"
    by (simp_all add: qwen38_cfg_def workload_vllm_def)
  have "equal_slice_maps qwen38_role_args qwen38_role_args"
    by (simp add: equal_slice_maps_def qwen38_role_args_def role_head_def role_worker_def)
  moreover have "equal_string_maps qwen38_static_env qwen38_static_env"
    by (simp add: equal_string_maps_def qwen38_static_env_def map_get_def)
  moreover have "\<not> embeds_address qwen38_multi" by (rule qwen38_no_address)
  ultimately have "validate_qwen38_recipe qwen38_cfg qwen38_multi = None"
    by (simp add: validate_qwen38_recipe_def qwen38_cfg_def qwen38_multi_def runtime_default_def)
  moreover have "md_world_size qwen38_multi = 2" "md_tp_size qwen38_multi = 2"
    "md_gpus_per_node qwen38_multi = 1" "md_rendezvous_port qwen38_multi = 50000"
    "md_service_port qwen38_multi = 8888" "md_roles qwen38_multi = [head_role, worker_role]"
    "md_launch_order qwen38_multi = [role_worker, role_head]" "md_backend qwen38_multi = backend_vllm"
    by (simp_all add: qwen38_multi_def qwen38_rendezvous_port_def qwen38_service_port_def)
  ultimately show ?thesis
    by (simp add: validate_multi_device_recipe_def cfg port workload_tensorfold_def
        workload_sglang_def workload_vllm_def same_role_set_def)
qed

end
