(* ===== verification/Bkc_Catalog.thy ===== *)
theory Bkc_Catalog
  imports Bkc_Recipes
begin

text \<open>
  The recipe registry and its lookups, \<^verbatim>\<open>internal/bkc/catalog_data.go\<close> and
  \<^verbatim>\<open>internal/bkc/catalog.go\<close>, and the use-case heuristics of \<^verbatim>\<open>usecase.go\<close>. The
  package-level catalog is the list of registered configurations in registration order;
  the deep copies the lookups return are values here.
\<close>

section \<open>Registration\<close>

definition registered :: "bkc_config list \<Rightarrow> bool" where
  "registered cat \<longleftrightarrow> distinct (map cfg_id cat) \<and> [] \<notin> cfg_id ` set cat"

text \<open>\<^verbatim>\<open>register\<close> panics on an empty or a duplicate identifier.\<close>

fun register :: "bkc_config list \<Rightarrow> bkc_config list \<Rightarrow> gerror + bkc_config list" where
  "register cat [] = Inr cat"
| "register cat (cfg # cfgs) =
     (if cfg_id cfg = [] then Inl (GoPanic ''bkc: config with empty ID'')
      else if cfg_id cfg \<in> cfg_id ` set cat
        then Inl (GoPanic (''bkc: duplicate config id: '' @ cfg_id cfg))
      else register (cat @ [cfg]) cfgs)"

lemma register_Inr:
  "register cat cfgs = Inr cat' \<Longrightarrow> registered cat \<Longrightarrow> registered cat' \<and> cat' = cat @ cfgs"
proof (induction cat cfgs rule: register.induct)
  case (2 cat cfg cfgs)
  then have r: "register (cat @ [cfg]) cfgs = Inr cat'" and new: "cfg_id cfg \<noteq> []"
    "cfg_id cfg \<notin> cfg_id ` set cat"
    by (auto split: if_splits)
  with "2.prems"(2) have "registered (cat @ [cfg])" by (auto simp: registered_def)
  with "2.IH" new r have "registered cat' \<and> cat' = (cat @ [cfg]) @ cfgs" by blast
  then show ?case by auto
qed simp

section \<open>Lookups\<close>

definition lookup_id :: "bkc_config list \<Rightarrow> string \<Rightarrow> bkc_config option" where
  "lookup_id cat i = find (\<lambda>cfg. cfg_id cfg = trim_space i) cat"

definition same_model :: "string \<Rightarrow> string \<Rightarrow> bkc_config \<Rightarrow> bool" where
  "same_model workload model cfg \<longleftrightarrow> cfg_workload cfg = workload \<and> equal_fold (cfg_model_id cfg) model"

definition lookup :: "bkc_config list \<Rightarrow> string \<Rightarrow> string \<Rightarrow> bkc_config option" where
  "lookup cat workload model = find (same_model workload (trim_space model)) cat"

definition lookup_all :: "bkc_config list \<Rightarrow> string \<Rightarrow> string \<Rightarrow> bkc_config list" where
  "lookup_all cat workload model =
     (if trim_space model = [] then [] else filter (same_model workload (trim_space model)) cat)"

lemma lookup_id_Some: "lookup_id cat i = Some cfg \<Longrightarrow> cfg \<in> set cat \<and> cfg_id cfg = trim_space i"
  unfolding lookup_id_def by (auto dest: find_Some_mem)

text \<open>The device-specific choice: the fewest target tags among the entries that list the device.\<close>

definition lists_device :: "string \<Rightarrow> bkc_config \<Rightarrow> bool" where
  "lists_device device cfg \<longleftrightarrow> list_ex (\<lambda>tag. equal_fold tag device) (cfg_targets cfg)"

fun fewest_targets :: "string \<Rightarrow> bkc_config option \<Rightarrow> bkc_config list \<Rightarrow> bkc_config option" where
  "fewest_targets device best [] = best"
| "fewest_targets device best (cfg # cfgs) =
     (if lists_device device cfg \<and>
         (case best of None \<Rightarrow> True | Some b \<Rightarrow> length (cfg_targets cfg) < length (cfg_targets b))
      then fewest_targets device (Some cfg) cfgs
      else fewest_targets device best cfgs)"

definition fits_resources :: "rat \<Rightarrow> int \<Rightarrow> bkc_config \<Rightarrow> bool" where
  "fits_resources vram gpus cfg \<longleftrightarrow>
     (let min_gpus = (if cfg_min_gpus cfg \<le> 0 then 1 else cfg_min_gpus cfg)
      in \<not> (gpus > 0 \<and> gpus < min_gpus) \<and>
         \<not> (cfg_min_vram cfg > 0 \<and> vram > 0 \<and> vram < cfg_min_vram cfg))"

definition lookup_for_device ::
  "bkc_config list \<Rightarrow> string \<Rightarrow> string \<Rightarrow> string \<Rightarrow> rat \<Rightarrow> int \<Rightarrow> bkc_config option" where
  "lookup_for_device cat workload model device vram gpus =
     (let matches = lookup_all cat workload model;
          device = to_lower (trim_space device)
      in case matches of
           [] \<Rightarrow> None
         | m # _ \<Rightarrow>
             (case (if device = [] then None else fewest_targets device None matches) of
                Some best \<Rightarrow> Some best
              | None \<Rightarrow>
                  (case find (fits_resources vram gpus) matches of
                     Some cfg \<Rightarrow> Some cfg
                   | None \<Rightarrow> Some m)))"

text \<open>
  \<^verbatim>\<open>LookupBest\<close>: an exact match, or the best-scored entry of the same owner that shares at
  least three name tokens. The sort of the source orders by score, then by name; entries
  equal in both stay in registration order.
\<close>

definition alnum :: "char \<Rightarrow> bool" where
  "alnum c \<longleftrightarrow> is_digit c \<or> (let n = of_char c :: nat in 97 \<le> n \<and> n \<le> 122)"

fun alnum_runs :: "string \<Rightarrow> string \<Rightarrow> string list" where
  "alnum_runs acc [] = (if acc = [] then [] else [rev acc])"
| "alnum_runs acc (c # s) =
     (if alnum c then alnum_runs (c # acc) s
      else if acc = [] then alnum_runs [] s else rev acc # alnum_runs [] s)"

definition normalized_model_parts :: "string \<Rightarrow> string \<times> string list" where
  "normalized_model_parts model =
     (let m = trim_space (to_lower model)
      in if m = [] then ([], [])
         else (case index_char (CHR ''/'') m of
                 Some i \<Rightarrow> (take i m, alnum_runs [] (drop (Suc i) m))
               | None \<Rightarrow> ([], alnum_runs [] m)))"

definition token_overlap :: "string list \<Rightarrow> string list \<Rightarrow> nat" where
  "token_overlap a b = length (remdups (filter (\<lambda>t. t \<in> set a) b))"

definition match_score :: "string list \<Rightarrow> bkc_config \<Rightarrow> int" where
  "match_score tokens cfg =
     (let ts = snd (normalized_model_parts (cfg_model_id cfg))
      in int (token_overlap tokens ts) * 10 - \<bar>int (length tokens) - int (length ts)\<bar>)"

definition suggestible :: "string \<Rightarrow> string \<Rightarrow> string list \<Rightarrow> bkc_config \<Rightarrow> bool" where
  "suggestible workload owner tokens cfg \<longleftrightarrow>
     (let (cfg_owner, ts) = normalized_model_parts (cfg_model_id cfg)
      in cfg_workload cfg = workload \<and> cfg_owner \<noteq> [] \<and> cfg_owner = owner \<and>
         token_overlap tokens ts \<ge> 3)"

fun best_match :: "string list \<Rightarrow> bkc_config \<Rightarrow> bkc_config list \<Rightarrow> bkc_config" where
  "best_match tokens best [] = best"
| "best_match tokens best (cfg # cfgs) =
     (if match_score tokens cfg > match_score tokens best \<or>
         match_score tokens cfg = match_score tokens best \<and> cfg_name cfg < cfg_name best
      then best_match tokens cfg cfgs else best_match tokens best cfgs)"

datatype match_type = MatchExact | MatchSuggested

definition lookup_best ::
  "bkc_config list \<Rightarrow> string \<Rightarrow> string \<Rightarrow> (bkc_config \<times> match_type) option" where
  "lookup_best cat workload model =
     (case lookup cat workload model of
        Some cfg \<Rightarrow> Some (cfg, MatchExact)
      | None \<Rightarrow>
          (let m = trim_space model; (owner, tokens) = normalized_model_parts m
           in if m = [] \<or> owner = [] \<or> tokens = [] then None
              else (case filter (suggestible workload owner tokens) cat of
                      [] \<Rightarrow> None
                    | c # cs \<Rightarrow> Some (best_match tokens c cs, MatchSuggested))))"

section \<open>Device profiles\<close>

definition device_profile_from_gpu :: "string \<Rightarrow> string \<Rightarrow> string" where
  "device_profile_from_gpu memory_type name =
     (let n = to_lower name in
      if str_contains n ''jetson'' then ''jetson-thor''
      else if str_contains n ''gb10'' \<or> str_contains n ''dgx spark'' \<or> memory_type = ''unified'' then ''gb10''
      else if str_contains n ''gb200'' then ''gb200''
      else if str_contains n ''b200'' then ''b200''
      else if str_contains n ''h200'' then ''h200''
      else if str_contains n ''h20'' then ''h20''
      else if str_contains n ''h100'' then ''h100-80''
      else if str_contains n ''a100'' then ''a100-80''
      else if str_contains n ''rtx pro 6000'' then ''rtx-pro-6000''
      else if str_contains n ''rtx 5090'' then ''rtx-5090''
      else if str_contains n ''rtx 4090'' then ''rtx-4090''
      else if str_contains n ''l40s'' then ''l40s''
      else if str_contains n ''mi355x'' then ''mi355x''
      else if str_contains n ''mi325x'' then ''mi325x''
      else if str_contains n ''mi300x'' then ''mi300x''
      else if str_contains n ''radeon'' \<and> str_contains n ''r9700'' then ''radeon-r9700''
      else [])"

section \<open>Use cases\<close>

text \<open>
  \<^verbatim>\<open>UseCasesForModel\<close>: the curated table (its keys are lower-case model identifiers) and the
  heuristics that apply to every other model.
\<close>

definition use_cases_by_model :: "(string \<times> string list) list" where
  "use_cases_by_model =
    [(''amd/gpt-oss-120b-w-mxfp4-a-fp8'', [''coding'', ''chat'', ''reasoning'']),
     (''arcee-ai/trinity-large-thinking'', [''reasoning'', ''chat'']),
     (''baidu/ernie-4.5-21b-a3b-pt'', [''chat'', ''reasoning'']),
     (''baidu/ernie-4.5-300b-a47b-pt'', [''chat'', ''reasoning'']),
     (''baidu/ernie-4.5-vl-28b-a3b-pt'', [''vision'', ''chat'']),
     (''baidu/ernie-4.5-vl-424b-a47b-pt'', [''vision'', ''chat'']),
     (''bytedance-seed/seed-oss-36b-instruct'', [''coding'', ''chat'']),
     (''deepseek-ai/deepseek-ocr'', [''ocr'']),
     (''deepseek-ai/deepseek-ocr-2'', [''ocr'']),
     (''deepseek-ai/deepseek-r1-0528'', [''reasoning'', ''chat'']),
     (''deepseek-ai/deepseek-v3.1'', [''coding'', ''chat'', ''reasoning'']),
     (''deepseek-ai/deepseek-v3.2'', [''coding'', ''chat'']),
     (''deepseek-ai/deepseek-v3.2-exp'', [''coding'', ''chat'', ''reasoning'']),
     (''google/gemma-4-26b-a4b-it'', [''chat'', ''coding'']),
     (''google/gemma-4-31b-it'', [''chat'', ''coding'']),
     (''google/gemma-4-e2b-it'', [''chat'']),
     (''google/gemma-4-e4b-it'', [''chat'']),
     (''google/translategemma-27b-it'', [''translation'']),
     (''inclusionai/ring-1t-fp8'', [''reasoning'', ''chat'', ''coding'']),
     (''internlm/intern-s1'', [''coding'', ''chat'']),
     (''internlm/intern-s1-fp8'', [''coding'', ''chat'']),
     (''jinaai/jina-reranker-m0'', [''rerank'', ''embedding'']),
     (''meta-llama/llama-3.1-8b-instruct'', [''chat'', ''coding'']),
     (''meta-llama/llama-3.3-70b-instruct'', [''chat'', ''coding'']),
     (''microsoft/phi-4-mini-instruct'', [''chat'', ''coding'', ''reasoning'']),
     (''minimaxai/minimax-m2.7'', [''chat'', ''coding'', ''reasoning'']),
     (''mistralai/ministral-3-14b-instruct-2512'', [''chat'', ''coding'']),
     (''mistralai/ministral-3-14b-reasoning-2512'', [''reasoning'', ''chat'']),
     (''mistralai/ministral-3-8b-reasoning-2512'', [''reasoning'', ''chat'']),
     (''mistralai/mistral-large-3-675b-instruct-2512'', [''chat'', ''coding'']),
     (''mistralai/mistral-large-3-675b-instruct-2512-nvfp4'', [''chat'', ''coding'']),
     (''moonshotai/kimi-k2.5'', [''coding'', ''chat'']),
     (''moonshotai/kimi-k2-instruct'', [''coding'', ''chat'']),
     (''moonshotai/kimi-k2-thinking'', [''reasoning'', ''chat'']),
     (''moonshotai/kimi-linear-48b-a3b-instruct'', [''coding'', ''chat'']),
     (''nvidia/gemma-4-26b-a4b-nvfp4'', [''chat'', ''coding'']),
     (''nvidia/kimi-k2.5-nvfp4'', [''coding'', ''chat'']),
     (''nvidia/llama-3.3-70b-instruct-fp4'', [''chat'', ''coding'']),
     (''nvidia/llama-3.3-70b-instruct-fp8'', [''chat'', ''coding'']),
     (''nvidia/llama-4-scout-17b-16e-instruct-fp4'', [''vision'', ''chat'']),
     (''nvidia/llama-4-scout-17b-16e-instruct-fp8'', [''vision'', ''chat'']),
     (''nvidia/nemotron-3-nano-omni-30b-a3b-reasoning-nvfp4'', [''reasoning'', ''chat'', ''speech'', ''vision'']),
     (''nvidia/nvidia-nemotron-3-nano-30b-a3b-bf16'', [''chat'', ''speech'']),
     (''nvidia/nvidia-nemotron-3-nano-30b-a3b-fp8'', [''chat'', ''speech'']),
     (''nvidia/nvidia-nemotron-3-super-120b-a12b-nvfp4'', [''chat'', ''speech'', ''coding'']),
     (''nvidia/nvidia-nemotron-nano-12b-v2-vl-bf16'', [''vision'', ''chat'']),
     (''nvidia/nvidia-nemotron-nano-12b-v2-vl-fp8'', [''vision'', ''chat'']),
     (''nvidia/nvidia-nemotron-nano-12b-v2-vl-nvfp4-qad'', [''vision'', ''chat'']),
     (''nvidia/qwen3.5-397b-a17b-nvfp4'', [''coding'', ''chat'', ''reasoning'']),
     (''openai/gpt-oss-120b'', [''coding'', ''chat'', ''reasoning'']),
     (''openai/gpt-oss-20b'', [''coding'', ''chat'', ''reasoning'']),
     (''opengvlab/internvl3_5-8b'', [''vision'', ''chat'']),
     (''paddlepaddle/paddleocr-vl'', [''ocr'', ''vision'']),
     (''qwen/qwen2.5-vl-72b-instruct'', [''vision'', ''chat'']),
     (''qwen/qwen2.5-vl-7b-instruct'', [''vision'', ''chat'']),
     (''qwen/qwen3-235b-a22b'', [''coding'', ''chat'', ''reasoning'']),
     (''qwen/qwen3-235b-a22b-fp8'', [''coding'', ''chat'', ''reasoning'']),
     (''qwen/qwen3-30b-a3b'', [''chat'', ''coding'', ''reasoning'']),
     (''qwen/qwen3.5-397b-a17b-fp8'', [''coding'', ''chat'', ''reasoning'']),
     (''qwen/qwen3.6-35b-a3b'', [''chat'', ''coding'', ''reasoning'']),
     (''qwen/qwen3-asr-1.7b'', [''speech'']),
     (''qwen/qwen3-coder-480b-a35b-instruct'', [''coding'']),
     (''qwen/qwen3guard-gen-0.6b'', [''guardrails'']),
     (''qwen/qwen3-next-80b-a3b-instruct'', [''coding'', ''chat'']),
     (''qwen/qwen3-next-80b-a3b-instruct-fp8'', [''coding'', ''chat'']),
     (''qwen/qwen3-vl-235b-a22b-instruct'', [''vision'', ''chat'', ''coding'']),
     (''qwen/qwen3-vl-235b-a22b-instruct-fp8'', [''vision'', ''chat'', ''coding'']),
     (''radixark/qwen3.8-27b-nvfp4'', [''coding'', ''chat'', ''reasoning'']),
     (''radixark/qwen3.8-27b-nvfp4-bf16-lmhead'', [''coding'', ''chat'', ''reasoning'']),
     (''sakamakismile/qwen3.6-27b-nvfp4'', [''coding'', ''chat'', ''reasoning'']),
     (''sakamakismile/qwen3.6-27b-text-nvfp4-mtp'', [''coding'', ''chat'', ''reasoning'']),
     (''stepfun-ai/step-3.5-flash'', [''chat'', ''coding'', ''reasoning'']),
     (''tencent/hunyuan-a13b-instruct'', [''chat'', ''coding'']),
     (''tencent/hunyuanocr'', [''ocr'']),
     (''xiaomimimo/mimo-v2-flash'', [''chat'', ''coding'', ''reasoning'']),
     (''zai-org/glm-4.5-air-fp8'', [''chat'', ''coding'', ''reasoning'']),
     (''zai-org/glm-4.5v-fp8'', [''vision'', ''chat'']),
     (''zai-org/glm-4.7-fp8'', [''chat'', ''coding'', ''reasoning'']),
     (''zai-org/glm-5.1-fp8'', [''chat'', ''coding'', ''reasoning'']),
     (''zai-org/glm-asr-nano-2512'', [''speech'']),
     (''zai-org/glm-ocr'', [''ocr'']),
     (''zai-org/glyph'', [''ocr''])]"

definition add_if :: "bool \<Rightarrow> string \<Rightarrow> string list \<Rightarrow> string list" where
  "add_if b u us = (if b then us @ [u] else us)"

definition dedupe :: "string list \<Rightarrow> string list" where
  "dedupe xs = foldl snoc_new [] xs"

definition heuristic_use_cases :: "string \<Rightarrow> string list" where
  "heuristic_use_cases m =
     (let has = str_contains m;
          us = [''chat''];
          us = add_if (has ''coder'' \<or> has ''gpt-oss'' \<or> has ''deepseek-v'' \<or> has ''kimi'' \<or>
                       has_prefix m ''qwen3'') ''coding'' us;
          us = add_if (has ''think'' \<or> has ''reason'' \<or> has ''r1'' \<or> has ''-s1'') ''reasoning'' us;
          us = add_if (has ''vl'' \<or> has ''vision'' \<or> has ''omni'' \<or> has ''internvl'') ''vision'' us;
          us = add_if (has ''ocr'') ''ocr'' us;
          us = add_if (has ''asr'' \<or> has ''audio'' \<or> has ''speech'') ''speech'' us;
          us = add_if (has ''rerank'') ''rerank'' us
      in add_if (has ''embed'') ''embedding'' us)"

definition use_cases_for_model :: "string \<Rightarrow> string list" where
  "use_cases_for_model model =
     (let key = to_lower (trim_space model)
      in case map_of use_cases_by_model key of
           Some us \<Rightarrow> (if us \<noteq> [] then dedupe us else dedupe (heuristic_use_cases key))
         | None \<Rightarrow> dedupe (heuristic_use_cases key))"

definition has_use_case :: "bkc_config \<Rightarrow> string \<Rightarrow> bool" where
  "has_use_case cfg use_case \<longleftrightarrow>
     to_lower (trim_space use_case) \<in> set (use_cases_for_model (cfg_model_id cfg))"

definition all_use_cases :: "bkc_config list \<Rightarrow> string list" where
  "all_use_cases cat =
     sort (remdups (concat (map (\<lambda>cfg. use_cases_for_model (cfg_model_id cfg)) cat)))"

section \<open>Lemmas\<close>

lemma fewest_targets_Some:
  assumes "fewest_targets device best cfgs = Some cfg"
    and "\<forall>b. best = Some b \<longrightarrow> lists_device device b"
  shows "lists_device device cfg \<and> (cfg \<in> set cfgs \<or> best = Some cfg) \<and>
         (\<forall>b. best = Some b \<longrightarrow> length (cfg_targets cfg) \<le> length (cfg_targets b)) \<and>
         (\<forall>c \<in> set cfgs. lists_device device c \<longrightarrow> length (cfg_targets cfg) \<le> length (cfg_targets c))"
  using assms
proof (induction device best cfgs rule: fewest_targets.induct)
  case (2 device best c cfgs)
  show ?case
  proof (cases "lists_device device c \<and>
      (case best of None \<Rightarrow> True | Some b \<Rightarrow> length (cfg_targets c) < length (cfg_targets b))")
    case True
    with "2.prems" have "fewest_targets device (Some c) cfgs = Some cfg" by simp
    with "2.IH"(1) [OF True] True show ?thesis by (auto split: option.splits)
  next
    case False
    with "2.prems" have "fewest_targets device best cfgs = Some cfg" by simp
    with "2.IH"(2) [OF False] False "2.prems"(2) show ?thesis by (auto split: option.splits)
  qed
qed auto

lemma fewest_targets_Some_start: "fewest_targets device (Some b) cfgs \<noteq> None"
  by (induction cfgs arbitrary: b) (auto split: option.splits)

lemma fewest_targets_None:
  "fewest_targets device None cfgs = None \<Longrightarrow> c \<in> set cfgs \<Longrightarrow> \<not> lists_device device c"
proof (induction cfgs)
  case (Cons a cfgs)
  have a: "\<not> lists_device device a"
  proof
    assume "lists_device device a"
    with Cons.prems(1) have "fewest_targets device (Some a) cfgs = None" by simp
    with fewest_targets_Some_start show False by blast
  qed
  with Cons show ?case by auto
qed simp

lemma best_match_in: "best_match tokens c cs \<in> insert c (set cs)"
  by (induction tokens c cs rule: best_match.induct) auto

lemma best_match_max:
  "d \<in> insert c (set cs) \<Longrightarrow> match_score tokens d \<le> match_score tokens (best_match tokens c cs)"
proof (induction tokens c cs arbitrary: d rule: best_match.induct)
  case (2 tokens best cfg cfgs)
  show ?case
  proof (cases "match_score tokens cfg > match_score tokens best \<or>
      match_score tokens cfg = match_score tokens best \<and> cfg_name cfg < cfg_name best")
    case True
    with "2.IH"(1) [OF True, of cfg] "2.IH"(1) [OF True, of d] "2.prems" show ?thesis by auto
  next
    case False
    then have "match_score tokens cfg \<le> match_score tokens best" by auto
    with False "2.IH"(2) [OF False, of best] "2.IH"(2) [OF False, of d] "2.prems" show ?thesis
      by auto
  qed
qed simp

lemma find_unique:
  "distinct (map f xs) \<Longrightarrow> x \<in> set xs \<Longrightarrow> find (\<lambda>y. f y = f x) xs = Some x"
  by (induction xs) (auto simp: image_iff)

lemma lookup_for_device_match:
  assumes "lookup_all cat workload model = m # ms"
  shows "lookup_for_device cat workload model device vram gpus =
     (case (if to_lower (trim_space device) = [] then None
            else fewest_targets (to_lower (trim_space device)) None (m # ms)) of
        Some best \<Rightarrow> Some best
      | None \<Rightarrow> (case find (fits_resources vram gpus) (m # ms) of Some cfg \<Rightarrow> Some cfg | None \<Rightarrow> Some m))"
  unfolding lookup_for_device_def assms Let_def by (simp only: list.case)

section \<open>Properties\<close>

text \<open>
  After a registration that did not panic, looking an identifier up (with any white
  space around it) returns exactly the configuration registered under it.
\<close>

lemma lookup_after_register:
  assumes "register [] cfgs = Inr cat" and "cfg \<in> set cfgs" and "trim_space i = cfg_id cfg"
  shows "lookup_id cat i = Some cfg"
proof -
  have "registered cat" and cat: "cat = cfgs"
    using register_Inr [OF assms(1)] by (auto simp: registered_def)
  then have "distinct (map cfg_id cat)" by (simp add: registered_def)
  then show ?thesis
    using assms(2,3) find_unique [of cfg_id cat cfg] cat by (simp add: lookup_id_def)
qed

text \<open>
  The device-specific lookup returns one of the entries of the model; when some entry
  lists the (non-empty) device it returns one that lists it with the fewest target tags,
  and otherwise one that satisfies the memory and GPU minimum if there is one.
\<close>

lemma lookup_for_device_best:
  assumes "lookup_for_device cat workload model device vram gpus = Some cfg"
  shows "cfg \<in> set (lookup_all cat workload model) \<and>
    (if to_lower (trim_space device) \<noteq> [] \<and>
        list_ex (lists_device (to_lower (trim_space device))) (lookup_all cat workload model)
     then lists_device (to_lower (trim_space device)) cfg \<and>
          list_all (\<lambda>c. lists_device (to_lower (trim_space device)) c \<longrightarrow>
                      length (cfg_targets cfg) \<le> length (cfg_targets c))
            (lookup_all cat workload model)
     else fits_resources vram gpus cfg \<or>
          list_all (\<lambda>c. \<not> fits_resources vram gpus c) (lookup_all cat workload model))"
proof (cases "lookup_all cat workload model")
  case Nil
  with assms show ?thesis by (simp add: lookup_for_device_def)
next
  case (Cons m ms)
  define d where "d = to_lower (trim_space device)"
  note val = assms [unfolded lookup_for_device_match [OF Cons], folded d_def]
  show ?thesis
  proof (cases "d = [] \<or> fewest_targets d None (m # ms) = None")
    case True
    then have none: "\<not> (d \<noteq> [] \<and> list_ex (lists_device d) (m # ms))"
      using fewest_targets_None [of d "m # ms"] unfolding list_ex_iff by blast
    from True have "(if d = [] then None else fewest_targets d None (m # ms)) = None" by metis
    with val have sel: "(case find (fits_resources vram gpus) (m # ms) of
        Some c \<Rightarrow> Some c | None \<Rightarrow> Some m) = Some cfg" by (simp only: option.case)
    have "cfg \<in> set (m # ms) \<and>
        (fits_resources vram gpus cfg \<or> list_all (\<lambda>c. \<not> fits_resources vram gpus c) (m # ms))"
    proof (cases "find (fits_resources vram gpus) (m # ms)")
      case None
      then have "\<forall>c \<in> set (m # ms). \<not> fits_resources vram gpus c"
        unfolding find_None_iff by blast
      moreover from sel None have "cfg = m" by (simp only: option.case option.inject)
      ultimately show ?thesis by (simp add: list_all_iff)
    next
      case (Some c)
      with sel have "c = cfg" by (simp only: option.case option.inject)
      with find_Some_mem [OF Some] show ?thesis by blast
    qed
    with none show ?thesis unfolding Cons d_def [symmetric] by argo
  next
    case False
    then obtain best where best: "fewest_targets d None (m # ms) = Some best" by blast
    with val False have "cfg = best" by simp
    with fewest_targets_Some [OF best] False show ?thesis
      unfolding Cons d_def [symmetric] by (simp add: list_ex_iff list_all_iff) blast
  qed
qed

text \<open>Witnesses: the shipped TensorFold recipe, registered alone.\<close>

lemma tensorfold_id_trimmed: "trim_space glm53_tensorfold_id = glm53_tensorfold_id"
  by (simp add: glm53_tensorfold_id_def trim_space_def go_str)

theorem lookup_after_register_witness:
  "lookup_id [glm53_tensorfold_cfg] glm53_tensorfold_id = Some glm53_tensorfold_cfg"
proof (rule lookup_after_register)
  show "register [] [glm53_tensorfold_cfg] = Inr [glm53_tensorfold_cfg]"
    by (simp add: glm53_tensorfold_cfg_def glm53_tensorfold_id_def)
  show "trim_space glm53_tensorfold_id = cfg_id glm53_tensorfold_cfg"
    by (simp add: tensorfold_id_trimmed) (simp add: glm53_tensorfold_cfg_def)
qed simp

lemma lookup_for_device_best_witness:
  "glm53_tensorfold_cfg \<in> set (lookup_all [glm53_tensorfold_cfg] workload_tensorfold tf_model)"
proof -
  have w: "cfg_workload glm53_tensorfold_cfg = workload_tensorfold"
    "cfg_model_id glm53_tensorfold_cfg = tf_model"
    by (simp_all add: glm53_tensorfold_cfg_def)
  have t: "trim_space tf_model = tf_model" "tf_model \<noteq> []"
    by (simp_all add: tf_model_def trim_space_def go_str)
  have "lookup_all [glm53_tensorfold_cfg] workload_tensorfold tf_model = [glm53_tensorfold_cfg]"
    by (simp add: lookup_all_def same_model_def w t)
  from lookup_for_device_match [OF this, of "[]" 0 0]
  have "lookup_for_device [glm53_tensorfold_cfg] workload_tensorfold tf_model [] 0 0 =
          Some glm53_tensorfold_cfg"
    by (simp add: trim_space_def go_str to_lower_def fits_resources_def)
  from lookup_for_device_best [OF this] show ?thesis by blast
qed

end
