(* ===== verification/Bkc_Catalog_Names.thy ===== *)
theory Bkc_Catalog_Names
  imports Bkc_Recipes
begin

text \<open>
  The names the catalog entries share, \<^verbatim>\<open>internal/bkc/catalog.go\<close>: device profiles,
  quantisations, architectures, container images, and the zero value of a \<^verbatim>\<open>Config\<close>.
\<close>

definition bkc_zero :: bkc_config where
  "bkc_zero = \<lparr>cfg_id = [], cfg_name = [], cfg_workload = [], cfg_model_id = [], cfg_image = [],
     cfg_port = [], cfg_extra_args = [], cfg_env = [], cfg_volumes = [], cfg_plugins = [],
     cfg_runtime = runtime_zero, cfg_description = [], cfg_source = [], cfg_notes = [],
     cfg_multi = None, cfg_targets = [], cfg_min_vram = 0, cfg_min_gpus = 0, cfg_quant = [],
     cfg_arch = []\<rparr>"

definition device_gb10 :: string where "device_gb10 = ''gb10''"
definition device_jetsonthor :: string where "device_jetsonthor = ''jetson-thor''"
definition device_rtxpro6000 :: string where "device_rtxpro6000 = ''rtx-pro-6000''"
definition device_rtx5090 :: string where "device_rtx5090 = ''rtx-5090''"
definition device_rtx4090 :: string where "device_rtx4090 = ''rtx-4090''"
definition device_l40s :: string where "device_l40s = ''l40s''"
definition device_a100_80 :: string where "device_a100_80 = ''a100-80''"
definition device_h100_80 :: string where "device_h100_80 = ''h100-80''"
definition device_h100_94 :: string where "device_h100_94 = ''h100-94''"
definition device_h200 :: string where "device_h200 = ''h200''"
definition device_h20 :: string where "device_h20 = ''h20''"
definition device_b200 :: string where "device_b200 = ''b200''"
definition device_gb200 :: string where "device_gb200 = ''gb200''"
definition device_mi300x :: string where "device_mi300x = ''mi300x''"
definition device_mi325x :: string where "device_mi325x = ''mi325x''"
definition device_mi355x :: string where "device_mi355x = ''mi355x''"
definition device_r9700 :: string where "device_r9700 = ''radeon-r9700''"
definition quant_bf16 :: string where "quant_bf16 = ''BF16''"
definition quant_fp16 :: string where "quant_fp16 = ''FP16''"
definition quant_fp8 :: string where "quant_fp8 = ''FP8''"
definition quant_fp4 :: string where "quant_fp4 = ''FP4''"
definition quant_nvfp4 :: string where "quant_nvfp4 = ''NVFP4''"
definition quant_mxfp4 :: string where "quant_mxfp4 = ''MXFP4''"
definition quant_int4 :: string where "quant_int4 = ''INT4''"
definition arch_blackwell :: string where "arch_blackwell = ''blackwell''"
definition arch_hopper :: string where "arch_hopper = ''hopper''"
definition arch_ada :: string where "arch_ada = ''ada''"
definition arch_ampere :: string where "arch_ampere = ''ampere''"
definition arch_cdna3 :: string where "arch_cdna3 = ''cdna3''"
definition arch_cdna4 :: string where "arch_cdna4 = ''cdna4''"
definition arch_rdna4 :: string where "arch_rdna4 = ''rdna4''"
definition image_vllm_stable :: string where "image_vllm_stable = ''vllm/vllm-openai:v0.12.0''"
definition image_vllm_latest :: string where "image_vllm_latest = ''vllm/vllm-openai:latest''"
definition image_vllm_cu130 :: string where "image_vllm_cu130 = ''vllm/vllm-openai:v0.14.1-cu130''"
definition image_vllm_cu130_019 :: string where "image_vllm_cu130_019 = ''vllm/vllm-openai:v0.19.1-cu130''"
definition image_vllm_020 :: string where "image_vllm_020 = ''vllm/vllm-openai:v0.20.0''"
definition image_vllm_020audio :: string where "image_vllm_020audio = ''ghcr.io/spencerbull/yokai/vllm-openai-audio:v0.20.0''"
definition image_vllm_ngc :: string where "image_vllm_ngc = ''nvcr.io/nvidia/vllm:25.12.post1-py3''"
definition image_vllm_jetson :: string where "image_vllm_jetson = ''ghcr.io/nvidia-ai-iot/vllm:latest-jetson-thor''"
definition image_vllm_gemma4 :: string where "image_vllm_gemma4 = ''vllm/vllm-openai:gemma4''"
definition image_vllm_gemma4cu :: string where "image_vllm_gemma4cu = ''vllm/vllm-openai:gemma4-cu130''"
definition image_vllm_rocmgemma :: string where "image_vllm_rocmgemma = ''vllm/vllm-openai-rocm:gemma4''"
definition image_sglang_qwen38 :: string where "image_sglang_qwen38 = ''lmsysorg/sglang@sha256:506525a5907ea22c9d445afb7c03603959b912de034d86915cf17da814f1a124''"
definition image_sglang_qwen38dflash2 :: string where "image_sglang_qwen38dflash2 = ''lmsysorg/sglang@sha256:616a3e97f45191af975896cfa644279096cb31bd408a071c2e99ca7209c3cafe''"
definition image_sglang_qwen38gb10dflash2 :: string where "image_sglang_qwen38gb10dflash2 = ''lmsysorg/sglang@sha256:00205b89f74691f76a0ffbd6846376d9323971930a5d59bf63a65dadc7d67927''"

lemmas catalog_names =
  device_gb10_def device_jetsonthor_def device_rtxpro6000_def device_rtx5090_def
  device_rtx4090_def device_l40s_def device_a100_80_def device_h100_80_def device_h100_94_def
  device_h200_def device_h20_def device_b200_def device_gb200_def device_mi300x_def
  device_mi325x_def device_mi355x_def device_r9700_def quant_bf16_def quant_fp16_def
  quant_fp8_def quant_fp4_def quant_nvfp4_def quant_mxfp4_def quant_int4_def
  arch_blackwell_def arch_hopper_def arch_ada_def arch_ampere_def arch_cdna3_def
  arch_cdna4_def arch_rdna4_def image_vllm_stable_def image_vllm_latest_def
  image_vllm_cu130_def image_vllm_cu130_019_def image_vllm_020_def image_vllm_020audio_def
  image_vllm_ngc_def image_vllm_jetson_def image_vllm_gemma4_def image_vllm_gemma4cu_def
  image_vllm_rocmgemma_def image_sglang_qwen38_def image_sglang_qwen38dflash2_def
  image_sglang_qwen38gb10dflash2_def

end
