(* ===== verification/Bkc_Vendors_A.thy ===== *)
theory Bkc_Vendors_A
  imports Bkc_Catalog_Names
begin

text \<open>
  The single-node entries the catalog registers for DeepSeek, GLM, Google, Llama and Microsoft:
  the \<^verbatim>\<open>init\<close> functions of \<^verbatim>\<open>catalog_deepseek.go\<close>, \<^verbatim>\<open>catalog_glm.go\<close>, \<^verbatim>\<open>catalog_google.go\<close>, \<^verbatim>\<open>catalog_llama.go\<close>, \<^verbatim>\<open>catalog_microsoft.go\<close>,
  one definition per entry; a field the source leaves out has the zero value.
\<close>

section \<open>Deepseek\<close>

definition bkc_deepseek_r1_0528_tp8 :: bkc_config where
  "bkc_deepseek_r1_0528_tp8 = bkc_zero\<lparr>
       cfg_id := ''deepseek-r1-0528-tp8'',
       cfg_name := ''DeepSeek-R1 0528'',
       cfg_workload := workload_vllm,
       cfg_model_id := ''deepseek-ai/DeepSeek-R1-0528'',
       cfg_image := image_vllm_stable,
       cfg_port := ''8000'',
       cfg_extra_args := join_with '' ''
           [''--trust-remote-code'', ''--tensor-parallel-size 8'',
            ''--enable-expert-parallel''],
       cfg_volumes := hf_mount_default,
       cfg_runtime := runtime_default,
       cfg_description := ''DeepSeek-R1 0528 on 8x H200 (141 GB each) with expert parallel.'',
       cfg_source := ''vllm-project/recipes DeepSeek/DeepSeek-V3.md'',
       cfg_targets := [device_h200, device_b200],
       cfg_min_vram := 141,
       cfg_min_gpus := 8,
       cfg_quant := quant_fp8,
       cfg_arch := arch_hopper\<rparr>"

definition bkc_deepseek_v3_1_tp8 :: bkc_config where
  "bkc_deepseek_v3_1_tp8 = bkc_zero\<lparr>
       cfg_id := ''deepseek-v3-1-tp8'',
       cfg_name := ''DeepSeek-V3.1'',
       cfg_workload := workload_vllm,
       cfg_model_id := ''deepseek-ai/DeepSeek-V3.1'',
       cfg_image := image_vllm_stable,
       cfg_port := ''8000'',
       cfg_extra_args := join_with '' ''
           [''--enable-expert-parallel'', ''--tensor-parallel-size 8'',
            ''--served-model-name ds31''],
       cfg_volumes := hf_mount_default,
       cfg_runtime := runtime_default,
       cfg_description := ''DeepSeek-V3.1 on 8x H200 / B200 with expert parallel.'',
       cfg_source := ''vllm-project/recipes DeepSeek/DeepSeek-V3_1.md'',
       cfg_targets := [device_h200, device_b200, device_h20],
       cfg_min_vram := 141,
       cfg_min_gpus := 8,
       cfg_quant := quant_fp8,
       cfg_arch := arch_hopper\<rparr>"

definition bkc_deepseek_v3_2_exp_dp8 :: bkc_config where
  "bkc_deepseek_v3_2_exp_dp8 = bkc_zero\<lparr>
       cfg_id := ''deepseek-v3-2-exp-dp8'',
       cfg_name := ''DeepSeek-V3.2-Exp'',
       cfg_workload := workload_vllm,
       cfg_model_id := ''deepseek-ai/DeepSeek-V3.2-Exp'',
       cfg_image := image_vllm_stable,
       cfg_port := ''8000'',
       cfg_extra_args := join_with '' ''
           [''-dp 8'', ''--enable-expert-parallel''],
       cfg_volumes := hf_mount_default,
       cfg_runtime := runtime_default,
       cfg_description := ''DeepSeek-V3.2-Exp on 8x H200 with DP + expert parallel.'',
       cfg_source := ''vllm-project/recipes DeepSeek/DeepSeek-V3_2-Exp.md'',
       cfg_targets := [device_h200, device_b200],
       cfg_min_vram := 141,
       cfg_min_gpus := 8,
       cfg_quant := quant_fp8,
       cfg_arch := arch_hopper\<rparr>"

definition bkc_deepseek_v3_2_dp8 :: bkc_config where
  "bkc_deepseek_v3_2_dp8 = bkc_zero\<lparr>
       cfg_id := ''deepseek-v3-2-dp8'',
       cfg_name := ''DeepSeek-V3.2'',
       cfg_workload := workload_vllm,
       cfg_model_id := ''deepseek-ai/DeepSeek-V3.2'',
       cfg_image := image_vllm_stable,
       cfg_port := ''8000'',
       cfg_extra_args := join_with '' ''
           [''-dp 8'', ''--enable-expert-parallel''],
       cfg_volumes := hf_mount_default,
       cfg_runtime := runtime_default,
       cfg_description := ''DeepSeek-V3.2 on 8x H200 with DP + expert parallel.'',
       cfg_source := ''vllm-project/recipes DeepSeek/DeepSeek-V3_2.md'',
       cfg_targets := [device_h200, device_b200],
       cfg_min_vram := 141,
       cfg_min_gpus := 8,
       cfg_quant := quant_fp8,
       cfg_arch := arch_hopper\<rparr>"

definition bkc_deepseek_ocr :: bkc_config where
  "bkc_deepseek_ocr = bkc_zero\<lparr>
       cfg_id := ''deepseek-ocr'',
       cfg_name := ''DeepSeek-OCR'',
       cfg_workload := workload_vllm,
       cfg_model_id := ''deepseek-ai/DeepSeek-OCR'',
       cfg_image := image_vllm_stable,
       cfg_port := ''8000'',
       cfg_extra_args := join_with '' ''
           [''--logits_processors vllm.model_executor.models.deepseek_ocr:NGramPerReqLogitsProcessor'',
            ''--no-enable-prefix-caching'', ''--mm-processor-cache-gb 0''],
       cfg_volumes := hf_mount_default,
       cfg_runtime := runtime_default,
       cfg_description := (''DeepSeek OCR online serving config '' @ [CHR 0xE2, CHR 0x80, CHR 0x94] @ '' single-GPU default.''),
       cfg_source := ''vllm-project/recipes DeepSeek/DeepSeek-OCR.md'',
       cfg_targets := [device_rtx4090, device_rtx5090, device_l40s, device_a100_80, device_h100_80,
          device_h200, device_b200, device_rtxpro6000, device_gb10, device_jetsonthor],
       cfg_min_vram := 16,
       cfg_min_gpus := 1,
       cfg_quant := quant_bf16,
       cfg_arch := arch_hopper\<rparr>"

definition bkc_deepseek_ocr_2 :: bkc_config where
  "bkc_deepseek_ocr_2 = bkc_zero\<lparr>
       cfg_id := ''deepseek-ocr-2'',
       cfg_name := ''DeepSeek-OCR-2'',
       cfg_workload := workload_vllm,
       cfg_model_id := ''deepseek-ai/DeepSeek-OCR-2'',
       cfg_image := image_vllm_stable,
       cfg_port := ''8000'',
       cfg_extra_args := join_with '' ''
           [''--logits_processors vllm.model_executor.models.deepseek_ocr:NGramPerReqLogitsProcessor'',
            ''--no-enable-prefix-caching'', ''--mm-processor-cache-gb 0''],
       cfg_volumes := hf_mount_default,
       cfg_runtime := runtime_default,
       cfg_description := ''DeepSeek-OCR-2 online serving config.'',
       cfg_source := ''vllm-project/recipes DeepSeek/DeepSeek-OCR-2.md'',
       cfg_targets := [device_rtx4090, device_rtx5090, device_l40s, device_a100_80, device_h100_80,
          device_h200, device_b200, device_rtxpro6000, device_gb10, device_jetsonthor],
       cfg_min_vram := 16,
       cfg_min_gpus := 1,
       cfg_quant := quant_bf16,
       cfg_arch := arch_hopper\<rparr>"

definition catalog_deepseek :: "bkc_config list" where
  "catalog_deepseek =
     [bkc_deepseek_r1_0528_tp8, bkc_deepseek_v3_1_tp8, bkc_deepseek_v3_2_exp_dp8,
      bkc_deepseek_v3_2_dp8, bkc_deepseek_ocr, bkc_deepseek_ocr_2]"

section \<open>Glm\<close>

definition glm_common :: string where
  "glm_common =
     join_with '' ''
       [''--enable-auto-tool-choice'']"

definition bkc_glm_4_5_air_fp8 :: bkc_config where
  "bkc_glm_4_5_air_fp8 = bkc_zero\<lparr>
       cfg_id := ''glm-4-5-air-fp8'',
       cfg_name := ''GLM-4.5-Air FP8'',
       cfg_workload := workload_vllm,
       cfg_model_id := ''zai-org/GLM-4.5-Air-FP8'',
       cfg_image := image_vllm_stable,
       cfg_port := ''8000'',
       cfg_extra_args := join_with '' ''
           [''--tensor-parallel-size 8'', ''--tool-call-parser glm45'',
            ''--reasoning-parser glm45'', glm_common],
       cfg_volumes := hf_mount_default,
       cfg_runtime := runtime_default,
       cfg_description := ''GLM-4.5-Air FP8 on 8x Hopper/Blackwell.'',
       cfg_source := ''vllm-project/recipes GLM/GLM.md'',
       cfg_targets := [device_h100_80, device_h200, device_b200],
       cfg_min_vram := 80,
       cfg_min_gpus := 8,
       cfg_quant := quant_fp8,
       cfg_arch := arch_hopper\<rparr>"

definition bkc_glm_4_7_fp8 :: bkc_config where
  "bkc_glm_4_7_fp8 = bkc_zero\<lparr>
       cfg_id := ''glm-4-7-fp8'',
       cfg_name := ''GLM-4.7 FP8'',
       cfg_workload := workload_vllm,
       cfg_model_id := ''zai-org/GLM-4.7-FP8'',
       cfg_image := image_vllm_stable,
       cfg_port := ''8000'',
       cfg_extra_args := join_with '' ''
           [''--tensor-parallel-size 4'', ''--speculative-config.method mtp'',
            ''--speculative-config.num_speculative_tokens 1'',
            ''--tool-call-parser glm47'', ''--reasoning-parser glm45'', glm_common],
       cfg_volumes := hf_mount_default,
       cfg_runtime := runtime_default,
       cfg_description := ''GLM-4.7 FP8 with MTP speculation on 4x H200/B200.'',
       cfg_source := ''vllm-project/recipes GLM/GLM.md'',
       cfg_targets := [device_h200, device_b200],
       cfg_min_vram := 141,
       cfg_min_gpus := 4,
       cfg_quant := quant_fp8,
       cfg_arch := arch_hopper\<rparr>"

definition bkc_glm_5_1_fp8 :: bkc_config where
  "bkc_glm_5_1_fp8 = bkc_zero\<lparr>
       cfg_id := ''glm-5-1-fp8'',
       cfg_name := ''GLM-5.1 FP8'',
       cfg_workload := workload_vllm,
       cfg_model_id := ''zai-org/GLM-5.1-FP8'',
       cfg_image := image_vllm_stable,
       cfg_port := ''8000'',
       cfg_extra_args := join_with '' ''
           [''--tensor-parallel-size 8'', ''--speculative-config.method mtp'',
            ''--speculative-config.num_speculative_tokens 3'',
            ''--tool-call-parser glm47'', ''--reasoning-parser glm45'', glm_common,
            ''--chat-template-content-format=string'',
            ''--served-model-name glm-5.1-fp8''],
       cfg_volumes := hf_mount_default,
       cfg_runtime := runtime_default,
       cfg_description := ''GLM-5.1 FP8 on 8x H200/B200 with MTP speculation.'',
       cfg_source := ''vllm-project/recipes GLM/GLM5.md'',
       cfg_targets := [device_h200, device_b200],
       cfg_min_vram := 141,
       cfg_min_gpus := 8,
       cfg_quant := quant_fp8,
       cfg_arch := arch_hopper\<rparr>"

definition bkc_glm_4_5v_fp8 :: bkc_config where
  "bkc_glm_4_5v_fp8 = bkc_zero\<lparr>
       cfg_id := ''glm-4-5v-fp8'',
       cfg_name := ''GLM-4.5V FP8'',
       cfg_workload := workload_vllm,
       cfg_model_id := ''zai-org/GLM-4.5V-FP8'',
       cfg_image := image_vllm_stable,
       cfg_port := ''8000'',
       cfg_extra_args := join_with '' ''
           [''--tensor-parallel-size 4'', ''--tool-call-parser glm45'',
            ''--reasoning-parser glm45'', glm_common, ''--enable-expert-parallel'',
            ''--allowed-local-media-path /'', ''--mm-encoder-tp-mode data'',
            ''--mm-processor-cache-type shm''],
       cfg_volumes := hf_mount_default,
       cfg_runtime := runtime_default,
       cfg_description := ''GLM-4.5V FP8 multimodal on 4x H100/H200/B200.'',
       cfg_source := ''vllm-project/recipes GLM/GLM-V.md'',
       cfg_targets := [device_h100_80, device_h200, device_b200],
       cfg_min_vram := 80,
       cfg_min_gpus := 4,
       cfg_quant := quant_fp8,
       cfg_arch := arch_hopper\<rparr>"

definition bkc_glm_ocr :: bkc_config where
  "bkc_glm_ocr = bkc_zero\<lparr>
       cfg_id := ''glm-ocr'',
       cfg_name := ''GLM-OCR'',
       cfg_workload := workload_vllm,
       cfg_model_id := ''zai-org/GLM-OCR'',
       cfg_image := image_vllm_latest,
       cfg_port := ''8000'',
       cfg_extra_args := join_with '' ''
           [''--tensor-parallel-size 1''],
       cfg_volumes := hf_mount_default,
       cfg_runtime := runtime_default,
       cfg_description := (''GLM-OCR single-GPU default '' @ [CHR 0xE2, CHR 0x80, CHR 0x94] @ '' use a nightly vLLM build with transformers from source.''),
       cfg_source := ''vllm-project/recipes GLM/GLM-OCR.md'',
       cfg_targets := [device_rtx4090, device_rtx5090, device_l40s, device_a100_80, device_h100_80,
          device_h200, device_b200, device_rtxpro6000, device_gb10],
       cfg_min_vram := 16,
       cfg_min_gpus := 1,
       cfg_quant := quant_bf16,
       cfg_arch := arch_hopper\<rparr>"

definition bkc_glm_asr_nano_2512 :: bkc_config where
  "bkc_glm_asr_nano_2512 = bkc_zero\<lparr>
       cfg_id := ''glm-asr-nano-2512'',
       cfg_name := ''GLM-ASR Nano 2512'',
       cfg_workload := workload_vllm,
       cfg_model_id := ''zai-org/GLM-ASR-Nano-2512'',
       cfg_image := image_vllm_latest,
       cfg_port := ''8000'',
       cfg_extra_args := ''--tensor-parallel-size 1'',
       cfg_volumes := hf_mount_default,
       cfg_runtime := runtime_default,
       cfg_description := (''Compact GLM ASR '' @ [CHR 0xE2, CHR 0x80, CHR 0x94] @ '' runs on any modern GPU.''),
       cfg_source := ''vllm-project/recipes GLM/GLM-ASR.md'',
       cfg_targets := [device_rtx4090, device_rtx5090, device_l40s, device_a100_80, device_h100_80,
          device_h200, device_b200, device_rtxpro6000, device_gb10, device_jetsonthor],
       cfg_min_vram := 8,
       cfg_min_gpus := 1,
       cfg_quant := quant_bf16,
       cfg_arch := arch_hopper\<rparr>"

definition bkc_glyph :: bkc_config where
  "bkc_glyph = bkc_zero\<lparr>
       cfg_id := ''glyph'',
       cfg_name := ''Glyph'',
       cfg_workload := workload_vllm,
       cfg_model_id := ''zai-org/Glyph'',
       cfg_image := image_vllm_stable,
       cfg_port := ''8000'',
       cfg_extra_args := join_with '' ''
           [''--no-enable-prefix-caching'', ''--mm-processor-cache-gb 0'',
            ''--reasoning-parser glm45'', ''--limit-mm-per-prompt.video 0''],
       cfg_volumes := hf_mount_default,
       cfg_runtime := runtime_default,
       cfg_description := (''Glyph '' @ [CHR 0xE2, CHR 0x80, CHR 0x94] @ '' single-GPU H100/Blackwell serving.''),
       cfg_source := ''vllm-project/recipes GLM/Glyph.md'',
       cfg_targets := [device_h100_80, device_h200, device_b200, device_rtxpro6000, device_mi300x,
          device_mi325x],
       cfg_min_vram := 40,
       cfg_min_gpus := 1,
       cfg_quant := quant_bf16,
       cfg_arch := arch_hopper\<rparr>"

definition catalog_glm :: "bkc_config list" where
  "catalog_glm =
     [glm53_tensorfold_cfg, glm53_nvfp4_cfg, bkc_glm_4_5_air_fp8, bkc_glm_4_7_fp8,
      bkc_glm_5_1_fp8, bkc_glm_4_5v_fp8, bkc_glm_ocr, bkc_glm_asr_nano_2512, bkc_glyph]"

section \<open>Google\<close>

definition bkc_gemma_4_e2b_it :: bkc_config where
  "bkc_gemma_4_e2b_it = bkc_zero\<lparr>
       cfg_id := ''gemma-4-e2b-it'',
       cfg_name := ''Gemma 4 E2B Instruct'',
       cfg_workload := workload_vllm,
       cfg_model_id := ''google/gemma-4-E2B-it'',
       cfg_image := image_vllm_gemma4cu,
       cfg_port := ''8000'',
       cfg_extra_args := join_with '' ''
           [''--max-model-len 32768'', ''--limit-mm-per-prompt image=4,video=1''],
       cfg_volumes := hf_mount_default,
       cfg_runtime := runtime_default,
       cfg_description := (''Gemma 4 E2B multimodal '' @ [CHR 0xE2, CHR 0x80, CHR 0x94] @ '' runs on any 12 GB+ NVIDIA GPU.''),
       cfg_source := ''vllm-project/recipes Google/Gemma4.md'',
       cfg_targets := [device_rtx4090, device_rtx5090, device_l40s, device_a100_80, device_h100_80,
          device_h200, device_b200, device_rtxpro6000, device_gb10],
       cfg_min_vram := 12,
       cfg_min_gpus := 1,
       cfg_quant := quant_bf16,
       cfg_arch := arch_hopper\<rparr>"

definition bkc_gemma_4_e4b_it :: bkc_config where
  "bkc_gemma_4_e4b_it = bkc_zero\<lparr>
       cfg_id := ''gemma-4-e4b-it'',
       cfg_name := ''Gemma 4 E4B Instruct'',
       cfg_workload := workload_vllm,
       cfg_model_id := ''google/gemma-4-E4B-it'',
       cfg_image := image_vllm_gemma4cu,
       cfg_port := ''8000'',
       cfg_extra_args := join_with '' ''
           [''--max-model-len 131072''],
       cfg_volumes := hf_mount_default,
       cfg_runtime := runtime_default,
       cfg_description := (''Gemma 4 E4B Instruct '' @ [CHR 0xE2, CHR 0x80, CHR 0x94] @ '' single-GPU default, up to 131 k context.''),
       cfg_source := ''vllm-project/recipes Google/Gemma4.md'',
       cfg_targets := [device_rtx4090, device_rtx5090, device_l40s, device_a100_80, device_h100_80,
          device_h200, device_b200, device_rtxpro6000, device_gb10],
       cfg_min_vram := 16,
       cfg_min_gpus := 1,
       cfg_quant := quant_bf16,
       cfg_arch := arch_hopper\<rparr>"

definition bkc_gemma_4_26b_a4b_it :: bkc_config where
  "bkc_gemma_4_26b_a4b_it = bkc_zero\<lparr>
       cfg_id := ''gemma-4-26b-a4b-it'',
       cfg_name := ''Gemma 4 26B A4B Instruct'',
       cfg_workload := workload_vllm,
       cfg_model_id := ''google/gemma-4-26B-A4B-it'',
       cfg_image := image_vllm_gemma4cu,
       cfg_port := ''8000'',
       cfg_extra_args := join_with '' ''
           [''--max-model-len 32768'', ''--gpu-memory-utilization 0.90''],
       cfg_volumes := hf_mount_default,
       cfg_runtime := runtime_default,
       cfg_description := ''Gemma 4 26B A4B MoE single-GPU default (80 GB+).'',
       cfg_source := ''vllm-project/recipes Google/Gemma4.md'',
       cfg_targets := [device_a100_80, device_h100_80, device_h200, device_b200, device_rtxpro6000,
          device_gb10],
       cfg_min_vram := 64,
       cfg_min_gpus := 1,
       cfg_quant := quant_bf16,
       cfg_arch := arch_hopper\<rparr>"

definition bkc_gemma_4_26b_a4b_nvfp4 :: bkc_config where
  "bkc_gemma_4_26b_a4b_nvfp4 = bkc_zero\<lparr>
       cfg_id := ''gemma-4-26b-a4b-nvfp4'',
       cfg_name := ''Gemma 4 26B A4B NVFP4'',
       cfg_workload := workload_vllm,
       cfg_model_id := ''nvidia/Gemma-4-26B-A4B-NVFP4'',
       cfg_image := image_vllm_gemma4cu,
       cfg_port := ''8000'',
       cfg_extra_args := join_with '' ''
           [''--tensor-parallel-size 1'', ''--max-model-len 262144'',
            ''--max-num-seqs 30'', ''--kv-cache-dtype fp8'',
            ''--gpu-memory-utilization 0.90'',
            ''--limit-mm-per-prompt image=4,audio=0'', ''--async-scheduling'',
            ''--tool-call-parser gemma4'', ''--reasoning-parser gemma4'',
            ''--enable-auto-tool-choice'',
            ''--chat-template examples/tool_chat_template_gemma4.jinja'',
            ''--trust-remote-code''],
       cfg_volumes := hf_mount_default,
       cfg_runtime := runtime_default,
       cfg_description := ''NVFP4 Blackwell deployment of Gemma 4 26B A4B MoE with image input, 256K context, and 30 active sequences.'',
       cfg_source := ''Hugging Face nvidia/Gemma-4-26B-A4B-NVFP4; vLLM Google/Gemma4 recipe'',
       cfg_targets := [device_b200, device_rtxpro6000, device_gb10],
       cfg_min_vram := 96,
       cfg_min_gpus := 1,
       cfg_quant := quant_nvfp4,
       cfg_arch := arch_blackwell,
       cfg_notes := [''NVIDIA currently documents this checkpoint as TP=1 only in vLLM.'',
          ''Uses the Gemma 4 vLLM chat template so reasoning and tool calls are parsed correctly.'',
          ''Allows up to 4 images per request and disables audio allocation for this text/image checkpoint.'',
          ''Sets --max-num-seqs 30 with a 256K context window; full-context concurrency still depends on available KV-cache memory and image token budget.'']\<rparr>"

definition bkc_gemma_4_31b_it :: bkc_config where
  "bkc_gemma_4_31b_it = bkc_zero\<lparr>
       cfg_id := ''gemma-4-31b-it'',
       cfg_name := ''Gemma 4 31B Instruct'',
       cfg_workload := workload_vllm,
       cfg_model_id := ''google/gemma-4-31B-it'',
       cfg_image := image_vllm_gemma4cu,
       cfg_port := ''8000'',
       cfg_extra_args := join_with '' ''
           [''--tensor-parallel-size 2'', ''--max-model-len 32768'',
            ''--gpu-memory-utilization 0.90'', ''--enable-auto-tool-choice'',
            ''--tool-call-parser gemma4'', ''--reasoning-parser gemma4''],
       cfg_volumes := hf_mount_default,
       cfg_runtime := runtime_default,
       cfg_description := ''Gemma 4 31B Instruct on 2x 80 GB GPUs with tool-calling.'',
       cfg_source := ''vllm-project/recipes Google/Gemma4.md'',
       cfg_targets := [device_a100_80, device_h100_80, device_h200, device_b200, device_rtxpro6000],
       cfg_min_vram := 40,
       cfg_min_gpus := 2,
       cfg_quant := quant_bf16,
       cfg_arch := arch_hopper\<rparr>"

definition bkc_translategemma_27b_it :: bkc_config where
  "bkc_translategemma_27b_it = bkc_zero\<lparr>
       cfg_id := ''translategemma-27b-it'',
       cfg_name := ''TranslateGemma 27B Instruct'',
       cfg_workload := workload_vllm,
       cfg_model_id := ''google/translategemma-27b-it'',
       cfg_image := image_vllm_cu130,
       cfg_port := ''8000'',
       cfg_extra_args := join_with '' ''
           [''--tensor-parallel-size 1'', ''--max-model-len 8192''],
       cfg_volumes := hf_mount_default,
       cfg_runtime := runtime_default,
       cfg_description := (''Translation-tuned Gemma 27B '' @ [CHR 0xE2, CHR 0x80, CHR 0x94] @ '' single-GPU default.''),
       cfg_source := ''vllm-project/recipes Google/TranslateGemma.md'',
       cfg_targets := [device_a100_80, device_h100_80, device_h200, device_b200, device_rtxpro6000,
          device_gb10],
       cfg_min_vram := 60,
       cfg_min_gpus := 1,
       cfg_quant := quant_bf16,
       cfg_arch := arch_hopper\<rparr>"

definition catalog_google :: "bkc_config list" where
  "catalog_google =
     [bkc_gemma_4_e2b_it, bkc_gemma_4_e4b_it, bkc_gemma_4_26b_a4b_it,
      bkc_gemma_4_26b_a4b_nvfp4, bkc_gemma_4_31b_it, bkc_translategemma_27b_it]"

section \<open>Llama\<close>

definition llama_common_blackwell :: string where
  "llama_common_blackwell =
     join_with '' ''
       [''--kv-cache-dtype fp8'', ''--async-scheduling'',
        ''--no-enable-prefix-caching'', ''--max-num-batched-tokens 8192'',
        (''--compilation-config '' @ ([CHR 0x27] @ ''{'' @ [CHR 0x22] @ ''pass_config'' @ [CHR 0x22] @ '':{'' @ [CHR 0x22] @ ''fuse_allreduce_rms'' @ [CHR 0x22] @ '':true,'' @ [CHR 0x22] @ ''fuse_attn_quant'' @ [CHR 0x22] @ '':true,'' @ [CHR 0x22] @ ''eliminate_noops'' @ [CHR 0x22] @ '':true}}'' @ [CHR 0x27]))]"

definition llama_common_hopper :: string where
  "llama_common_hopper =
     join_with '' ''
       [''--kv-cache-dtype fp8'', ''--async-scheduling'',
        ''--no-enable-prefix-caching'', ''--max-num-batched-tokens 8192'']"

definition bkc_llama_3_3_70b_fp8_hopper :: bkc_config where
  "bkc_llama_3_3_70b_fp8_hopper = bkc_zero\<lparr>
       cfg_id := ''llama-3-3-70b-fp8-hopper'',
       cfg_name := ''Llama 3.3 70B Instruct FP8 (Hopper)'',
       cfg_workload := workload_vllm,
       cfg_model_id := ''nvidia/Llama-3.3-70B-Instruct-FP8'',
       cfg_image := image_vllm_stable,
       cfg_port := ''8000'',
       cfg_extra_args := join_with '' ''
           [llama_common_hopper, ''--tensor-parallel-size 1''],
       cfg_volumes := hf_mount_default,
       cfg_runtime := runtime_default,
       cfg_description := ''FP8 Llama 3.3 70B on a single Hopper GPU with async scheduling.'',
       cfg_source := ''vllm-project/recipes Llama/Llama3.3-70B.md'',
       cfg_targets := [device_h100_80, device_h100_94, device_h200, device_rtxpro6000, device_b200],
       cfg_min_vram := 80,
       cfg_min_gpus := 1,
       cfg_quant := quant_fp8,
       cfg_arch := arch_hopper,
       cfg_notes := [''FP8 weights ship with an ~70 GB footprint; requires a single 80 GB-class GPU.'',
          ''Add --tensor-parallel-size 2/4/8 on multi-GPU systems for lower per-user latency.'']\<rparr>"

definition bkc_llama_3_3_70b_fp4_blackwell :: bkc_config where
  "bkc_llama_3_3_70b_fp4_blackwell = bkc_zero\<lparr>
       cfg_id := ''llama-3-3-70b-fp4-blackwell'',
       cfg_name := ''Llama 3.3 70B Instruct FP4 (Blackwell)'',
       cfg_workload := workload_vllm,
       cfg_model_id := ''nvidia/Llama-3.3-70B-Instruct-FP4'',
       cfg_image := image_vllm_stable,
       cfg_port := ''8000'',
       cfg_extra_args := join_with '' ''
           [llama_common_blackwell, ''--tensor-parallel-size 1''],
       cfg_volumes := hf_mount_default,
       cfg_runtime := runtime_default,
       cfg_description := ''NVFP4 Llama 3.3 70B tuned for single-GPU Blackwell with all-reduce/RMS fusions enabled.'',
       cfg_source := ''vllm-project/recipes Llama/Llama3.3-70B.md'',
       cfg_targets := [device_b200, device_rtxpro6000, device_gb10],
       cfg_min_vram := 48,
       cfg_min_gpus := 1,
       cfg_quant := quant_fp4,
       cfg_arch := arch_blackwell,
       cfg_notes := [''NVFP4 weights are ~38 GB and leave ample KV-cache budget on 96 GB+ Blackwell GPUs.'',
          ''Fits DGX Spark (GB10) unified memory; use NGC container image for aarch64 hosts.'']\<rparr>"

definition bkc_llama_3_3_70b_meta_suggested_fp8 :: bkc_config where
  "bkc_llama_3_3_70b_meta_suggested_fp8 = bkc_zero\<lparr>
       cfg_id := ''llama-3-3-70b-meta-suggested-fp8'',
       cfg_name := ''Llama 3.3 70B Instruct (default suggestion)'',
       cfg_workload := workload_vllm,
       cfg_model_id := ''meta-llama/Llama-3.3-70B-Instruct'',
       cfg_image := image_vllm_stable,
       cfg_port := ''8000'',
       cfg_extra_args := join_with '' ''
           [''--tensor-parallel-size 2'', ''--async-scheduling'',
            ''--max-num-batched-tokens 8192''],
       cfg_volumes := hf_mount_default,
       cfg_runtime := runtime_default,
       cfg_description := ''Base Meta checkpoint. FP8 or FP4 NVIDIA checkpoints are strongly recommended on single-GPU targets.'',
       cfg_source := ''vllm-project/recipes Llama/Llama3.3-70B.md'',
       cfg_targets := [device_h200, device_b200],
       cfg_min_vram := 80,
       cfg_min_gpus := 2,
       cfg_quant := quant_bf16,
       cfg_arch := arch_hopper,
       cfg_notes := [(''BF16 base weights are ~140 GB '' @ [CHR 0xE2, CHR 0x80, CHR 0x94] @ '' requires TP>=2 on 80 GB GPUs.''),
          ''Consider switching to nvidia/Llama-3.3-70B-Instruct-FP8 for single-GPU deployments.'']\<rparr>"

definition bkc_llama_4_scout_fp8_hopper :: bkc_config where
  "bkc_llama_4_scout_fp8_hopper = bkc_zero\<lparr>
       cfg_id := ''llama-4-scout-fp8-hopper'',
       cfg_name := ''Llama 4 Scout 17B/16E FP8 (Hopper)'',
       cfg_workload := workload_vllm,
       cfg_model_id := ''nvidia/Llama-4-Scout-17B-16E-Instruct-FP8'',
       cfg_image := image_vllm_stable,
       cfg_port := ''8000'',
       cfg_extra_args := join_with '' ''
           [llama_common_hopper, ''--tensor-parallel-size 1''],
       cfg_volumes := hf_mount_default,
       cfg_runtime := runtime_default,
       cfg_description := ''FP8 Llama 4 Scout for single-GPU Hopper deployments.'',
       cfg_source := ''vllm-project/recipes Llama/Llama4-Scout.md'',
       cfg_targets := [device_h100_94, device_h200, device_b200, device_rtxpro6000],
       cfg_min_vram := 80,
       cfg_min_gpus := 1,
       cfg_quant := quant_fp8,
       cfg_arch := arch_hopper\<rparr>"

definition bkc_llama_4_scout_fp4_blackwell :: bkc_config where
  "bkc_llama_4_scout_fp4_blackwell = bkc_zero\<lparr>
       cfg_id := ''llama-4-scout-fp4-blackwell'',
       cfg_name := ''Llama 4 Scout 17B/16E FP4 (Blackwell)'',
       cfg_workload := workload_vllm,
       cfg_model_id := ''nvidia/Llama-4-Scout-17B-16E-Instruct-FP4'',
       cfg_image := image_vllm_stable,
       cfg_port := ''8000'',
       cfg_extra_args := join_with '' ''
           [llama_common_blackwell, ''--tensor-parallel-size 1''],
       cfg_volumes := hf_mount_default,
       cfg_runtime := runtime_default,
       cfg_description := ''NVFP4 Llama 4 Scout, fits RTX PRO 6000 or DGX Spark GB10.'',
       cfg_source := ''vllm-project/recipes Llama/Llama4-Scout.md'',
       cfg_targets := [device_b200, device_rtxpro6000, device_gb10],
       cfg_min_vram := 48,
       cfg_min_gpus := 1,
       cfg_quant := quant_fp4,
       cfg_arch := arch_blackwell\<rparr>"

definition bkc_llama_3_1_8b_instruct :: bkc_config where
  "bkc_llama_3_1_8b_instruct = bkc_zero\<lparr>
       cfg_id := ''llama-3-1-8b-instruct'',
       cfg_name := ''Llama 3.1 8B Instruct'',
       cfg_workload := workload_vllm,
       cfg_model_id := ''meta-llama/Llama-3.1-8B-Instruct'',
       cfg_image := image_vllm_stable,
       cfg_port := ''8000'',
       cfg_extra_args := join_with '' ''
           [''--tensor-parallel-size 1'', ''--max-model-len 131072'',
            ''--async-scheduling''],
       cfg_volumes := hf_mount_default,
       cfg_runtime := runtime_default,
       cfg_description := ''General-purpose Llama 3.1 8B Instruct config suitable for any 24 GB+ NVIDIA GPU.'',
       cfg_source := ''vllm-project/recipes Llama/Llama3.1.md'',
       cfg_targets := [device_rtx4090, device_rtx5090, device_l40s, device_a100_80, device_h100_80,
          device_h200, device_b200, device_rtxpro6000, device_gb10],
       cfg_min_vram := 24,
       cfg_min_gpus := 1,
       cfg_quant := quant_bf16,
       cfg_arch := arch_hopper\<rparr>"

definition catalog_llama :: "bkc_config list" where
  "catalog_llama =
     [bkc_llama_3_3_70b_fp8_hopper, bkc_llama_3_3_70b_fp4_blackwell,
      bkc_llama_3_3_70b_meta_suggested_fp8, bkc_llama_4_scout_fp8_hopper,
      bkc_llama_4_scout_fp4_blackwell, bkc_llama_3_1_8b_instruct]"

section \<open>Microsoft\<close>

definition bkc_phi_4_mini_instruct :: bkc_config where
  "bkc_phi_4_mini_instruct = bkc_zero\<lparr>
       cfg_id := ''phi-4-mini-instruct'',
       cfg_name := ''Phi-4 Mini Instruct'',
       cfg_workload := workload_vllm,
       cfg_model_id := ''microsoft/Phi-4-mini-instruct'',
       cfg_image := image_vllm_stable,
       cfg_port := ''8000'',
       cfg_extra_args := join_with '' ''
           [''--host 0.0.0.0'', ''--max-model-len 4000''],
       cfg_volumes := hf_mount_default,
       cfg_runtime := runtime_default,
       cfg_description := (''Compact Phi-4 Mini '' @ [CHR 0xE2, CHR 0x80, CHR 0x94] @ '' single-GPU, runs anywhere.''),
       cfg_source := ''vllm-project/recipes Microsoft/Phi-4.md'',
       cfg_targets := [device_rtx4090, device_rtx5090, device_l40s, device_a100_80, device_h100_80,
          device_h200, device_b200, device_rtxpro6000, device_gb10, device_jetsonthor],
       cfg_min_vram := 8,
       cfg_min_gpus := 1,
       cfg_quant := quant_bf16,
       cfg_arch := arch_hopper\<rparr>"

definition catalog_microsoft :: "bkc_config list" where
  "catalog_microsoft =
     [bkc_phi_4_mini_instruct]"

lemmas bkc_vendors_a_defs =
  bkc_deepseek_r1_0528_tp8_def bkc_deepseek_v3_1_tp8_def bkc_deepseek_v3_2_exp_dp8_def
  bkc_deepseek_v3_2_dp8_def bkc_deepseek_ocr_def bkc_deepseek_ocr_2_def glm_common_def
  bkc_glm_4_5_air_fp8_def bkc_glm_4_7_fp8_def bkc_glm_5_1_fp8_def bkc_glm_4_5v_fp8_def
  bkc_glm_ocr_def bkc_glm_asr_nano_2512_def bkc_glyph_def bkc_gemma_4_e2b_it_def
  bkc_gemma_4_e4b_it_def bkc_gemma_4_26b_a4b_it_def bkc_gemma_4_26b_a4b_nvfp4_def
  bkc_gemma_4_31b_it_def bkc_translategemma_27b_it_def llama_common_blackwell_def
  llama_common_hopper_def bkc_llama_3_3_70b_fp8_hopper_def
  bkc_llama_3_3_70b_fp4_blackwell_def bkc_llama_3_3_70b_meta_suggested_fp8_def
  bkc_llama_4_scout_fp8_hopper_def bkc_llama_4_scout_fp4_blackwell_def
  bkc_llama_3_1_8b_instruct_def bkc_phi_4_mini_instruct_def

end
