(* ===== verification/Bkc_Vendors_B.thy ===== *)
theory Bkc_Vendors_B
  imports Bkc_Catalog_Names
begin

text \<open>
  The single-node entries the catalog registers for Mistral, Moonshot AI, NVIDIA, OpenAI and others:
  the \<^verbatim>\<open>init\<close> functions of \<^verbatim>\<open>catalog_mistral.go\<close>, \<^verbatim>\<open>catalog_moonshotai.go\<close>, \<^verbatim>\<open>catalog_nvidia.go\<close>, \<^verbatim>\<open>catalog_openai.go\<close>, \<^verbatim>\<open>catalog_others.go\<close>,
  one definition per entry; a field the source leaves out has the zero value.
\<close>

section \<open>Mistral\<close>

definition mistral_common :: string where
  "mistral_common =
     join_with '' ''
       [''--tokenizer_mode mistral'', ''--config_format mistral'',
        ''--load_format mistral'', ''--enable-auto-tool-choice'',
        ''--tool-call-parser mistral'']"

definition bkc_ministral_3_14b_instruct :: bkc_config where
  "bkc_ministral_3_14b_instruct = bkc_zero\<lparr>
       cfg_id := ''ministral-3-14b-instruct'',
       cfg_name := ''Ministral 3 14B Instruct'',
       cfg_workload := workload_vllm,
       cfg_model_id := ''mistralai/Ministral-3-14B-Instruct-2512'',
       cfg_image := image_vllm_stable,
       cfg_port := ''8000'',
       cfg_extra_args := (mistral_common @ '' --tensor-parallel-size 1''),
       cfg_volumes := hf_mount_default,
       cfg_runtime := runtime_default,
       cfg_description := ''Ministral 3 14B Instruct, single-GPU default.'',
       cfg_source := ''vllm-project/recipes Mistral/Ministral-3-Instruct.md'',
       cfg_targets := [device_rtx5090, device_l40s, device_a100_80, device_h100_80, device_h200,
          device_b200, device_rtxpro6000, device_gb10],
       cfg_min_vram := 32,
       cfg_min_gpus := 1,
       cfg_quant := quant_bf16,
       cfg_arch := arch_hopper\<rparr>"

definition bkc_ministral_3_8b_reasoning :: bkc_config where
  "bkc_ministral_3_8b_reasoning = bkc_zero\<lparr>
       cfg_id := ''ministral-3-8b-reasoning'',
       cfg_name := ''Ministral 3 8B Reasoning'',
       cfg_workload := workload_vllm,
       cfg_model_id := ''mistralai/Ministral-3-8B-Reasoning-2512'',
       cfg_image := image_vllm_stable,
       cfg_port := ''8000'',
       cfg_extra_args := (mistral_common @ '' --reasoning-parser mistral --tensor-parallel-size 1''),
       cfg_volumes := hf_mount_default,
       cfg_runtime := runtime_default,
       cfg_description := (''Ministral 3 8B Reasoning '' @ [CHR 0xE2, CHR 0x80, CHR 0x94] @ '' single-GPU default.''),
       cfg_source := ''vllm-project/recipes Mistral/Ministral-3-Reasoning.md'',
       cfg_targets := [device_rtx4090, device_rtx5090, device_l40s, device_a100_80, device_h100_80,
          device_h200, device_b200, device_rtxpro6000, device_gb10],
       cfg_min_vram := 20,
       cfg_min_gpus := 1,
       cfg_quant := quant_bf16,
       cfg_arch := arch_hopper\<rparr>"

definition bkc_ministral_3_14b_reasoning :: bkc_config where
  "bkc_ministral_3_14b_reasoning = bkc_zero\<lparr>
       cfg_id := ''ministral-3-14b-reasoning'',
       cfg_name := ''Ministral 3 14B Reasoning'',
       cfg_workload := workload_vllm,
       cfg_model_id := ''mistralai/Ministral-3-14B-Reasoning-2512'',
       cfg_image := image_vllm_stable,
       cfg_port := ''8000'',
       cfg_extra_args := (mistral_common @ '' --reasoning-parser mistral --tensor-parallel-size 2''),
       cfg_volumes := hf_mount_default,
       cfg_runtime := runtime_default,
       cfg_description := ''Ministral 3 14B Reasoning with 2-way TP for low-latency reasoning.'',
       cfg_source := ''vllm-project/recipes Mistral/Ministral-3-Reasoning.md'',
       cfg_targets := [device_a100_80, device_h100_80, device_h200, device_b200, device_rtxpro6000],
       cfg_min_vram := 32,
       cfg_min_gpus := 2,
       cfg_quant := quant_bf16,
       cfg_arch := arch_hopper\<rparr>"

definition bkc_mistral_large_3_675b :: bkc_config where
  "bkc_mistral_large_3_675b = bkc_zero\<lparr>
       cfg_id := ''mistral-large-3-675b'',
       cfg_name := ''Mistral Large 3 675B Instruct'',
       cfg_workload := workload_vllm,
       cfg_model_id := ''mistralai/Mistral-Large-3-675B-Instruct-2512'',
       cfg_image := image_vllm_stable,
       cfg_port := ''8000'',
       cfg_extra_args := (mistral_common @ '' --tensor-parallel-size 8''),
       cfg_volumes := hf_mount_default,
       cfg_runtime := runtime_default,
       cfg_description := ''Mistral Large 3 BF16 on 8x H200/B200.'',
       cfg_source := ''vllm-project/recipes Mistral/Mistral-Large-3.md'',
       cfg_targets := [device_h200, device_b200],
       cfg_min_vram := 141,
       cfg_min_gpus := 8,
       cfg_quant := quant_bf16,
       cfg_arch := arch_hopper\<rparr>"

definition bkc_mistral_large_3_675b_nvfp4 :: bkc_config where
  "bkc_mistral_large_3_675b_nvfp4 = bkc_zero\<lparr>
       cfg_id := ''mistral-large-3-675b-nvfp4'',
       cfg_name := ''Mistral Large 3 675B NVFP4'',
       cfg_workload := workload_vllm,
       cfg_model_id := ''mistralai/Mistral-Large-3-675B-Instruct-2512-NVFP4'',
       cfg_image := image_vllm_stable,
       cfg_port := ''8000'',
       cfg_extra_args := (mistral_common @ '' --tensor-parallel-size 4''),
       cfg_volumes := hf_mount_default,
       cfg_runtime := runtime_default,
       cfg_description := ''NVFP4 Mistral Large 3 on 4x B200.'',
       cfg_source := ''vllm-project/recipes Mistral/Mistral-Large-3.md'',
       cfg_targets := [device_b200],
       cfg_min_vram := 180,
       cfg_min_gpus := 4,
       cfg_quant := quant_nvfp4,
       cfg_arch := arch_blackwell\<rparr>"

definition catalog_mistral :: "bkc_config list" where
  "catalog_mistral =
     [bkc_ministral_3_14b_instruct, bkc_ministral_3_8b_reasoning,
      bkc_ministral_3_14b_reasoning, bkc_mistral_large_3_675b,
      bkc_mistral_large_3_675b_nvfp4]"

section \<open>Moonshotai\<close>

definition kimi_common :: string where
  "kimi_common =
     join_with '' ''
       [''--tool-call-parser kimi_k2'', ''--reasoning-parser kimi_k2'',
        ''--enable-auto-tool-choice'', ''--trust-remote-code'']"

definition bkc_kimi_k2_instruct_tp8pp2 :: bkc_config where
  "bkc_kimi_k2_instruct_tp8pp2 = bkc_zero\<lparr>
       cfg_id := ''kimi-k2-instruct-tp8pp2'',
       cfg_name := ''Kimi-K2 Instruct FP8 (TP8 PP2)'',
       cfg_workload := workload_vllm,
       cfg_model_id := ''moonshotai/Kimi-K2-Instruct'',
       cfg_image := image_vllm_stable,
       cfg_port := ''8000'',
       cfg_extra_args := join_with '' ''
           [''--trust-remote-code'', ''--tokenizer-mode auto'',
            ''--tensor-parallel-size 8'', ''--pipeline-parallel-size 2'',
            ''--dtype bfloat16'', ''--quantization fp8'', ''--max-model-len 2048'',
            ''--max-num-seqs 1'', ''--max-num-batched-tokens 1024'',
            ''--enable-chunked-prefill'', ''--disable-log-requests'',
            ''--kv-cache-dtype fp8'', ''-dcp 8''],
       cfg_volumes := hf_mount_default,
       cfg_runtime := runtime_default,
       cfg_description := ''Kimi-K2 Instruct FP8 on 16x H200 across 2 nodes.'',
       cfg_source := ''vllm-project/recipes moonshotai/Kimi-K2.md'',
       cfg_targets := [device_h200, device_b200],
       cfg_min_vram := 141,
       cfg_min_gpus := 16,
       cfg_quant := quant_fp8,
       cfg_arch := arch_hopper\<rparr>"

definition bkc_kimi_k2_5_tp8 :: bkc_config where
  "bkc_kimi_k2_5_tp8 = bkc_zero\<lparr>
       cfg_id := ''kimi-k2-5-tp8'',
       cfg_name := ''Kimi-K2.5'',
       cfg_workload := workload_vllm,
       cfg_model_id := ''moonshotai/Kimi-K2.5'',
       cfg_image := image_vllm_stable,
       cfg_port := ''8000'',
       cfg_extra_args := (kimi_common @ '' -tp 8 --mm-encoder-tp-mode data''),
       cfg_volumes := hf_mount_default,
       cfg_runtime := runtime_default,
       cfg_description := ''Kimi-K2.5 multimodal on 8x H200/B200.'',
       cfg_source := ''vllm-project/recipes moonshotai/Kimi-K2.5.md'',
       cfg_targets := [device_h200, device_b200],
       cfg_min_vram := 141,
       cfg_min_gpus := 8,
       cfg_quant := quant_bf16,
       cfg_arch := arch_hopper\<rparr>"

definition bkc_kimi_k2_5_nvfp4 :: bkc_config where
  "bkc_kimi_k2_5_nvfp4 = bkc_zero\<lparr>
       cfg_id := ''kimi-k2-5-nvfp4'',
       cfg_name := ''Kimi-K2.5 NVFP4'',
       cfg_workload := workload_vllm,
       cfg_model_id := ''nvidia/Kimi-K2.5-NVFP4'',
       cfg_image := image_vllm_stable,
       cfg_port := ''8000'',
       cfg_extra_args := join_with '' ''
           [kimi_common, ''-tp 4'', ''--mm-encoder-tp-mode data'',
            ''--compilation_config.pass_config.fuse_allreduce_rms true''],
       cfg_volumes := hf_mount_default,
       cfg_runtime := runtime_default,
       cfg_description := ''NVFP4 Kimi-K2.5 on 4x B200.'',
       cfg_source := ''vllm-project/recipes moonshotai/Kimi-K2.5.md'',
       cfg_targets := [device_b200],
       cfg_min_vram := 180,
       cfg_min_gpus := 4,
       cfg_quant := quant_nvfp4,
       cfg_arch := arch_blackwell\<rparr>"

definition bkc_kimi_k2_thinking_tp8 :: bkc_config where
  "bkc_kimi_k2_thinking_tp8 = bkc_zero\<lparr>
       cfg_id := ''kimi-k2-thinking-tp8'',
       cfg_name := ''Kimi-K2 Thinking'',
       cfg_workload := workload_vllm,
       cfg_model_id := ''moonshotai/Kimi-K2-Thinking'',
       cfg_image := image_vllm_stable,
       cfg_port := ''8000'',
       cfg_extra_args := (kimi_common @ '' --tensor-parallel-size 8''),
       cfg_volumes := hf_mount_default,
       cfg_runtime := runtime_default,
       cfg_description := (''Kimi-K2 Thinking '' @ [CHR 0xE2, CHR 0x80, CHR 0x94] @ '' 8x H200/B200 with reasoning parser.''),
       cfg_source := ''vllm-project/recipes moonshotai/Kimi-K2-Think.md'',
       cfg_targets := [device_h200, device_b200],
       cfg_min_vram := 141,
       cfg_min_gpus := 8,
       cfg_quant := quant_bf16,
       cfg_arch := arch_hopper\<rparr>"

definition bkc_kimi_linear_48b_a3b_tp4 :: bkc_config where
  "bkc_kimi_linear_48b_a3b_tp4 = bkc_zero\<lparr>
       cfg_id := ''kimi-linear-48b-a3b-tp4'',
       cfg_name := ''Kimi-Linear 48B A3B Instruct (TP4)'',
       cfg_workload := workload_vllm,
       cfg_model_id := ''moonshotai/Kimi-Linear-48B-A3B-Instruct'',
       cfg_image := image_vllm_stable,
       cfg_port := ''8000'',
       cfg_extra_args := join_with '' ''
           [''--tensor-parallel-size 4'', ''--max-model-len 1048576'',
            ''--trust-remote-code''],
       cfg_volumes := hf_mount_default,
       cfg_runtime := runtime_default,
       cfg_description := ''Kimi-Linear 48B A3B on 4x Hopper/Blackwell with 1M context.'',
       cfg_source := ''vllm-project/recipes moonshotai/Kimi-Linear.md'',
       cfg_targets := [device_h100_94, device_h200, device_b200, device_rtxpro6000],
       cfg_min_vram := 80,
       cfg_min_gpus := 4,
       cfg_quant := quant_bf16,
       cfg_arch := arch_hopper\<rparr>"

definition catalog_moonshotai :: "bkc_config list" where
  "catalog_moonshotai =
     [bkc_kimi_k2_instruct_tp8pp2, bkc_kimi_k2_5_tp8, bkc_kimi_k2_5_nvfp4,
      bkc_kimi_k2_thinking_tp8, bkc_kimi_linear_48b_a3b_tp4]"

section \<open>Nvidia\<close>

definition bkc_nemotron_3_super_nvfp4 :: bkc_config where
  "bkc_nemotron_3_super_nvfp4 = bkc_zero\<lparr>
       cfg_id := ''nemotron-3-super-nvfp4'',
       cfg_name := ''Nemotron 3 Super NVFP4'',
       cfg_workload := workload_vllm,
       cfg_model_id := ''nvidia/NVIDIA-Nemotron-3-Super-120B-A12B-NVFP4'',
       cfg_image := ''vllm/vllm-openai:v0.17.0-cu130'',
       cfg_port := ''8888'',
       cfg_extra_args := join_with '' ''
           [''--tokenizer nvidia/NVIDIA-Nemotron-3-Super-120B-A12B-NVFP4'',
            ''--served-model-name nemotron-3-super-nvfp4'',
            ''--tensor-parallel-size 1'', ''--gpu-memory-utilization 0.90'',
            ''--max-model-len 262144'', ''--max-num-seqs 8'',
            ''--max-num-batched-tokens 16384'', ''--kv-cache-dtype fp8'',
            ''--enable-prefix-caching'', ''--enable-chunked-prefill'',
            ''--trust-remote-code''],
       cfg_env := [(''VLLM_ATTENTION_BACKEND'', ''FLASHINFER''),
          (''VLLM_NVFP4_GEMM_BACKEND'', ''marlin''),
          (''VLLM_TEST_FORCE_FP8_MARLIN'', ''1''),
          (''VLLM_MARLIN_USE_ATOMIC_ADD'', ''1''), (''VLLM_FP8_BACKEND'', ''marlin''),
          (''VLLM_SCALED_MM_BACKEND'', ''marlin'')],
       cfg_volumes := hf_mount_default,
       cfg_plugins := [''vllm-reasoning-parser-super-v3''],
       cfg_runtime := runtime_default,
       cfg_description := ''Best known vLLM config derived from the local vllm-model-template for Nemotron Super.'',
       cfg_source := ''~/genai/vllm-model-template/.envrc'',
       cfg_targets := [device_rtxpro6000, device_b200, device_h200, device_h100_94],
       cfg_min_vram := 80,
       cfg_min_gpus := 1,
       cfg_quant := quant_nvfp4,
       cfg_arch := arch_blackwell,
       cfg_notes := [''Prefills image, port, core vLLM flags, and required runtime env vars.'',
          ''Includes a persistent Hugging Face cache mount so weights are reused on the host.'',
          ''Adds the Super V3 reasoning parser plugin and matching runtime settings.'']\<rparr>"

definition bkc_nemotron_3_nano_omni_30b_a3b_reasoning_nvfp4 :: bkc_config where
  "bkc_nemotron_3_nano_omni_30b_a3b_reasoning_nvfp4 = bkc_zero\<lparr>
       cfg_id := ''nemotron-3-nano-omni-30b-a3b-reasoning-nvfp4'',
       cfg_name := ''Nemotron 3 Nano Omni 30B A3B Reasoning NVFP4'',
       cfg_workload := workload_vllm,
       cfg_model_id := ''nvidia/Nemotron-3-Nano-Omni-30B-A3B-Reasoning-NVFP4'',
       cfg_image := image_vllm_020audio,
       cfg_port := ''8000'',
       cfg_extra_args := join_with '' ''
           [''--trust-remote-code'', ''--tensor-parallel-size 1'',
            ''--max-model-len 131072'', ''--max-num-seqs 384'',
            ''--video-pruning-rate 0.5'', ''--allowed-local-media-path /'',
            (''--media-io-kwargs {'' @ [CHR 0x22] @ ''video'' @ [CHR 0x22] @ '':{'' @ [CHR 0x22] @ ''fps'' @ [CHR 0x22] @ '':2,'' @ [CHR 0x22] @ ''num_frames'' @ [CHR 0x22] @ '':256}}''),
            ''--reasoning-parser nemotron_v3'', ''--enable-auto-tool-choice'',
            ''--tool-call-parser qwen3_coder'', ''--kv-cache-dtype fp8''],
       cfg_volumes := hf_mount_default,
       cfg_runtime := runtime_default,
       cfg_description := ''NVIDIA Nemotron-3-Nano-Omni-30B-A3B-Reasoning NVFP4 vLLM config for multimodal Blackwell inference with audio dependencies preinstalled.'',
       cfg_source := ''https://huggingface.co/nvidia/Nemotron-3-Nano-Omni-30B-A3B-Reasoning-NVFP4'',
       cfg_targets := [device_rtx5090, device_rtxpro6000, device_b200],
       cfg_min_vram := 32,
       cfg_min_gpus := 1,
       cfg_quant := quant_nvfp4,
       cfg_arch := arch_blackwell,
       cfg_notes := [''Uses a vLLM 0.20.0-derived image with vllm[audio] preinstalled for audio inputs and videos with audio tracks.'',
          (''Uses NVIDIA'' @ [CHR 0x27] @ ''s general 128K-context vLLM launch recipe, FP8 KV cache, nemotron_v3 reasoning parser, and Qwen3 Coder tool-call parser.''),
          ''NVFP4 weights are about 21 GB; use the separate GB10 / DGX Spark BKC for Spark-specific memory settings.'']\<rparr>"

definition bkc_nemotron_3_nano_omni_30b_a3b_reasoning_nvfp4_gb10 :: bkc_config where
  "bkc_nemotron_3_nano_omni_30b_a3b_reasoning_nvfp4_gb10 = bkc_zero\<lparr>
       cfg_id := ''nemotron-3-nano-omni-30b-a3b-reasoning-nvfp4-gb10'',
       cfg_name := ''Nemotron 3 Nano Omni 30B A3B Reasoning NVFP4 (GB10 / DGX Spark)'',
       cfg_workload := workload_vllm,
       cfg_model_id := ''nvidia/Nemotron-3-Nano-Omni-30B-A3B-Reasoning-NVFP4'',
       cfg_image := image_vllm_020audio,
       cfg_port := ''8000'',
       cfg_extra_args := join_with '' ''
           [''--trust-remote-code'', ''--served-model-name nemotron_3_nano_omni'',
            ''--max-model-len 131072'', ''--max-num-seqs 8'',
            ''--gpu-memory-utilization 0.8'',
            (''--limit-mm-per-prompt {'' @ [CHR 0x22] @ ''video'' @ [CHR 0x22] @ '':1,'' @ [CHR 0x22] @ ''image'' @ [CHR 0x22] @ '':1,'' @ [CHR 0x22] @ ''audio'' @ [CHR 0x22] @ '':1}''),
            (''--media-io-kwargs {'' @ [CHR 0x22] @ ''video'' @ [CHR 0x22] @ '':{'' @ [CHR 0x22] @ ''fps'' @ [CHR 0x22] @ '':2,'' @ [CHR 0x22] @ ''num_frames'' @ [CHR 0x22] @ '':256}}''),
            ''--allowed-local-media-path /'', ''--enable-prefix-caching'',
            ''--max-num-batched-tokens 32768'', ''--reasoning-parser nemotron_v3'',
            ''--enable-auto-tool-choice'', ''--tool-call-parser qwen3_coder'',
            ''--kv-cache-dtype fp8''],
       cfg_volumes := hf_mount_default,
       cfg_runtime := runtime_default,
       cfg_description := ''DGX Spark / GB10 vLLM deployment of Nemotron-3-Nano-Omni-30B-A3B-Reasoning NVFP4 with audio dependencies preinstalled.'',
       cfg_source := ''https://huggingface.co/nvidia/Nemotron-3-Nano-Omni-30B-A3B-Reasoning-NVFP4'',
       cfg_targets := [device_gb10],
       cfg_min_vram := 32,
       cfg_min_gpus := 1,
       cfg_quant := quant_nvfp4,
       cfg_arch := arch_blackwell,
       cfg_notes := [(''Uses NVIDIA'' @ [CHR 0x27] @ ''s DGX Spark vLLM recipe with lower concurrency and explicit multimodal limits to avoid the generic 384-sequence launch on GB10.''),
          ''The vLLM 0.20.0-derived image must include vllm[audio] because Spark audio/video-audio use cases require audio extras before vLLM starts.'',
          ''If Spark runs out of unified memory, reduce --gpu-memory-utilization toward 0.70 or lower --max-model-len toward 32768.'']\<rparr>"

definition bkc_nemotron_3_nano_30b_a3b_fp8 :: bkc_config where
  "bkc_nemotron_3_nano_30b_a3b_fp8 = bkc_zero\<lparr>
       cfg_id := ''nemotron-3-nano-30b-a3b-fp8'',
       cfg_name := ''Nemotron 3 Nano 30B A3B FP8'',
       cfg_workload := workload_vllm,
       cfg_model_id := ''nvidia/NVIDIA-Nemotron-3-Nano-30B-A3B-FP8'',
       cfg_image := image_vllm_stable,
       cfg_port := ''8000'',
       cfg_extra_args := join_with '' ''
           [''--trust-remote-code'', ''--async-scheduling'', ''--kv-cache-dtype fp8'',
            ''--tensor-parallel-size 1'', ''--max-model-len 262144'',
            ''--max-num-seqs 8'', ''--enable-auto-tool-choice'',
            ''--tool-call-parser qwen3_coder''],
       cfg_env := [(''VLLM_USE_FLASHINFER_MOE_FP8'', ''1''),
          (''VLLM_FLASHINFER_MOE_BACKEND'', ''throughput'')],
       cfg_volumes := hf_mount_default,
       cfg_runtime := runtime_default,
       cfg_description := ''NVIDIA Nemotron-3-Nano-30B-A3B FP8 for single-GPU Blackwell / Hopper deployments.'',
       cfg_source := ''vllm-project/recipes NVIDIA/Nemotron-3-Nano-30B-A3B.md'',
       cfg_targets := [device_h100_80, device_h100_94, device_h200, device_b200, device_rtxpro6000],
       cfg_min_vram := 48,
       cfg_min_gpus := 1,
       cfg_quant := quant_fp8,
       cfg_arch := arch_hopper,
       cfg_notes := [''Uses FlashInfer FP8 MoE (throughput-tuned) as recommended in the NVIDIA recipe.'',
          ''Enables the Qwen3-style tool-call parser for function calling.'']\<rparr>"

definition bkc_nemotron_3_nano_30b_a3b_bf16 :: bkc_config where
  "bkc_nemotron_3_nano_30b_a3b_bf16 = bkc_zero\<lparr>
       cfg_id := ''nemotron-3-nano-30b-a3b-bf16'',
       cfg_name := ''Nemotron 3 Nano 30B A3B BF16'',
       cfg_workload := workload_vllm,
       cfg_model_id := ''nvidia/NVIDIA-Nemotron-3-Nano-30B-A3B-BF16'',
       cfg_image := image_vllm_stable,
       cfg_port := ''8000'',
       cfg_extra_args := join_with '' ''
           [''--trust-remote-code'', ''--async-scheduling'',
            ''--tensor-parallel-size 1'', ''--max-model-len 262144'',
            ''--max-num-seqs 8'', ''--enable-auto-tool-choice'',
            ''--tool-call-parser qwen3_coder''],
       cfg_volumes := hf_mount_default,
       cfg_runtime := runtime_default,
       cfg_description := ''NVIDIA Nemotron-3-Nano-30B-A3B BF16 for single-GPU Hopper/Blackwell deployments.'',
       cfg_source := ''vllm-project/recipes NVIDIA/Nemotron-3-Nano-30B-A3B.md'',
       cfg_targets := [device_h100_80, device_h200, device_b200, device_rtxpro6000, device_gb10],
       cfg_min_vram := 72,
       cfg_min_gpus := 1,
       cfg_quant := quant_bf16,
       cfg_arch := arch_hopper,
       cfg_notes := [''BF16 variant keeps full-precision accuracy at the cost of ~60 GB VRAM.'',
          ''On DGX Spark GB10 use the NGC container (nvcr.io/nvidia/vllm:25.12.post1-py3).'']\<rparr>"

definition bkc_nemotron_3_nano_30b_a3b_bf16_gb10 :: bkc_config where
  "bkc_nemotron_3_nano_30b_a3b_bf16_gb10 = bkc_zero\<lparr>
       cfg_id := ''nemotron-3-nano-30b-a3b-bf16-gb10'',
       cfg_name := ''Nemotron 3 Nano 30B A3B BF16 (GB10 / DGX Spark)'',
       cfg_workload := workload_vllm,
       cfg_model_id := ''nvidia/NVIDIA-Nemotron-3-Nano-30B-A3B-BF16'',
       cfg_image := image_vllm_ngc,
       cfg_port := ''8000'',
       cfg_extra_args := join_with '' ''
           [''--trust-remote-code'', ''--tensor-parallel-size 1'',
            ''--max-model-len 262144'', ''--max-num-seqs 8'',
            ''--enable-auto-tool-choice'', ''--tool-call-parser qwen3_coder'',
            ''--reasoning-parser-plugin nano_v3_reasoning_parser.py'',
            ''--reasoning-parser nano_v3''],
       cfg_volumes := hf_mount_default,
       cfg_runtime := runtime_default,
       cfg_description := ''DGX Spark (GB10) BF16 deployment of Nemotron-3-Nano-30B-A3B.'',
       cfg_source := ''vllm-project/recipes NVIDIA/Nemotron-3-Nano-30B-A3B.md'',
       cfg_targets := [device_gb10],
       cfg_min_vram := 72,
       cfg_min_gpus := 1,
       cfg_quant := quant_bf16,
       cfg_arch := arch_blackwell,
       cfg_notes := [''Uses the NGC aarch64 vLLM container built for DGX Spark.'',
          ''Loads the nano_v3 reasoning parser shipped with the BF16 checkpoint.'']\<rparr>"

definition bkc_nemotron_3_nano_30b_a3b_bf16_jetson_thor :: bkc_config where
  "bkc_nemotron_3_nano_30b_a3b_bf16_jetson_thor = bkc_zero\<lparr>
       cfg_id := ''nemotron-3-nano-30b-a3b-bf16-jetson-thor'',
       cfg_name := ''Nemotron 3 Nano 30B A3B BF16 (Jetson Thor)'',
       cfg_workload := workload_vllm,
       cfg_model_id := ''nvidia/NVIDIA-Nemotron-3-Nano-30B-A3B-BF16'',
       cfg_image := image_vllm_jetson,
       cfg_port := ''8000'',
       cfg_extra_args := join_with '' ''
           [''--trust-remote-code'', ''--tensor-parallel-size 1'',
            ''--max-model-len 262144'', ''--max-num-seqs 8'',
            ''--enable-auto-tool-choice'', ''--tool-call-parser qwen3_coder'',
            ''--reasoning-parser-plugin nano_v3_reasoning_parser.py'',
            ''--reasoning-parser nano_v3''],
       cfg_volumes := hf_mount_default,
       cfg_runtime := runtime_default,
       cfg_description := ''Jetson Thor BF16 deployment of Nemotron-3-Nano-30B-A3B.'',
       cfg_source := ''vllm-project/recipes NVIDIA/Nemotron-3-Nano-30B-A3B.md'',
       cfg_targets := [device_jetsonthor],
       cfg_min_vram := 72,
       cfg_min_gpus := 1,
       cfg_quant := quant_bf16,
       cfg_arch := arch_blackwell,
       cfg_notes := [''Uses the NVIDIA-provided Jetson Thor vLLM image from GHCR.'']\<rparr>"

definition bkc_nemotron_nano_12b_v2_vl_bf16 :: bkc_config where
  "bkc_nemotron_nano_12b_v2_vl_bf16 = bkc_zero\<lparr>
       cfg_id := ''nemotron-nano-12b-v2-vl-bf16'',
       cfg_name := ''Nemotron Nano 12B v2 VL BF16'',
       cfg_workload := workload_vllm,
       cfg_model_id := ''nvidia/NVIDIA-Nemotron-Nano-12B-v2-VL-BF16'',
       cfg_image := image_vllm_ngc,
       cfg_port := ''8000'',
       cfg_extra_args := join_with '' ''
           [''--trust-remote-code'', ''--tensor-parallel-size 1'',
            ''--max-model-len 131072'',
            ''--served-model-name nvidia/NVIDIA-Nemotron-Nano-12B-v2-VL-BF16''],
       cfg_volumes := hf_mount_default,
       cfg_runtime := runtime_default,
       cfg_description := ''Compact BF16 vision-language Nemotron fitting a single data-centre or workstation GPU.'',
       cfg_source := ''vllm-project/recipes NVIDIA/Nemotron-Nano-12B-v2-VL.md'',
       cfg_targets := [device_h100_80, device_h200, device_b200, device_rtxpro6000, device_a100_80,
          device_gb10],
       cfg_min_vram := 32,
       cfg_min_gpus := 1,
       cfg_quant := quant_bf16,
       cfg_arch := arch_hopper,
       cfg_notes := [''NVIDIA recommends the 25.12 NGC container or a nightly vLLM 0.12+ build.'']\<rparr>"

definition bkc_nemotron_nano_12b_v2_vl_fp8 :: bkc_config where
  "bkc_nemotron_nano_12b_v2_vl_fp8 = bkc_zero\<lparr>
       cfg_id := ''nemotron-nano-12b-v2-vl-fp8'',
       cfg_name := ''Nemotron Nano 12B v2 VL FP8'',
       cfg_workload := workload_vllm,
       cfg_model_id := ''nvidia/NVIDIA-Nemotron-Nano-12B-v2-VL-FP8'',
       cfg_image := image_vllm_ngc,
       cfg_port := ''8000'',
       cfg_extra_args := join_with '' ''
           [''--trust-remote-code'', ''--kv-cache-dtype fp8'',
            ''--tensor-parallel-size 1'', ''--max-model-len 131072''],
       cfg_volumes := hf_mount_default,
       cfg_runtime := runtime_default,
       cfg_description := ''FP8 vision-language Nemotron tuned for single-GPU Blackwell / Hopper inference.'',
       cfg_source := ''vllm-project/recipes NVIDIA/Nemotron-Nano-12B-v2-VL.md'',
       cfg_targets := [device_h100_80, device_h200, device_b200, device_rtxpro6000, device_l40s,
          device_gb10],
       cfg_min_vram := 24,
       cfg_min_gpus := 1,
       cfg_quant := quant_fp8,
       cfg_arch := arch_hopper\<rparr>"

definition bkc_nemotron_nano_12b_v2_vl_nvfp4 :: bkc_config where
  "bkc_nemotron_nano_12b_v2_vl_nvfp4 = bkc_zero\<lparr>
       cfg_id := ''nemotron-nano-12b-v2-vl-nvfp4'',
       cfg_name := ''Nemotron Nano 12B v2 VL NVFP4 (QAD)'',
       cfg_workload := workload_vllm,
       cfg_model_id := ''nvidia/NVIDIA-Nemotron-Nano-12B-v2-VL-NVFP4-QAD'',
       cfg_image := image_vllm_ngc,
       cfg_port := ''8000'',
       cfg_extra_args := join_with '' ''
           [''--trust-remote-code'', ''--kv-cache-dtype fp8'',
            ''--tensor-parallel-size 1'', ''--max-model-len 131072''],
       cfg_volumes := hf_mount_default,
       cfg_runtime := runtime_default,
       cfg_description := ''NVFP4 Blackwell-optimised vision-language Nemotron, ~8 GB weights.'',
       cfg_source := ''vllm-project/recipes NVIDIA/Nemotron-Nano-12B-v2-VL.md'',
       cfg_targets := [device_b200, device_rtxpro6000, device_gb10, device_rtx5090],
       cfg_min_vram := 16,
       cfg_min_gpus := 1,
       cfg_quant := quant_nvfp4,
       cfg_arch := arch_blackwell\<rparr>"

definition catalog_nvidia :: "bkc_config list" where
  "catalog_nvidia =
     [bkc_nemotron_3_super_nvfp4, bkc_nemotron_3_nano_omni_30b_a3b_reasoning_nvfp4,
      bkc_nemotron_3_nano_omni_30b_a3b_reasoning_nvfp4_gb10,
      bkc_nemotron_3_nano_30b_a3b_fp8, bkc_nemotron_3_nano_30b_a3b_bf16,
      bkc_nemotron_3_nano_30b_a3b_bf16_gb10,
      bkc_nemotron_3_nano_30b_a3b_bf16_jetson_thor, bkc_nemotron_nano_12b_v2_vl_bf16,
      bkc_nemotron_nano_12b_v2_vl_fp8, bkc_nemotron_nano_12b_v2_vl_nvfp4]"

section \<open>Openai\<close>

definition gpt_oss_blackwell :: string where
  "gpt_oss_blackwell =
     join_with '' ''
       [''--kv-cache-dtype fp8'', ''--no-enable-prefix-caching'',
        ''--max-cudagraph-capture-size 2048'', ''--max-num-batched-tokens 8192'',
        ''--stream-interval 20'']"

definition gpt_oss_hopper :: string where
  "gpt_oss_hopper =
     join_with '' ''
       [''--no-enable-prefix-caching'', ''--max-cudagraph-capture-size 2048'',
        ''--max-num-batched-tokens 8192'', ''--stream-interval 20'']"

definition bkc_gpt_oss_20b :: bkc_config where
  "bkc_gpt_oss_20b = bkc_zero\<lparr>
       cfg_id := ''gpt-oss-20b'',
       cfg_name := ''GPT-OSS 20B (MXFP4)'',
       cfg_workload := workload_vllm,
       cfg_model_id := ''openai/gpt-oss-20b'',
       cfg_image := image_vllm_latest,
       cfg_port := ''8000'',
       cfg_extra_args := join_with '' ''
           [gpt_oss_hopper, ''--tensor-parallel-size 1''],
       cfg_volumes := hf_mount_default,
       cfg_runtime := runtime_default,
       cfg_description := (''GPT-OSS 20B native MXFP4 '' @ [CHR 0xE2, CHR 0x80, CHR 0x94] @ '' single-GPU default for Hopper, Ada, and workstation Blackwell.''),
       cfg_source := ''vllm-project/recipes OpenAI/GPT-OSS.md'',
       cfg_targets := [device_a100_80, device_h100_80, device_h200, device_b200, device_rtxpro6000,
          device_rtx5090, device_l40s, device_gb10],
       cfg_min_vram := 24,
       cfg_min_gpus := 1,
       cfg_quant := quant_mxfp4,
       cfg_arch := arch_hopper,
       cfg_notes := [''Streams tokens every 20 iterations to maximise throughput.'',
          (''Disables prefix caching for consistent benchmark numbers '' @ [CHR 0xE2, CHR 0x80, CHR 0x94] @ '' flip for production.'')]\<rparr>"

definition bkc_gpt_oss_20b_blackwell :: bkc_config where
  "bkc_gpt_oss_20b_blackwell = bkc_zero\<lparr>
       cfg_id := ''gpt-oss-20b-blackwell'',
       cfg_name := ''GPT-OSS 20B (MXFP4, Blackwell)'',
       cfg_workload := workload_vllm,
       cfg_model_id := ''openai/gpt-oss-20b'',
       cfg_image := image_vllm_latest,
       cfg_port := ''8000'',
       cfg_extra_args := join_with '' ''
           [gpt_oss_blackwell, ''--tensor-parallel-size 1''],
       cfg_env := [(''VLLM_USE_FLASHINFER_MOE_MXFP4_MXFP8'', ''1'')],
       cfg_volumes := hf_mount_default,
       cfg_runtime := runtime_default,
       cfg_description := ''GPT-OSS 20B tuned for Blackwell with FlashInfer MXFP4+MXFP8 MoE kernels.'',
       cfg_source := ''vllm-project/recipes OpenAI/GPT-OSS.md'',
       cfg_targets := [device_b200, device_rtxpro6000, device_gb10],
       cfg_min_vram := 24,
       cfg_min_gpus := 1,
       cfg_quant := quant_mxfp4,
       cfg_arch := arch_blackwell\<rparr>"

definition bkc_gpt_oss_120b :: bkc_config where
  "bkc_gpt_oss_120b = bkc_zero\<lparr>
       cfg_id := ''gpt-oss-120b'',
       cfg_name := ''GPT-OSS 120B (MXFP4)'',
       cfg_workload := workload_vllm,
       cfg_model_id := ''openai/gpt-oss-120b'',
       cfg_image := image_vllm_latest,
       cfg_port := ''8000'',
       cfg_extra_args := join_with '' ''
           [gpt_oss_hopper, ''--tensor-parallel-size 1''],
       cfg_volumes := hf_mount_default,
       cfg_runtime := runtime_default,
       cfg_description := (''GPT-OSS 120B single-GPU default '' @ [CHR 0xE2, CHR 0x80, CHR 0x94] @ '' validated on H100/H200/B200/MI300X.''),
       cfg_source := ''vllm-project/recipes OpenAI/GPT-OSS.md'',
       cfg_targets := [device_h100_80, device_h200, device_b200, device_rtxpro6000, device_a100_80],
       cfg_min_vram := 80,
       cfg_min_gpus := 1,
       cfg_quant := quant_mxfp4,
       cfg_arch := arch_hopper,
       cfg_notes := [''On H100 TP1, raise --gpu-memory-utilization to 0.95 and drop batched tokens to 1024 to avoid OOM.'',
          ''Scale --tensor-parallel-size to 2/4/8 for lower per-user latencies.'']\<rparr>"

definition bkc_gpt_oss_120b_blackwell :: bkc_config where
  "bkc_gpt_oss_120b_blackwell = bkc_zero\<lparr>
       cfg_id := ''gpt-oss-120b-blackwell'',
       cfg_name := ''GPT-OSS 120B (MXFP4, Blackwell)'',
       cfg_workload := workload_vllm,
       cfg_model_id := ''openai/gpt-oss-120b'',
       cfg_image := image_vllm_latest,
       cfg_port := ''8000'',
       cfg_extra_args := join_with '' ''
           [gpt_oss_blackwell, ''--tensor-parallel-size 1''],
       cfg_env := [(''VLLM_USE_FLASHINFER_MOE_MXFP4_MXFP8'', ''1'')],
       cfg_volumes := hf_mount_default,
       cfg_runtime := runtime_default,
       cfg_description := ''GPT-OSS 120B tuned for Blackwell with FlashInfer MoE and FP8 KV cache.'',
       cfg_source := ''vllm-project/recipes OpenAI/GPT-OSS.md'',
       cfg_targets := [device_b200, device_rtxpro6000, device_gb10],
       cfg_min_vram := 80,
       cfg_min_gpus := 1,
       cfg_quant := quant_mxfp4,
       cfg_arch := arch_blackwell,
       cfg_notes := [''Requires compute capability 10.0 (B200, RTX PRO 6000 Blackwell, GB10).'']\<rparr>"

definition bkc_gpt_oss_120b_amd_mi355x :: bkc_config where
  "bkc_gpt_oss_120b_amd_mi355x = bkc_zero\<lparr>
       cfg_id := ''gpt-oss-120b-amd-mi355x'',
       cfg_name := ''GPT-OSS 120B (AMD MI355X)'',
       cfg_workload := workload_vllm,
       cfg_model_id := ''amd/gpt-oss-120b-w-mxfp4-a-fp8'',
       cfg_image := image_vllm_latest,
       cfg_port := ''8000'',
       cfg_extra_args := join_with '' ''
           [''--tensor-parallel-size 8'',
            ''--attention-backend ROCM_AITER_UNIFIED_ATTN'',
            ''-cc.pass_config.fuse_rope_kvcache=True'',
            ''-cc.use_inductor_graph_partition=True'',
            ''--gpu-memory-utilization 0.95'', ''--block-size 64''],
       cfg_env := [(''HSA_NO_SCRATCH_RECLAIM'', ''1''), (''AMDGCN_USE_BUFFER_OPS'', ''0''),
          (''VLLM_ROCM_USE_AITER'', ''1''),
          (''VLLM_ROCM_QUICK_REDUCE_QUANTIZATION'', ''INT4'')],
       cfg_volumes := hf_mount_default,
       cfg_runtime := runtime_default,
       cfg_description := ''Quark-quantised GPT-OSS 120B with FP8 activations for AMD MI355X (8x TP).'',
       cfg_source := ''vllm-project/recipes OpenAI/GPT-OSS.md'',
       cfg_targets := [device_mi355x],
       cfg_min_vram := 128,
       cfg_min_gpus := 8,
       cfg_quant := quant_mxfp4,
       cfg_arch := arch_cdna4\<rparr>"

definition catalog_openai :: "bkc_config list" where
  "catalog_openai =
     [bkc_gpt_oss_20b, bkc_gpt_oss_20b_blackwell, bkc_gpt_oss_120b,
      bkc_gpt_oss_120b_blackwell, bkc_gpt_oss_120b_amd_mi355x]"

section \<open>Others\<close>

definition bkc_minimax_m2_tp4 :: bkc_config where
  "bkc_minimax_m2_tp4 = bkc_zero\<lparr>
       cfg_id := ''minimax-m2-tp4'',
       cfg_name := ''MiniMax-M2.7 (TP4)'',
       cfg_workload := workload_vllm,
       cfg_model_id := ''MiniMaxAI/MiniMax-M2.7'',
       cfg_image := image_vllm_stable,
       cfg_port := ''8000'',
       cfg_extra_args := join_with '' ''
           [''--tensor-parallel-size 4'', ''--tool-call-parser minimax_m2'',
            ''--reasoning-parser minimax_m2'',
            (''--compilation-config '' @ ([CHR 0x27] @ ''{'' @ [CHR 0x22] @ ''mode'' @ [CHR 0x22] @ '':3,'' @ [CHR 0x22] @ ''pass_config'' @ [CHR 0x22] @ '':{'' @ [CHR 0x22] @ ''fuse_minimax_qk_norm'' @ [CHR 0x22] @ '':true}}'' @ [CHR 0x27])),
            ''--enable-auto-tool-choice'', ''--trust-remote-code''],
       cfg_volumes := hf_mount_default,
       cfg_runtime := runtime_default,
       cfg_description := ''MiniMax-M2.7 on 4x H100/H200/B200 with MiniMax QK-norm fusion.'',
       cfg_source := ''vllm-project/recipes MiniMax/MiniMax-M2.md'',
       cfg_targets := [device_h100_94, device_h200, device_b200, device_rtxpro6000],
       cfg_min_vram := 80,
       cfg_min_gpus := 4,
       cfg_quant := quant_bf16,
       cfg_arch := arch_hopper\<rparr>"

definition bkc_mimo_v2_flash_tp4 :: bkc_config where
  "bkc_mimo_v2_flash_tp4 = bkc_zero\<lparr>
       cfg_id := ''mimo-v2-flash-tp4'',
       cfg_name := ''MiMo V2 Flash (TP4)'',
       cfg_workload := workload_vllm,
       cfg_model_id := ''XiaomiMiMo/MiMo-V2-Flash'',
       cfg_image := image_vllm_stable,
       cfg_port := ''9001'',
       cfg_extra_args := join_with '' ''
           [''--host 0.0.0.0'', ''--seed 1024'', ''--served-model-name mimo_v2_flash'',
            ''--tensor-parallel-size 4'', ''--trust-remote-code'',
            ''--gpu-memory-utilization 0.9'', ''--tool-call-parser qwen3_xml'',
            ''--reasoning-parser qwen3'', ''--generation-config vllm''],
       cfg_volumes := hf_mount_default,
       cfg_runtime := runtime_default,
       cfg_description := ''XiaomiMiMo V2 Flash on 4x Hopper/Blackwell with Qwen3-XML tool parser.'',
       cfg_source := ''vllm-project/recipes MiMo/MiMo-V2-Flash.md'',
       cfg_targets := [device_h100_80, device_h200, device_b200, device_rtxpro6000],
       cfg_min_vram := 40,
       cfg_min_gpus := 4,
       cfg_quant := quant_bf16,
       cfg_arch := arch_hopper\<rparr>"

definition bkc_seed_oss_36b_instruct_tp8 :: bkc_config where
  "bkc_seed_oss_36b_instruct_tp8 = bkc_zero\<lparr>
       cfg_id := ''seed-oss-36b-instruct-tp8'',
       cfg_name := ''Seed-OSS 36B Instruct (TP8)'',
       cfg_workload := workload_vllm,
       cfg_model_id := ''ByteDance-Seed/Seed-OSS-36B-Instruct'',
       cfg_image := image_vllm_stable,
       cfg_port := ''8000'',
       cfg_extra_args := join_with '' ''
           [''--host localhost'', ''--tensor-parallel-size 8'',
            ''--enable-auto-tool-choice'', ''--tool-call-parser seed_oss'',
            ''--trust-remote-code''],
       cfg_volumes := hf_mount_default,
       cfg_runtime := runtime_default,
       cfg_description := ''ByteDance Seed-OSS 36B on 8x Hopper/Blackwell.'',
       cfg_source := ''vllm-project/recipes Seed/Seed-OSS-36B.md'',
       cfg_targets := [device_h100_80, device_h200, device_b200],
       cfg_min_vram := 80,
       cfg_min_gpus := 8,
       cfg_quant := quant_bf16,
       cfg_arch := arch_hopper\<rparr>"

definition bkc_intern_s1_bf16 :: bkc_config where
  "bkc_intern_s1_bf16 = bkc_zero\<lparr>
       cfg_id := ''intern-s1-bf16'',
       cfg_name := ''Intern-S1 BF16'',
       cfg_workload := workload_vllm,
       cfg_model_id := ''internlm/Intern-S1'',
       cfg_image := image_vllm_stable,
       cfg_port := ''8000'',
       cfg_extra_args := join_with '' ''
           [''--trust-remote-code'', ''--tensor-parallel-size 8'',
            ''--enable-auto-tool-choice'', ''--reasoning-parser deepseek_r1'',
            ''--tool-call-parser internlm''],
       cfg_volumes := hf_mount_default,
       cfg_runtime := runtime_default,
       cfg_description := ''Intern-S1 BF16 on 8x H800/H100 with DeepSeek-R1 reasoning parser.'',
       cfg_source := ''vllm-project/recipes InternLM/Intern-S1.md'',
       cfg_targets := [device_h100_80, device_h200, device_b200],
       cfg_min_vram := 80,
       cfg_min_gpus := 8,
       cfg_quant := quant_bf16,
       cfg_arch := arch_hopper\<rparr>"

definition bkc_intern_s1_fp8_tp4 :: bkc_config where
  "bkc_intern_s1_fp8_tp4 = bkc_zero\<lparr>
       cfg_id := ''intern-s1-fp8-tp4'',
       cfg_name := ''Intern-S1 FP8 (TP4)'',
       cfg_workload := workload_vllm,
       cfg_model_id := ''internlm/Intern-S1-FP8'',
       cfg_image := image_vllm_stable,
       cfg_port := ''8000'',
       cfg_extra_args := join_with '' ''
           [''--trust-remote-code'', ''--tensor-parallel-size 4'',
            ''--enable-auto-tool-choice'', ''--reasoning-parser deepseek_r1'',
            ''--tool-call-parser internlm''],
       cfg_volumes := hf_mount_default,
       cfg_runtime := runtime_default,
       cfg_description := ''Intern-S1 FP8 on 4x H100/H200/B200.'',
       cfg_source := ''vllm-project/recipes InternLM/Intern-S1.md'',
       cfg_targets := [device_h100_80, device_h200, device_b200],
       cfg_min_vram := 80,
       cfg_min_gpus := 4,
       cfg_quant := quant_fp8,
       cfg_arch := arch_hopper\<rparr>"

definition bkc_internvl_3_5_8b :: bkc_config where
  "bkc_internvl_3_5_8b = bkc_zero\<lparr>
       cfg_id := ''internvl-3-5-8b'',
       cfg_name := ''InternVL 3.5 8B'',
       cfg_workload := workload_vllm,
       cfg_model_id := ''OpenGVLab/InternVL3_5-8B'',
       cfg_image := image_vllm_stable,
       cfg_port := ''8000'',
       cfg_extra_args := join_with '' ''
           [''--trust-remote-code'', ''--tensor-parallel-size 1''],
       cfg_volumes := hf_mount_default,
       cfg_runtime := runtime_default,
       cfg_description := ''InternVL 3.5 8B single-GPU default.'',
       cfg_source := ''vllm-project/recipes InternVL/InternVL3_5.md'',
       cfg_targets := [device_rtx4090, device_rtx5090, device_l40s, device_a100_80, device_h100_80,
          device_h200, device_b200, device_rtxpro6000, device_gb10],
       cfg_min_vram := 20,
       cfg_min_gpus := 1,
       cfg_quant := quant_bf16,
       cfg_arch := arch_hopper\<rparr>"

definition bkc_jina_reranker_m0 :: bkc_config where
  "bkc_jina_reranker_m0 = bkc_zero\<lparr>
       cfg_id := ''jina-reranker-m0'',
       cfg_name := ''Jina Reranker m0'',
       cfg_workload := workload_vllm,
       cfg_model_id := ''jinaai/jina-reranker-m0'',
       cfg_image := image_vllm_stable,
       cfg_port := ''8000'',
       cfg_extra_args := join_with '' ''
           [''--host 0.0.0.0'', ''--tensor_parallel_size 2'',
            ''--gpu-memory-utilization 0.75'', ''--max_num_seqs 32''],
       cfg_volumes := hf_mount_default,
       cfg_runtime := runtime_default,
       cfg_description := (''Jina Reranker m0 '' @ [CHR 0xE2, CHR 0x80, CHR 0x94] @ '' 2-way TP reranker server.''),
       cfg_source := ''vllm-project/recipes Jina/Jina-reranker-m0.md'',
       cfg_targets := [device_rtx4090, device_rtx5090, device_l40s, device_a100_80, device_h100_80,
          device_h200, device_b200, device_rtxpro6000],
       cfg_min_vram := 24,
       cfg_min_gpus := 2,
       cfg_quant := quant_bf16,
       cfg_arch := arch_hopper\<rparr>"

definition bkc_arcee_trinity_large_thinking :: bkc_config where
  "bkc_arcee_trinity_large_thinking = bkc_zero\<lparr>
       cfg_id := ''arcee-trinity-large-thinking'',
       cfg_name := ''Arcee Trinity Large Thinking'',
       cfg_workload := workload_vllm,
       cfg_model_id := ''arcee-ai/Trinity-Large-Thinking'',
       cfg_image := image_vllm_stable,
       cfg_port := ''8000'',
       cfg_extra_args := join_with '' ''
           [''--dtype bfloat16'', ''--reasoning-parser deepseek_r1'',
            ''--enable-auto-tool-choice'', ''--tool-call-parser qwen3_coder'',
            ''--tensor-parallel-size 1''],
       cfg_volumes := hf_mount_default,
       cfg_runtime := runtime_default,
       cfg_description := ''Arcee Trinity Large Thinking single-GPU default (BF16).'',
       cfg_source := ''vllm-project/recipes ArceeAI/Trinity-Large-Thinking.md'',
       cfg_targets := [device_a100_80, device_h100_80, device_h200, device_b200, device_rtxpro6000],
       cfg_min_vram := 60,
       cfg_min_gpus := 1,
       cfg_quant := quant_bf16,
       cfg_arch := arch_hopper\<rparr>"

definition bkc_hunyuan_a13b_instruct :: bkc_config where
  "bkc_hunyuan_a13b_instruct = bkc_zero\<lparr>
       cfg_id := ''hunyuan-a13b-instruct'',
       cfg_name := ''Hunyuan A13B Instruct'',
       cfg_workload := workload_vllm,
       cfg_model_id := ''tencent/Hunyuan-A13B-Instruct'',
       cfg_image := image_vllm_stable,
       cfg_port := ''8000'',
       cfg_extra_args := join_with '' ''
           [''--tensor-parallel-size 2'', ''--trust-remote-code''],
       cfg_volumes := hf_mount_default,
       cfg_runtime := runtime_default,
       cfg_description := ''Tencent Hunyuan A13B Instruct on 2x Hopper/Blackwell.'',
       cfg_source := ''vllm-project/recipes Tencent-Hunyuan/Hunyuan-Instruct.md'',
       cfg_targets := [device_a100_80, device_h100_80, device_h200, device_b200, device_rtxpro6000],
       cfg_min_vram := 80,
       cfg_min_gpus := 2,
       cfg_quant := quant_bf16,
       cfg_arch := arch_hopper\<rparr>"

definition bkc_hunyuan_ocr :: bkc_config where
  "bkc_hunyuan_ocr = bkc_zero\<lparr>
       cfg_id := ''hunyuan-ocr'',
       cfg_name := ''HunyuanOCR'',
       cfg_workload := workload_vllm,
       cfg_model_id := ''tencent/HunyuanOCR'',
       cfg_image := image_vllm_stable,
       cfg_port := ''8000'',
       cfg_extra_args := join_with '' ''
           [''--no-enable-prefix-caching'', ''--mm-processor-cache-gb 0''],
       cfg_volumes := hf_mount_default,
       cfg_runtime := runtime_default,
       cfg_description := ''HunyuanOCR compact vision-language OCR model.'',
       cfg_source := ''vllm-project/recipes Tencent-Hunyuan/HunyuanOCR.md'',
       cfg_targets := [device_rtx4090, device_rtx5090, device_l40s, device_a100_80, device_h100_80,
          device_h200, device_b200, device_rtxpro6000, device_gb10, device_jetsonthor],
       cfg_min_vram := 16,
       cfg_min_gpus := 1,
       cfg_quant := quant_bf16,
       cfg_arch := arch_hopper\<rparr>"

definition bkc_step_3_5_flash :: bkc_config where
  "bkc_step_3_5_flash = bkc_zero\<lparr>
       cfg_id := ''step-3-5-flash'',
       cfg_name := ''Step-3.5-Flash'',
       cfg_workload := workload_vllm,
       cfg_model_id := ''stepfun-ai/Step-3.5-Flash'',
       cfg_image := image_vllm_stable,
       cfg_port := ''8000'',
       cfg_extra_args := join_with '' ''
           [''--tensor-parallel-size 4'', ''--reasoning-parser step3p5'',
            ''--tool-call-parser step3p5'', ''--enable-auto-tool-choice'',
            ''--trust-remote-code''],
       cfg_volumes := hf_mount_default,
       cfg_runtime := runtime_default,
       cfg_description := ''StepFun Step-3.5-Flash on 4x Hopper/Blackwell.'',
       cfg_source := ''vllm-project/recipes StepFun/Step-3.5-Flash.md'',
       cfg_targets := [device_h100_80, device_h200, device_b200, device_rtxpro6000],
       cfg_min_vram := 80,
       cfg_min_gpus := 4,
       cfg_quant := quant_bf16,
       cfg_arch := arch_hopper\<rparr>"

definition bkc_ring_1t_fp8 :: bkc_config where
  "bkc_ring_1t_fp8 = bkc_zero\<lparr>
       cfg_id := ''ring-1t-fp8'',
       cfg_name := ''Ring-1T FP8'',
       cfg_workload := workload_vllm,
       cfg_model_id := ''inclusionAI/Ring-1T-FP8'',
       cfg_image := image_vllm_stable,
       cfg_port := ''8000'',
       cfg_extra_args := join_with '' ''
           [''--trust-remote-code'', ''--tensor-parallel-size 8'',
            ''--gpu-memory-utilization 0.9'', ''--max_num_seqs 32'',
            ''--kv-cache-dtype fp8'', ''--served-model-name Ring-1T-FP8''],
       cfg_volumes := hf_mount_default,
       cfg_runtime := runtime_default,
       cfg_description := ''inclusionAI Ring-1T FP8 on 8x H200/B200.'',
       cfg_source := ''vllm-project/recipes inclusionAI/Ring-1T-FP8.md'',
       cfg_targets := [device_h200, device_b200],
       cfg_min_vram := 141,
       cfg_min_gpus := 8,
       cfg_quant := quant_fp8,
       cfg_arch := arch_hopper\<rparr>"

definition bkc_ernie_4_5_21b_a3b :: bkc_config where
  "bkc_ernie_4_5_21b_a3b = bkc_zero\<lparr>
       cfg_id := ''ernie-4-5-21b-a3b'',
       cfg_name := ''Ernie 4.5 21B A3B'',
       cfg_workload := workload_vllm,
       cfg_model_id := ''baidu/ERNIE-4.5-21B-A3B-PT'',
       cfg_image := image_vllm_stable,
       cfg_port := ''8000'',
       cfg_extra_args := join_with '' ''
           [''--tensor-parallel-size 1'', ''--trust-remote-code''],
       cfg_volumes := hf_mount_default,
       cfg_runtime := runtime_default,
       cfg_description := (''Ernie 4.5 21B A3B '' @ [CHR 0xE2, CHR 0x80, CHR 0x94] @ '' single-GPU default.''),
       cfg_source := ''vllm-project/recipes Ernie/Ernie4.5.md'',
       cfg_targets := [device_a100_80, device_h100_80, device_h200, device_b200, device_rtxpro6000,
          device_gb10],
       cfg_min_vram := 64,
       cfg_min_gpus := 1,
       cfg_quant := quant_bf16,
       cfg_arch := arch_hopper\<rparr>"

definition bkc_ernie_4_5_300b_a47b_fp8 :: bkc_config where
  "bkc_ernie_4_5_300b_a47b_fp8 = bkc_zero\<lparr>
       cfg_id := ''ernie-4-5-300b-a47b-fp8'',
       cfg_name := ''Ernie 4.5 300B A47B FP8'',
       cfg_workload := workload_vllm,
       cfg_model_id := ''baidu/ERNIE-4.5-300B-A47B-PT'',
       cfg_image := image_vllm_stable,
       cfg_port := ''8000'',
       cfg_extra_args := join_with '' ''
           [''--tensor-parallel-size 8'', ''--gpu-memory-utilization=0.95'',
            ''--quantization fp8'', ''--trust-remote-code''],
       cfg_volumes := hf_mount_default,
       cfg_runtime := runtime_default,
       cfg_description := ''Ernie 4.5 300B A47B with online FP8 quant on 8x 80 GB GPUs.'',
       cfg_source := ''vllm-project/recipes Ernie/Ernie4.5.md'',
       cfg_targets := [device_h100_80, device_h200, device_b200],
       cfg_min_vram := 80,
       cfg_min_gpus := 8,
       cfg_quant := quant_fp8,
       cfg_arch := arch_hopper\<rparr>"

definition bkc_ernie_4_5_vl_28b_a3b :: bkc_config where
  "bkc_ernie_4_5_vl_28b_a3b = bkc_zero\<lparr>
       cfg_id := ''ernie-4-5-vl-28b-a3b'',
       cfg_name := ''Ernie 4.5 VL 28B A3B'',
       cfg_workload := workload_vllm,
       cfg_model_id := ''baidu/ERNIE-4.5-VL-28B-A3B-PT'',
       cfg_image := image_vllm_stable,
       cfg_port := ''8000'',
       cfg_extra_args := join_with '' ''
           [''--trust-remote-code'', ''--tensor-parallel-size 1''],
       cfg_volumes := hf_mount_default,
       cfg_runtime := runtime_default,
       cfg_description := (''Ernie 4.5 VL 28B A3B '' @ [CHR 0xE2, CHR 0x80, CHR 0x94] @ '' single-GPU multimodal default.''),
       cfg_source := ''vllm-project/recipes Ernie/Ernie4.5-VL.md'',
       cfg_targets := [device_a100_80, device_h100_80, device_h200, device_b200, device_rtxpro6000,
          device_gb10],
       cfg_min_vram := 64,
       cfg_min_gpus := 1,
       cfg_quant := quant_bf16,
       cfg_arch := arch_hopper\<rparr>"

definition bkc_ernie_4_5_vl_424b_a47b_fp8_offload :: bkc_config where
  "bkc_ernie_4_5_vl_424b_a47b_fp8_offload = bkc_zero\<lparr>
       cfg_id := ''ernie-4-5-vl-424b-a47b-fp8-offload'',
       cfg_name := ''Ernie 4.5 VL 424B A47B FP8 (CPU offload)'',
       cfg_workload := workload_vllm,
       cfg_model_id := ''baidu/ERNIE-4.5-VL-424B-A47B-PT'',
       cfg_image := image_vllm_stable,
       cfg_port := ''8000'',
       cfg_extra_args := join_with '' ''
           [''--trust-remote-code'', ''--tensor-parallel-size 8'',
            ''--quantization fp8'', ''--cpu-offload-gb 50''],
       cfg_volumes := hf_mount_default,
       cfg_runtime := runtime_default,
       cfg_description := ''Ernie 4.5 VL 424B A47B on 8x 80 GB with 50 GB CPU offload.'',
       cfg_source := ''vllm-project/recipes Ernie/Ernie4.5-VL.md'',
       cfg_targets := [device_h100_80, device_h200, device_b200, device_a100_80],
       cfg_min_vram := 80,
       cfg_min_gpus := 8,
       cfg_quant := quant_fp8,
       cfg_arch := arch_hopper\<rparr>"

definition bkc_paddleocr_vl :: bkc_config where
  "bkc_paddleocr_vl = bkc_zero\<lparr>
       cfg_id := ''paddleocr-vl'',
       cfg_name := ''PaddleOCR-VL'',
       cfg_workload := workload_vllm,
       cfg_model_id := ''PaddlePaddle/PaddleOCR-VL'',
       cfg_image := image_vllm_stable,
       cfg_port := ''8000'',
       cfg_extra_args := join_with '' ''
           [''--trust-remote-code'', ''--max-num-batched-tokens 16384'',
            ''--no-enable-prefix-caching'', ''--mm-processor-cache-gb 0''],
       cfg_volumes := hf_mount_default,
       cfg_runtime := runtime_default,
       cfg_description := ''PaddleOCR-VL single-GPU default.'',
       cfg_source := ''vllm-project/recipes PaddlePaddle/PaddleOCR-VL.md'',
       cfg_targets := [device_rtx4090, device_rtx5090, device_l40s, device_a100_80, device_h100_80,
          device_h200, device_b200, device_rtxpro6000, device_gb10, device_jetsonthor],
       cfg_min_vram := 16,
       cfg_min_gpus := 1,
       cfg_quant := quant_bf16,
       cfg_arch := arch_hopper\<rparr>"

definition catalog_others :: "bkc_config list" where
  "catalog_others =
     [bkc_minimax_m2_tp4, bkc_mimo_v2_flash_tp4, bkc_seed_oss_36b_instruct_tp8,
      bkc_intern_s1_bf16, bkc_intern_s1_fp8_tp4, bkc_internvl_3_5_8b,
      bkc_jina_reranker_m0, bkc_arcee_trinity_large_thinking, bkc_hunyuan_a13b_instruct,
      bkc_hunyuan_ocr, bkc_step_3_5_flash, bkc_ring_1t_fp8, bkc_ernie_4_5_21b_a3b,
      bkc_ernie_4_5_300b_a47b_fp8, bkc_ernie_4_5_vl_28b_a3b,
      bkc_ernie_4_5_vl_424b_a47b_fp8_offload, bkc_paddleocr_vl]"

lemmas bkc_vendors_b_defs =
  mistral_common_def bkc_ministral_3_14b_instruct_def bkc_ministral_3_8b_reasoning_def
  bkc_ministral_3_14b_reasoning_def bkc_mistral_large_3_675b_def
  bkc_mistral_large_3_675b_nvfp4_def kimi_common_def bkc_kimi_k2_instruct_tp8pp2_def
  bkc_kimi_k2_5_tp8_def bkc_kimi_k2_5_nvfp4_def bkc_kimi_k2_thinking_tp8_def
  bkc_kimi_linear_48b_a3b_tp4_def bkc_nemotron_3_super_nvfp4_def
  bkc_nemotron_3_nano_omni_30b_a3b_reasoning_nvfp4_def
  bkc_nemotron_3_nano_omni_30b_a3b_reasoning_nvfp4_gb10_def
  bkc_nemotron_3_nano_30b_a3b_fp8_def bkc_nemotron_3_nano_30b_a3b_bf16_def
  bkc_nemotron_3_nano_30b_a3b_bf16_gb10_def bkc_nemotron_3_nano_30b_a3b_bf16_jetson_thor_def
  bkc_nemotron_nano_12b_v2_vl_bf16_def bkc_nemotron_nano_12b_v2_vl_fp8_def
  bkc_nemotron_nano_12b_v2_vl_nvfp4_def gpt_oss_blackwell_def gpt_oss_hopper_def
  bkc_gpt_oss_20b_def bkc_gpt_oss_20b_blackwell_def bkc_gpt_oss_120b_def
  bkc_gpt_oss_120b_blackwell_def bkc_gpt_oss_120b_amd_mi355x_def bkc_minimax_m2_tp4_def
  bkc_mimo_v2_flash_tp4_def bkc_seed_oss_36b_instruct_tp8_def bkc_intern_s1_bf16_def
  bkc_intern_s1_fp8_tp4_def bkc_internvl_3_5_8b_def bkc_jina_reranker_m0_def
  bkc_arcee_trinity_large_thinking_def bkc_hunyuan_a13b_instruct_def bkc_hunyuan_ocr_def
  bkc_step_3_5_flash_def bkc_ring_1t_fp8_def bkc_ernie_4_5_21b_a3b_def
  bkc_ernie_4_5_300b_a47b_fp8_def bkc_ernie_4_5_vl_28b_a3b_def
  bkc_ernie_4_5_vl_424b_a47b_fp8_offload_def bkc_paddleocr_vl_def

end
