(* ===== verification/Bkc_Vendors_Qwen.thy ===== *)
theory Bkc_Vendors_Qwen
  imports Bkc_Catalog_Names
begin

text \<open>
  The single-node entries the catalog registers for Qwen:
  the \<^verbatim>\<open>init\<close> functions of \<^verbatim>\<open>catalog_qwen.go\<close>,
  one definition per entry; a field the source leaves out has the zero value.
\<close>

definition qwen_small_dense :: "string \<Rightarrow> string \<Rightarrow> string \<Rightarrow> rat \<Rightarrow> bkc_config" where
  "qwen_small_dense i name model vram = bkc_zero\<lparr>
       cfg_id := i,
       cfg_name := name,
       cfg_workload := workload_vllm,
       cfg_model_id := model,
       cfg_image := image_vllm_stable,
       cfg_port := ''8000'',
       cfg_extra_args := join_with '' ''
           [''--trust-remote-code'', ''--tensor-parallel-size 1'',
            ''--max-model-len 32768'', ''--reasoning-parser qwen3''],
       cfg_volumes := hf_mount_default,
       cfg_runtime := runtime_default,
       cfg_description := (name @ ('' '' @ [CHR 0xE2, CHR 0x80, CHR 0x94] @ '' single-GPU default.'')),
       cfg_source := ''vllm-project/recipes Qwen/Qwen3.md'',
       cfg_targets := [device_rtx4090, device_rtx5090, device_l40s, device_a100_80, device_h100_80,
          device_h200, device_b200, device_rtxpro6000, device_gb10],
       cfg_min_vram := vram,
       cfg_min_gpus := 1,
       cfg_quant := quant_bf16,
       cfg_arch := arch_hopper\<rparr>"

section \<open>Qwen\<close>

definition bkc_qwen3_8_27b_nvfp4_bf16_lmhead_sglang_dflash2 :: bkc_config where
  "bkc_qwen3_8_27b_nvfp4_bf16_lmhead_sglang_dflash2 = bkc_zero\<lparr>
       cfg_id := ''qwen3-8-27b-nvfp4-bf16-lmhead-sglang-dflash2'',
       cfg_name := ''Qwen3.8 27B NVFP4 BF16 lm_head + DFlash2 (SGLang)'',
       cfg_workload := workload_sglang,
       cfg_model_id := ''RadixArk/Qwen3.8-27B-NVFP4-BF16-LMHead'',
       cfg_image := image_sglang_qwen38dflash2,
       cfg_port := ''30000'',
       cfg_extra_args := join_with '' ''
           [''sglang serve'', ''--trust-remote-code'',
            ''--revision 009632fef96dd349150baa780c984e62e70e91fe'',
            ''--served-model-name Qwen3.8-27B'', ''--tp-size 1'',
            ''--context-length 262144'', ''--mem-fraction-static 0.85'',
            ''--max-running-requests 8'', ''--cuda-graph-max-bs-decode 8'',
            ''--mamba-radix-cache-strategy extra_buffer_lazy'',
            ''--mamba-ssm-dtype bfloat16'', ''--kv-cache-dtype fp8_e4m3'',
            ''--attention-backend flashinfer'', ''--chunked-prefill-size 2048'',
            ''--reasoning-parser qwen3'', ''--tool-call-parser qwen3_coder'',
            (''--default-chat-template-kwargs {'' @ [CHR 0x22] @ ''enable_thinking'' @ [CHR 0x22] @ '':false}''),
            ''--speculative-algorithm DFLASH'',
            ''--speculative-draft-model-path incoai/Qwen3.8-27B-DFlash2'',
            ''--speculative-draft-model-revision dedf8df68adfb1afeaf7b7480c0a0243108177b4'',
            ''--speculative-num-draft-tokens 8'', ''--enable-metrics''],
       cfg_volumes := hf_mount_default,
       cfg_runtime := runtime_zero\<lparr>rt_ipc_mode := ''host'', rt_shm_size := ''32g''\<rparr>,
       cfg_description := ''Qwen3.8 27B NVFP4 with a dense BF16 output head and DFlash2 speculative decoding on one RTX PRO 6000 Blackwell.'',
       cfg_source := ''MiaAI Lab RTX PRO 6000 recipe a0743929 + SGLang Qwen3.8 cookbook + RadixArk BF16 lm_head checkpoint'',
       cfg_notes := [''The dense BF16 lm_head export is the target used for the SGLang cookbook measurements; the transformer body remains NVFP4.'',
          ''The pinned checkpoint contains 23.76 GB of Hub blobs, about 1.83 GB more than the packed-head rollback.'',
          ''The image, DFlash2 drafter, 262,144-token context, and eight-request policy match the Finn-validated packed-head profile.'',
          ''extra_buffer_lazy is the intentional high-throughput Mamba cache tier; the extra_buffer alternative spends an additional state slot per request to favor latency.'',
          ''BF16 Mamba state passed the live smoke and throughput checks; workload-specific accuracy evaluation remains an open quality gate.'',
          ''Keep the packed-head DFlash2 or DSpark BKC available until this profile passes production quality and throughput checks.''],
       cfg_targets := [device_rtxpro6000],
       cfg_min_vram := 90,
       cfg_min_gpus := 1,
       cfg_quant := quant_nvfp4,
       cfg_arch := arch_blackwell\<rparr>"

definition bkc_qwen3_8_27b_nvfp4_bf16_lmhead_sglang_dflash2_gb10 :: bkc_config where
  "bkc_qwen3_8_27b_nvfp4_bf16_lmhead_sglang_dflash2_gb10 = bkc_zero\<lparr>
       cfg_id := ''qwen3-8-27b-nvfp4-bf16-lmhead-sglang-dflash2-gb10'',
       cfg_name := ''Qwen3.8 27B NVFP4 BF16 lm_head + DFlash2 (SGLang GB10)'',
       cfg_workload := workload_sglang,
       cfg_model_id := ''RadixArk/Qwen3.8-27B-NVFP4-BF16-LMHead'',
       cfg_image := image_sglang_qwen38gb10dflash2,
       cfg_port := ''8888'',
       cfg_extra_args := join_with '' ''
           [''sglang serve'', ''--trust-remote-code'',
            ''--revision 009632fef96dd349150baa780c984e62e70e91fe'',
            ''--served-model-name Qwen3.8-27B'', ''--tp-size 1'',
            ''--context-length 262144'', ''--mem-fraction-static 0.90'',
            ''--sleep-on-idle'', ''--attention-backend flashinfer'',
            ''--chunked-prefill-size 8192'', ''--disable-prefill-cuda-graph'',
            ''--kv-cache-dtype fp8_e4m3'', ''--mamba-ssm-dtype bfloat16'',
            ''--mamba-full-memory-ratio 4.21'',
            ''--mamba-radix-cache-strategy extra_buffer'',
            ''--max-mamba-cache-size 40'', ''--max-running-requests 10'',
            ''--speculative-algorithm DFLASH'',
            ''--speculative-draft-model-path z-lab/Qwen3.8-27B-DFlash2'',
            ''--speculative-draft-model-revision 50307d4c4cde6860d4eee73e2547cd786fe8e8a4'',
            ''--speculative-num-draft-tokens 8'', ''--reasoning-parser qwen3'',
            ''--tool-call-parser qwen3_coder'', ''--sampling-defaults model'',
            ''--enable-metrics'', ''--enable-cache-report''],
       cfg_env := [(''SGLANG_OPT_MAMBA_SKIP_DECODE_LOCK'', ''0'')],
       cfg_volumes := hf_mount_default,
       cfg_runtime := runtime_zero\<lparr>rt_ipc_mode := ''host'', rt_shm_size := ''32g''\<rparr>,
       cfg_description := ''Qwen3.8 27B NVFP4 with dense BF16 lm_head and DFlash2 on one DGX Spark GB10.'',
       cfg_source := ''MiaAI-Lab/Qwen3.8-27B-SGLang-DGX-Spark@9fb18edf (GB10 DFlash2 recipe)'',
       cfg_notes := [(''Uses Mia'' @ [CHR 0x27] @ ''s Sep 9 multi-arch SGLang image with the zombie-request fix; the digest resolves arm64 on GB10.''),
          ''Native 262,144-token context only: YaRN is incompatible with DFlash2 on this SGLang build.'',
          ''GB10 tuning uses 0.90 static memory, 8,192-token prefill chunks, BF16 Mamba state, a 40-slot Mamba pool, and 10 concurrent requests.'',
          ''DFlash2 requires extra_buffer on the validated GB10 image; do not substitute extra_buffer_lazy without a device-specific retest.'',
          ''The target and draft revisions are immutable. This BKC intentionally has GB10-only affinity.''],
       cfg_targets := [device_gb10],
       cfg_min_vram := 100,
       cfg_min_gpus := 1,
       cfg_quant := quant_nvfp4,
       cfg_arch := arch_blackwell\<rparr>"

definition bkc_qwen3_8_27b_nvfp4_sglang_dflash2 :: bkc_config where
  "bkc_qwen3_8_27b_nvfp4_sglang_dflash2 = bkc_zero\<lparr>
       cfg_id := ''qwen3-8-27b-nvfp4-sglang-dflash2'',
       cfg_name := ''Qwen3.8 27B NVFP4 packed lm_head + DFlash2 (SGLang rollback)'',
       cfg_workload := workload_sglang,
       cfg_model_id := ''RadixArk/Qwen3.8-27B-NVFP4'',
       cfg_image := image_sglang_qwen38dflash2,
       cfg_port := ''30000'',
       cfg_extra_args := join_with '' ''
           [''sglang serve'', ''--trust-remote-code'',
            ''--revision 319f741cce68d7914884900c138a1fbb70a42f30'',
            ''--served-model-name Qwen3.8-27B'', ''--tp-size 1'',
            ''--context-length 262144'', ''--mem-fraction-static 0.85'',
            ''--max-running-requests 8'', ''--cuda-graph-max-bs-decode 8'',
            ''--mamba-radix-cache-strategy extra_buffer_lazy'',
            ''--mamba-ssm-dtype bfloat16'', ''--kv-cache-dtype fp8_e4m3'',
            ''--attention-backend flashinfer'', ''--chunked-prefill-size 2048'',
            ''--reasoning-parser qwen3'', ''--tool-call-parser qwen3_coder'',
            (''--default-chat-template-kwargs {'' @ [CHR 0x22] @ ''enable_thinking'' @ [CHR 0x22] @ '':false}''),
            ''--speculative-algorithm DFLASH'',
            ''--speculative-draft-model-path incoai/Qwen3.8-27B-DFlash2'',
            ''--speculative-draft-model-revision dedf8df68adfb1afeaf7b7480c0a0243108177b4'',
            ''--speculative-num-draft-tokens 8'', ''--enable-metrics''],
       cfg_volumes := hf_mount_default,
       cfg_runtime := runtime_zero\<lparr>rt_ipc_mode := ''host'', rt_shm_size := ''32g''\<rparr>,
       cfg_description := ''Qwen3.8 27B packed-head NVFP4 with DFlash2 block-diffusion speculative decoding on one RTX PRO 6000 Blackwell, retained as the validated Finn rollback.'',
       cfg_source := ''SGLang Qwen3.8 RTX PRO 6000 recipe + production validation on Finn (2026-08-22)'',
       cfg_notes := [''Pinned target, DFlash2 drafter, and container revisions reproduce the validated Finn canary.'',
          ''Matched Finn results: 306.4 output tok/s for short code, 198.5 tok/s at exactly 32,768 prompt tokens, 961.7 tok/s aggregate at four-way, and 1,634.4 tok/s aggregate at eight-way concurrency.'',
          ''Validated 262,144-token context, OpenAI chat and Responses APIs, two-step tool calls, OpenCode2, native metrics, and long-context retrieval.'',
          ''The validated runtime allocated 117 target Mamba slots and a 1,048,431-token FP8 KV pool; concurrent requests share that pool.''],
       cfg_targets := [device_rtxpro6000],
       cfg_min_vram := 90,
       cfg_min_gpus := 1,
       cfg_quant := quant_nvfp4,
       cfg_arch := arch_blackwell\<rparr>"

definition bkc_qwen3_8_27b_nvfp4_sglang_dspark :: bkc_config where
  "bkc_qwen3_8_27b_nvfp4_sglang_dspark = bkc_zero\<lparr>
       cfg_id := ''qwen3-8-27b-nvfp4-sglang-dspark'',
       cfg_name := ''Qwen3.8 27B NVFP4 + DSpark (SGLang rollback)'',
       cfg_workload := workload_sglang,
       cfg_model_id := ''RadixArk/Qwen3.8-27B-NVFP4'',
       cfg_image := image_sglang_qwen38,
       cfg_port := ''30000'',
       cfg_extra_args := join_with '' ''
           [''sglang serve'', ''--trust-remote-code'',
            ''--revision 554ebba9b5f1b79dc11246341960360e6ef05ef4'',
            ''--served-model-name Qwen3.8-27B'', ''--tp-size 1'',
            ''--context-length 262144'', ''--mem-fraction-static 0.85'',
            ''--max-running-requests 3'', ''--max-mamba-cache-size 12'',
            ''--mamba-radix-cache-strategy extra_buffer_lazy'',
            ''--mamba-ssm-dtype bfloat16'', ''--kv-cache-dtype fp8_e4m3'',
            ''--attention-backend flashinfer'', ''--chunked-prefill-size 2048'',
            ''--cuda-graph-max-bs 3'', ''--reasoning-parser qwen3'',
            ''--tool-call-parser qwen3_coder'',
            (''--default-chat-template-kwargs {'' @ [CHR 0x22] @ ''enable_thinking'' @ [CHR 0x22] @ '':false}''),
            ''--speculative-algorithm DSPARK'',
            ''--speculative-draft-model-path RadixArk/Qwen3.8-27B-DSpark'',
            ''--speculative-draft-model-revision 85ef153be924f17ce4bf62726954eeaa4a73e854'',
            ''--speculative-draft-attention-backend flashinfer'',
            ''--speculative-dspark-block-size 7'', ''--enable-metrics''],
       cfg_volumes := hf_mount_default,
       cfg_runtime := runtime_zero\<lparr>rt_ipc_mode := ''host'', rt_shm_size := ''32g''\<rparr>,
       cfg_description := (''Qwen3.8 27B NVFP4 with DSpark speculative decoding on one RTX PRO 6000 Blackwell, retained as Finn'' @ [CHR 0x27] @ ''s 262K/3-request rollback BKC.''),
       cfg_source := ''SGLang Qwen3.8 recipe + production validation on Finn (2026-08-21)'',
       cfg_notes := [''Pinned target, draft-model, and container revisions reproduce the former live Finn NVFP4 deployment.'',
          ''Validated OpenAI chat/tool calls, native SGLang metrics, and 262,144-token context with at most three active requests.'',
          ''The historical 298.4 tok/s solo and 899.6 tok/s aggregate measurements used a Qwen/Qwen3.8-27B-FP8 target and do not characterize this NVFP4 rollback BKC.''],
       cfg_targets := [device_rtxpro6000],
       cfg_min_vram := 90,
       cfg_min_gpus := 1,
       cfg_quant := quant_nvfp4,
       cfg_arch := arch_blackwell\<rparr>"

definition bkc_qwen3_0_6b :: bkc_config where
  "bkc_qwen3_0_6b = qwen_small_dense ''qwen3-0-6b'' ''Qwen3 0.6B'' ''Qwen/Qwen3-0.6B'' 6"

definition bkc_qwen3_1_7b :: bkc_config where
  "bkc_qwen3_1_7b = qwen_small_dense ''qwen3-1-7b'' ''Qwen3 1.7B'' ''Qwen/Qwen3-1.7B'' 8"

definition bkc_qwen3_4b :: bkc_config where
  "bkc_qwen3_4b = qwen_small_dense ''qwen3-4b'' ''Qwen3 4B'' ''Qwen/Qwen3-4B'' 12"

definition bkc_qwen3_8b :: bkc_config where
  "bkc_qwen3_8b = qwen_small_dense ''qwen3-8b'' ''Qwen3 8B'' ''Qwen/Qwen3-8B'' 20"

definition bkc_qwen3_14b :: bkc_config where
  "bkc_qwen3_14b = qwen_small_dense ''qwen3-14b'' ''Qwen3 14B'' ''Qwen/Qwen3-14B'' 32"

definition bkc_qwen3_32b :: bkc_config where
  "bkc_qwen3_32b = qwen_small_dense ''qwen3-32b'' ''Qwen3 32B'' ''Qwen/Qwen3-32B'' 72"

definition bkc_qwen3_30b_a3b :: bkc_config where
  "bkc_qwen3_30b_a3b = bkc_zero\<lparr>
       cfg_id := ''qwen3-30b-a3b'',
       cfg_name := ''Qwen3 30B A3B'',
       cfg_workload := workload_vllm,
       cfg_model_id := ''Qwen/Qwen3-30B-A3B'',
       cfg_image := image_vllm_stable,
       cfg_port := ''8000'',
       cfg_extra_args := join_with '' ''
           [''--trust-remote-code'', ''--tensor-parallel-size 1'',
            ''--max-model-len 131072'', ''--reasoning-parser qwen3''],
       cfg_volumes := hf_mount_default,
       cfg_runtime := runtime_default,
       cfg_description := ''Qwen3 30B A3B MoE, single-GPU Hopper/Blackwell default.'',
       cfg_source := ''vllm-project/recipes Qwen/Qwen3.md'',
       cfg_targets := [device_h100_80, device_h200, device_b200, device_rtxpro6000, device_a100_80,
          device_gb10],
       cfg_min_vram := 64,
       cfg_min_gpus := 1,
       cfg_quant := quant_bf16,
       cfg_arch := arch_hopper\<rparr>"

definition bkc_qwen3_235b_a22b :: bkc_config where
  "bkc_qwen3_235b_a22b = bkc_zero\<lparr>
       cfg_id := ''qwen3-235b-a22b'',
       cfg_name := ''Qwen3 235B A22B'',
       cfg_workload := workload_vllm,
       cfg_model_id := ''Qwen/Qwen3-235B-A22B'',
       cfg_image := image_vllm_stable,
       cfg_port := ''8000'',
       cfg_extra_args := join_with '' ''
           [''--trust-remote-code'', ''-tp 4'', ''--disable-log-requests'',
            ''--swap-space 32'', ''--distributed-executor-backend mp'',
            ''--max-num-batched-tokens 32768'', ''--max-model-len 32768'',
            ''--no-enable-prefix-caching'', ''--gpu-memory-utilization 0.8'',
            ''--reasoning-parser qwen3''],
       cfg_volumes := hf_mount_default,
       cfg_runtime := runtime_default,
       cfg_description := ''Qwen3 235B A22B on 4xH200/B200.'',
       cfg_source := ''vllm-project/recipes Qwen/Qwen3.md'',
       cfg_targets := [device_h200, device_b200, device_h100_94],
       cfg_min_vram := 80,
       cfg_min_gpus := 4,
       cfg_quant := quant_bf16,
       cfg_arch := arch_hopper\<rparr>"

definition bkc_qwen3_235b_a22b_fp8 :: bkc_config where
  "bkc_qwen3_235b_a22b_fp8 = bkc_zero\<lparr>
       cfg_id := ''qwen3-235b-a22b-fp8'',
       cfg_name := ''Qwen3 235B A22B FP8'',
       cfg_workload := workload_vllm,
       cfg_model_id := ''Qwen/Qwen3-235B-A22B-FP8'',
       cfg_image := image_vllm_stable,
       cfg_port := ''8000'',
       cfg_extra_args := join_with '' ''
           [''--trust-remote-code'', ''-tp 4'', ''--disable-log-requests'',
            ''--swap-space 16'', ''--distributed-executor-backend mp'',
            ''--max-num-batched-tokens 32768'', ''--max-model-len 32768'',
            ''--no-enable-prefix-caching'', ''--gpu-memory-utilization 0.8'',
            ''--reasoning-parser qwen3''],
       cfg_volumes := hf_mount_default,
       cfg_runtime := runtime_default,
       cfg_description := ''Qwen3 235B A22B FP8 on 4x Hopper/Blackwell GPUs.'',
       cfg_source := ''vllm-project/recipes Qwen/Qwen3.md'',
       cfg_targets := [device_h100_80, device_h100_94, device_h200, device_b200],
       cfg_min_vram := 80,
       cfg_min_gpus := 4,
       cfg_quant := quant_fp8,
       cfg_arch := arch_hopper\<rparr>"

definition bkc_qwen3_next_80b_a3b :: bkc_config where
  "bkc_qwen3_next_80b_a3b = bkc_zero\<lparr>
       cfg_id := ''qwen3-next-80b-a3b'',
       cfg_name := ''Qwen3-Next 80B A3B Instruct'',
       cfg_workload := workload_vllm,
       cfg_model_id := ''Qwen/Qwen3-Next-80B-A3B-Instruct'',
       cfg_image := image_vllm_stable,
       cfg_port := ''8000'',
       cfg_extra_args := join_with '' ''
           [''--tensor-parallel-size 4'', ''--served-model-name qwen3-next'',
            ''--enable-prefix-caching'', ''--reasoning-parser qwen3''],
       cfg_volumes := hf_mount_default,
       cfg_runtime := runtime_default,
       cfg_description := ''Qwen3-Next 80B A3B on 4x Hopper/Blackwell GPUs.'',
       cfg_source := ''vllm-project/recipes Qwen/Qwen3-Next.md'',
       cfg_targets := [device_h100_80, device_h200, device_b200],
       cfg_min_vram := 80,
       cfg_min_gpus := 4,
       cfg_quant := quant_bf16,
       cfg_arch := arch_hopper\<rparr>"

definition bkc_qwen3_next_80b_a3b_fp8 :: bkc_config where
  "bkc_qwen3_next_80b_a3b_fp8 = bkc_zero\<lparr>
       cfg_id := ''qwen3-next-80b-a3b-fp8'',
       cfg_name := ''Qwen3-Next 80B A3B Instruct FP8'',
       cfg_workload := workload_vllm,
       cfg_model_id := ''Qwen/Qwen3-Next-80B-A3B-Instruct-FP8'',
       cfg_image := image_vllm_stable,
       cfg_port := ''8000'',
       cfg_extra_args := join_with '' ''
           [''--tensor-parallel-size 4'', ''--enable-prefix-caching'',
            ''--reasoning-parser qwen3''],
       cfg_volumes := hf_mount_default,
       cfg_runtime := runtime_default,
       cfg_description := ''FP8 Qwen3-Next 80B on 4x Hopper/Blackwell GPUs.'',
       cfg_source := ''vllm-project/recipes Qwen/Qwen3-Next.md'',
       cfg_targets := [device_h100_80, device_h200, device_b200, device_rtxpro6000],
       cfg_min_vram := 40,
       cfg_min_gpus := 2,
       cfg_quant := quant_fp8,
       cfg_arch := arch_hopper\<rparr>"

definition bkc_qwen3_coder_480b_a35b :: bkc_config where
  "bkc_qwen3_coder_480b_a35b = bkc_zero\<lparr>
       cfg_id := ''qwen3-coder-480b-a35b'',
       cfg_name := ''Qwen3-Coder 480B A35B'',
       cfg_workload := workload_vllm,
       cfg_model_id := ''Qwen/Qwen3-Coder-480B-A35B-Instruct'',
       cfg_image := image_vllm_stable,
       cfg_port := ''8000'',
       cfg_extra_args := join_with '' ''
           [''--max-model-len 32000'', ''--enable-expert-parallel'',
            ''--tensor-parallel-size 8'', ''--enable-auto-tool-choice'',
            ''--tool-call-parser qwen3_coder''],
       cfg_volumes := hf_mount_default,
       cfg_runtime := runtime_default,
       cfg_description := ''Flagship coding MoE on 8x Hopper or Blackwell.'',
       cfg_source := ''vllm-project/recipes Qwen/Qwen3-Coder-480B-A35B.md'',
       cfg_targets := [device_h100_94, device_h200, device_b200],
       cfg_min_vram := 80,
       cfg_min_gpus := 8,
       cfg_quant := quant_bf16,
       cfg_arch := arch_hopper\<rparr>"

definition bkc_qwen3_vl_235b_a22b :: bkc_config where
  "bkc_qwen3_vl_235b_a22b = bkc_zero\<lparr>
       cfg_id := ''qwen3-vl-235b-a22b'',
       cfg_name := ''Qwen3-VL 235B A22B Instruct'',
       cfg_workload := workload_vllm,
       cfg_model_id := ''Qwen/Qwen3-VL-235B-A22B-Instruct'',
       cfg_image := image_vllm_stable,
       cfg_port := ''8000'',
       cfg_extra_args := join_with '' ''
           [''--tensor-parallel-size 8'', ''--mm-encoder-tp-mode data'',
            ''--async-scheduling''],
       cfg_volumes := hf_mount_default,
       cfg_runtime := runtime_default,
       cfg_description := ''Qwen3-VL 235B A22B Instruct on 8x Hopper/Blackwell GPUs.'',
       cfg_source := ''vllm-project/recipes Qwen/Qwen3-VL.md'',
       cfg_targets := [device_h100_94, device_h200, device_b200],
       cfg_min_vram := 80,
       cfg_min_gpus := 8,
       cfg_quant := quant_bf16,
       cfg_arch := arch_hopper\<rparr>"

definition bkc_qwen3_vl_235b_a22b_fp8 :: bkc_config where
  "bkc_qwen3_vl_235b_a22b_fp8 = bkc_zero\<lparr>
       cfg_id := ''qwen3-vl-235b-a22b-fp8'',
       cfg_name := ''Qwen3-VL 235B A22B Instruct FP8'',
       cfg_workload := workload_vllm,
       cfg_model_id := ''Qwen/Qwen3-VL-235B-A22B-Instruct-FP8'',
       cfg_image := image_vllm_stable,
       cfg_port := ''8000'',
       cfg_extra_args := join_with '' ''
           [''--tensor-parallel-size 4'', ''--limit-mm-per-prompt.video 0'',
            ''--async-scheduling'', ''--gpu-memory-utilization 0.95'',
            ''--max-num-seqs 128''],
       cfg_volumes := hf_mount_default,
       cfg_runtime := runtime_default,
       cfg_description := ''FP8 Qwen3-VL 235B, tensor-parallel 4 image-only.'',
       cfg_source := ''vllm-project/recipes Qwen/Qwen3-VL.md'',
       cfg_targets := [device_h100_80, device_h200, device_b200],
       cfg_min_vram := 80,
       cfg_min_gpus := 4,
       cfg_quant := quant_fp8,
       cfg_arch := arch_hopper\<rparr>"

definition bkc_qwen2_5_vl_7b :: bkc_config where
  "bkc_qwen2_5_vl_7b = bkc_zero\<lparr>
       cfg_id := ''qwen2-5-vl-7b'',
       cfg_name := ''Qwen2.5-VL 7B Instruct'',
       cfg_workload := workload_vllm,
       cfg_model_id := ''Qwen/Qwen2.5-VL-7B-Instruct'',
       cfg_image := image_vllm_stable,
       cfg_port := ''8000'',
       cfg_extra_args := join_with '' ''
           [''--trust-remote-code'', ''--tensor-parallel-size 1'',
            ''--max-model-len 32768''],
       cfg_volumes := hf_mount_default,
       cfg_runtime := runtime_default,
       cfg_description := (''Qwen2.5-VL 7B Instruct '' @ [CHR 0xE2, CHR 0x80, CHR 0x94] @ '' single-GPU default.''),
       cfg_source := ''vllm-project/recipes Qwen/Qwen2.5-VL.md'',
       cfg_targets := [device_rtx4090, device_rtx5090, device_l40s, device_a100_80, device_h100_80,
          device_h200, device_b200, device_rtxpro6000, device_gb10],
       cfg_min_vram := 24,
       cfg_min_gpus := 1,
       cfg_quant := quant_bf16,
       cfg_arch := arch_hopper\<rparr>"

definition bkc_qwen2_5_vl_72b :: bkc_config where
  "bkc_qwen2_5_vl_72b = bkc_zero\<lparr>
       cfg_id := ''qwen2-5-vl-72b'',
       cfg_name := ''Qwen2.5-VL 72B Instruct'',
       cfg_workload := workload_vllm,
       cfg_model_id := ''Qwen/Qwen2.5-VL-72B-Instruct'',
       cfg_image := image_vllm_stable,
       cfg_port := ''8000'',
       cfg_extra_args := join_with '' ''
           [''--trust-remote-code'', ''--tensor-parallel-size 4'',
            ''--max-model-len 32768''],
       cfg_volumes := hf_mount_default,
       cfg_runtime := runtime_default,
       cfg_description := (''Qwen2.5-VL 72B on 4x 80 GB GPUs per NVIDIA'' @ [CHR 0x27] @ ''s recipe.''),
       cfg_source := ''vllm-project/recipes Qwen/Qwen2.5-VL.md'',
       cfg_targets := [device_a100_80, device_h100_80, device_h200, device_b200],
       cfg_min_vram := 80,
       cfg_min_gpus := 2,
       cfg_quant := quant_bf16,
       cfg_arch := arch_hopper,
       cfg_notes := [''TP should be >= 2 on 80 GB GPUs to avoid OOM.'']\<rparr>"

definition bkc_qwen3_asr_1_7b :: bkc_config where
  "bkc_qwen3_asr_1_7b = bkc_zero\<lparr>
       cfg_id := ''qwen3-asr-1-7b'',
       cfg_name := ''Qwen3-ASR 1.7B'',
       cfg_workload := workload_vllm,
       cfg_model_id := ''Qwen/Qwen3-ASR-1.7B'',
       cfg_image := image_vllm_stable,
       cfg_port := ''8000'',
       cfg_extra_args := join_with '' ''
           [''--tensor-parallel-size 1''],
       cfg_volumes := hf_mount_default,
       cfg_runtime := runtime_default,
       cfg_description := ''Compact Qwen3 ASR deployable on a single 16 GB+ GPU.'',
       cfg_source := ''vllm-project/recipes Qwen/Qwen3-ASR.md'',
       cfg_targets := [device_rtx4090, device_rtx5090, device_l40s, device_a100_80, device_h100_80,
          device_h200, device_b200, device_rtxpro6000, device_gb10],
       cfg_min_vram := 16,
       cfg_min_gpus := 1,
       cfg_quant := quant_bf16,
       cfg_arch := arch_hopper\<rparr>"

definition bkc_qwen3guard_gen_0_6b :: bkc_config where
  "bkc_qwen3guard_gen_0_6b = bkc_zero\<lparr>
       cfg_id := ''qwen3guard-gen-0-6b'',
       cfg_name := ''Qwen3Guard-Gen 0.6B'',
       cfg_workload := workload_vllm,
       cfg_model_id := ''Qwen/Qwen3Guard-Gen-0.6B'',
       cfg_image := image_vllm_stable,
       cfg_port := ''8000'',
       cfg_extra_args := join_with '' ''
           [''--host 0.0.0.0'', ''--max-model-len 32768''],
       cfg_volumes := hf_mount_default,
       cfg_runtime := runtime_default,
       cfg_description := (''Guardrails generator '' @ [CHR 0xE2, CHR 0x80, CHR 0x94] @ '' runs on any modern NVIDIA/AMD GPU.''),
       cfg_source := ''vllm-project/recipes Qwen/Qwen3Guard-Gen.md'',
       cfg_targets := [device_rtx4090, device_rtx5090, device_l40s, device_a100_80, device_h100_80,
          device_h200, device_b200, device_rtxpro6000, device_gb10],
       cfg_min_vram := 8,
       cfg_min_gpus := 1,
       cfg_quant := quant_bf16,
       cfg_arch := arch_hopper\<rparr>"

definition bkc_qwen3_6_35b_a3b :: bkc_config where
  "bkc_qwen3_6_35b_a3b = bkc_zero\<lparr>
       cfg_id := ''qwen3-6-35b-a3b'',
       cfg_name := ''Qwen3.6 35B A3B'',
       cfg_workload := workload_vllm,
       cfg_model_id := ''Qwen/Qwen3.6-35B-A3B'',
       cfg_image := image_vllm_stable,
       cfg_port := ''8000'',
       cfg_extra_args := join_with '' ''
           [''--tensor-parallel-size 8'', ''--max-model-len 262144'',
            ''--reasoning-parser qwen3''],
       cfg_volumes := hf_mount_default,
       cfg_runtime := runtime_default,
       cfg_description := ''Qwen3.6 35B A3B on 8x Hopper/Blackwell (per the Qwen3.5 recipe).'',
       cfg_source := ''vllm-project/recipes Qwen/Qwen3.5.md'',
       cfg_targets := [device_h100_94, device_h200, device_b200],
       cfg_min_vram := 80,
       cfg_min_gpus := 8,
       cfg_quant := quant_bf16,
       cfg_arch := arch_hopper\<rparr>"

definition bkc_qwen3_6_27b_nvfp4 :: bkc_config where
  "bkc_qwen3_6_27b_nvfp4 = bkc_zero\<lparr>
       cfg_id := ''qwen3-6-27b-nvfp4'',
       cfg_name := ''Qwen3.6-27B'',
       cfg_workload := workload_vllm,
       cfg_model_id := ''sakamakismile/Qwen3.6-27B-NVFP4'',
       cfg_image := image_vllm_cu130_019,
       cfg_port := ''8000'',
       cfg_extra_args := join_with '' ''
           [''--trust-remote-code'', ''--served-model-name Qwen3.6-27B'',
            ''--tensor-parallel-size 1'', ''--max-model-len 262144'',
            ''--max-num-seqs 2'', ''--kv-cache-dtype fp8'',
            ''--gpu-memory-utilization 0.90'',
            (''--limit-mm-per-prompt {'' @ [CHR 0x22] @ ''image'' @ [CHR 0x22] @ '':4,'' @ [CHR 0x22] @ ''video'' @ [CHR 0x22] @ '':0}''),
            ''--reasoning-parser qwen3'', ''--enable-auto-tool-choice'',
            ''--tool-call-parser qwen3_xml''],
       cfg_volumes := hf_mount_default,
       cfg_runtime := runtime_default,
       cfg_description := ''Compressed-tensors NVFP4 Qwen3.6 27B VLM on a single RTX PRO 6000 Blackwell; serves as Qwen3.6-27B with image input enabled.'',
       cfg_source := ''Hugging Face sakamakismile/Qwen3.6-27B-NVFP4 model card'',
       cfg_targets := [device_rtxpro6000, device_b200],
       cfg_min_vram := 96,
       cfg_min_gpus := 1,
       cfg_quant := quant_nvfp4,
       cfg_arch := arch_blackwell,
       cfg_notes := [''Do not pass --quantization modelopt; this repo declares compressed-tensors in its model config.'',
          (''Uses the model card'' @ [CHR 0x27] @ ''s production launch: 256K context, FP8 KV cache, max-num-seqs 2, and gpu-memory-utilization 0.90.''),
          ''Keeps image input enabled with an explicit multimodal prompt limit.'',
          ''Enables qwen3_xml tool calling for Qwen3.6 chat templates.'',
          ''The model card notes faster modelopt + MTP siblings exist, but this BKC intentionally targets this exact compressed-tensors repo.'']\<rparr>"

definition bkc_qwen3_6_27b_text_nvfp4_mtp :: bkc_config where
  "bkc_qwen3_6_27b_text_nvfp4_mtp = bkc_zero\<lparr>
       cfg_id := ''qwen3-6-27b-text-nvfp4-mtp'',
       cfg_name := ''Qwen3.6-27B Text NVFP4 MTP'',
       cfg_workload := workload_vllm,
       cfg_model_id := ''sakamakismile/Qwen3.6-27B-Text-NVFP4-MTP'',
       cfg_image := image_vllm_cu130_019,
       cfg_port := ''8000'',
       cfg_extra_args := join_with '' ''
           [''--trust-remote-code'', ''--quantization modelopt'',
            ''--language-model-only'', ''--tensor-parallel-size 1'',
            ''--max-model-len 262144'', ''--max-num-seqs 2'', ''--kv-cache-dtype fp8'',
            ''--gpu-memory-utilization 0.90'', ''--reasoning-parser qwen3'',
            ''--speculative-config.method qwen3_5_mtp'',
            ''--speculative-config.num_speculative_tokens 3''],
       cfg_volumes := hf_mount_default,
       cfg_runtime := runtime_default,
       cfg_description := ''ModelOpt NVFP4 Qwen3.6 27B text-only checkpoint with Qwen3.5 MTP speculation for single-GPU Blackwell.'',
       cfg_source := ''Hugging Face sakamakismile/Qwen3.6-27B-Text-NVFP4-MTP model card'',
       cfg_targets := [device_b200, device_rtxpro6000, device_gb10],
       cfg_min_vram := 96,
       cfg_min_gpus := 1,
       cfg_quant := quant_nvfp4,
       cfg_arch := arch_blackwell,
       cfg_notes := [''Uses dotted speculative-config arguments instead of JSON so Yokai passes them as clean argv tokens.'',
          ''Targets GB10 / DGX Spark, single RTX PRO 6000 Blackwell, and larger Blackwell GPUs.'']\<rparr>"

definition bkc_qwen3_5_397b_a17b_fp8 :: bkc_config where
  "bkc_qwen3_5_397b_a17b_fp8 = bkc_zero\<lparr>
       cfg_id := ''qwen3-5-397b-a17b-fp8'',
       cfg_name := ''Qwen3.5 397B A17B FP8'',
       cfg_workload := workload_vllm,
       cfg_model_id := ''Qwen/Qwen3.5-397B-A17B-FP8'',
       cfg_image := image_vllm_stable,
       cfg_port := ''8000'',
       cfg_extra_args := join_with '' ''
           [''-dp 8'', ''--enable-expert-parallel'', ''--language-model-only'',
            ''--reasoning-parser qwen3'', ''--enable-prefix-caching''],
       cfg_volumes := hf_mount_default,
       cfg_runtime := runtime_default,
       cfg_description := ''Qwen3.5 397B A17B FP8 with data parallel expert routing.'',
       cfg_source := ''vllm-project/recipes Qwen/Qwen3.5.md'',
       cfg_targets := [device_h100_94, device_h200, device_b200],
       cfg_min_vram := 80,
       cfg_min_gpus := 8,
       cfg_quant := quant_fp8,
       cfg_arch := arch_hopper\<rparr>"

definition bkc_qwen3_5_397b_a17b_nvfp4 :: bkc_config where
  "bkc_qwen3_5_397b_a17b_nvfp4 = bkc_zero\<lparr>
       cfg_id := ''qwen3-5-397b-a17b-nvfp4'',
       cfg_name := ''Qwen3.5 397B A17B NVFP4'',
       cfg_workload := workload_vllm,
       cfg_model_id := ''nvidia/Qwen3.5-397B-A17B-NVFP4'',
       cfg_image := image_vllm_stable,
       cfg_port := ''8000'',
       cfg_extra_args := join_with '' ''
           [''-dp 4'', ''--enable-expert-parallel'', ''--language-model-only'',
            ''--reasoning-parser qwen3'', ''--enable-prefix-caching''],
       cfg_volumes := hf_mount_default,
       cfg_runtime := runtime_default,
       cfg_description := ''NVFP4 Blackwell deployment of Qwen3.5 397B A17B.'',
       cfg_source := ''vllm-project/recipes Qwen/Qwen3.5.md'',
       cfg_targets := [device_b200],
       cfg_min_vram := 180,
       cfg_min_gpus := 4,
       cfg_quant := quant_nvfp4,
       cfg_arch := arch_blackwell\<rparr>"

definition catalog_qwen :: "bkc_config list" where
  "catalog_qwen =
     [bkc_qwen3_8_27b_nvfp4_bf16_lmhead_sglang_dflash2,
      bkc_qwen3_8_27b_nvfp4_bf16_lmhead_sglang_dflash2_gb10,
      bkc_qwen3_8_27b_nvfp4_sglang_dflash2, bkc_qwen3_8_27b_nvfp4_sglang_dspark,
      bkc_qwen3_0_6b, bkc_qwen3_1_7b, bkc_qwen3_4b, bkc_qwen3_8b, bkc_qwen3_14b,
      bkc_qwen3_32b, bkc_qwen3_30b_a3b, bkc_qwen3_235b_a22b, bkc_qwen3_235b_a22b_fp8,
      bkc_qwen3_next_80b_a3b, bkc_qwen3_next_80b_a3b_fp8, bkc_qwen3_coder_480b_a35b,
      bkc_qwen3_vl_235b_a22b, bkc_qwen3_vl_235b_a22b_fp8, bkc_qwen2_5_vl_7b,
      bkc_qwen2_5_vl_72b, bkc_qwen3_asr_1_7b, bkc_qwen3guard_gen_0_6b,
      bkc_qwen3_6_35b_a3b, bkc_qwen3_6_27b_nvfp4, bkc_qwen3_6_27b_text_nvfp4_mtp,
      bkc_qwen3_5_397b_a17b_fp8, bkc_qwen3_5_397b_a17b_nvfp4]"

lemmas bkc_vendors_qwen_defs =
  qwen_small_dense_def bkc_qwen3_8_27b_nvfp4_bf16_lmhead_sglang_dflash2_def
  bkc_qwen3_8_27b_nvfp4_bf16_lmhead_sglang_dflash2_gb10_def
  bkc_qwen3_8_27b_nvfp4_sglang_dflash2_def bkc_qwen3_8_27b_nvfp4_sglang_dspark_def
  bkc_qwen3_0_6b_def bkc_qwen3_1_7b_def bkc_qwen3_4b_def bkc_qwen3_8b_def bkc_qwen3_14b_def
  bkc_qwen3_32b_def bkc_qwen3_30b_a3b_def bkc_qwen3_235b_a22b_def bkc_qwen3_235b_a22b_fp8_def
  bkc_qwen3_next_80b_a3b_def bkc_qwen3_next_80b_a3b_fp8_def bkc_qwen3_coder_480b_a35b_def
  bkc_qwen3_vl_235b_a22b_def bkc_qwen3_vl_235b_a22b_fp8_def bkc_qwen2_5_vl_7b_def
  bkc_qwen2_5_vl_72b_def bkc_qwen3_asr_1_7b_def bkc_qwen3guard_gen_0_6b_def
  bkc_qwen3_6_35b_a3b_def bkc_qwen3_6_27b_nvfp4_def bkc_qwen3_6_27b_text_nvfp4_mtp_def
  bkc_qwen3_5_397b_a17b_fp8_def bkc_qwen3_5_397b_a17b_nvfp4_def

end
