(* ===== verification/Bkc_Shipped.thy ===== *)
theory Bkc_Shipped
  imports Bkc_Catalog Bkc_Vendors_A Bkc_Vendors_B Bkc_Vendors_Qwen
begin

text \<open>
  The catalog a process ends up with: the \<^verbatim>\<open>init\<close> functions run in the order of their file
  names and register their entries one after the other.
\<close>

section \<open>The catalog\<close>

definition shipped_batches :: "bkc_config list list" where
  "shipped_batches =
     [catalog_deepseek, catalog_glm, catalog_google, catalog_llama, catalog_microsoft, catalog_mistral, catalog_moonshotai, catalog_nvidia, catalog_openai, catalog_others, catalog_qwen, [qwen38_cfg]]"

fun register_all :: "bkc_config list \<Rightarrow> bkc_config list list \<Rightarrow> gerror + bkc_config list" where
  "register_all cat [] = Inr cat"
| "register_all cat (batch # batches) =
     (case register cat batch of Inl e \<Rightarrow> Inl e | Inr cat' \<Rightarrow> register_all cat' batches)"

definition shipped_catalog :: "bkc_config list" where
  "shipped_catalog = concat shipped_batches"

lemmas shipped_defs =
  bkc_vendors_a_defs bkc_vendors_b_defs bkc_vendors_qwen_defs

section \<open>What an entry has to satisfy\<close>

definition device_profiles :: "string list" where
  "device_profiles = [device_gb10, device_jetsonthor, device_rtxpro6000, device_rtx5090, device_rtx4090,
     device_l40s, device_a100_80, device_h100_80, device_h100_94, device_h200, device_h20, device_b200,
     device_gb200, device_mi300x, device_mi325x, device_mi355x, device_r9700]"

definition single_node_ok :: "bkc_config \<Rightarrow> bool" where
  "single_node_ok cfg \<longleftrightarrow>
     cfg_id cfg \<noteq> [] \<and> cfg_name cfg \<noteq> [] \<and> cfg_model_id cfg \<noteq> [] \<and> cfg_image cfg \<noteq> [] \<and>
     cfg_workload cfg \<in> {workload_vllm, workload_sglang, workload_llamacpp} \<and>
     cfg_port cfg \<noteq> [] \<and> list_all is_digit (cfg_port cfg) \<and> 1 \<le> cfg_min_gpus cfg \<and>
     0 < cfg_min_vram cfg \<and> cfg_targets cfg \<noteq> [] \<and> set (cfg_targets cfg) \<subseteq> set device_profiles \<and>
     cfg_multi cfg = None"

definition entry_ok :: "bkc_config \<Rightarrow> bool" where
  "entry_ok cfg \<longleftrightarrow> single_node_ok cfg \<or> cfg_multi cfg \<noteq> None \<and> validate_multi_device_recipe cfg = None"

lemma device_profiles_mem: "set device_profiles =
  {device_gb10, device_jetsonthor, device_rtxpro6000, device_rtx5090, device_rtx4090,
     device_l40s, device_a100_80, device_h100_80, device_h100_94, device_h200, device_h20, device_b200,
     device_gb200, device_mi300x, device_mi325x, device_mi355x, device_r9700}"
  by (auto simp: device_profiles_def)

lemma image_nonempty [simp]:
  "image_vllm_stable \<noteq> []"
  "image_vllm_latest \<noteq> []"
  "image_vllm_cu130 \<noteq> []"
  "image_vllm_cu130_019 \<noteq> []"
  "image_vllm_020 \<noteq> []"
  "image_vllm_020audio \<noteq> []"
  "image_vllm_ngc \<noteq> []"
  "image_vllm_jetson \<noteq> []"
  "image_vllm_gemma4 \<noteq> []"
  "image_vllm_gemma4cu \<noteq> []"
  "image_vllm_rocmgemma \<noteq> []"
  "image_sglang_qwen38 \<noteq> []"
  "image_sglang_qwen38dflash2 \<noteq> []"
  "image_sglang_qwen38gb10dflash2 \<noteq> []"
  by (simp_all add: catalog_names)

lemma deepseek_ok: "list_all single_node_ok (catalog_deepseek)"
  by (simp add: catalog_deepseek_def shipped_defs bkc_zero_def single_node_ok_def device_profiles_mem is_digit_def)

lemma glm_ok: "list_all single_node_ok (drop 2 catalog_glm)"
  by (simp add: catalog_glm_def shipped_defs bkc_zero_def single_node_ok_def device_profiles_mem is_digit_def)

lemma google_ok: "list_all single_node_ok (catalog_google)"
  by (simp add: catalog_google_def shipped_defs bkc_zero_def single_node_ok_def device_profiles_mem is_digit_def)

lemma llama_ok: "list_all single_node_ok (catalog_llama)"
  by (simp add: catalog_llama_def shipped_defs bkc_zero_def single_node_ok_def device_profiles_mem is_digit_def)

lemma microsoft_ok: "list_all single_node_ok (catalog_microsoft)"
  by (simp add: catalog_microsoft_def shipped_defs bkc_zero_def single_node_ok_def device_profiles_mem is_digit_def)

lemma mistral_ok: "list_all single_node_ok (catalog_mistral)"
  by (simp add: catalog_mistral_def shipped_defs bkc_zero_def single_node_ok_def device_profiles_mem is_digit_def)

lemma moonshotai_ok: "list_all single_node_ok (catalog_moonshotai)"
  by (simp add: catalog_moonshotai_def shipped_defs bkc_zero_def single_node_ok_def device_profiles_mem is_digit_def)

lemma nvidia_ok: "list_all single_node_ok (catalog_nvidia)"
  by (simp add: catalog_nvidia_def shipped_defs bkc_zero_def single_node_ok_def device_profiles_mem is_digit_def)

lemma openai_ok: "list_all single_node_ok (catalog_openai)"
  by (simp add: catalog_openai_def shipped_defs bkc_zero_def single_node_ok_def device_profiles_mem is_digit_def)

lemma others_ok: "list_all single_node_ok (catalog_others)"
  by (simp add: catalog_others_def shipped_defs bkc_zero_def single_node_ok_def device_profiles_mem is_digit_def)

lemma qwen_ok: "list_all single_node_ok (catalog_qwen)"
  by (simp add: catalog_qwen_def shipped_defs bkc_zero_def single_node_ok_def device_profiles_mem is_digit_def)

definition shipped_ids :: "string list" where
  "shipped_ids =
     [''deepseek-r1-0528-tp8'', ''deepseek-v3-1-tp8'', ''deepseek-v3-2-exp-dp8'',
      ''deepseek-v3-2-dp8'', ''deepseek-ocr'', ''deepseek-ocr-2'', glm53_tensorfold_id,
      glm53_nvfp4_id, ''glm-4-5-air-fp8'', ''glm-4-7-fp8'', ''glm-5-1-fp8'', ''glm-4-5v-fp8'',
      ''glm-ocr'', ''glm-asr-nano-2512'', ''glyph'', ''gemma-4-e2b-it'', ''gemma-4-e4b-it'',
      ''gemma-4-26b-a4b-it'', ''gemma-4-26b-a4b-nvfp4'', ''gemma-4-31b-it'',
      ''translategemma-27b-it'', ''llama-3-3-70b-fp8-hopper'', ''llama-3-3-70b-fp4-blackwell'',
      ''llama-3-3-70b-meta-suggested-fp8'', ''llama-4-scout-fp8-hopper'',
      ''llama-4-scout-fp4-blackwell'', ''llama-3-1-8b-instruct'', ''phi-4-mini-instruct'',
      ''ministral-3-14b-instruct'', ''ministral-3-8b-reasoning'',
      ''ministral-3-14b-reasoning'', ''mistral-large-3-675b'', ''mistral-large-3-675b-nvfp4'',
      ''kimi-k2-instruct-tp8pp2'', ''kimi-k2-5-tp8'', ''kimi-k2-5-nvfp4'',
      ''kimi-k2-thinking-tp8'', ''kimi-linear-48b-a3b-tp4'', ''nemotron-3-super-nvfp4'',
      ''nemotron-3-nano-omni-30b-a3b-reasoning-nvfp4'',
      ''nemotron-3-nano-omni-30b-a3b-reasoning-nvfp4-gb10'', ''nemotron-3-nano-30b-a3b-fp8'',
      ''nemotron-3-nano-30b-a3b-bf16'', ''nemotron-3-nano-30b-a3b-bf16-gb10'',
      ''nemotron-3-nano-30b-a3b-bf16-jetson-thor'', ''nemotron-nano-12b-v2-vl-bf16'',
      ''nemotron-nano-12b-v2-vl-fp8'', ''nemotron-nano-12b-v2-vl-nvfp4'', ''gpt-oss-20b'',
      ''gpt-oss-20b-blackwell'', ''gpt-oss-120b'', ''gpt-oss-120b-blackwell'',
      ''gpt-oss-120b-amd-mi355x'', ''minimax-m2-tp4'', ''mimo-v2-flash-tp4'',
      ''seed-oss-36b-instruct-tp8'', ''intern-s1-bf16'', ''intern-s1-fp8-tp4'',
      ''internvl-3-5-8b'', ''jina-reranker-m0'', ''arcee-trinity-large-thinking'',
      ''hunyuan-a13b-instruct'', ''hunyuan-ocr'', ''step-3-5-flash'', ''ring-1t-fp8'',
      ''ernie-4-5-21b-a3b'', ''ernie-4-5-300b-a47b-fp8'', ''ernie-4-5-vl-28b-a3b'',
      ''ernie-4-5-vl-424b-a47b-fp8-offload'', ''paddleocr-vl'',
      ''qwen3-8-27b-nvfp4-bf16-lmhead-sglang-dflash2'',
      ''qwen3-8-27b-nvfp4-bf16-lmhead-sglang-dflash2-gb10'',
      ''qwen3-8-27b-nvfp4-sglang-dflash2'', ''qwen3-8-27b-nvfp4-sglang-dspark'',
      ''qwen3-0-6b'', ''qwen3-1-7b'', ''qwen3-4b'', ''qwen3-8b'', ''qwen3-14b'', ''qwen3-32b'',
      ''qwen3-30b-a3b'', ''qwen3-235b-a22b'', ''qwen3-235b-a22b-fp8'', ''qwen3-next-80b-a3b'',
      ''qwen3-next-80b-a3b-fp8'', ''qwen3-coder-480b-a35b'', ''qwen3-vl-235b-a22b'',
      ''qwen3-vl-235b-a22b-fp8'', ''qwen2-5-vl-7b'', ''qwen2-5-vl-72b'', ''qwen3-asr-1-7b'',
      ''qwen3guard-gen-0-6b'', ''qwen3-6-35b-a3b'', ''qwen3-6-27b-nvfp4'',
      ''qwen3-6-27b-text-nvfp4-mtp'', ''qwen3-5-397b-a17b-fp8'', ''qwen3-5-397b-a17b-nvfp4'',
      qwen38_dual_id]"

lemma shipped_catalog_ids: "map cfg_id shipped_catalog = shipped_ids"
  by (simp add: shipped_catalog_def shipped_batches_def catalog_deepseek_def catalog_glm_def catalog_google_def catalog_llama_def catalog_microsoft_def catalog_mistral_def catalog_moonshotai_def catalog_nvidia_def catalog_openai_def catalog_others_def catalog_qwen_def
      shipped_defs bkc_zero_def shipped_ids_def glm53_tensorfold_cfg_def glm53_nvfp4_cfg_def qwen38_cfg_def)

lemma shipped_ids_distinct: "distinct shipped_ids \<and> [] \<notin> set shipped_ids"
  by (simp add: shipped_ids_def glm53_tensorfold_id_def glm53_nvfp4_id_def qwen38_dual_id_def)

lemma glm_head: "catalog_glm = glm53_tensorfold_cfg # glm53_nvfp4_cfg # drop 2 catalog_glm"
  by (simp add: catalog_glm_def)

lemma shipped_cases:
  "cfg \<in> set shipped_catalog \<Longrightarrow>
   single_node_ok cfg \<or> cfg \<in> {glm53_tensorfold_cfg, glm53_nvfp4_cfg, qwen38_cfg}"
  using deepseek_ok glm_ok google_ok llama_ok microsoft_ok mistral_ok moonshotai_ok nvidia_ok
    openai_ok others_ok qwen_ok arg_cong [OF glm_head, of set]
  unfolding shipped_catalog_def shipped_batches_def by (auto simp: list_all_iff)

lemma shipped_multi:
  "cfg_multi glm53_tensorfold_cfg = Some tf_multi" "cfg_multi glm53_nvfp4_cfg = Some glm53_multi"
  "cfg_multi qwen38_cfg = Some qwen38_multi"
  by (simp_all add: glm53_tensorfold_cfg_def glm53_nvfp4_cfg_def qwen38_cfg_def)

lemma shipped_driver:
  "cfg \<in> set shipped_catalog \<Longrightarrow> cfg_multi cfg = Some md \<Longrightarrow>
   md_driver md = driver_head_recipe \<longrightarrow> md_recipe_opt md \<noteq> None"
  by (drule shipped_cases)
    (auto simp: single_node_ok_def shipped_multi tf_multi_def glm53_multi_def qwen38_multi_def
      driver_head_recipe_def)

section \<open>Registration succeeds\<close>

lemma register_fresh:
  "distinct (map cfg_id (cat @ cfgs)) \<Longrightarrow> [] \<notin> cfg_id ` set cfgs \<Longrightarrow> register cat cfgs = Inr (cat @ cfgs)"
proof (induction cat cfgs rule: register.induct)
  case (2 cat cfg cfgs)
  then have "cfg_id cfg \<noteq> []" "cfg_id cfg \<notin> cfg_id ` set cat" by (auto simp: image_iff)
  with 2 show ?case by simp
qed simp

lemma register_all_fresh:
  "distinct (map cfg_id (cat @ concat batches)) \<Longrightarrow> [] \<notin> cfg_id ` set (concat batches) \<Longrightarrow>
   register_all cat batches = Inr (cat @ concat batches)"
proof (induction batches arbitrary: cat)
  case (Cons batch batches)
  then have "register cat batch = Inr (cat @ batch)" by (intro register_fresh) auto
  moreover have "register_all (cat @ batch) batches = Inr ((cat @ batch) @ concat batches)"
    by (rule Cons.IH) (use Cons.prems in auto)
  ultimately show ?case by simp
qed simp

lemma shipped_registered: "registered shipped_catalog"
  using shipped_ids_distinct by (simp add: registered_def shipped_catalog_ids [symmetric])

text \<open>
  C32: loading the program registers the whole catalog: no batch panics on an empty or a
  duplicate identifier. Every entry is either a single-node entry with a known engine, a
  numeric port, at least one GPU, a positive memory bound and target devices the program
  knows, or a two-node recipe that passes its validator; looking up an entry's identifier
  returns that entry.
\<close>

theorem shipped_catalog_registers:
  "register_all [] shipped_batches = Inr shipped_catalog \<and>
   list_all (\<lambda>cfg. entry_ok cfg \<and> find (\<lambda>c. cfg_id c = cfg_id cfg) shipped_catalog = Some cfg) shipped_catalog"
proof (rule conjI)
  have "register_all [] shipped_batches = Inr ([] @ concat shipped_batches)"
    using shipped_registered
    by (intro register_all_fresh) (simp_all add: registered_def shipped_catalog_def [symmetric])
  then show "register_all [] shipped_batches = Inr shipped_catalog" by (simp add: shipped_catalog_def)
  have "entry_ok cfg" if "cfg \<in> set shipped_catalog" for cfg
    using shipped_cases [OF that] glm53_tensorfold_valid glm53_nvfp4_valid qwen38_valid
    by (auto simp: entry_ok_def shipped_multi)
  moreover have "find (\<lambda>c. cfg_id c = cfg_id cfg) shipped_catalog = Some cfg" if "cfg \<in> set shipped_catalog" for cfg
    using find_unique [of cfg_id shipped_catalog cfg] that shipped_registered by (simp add: registered_def)
  ultimately show "list_all (\<lambda>cfg. entry_ok cfg \<and>
      find (\<lambda>c. cfg_id c = cfg_id cfg) shipped_catalog = Some cfg) shipped_catalog"
    by (simp add: list_all_iff)
qed

text \<open>
  Two shipped entries are offered to a host with two GPUs but start the engine over
  four: their resource bound says two GPUs, and their arguments set the tensor-parallel
  size to 4.
\<close>

lemma two_gpu_entries_request_four:
  "fits_resources 80 2 bkc_qwen2_5_vl_72b \<and>
   flag_value_count (cfg_extra_args bkc_qwen2_5_vl_72b) ''--tensor-parallel-size'' = (''4'', 1) \<and>
   fits_resources 80 2 bkc_qwen3_next_80b_a3b_fp8 \<and>
   flag_value_count (cfg_extra_args bkc_qwen3_next_80b_a3b_fp8) ''--tensor-parallel-size'' = (''4'', 1)"
proof (intro conjI)
  show "fits_resources 80 2 bkc_qwen2_5_vl_72b" "fits_resources 80 2 bkc_qwen3_next_80b_a3b_fp8"
    by (simp_all add: fits_resources_def bkc_qwen2_5_vl_72b_def bkc_qwen3_next_80b_a3b_fp8_def)
  have a: "cfg_extra_args bkc_qwen2_5_vl_72b =
      join_with '' '' [''--trust-remote-code'', ''--tensor-parallel-size 4'', ''--max-model-len 32768'']"
    and b: "cfg_extra_args bkc_qwen3_next_80b_a3b_fp8 =
      join_with '' '' [''--tensor-parallel-size 4'', ''--enable-prefix-caching'', ''--reasoning-parser qwen3'']"
    by (simp_all add: bkc_qwen2_5_vl_72b_def bkc_qwen3_next_80b_a3b_fp8_def)
  have "str_fields (cfg_extra_args bkc_qwen2_5_vl_72b) =
      [''--trust-remote-code'', ''--tensor-parallel-size'', ''4'', ''--max-model-len'', ''32768'']"
    unfolding a str_fields_join by (simp only: go_str fields_eval)
  then show "flag_value_count (cfg_extra_args bkc_qwen2_5_vl_72b) ''--tensor-parallel-size'' = (''4'', 1)"
    by (simp add: flag_value_count_def has_prefix_def)
  have "str_fields (cfg_extra_args bkc_qwen3_next_80b_a3b_fp8) =
      [''--tensor-parallel-size'', ''4'', ''--enable-prefix-caching'', ''--reasoning-parser'', ''qwen3'']"
    unfolding b str_fields_join by (simp only: go_str fields_eval)
  then show "flag_value_count (cfg_extra_args bkc_qwen3_next_80b_a3b_fp8) ''--tensor-parallel-size'' = (''4'', 1)"
    by (simp add: flag_value_count_def has_prefix_def)
qed

end
