(* ===== verification/Go_Json.thy ===== *)
theory Go_Json
  imports Go_Prelude "HOL-Library.List_Lexorder" "HOL-Library.Char_ord"
begin

text \<open>
  UTF-8 and the text \<^verbatim>\<open>encoding/json\<close> writes: strings, objects, arrays and maps with
  sorted keys.
\<close>

section \<open>UTF-8\<close>

definition cont_byte :: "char \<Rightarrow> bool" where
  "cont_byte c \<longleftrightarrow> (let n = of_char c :: nat in 128 \<le> n \<and> n \<le> 191)"

definition rune_start :: "char \<Rightarrow> bool" where
  "rune_start c \<longleftrightarrow> \<not> cont_byte c"

text \<open>The length of the well-formed encoding a text starts with, 0 when there is none.\<close>

fun rune_len :: "string \<Rightarrow> nat" where
  "rune_len [] = 0"
| "rune_len (a # s) =
     (let n = of_char a :: nat;
          second = (\<lambda>lo hi. s \<noteq> [] \<and> lo \<le> (of_char (hd s) :: nat) \<and> (of_char (hd s) :: nat) \<le> hi);
          rest = (\<lambda>k. k \<le> length s \<and> list_all cont_byte (drop 1 (take k s)))
      in if n < 128 then 1
         else if n < 194 then 0
         else if n \<le> 223 then (if second 128 191 then 2 else 0)
         else if n = 224 then (if second 160 191 \<and> rest 2 then 3 else 0)
         else if n = 237 then (if second 128 159 \<and> rest 2 then 3 else 0)
         else if n \<le> 239 then (if second 128 191 \<and> rest 2 then 3 else 0)
         else if n = 240 then (if second 144 191 \<and> rest 3 then 4 else 0)
         else if n \<le> 243 then (if second 128 191 \<and> rest 3 then 4 else 0)
         else if n = 244 then (if second 128 143 \<and> rest 3 then 4 else 0)
         else 0)"

section \<open>JSON\<close>

text \<open>
  \<^verbatim>\<open>encoding/json\<close> on strings: quotes, backslashes, control characters
  and the three HTML characters are escaped; U+2028 and U+2029 become escapes and bytes
  outside an encoding the replacement character.
\<close>

definition json_byte :: "char \<Rightarrow> string" where
  "json_byte c =
     (let n = of_char c :: nat in
      if n = 34 then [CHR 0x5C, CHR 0x22] else if n = 92 then [CHR 0x5C, CHR 0x5C]
      else if n = 8 then [CHR 0x5C, CHR ''b''] else if n = 12 then [CHR 0x5C, CHR ''f'']
      else if n = 10 then [CHR 0x5C, CHR ''n''] else if n = 13 then [CHR 0x5C, CHR ''r'']
      else if n = 9 then [CHR 0x5C, CHR ''t'']
      else if n < 32 \<or> n = 60 \<or> n = 62 \<or> n = 38
        then [CHR 0x5C] @ ''u00'' @ [hex_digit (n div 16), hex_digit (n mod 16)]
      else [c])"

fun json_chars :: "nat \<Rightarrow> string \<Rightarrow> string" where
  "json_chars k [] = []"
| "json_chars (Suc k) (c # s) = c # json_chars k s"
| "json_chars 0 (c # s) =
     (if has_prefix (c # s) [CHR 0xE2, CHR 0x80, CHR 0xA8] then [CHR 0x5C] @ ''u2028'' @ json_chars 0 (drop 2 s)
      else if has_prefix (c # s) [CHR 0xE2, CHR 0x80, CHR 0xA9] then [CHR 0x5C] @ ''u2029'' @ json_chars 0 (drop 2 s)
      else (case rune_len (c # s) of
              0 \<Rightarrow> [CHR 0x5C] @ ''ufffd'' @ json_chars 0 s
            | Suc 0 \<Rightarrow> json_byte c @ json_chars 0 s
            | Suc n \<Rightarrow> c # json_chars n s))"

definition json_string :: "string \<Rightarrow> string" where
  "json_string s = [CHR 0x22] @ json_chars 0 s @ [CHR 0x22]"

definition json_field :: "string \<Rightarrow> string \<Rightarrow> string" where
  "json_field name value = [CHR 0x22] @ name @ [CHR 0x22] @ '':'' @ value"

definition json_object :: "string list \<Rightarrow> string" where
  "json_object parts = ''{'' @ join_with '','' parts @ ''}''"

definition omit_if :: "bool \<Rightarrow> string \<Rightarrow> string list" where
  "omit_if b field = (if b then [] else [field])"

definition json_array :: "string list \<Rightarrow> string" where
  "json_array items = ''['' @ join_with '','' items @ '']''"

text \<open>A map is written with its keys in byte order.\<close>

definition json_map :: "gomap \<Rightarrow> string" where
  "json_map m = json_object (map (\<lambda>(k, v). json_string k @ '':'' @ json_string v) (sort_key fst m))"

text \<open>A field without \<^verbatim>\<open>omitempty\<close> distinguishes a nil map or slice from an empty one.\<close>

definition json_nullable :: "('a \<Rightarrow> string) \<Rightarrow> 'a option \<Rightarrow> string" where
  "json_nullable f x = (case x of None \<Rightarrow> ''null'' | Some v \<Rightarrow> f v)"

definition json_strings :: "string list \<Rightarrow> string" where
  "json_strings xs = json_array (map json_string xs)"

end
