(* ===== verification/Log_Tail.thy ===== *)
theory Log_Tail
  imports Go_Json
begin

text \<open>
  Log tails of deployment candidates. \<^verbatim>\<open>internal/deployments/logs.go\<close>: the sanitizer that
  decodes, strips control characters, redacts credentials and keeps a bounded suffix;
  \<^verbatim>\<open>internal/agent/log_tail.go\<close>: the writer that keeps the last bytes of a stream. The
  four credential patterns of the source are regular expressions without ambiguity, so
  each is a function from a position of the text to the length it matches there.
\<close>

section \<open>Cleaning\<close>

text \<open>\<^verbatim>\<open>strings.ToValidUTF8\<close>: every run of bytes outside an encoding becomes one replacement.\<close>

fun valid_from :: "string \<Rightarrow> nat \<Rightarrow> bool \<Rightarrow> string \<Rightarrow> string" where
  "valid_from rep k bad [] = []"
| "valid_from rep (Suc k) bad (c # s) = c # valid_from rep k False s"
| "valid_from rep 0 bad (c # s) =
     (case rune_len (c # s) of
        0 \<Rightarrow> (if bad then valid_from rep 0 True s else rep @ valid_from rep 0 True s)
      | Suc n \<Rightarrow> c # valid_from rep n False s)"

definition to_valid_utf8 :: "string \<Rightarrow> string \<Rightarrow> string" where
  "to_valid_utf8 s rep = valid_from rep 0 False s"

text \<open>
  The rune loop of the sanitizer: control characters U+0000 to U+001F except newline and
  tab, U+007F, and U+0080 to U+009F (two bytes) are dropped.
\<close>

definition newline :: char where "newline = CHR 0x0A"

definition ascii_control :: "char \<Rightarrow> bool" where
  "ascii_control c \<longleftrightarrow>
     (let n = of_char c :: nat in (n < 32 \<and> n \<noteq> 10 \<and> n \<noteq> 9) \<or> n = 127)"

fun strip_control :: "string \<Rightarrow> string" where
  "strip_control [] = []"
| "strip_control [c] = (if ascii_control c then [] else [c])"
| "strip_control (c # d # s) =
     (if ascii_control c then strip_control (d # s)
      else if c = CHR 0xC2 \<and> 128 \<le> (of_char d :: nat) \<and> (of_char d :: nat) \<le> 159 then strip_control s
      else c # strip_control (d # s))"

section \<open>The credential patterns\<close>

text \<open>A literal matched without regard to case; the Kelvin sign folds to the letter k.\<close>

fun fold_lit :: "string \<Rightarrow> string \<Rightarrow> string option" where
  "fold_lit [] s = Some s"
| "fold_lit (p # ps) s =
     (case s of
        [] \<Rightarrow> None
      | c # t \<Rightarrow>
          if lower_char c = p then fold_lit ps t
          else if p = CHR ''k'' \<and> has_prefix s [CHR 0xE2, CHR 0x84, CHR 0xAA] then fold_lit ps (drop 3 s)
          else None)"

definition skip_blank :: "string \<Rightarrow> string" where
  "skip_blank s = dropWhile (\<lambda>c. c = CHR '' '' \<or> c = CHR 0x09) s"

definition quoted_value :: "char \<Rightarrow> string \<Rightarrow> string option" where
  "quoted_value q s =
     (case s of
        [] \<Rightarrow> None
      | c # t \<Rightarrow>
          if c \<noteq> q then None
          else (case dropWhile (\<lambda>x. x \<noteq> q \<and> x \<noteq> CHR 0x0D \<and> x \<noteq> newline) t of
             [] \<Rightarrow> None
           | x # u \<Rightarrow> if x = q then Some u else None))"

definition bare_char :: "char \<Rightarrow> bool" where
  "bare_char c \<longleftrightarrow>
     c \<noteq> CHR 0x09 \<and> c \<noteq> newline \<and> c \<noteq> CHR 0x0C \<and> c \<noteq> CHR 0x0D \<and> c \<noteq> CHR '' '' \<and>
     c \<noteq> CHR '','' \<and> c \<noteq> CHR '';'' \<and> c \<noteq> CHR '']'' \<and> c \<noteq> CHR ''}''"

definition value_rest :: "string \<Rightarrow> string option" where
  "value_rest s =
     (case quoted_value (CHR 0x22) s of
        Some t \<Rightarrow> Some t
      | None \<Rightarrow>
          (case quoted_value (CHR 0x27) s of
             Some t \<Rightarrow> Some t
           | None \<Rightarrow> (if s \<noteq> [] \<and> bare_char (hd s) then Some (dropWhile bare_char s) else None)))"

definition then_char :: "char \<Rightarrow> string option \<Rightarrow> string option" where
  "then_char c r = (case r of Some (x # t) \<Rightarrow> if x = c then Some t else None | _ \<Rightarrow> None)"

definition key_flag_rest :: "string \<Rightarrow> string option" where
  "key_flag_rest s =
     (case fold_lit ''--api'' s of
        Some (c # t) \<Rightarrow> if c = CHR ''-'' \<or> c = CHR ''_'' then fold_lit ''key'' t else None
      | _ \<Rightarrow> None)"

definition word_char :: "char \<Rightarrow> bool" where
  "word_char c \<longleftrightarrow> is_digit c \<or> is_letter c \<or> c = CHR ''_''"

text \<open>The four patterns; the first argument is the character before the position.\<close>

definition api_key_equals :: "char option \<Rightarrow> string \<Rightarrow> string option" where
  "api_key_equals prev s =
     Option.bind (then_char (CHR ''='') (map_option skip_blank (key_flag_rest s)))
       (\<lambda>t. value_rest (skip_blank t))"

definition api_key_space :: "char option \<Rightarrow> string \<Rightarrow> string option" where
  "api_key_space prev s =
     Option.bind (key_flag_rest s)
       (\<lambda>t. if t \<noteq> [] \<and> (hd t = CHR '' '' \<or> hd t = CHR 0x09) then value_rest (skip_blank t) else None)"

definition api_key_assignment :: "char option \<Rightarrow> string \<Rightarrow> string option" where
  "api_key_assignment prev s =
     (if (case prev of None \<Rightarrow> False | Some c \<Rightarrow> word_char c) then None
      else Option.bind (then_char (CHR ''='') (map_option skip_blank (fold_lit ''api_key'' s)))
             (\<lambda>t. value_rest (skip_blank t)))"

fun json_string_rest :: "string \<Rightarrow> string option" where
  "json_string_rest [] = None"
| "json_string_rest [c] = (if c = CHR 0x22 then Some [] else None)"
| "json_string_rest (c # d # s) =
     (if c = CHR 0x22 then Some (d # s)
      else if c = CHR 0x5C then (if d = newline then None else json_string_rest s)
      else if c = CHR 0x0D \<or> c = newline then None
      else json_string_rest (d # s))"

definition api_key_json :: "char option \<Rightarrow> string \<Rightarrow> string option" where
  "api_key_json prev s =
     Option.bind (then_char (CHR 0x22)
                   (map_option skip_blank
                     (then_char (CHR '':'')
                       (map_option skip_blank (fold_lit ([CHR 0x22] @ ''api_key'' @ [CHR 0x22]) s)))))
       json_string_rest"

text \<open>
  \<^verbatim>\<open>ReplaceAllString\<close> with a replacement that has no template: leftmost matches, left to
  right; \<open>k\<close> counts the characters of a match still to be skipped.
\<close>

fun replace_matches ::
  "(char option \<Rightarrow> string \<Rightarrow> string option) \<Rightarrow> string \<Rightarrow> nat \<Rightarrow> char option \<Rightarrow> string \<Rightarrow> string" where
  "replace_matches pat rep k prev [] = []"
| "replace_matches pat rep (Suc k) prev (c # s) = replace_matches pat rep k (Some c) s"
| "replace_matches pat rep 0 prev (c # s) =
     (case pat prev (c # s) of
        None \<Rightarrow> c # replace_matches pat rep 0 (Some c) s
      | Some rest \<Rightarrow> rep @ replace_matches pat rep (length s - length rest) (Some c) s)"

definition redacted_log_value :: string where
  "redacted_log_value = ''[REDACTED]''"

definition redact_keys :: "string \<Rightarrow> string \<Rightarrow> string" where
  "redact_keys text key =
     (let text = (if key \<noteq> [] then replace_all key redacted_log_value text else text);
          text = replace_matches api_key_equals (''--api-key='' @ redacted_log_value) 0 None text;
          text = replace_matches api_key_space (''--api-key '' @ redacted_log_value) 0 None text;
          text = replace_matches api_key_assignment (''api_key='' @ redacted_log_value) 0 None text
      in replace_matches api_key_json
           ([CHR 0x22] @ ''api_key'' @ [CHR 0x22] @ '':'' @ [CHR 0x22] @ redacted_log_value @ [CHR 0x22])
           0 None text)"

section \<open>The bounded suffix\<close>

definition max_log_tail_lines :: nat where "max_log_tail_lines = 2000"
definition max_log_tail_bytes :: nat where "max_log_tail_bytes = 262144"

text \<open>\<^verbatim>\<open>keepLastLogLines\<close>: the loop runs its index downwards, here \<open>index + 1\<close>.\<close>

fun keep_scan :: "string \<Rightarrow> nat \<Rightarrow> nat \<Rightarrow> nat \<Rightarrow> string \<times> bool" where
  "keep_scan text maximum seen 0 = (text, False)"
| "keep_scan text maximum seen (Suc index) =
     (if text ! index \<noteq> newline then keep_scan text maximum seen index
      else if Suc seen = maximum then (drop (Suc index) text, True)
      else keep_scan text maximum (Suc seen) index)"

definition keep_last_log_lines :: "string \<Rightarrow> nat \<Rightarrow> string \<times> bool" where
  "keep_last_log_lines text maximum =
     (if maximum = 0 then ([], text \<noteq> [])
      else keep_scan text maximum 0
             (if text \<noteq> [] \<and> last text = newline then length text - 1 else length text))"

definition bound_tail :: "string \<Rightarrow> string \<times> bool" where
  "bound_tail text =
     (let (kept, truncated) = keep_last_log_lines text max_log_tail_lines
      in if length kept > max_log_tail_bytes
         then (dropWhile (\<lambda>c. \<not> rune_start c) (drop (length kept - max_log_tail_bytes) kept), True)
         else (kept, truncated))"

definition clean_log_text :: "string \<Rightarrow> string" where
  "clean_log_text raw =
     strip_control
       (replace_all [CHR 0x0D] [newline]
         (replace_all [CHR 0x0D, newline] [newline]
           (to_valid_utf8 raw [CHR 0xEF, CHR 0xBF, CHR 0xBD])))"

definition sanitize_log_tail :: "string \<Rightarrow> string \<Rightarrow> string \<times> bool" where
  "sanitize_log_tail raw key = bound_tail (redact_keys (clean_log_text raw) key)"

section \<open>The bounded writer of the agent\<close>

text \<open>
  \<^verbatim>\<open>boundedTailWriter\<close>: the last \<open>limit\<close> bytes written, and whether any byte was lost.
  A chunk of at least \<open>limit\<close> bytes replaces the buffer.
\<close>

record tail_writer =
  tw_buffer :: string
  tw_limit :: nat
  tw_truncated :: bool

definition new_tail_writer :: "int \<Rightarrow> tail_writer" where
  "new_tail_writer limit = \<lparr>tw_buffer = [], tw_limit = nat limit, tw_truncated = False\<rparr>"

definition tail_write :: "tail_writer \<Rightarrow> string \<Rightarrow> tail_writer" where
  "tail_write w bytes =
     (if tw_limit w = 0 then w\<lparr>tw_truncated := tw_truncated w \<or> length bytes > 0\<rparr>
      else if length bytes \<ge> tw_limit w
        then w\<lparr>tw_truncated := tw_truncated w \<or> length (tw_buffer w) > 0 \<or> length bytes > tw_limit w,
               tw_buffer := drop (length bytes - tw_limit w) bytes\<rparr>
      else if length (tw_buffer w) + length bytes > tw_limit w
        then w\<lparr>tw_buffer := drop (length (tw_buffer w) + length bytes - tw_limit w) (tw_buffer w) @ bytes,
               tw_truncated := True\<rparr>
      else w\<lparr>tw_buffer := tw_buffer w @ bytes\<rparr>)"

text \<open>\<^verbatim>\<open>discardPotentiallyPartialLogLine\<close>: what follows the first line break.\<close>

fun discard_partial_line :: "string \<Rightarrow> string" where
  "discard_partial_line [] = []"
| "discard_partial_line (c # s) =
     (if c \<noteq> newline \<and> c \<noteq> CHR 0x0D then discard_partial_line s
      else if c = CHR 0x0D \<and> s \<noteq> [] \<and> hd s = newline then tl s
      else s)"

text \<open>
  \<^verbatim>\<open>captureContainerLogTail\<close>, given what \<^verbatim>\<open>docker logs\<close> wrote and whether the command
  failed: the error, or the sanitized tail with its truncation mark.
\<close>

definition capture_container_log_tail ::
  "string \<Rightarrow> bool \<Rightarrow> gerror option \<Rightarrow> string \<Rightarrow> gerror + (string \<times> bool)" where
  "capture_container_log_tail output lost err key =
     (case err of
        Some e \<Rightarrow>
          if output = [] then Inl e
          else (let (tail, truncated) =
                      sanitize_log_tail (if lost then discard_partial_line output else output) key
                in Inr (tail, True))
      | None \<Rightarrow>
          (let (tail, truncated) =
                 sanitize_log_tail (if lost then discard_partial_line output else output) key
           in Inr (tail, lost \<or> truncated)))"

section \<open>Bounds\<close>

lemma keep_scan_suffix: "\<exists>pre. s = pre @ fst (keep_scan s m seen i)"
proof (induction s m seen i rule: keep_scan.induct)
  case (2 s m seen i)
  then show ?case by (auto intro: exI [of _ "take (Suc i) s"])
qed simp

lemma keep_scan_whole: "\<not> snd (keep_scan s m seen i) \<Longrightarrow> fst (keep_scan s m seen i) = s"
  by (induction s m seen i rule: keep_scan.induct) (auto split: if_splits)

text \<open>The newlines of a s from an index on.\<close>

definition breaks :: "string \<Rightarrow> nat" where
  "breaks s = length (filter (\<lambda>c. c = newline) s)"

lemma breaks_drop_Suc:
  "i < length s \<Longrightarrow> breaks (drop i s) = (if s ! i = newline then Suc else id) (breaks (drop (Suc i) s))"
  by (simp add: breaks_def Cons_nth_drop_Suc [symmetric])

lemma keep_scan_breaks:
  "i \<le> length s \<Longrightarrow> seen < m \<Longrightarrow>
   breaks (fst (keep_scan s m seen i)) \<le> m - 1 - seen + breaks (drop i s)"
proof (induction s m seen i rule: keep_scan.induct)
  case (2 s m seen i)
  then show ?case by (auto simp: breaks_drop_Suc)
qed (simp add: breaks_def)

lemma keep_last_log_lines_breaks: "breaks (fst (keep_last_log_lines s m)) \<le> m"
proof (cases "m = 0")
  case False
  define i where "i = (if s \<noteq> [] \<and> last s = newline then length s - 1 else length s)"
  have "breaks (drop i s) \<le> 1"
    unfolding i_def
    by (cases s rule: rev_cases) (auto simp: breaks_def)
  moreover have "breaks (fst (keep_scan s m 0 i)) \<le> m - 1 - 0 + breaks (drop i s)"
    by (rule keep_scan_breaks) (use False in \<open>auto simp: i_def\<close>)
  ultimately show ?thesis
    using False by (simp add: keep_last_log_lines_def i_def)
qed (simp add: keep_last_log_lines_def breaks_def)

lemma keep_last_log_lines_suffix: "\<exists>pre. s = pre @ fst (keep_last_log_lines s m)"
  using keep_scan_suffix by (auto simp: keep_last_log_lines_def)

lemma dropWhile_suffix: "\<exists>q. s = q @ dropWhile p (drop n s)"
proof -
  have "s = (take n s @ takeWhile p (drop n s)) @ dropWhile p (drop n s)" by simp
  then show ?thesis by blast
qed

lemma bound_tail_kept:
  assumes "keep_last_log_lines s max_log_tail_lines = (kept, t)"
  shows "\<exists>q. kept = q @ fst (bound_tail s)"
proof (cases "length kept > max_log_tail_bytes")
  case True
  then show ?thesis
    using dropWhile_suffix [of kept] by (simp add: bound_tail_def assms)
next
  case False
  then show ?thesis by (simp add: bound_tail_def assms)
qed

lemma breaks_append [simp]: "breaks (a @ b) = breaks a + breaks b"
  by (simp add: breaks_def)

lemma bound_tail_suffix: "\<exists>pre. s = pre @ fst (bound_tail s)"
proof -
  obtain kept t where k: "keep_last_log_lines s max_log_tail_lines = (kept, t)" by force
  then obtain pre q where "s = pre @ kept" "kept = q @ fst (bound_tail s)"
    using keep_last_log_lines_suffix [of s max_log_tail_lines] bound_tail_kept by fastforce
  then have "s = (pre @ q) @ fst (bound_tail s)" by simp
  then show ?thesis by blast
qed

lemma keep_scan_no_break: "newline \<notin> set s \<Longrightarrow> i \<le> length s \<Longrightarrow> keep_scan s m seen i = (s, False)"
  by (induction s m seen i rule: keep_scan.induct) (auto simp: in_set_conv_nth)

lemma bound_tail_short:
  assumes "newline \<notin> set s" and "length s \<le> max_log_tail_bytes"
  shows "bound_tail s = (s, False)"
proof -
  have "keep_last_log_lines s max_log_tail_lines = (s, False)"
    using assms(1) by (simp add: keep_last_log_lines_def max_log_tail_lines_def keep_scan_no_break)
  with assms(2) show ?thesis by (simp add: bound_tail_def)
qed

lemma bound_tail_length: "length (fst (bound_tail s)) \<le> max_log_tail_bytes"
proof -
  obtain kept t where k: "keep_last_log_lines s max_log_tail_lines = (kept, t)" by force
  show ?thesis
    using length_dropWhile_le [of "\<lambda>c. \<not> rune_start c" "drop (length kept - max_log_tail_bytes) kept"]
    by (simp add: bound_tail_def k, arith)
qed

lemma bound_tail_breaks: "breaks (fst (bound_tail s)) \<le> max_log_tail_lines"
proof -
  obtain kept t where k: "keep_last_log_lines s max_log_tail_lines = (kept, t)" by force
  then obtain q where "kept = q @ fst (bound_tail s)" using bound_tail_kept by blast
  then have "breaks kept = breaks q + breaks (fst (bound_tail s))" by (metis breaks_append)
  then show ?thesis using keep_last_log_lines_breaks [of s max_log_tail_lines] k by simp
qed

lemma bound_tail_whole:
  assumes "\<not> snd (bound_tail s)"
  shows "fst (bound_tail s) = s"
proof -
  obtain kept t where k: "keep_last_log_lines s max_log_tail_lines = (kept, t)" by force
  with assms have short: "\<not> length kept > max_log_tail_bytes" "\<not> t"
    by (auto simp: bound_tail_def split: if_splits)
  with k have "kept = s"
    using keep_scan_whole by (auto simp: keep_last_log_lines_def max_log_tail_lines_def)
      (metis fst_conv snd_conv)
  with k short show ?thesis by (simp add: bound_tail_def)
qed

section \<open>Control characters\<close>

lemma strip_control_safe: "c \<in> set (strip_control s) \<Longrightarrow> \<not> ascii_control c"
  by (induction s rule: strip_control.induct) (auto split: if_splits)

lemma replace_all_set: "set (replace_all old new s) \<subseteq> set s \<union> set new"
proof (induction old new s rule: replace_all.induct)
  case (2 old new c s)
  have "set (drop (length old) (c # s)) \<subseteq> set (c # s)" by (rule set_drop_subset)
  with 2 show ?case by (cases "old \<noteq> [] \<and> has_prefix (c # s) old") auto
qed simp

lemma replace_matches_set: "set (replace_matches pat rep k prev s) \<subseteq> set s \<union> set rep"
proof (induction pat rep k prev s rule: replace_matches.induct)
  case (3 pat rep prev c s)
  then show ?case by (auto split: option.splits)
qed auto

definition plain :: "string \<Rightarrow> bool" where
  "plain s \<longleftrightarrow> list_all (\<lambda>c. \<not> ascii_control c) s"

lemma plain_mem: "plain s \<Longrightarrow> c \<in> set s \<Longrightarrow> \<not> ascii_control c"
  by (simp add: plain_def list_all_iff)

lemma plain_replace_all: "plain new \<Longrightarrow> plain s \<Longrightarrow> plain (replace_all old new s)"
  using replace_all_set [of old new s] by (auto simp: plain_def list_all_iff)

lemma plain_replace_matches: "plain rep \<Longrightarrow> plain s \<Longrightarrow> plain (replace_matches pat rep k prev s)"
  using replace_matches_set [of pat rep k prev s] by (auto simp: plain_def list_all_iff)

lemma plain_literals:
  "plain redacted_log_value" "plain (''--api-key='' @ redacted_log_value)"
  "plain (''--api-key '' @ redacted_log_value)" "plain (''api_key='' @ redacted_log_value)"
  "plain ([CHR 0x22] @ ''api_key'' @ [CHR 0x22] @ '':'' @ [CHR 0x22] @ redacted_log_value @ [CHR 0x22])"
  by (simp_all add: plain_def redacted_log_value_def ascii_control_def)

lemma redact_keys_plain: "plain s \<Longrightarrow> plain (redact_keys s key)"
  unfolding redact_keys_def Let_def
  by (intro plain_replace_matches plain_literals) (simp add: plain_replace_all plain_literals)

lemma sanitize_safe: "c \<in> set (fst (sanitize_log_tail raw key)) \<Longrightarrow> \<not> ascii_control c"
proof -
  assume c: "c \<in> set (fst (sanitize_log_tail raw key))"
  obtain pre where "redact_keys (clean_log_text raw) key = pre @ fst (sanitize_log_tail raw key)"
    using bound_tail_suffix unfolding sanitize_log_tail_def by blast
  with c have "c \<in> set (redact_keys (clean_log_text raw) key)"
    by (metis UnCI set_append)
  moreover have "plain (clean_log_text raw)"
    by (auto simp: plain_def list_all_iff clean_log_text_def dest: strip_control_safe)
  ultimately show ?thesis using redact_keys_plain plain_mem by blast
qed

section \<open>Control characters of two bytes\<close>

text \<open>
  The control characters U+0080 to U+009F are the bytes C2 80 to C2 9F. \<open>no_c1\<close>: no such pair is
  left. \<open>leads_ok\<close>: the lead byte C2 is followed by a continuation byte, which is what decoding
  establishes, and which removing pairs needs: else the bytes around a removed one could form a
  new pair.
\<close>

fun no_c1 :: "string \<Rightarrow> bool" where
  "no_c1 [] = True"
| "no_c1 [c] = True"
| "no_c1 (c # d # s) =
     (\<not> (c = CHR 0xC2 \<and> 128 \<le> (of_char d :: nat) \<and> (of_char d :: nat) \<le> 159) \<and> no_c1 (d # s))"

fun leads_ok :: "string \<Rightarrow> bool" where
  "leads_ok [] = True"
| "leads_ok [c] = True"
| "leads_ok (c # d # s) = ((c = CHR 0xC2 \<longrightarrow> cont_byte d) \<and> leads_ok (d # s))"

definition c1_byte :: "char \<Rightarrow> bool" where
  "c1_byte d \<longleftrightarrow> 128 \<le> (of_char d :: nat) \<and> (of_char d :: nat) \<le> 159"

lemma no_c1_Cons: "no_c1 (c # t) \<longleftrightarrow> (c = CHR 0xC2 \<longrightarrow> t = [] \<or> \<not> c1_byte (hd t)) \<and> no_c1 t"
  by (cases t) (auto simp: c1_byte_def)

lemma leads_ok_Cons: "leads_ok (c # t) \<longleftrightarrow> (c = CHR 0xC2 \<longrightarrow> t = [] \<or> cont_byte (hd t)) \<and> leads_ok t"
  by (cases t) auto

lemma no_c1_drop: "no_c1 s \<Longrightarrow> no_c1 (drop n s)"
  by (induction s arbitrary: n) (auto simp: no_c1_Cons drop_Cons split: nat.splits)

lemma leads_ok_drop: "leads_ok s \<Longrightarrow> leads_ok (drop n s)"
  by (induction s arbitrary: n) (auto simp: leads_ok_Cons drop_Cons split: nat.splits)

definition ascii_text :: "string \<Rightarrow> bool" where
  "ascii_text s \<longleftrightarrow> s \<noteq> [] \<and> list_all (\<lambda>c. (of_char c :: nat) < 128) s"

lemma ascii_not_lead: "(of_char c :: nat) < 128 \<Longrightarrow> c \<noteq> CHR 0xC2 \<and> \<not> c1_byte c"
  by (auto simp: c1_byte_def)

lemma no_c1_ascii: "ascii_text r \<Longrightarrow> no_c1 t \<Longrightarrow> no_c1 (r @ t)"
proof -
  have "list_all (\<lambda>c. (of_char c :: nat) < 128) r \<Longrightarrow> no_c1 t \<Longrightarrow> no_c1 (r @ t)"
    by (induction r) (auto simp: no_c1_Cons dest: ascii_not_lead)
  then show "ascii_text r \<Longrightarrow> no_c1 t \<Longrightarrow> no_c1 (r @ t)" by (simp add: ascii_text_def)
qed

lemma leads_ok_ascii: "ascii_text r \<Longrightarrow> leads_ok t \<Longrightarrow> leads_ok (r @ t)"
proof -
  have "list_all (\<lambda>c. (of_char c :: nat) < 128) r \<Longrightarrow> leads_ok t \<Longrightarrow> leads_ok (r @ t)"
    by (induction r) (auto simp: leads_ok_Cons dest: ascii_not_lead)
  then show "ascii_text r \<Longrightarrow> leads_ok t \<Longrightarrow> leads_ok (r @ t)" by (simp add: ascii_text_def)
qed

lemma ascii_head: "ascii_text r \<Longrightarrow> \<not> c1_byte (hd (r @ t))"
  by (cases r) (auto simp: ascii_text_def dest: ascii_not_lead)

lemma replace_all_no_c1: "ascii_text new \<Longrightarrow> no_c1 s \<Longrightarrow> no_c1 (replace_all old new s)"
proof (induction old new s rule: replace_all.induct)
  case (2 old new c s)
  show ?case
  proof (cases "old \<noteq> [] \<and> has_prefix (c # s) old")
    case True
    have "no_c1 (drop (length old) (c # s))" using "2.prems"(2) by (rule no_c1_drop)
    with "2.IH"(1) [OF True "2.prems"(1)] True "2.prems"(1) show ?thesis by (simp add: no_c1_ascii)
  next
    case False
    have "no_c1 (replace_all old new s)"
      using "2.IH"(2) [OF False "2.prems"(1)] "2.prems"(2) by (simp add: no_c1_Cons)
    moreover have "replace_all old new s = [] \<or> \<not> c1_byte (hd (replace_all old new s))" if "c = CHR 0xC2"
      using that "2.prems" ascii_head [OF "2.prems"(1)] by (cases s) (auto simp: no_c1_Cons)
    ultimately show ?thesis using False by (auto simp: no_c1_Cons)
  qed
qed simp

lemma replace_all_leads_ok:
  "ascii_text new \<Longrightarrow> old = x # old' \<Longrightarrow> \<not> cont_byte x \<Longrightarrow> leads_ok s \<Longrightarrow> leads_ok (replace_all old new s)"
proof (induction old new s rule: replace_all.induct)
  case (2 old new c s)
  show ?case
  proof (cases "old \<noteq> [] \<and> has_prefix (c # s) old")
    case True
    have "leads_ok (drop (length old) (c # s))" using "2.prems"(4) by (rule leads_ok_drop)
    with "2.IH"(1) [OF True "2.prems"(1-3)] True "2.prems"(1) show ?thesis by (simp add: leads_ok_ascii)
  next
    case False
    have "leads_ok (replace_all old new s)"
      using "2.IH"(2) [OF False "2.prems"(1-3)] "2.prems"(4) by (simp add: leads_ok_Cons)
    moreover have "replace_all old new s = [] \<or> cont_byte (hd (replace_all old new s))" if "c = CHR 0xC2"
      using that "2.prems" by (cases s) (auto simp: leads_ok_Cons has_prefix_def)
    ultimately show ?thesis using False by (auto simp: leads_ok_Cons)
  qed
qed simp

lemma replace_matches_no_c1:
  "ascii_text rep \<Longrightarrow> no_c1 s \<Longrightarrow> no_c1 (replace_matches pat rep k prev s)"
proof (induction pat rep k prev s rule: replace_matches.induct)
  case (2 pat rep k prev c s)
  then show ?case by (simp add: no_c1_Cons)
next
  case (3 pat rep prev c s)
  show ?case
  proof (cases "pat prev (c # s)")
    case (Some rest)
    then show ?thesis using 3 by (auto simp: no_c1_Cons intro: no_c1_ascii)
  next
    case None
    have "no_c1 (replace_matches pat rep 0 (Some c) s)" using "3.IH"(1) [OF None] "3.prems" by (simp add: no_c1_Cons)
    moreover have "replace_matches pat rep 0 (Some c) s = [] \<or> \<not> c1_byte (hd (replace_matches pat rep 0 (Some c) s))"
      if "c = CHR 0xC2"
      using that "3.prems" ascii_head [OF "3.prems"(1)] by (cases s) (auto simp: no_c1_Cons split: option.splits)
    ultimately show ?thesis using None by (auto simp: no_c1_Cons)
  qed
qed simp

text \<open>Decoding puts a continuation byte after each lead byte it keeps.\<close>

definition pending :: "nat \<Rightarrow> string \<Rightarrow> bool" where
  "pending k s \<longleftrightarrow> k \<le> length s \<and> list_all cont_byte (take k s)"

lemma rune_len_pending: "rune_len (c # s) = Suc n \<Longrightarrow> pending n s \<and> (c = CHR 0xC2 \<longrightarrow> 0 < n)"
proof -
  assume r: "rune_len (c # s) = Suc n"
  have p: "pending k s" if "s \<noteq> []" "cont_byte (hd s)" "k \<le> length s" "list_all cont_byte (drop 1 (take k s))" for k
    using that by (cases s; cases k) (auto simp: pending_def)
  show ?thesis
    using r p [of 1] p [of 2] p [of 3]
    by (cases s) (auto simp: Let_def cont_byte_def pending_def split: if_splits)
qed

lemma valid_from_leads_ok:
  assumes "r = [CHR 0xEF, CHR 0xBF, CHR 0xBD]"
  shows "pending k s \<Longrightarrow> leads_ok (valid_from r k bad s)"
  using assms
proof (induction r k bad s rule: valid_from.induct)
  case (2 rep k bad c s)
  then have "leads_ok (valid_from rep k False s)" "c \<noteq> CHR 0xC2"
    by (auto simp: pending_def cont_byte_def)
  then show ?case by (simp add: leads_ok_Cons)
next
  case (3 rep bad c s)
  show ?case
  proof (cases "rune_len (c # s)")
    case 0
    with 3 show ?thesis by (auto simp: leads_ok_Cons pending_def)
  next
    case (Suc n)
    note n = rune_len_pending [OF Suc]
    then have ok: "leads_ok (valid_from rep n False s)" using "3.IH"(3) [OF Suc] "3.prems"(2) by simp
    have "cont_byte (hd (valid_from rep n False s))" if "c = CHR 0xC2"
      using n that by (cases n; cases s) (auto simp: pending_def)
    with ok Suc show ?thesis by (auto simp: leads_ok_Cons)
  qed
qed simp

lemma strip_control_no_c1: "leads_ok s \<Longrightarrow> no_c1 (strip_control s)"
proof (induction s rule: strip_control.induct)
  case (3 c d s)
  show ?case
  proof (cases "ascii_control c \<or> (c = CHR 0xC2 \<and> c1_byte d)")
    case True
    then show ?thesis
      using 3 by (auto simp: c1_byte_def leads_ok_Cons ascii_control_def)
  next
    case False
    have ok: "no_c1 (strip_control (d # s))"
      using 3 False by (auto simp: c1_byte_def)
    have "hd (strip_control (d # s)) = d" if "c = CHR 0xC2"
    proof -
      have "cont_byte d" using "3.prems" that by simp
      then have "\<not> ascii_control d" "d \<noteq> CHR 0xC2" by (auto simp: cont_byte_def ascii_control_def Let_def)
      then show ?thesis by (cases s) auto
    qed
    with ok False show ?thesis by (auto simp: no_c1_Cons c1_byte_def)
  qed
qed simp_all

lemma clean_no_c1: "no_c1 (clean_log_text raw)"
proof -
  have "leads_ok (to_valid_utf8 raw [CHR 0xEF, CHR 0xBF, CHR 0xBD])"
    unfolding to_valid_utf8_def by (rule valid_from_leads_ok [OF refl]) (simp add: pending_def)
  moreover have "ascii_text [newline]" "\<not> cont_byte CHR 0x0D"
    by (simp_all add: ascii_text_def newline_def cont_byte_def)
  ultimately show ?thesis
    unfolding clean_log_text_def by (intro strip_control_no_c1 replace_all_leads_ok [OF _ refl])
qed

lemma ascii_literals:
  "ascii_text redacted_log_value" "ascii_text (''--api-key='' @ redacted_log_value)"
  "ascii_text (''--api-key '' @ redacted_log_value)" "ascii_text (''api_key='' @ redacted_log_value)"
  "ascii_text ([CHR 0x22] @ ''api_key'' @ [CHR 0x22] @ '':'' @ [CHR 0x22] @ redacted_log_value @ [CHR 0x22])"
  by (simp_all add: ascii_text_def redacted_log_value_def)

lemma sanitize_no_c1: "no_c1 (fst (sanitize_log_tail raw key))"
proof -
  have "no_c1 (redact_keys (clean_log_text raw) key)"
    unfolding redact_keys_def Let_def
    by (intro replace_matches_no_c1 ascii_literals) (simp add: replace_all_no_c1 ascii_literals clean_no_c1)
  moreover obtain pre where "redact_keys (clean_log_text raw) key = pre @ fst (sanitize_log_tail raw key)"
    using bound_tail_suffix unfolding sanitize_log_tail_def by blast
  ultimately show ?thesis using no_c1_drop [of _ "length pre"] by (metis append_eq_conv_conj)
qed

section \<open>The bounded writer keeps the end of the stream\<close>

definition last_bytes :: "nat \<Rightarrow> string \<Rightarrow> string" where
  "last_bytes n s = drop (length s - n) s"

lemma last_bytes_append: "n \<le> length t \<Longrightarrow> last_bytes n (s @ t) = last_bytes n t"
  by (simp add: last_bytes_def)

lemma tail_write_step:
  assumes "tw_buffer w = last_bytes (tw_limit w) written"
    and "tw_truncated w \<longleftrightarrow> length written > tw_limit w"
  shows "tw_buffer (tail_write w bytes) = last_bytes (tw_limit w) (written @ bytes)"
    and "tw_truncated (tail_write w bytes) \<longleftrightarrow> length (written @ bytes) > tw_limit w"
    and "tw_limit (tail_write w bytes) = tw_limit w"
proof -
  have len: "length (tw_buffer w) = min (tw_limit w) (length written)"
    using assms(1) by (simp add: last_bytes_def)
  show "tw_buffer (tail_write w bytes) = last_bytes (tw_limit w) (written @ bytes)"
    using assms len
    by (auto simp: tail_write_def last_bytes_def min_def add.commute [of "length bytes"])
  show "tw_truncated (tail_write w bytes) \<longleftrightarrow> length (written @ bytes) > tw_limit w"
    using assms(2) len by (cases "tw_buffer w") (auto simp: tail_write_def min_def split: if_splits)
  show "tw_limit (tail_write w bytes) = tw_limit w"
    by (simp add: tail_write_def)
qed

lemma tail_writes:
  "tw_buffer w = last_bytes (tw_limit w) written \<Longrightarrow>
   tw_truncated w = (length written > tw_limit w) \<Longrightarrow>
   tw_buffer (foldl tail_write w chunks) = last_bytes (tw_limit w) (written @ concat chunks) \<and>
   tw_truncated (foldl tail_write w chunks) = (length (written @ concat chunks) > tw_limit w)"
proof (induction chunks arbitrary: w written)
  case (Cons b chunks)
  from Cons.IH [OF tail_write_step(1) [OF Cons.prems, of b, folded tail_write_step(3) [OF Cons.prems, of b]]]
  show ?case
    using tail_write_step(2,3) [OF Cons.prems, of b] by simp
qed simp

section \<open>Properties\<close>

text \<open>
  C30: whatever a candidate logged and whatever the key, the recorded tail has at most
  262144 bytes and 2000 line breaks, contains no control character but newline and tab (no
  ASCII control character and no pair of bytes that encodes U+0080 to U+009F), is a suffix of
  the cleaned and redacted log, and is all of it unless it is marked truncated.
\<close>

theorem sanitize_log_tail_bounded:
  "length (fst (sanitize_log_tail raw key)) \<le> max_log_tail_bytes \<and>
   breaks (fst (sanitize_log_tail raw key)) \<le> max_log_tail_lines \<and>
   list_all (\<lambda>c. \<not> ascii_control c) (fst (sanitize_log_tail raw key)) \<and>
   no_c1 (fst (sanitize_log_tail raw key)) \<and>
   (\<exists>pre. redact_keys (clean_log_text raw) key = pre @ fst (sanitize_log_tail raw key)) \<and>
   (snd (sanitize_log_tail raw key) \<or>
    fst (sanitize_log_tail raw key) = redact_keys (clean_log_text raw) key)"
  using bound_tail_length bound_tail_breaks bound_tail_suffix bound_tail_whole sanitize_safe sanitize_no_c1
  unfolding sanitize_log_tail_def list_all_iff by blast

text \<open>
  The writer the agent gives to \<^verbatim>\<open>docker logs\<close> holds, after any sequence of writes,
  exactly the last \<open>limit\<close> bytes of the whole stream, and says that bytes were lost
  exactly when the stream was longer; a negative limit is no limit of bytes at all but 0.
\<close>

lemma tail_writer_keeps_last:
  "tw_buffer (foldl tail_write (new_tail_writer limit) chunks) =
     last_bytes (nat limit) (concat chunks) \<and>
   tw_truncated (foldl tail_write (new_tail_writer limit) chunks) =
     (length (concat chunks) > nat limit)"
  using tail_writes [of "new_tail_writer limit" "[]" chunks]
  by (simp add: new_tail_writer_def last_bytes_def)

text \<open>
  The promise that an exact request credential never appears in the result does not
  hold for every key: a key that occurs in the replacement text itself, such as RED,
  comes back with it.
\<close>

lemma sanitize_log_tail_key_in_marker:
  "str_contains (fst (sanitize_log_tail ''token RED sent'' ''RED'')) ''RED''"
proof -
  have clean: "clean_log_text ''token RED sent'' = ''token RED sent''"
    by (simp add: clean_log_text_def to_valid_utf8_def of_char_bits ascii_control_def newline_def
        has_prefix_def)
  have redact: "redact_keys ''token RED sent'' ''RED'' = ''token [REDACTED] sent''"
    by (simp add: redact_keys_def redacted_log_value_def has_prefix_def api_key_equals_def
        api_key_space_def api_key_assignment_def api_key_json_def key_flag_rest_def then_char_def
        lower_char_bits lower_char_upper)
  have bound: "bound_tail ''token [REDACTED] sent'' = (''token [REDACTED] sent'', False)"
    by (rule bound_tail_short) (simp_all add: newline_def max_log_tail_bytes_def)
  show ?thesis
    by (simp add: sanitize_log_tail_def clean redact bound has_prefix_def)
qed

end
