(* ===== verification/Deploy_Types.thy ===== *)
theory Deploy_Types
  imports Bkc_Types Log_Tail
begin

text \<open>
  The data model of grouped deployments, \<^verbatim>\<open>internal/deployments/types.go\<close>: the durable
  deployment record with its members, progress journal and rollback result, the requests,
  the candidate a member is launched from, and the member helpers of \<^verbatim>\<open>engine.go\<close>. A
  string type with declared constants is a datatype with one constructor per constant and
  one for any other text a stored document may hold. Times are integers (nanoseconds).
\<close>

datatype dstate =
    StatePending | StateStarting | StateRunning | StateStopping | StateStopped
  | StateFailed | StateRolledBack | StateRollbackFailed | StateOther string

datatype phase =
    PhasePlanned | PhasePulling | PhaseCutover | PhaseLaunching | PhaseReadiness
  | PhaseRunning | PhaseStopping | PhaseStarting | PhaseRollback | PhaseComplete
  | PhaseOther string

datatype ownership =
    OwnershipManaged | OwnershipAdopted | OwnershipObserved | OwnershipOther string

fun state_text :: "dstate \<Rightarrow> string" where
  "state_text StatePending = ''pending''"
| "state_text StateStarting = ''starting''"
| "state_text StateRunning = ''running''"
| "state_text StateStopping = ''stopping''"
| "state_text StateStopped = ''stopped''"
| "state_text StateFailed = ''failed''"
| "state_text StateRolledBack = ''rolled_back''"
| "state_text StateRollbackFailed = ''rollback_failed''"
| "state_text (StateOther s) = s"

fun ownership_text :: "ownership \<Rightarrow> string" where
  "ownership_text OwnershipManaged = ''managed''"
| "ownership_text OwnershipAdopted = ''adopted''"
| "ownership_text OwnershipObserved = ''observed''"
| "ownership_text (OwnershipOther s) = s"

record binding =
  b_role :: string
  b_device :: string
  b_fabric_address :: string
  b_fabric_interface :: string
  b_fabric_hca :: string
  b_fabric_gid :: "int option"
  b_service_address :: string
  b_service_port :: int
  b_observed :: string

definition binding_zero :: binding where
  "binding_zero = \<lparr>b_role = [], b_device = [], b_fabric_address = [], b_fabric_interface = [],
     b_fabric_hca = [], b_fabric_gid = None, b_service_address = [], b_service_port = 0,
     b_observed = []\<rparr>"

record create_request =
  rq_bkc_id :: string
  rq_key :: string
  rq_bindings :: "binding list"
  rq_api_key :: string
  rq_model_path :: string

record member =
  m_role :: string
  m_rank :: int
  m_device :: string
  m_fabric_address :: string
  m_service_address :: string
  m_service_port :: int
  m_container :: string
  m_name :: string
  m_status :: string
  m_ownership :: ownership
  m_generation :: int

record rank_log_tail =
  lt_role :: string
  lt_rank :: int
  lt_device :: string
  lt_container :: string
  lt_name :: string
  lt_status :: string
  lt_tail :: string
  lt_truncated :: bool
  lt_error :: string
  lt_captured_at :: int

record rollback_result =
  rr_attempted :: bool
  rr_removed :: "string list"
  rr_restarted :: "string list"
  rr_log_tails :: "rank_log_tail list"
  rr_errors :: "string list"
  rr_completed_at :: int

record patch_provenance =
  pp_label :: string
  pp_source_path :: string
  pp_original_sha :: string
  pp_patched_sha :: string

record test_result =
  tr_ok :: bool
  tr_metrics_ready :: bool
  tr_message :: string
  tr_model :: string
  tr_response :: string
  tr_tested_at :: int

definition test_result_zero :: test_result where
  "test_result_zero = \<lparr>tr_ok = False, tr_metrics_ready = False, tr_message = [], tr_model = [],
     tr_response = [], tr_tested_at = 0\<rparr>"

record progress =
  pr_phase :: phase
  pr_action :: string
  pr_role :: string
  pr_status :: string
  pr_detail :: string
  pr_at :: int

record recipe_provenance =
  rv_repository :: string
  rv_commit :: string
  rv_image_digest :: string
  rv_model_revision :: string
  rv_drafter_revision :: string
  rv_context_tokens :: int
  rv_parallel_requests :: int
  rv_kv_cache :: string
  rv_drafter :: string

record deployment =
  d_id :: string
  d_bkc_id :: string
  d_key :: string
  d_hash :: string
  d_state :: dstate
  d_phase :: phase
  d_generation :: int
  d_prev_generation :: int
  d_bindings :: "binding list"
  d_members :: "member list"
  d_prev :: "member list"
  d_uses_local :: bool
  d_recipe_source :: string
  d_recipe_revision :: string
  d_model_revision :: string
  d_image_digest :: string
  d_launch_order :: "string list"
  d_patches :: "patch_provenance list"
  d_recipe :: "recipe_provenance option"
  d_error :: string
  d_rollback :: "rollback_result option"
  d_last_test :: "test_result option"
  d_progress :: "progress list"
  d_created_at :: int
  d_updated_at :: int

definition deployment_zero :: deployment where
  "deployment_zero = \<lparr>d_id = [], d_bkc_id = [], d_key = [], d_hash = [], d_state = StateOther [],
     d_phase = PhaseOther [], d_generation = 0, d_prev_generation = 0, d_bindings = [],
     d_members = [], d_prev = [], d_uses_local = False, d_recipe_source = [],
     d_recipe_revision = [], d_model_revision = [], d_image_digest = [], d_launch_order = [],
     d_patches = [], d_recipe = None, d_error = [], d_rollback = None, d_last_test = None,
     d_progress = [], d_created_at = 0, d_updated_at = 0\<rparr>"

record recipe_candidate =
  rc_repository :: string
  rc_commit :: string
  rc_worker_device :: string
  rc_worker_address :: string
  rc_head_fabric_address :: string
  rc_service_address :: string
  rc_service_port :: int

record candidate =
  c_role :: string
  c_rank :: int
  c_name :: string
  c_image :: string
  c_model :: string
  c_port :: string
  c_extra_args :: string
  c_args :: "string list"
  c_env :: gomap
  c_volumes :: gomap
  c_runtime :: runtime_options
  c_labels :: gomap
  c_network_mode :: string
  c_devices :: "string list"
  c_cap_add :: "string list"
  c_gpu_ids :: string
  c_driver :: string
  c_recipe :: "recipe_candidate option"

record preflight_request =
  pf_binding :: binding
  pf_candidate_name :: string
  pf_model_path :: string
  pf_service_port :: int
  pf_rendezvous_port :: int
  pf_head :: bool
  pf_bkc_id :: string
  pf_model_revision :: string
  pf_driver :: string
  pf_recipe :: "recipe_candidate option"

record observed =
  o_id :: string
  o_name :: string
  o_status :: string
  o_ownership :: ownership
  o_managed :: bool
  o_generation :: int
  o_deployment :: string
  o_role :: string

text \<open>
  \<^verbatim>\<open>Deployment.UnmarshalJSON\<close>: a decoded record whose patch list is empty takes over the
  singular patch of the older document format.
\<close>

definition adopt_legacy_patch :: "deployment \<Rightarrow> patch_provenance option \<Rightarrow> deployment" where
  "adopt_legacy_patch d legacy =
     (case legacy of
        Some p \<Rightarrow> (if length (d_patches d) = 0 then d\<lparr>d_patches := [p]\<rparr> else d)
      | None \<Rightarrow> d)"

section \<open>Member helpers\<close>

definition member_index_by_role :: "member list \<Rightarrow> string \<Rightarrow> nat option" where
  "member_index_by_role ms role = find_index (\<lambda>m. m_role m = role) ms"

definition member_by_role :: "member list \<Rightarrow> string \<Rightarrow> member option" where
  "member_by_role ms role = map_option (\<lambda>i. ms ! i) (member_index_by_role ms role)"

definition member_locator :: "member \<Rightarrow> string" where
  "member_locator m = (if m_container m \<noteq> [] then m_container m else m_name m)"

definition candidate_may_exist :: "string \<Rightarrow> bool" where
  "candidate_may_exist status \<longleftrightarrow>
     \<not> (status = ''planned'' \<or> status = ''pulling'' \<or> status = ''pulled'' \<or> status = ''removed'')"

definition planned_member :: "binding \<Rightarrow> candidate \<Rightarrow> int \<Rightarrow> member" where
  "planned_member b c generation =
     \<lparr>m_role = b_role b, m_rank = c_rank c, m_device = b_device b,
      m_fabric_address = b_fabric_address b, m_service_address = b_service_address b,
      m_service_port = b_service_port b, m_container = c_name c, m_name = c_name c,
      m_status = ''planned'', m_ownership = OwnershipManaged, m_generation = generation\<rparr>"

definition member_from_observed :: "binding \<Rightarrow> int \<Rightarrow> observed \<Rightarrow> member" where
  "member_from_observed b rank ob =
     \<lparr>m_role = b_role b, m_rank = rank, m_device = b_device b,
      m_fabric_address = b_fabric_address b, m_service_address = b_service_address b,
      m_service_port = b_service_port b, m_container = o_id ob, m_name = o_name ob,
      m_status = o_status ob, m_ownership = o_ownership ob, m_generation = o_generation ob\<rparr>"

text \<open>\<^verbatim>\<open>validateManagedMemberIdentity\<close>: \<open>None\<close> is a nil error.\<close>

definition validate_managed_identity :: "deployment \<Rightarrow> member \<Rightarrow> observed \<Rightarrow> gerror option" where
  "validate_managed_identity d m ob =
     (if m_ownership m \<noteq> OwnershipManaged \<or> \<not> o_managed ob \<or> o_ownership ob \<noteq> OwnershipManaged
        then Some (Errorf (m_role m @ '' member is not managed by Yokai''))
      else if o_deployment ob \<noteq> d_id d \<or> o_generation ob \<noteq> m_generation m \<or> o_role ob \<noteq> m_role m
        then Some (Errorf (m_role m @ '' member provenance does not match deployment''))
      else if trim_space (m_name m) = [] \<or> o_name ob \<noteq> m_name m
        then Some (Errorf (m_role m @ '' member deterministic name does not match deployment''))
      else None)"

text \<open>An update of one member of a list in place.\<close>

definition set_member_status :: "nat \<Rightarrow> string \<Rightarrow> deployment \<Rightarrow> deployment" where
  "set_member_status i status d =
     d\<lparr>d_members := (d_members d)[i := (d_members d ! i)\<lparr>m_status := status\<rparr>]\<rparr>"

definition set_prev_status :: "nat \<Rightarrow> string \<Rightarrow> deployment \<Rightarrow> deployment" where
  "set_prev_status i status d =
     d\<lparr>d_prev := (d_prev d)[i := (d_prev d ! i)\<lparr>m_status := status\<rparr>]\<rparr>"

text \<open>\<^verbatim>\<open>upsertRankLogTail\<close>: an earlier captured log is not lost to a later failed capture.\<close>

fun upsert_log_tail :: "rank_log_tail list \<Rightarrow> rank_log_tail \<Rightarrow> rank_log_tail list" where
  "upsert_log_tail [] v = [v]"
| "upsert_log_tail (x # xs) v =
     (if lt_role x = lt_role v \<and> lt_rank x = lt_rank v
      then (if lt_status x = ''captured'' \<and> lt_status v = ''failed'' then x # xs else v # xs)
      else x # upsert_log_tail xs v)"

definition append_unique :: "string list \<Rightarrow> string list \<Rightarrow> string list" where
  "append_unique existing values = foldl snoc_new existing values"

section \<open>Lemmas\<close>

lemma member_index_by_role_Some:
  "member_index_by_role ms role = Some i \<Longrightarrow> i < length ms \<and> m_role (ms ! i) = role"
  unfolding member_index_by_role_def by (auto dest: find_index_Some)

lemma member_by_role_Some:
  "member_by_role ms role = Some m \<Longrightarrow> m \<in> set ms \<and> m_role m = role"
  by (auto simp: member_by_role_def dest: member_index_by_role_Some)

lemma length_set_status [simp]:
  "length (d_members (set_member_status i st d)) = length (d_members d)"
  "length (d_prev (set_prev_status i st d)) = length (d_prev d)"
  by (simp_all add: set_member_status_def set_prev_status_def)

lemma set_status_fields [simp]:
  "d_prev (set_member_status i st d) = d_prev d"
  "d_members (set_prev_status i st d) = d_members d"
  "d_id (set_member_status i st d) = d_id d" "d_id (set_prev_status i st d) = d_id d"
  "d_state (set_member_status i st d) = d_state d" "d_state (set_prev_status i st d) = d_state d"
  "d_key (set_member_status i st d) = d_key d" "d_key (set_prev_status i st d) = d_key d"
  "d_hash (set_member_status i st d) = d_hash d" "d_hash (set_prev_status i st d) = d_hash d"
  "d_bkc_id (set_member_status i st d) = d_bkc_id d" "d_bkc_id (set_prev_status i st d) = d_bkc_id d"
  "d_progress (set_member_status i st d) = d_progress d"
  "d_progress (set_prev_status i st d) = d_progress d"
  "d_launch_order (set_member_status i st d) = d_launch_order d"
  "d_launch_order (set_prev_status i st d) = d_launch_order d"
  by (simp_all add: set_member_status_def set_prev_status_def)

lemma set_member_status_nth [simp]:
  "i < length (d_members d) \<Longrightarrow>
   d_members (set_member_status i st d) ! i = (d_members d ! i)\<lparr>m_status := st\<rparr>"
  by (simp add: set_member_status_def)

lemma set_prev_status_nth [simp]:
  "i < length (d_prev d) \<Longrightarrow>
   d_prev (set_prev_status i st d) ! i = (d_prev d ! i)\<lparr>m_status := st\<rparr>"
  by (simp add: set_prev_status_def)

text \<open>What a member keeps when only its status changes.\<close>

definition member_roles :: "deployment \<Rightarrow> string list" where
  "member_roles d = map m_role (d_members d)"

lemma member_roles_status [simp]: "member_roles (set_member_status i st d) = member_roles d"
proof (cases "i < length (d_members d)")
  case True
  then have "(map m_role (d_members d))[i := m_role (d_members d ! i)] = map m_role (d_members d)"
    by (metis list_update_id nth_map)
  then show ?thesis by (simp add: member_roles_def set_member_status_def map_update)
qed (simp add: member_roles_def set_member_status_def not_less list_update_beyond)

lemma member_index_by_role_roles:
  "map m_role ms = map m_role ms' \<Longrightarrow> member_index_by_role ms role = member_index_by_role ms' role"
proof -
  assume eq: "map m_role ms = map m_role ms'"
  have "find_index (\<lambda>r. r = role) (map m_role ms) = find_index (\<lambda>r. r = role) (map m_role ms')"
    by (simp only: eq)
  then show ?thesis by (simp add: member_index_by_role_def find_index_map comp_def)
qed

end
