(* ===== verification/Go_Path.thy ===== *)
theory Go_Path
  imports Go_Prelude
begin

text \<open>
  The lexical path functions the sources use (\<^verbatim>\<open>path/filepath\<close> on Unix and
  \<^verbatim>\<open>path\<close>): \<open>path_clean\<close>, \<open>path_is_abs\<close>, \<open>path_base\<close>, \<open>path_dir\<close>,
  \<open>path_join\<close>, and the facts about cleaned paths the components use: a cleaned path
  has no empty and no dot segment, and its parent segments are all at the front.
\<close>

abbreviation slash :: char where "slash \<equiv> CHR ''/''"

text \<open>Processing one segment of a path: parents cancel the segment before them.\<close>

definition clean_step :: "bool \<Rightarrow> string list \<Rightarrow> string \<Rightarrow> string list" where
  "clean_step rooted out s =
     (if s = [] \<or> s = ''.'' then out
      else if s = ''..'' then
        (if out \<noteq> [] \<and> last out \<noteq> ''..'' then butlast out
         else if rooted then out else out @ [''..''])
      else out @ [s])"

definition path_is_abs :: "string \<Rightarrow> bool" where
  "path_is_abs p \<longleftrightarrow> has_prefix p ''/''"

definition clean_segments :: "string \<Rightarrow> string list" where
  "clean_segments p = foldl (clean_step (path_is_abs p)) [] (split_char slash p)"

definition path_clean :: "string \<Rightarrow> string" where
  "path_clean p =
     (let out = join_with ''/'' (clean_segments p)
      in if path_is_abs p then ''/'' @ out else if out = [] then ''.'' else out)"

definition strip_slashes :: "string \<Rightarrow> string" where
  "strip_slashes p = rev (dropWhile (\<lambda>c. c = slash) (rev p))"

definition path_base :: "string \<Rightarrow> string" where
  "path_base p =
     (if p = [] then ''.''
      else let q = rev (takeWhile (\<lambda>c. c \<noteq> slash) (rev (strip_slashes p)))
           in if q = [] then ''/'' else q)"

definition path_dir :: "string \<Rightarrow> string" where
  "path_dir p = path_clean (rev (dropWhile (\<lambda>c. c \<noteq> slash) (rev p)))"

definition path_join :: "string list \<Rightarrow> string" where
  "path_join ps = (let qs = filter (\<lambda>p. p \<noteq> []) ps in if qs = [] then [] else path_clean (join_with ''/'' qs))"

text \<open>
  The shape of a cleaned segment list: no empty or dot segment, and no parent segment
  after a proper name; none at all when the path is absolute.
\<close>

fun names_only :: "string list \<Rightarrow> bool" where
  "names_only [] = True"
| "names_only (s # ss) = (s \<noteq> [] \<and> s \<noteq> ''.'' \<and> s \<noteq> ''..'' \<and> names_only ss)"

fun cleaned :: "string list \<Rightarrow> bool" where
  "cleaned [] = True"
| "cleaned (s # ss) = (if s = ''..'' then cleaned ss else names_only (s # ss))"

lemma names_only_append: "names_only (xs @ ys) = (names_only xs \<and> names_only ys)"
  by (induction xs) auto

lemma names_only_iff: "names_only xs = (\<forall>s \<in> set xs. s \<noteq> [] \<and> s \<noteq> ''.'' \<and> s \<noteq> ''..'')"
  by (induction xs) auto

lemma cleaned_iff: "cleaned xs \<longleftrightarrow> (\<exists>n ys. xs = replicate n ''..'' @ ys \<and> names_only ys)"
proof (induction xs)
  case Nil
  show ?case by (rule iffI, rule exI [of _ 0]) auto
next
  case (Cons s ss)
  show ?case
  proof (cases "s = ''..''")
    case True
    have "(\<exists>n ys. s # ss = replicate n ''..'' @ ys \<and> names_only ys) \<longleftrightarrow>
          (\<exists>n ys. ss = replicate n ''..'' @ ys \<and> names_only ys)" (is "?L = ?R")
    proof
      assume ?L
      then obtain n ys where *: "s # ss = replicate n ''..'' @ ys" "names_only ys" by blast
      with True show ?R by (cases n) auto
    next
      assume ?R
      then obtain n ys where "ss = replicate n ''..'' @ ys" "names_only ys" by blast
      with True have "s # ss = replicate (Suc n) ''..'' @ ys \<and> names_only ys" by simp
      then show ?L by blast
    qed
    with True Cons show ?thesis by simp
  next
    case False
    have "(\<exists>n ys. s # ss = replicate n ''..'' @ ys \<and> names_only ys) \<longleftrightarrow> names_only (s # ss)"
    proof
      assume "\<exists>n ys. s # ss = replicate n ''..'' @ ys \<and> names_only ys"
      then obtain n ys where *: "s # ss = replicate n ''..'' @ ys" "names_only ys" by blast
      with False show "names_only (s # ss)" by (cases n) auto
    qed (rule exI [of _ 0], simp)
    with False show ?thesis by simp
  qed
qed

lemma clean_step_cleaned:
  assumes "cleaned out"
  shows "cleaned (clean_step rooted out s)"
proof -
  obtain n ys where out: "out = replicate n ''..'' @ ys" and ys: "names_only ys"
    using assms cleaned_iff by blast
  show ?thesis
  proof (cases "s = ''..''")
    case True
    show ?thesis
    proof (cases ys rule: rev_cases)
      case Nil
      with out have "out = replicate n ''..''" by simp
      then have last: "out = [] \<or> last out = ''..''" by (cases n) auto
      have "cleaned (out @ [''..''])"
        unfolding cleaned_iff out Nil
        by (rule exI [of _ "Suc n"], rule exI [of _ "[]"]) (simp add: replicate_append_same)
      with True last assms show ?thesis by (auto simp: clean_step_def)
    next
      case (snoc zs z)
      with ys have z: "z \<noteq> ''..''" and zs: "names_only zs" by (auto simp: names_only_append)
      with True out snoc have "clean_step rooted out s = replicate n ''..'' @ zs"
        by (simp add: clean_step_def butlast_append)
      with zs show ?thesis unfolding cleaned_iff by blast
    qed
  next
    case False
    with assms out ys show ?thesis
      unfolding clean_step_def cleaned_iff
      by (auto simp: names_only_append intro!: exI [of _ n] exI [of _ "ys @ [s]"])
  qed
qed

lemma clean_step_rooted: "names_only out \<Longrightarrow> names_only (clean_step True out s)"
proof -
  assume n: "names_only out"
  then have "names_only (butlast out)"
    by (simp add: names_only_iff in_set_butlastD)
  with n show ?thesis by (auto simp: clean_step_def names_only_append)
qed

lemma clean_step_no_slash:
  "(\<forall>t \<in> set out. slash \<notin> set t) \<Longrightarrow> slash \<notin> set s \<Longrightarrow> \<forall>t \<in> set (clean_step rooted out s). slash \<notin> set t"
  by (auto simp: clean_step_def dest: in_set_butlastD)

lemma foldl_clean_cleaned: "cleaned out \<Longrightarrow> cleaned (foldl (clean_step r) out ss)"
  by (induction ss arbitrary: out) (auto intro: clean_step_cleaned)

lemma foldl_clean_rooted: "names_only out \<Longrightarrow> names_only (foldl (clean_step True) out ss)"
  by (induction ss arbitrary: out) (auto intro: clean_step_rooted)

lemma foldl_clean_no_slash:
  "(\<forall>t \<in> set out. slash \<notin> set t) \<Longrightarrow> (\<forall>t \<in> set ss. slash \<notin> set t) \<Longrightarrow>
   \<forall>t \<in> set (foldl (clean_step r) out ss). slash \<notin> set t"
proof (induction ss arbitrary: out)
  case (Cons s ss)
  from Cons.prems have "slash \<notin> set s" by simp
  then have "\<forall>t \<in> set (clean_step r out s). slash \<notin> set t"
    by (rule clean_step_no_slash [OF Cons.prems(1)])
  moreover from Cons.prems have "\<forall>t \<in> set ss. slash \<notin> set t" by simp
  ultimately have "\<forall>t \<in> set (foldl (clean_step r) (clean_step r out s) ss). slash \<notin> set t"
    by (rule Cons.IH)
  then show ?case by simp
qed simp

lemma clean_segments_cleaned: "cleaned (clean_segments p)"
  by (simp add: clean_segments_def foldl_clean_cleaned)

lemma clean_segments_rooted: "path_is_abs p \<Longrightarrow> names_only (clean_segments p)"
  by (simp add: clean_segments_def foldl_clean_rooted)

lemma clean_segments_no_slash: "t \<in> set (clean_segments p) \<Longrightarrow> slash \<notin> set t"
  using foldl_clean_no_slash [of "[]" "split_char slash p" "path_is_abs p"]
  by (auto simp: clean_segments_def dest: split_char_no_sep)

lemma clean_segments_nonempty: "t \<in> set (clean_segments p) \<Longrightarrow> t \<noteq> []"
proof -
  assume t: "t \<in> set (clean_segments p)"
  obtain n ys where "clean_segments p = replicate n ''..'' @ ys" and "names_only ys"
    using clean_segments_cleaned cleaned_iff by blast
  with t show ?thesis by (auto simp: names_only_iff)
qed

text \<open>Splitting a joined list of segments gives the segments back.\<close>

lemma split_char_append: "c \<notin> set s \<Longrightarrow> split_char c (s @ c # t) = s # split_char c t"
  by (induction s) auto

lemma split_char_single: "c \<notin> set s \<Longrightarrow> split_char c s = [s]"
  by (induction s) auto

lemma split_join: "ss \<noteq> [] \<Longrightarrow> (\<forall>s \<in> set ss. c \<notin> set s) \<Longrightarrow> split_char c (join_with [c] ss) = ss"
proof (induction ss rule: induct_list012)
  case (3 s t ts)
  then have "split_char c (join_with [c] (t # ts)) = t # ts" and "c \<notin> set s" by auto
  then show ?case
    unfolding join_with.simps(3) by (simp add: split_char_append)
qed (auto simp: split_char_single)

lemma path_clean_segments:
  "clean_segments p \<noteq> [] \<Longrightarrow> \<not> path_is_abs p \<Longrightarrow> split_char slash (path_clean p) = clean_segments p"
proof -
  assume ne: "clean_segments p \<noteq> []" and rel: "\<not> path_is_abs p"
  obtain t ts where t: "clean_segments p = t # ts" using ne by (cases "clean_segments p") auto
  with clean_segments_nonempty [of t p] have "join_with ''/'' (clean_segments p) \<noteq> []"
    by (cases ts) auto
  with rel have "path_clean p = join_with ''/'' (clean_segments p)"
    by (simp add: path_clean_def Let_def)
  then show ?thesis
    using split_join [of "clean_segments p" slash] ne clean_segments_no_slash by auto
qed

text \<open>Resolving a relative segment list below a directory, as the file system does it.\<close>

fun depth_ok :: "nat \<Rightarrow> string list \<Rightarrow> bool" where
  "depth_ok d [] = True"
| "depth_ok d (s # ss) =
     (if s = ''..'' then 0 < d \<and> depth_ok (d - 1) ss
      else if s = [] \<or> s = ''.'' then depth_ok d ss else depth_ok (Suc d) ss)"

lemma names_only_depth_ok: "names_only ss \<Longrightarrow> depth_ok d ss"
  by (induction ss arbitrary: d) auto

end
