(* ===== verification/Deploy_Validate.thy ===== *)
theory Deploy_Validate
  imports Deploy_Types Bkc_Catalog Go_Path Go_Sha256 "HOL-Library.Multiset"
begin

text \<open>
  Admission of a create request, \<^verbatim>\<open>internal/deployments/engine.go\<close>: normalization, the
  validation of identity, paths, credentials and bindings against the recipe
  (\<^verbatim>\<open>validateCreateRequest\<close>), and the request hash that decides whether a repeated
  idempotency key is a replay (\<^verbatim>\<open>requestHash\<close>).
\<close>

section \<open>Normalization\<close>

definition normalize_binding :: "binding \<Rightarrow> binding" where
  "normalize_binding b =
     b\<lparr>b_role := trim_space (b_role b), b_device := trim_space (b_device b),
       b_fabric_address := trim_space (b_fabric_address b),
       b_fabric_interface := trim_space (b_fabric_interface b),
       b_fabric_hca := trim_space (b_fabric_hca b),
       b_service_address := trim_space (b_service_address b),
       b_observed := trim_space (b_observed b)\<rparr>"

definition normalize_request :: "create_request \<Rightarrow> create_request" where
  "normalize_request r =
     r\<lparr>rq_bkc_id := trim_space (rq_bkc_id r), rq_key := trim_space (rq_key r),
       rq_model_path := trim_space (rq_model_path r),
       rq_bindings := map normalize_binding (rq_bindings r)\<rparr>"

section \<open>Validation\<close>

definition validate_api_key :: "string \<Rightarrow> gerror option" where
  "validate_api_key key =
     (if key = [] then Some (Errorf ''api_key is required'')
      else if length key > 512 \<or> has_space key \<or> has_control key
        then Some (Errorf ''api_key must be a single non-control token of at most 512 characters'')
      else None)"

text \<open>\<^verbatim>\<open>fabricNamePattern\<close>: one to 64 of letters, digits and four punctuation characters.\<close>

definition fabric_name :: "string \<Rightarrow> bool" where
  "fabric_name s \<longleftrightarrow>
     1 \<le> length s \<and> length s \<le> 64 \<and>
     list_all (\<lambda>c. is_letter c \<or> is_digit c \<or> c = CHR ''_'' \<or> c = CHR ''.'' \<or> c = CHR '':'' \<or> c = CHR ''-'') s"

definition local_path_error :: "string \<Rightarrow> bool" where
  "local_path_error p \<longleftrightarrow>
     p \<noteq> [] \<and> (\<not> path_is_abs (path_clean p) \<or> path_clean p = ''/'' \<or> path_clean p \<noteq> p)"

definition snapshot_path_ok :: "string \<Rightarrow> string \<Rightarrow> bool" where
  "snapshot_path_ok p revision \<longleftrightarrow>
     path_base p = revision \<and> path_base (path_dir p) = ''snapshots'' \<and>
     path_base (path_dir (path_dir p)) = qwen38_hf_cache_dir"

text \<open>
  The binding loop keeps the bindings seen by role, the devices, the canonical fabric
  addresses and the service address. An address is compared as the parsed 16 bytes, of
  which \<^verbatim>\<open>IP.String\<close> is a one-to-one rendering.
\<close>

record binding_scan =
  bs_roles :: "string list"
  bs_devices :: "string list"
  bs_addresses :: "ip list"
  bs_service :: "ip option"

definition scan_empty :: binding_scan where
  "scan_empty = \<lparr>bs_roles = [], bs_devices = [], bs_addresses = [], bs_service = None\<rparr>"

definition check_fabric :: "bkc_config \<Rightarrow> multi_device \<Rightarrow> binding \<Rightarrow> gerror option" where
  "check_fabric cfg md b =
     (if md_requires_fabric md then
        (if \<not> fabric_name (b_fabric_interface b) \<or> \<not> fabric_name (b_fabric_hca b) \<or>
            has_prefix (b_fabric_hca b) ''=''
         then Some (Errorf (''role '' @ b_role b @ '' requires valid fabric_interface and fabric_hca names''))
         else (case b_fabric_gid b of
                 None \<Rightarrow> Some (Errorf (''role '' @ b_role b @ '' fabric_gid_index must be between 0 and 255''))
               | Some g \<Rightarrow>
                   if g < 0 \<or> g > 255
                   then Some (Errorf (''role '' @ b_role b @ '' fabric_gid_index must be between 0 and 255''))
                   else None))
      else if b_fabric_interface b \<noteq> [] \<or> b_fabric_hca b \<noteq> [] \<or> b_fabric_gid b \<noteq> None
        then Some (Errorf (''BKC '' @ cfg_id cfg @ '' does not accept explicit fabric interface settings''))
      else None)"

definition check_service :: "bkc_config \<Rightarrow> multi_device \<Rightarrow> binding \<Rightarrow> gerror + ip option" where
  "check_service cfg md b =
     (if b_role b = role_head then
        (case parse_ip (b_service_address b) of
           None \<Rightarrow> Inl (Errorf ''head binding requires an explicit valid service_address'')
         | Some a \<Rightarrow>
             if ip_unspecified a \<or> ip_loopback a \<or> ip_multicast a
             then Inl (Errorf ''head binding requires an explicit valid service_address'')
             else if b_service_port b \<noteq> md_service_port md
             then Inl (Errorf (''head service_port must be '' @ itoa (md_service_port md) @
                               '' for BKC '' @ cfg_id cfg))
             else Inr (Some a))
      else if b_service_address b \<noteq> [] \<or> b_service_port b \<noteq> 0
        then Inl (Errorf ''only the head binding may define a service endpoint'')
      else Inr None)"

definition check_binding ::
  "bkc_config \<Rightarrow> multi_device \<Rightarrow> binding_scan \<Rightarrow> binding \<Rightarrow> gerror + binding_scan" where
  "check_binding cfg md s b =
     (if b_role b = [] \<or> b_device b = [] \<or> b_fabric_address b = []
        then Inl (Errorf ''every binding requires role, device_id, and fabric_address'')
      else if b_role b \<in> set (bs_roles s)
        then Inl (Errorf (''duplicate role '' @ go_quote (b_role b)))
      else if b_device b \<in> set (bs_devices s)
        then Inl (Errorf ''role bindings must use two distinct devices'')
      else (case parse_ip (b_fabric_address b) of
          None \<Rightarrow> Inl (Errorf (''invalid fabric address for role '' @ b_role b))
        | Some a \<Rightarrow>
            if ip_unspecified a \<or> ip_loopback a \<or> ip_multicast a
              then Inl (Errorf (''invalid fabric address for role '' @ b_role b))
            else if a \<in> set (bs_addresses s)
              then Inl (Errorf ''role bindings must use distinct fabric addresses'')
            else (case check_fabric cfg md b of
                Some e \<Rightarrow> Inl e
              | None \<Rightarrow>
                  (case check_service cfg md b of
                     Inl e \<Rightarrow> Inl e
                   | Inr service \<Rightarrow>
                       Inr \<lparr>bs_roles = b_role b # bs_roles s, bs_devices = b_device b # bs_devices s,
                            bs_addresses = a # bs_addresses s,
                            bs_service = (case service of None \<Rightarrow> bs_service s | Some x \<Rightarrow> Some x)\<rparr>))))"

fun check_bindings ::
  "bkc_config \<Rightarrow> multi_device \<Rightarrow> binding_scan \<Rightarrow> binding list \<Rightarrow> gerror + binding_scan" where
  "check_bindings cfg md s [] = Inr s"
| "check_bindings cfg md s (b # bs) =
     (case check_binding cfg md s b of
        Inl e \<Rightarrow> Inl e
      | Inr s' \<Rightarrow> check_bindings cfg md s' bs)"

definition validate_topology :: "create_request \<Rightarrow> bkc_config \<Rightarrow> multi_device \<Rightarrow> gerror option" where
  "validate_topology r cfg md =
     (if length (rq_bindings r) \<noteq> length (md_roles md)
        then Some (Errorf (''exactly '' @ itoa (int (length (md_roles md))) @ '' role bindings are required''))
      else (case check_bindings cfg md scan_empty (rq_bindings r) of
          Inl e \<Rightarrow> Some e
        | Inr s \<Rightarrow>
            if (case bs_service s of None \<Rightarrow> False | Some a \<Rightarrow> a \<in> set (bs_addresses s))
              then Some (Errorf ''head service_address must be distinct from the private fabric addresses'')
            else (case find (\<lambda>role. role_name role \<notin> set (bs_roles s)) (md_roles md) of
                Some role \<Rightarrow> Some (Errorf (''missing exact role '' @ go_quote (role_name role)))
              | None \<Rightarrow> None)))"

definition validate_inputs :: "create_request \<Rightarrow> bkc_config \<Rightarrow> multi_device \<Rightarrow> gerror option" where
  "validate_inputs r cfg md =
     (if md_requires_local_model md \<and> rq_model_path r = []
        then Some (Errorf (''BKC '' @ cfg_id cfg @ '' requires local_model_path for the exact pre-staged snapshot''))
      else if md_requires_local_model md \<and> \<not> snapshot_path_ok (rq_model_path r) (md_model_revision md)
        then Some (Errorf (''local_model_path must be the standard Hugging Face cache snapshot for revision '' @
                           md_model_revision md))
      else if cfg_workload cfg = workload_tensorfold then
        (if rq_api_key r \<noteq> [] then Some (Errorf ''api_key is not supported by the pinned TensorFold recipe'')
         else if rq_model_path r \<noteq> []
           then Some (Errorf ''local_model_path is not supported by the pinned TensorFold recipe; it owns exact offline snapshot paths'')
         else None)
      else validate_api_key (rq_api_key r))"

definition validate_create_request :: "bkc_config list \<Rightarrow> create_request \<Rightarrow> gerror + bkc_config" where
  "validate_create_request cat r =
     (if rq_bkc_id r = [] then Inl (Errorf ''bkc_id is required'')
      else if rq_key r = [] \<or> length (rq_key r) > 128
        then Inl (Errorf ''idempotency_key must be 1-128 characters'')
      else if has_control (rq_key r) then Inl (Errorf ''idempotency_key contains control characters'')
      else if local_path_error (rq_model_path r)
        then Inl (Errorf ''local_model_path must be an explicit clean absolute path'')
      else (case lookup_id cat (rq_bkc_id r) of
          None \<Rightarrow> Inl (Errorf (''unknown BKC '' @ go_quote (rq_bkc_id r)))
        | Some cfg \<Rightarrow>
            (case validate_multi_device_recipe cfg of
               Some e \<Rightarrow> Inl e
             | None \<Rightarrow>
                 (case cfg_multi cfg of
                    None \<Rightarrow> Inl (GoPanic ''nil pointer dereference'')
                  | Some md \<Rightarrow>
                      (case validate_inputs r cfg md of
                         Some e \<Rightarrow> Inl e
                       | None \<Rightarrow>
                           (case validate_topology r cfg md of
                              Some e \<Rightarrow> Inl e
                            | None \<Rightarrow> Inr cfg))))))"

section \<open>The request hash\<close>

definition json_binding :: "binding \<Rightarrow> string" where
  "json_binding b = json_object
     ([json_field ''role'' (json_string (b_role b)), json_field ''device_id'' (json_string (b_device b)),
       json_field ''fabric_address'' (json_string (b_fabric_address b))] @
      omit_if (b_fabric_interface b = []) (json_field ''fabric_interface'' (json_string (b_fabric_interface b))) @
      omit_if (b_fabric_hca b = []) (json_field ''fabric_hca'' (json_string (b_fabric_hca b))) @
      (case b_fabric_gid b of None \<Rightarrow> [] | Some g \<Rightarrow> [json_field ''fabric_gid_index'' (itoa g)]) @
      omit_if (b_service_address b = []) (json_field ''service_address'' (json_string (b_service_address b))) @
      omit_if (b_service_port b = 0) (json_field ''service_port'' (itoa (b_service_port b))) @
      omit_if (b_observed b = []) (json_field ''observed_container_id'' (json_string (b_observed b))))"

definition canonical_request :: "create_request \<Rightarrow> string" where
  "canonical_request r =
     (let bs = sort_key b_role (rq_bindings r)
      in json_object
           ([json_field ''bkc_id'' (json_string (rq_bkc_id r)),
             json_field ''idempotency_key'' (json_string (rq_key r)),
             json_field ''bindings''
               (if bs = [] then ''null'' else ''['' @ join_with '','' (map json_binding bs) @ '']'')] @
            omit_if (rq_model_path r = []) (json_field ''local_model_path'' (json_string (rq_model_path r)))))"

definition request_hash :: "create_request \<Rightarrow> string" where
  "request_hash r = sha256_hex (canonical_request r)"

section \<open>What an admitted request guarantees\<close>

text \<open>One admitted binding, on its own.\<close>

definition binding_ok :: "bkc_config \<Rightarrow> multi_device \<Rightarrow> binding \<Rightarrow> bool" where
  "binding_ok cfg md b \<longleftrightarrow>
     b_role b \<noteq> [] \<and> b_device b \<noteq> [] \<and> ip_usable (parse_ip (b_fabric_address b)) \<and>
     check_fabric cfg md b = None \<and>
     (if b_role b = role_head
      then ip_usable (parse_ip (b_service_address b)) \<and> b_service_port b = md_service_port md
      else b_service_address b = [] \<and> b_service_port b = 0)"

definition fabric_ip :: "binding \<Rightarrow> ip" where
  "fabric_ip b = the (parse_ip (b_fabric_address b))"

lemma check_service_Inr:
  "check_service cfg md b = Inr sv \<Longrightarrow>
   (if b_role b = role_head
    then ip_usable (parse_ip (b_service_address b)) \<and> b_service_port b = md_service_port md \<and>
         sv = parse_ip (b_service_address b)
    else b_service_address b = [] \<and> b_service_port b = 0 \<and> sv = None)"
  by (auto simp: check_service_def ip_usable_def split: if_splits option.splits)

lemma check_binding_Inr:
  assumes "check_binding cfg md s b = Inr s'"
  shows "binding_ok cfg md b \<and> b_role b \<notin> set (bs_roles s) \<and> b_device b \<notin> set (bs_devices s) \<and>
         fabric_ip b \<notin> set (bs_addresses s) \<and> bs_roles s' = b_role b # bs_roles s \<and>
         bs_devices s' = b_device b # bs_devices s \<and> bs_addresses s' = fabric_ip b # bs_addresses s \<and>
         bs_service s' = (if b_role b = role_head then parse_ip (b_service_address b) else bs_service s)"
proof -
  have ok: "b_role b \<noteq> []" "b_device b \<noteq> []" "b_role b \<notin> set (bs_roles s)"
    "b_device b \<notin> set (bs_devices s)"
    using assms unfolding check_binding_def by (simp_all split: if_splits)
  have "parse_ip (b_fabric_address b) \<noteq> None"
    using assms ok unfolding check_binding_def by (cases "parse_ip (b_fabric_address b)") (simp_all split: if_splits)
  then obtain a where pa: "parse_ip (b_fabric_address b) = Some a" by blast
  note step = assms [unfolded check_binding_def pa option.case]
  have a: "\<not> ip_unspecified a" "\<not> ip_loopback a" "\<not> ip_multicast a" "a \<notin> set (bs_addresses s)"
    using step ok by (simp_all split: if_splits)
  have fab: "check_fabric cfg md b = None"
    using step ok a by (cases "check_fabric cfg md b") (simp_all split: if_splits)
  obtain sv where sv: "check_service cfg md b = Inr sv"
    using step ok a fab by (cases "check_service cfg md b") (simp_all split: if_splits)
  have s': "s' = \<lparr>bs_roles = b_role b # bs_roles s, bs_devices = b_device b # bs_devices s,
                  bs_addresses = a # bs_addresses s,
                  bs_service = (case sv of None \<Rightarrow> bs_service s | Some x \<Rightarrow> Some x)\<rparr>"
    using step ok a fab sv by (simp split: if_splits)
  have "ip_usable (parse_ip (b_fabric_address b))" and "fabric_ip b = a"
    using a pa by (simp_all add: ip_usable_def fabric_ip_def)
  moreover have "(case sv of None \<Rightarrow> bs_service s | Some x \<Rightarrow> Some x) =
      (if b_role b = role_head then parse_ip (b_service_address b) else bs_service s)"
    using check_service_Inr [OF sv] by (auto simp: ip_usable_def split: if_splits option.splits)
  ultimately show ?thesis
    using a ok fab check_service_Inr [OF sv] unfolding s' binding_ok_def by auto
qed

lemma check_bindings_Inr:
  assumes "check_bindings cfg md s bs = Inr s'"
    and "distinct (bs_roles s)" "distinct (bs_devices s)" "distinct (bs_addresses s)"
  shows "list_all (binding_ok cfg md) bs \<and>
         bs_roles s' = rev (map b_role bs) @ bs_roles s \<and> distinct (bs_roles s') \<and>
         bs_devices s' = rev (map b_device bs) @ bs_devices s \<and> distinct (bs_devices s') \<and>
         bs_addresses s' = rev (map fabric_ip bs) @ bs_addresses s \<and> distinct (bs_addresses s') \<and>
         (\<forall>b \<in> set bs. b_role b = role_head \<longrightarrow> role_head \<notin> set (bs_roles s) \<longrightarrow>
            bs_service s' = parse_ip (b_service_address b))"
  using assms
proof (induction cfg md s bs rule: check_bindings.induct)
  case (2 cfg md s b bs)
  from "2.prems"(1) obtain s1 where s1: "check_binding cfg md s b = Inr s1"
    and rest: "check_bindings cfg md s1 bs = Inr s'"
    by (cases "check_binding cfg md s b") simp_all
  note b = check_binding_Inr [OF s1]
  have d: "distinct (bs_roles s1)" "distinct (bs_devices s1)" "distinct (bs_addresses s1)"
    using b "2.prems" by auto
  note IH = "2.IH" [OF s1 rest d]
  have service: "bs_service s' = bs_service s1" if "role_head \<notin> set (map b_role bs)"
    using rest that
  proof (induction cfg md s1 bs rule: check_bindings.induct)
    case (2 cfg md s b bs)
    then show ?case by (auto split: sum.splits dest!: check_binding_Inr)
  qed simp
  have "bs_service s' = parse_ip (b_service_address b)" if "b_role b = role_head"
  proof -
    have "distinct (rev (map b_role bs) @ bs_roles s1)" using IH by metis
    then have "b_role ` set bs \<inter> set (bs_roles s1) = {}" by simp
    moreover have "b_role b \<in> set (bs_roles s1)" using b by simp
    ultimately have "role_head \<notin> set (map b_role bs)" using that by (metis disjoint_iff list.set_map)
    with service that b show ?thesis by simp
  qed
  note head = this
  show ?case
  proof (intro conjI)
    show "list_all (binding_ok cfg md) (b # bs)" using IH b by simp
    show "bs_roles s' = rev (map b_role (b # bs)) @ bs_roles s"
      "bs_devices s' = rev (map b_device (b # bs)) @ bs_devices s"
      "bs_addresses s' = rev (map fabric_ip (b # bs)) @ bs_addresses s"
      using IH b by simp_all
    show "distinct (bs_roles s')" "distinct (bs_devices s')" "distinct (bs_addresses s')"
      using IH by blast+
    show "\<forall>x \<in> set (b # bs). b_role x = role_head \<longrightarrow> role_head \<notin> set (bs_roles s) \<longrightarrow>
        bs_service s' = parse_ip (b_service_address x)"
    proof (intro ballI impI)
      fix x assume x: "x \<in> set (b # bs)" "b_role x = role_head" "role_head \<notin> set (bs_roles s)"
      show "bs_service s' = parse_ip (b_service_address x)"
      proof (cases "b_role b = role_head")
        case True
        have "distinct (rev (map b_role bs) @ bs_roles s1)" using IH by metis
        then have "b_role b \<notin> b_role ` set bs" using b by auto
        with True x have "x = b" by (metis image_eqI set_ConsD)
        with head True show ?thesis by blast
      next
        case False
        with x have "x \<in> set bs" "role_head \<notin> set (bs_roles s1)" using b by auto
        with IH x show ?thesis by blast
      qed
    qed
  qed
qed auto

definition request_bindings_ok :: "bkc_config \<Rightarrow> multi_device \<Rightarrow> binding list \<Rightarrow> bool" where
  "request_bindings_ok cfg md bs \<longleftrightarrow>
     list_all (binding_ok cfg md) bs \<and> distinct (map b_role bs) \<and> distinct (map b_device bs) \<and>
     distinct (map fabric_ip bs) \<and> set (map b_role bs) = {role_head, role_worker} \<and>
     list_all (\<lambda>h. b_role h \<noteq> role_head \<or>
                   the (parse_ip (b_service_address h)) \<notin> fabric_ip ` set bs) bs"

lemma validate_topology_None:
  assumes "validate_topology r cfg md = None" and top: "validated_topology md"
  shows "request_bindings_ok cfg md (rq_bindings r)"
proof -
  define bs where "bs = rq_bindings r"
  have roles: "md_roles md = [head_role, worker_role]" using top by (simp add: validated_topology_def)
  from assms obtain s where len: "length bs = 2"
    and s: "check_bindings cfg md scan_empty bs = Inr s"
    and overlap: "\<not> (case bs_service s of None \<Rightarrow> False | Some a \<Rightarrow> a \<in> set (bs_addresses s))"
    and all: "find (\<lambda>role. role_name role \<notin> set (bs_roles s)) (md_roles md) = None"
    unfolding validate_topology_def bs_def roles
    by (auto split: if_splits sum.splits option.splits)
  have d: "distinct (bs_roles scan_empty)" "distinct (bs_devices scan_empty)"
    "distinct (bs_addresses scan_empty)" by (simp_all add: scan_empty_def)
  note inv = check_bindings_Inr [OF s d]
  have ne: "bs_roles scan_empty = []" "bs_devices scan_empty = []" "bs_addresses scan_empty = []"
    by (simp_all add: scan_empty_def)
  have dist: "distinct (map b_role bs)" "distinct (map b_device bs)" "distinct (map fabric_ip bs)"
    using inv by (auto simp: ne)
  have "role_head \<in> set (map b_role bs)" "role_worker \<in> set (map b_role bs)"
    using all inv unfolding roles by (auto simp: find_None_iff ne head_role_def worker_role_def split: if_splits)
  then have sub: "{role_head, role_worker} \<subseteq> set (map b_role bs)" by auto
  have "card (set (map b_role bs)) = 2" using dist(1) len distinct_card by fastforce
  then have set: "set (map b_role bs) = {role_head, role_worker}"
    using sub by (metis List.finite_set card_2_iff card_subset_eq role_head_neq_worker(1))
  have "the (parse_ip (b_service_address h)) \<notin> fabric_ip ` set bs"
    if h: "h \<in> set bs" "b_role h = role_head" for h
  proof -
    have "bs_service s = parse_ip (b_service_address h)" using inv h by (simp add: ne)
    moreover have "ip_usable (parse_ip (b_service_address h))"
      using inv h by (auto simp: list_all_iff binding_ok_def)
    ultimately show ?thesis
      using overlap inv by (auto simp: ip_usable_def ne split: option.splits)
  qed
  with inv dist set show ?thesis
    unfolding request_bindings_ok_def bs_def [symmetric] by (auto simp: list_all_iff)
qed

lemma validate_create_Inr:
  assumes "validate_create_request cat r = Inr cfg"
  obtains md where "cfg_multi cfg = Some md" "validated_topology md"
    "request_bindings_ok cfg md (rq_bindings r)" "validate_inputs r cfg md = None"
    "lookup_id cat (rq_bkc_id r) = Some cfg" "validate_multi_device_recipe cfg = None"
    "rq_key r \<noteq> []" "length (rq_key r) \<le> 128" "\<not> has_control (rq_key r)"
proof -
  from assms obtain md where md: "cfg_multi cfg = Some md" "validate_inputs r cfg md = None"
    "validate_topology r cfg md = None" "lookup_id cat (rq_bkc_id r) = Some cfg"
    "validate_multi_device_recipe cfg = None" "rq_key r \<noteq> []" "length (rq_key r) \<le> 128"
    "\<not> has_control (rq_key r)"
    unfolding validate_create_request_def by (auto split: if_splits option.splits)
  moreover from multi_device_topology [OF md(5)] md(1) have "validated_topology md" by auto
  ultimately show ?thesis using that validate_topology_None by blast
qed

section \<open>A sample request\<close>

definition sample_head :: binding where
  "sample_head = \<lparr>b_role = role_head, b_device = ''spark-a'', b_fabric_address = ''10.0.0.1'',
     b_fabric_interface = [], b_fabric_hca = [], b_fabric_gid = None,
     b_service_address = ''192.168.1.5'', b_service_port = 8888, b_observed = []\<rparr>"

definition sample_worker :: binding where
  "sample_worker = \<lparr>b_role = role_worker, b_device = ''spark-b'', b_fabric_address = ''10.0.0.2'',
     b_fabric_interface = [], b_fabric_hca = [], b_fabric_gid = None, b_service_address = [],
     b_service_port = 0, b_observed = []\<rparr>"

definition sample_request :: create_request where
  "sample_request = \<lparr>rq_bkc_id = glm53_tensorfold_id, rq_key = ''key-1'',
     rq_bindings = [sample_head, sample_worker], rq_api_key = [], rq_model_path = []\<rparr>"

definition sample_ip :: "nat list \<Rightarrow> ip" where
  "sample_ip q = mapped_v4 q"

lemma sample_addresses:
  "parse_ip ''10.0.0.1'' = Some (sample_ip [10, 0, 0, 1])"
  "parse_ip ''10.0.0.2'' = Some (sample_ip [10, 0, 0, 2])"
  "parse_ip ''192.168.1.5'' = Some (sample_ip [192, 168, 1, 5])"
  by code_simp+

lemma sample_addresses_usable:
  "\<not> ip_unspecified (sample_ip [10, 0, 0, 1])" "\<not> ip_loopback (sample_ip [10, 0, 0, 1])"
  "\<not> ip_multicast (sample_ip [10, 0, 0, 1])" "\<not> ip_unspecified (sample_ip [10, 0, 0, 2])"
  "\<not> ip_loopback (sample_ip [10, 0, 0, 2])" "\<not> ip_multicast (sample_ip [10, 0, 0, 2])"
  "\<not> ip_unspecified (sample_ip [192, 168, 1, 5])" "\<not> ip_loopback (sample_ip [192, 168, 1, 5])"
  "\<not> ip_multicast (sample_ip [192, 168, 1, 5])"
  by code_simp+

lemma sample_ip_inj: "sample_ip p = sample_ip q \<longleftrightarrow> p = q"
  by (simp add: sample_ip_def mapped_v4_inj)

lemma role_nonempty [simp]: "role_head \<noteq> []" "role_worker \<noteq> []"
  by (simp_all add: role_head_def role_worker_def)

lemma sample_lookup: "lookup_id [glm53_tensorfold_cfg] glm53_tensorfold_id = Some glm53_tensorfold_cfg"
proof -
  have "cfg_id glm53_tensorfold_cfg = glm53_tensorfold_id" by (simp add: glm53_tensorfold_cfg_def)
  then show ?thesis by (simp add: lookup_id_def tensorfold_id_trimmed)
qed

lemma sample_topology: "validate_topology sample_request glm53_tensorfold_cfg tf_multi = None"
  by (simp add: validate_topology_def sample_request_def sample_head_def sample_worker_def
      check_binding_def check_fabric_def check_service_def scan_empty_def tf_multi_def
      tf_service_port_def sample_addresses sample_addresses_usable [simplified] sample_ip_inj
      head_role_def worker_role_def)

lemma sample_request_valid:
  "validate_create_request [glm53_tensorfold_cfg] sample_request = Inr glm53_tensorfold_cfg"
proof -
  have "rq_key sample_request = ''key-1''" "rq_bkc_id sample_request = glm53_tensorfold_id"
    "rq_model_path sample_request = []" "rq_api_key sample_request = []"
    by (simp_all add: sample_request_def)
  moreover have "cfg_multi glm53_tensorfold_cfg = Some tf_multi"
    "cfg_workload glm53_tensorfold_cfg = workload_tensorfold"
    by (simp_all add: glm53_tensorfold_cfg_def)
  moreover have "\<not> md_requires_local_model tf_multi" by (simp add: tf_multi_def)
  moreover have "\<not> has_control ''key-1''" by (simp add: of_char_bits)
  moreover have "glm53_tensorfold_id \<noteq> []" by (simp add: glm53_tensorfold_id_def)
  ultimately show ?thesis
    by (simp add: validate_create_request_def validate_inputs_def local_path_error_def sample_lookup
        glm53_tensorfold_valid sample_topology)
qed

section \<open>Properties\<close>

text \<open>
  C24: a request that passes validation names a registered recipe whose own validation
  succeeds, uses a key of 1 to 128 bytes without control characters, and binds exactly the
  head and the worker role to two different devices with different, usable fabric
  addresses; the head has a usable service address on the recipe's port that is none of
  the fabric addresses, and the worker has no service endpoint.
\<close>

theorem admitted_request_topology:
  assumes "validate_create_request cat r = Inr cfg"
  shows "lookup_id cat (rq_bkc_id r) = Some cfg \<and> validate_multi_device_recipe cfg = None \<and>
    rq_key r \<noteq> [] \<and> length (rq_key r) \<le> 128 \<and> \<not> has_control (rq_key r) \<and>
    (\<exists>md. cfg_multi cfg = Some md \<and> validated_topology md \<and>
          request_bindings_ok cfg md (rq_bindings r) \<and> length (rq_bindings r) = 2)"
proof -
  obtain md where md: "cfg_multi cfg = Some md" "validated_topology md"
    "request_bindings_ok cfg md (rq_bindings r)" "lookup_id cat (rq_bkc_id r) = Some cfg"
    "validate_multi_device_recipe cfg = None" "rq_key r \<noteq> []" "length (rq_key r) \<le> 128"
    "\<not> has_control (rq_key r)"
    using validate_create_Inr [OF assms] by metis
  have "card (set (map b_role (rq_bindings r))) = 2"
    using md(3) by (simp add: request_bindings_ok_def)
  moreover have "distinct (map b_role (rq_bindings r))" using md(3) by (simp add: request_bindings_ok_def)
  ultimately have "length (rq_bindings r) = 2" using distinct_card by fastforce
  with md show ?thesis by blast
qed

theorem admitted_request_topology_witness:
  "validate_multi_device_recipe glm53_tensorfold_cfg = None \<and> length (rq_bindings sample_request) = 2"
  using admitted_request_topology [OF sample_request_valid] by blast

text \<open>
  C28: the request hash does not depend on the API key, nor on the order in which the
  bindings are given: two requests that differ only there are replays of each other.
\<close>

theorem request_hash_order_and_key:
  assumes "distinct (map b_role (rq_bindings r))" and "mset bs = mset (rq_bindings r)"
  shows "request_hash (r\<lparr>rq_bindings := bs, rq_api_key := key\<rparr>) = request_hash r"
proof -
  have "inj_on b_role (set (rq_bindings r))" using assms(1) by (simp add: distinct_map)
  then have "inj_on b_role (set bs)" using assms(2) by (metis mset_eq_setD)
  moreover have "mset bs = mset (sort_key b_role (rq_bindings r))" using assms(2) by simp
  ultimately have "sort_key b_role bs = sort_key b_role (rq_bindings r)"
    by (intro sort_key_inj_key_eq) simp_all
  then show ?thesis by (simp add: request_hash_def canonical_request_def)
qed

theorem request_hash_order_and_key_witness:
  "request_hash (sample_request\<lparr>rq_bindings := [sample_worker, sample_head], rq_api_key := ''secret''\<rparr>) =
   request_hash sample_request"
  by (rule request_hash_order_and_key) (simp_all add: sample_request_def sample_head_def sample_worker_def)

end
