(* ===== verification/Deploy_Candidate.thy ===== *)
theory Deploy_Candidate
  imports Deploy_Validate
begin

text \<open>
  From an admitted request to the candidates of its members,
  \<^verbatim>\<open>internal/deployments/engine.go\<close>: the bindings in role order, the launch order, the
  provenance recorded with the deployment, and \<^verbatim>\<open>buildCandidate\<close>, the only place where
  argument lists, environment, volumes and labels of a member container are made.
  \<^verbatim>\<open>LookupID\<close> reads the registered catalog, the argument \<open>cat\<close>.
\<close>

section \<open>Order and lookup of bindings\<close>

text \<open>A role without binding would yield the zero binding, as the map read does.\<close>

definition binding_by_role :: "binding list \<Rightarrow> string \<Rightarrow> binding" where
  "binding_by_role bs role = (case find (\<lambda>b. b_role b = role) bs of Some b \<Rightarrow> b | None \<Rightarrow> binding_zero)"

definition binding_map_get :: "binding list \<Rightarrow> string \<Rightarrow> binding" where
  "binding_map_get bs role = binding_by_role (rev bs) role"

definition ordered_bindings :: "binding list \<Rightarrow> multi_device \<Rightarrow> binding list" where
  "ordered_bindings bs md = map (\<lambda>role. binding_map_get bs (role_name role)) (md_roles md)"

definition recipe_launch_order :: "multi_device \<Rightarrow> string list" where
  "recipe_launch_order md =
     (if length (md_launch_order md) \<noteq> 0 then md_launch_order md else map role_name (md_roles md))"

definition role_rank_of :: "multi_device \<Rightarrow> string \<Rightarrow> int" where
  "role_rank_of md name =
     (case find (\<lambda>r. role_name r = name) (md_roles md) of Some r \<Rightarrow> role_rank r | None \<Rightarrow> - 1)"

section \<open>Provenance\<close>

definition pinned_image_digest :: "string \<Rightarrow> string" where
  "pinned_image_digest img = (case str_cut img ''@sha256:'' of Some (_, digest) \<Rightarrow> digest | None \<Rightarrow> [])"

definition runtime_patch_provenance :: "multi_device \<Rightarrow> patch_provenance list" where
  "runtime_patch_provenance md =
     map (\<lambda>p. \<lparr>pp_label = patch_label p, pp_source_path = patch_source_path p,
                pp_original_sha = patch_original_sha p, pp_patched_sha = patch_patched_sha p\<rparr>)
       (md_patches md)"

definition recipe_provenance_of :: "multi_device \<Rightarrow> recipe_provenance option" where
  "recipe_provenance_of md =
     map_option (\<lambda>r. \<lparr>rv_repository = rcp_repository r, rv_commit = rcp_commit r,
        rv_image_digest = rcp_image_digest r, rv_model_revision = md_model_revision md,
        rv_drafter_revision = rcp_drafter_revision r, rv_context_tokens = rcp_context_tokens r,
        rv_parallel_requests = rcp_parallel_requests r, rv_kv_cache = rcp_kv_cache r,
        rv_drafter = rcp_drafter r\<rparr>) (md_recipe_opt md)"

section \<open>Candidates\<close>

definition fixed_local_model_path :: string where
  "fixed_local_model_path = ''/models/yokai-deployment''"

definition render_candidate_args :: "string list \<Rightarrow> string \<Rightarrow> string \<Rightarrow> string list" where
  "render_candidate_args args head_address service_address =
     map (\<lambda>a. replace_all ''{SERVICE_ADDRESS}'' service_address
                (replace_all head_addr_placeholder head_address a)) args"

text \<open>\<^verbatim>\<open>Sprintf("yokai-deployment-%s-g%d-%s")\<close>: the deterministic container name.\<close>

definition candidate_name :: "string \<Rightarrow> int \<Rightarrow> string \<Rightarrow> string" where
  "candidate_name i generation role =
     ''yokai-deployment-'' @ i @ ''-g'' @ itoa generation @ ''-'' @ role"

definition head_for_arg :: "string \<Rightarrow> string" where
  "head_for_arg address = (if CHR '':'' \<in> set address then ''['' @ address @ '']'' else address)"

definition candidate_extra_args :: "bkc_config \<Rightarrow> multi_device \<Rightarrow> binding \<Rightarrow> string \<Rightarrow> string" where
  "candidate_extra_args cfg md b head_address =
     (let args = replace_all rank_placeholder (itoa (role_rank_of md (b_role b))) (cfg_extra_args cfg);
          args = replace_all head_addr_placeholder (head_for_arg head_address) args
      in if length (md_common_args md) = 0
         then (let bind = (if b_role b = role_head then b_service_address b else b_fabric_address b)
               in trim_space (args @ '' --host '' @ bind @ '' --port '' @ itoa (md_service_port md)))
         else args)"

definition candidate_args :: "create_request \<Rightarrow> multi_device \<Rightarrow> binding \<Rightarrow> string \<Rightarrow> string list" where
  "candidate_args r md b head_address =
     (let render = (\<lambda>args. render_candidate_args args (head_for_arg head_address) (b_service_address b));
          role_args = (case map_of (md_role_args md) (b_role b) of None \<Rightarrow> [] | Some xs \<Rightarrow> xs)
      in render (md_common_args md) @ render role_args @
         (if b_role b = role_head then [''--api-key='' @ rq_api_key r] else []))"

definition candidate_model :: "create_request \<Rightarrow> bkc_config \<Rightarrow> string" where
  "candidate_model r cfg =
     (if cfg_id cfg = qwen38_dual_id then qwen38_container_model
      else if rq_model_path r \<noteq> [] then fixed_local_model_path
      else cfg_model_id cfg)"

definition candidate_volumes :: "create_request \<Rightarrow> bkc_config \<Rightarrow> gomap" where
  "candidate_volumes r cfg =
     (if cfg_id cfg = qwen38_dual_id
        then map_put (path_dir (path_dir (rq_model_path r))) (qwen38_container_root @ '':ro'') (cfg_volumes cfg)
      else if rq_model_path r \<noteq> []
        then map_put (rq_model_path r) (fixed_local_model_path @ '':ro'') (cfg_volumes cfg)
      else cfg_volumes cfg)"

text \<open>\<^verbatim>\<open>cfg.Image[strings.Index(cfg.Image, "@")+1:]\<close>: the whole name when there is no at sign.\<close>

definition image_reference :: "string \<Rightarrow> string" where
  "image_reference img = (case index_char (CHR ''@'') img of Some i \<Rightarrow> drop (Suc i) img | None \<Rightarrow> img)"

definition put_if :: "bool \<Rightarrow> string \<Rightarrow> string \<Rightarrow> gomap \<Rightarrow> gomap" where
  "put_if b k v m = (if b then map_put k v m else m)"

definition candidate_labels :: "string \<Rightarrow> int \<Rightarrow> bkc_config \<Rightarrow> multi_device \<Rightarrow> binding \<Rightarrow> gomap" where
  "candidate_labels i generation cfg md b =
     (let labels =
            [(''io.yokai.managed'', ''true''), (''io.yokai.ownership'', ownership_text OwnershipManaged),
             (''io.yokai.deployment.id'', i), (''io.yokai.deployment.generation'', itoa generation),
             (''io.yokai.deployment.role'', b_role b), (''io.yokai.bkc.id'', cfg_id cfg),
             (''io.yokai.model.revision'', md_model_revision md),
             (''io.yokai.image.digest'', trim_prefix (image_reference (cfg_image cfg)) ''sha256:'')];
          labels = put_if (md_source_revision md \<noteq> []) ''io.yokai.source.revision'' (md_source_revision md) labels;
          labels = put_if (length (md_patches md) \<noteq> 0) ''io.yokai.runtime.patch''
                     (runtime_patch_set_label (md_patches md)) labels;
          labels = put_if (b_role b = role_head) ''io.yokai.service.address'' (b_service_address b) labels
      in put_if (b_role b = role_head) ''io.yokai.service.port'' (cfg_port cfg) labels)"

text \<open>The fabric variables; dereferencing a nil GID index panics, which is \<open>None\<close> here.\<close>

definition candidate_env :: "bkc_config \<Rightarrow> multi_device \<Rightarrow> binding \<Rightarrow> gomap option" where
  "candidate_env cfg md b =
     (if \<not> md_requires_fabric md then Some (cfg_env cfg)
      else (case b_fabric_gid b of
          None \<Rightarrow> None
        | Some gid \<Rightarrow>
            Some (map_put ''VLLM_HOST_IP'' (b_fabric_address b)
                 (map_put ''NCCL_IB_GID_INDEX'' (itoa gid)
                 (map_put ''NCCL_IB_HCA'' (''='' @ b_fabric_hca b)
                 (map_put ''TP_SOCKET_IFNAME'' (b_fabric_interface b)
                 (map_put ''NCCL_SOCKET_IFNAME'' (b_fabric_interface b)
                 (map_put ''GLOO_SOCKET_IFNAME'' (b_fabric_interface b) (cfg_env cfg))))))))) "

definition candidate_runtime :: "bkc_config \<Rightarrow> multi_device \<Rightarrow> runtime_options" where
  "candidate_runtime cfg md =
     (cfg_runtime cfg)\<lparr>rt_shm_size := (if md_requires_fabric md then [] else ''32g''),
        rt_ulimits := [(''memlock'', ''-1''), (''stack'', ''67108864'')],
        rt_restart_policy := restart_policy_no\<rparr>"

definition container_candidate ::
  "string \<Rightarrow> int \<Rightarrow> create_request \<Rightarrow> bkc_config \<Rightarrow> multi_device \<Rightarrow> binding \<Rightarrow> string \<Rightarrow> gomap \<Rightarrow> candidate" where
  "container_candidate i generation r cfg md b head_address e =
     \<lparr>c_role = b_role b, c_rank = role_rank_of md (b_role b),
      c_name = candidate_name i generation (b_role b), c_image = cfg_image cfg,
      c_model = candidate_model r cfg, c_port = cfg_port cfg,
      c_extra_args = candidate_extra_args cfg md b head_address,
      c_args = candidate_args r md b head_address, c_env = e,
      c_volumes = candidate_volumes r cfg, c_runtime = candidate_runtime cfg md,
      c_labels = candidate_labels i generation cfg md b, c_network_mode = ''host'',
      c_devices = [''/dev/infiniband:/dev/infiniband''],
      c_cap_add = (if md_requires_fabric md then [''SYS_NICE''] else [''IPC_LOCK'']),
      c_gpu_ids = ''0'', c_driver = [], c_recipe = None\<rparr>"

definition recipe_candidate_of :: "create_request \<Rightarrow> multi_device \<Rightarrow> md_recipe \<Rightarrow> recipe_candidate" where
  "recipe_candidate_of r md rcp =
     (let w = binding_by_role (rq_bindings r) role_worker; h = binding_by_role (rq_bindings r) role_head
      in \<lparr>rc_repository = rcp_repository rcp, rc_commit = rcp_commit rcp,
          rc_worker_device = b_device w, rc_worker_address = b_fabric_address w,
          rc_head_fabric_address = b_fabric_address h, rc_service_address = b_service_address h,
          rc_service_port = md_service_port md\<rparr>)"

text \<open>\<^verbatim>\<open>buildCandidate\<close>; a nil recipe under the head-recipe driver panics too.\<close>

definition build_candidate ::
  "string \<Rightarrow> int \<Rightarrow> create_request \<Rightarrow> bkc_config \<Rightarrow> multi_device \<Rightarrow> binding \<Rightarrow> string \<Rightarrow> candidate option" where
  "build_candidate i generation r cfg md b head_address =
     (case candidate_env cfg md b of
        None \<Rightarrow> None
      | Some e \<Rightarrow>
          (let c = container_candidate i generation r cfg md b head_address e
           in if md_driver md = driver_head_recipe
              then (case md_recipe_opt md of
                      None \<Rightarrow> None
                    | Some rcp \<Rightarrow>
                        Some (c\<lparr>c_driver := driver_head_recipe, c_model := tf_served_model,
                                c_extra_args := [], c_args := [], c_env := [], c_volumes := [],
                                c_network_mode := [], c_devices := [], c_cap_add := [],
                                c_gpu_ids := [], c_recipe := Some (recipe_candidate_of r md rcp)\<rparr>))
              else Some c))"

section \<open>Recipe questions asked of a stored deployment\<close>

definition is_head_recipe_bkc :: "bkc_config list \<Rightarrow> string \<Rightarrow> bool" where
  "is_head_recipe_bkc cat i \<longleftrightarrow>
     (case lookup_id cat i of
        None \<Rightarrow> False
      | Some cfg \<Rightarrow>
          (case cfg_multi cfg of None \<Rightarrow> False | Some md \<Rightarrow> md_driver md = driver_head_recipe))"

definition validate_deployment_api_key :: "bkc_config list \<Rightarrow> string \<Rightarrow> string \<Rightarrow> gerror option" where
  "validate_deployment_api_key cat bkc key =
     (if is_head_recipe_bkc cat bkc
      then (if key \<noteq> [] then Some (Errorf ''api_key is not supported by the pinned TensorFold recipe'')
            else None)
      else validate_api_key key)"

definition deployment_launch_order :: "bkc_config list \<Rightarrow> deployment \<Rightarrow> string list" where
  "deployment_launch_order cat d =
     (if length (d_launch_order d) \<noteq> 0 then d_launch_order d
      else (case Option.bind (lookup_id cat (d_bkc_id d)) cfg_multi of
              Some md \<Rightarrow> (if length (md_launch_order md) \<noteq> 0 then md_launch_order md
                          else [role_head, role_worker])
            | None \<Rightarrow> [role_head, role_worker]))"

definition reverse_launch_indexes :: "bkc_config list \<Rightarrow> deployment \<Rightarrow> nat list" where
  "reverse_launch_indexes cat d =
     concat (map (\<lambda>role. case member_index_by_role (d_members d) role of None \<Rightarrow> [] | Some i \<Rightarrow> [i])
       (rev (deployment_launch_order cat d)))"

definition expected_model :: "bkc_config \<Rightarrow> bool \<Rightarrow> string" where
  "expected_model cfg uses_local =
     (case cfg_multi cfg of
        Some md \<Rightarrow>
          (if md_served_model md \<noteq> [] then md_served_model md
           else if uses_local then fixed_local_model_path else cfg_model_id cfg)
      | None \<Rightarrow> (if uses_local then fixed_local_model_path else cfg_model_id cfg))"

definition expected_stored_model :: "bkc_config list \<Rightarrow> deployment \<Rightarrow> gerror + string" where
  "expected_stored_model cat d =
     (case lookup_id cat (d_bkc_id d) of
        None \<Rightarrow> Inl (wrap_error ErrorConflict ''resolve deployment recipe''
                      (Errorf (''BKC '' @ d_bkc_id d @ '' is no longer available'')))
      | Some cfg \<Rightarrow> Inr (expected_model cfg (d_uses_local d)))"

text \<open>\<^verbatim>\<open>validatePromotionResult\<close>.\<close>

definition validate_promotion_result :: "test_result \<Rightarrow> string \<Rightarrow> gerror option" where
  "validate_promotion_result r expected =
     (if \<not> tr_ok r then Some (Errorf ''rank-0 semantic API check did not report success'')
      else if trim_space (tr_model r) = [] then Some (Errorf ''rank-0 model discovery returned no model'')
      else if trim_space (tr_model r) \<noteq> expected
        then Some (Errorf (''rank-0 model discovery returned unexpected model '' @ go_quote (trim_space (tr_model r))))
      else if \<not> tr_metrics_ready r then Some (Errorf ''rank-0 metrics check did not report ready'')
      else if \<not> equal_fold (trim_space (tr_response r)) ''ok''
        then Some (Errorf ''rank-0 response content was not exactly ok'')
      else None)"

text \<open>\<^verbatim>\<open>readinessOperationError\<close> on a non-nil error.\<close>

definition readiness_operation_error :: "gerror \<Rightarrow> gerror" where
  "readiness_operation_error e =
     (if error_kind_of e \<noteq> None then e
      else if err_is e ContextCanceled \<or> err_is e DeadlineExceeded
        then wrap_error ErrorUnavailable ''wait for deployment readiness'' e
      else wrap_error ErrorDependency ''wait for deployment readiness'' e)"

end
