(* ===== verification/Deploy_World.thy ===== *)
theory Deploy_World
  imports Deploy_Types "HOL-Library.State_Monad"
begin

text \<open>
  The world the deployment engine acts on: the deployments store
  (\<^verbatim>\<open>internal/deployments/store.go\<close>) in memory and on disk, the clock, and the history of
  the calls made through the \<^verbatim>\<open>Operations\<close> interface of \<^verbatim>\<open>types.go\<close>. Every answer the
  engine gets from outside (a device, the file system, the clock, a context, a timer) is
  an unconstrained function of the whole history so far, so a theorem about all
  environments covers every failure at every point. The engine runs with its mutex held:
  one operation is one state transformer.
\<close>

section \<open>Events, environment, world\<close>

datatype log_capture = LogCapture (lc_tail: string) (lc_truncated: bool)

datatype event =
    EvPut deployment bool bool
  | EvPreflight preflight_request "gerror option"
  | EvPull binding string "gerror option"
  | EvInspect string string "gerror + observed"
  | EvStop string string "gerror option"
  | EvStopManaged deployment member "gerror option"
  | EvLaunch binding candidate "gerror + observed"
  | EvWaitRunning string string "gerror option"
  | EvTest string string string "gerror + test_result"
  | EvCapture deployment member string "gerror + log_capture"
  | EvRemoveManaged deployment member "gerror option"
  | EvRestart string string "gerror option"
  | EvRestartManaged deployment member "gerror option"

type_synonym history = "event list"

text \<open>The steps of \<^verbatim>\<open>writeStoreAtomic\<close> that can fail.\<close>

datatype write_step =
    StepMkdir | StepMarshal | StepCreateTemp | StepChmod | StepWrite | StepSync | StepClose
  | StepRename | StepOpenDir | StepSyncDir

text \<open>\<^verbatim>\<open>context.Context.Err\<close> is one of two errors once the context is done.\<close>

datatype ctx_end = CtxCanceled | CtxDeadline

fun ctx_error :: "ctx_end \<Rightarrow> gerror" where
  "ctx_error CtxCanceled = Sentinel ContextCanceled"
| "ctx_error CtxDeadline = Sentinel DeadlineExceeded"

text \<open>
  The environment of an engine. \<open>en_wait\<close> answers how the readiness loop ends: the number
  of interval ticks before the context is done (with its error) or the deadline fires; a
  \<^verbatim>\<open>time.Timer\<close> fires, so the number is finite.
\<close>

record env =
  en_catalog :: "bkc_config list"
  en_readiness_timeout :: int
  en_readiness_interval :: int
  en_now :: "nat \<Rightarrow> int"
  en_new_id :: "history \<Rightarrow> string"
  en_fault :: "history \<Rightarrow> write_step \<Rightarrow> string option"
  en_preflight :: "history \<Rightarrow> preflight_request \<Rightarrow> string list \<Rightarrow> string list \<Rightarrow> gerror option"
  en_pull :: "history \<Rightarrow> binding \<Rightarrow> string \<Rightarrow> gerror option"
  en_inspect :: "history \<Rightarrow> string \<Rightarrow> string \<Rightarrow> gerror + observed"
  en_stop :: "history \<Rightarrow> string \<Rightarrow> string \<Rightarrow> gerror option"
  en_stop_managed :: "history \<Rightarrow> deployment \<Rightarrow> member \<Rightarrow> gerror option"
  en_launch :: "history \<Rightarrow> binding \<Rightarrow> candidate \<Rightarrow> gerror + observed"
  en_wait_running :: "history \<Rightarrow> string \<Rightarrow> string \<Rightarrow> gerror option"
  en_test :: "history \<Rightarrow> string \<Rightarrow> string \<Rightarrow> string \<Rightarrow> gerror + test_result"
  en_capture :: "history \<Rightarrow> deployment \<Rightarrow> member \<Rightarrow> string \<Rightarrow> gerror + log_capture"
  en_remove_managed :: "history \<Rightarrow> deployment \<Rightarrow> member \<Rightarrow> gerror option"
  en_restart :: "history \<Rightarrow> string \<Rightarrow> string \<Rightarrow> gerror option"
  en_restart_managed :: "history \<Rightarrow> deployment \<Rightarrow> member \<Rightarrow> gerror option"
  en_ctx_err :: "history \<Rightarrow> ctx_end option"
  en_wait :: "history \<Rightarrow> int \<Rightarrow> int \<Rightarrow> nat \<times> ctx_end option"

record world =
  w_trace :: history
  w_docs :: "deployment list"
  w_disk :: "deployment list option"
  w_clock :: nat

type_synonym 'a op = "(world, 'a) state"

section \<open>Weakest preconditions\<close>

text \<open>
  \<open>wp m Q w\<close>: running \<open>m\<close> from \<open>w\<close> ends with a result and a world that satisfy \<open>Q\<close>.
  The rules follow the program text.
\<close>

definition wp :: "'a op \<Rightarrow> ('a \<Rightarrow> world \<Rightarrow> bool) \<Rightarrow> world \<Rightarrow> bool" where
  "wp m Q w = (case run_state m w of (x, w') \<Rightarrow> Q x w')"

named_theorems wp_simp \<open>weakest precondition equations\<close>

lemma wp_return [wp_simp]: "wp (State_Monad.return x) Q w = Q x w"
  by (simp add: wp_def State_Monad.return_def)

lemma wp_bind [wp_simp]: "wp (State_Monad.bind m f) Q w = wp m (\<lambda>x. wp (f x) Q) w"
  by (auto simp: wp_def State_Monad.bind_def split: prod.splits)

lemma wp_if [wp_simp]:
  "wp (if b then x else y) Q w \<longleftrightarrow> (b \<longrightarrow> wp x Q w) \<and> (\<not> b \<longrightarrow> wp y Q w)"
  by simp

lemma wp_option [wp_simp]:
  "wp (case z of None \<Rightarrow> x | Some a \<Rightarrow> f a) Q w \<longleftrightarrow>
     (z = None \<longrightarrow> wp x Q w) \<and> (\<forall>a. z = Some a \<longrightarrow> wp (f a) Q w)"
  by (cases z) simp_all

lemma wp_sum [wp_simp]:
  "wp (case z of Inl a \<Rightarrow> f a | Inr b \<Rightarrow> g b) Q w \<longleftrightarrow>
     (\<forall>a. z = Inl a \<longrightarrow> wp (f a) Q w) \<and> (\<forall>b. z = Inr b \<longrightarrow> wp (g b) Q w)"
  by (cases z) simp_all

lemma wp_pair [wp_simp]: "wp (case z of (a, b) \<Rightarrow> f a b) Q w \<longleftrightarrow> wp (f (fst z) (snd z)) Q w"
  by (cases z) simp

lemma wp_mono: "wp m Q w \<Longrightarrow> (\<And>x w'. Q x w' \<Longrightarrow> R x w') \<Longrightarrow> wp m R w"
  by (auto simp: wp_def)

lemma wp_conj: "wp m (\<lambda>x w'. Q x w' \<and> R x w') w \<longleftrightarrow> wp m Q w \<and> wp m R w"
  by (auto simp: wp_def split: prod.splits)

lemma wp_run: "run_state m w = (x, w') \<Longrightarrow> wp m Q w \<longleftrightarrow> Q x w'"
  by (simp add: wp_def)

section \<open>Calls of the device interface\<close>

definition record_event :: "event \<Rightarrow> world \<Rightarrow> world" where
  "record_event e w = w\<lparr>w_trace := e # w_trace w\<rparr>"

lemma record_event_fields [simp]:
  "w_trace (record_event e w) = e # w_trace w" "w_docs (record_event e w) = w_docs w"
  "w_disk (record_event e w) = w_disk w" "w_clock (record_event e w) = w_clock w"
  by (simp_all add: record_event_def)

definition call :: "(history \<Rightarrow> 'r) \<Rightarrow> ('r \<Rightarrow> event) \<Rightarrow> 'r op" where
  "call answer ev = State (\<lambda>w. (answer (w_trace w), record_event (ev (answer (w_trace w))) w))"

lemma wp_call [wp_simp]:
  "wp (call answer ev) Q w =
     Q (answer (w_trace w)) (record_event (ev (answer (w_trace w))) w)"
  by (simp add: wp_def call_def)

definition op_preflight :: "env \<Rightarrow> preflight_request \<Rightarrow> string list \<Rightarrow> string list \<Rightarrow> gerror option op" where
  "op_preflight env p caps targets = call (\<lambda>h. en_preflight env h p caps targets) (EvPreflight p)"

definition op_pull :: "env \<Rightarrow> binding \<Rightarrow> string \<Rightarrow> gerror option op" where
  "op_pull env b img = call (\<lambda>h. en_pull env h b img) (EvPull b img)"

definition op_inspect :: "env \<Rightarrow> string \<Rightarrow> string \<Rightarrow> (gerror + observed) op" where
  "op_inspect env dev c = call (\<lambda>h. en_inspect env h dev c) (EvInspect dev c)"

definition op_stop :: "env \<Rightarrow> string \<Rightarrow> string \<Rightarrow> gerror option op" where
  "op_stop env dev c = call (\<lambda>h. en_stop env h dev c) (EvStop dev c)"

definition op_stop_managed :: "env \<Rightarrow> deployment \<Rightarrow> member \<Rightarrow> gerror option op" where
  "op_stop_managed env d m = call (\<lambda>h. en_stop_managed env h d m) (EvStopManaged d m)"

definition op_launch :: "env \<Rightarrow> binding \<Rightarrow> candidate \<Rightarrow> (gerror + observed) op" where
  "op_launch env b c = call (\<lambda>h. en_launch env h b c) (EvLaunch b c)"

definition op_wait_running :: "env \<Rightarrow> string \<Rightarrow> string \<Rightarrow> gerror option op" where
  "op_wait_running env dev c = call (\<lambda>h. en_wait_running env h dev c) (EvWaitRunning dev c)"

definition op_test :: "env \<Rightarrow> string \<Rightarrow> string \<Rightarrow> string \<Rightarrow> (gerror + test_result) op" where
  "op_test env dev c key = call (\<lambda>h. en_test env h dev c key) (EvTest dev c key)"

definition op_capture :: "env \<Rightarrow> deployment \<Rightarrow> member \<Rightarrow> string \<Rightarrow> (gerror + log_capture) op" where
  "op_capture env d m key = call (\<lambda>h. en_capture env h d m key) (EvCapture d m key)"

definition op_remove_managed :: "env \<Rightarrow> deployment \<Rightarrow> member \<Rightarrow> gerror option op" where
  "op_remove_managed env d m = call (\<lambda>h. en_remove_managed env h d m) (EvRemoveManaged d m)"

definition op_restart :: "env \<Rightarrow> string \<Rightarrow> string \<Rightarrow> gerror option op" where
  "op_restart env dev c = call (\<lambda>h. en_restart env h dev c) (EvRestart dev c)"

definition op_restart_managed :: "env \<Rightarrow> deployment \<Rightarrow> member \<Rightarrow> gerror option op" where
  "op_restart_managed env d m = call (\<lambda>h. en_restart_managed env h d m) (EvRestartManaged d m)"

lemmas op_defs = op_preflight_def op_pull_def op_inspect_def op_stop_def op_stop_managed_def
  op_launch_def op_wait_running_def op_test_def op_capture_def op_remove_managed_def
  op_restart_def op_restart_managed_def

declare op_defs [wp_simp]

definition read_clock :: "env \<Rightarrow> int op" where
  "read_clock env = State (\<lambda>w. (en_now env (w_clock w), w\<lparr>w_clock := Suc (w_clock w)\<rparr>))"

lemma wp_read_clock [wp_simp]:
  "wp (read_clock env) Q w = Q (en_now env (w_clock w)) (w\<lparr>w_clock := Suc (w_clock w)\<rparr>)"
  by (simp add: wp_def read_clock_def)

definition ask :: "(history \<Rightarrow> 'r) \<Rightarrow> 'r op" where
  "ask answer = State (\<lambda>w. (answer (w_trace w), w))"

lemma wp_ask [wp_simp]: "wp (ask answer) Q w = Q (answer (w_trace w)) w"
  by (simp add: wp_def ask_def)

section \<open>The store\<close>

text \<open>
  \<^verbatim>\<open>writeStoreAtomic\<close>: the steps before the rename leave the target untouched, the rename
  replaces it at once, the directory sync after it can fail with the new document already
  in place. The result is the new content of the target, whether it was promoted, and the
  error.
\<close>

definition before_rename :: "(write_step \<times> string) list" where
  "before_rename =
     [(StepMkdir, ''creating deployments directory: ''),
      (StepMarshal, ''marshaling deployments store: ''),
      (StepCreateTemp, ''creating deployments temp file: ''),
      (StepChmod, ''setting deployments temp permissions: ''),
      (StepWrite, ''writing deployments store: ''),
      (StepSync, ''syncing deployments store: ''),
      (StepClose, ''closing deployments store: ''),
      (StepRename, ''promoting deployments store: '')]"

definition after_rename :: "(write_step \<times> string) list" where
  "after_rename =
     [(StepOpenDir, ''opening deployments directory for sync: ''),
      (StepSyncDir, ''syncing deployments directory: '')]"

fun first_fault :: "(write_step \<Rightarrow> string option) \<Rightarrow> (write_step \<times> string) list \<Rightarrow> gerror option" where
  "first_fault fault [] = None"
| "first_fault fault ((st, what) # sts) =
     (case fault st of
        Some e \<Rightarrow> Some (Wrapf what (Errorf e) [])
      | None \<Rightarrow> first_fault fault sts)"

definition write_store_atomic ::
  "(write_step \<Rightarrow> string option) \<Rightarrow> 'd option \<Rightarrow> 'd \<Rightarrow> 'd option \<times> bool \<times> gerror option" where
  "write_store_atomic fault old new =
     (case first_fault fault before_rename of
        Some e \<Rightarrow> (old, False, Some e)
      | None \<Rightarrow> (Some new, True, first_fault fault after_rename))"

text \<open>The keyed update of \<^verbatim>\<open>Store.Put\<close>: replace the record with the same identifier, or append.\<close>

fun upsert_by :: "('a \<Rightarrow> 'k) \<Rightarrow> 'a \<Rightarrow> 'a list \<Rightarrow> 'a list" where
  "upsert_by key x [] = [x]"
| "upsert_by key x (y # ys) = (if key y = key x then x # ys else y # upsert_by key x ys)"

definition store_put :: "env \<Rightarrow> deployment \<Rightarrow> gerror option op" where
  "store_put env d = State (\<lambda>w.
     (let docs = upsert_by d_id d (w_docs w);
          (disk, promoted, err) = write_store_atomic (en_fault env (w_trace w)) (w_disk w) docs;
          result = (case err of
                      Some e \<Rightarrow> Some e
                    | None \<Rightarrow>
                        if promoted then None
                        else Some (Errorf ''deployments store write completed without promotion''))
      in (result,
          w\<lparr>w_trace := EvPut d promoted (result = None) # w_trace w,
            w_docs := (if promoted then docs else w_docs w),
            w_disk := disk\<rparr>)))"

definition store_get :: "deployment list \<Rightarrow> string \<Rightarrow> deployment option" where
  "store_get docs i = find (\<lambda>d. d_id d = i) docs"

definition store_find_key :: "deployment list \<Rightarrow> string \<Rightarrow> deployment option" where
  "store_find_key docs k = find (\<lambda>d. d_key d = k) docs"

text \<open>\<^verbatim>\<open>Store.List\<close>: newest first; records of the same instant stay in store order.\<close>

definition store_list :: "deployment list \<Rightarrow> deployment list" where
  "store_list docs = sort_key (\<lambda>d. - d_created_at d) docs"

definition get_docs :: "deployment list op" where
  "get_docs = State (\<lambda>w. (w_docs w, w))"

lemma wp_get_docs [wp_simp]: "wp get_docs Q w = Q (w_docs w) w"
  by (simp add: wp_def get_docs_def)

text \<open>
  \<^verbatim>\<open>OpenStore\<close>, given what reading and decoding the file gave: an absent file is an empty
  store, an unknown version is refused.
\<close>

datatype store_file =
    FileError gerror
  | FileGarbled gerror
  | FileDocument int "deployment list"

definition open_store :: "store_file \<Rightarrow> gerror + deployment list" where
  "open_store f =
     (case f of
        FileError e \<Rightarrow>
          if err_is e OsNotExist then Inr [] else Inl (Wrapf ''reading deployments store: '' e [])
      | FileGarbled e \<Rightarrow> Inl (Wrapf ''parsing deployments store: '' e [])
      | FileDocument version docs \<Rightarrow>
          if version > 1 \<or> version < 0
          then Inl (Errorf (''unsupported deployments store version '' @ itoa version @ '' (supported: 1)''))
          else Inr docs)"

section \<open>Keyed stores\<close>

text \<open>
  The contract the clients of a keyed list rely on: what a lookup returns after an update,
  and that keys stay unique. The same contract is met by every store of the program.
\<close>

locale keyed_store =
  fixes key :: "'a \<Rightarrow> 'k"
    and put :: "'a \<Rightarrow> 'a list \<Rightarrow> 'a list"
    and get :: "'a list \<Rightarrow> 'k \<Rightarrow> 'a option"
  assumes get_empty: "get [] k = None"
    and get_put: "get (put x xs) k = (if k = key x then Some x else get xs k)"
    and put_distinct: "distinct (map key xs) \<Longrightarrow> distinct (map key (put x xs))"
    and put_elements: "set (put x xs) \<subseteq> insert x (set xs)"
begin

lemma get_put_same: "get (put x xs) (key x) = Some x"
  by (simp add: get_put)

lemma get_puts:
  "get (foldl (\<lambda>xs x. put x xs) xs ys) k =
     (case find (\<lambda>y. key y = k) (rev ys) of Some y \<Rightarrow> Some y | None \<Rightarrow> get xs k)"
  by (induction ys rule: rev_induct) (auto simp: get_put)

lemma puts_distinct:
  "distinct (map key xs) \<Longrightarrow> distinct (map key (foldl (\<lambda>xs x. put x xs) xs ys))"
  by (induction ys rule: rev_induct) (simp_all add: put_distinct)

end

lemma upsert_by_keys: "set (map key (upsert_by key x xs)) = insert (key x) (set (map key xs))"
  by (induction xs) auto

lemma upsert_by_distinct: "distinct (map key xs) \<Longrightarrow> distinct (map key (upsert_by key x xs))"
proof (induction xs)
  case (Cons y ys)
  then show ?case
    using upsert_by_keys [of key x ys] by (auto simp: image_iff)
qed simp

lemma upsert_by_elements: "set (upsert_by key x xs) \<subseteq> insert x (set xs)"
  by (induction xs) auto

lemma upsert_by_get:
  "find (\<lambda>y. key y = k) (upsert_by key x xs) =
     (if k = key x then Some x else find (\<lambda>y. key y = k) xs)"
  by (induction xs) auto

interpretation deployments_store: keyed_store d_id "upsert_by d_id" store_get
  by unfold_locales
    (simp_all add: store_get_def upsert_by_get upsert_by_distinct upsert_by_elements)

section \<open>Store lemmas\<close>

definition no_panic :: "gerror option \<Rightarrow> bool" where
  "no_panic e \<longleftrightarrow> (case e of None \<Rightarrow> True | Some x \<Rightarrow> \<not> is_panic x)"

lemma no_panic_simps [simp]: "no_panic None" "no_panic (Some x) = (\<not> is_panic x)"
  by (simp_all add: no_panic_def)

lemma first_fault_no_panic: "no_panic (first_fault fault steps)"
  by (induction fault steps rule: first_fault.induct) (auto split: option.splits)

lemma write_store_atomic_cases:
  obtains e where "write_store_atomic fault old new = (old, False, Some e)" "\<not> is_panic e"
  | r where "write_store_atomic fault old new = (Some new, True, r)" "no_panic r"
proof (cases "first_fault fault before_rename")
  case None
  with that(2) first_fault_no_panic show ?thesis by (auto simp: write_store_atomic_def)
next
  case (Some e)
  moreover have "\<not> is_panic e" using first_fault_no_panic [of fault before_rename] Some by simp
  ultimately show ?thesis using that(1) by (simp add: write_store_atomic_def)
qed

text \<open>Memory and disk agree: what the live process sees is what a restarted one would read.\<close>

definition store_synced :: "world \<Rightarrow> bool" where
  "store_synced w \<longleftrightarrow> (case w_disk w of None \<Rightarrow> w_docs w = [] | Some docs \<Rightarrow> w_docs w = docs)"

text \<open>The three outcomes of a put: nothing changed, promoted with an error, promoted.\<close>

lemma wp_store_put:
  assumes "\<And>e. \<not> is_panic e \<Longrightarrow> Q (Some e) (w\<lparr>w_trace := EvPut d False False # w_trace w\<rparr>)"
    and "\<And>e. \<not> is_panic e \<Longrightarrow> Q (Some e) (w\<lparr>w_trace := EvPut d True False # w_trace w,
              w_docs := upsert_by d_id d (w_docs w), w_disk := Some (upsert_by d_id d (w_docs w))\<rparr>)"
    and "Q None (w\<lparr>w_trace := EvPut d True True # w_trace w,
              w_docs := upsert_by d_id d (w_docs w), w_disk := Some (upsert_by d_id d (w_docs w))\<rparr>)"
  shows "wp (store_put env d) Q w"
proof (cases rule: write_store_atomic_cases
    [of "en_fault env (w_trace w)" "w_disk w" "upsert_by d_id d (w_docs w)"])
  case (1 e)
  then show ?thesis
    using assms(1) [of e] by (simp add: wp_def store_put_def)
next
  case (2 r)
  then show ?thesis
    using assms(2,3) by (cases r) (simp_all add: wp_def store_put_def Let_def)
qed

end
