(* ===== verification/Deploy_Rollback.thy ===== *)
theory Deploy_Rollback
  imports Deploy_Candidate Deploy_World
begin

text \<open>
  Journaling and rollback of \<^verbatim>\<open>internal/deployments/engine.go\<close>: \<^verbatim>\<open>persistProgress\<close> and
  the before/after actions around every effect, \<^verbatim>\<open>captureCandidateLogs\<close> and
  \<^verbatim>\<open>rollbackLocked\<close>, one function per loop body. The \<^verbatim>\<open>result\<close> pointer of the source
  is the deployment's own rollback record, so both are the field \<open>d_rollback\<close> here.
\<close>

section \<open>The journal\<close>

definition persist_progress ::
  "env \<Rightarrow> deployment \<Rightarrow> phase \<Rightarrow> string \<Rightarrow> string \<Rightarrow> string \<Rightarrow> string \<Rightarrow> (deployment \<times> gerror option) op" where
  "persist_progress env d ph action role status detail = do {
     now \<leftarrow> read_clock env;
     let d' = d\<lparr>d_phase := ph, d_updated_at := now,
                d_progress := d_progress d @
                  [\<lparr>pr_phase = ph, pr_action = action, pr_role = role, pr_status = status,
                    pr_detail = detail, pr_at = now\<rparr>]\<rparr>;
     e \<leftarrow> store_put env d';
     State_Monad.return (d', e)
   }"

definition before_member_action ::
  "env \<Rightarrow> deployment \<Rightarrow> nat \<Rightarrow> phase \<Rightarrow> string \<Rightarrow> string \<Rightarrow> (deployment \<times> gerror option) op" where
  "before_member_action env d i ph action status =
     persist_progress env (set_member_status i status d) ph action (m_role (d_members d ! i)) ''started'' []"

definition after_member_action ::
  "env \<Rightarrow> deployment \<Rightarrow> nat \<Rightarrow> phase \<Rightarrow> string \<Rightarrow> string \<Rightarrow> (deployment \<times> gerror option) op" where
  "after_member_action env d i ph action status =
     persist_progress env (set_member_status i status d) ph action (m_role (d_members d ! i)) ''completed'' []"

definition before_previous_action ::
  "env \<Rightarrow> deployment \<Rightarrow> nat \<Rightarrow> phase \<Rightarrow> string \<Rightarrow> string \<Rightarrow> (deployment \<times> gerror option) op" where
  "before_previous_action env d i ph action status =
     persist_progress env (set_prev_status i status d) ph action (m_role (d_prev d ! i)) ''started'' []"

definition after_previous_action ::
  "env \<Rightarrow> deployment \<Rightarrow> nat \<Rightarrow> phase \<Rightarrow> string \<Rightarrow> string \<Rightarrow> (deployment \<times> gerror option) op" where
  "after_previous_action env d i ph action status =
     persist_progress env (set_prev_status i status d) ph action (m_role (d_prev d ! i)) ''completed'' []"

section \<open>The rollback record\<close>

definition rollback_empty :: rollback_result where
  "rollback_empty = \<lparr>rr_attempted = True, rr_removed = [], rr_restarted = [], rr_log_tails = [],
     rr_errors = [], rr_completed_at = 0\<rparr>"

definition rollback_of :: "deployment \<Rightarrow> rollback_result" where
  "rollback_of d = (case d_rollback d of Some r \<Rightarrow> r | None \<Rightarrow> rollback_empty)"

definition upd_rollback :: "(rollback_result \<Rightarrow> rollback_result) \<Rightarrow> deployment \<Rightarrow> deployment" where
  "upd_rollback f d = d\<lparr>d_rollback := Some (f (rollback_of d))\<rparr>"

definition add_error :: "string \<Rightarrow> deployment \<Rightarrow> deployment" where
  "add_error msg = upd_rollback (\<lambda>r. r\<lparr>rr_errors := rr_errors r @ [msg]\<rparr>)"

definition add_removed :: "string \<Rightarrow> deployment \<Rightarrow> deployment" where
  "add_removed name = upd_rollback (\<lambda>r. r\<lparr>rr_removed := append_unique (rr_removed r) [name]\<rparr>)"

definition add_restarted :: "string \<Rightarrow> deployment \<Rightarrow> deployment" where
  "add_restarted c = upd_rollback (\<lambda>r. r\<lparr>rr_restarted := append_unique (rr_restarted r) [c]\<rparr>)"

text \<open>A retried rollback keeps what the earlier attempt removed, restarted and captured.\<close>

definition begin_rollback :: "deployment \<Rightarrow> string \<Rightarrow> deployment" where
  "begin_rollback d safe_cause =
     (let result = (case d_rollback d of
           None \<Rightarrow> rollback_empty
         | Some r \<Rightarrow> rollback_empty\<lparr>rr_removed := append_unique [] (rr_removed r),
                       rr_restarted := append_unique [] (rr_restarted r),
                       rr_log_tails := rr_log_tails r\<rparr>)
      in d\<lparr>d_rollback := Some result, d_state := StateRollbackFailed, d_error := safe_cause\<rparr>)"

definition capture_candidate_logs :: "env \<Rightarrow> deployment \<Rightarrow> member \<Rightarrow> string \<Rightarrow> deployment op" where
  "capture_candidate_logs env d m redaction = do {
     cap \<leftarrow> op_capture env d m (if m_role m = role_head then redaction else []);
     now \<leftarrow> read_clock env;
     let base = \<lparr>lt_role = m_role m, lt_rank = m_rank m, lt_device = m_device m,
                  lt_container = m_container m, lt_name = m_name m, lt_status = [], lt_tail = [],
                  lt_truncated = False, lt_error = [], lt_captured_at = now\<rparr>;
     let tail = (case cap of
          Inl e \<Rightarrow> base\<lparr>lt_status := ''failed'', lt_error := fst (sanitize_log_tail (err_text e) redaction)\<rparr>
        | Inr c \<Rightarrow> base\<lparr>lt_status := ''captured'', lt_tail := fst (sanitize_log_tail (lc_tail c) redaction),
                       lt_truncated := snd (sanitize_log_tail (lc_tail c) redaction) \<or> lc_truncated c\<rparr>);
     let d' = upd_rollback (\<lambda>r. r\<lparr>rr_log_tails := upsert_log_tail (rr_log_tails r) tail\<rparr>) d;
     (d'', ignored) \<leftarrow> persist_progress env d' PhaseRollback ''capture_candidate_logs'' (m_role m)
        (lt_status tail)
        (case cap of Inl e \<Rightarrow> ''bounded candidate log tail capture failed; removal will continue''
                   | Inr c \<Rightarrow> ''bounded candidate log tail captured'');
     State_Monad.return d''
   }"

fun capture_all :: "env \<Rightarrow> string \<Rightarrow> member list \<Rightarrow> deployment \<Rightarrow> deployment op" where
  "capture_all env redaction [] d = State_Monad.return d"
| "capture_all env redaction (m # ms) d =
     (if candidate_may_exist (m_status m) \<and> m_ownership m \<noteq> OwnershipObserved
      then do { d' \<leftarrow> capture_candidate_logs env d m redaction; capture_all env redaction ms d' }
      else capture_all env redaction ms d)"

section \<open>Removing the candidates\<close>

text \<open>
  The tail of the loop body, once the candidate is absent or identified. The flag says
  whether the candidate is known to be gone.
\<close>

definition remove_confirmed ::
  "env \<Rightarrow> bool \<Rightarrow> string \<Rightarrow> nat \<Rightarrow> member \<Rightarrow> deployment \<Rightarrow> (deployment \<times> bool) op" where
  "remove_confirmed env head_recipe redaction i m d = do {
     d1 \<leftarrow> (if head_recipe then State_Monad.return d else capture_candidate_logs env d m redaction);
     e \<leftarrow> op_remove_managed env d1 m;
     (if (case e of None \<Rightarrow> False | Some err \<Rightarrow> \<not> err_is err ErrContainerNotFound)
      then State_Monad.return (add_error (''remove '' @ m_role m @ '' candidate failed'') d1, False)
      else do {
        (d2, e2) \<leftarrow> after_member_action env (add_removed (m_name m) d1) i PhaseRollback
                     ''remove_candidate'' ''removed'';
        State_Monad.return
          (if e2 = None then d2
           else add_error (''persist '' @ m_role m @ '' candidate removal failed'') d2, True)
      })
   }"

definition remove_candidate ::
  "env \<Rightarrow> bool \<Rightarrow> string \<Rightarrow> nat \<Rightarrow> deployment \<Rightarrow> (deployment \<times> bool) op" where
  "remove_candidate env head_recipe redaction i d =
     (let m = d_members d ! i in
      if m_ownership m = OwnershipObserved
        then State_Monad.return (add_error (''refused to remove observed '' @ m_role m @ '' candidate'') d, False)
      else do {
        (d1, e) \<leftarrow> before_member_action env d i PhaseRollback ''remove_candidate'' ''removing'';
        (if e \<noteq> None
         then State_Monad.return
                (add_error (''persist '' @ m_role m @ '' candidate removal intent failed'') d1, False)
         else do {
           r \<leftarrow> op_inspect env (m_device m) (if head_recipe then member_locator m else m_name m);
           (case r of
              Inl err \<Rightarrow>
                if \<not> err_is err ErrContainerNotFound
                then State_Monad.return (add_error (''inspect '' @ m_role m @ '' candidate failed'') d1, False)
                else remove_confirmed env head_recipe redaction i m d1
            | Inr ob \<Rightarrow>
                if validate_managed_identity d1 m ob \<noteq> None
                then State_Monad.return (add_error (''candidate name collision for '' @ m_role m) d1, False)
                else remove_confirmed env head_recipe redaction i (m\<lparr>m_container := o_id ob\<rparr>) d1)
         })
      })"

fun remove_candidates ::
  "env \<Rightarrow> bool \<Rightarrow> string \<Rightarrow> nat list \<Rightarrow> deployment \<Rightarrow> bool \<Rightarrow> (deployment \<times> bool) op" where
  "remove_candidates env head_recipe redaction [] d safe = State_Monad.return (d, safe)"
| "remove_candidates env head_recipe redaction (i # is) d safe =
     (if head_recipe \<and> m_role (d_members d ! i) = role_worker \<and> \<not> safe
        then State_Monad.return (d, safe)
      else if \<not> candidate_may_exist (m_status (d_members d ! i))
        then remove_candidates env head_recipe redaction is d safe
      else do {
        (d', ok) \<leftarrow> remove_candidate env head_recipe redaction i d;
        remove_candidates env head_recipe redaction is d' (safe \<and> ok)
      })"

section \<open>Restoring the previous members\<close>

definition await_restored :: "env \<Rightarrow> nat \<Rightarrow> member \<Rightarrow> deployment \<Rightarrow> deployment op" where
  "await_restored env i m d = do {
     e \<leftarrow> op_wait_running env (m_device m) (m_container m);
     (case e of
        Some err \<Rightarrow> State_Monad.return (add_error (''wait for previous '' @ m_role m @ '' failed'') d)
      | None \<Rightarrow> do {
          (d', e') \<leftarrow> persist_progress env (set_prev_status i ''running'' d) PhaseRollback
                       ''restore_previous'' (m_role m) ''completed'' ''previous member is running'';
          State_Monad.return
            (if e' = None then d'
             else add_error (''persist previous '' @ m_role m @ '' restoration failed'') d')
        })
   }"

definition audit_restart ::
  "env \<Rightarrow> nat \<Rightarrow> member \<Rightarrow> string \<Rightarrow> string \<Rightarrow> string \<Rightarrow> deployment \<Rightarrow> deployment op" where
  "audit_restart env i m status detail what d = do {
     (d', e) \<leftarrow> persist_progress env (add_restarted (m_container m) d) PhaseRollback
                  ''restore_previous_restart'' (m_role m) status detail;
     (if e \<noteq> None
      then State_Monad.return (add_error (''persist previous '' @ m_role m @ what) d')
      else await_restored env i m d')
   }"

definition restore_one :: "env \<Rightarrow> nat \<Rightarrow> deployment \<Rightarrow> deployment op" where
  "restore_one env i d =
     (let m = d_prev d ! i in do {
        (d1, e) \<leftarrow> before_previous_action env d i PhaseRollback ''restore_previous'' ''restarting'';
        (if e \<noteq> None
         then State_Monad.return (add_error (''persist '' @ m_role m @ '' restoration intent failed'') d1)
         else do {
           r \<leftarrow> op_inspect env (m_device m) (m_container m);
           (case r of
              Inl err \<Rightarrow> State_Monad.return (add_error (''inspect previous '' @ m_role m @ '' failed'') d1)
            | Inr ob \<Rightarrow>
                if o_status ob \<noteq> ''running'' \<or> m_status m = ''stopping''
                then do {
                  e2 \<leftarrow> op_restart env (m_device m) (m_container m);
                  (if e2 \<noteq> None
                   then State_Monad.return (add_error (''restart previous '' @ m_role m @ '' failed'') d1)
                   else audit_restart env i m ''completed'' ''previous member restart requested''
                          '' restart audit failed'' d1)
                }
                else if m_status m = ''restarting''
                then audit_restart env i m ''recovered'' ''previous member restart completion reconstructed''
                       '' reconstructed restart audit failed'' d1
                else await_restored env i m d1)
         })
      })"

fun restore_previous :: "env \<Rightarrow> nat list \<Rightarrow> deployment \<Rightarrow> deployment op" where
  "restore_previous env [] d = State_Monad.return d"
| "restore_previous env (i # is) d = do { d' \<leftarrow> restore_one env i d; restore_previous env is d' }"

section \<open>Rollback\<close>

definition finish_rollback :: "env \<Rightarrow> deployment \<Rightarrow> (deployment \<times> gerror option) op" where
  "finish_rollback env d = do {
     now \<leftarrow> read_clock env;
     let d1 = (upd_rollback (\<lambda>r. r\<lparr>rr_completed_at := now\<rparr>) d)\<lparr>d_updated_at := now\<rparr>;
     let errors = rr_errors (rollback_of d1);
     let d2 = (if errors = []
        then d1\<lparr>d_state := StateRolledBack,
                d_members := map (\<lambda>m. if m_status m \<noteq> ''removed'' then m\<lparr>m_status := ''stopped''\<rparr> else m)
                               (d_members d1)\<rparr>
        else d1\<lparr>d_state := StateRollbackFailed\<rparr>);
     (d3, e) \<leftarrow> persist_progress env d2 PhaseComplete ''rollback'' []
                 (if errors = [] then ''completed'' else ''failed'')
                 ''candidate cleanup and previous restoration checked'';
     State_Monad.return
       (d3, case e of
          Some err \<Rightarrow> Some (wrap_error ErrorDependency ''persist rollback result'' err)
        | None \<Rightarrow>
            if errors = [] then None
            else Some (wrap_error ErrorDependency ''rollback deployment''
                        (Errorf (join_with ''; '' errors))))
   }"

definition rollback_locked ::
  "env \<Rightarrow> deployment \<Rightarrow> string \<Rightarrow> string \<Rightarrow> (deployment \<times> gerror option) op" where
  "rollback_locked env d safe_cause redaction = do {
     (d1, e) \<leftarrow> persist_progress env (begin_rollback d safe_cause) PhaseRollback ''rollback'' []
                 ''started'' ''remove candidates then restore previous members'';
     (case e of
        Some err \<Rightarrow> State_Monad.return (d1, Some (wrap_error ErrorDependency ''persist rollback intent'' err))
      | None \<Rightarrow> do {
          let head_recipe = is_head_recipe_bkc (en_catalog env) (d_bkc_id d1);
          d2 \<leftarrow> (if head_recipe then capture_all env redaction (d_members d1) d1
                 else State_Monad.return d1);
          (d3, safe) \<leftarrow> remove_candidates env head_recipe redaction
                         (reverse_launch_indexes (en_catalog env) d2) d2 True;
          d4 \<leftarrow> (if safe then restore_previous env [0..<length (d_prev d3)] d3
                 else State_Monad.return d3);
          finish_rollback env d4
        })
   }"

end
