(* ===== verification/Deploy_Create.thy ===== *)
theory Deploy_Create
  imports Deploy_Rollback
begin

text \<open>
  \<^verbatim>\<open>CreateWithOutcome\<close> of \<^verbatim>\<open>internal/deployments/engine.go\<close> and the readiness gate it
  shares with \<^verbatim>\<open>Start\<close>: selection and preflight without any effect, then pull, cutover,
  launch, readiness and promotion, each failure of which ends in a rollback. A step that
  fails carries the deployment as it is then, with the cause and its safe description.
\<close>

section \<open>Readiness\<close>

definition default_readiness_timeout :: int where "default_readiness_timeout = 45 * 60 * 10 ^ 9"
definition default_readiness_interval :: int where "default_readiness_interval = 5 * 10 ^ 9"

definition readiness_timeout :: "env \<Rightarrow> string \<Rightarrow> int" where
  "readiness_timeout env bkc =
     (let t = (if en_readiness_timeout env \<le> 0 then default_readiness_timeout else en_readiness_timeout env)
      in if t = default_readiness_timeout
         then (case Option.bind (Option.bind (lookup_id (en_catalog env) bkc) cfg_multi) md_recipe_opt of
                 Some r \<Rightarrow> (if rcp_readiness_timeout_sec r > 0 then rcp_readiness_timeout_sec r * 10 ^ 9 else t)
               | None \<Rightarrow> t)
         else t)"

definition readiness_interval :: "env \<Rightarrow> int" where
  "readiness_interval env =
     (if en_readiness_interval env \<le> 0 then default_readiness_interval else en_readiness_interval env)"

definition observe_member :: "member \<Rightarrow> observed \<Rightarrow> member" where
  "observe_member m ob =
     m\<lparr>m_status := o_status ob,
       m_container := (if o_id ob \<noteq> [] then o_id ob else m_container m),
       m_name := (if o_name ob \<noteq> [] then o_name ob else m_name m)\<rparr>"

text \<open>
  One pass over the members: those observed so far, an error that ends the wait, whether
  all members run, and the last error. Members after a fatal one keep their old record.
\<close>

fun ready_scan ::
  "env \<Rightarrow> member list \<Rightarrow> member list \<Rightarrow> bool \<Rightarrow> gerror option \<Rightarrow>
   (member list \<times> gerror option \<times> bool \<times> gerror option) op" where
  "ready_scan env seen [] running prior = State_Monad.return (seen, None, running, prior)"
| "ready_scan env seen (m # ms) running prior = do {
     r \<leftarrow> op_inspect env (m_device m) (member_locator m);
     (case r of
        Inl e \<Rightarrow> ready_scan env (seen @ [m]) ms False
                   (Some (Wrapf (''inspect '' @ m_role m @ '' rank during readiness: '') e []))
      | Inr ob \<Rightarrow>
          (let m' = observe_member m ob in
           if o_status ob = ''running'' then ready_scan env (seen @ [m']) ms running prior
           else if o_status ob \<in> {''stopped'', ''exited'', ''dead'', ''failed''}
             then State_Monad.return
                    (seen @ [m'] @ ms, Some (Errorf (m_role m @ '' rank exited during readiness'')), running, prior)
           else ready_scan env (seen @ [m']) ms False
                  (Some (Errorf (m_role m @ '' rank is '' @ o_status ob)))))
   }"

datatype ready_step =
    ReadyDone "gerror + test_result"
  | ReadyAgain "gerror option"

definition ready_check ::
  "env \<Rightarrow> string \<Rightarrow> string \<Rightarrow> member list \<Rightarrow> gerror option \<Rightarrow> (member list \<times> ready_step) op" where
  "ready_check env key expected ms prior = do {
     (ms', fatal, running, prior') \<leftarrow> ready_scan env [] ms True prior;
     (case fatal of
        Some e \<Rightarrow> State_Monad.return (ms', ReadyDone (Inl e))
      | None \<Rightarrow>
          if \<not> running then State_Monad.return (ms', ReadyAgain prior')
          else (case member_by_role ms' role_head of
              None \<Rightarrow> State_Monad.return (ms', ReadyDone (Inl (Errorf ''deployment has no rank-0 member'')))
            | Some h \<Rightarrow> do {
                r \<leftarrow> op_test env (m_device h) (member_locator h) key;
                (case r of
                   Inl e \<Rightarrow>
                     State_Monad.return
                       (ms', if err_is e ErrServiceUnauthorized then ReadyDone (Inl e) else ReadyAgain (Some e))
                 | Inr t \<Rightarrow>
                     (case validate_promotion_result t expected of
                        Some e \<Rightarrow> State_Monad.return (ms', ReadyAgain (Some e))
                      | None \<Rightarrow> do {
                          now \<leftarrow> read_clock env;
                          State_Monad.return (ms', ReadyDone (Inr (t\<lparr>tr_tested_at := now\<rparr>)))
                        }))
              }))
   }"

text \<open>The error of a wait that ended: the context's, or the deadline with the last error.\<close>

definition wait_end :: "gerror option \<Rightarrow> gerror option \<Rightarrow> gerror" where
  "wait_end cause prior =
     (case cause of
        Some e \<Rightarrow> e
      | None \<Rightarrow> Wrapf ''readiness deadline exceeded: ''
                  (case prior of Some e \<Rightarrow> e | None \<Rightarrow> Errorf ''readiness deadline exceeded'') [])"

fun wait_loop ::
  "env \<Rightarrow> string \<Rightarrow> string \<Rightarrow> gerror option \<Rightarrow> nat \<Rightarrow> member list \<Rightarrow> gerror option \<Rightarrow>
   (member list \<times> (gerror + test_result)) op" where
  "wait_loop env key expected cause 0 ms prior = do {
     (ms', s) \<leftarrow> ready_check env key expected ms prior;
     (case s of
        ReadyDone r \<Rightarrow> State_Monad.return (ms', r)
      | ReadyAgain prior' \<Rightarrow> State_Monad.return (ms', Inl (wait_end cause prior')))
   }"
| "wait_loop env key expected cause (Suc ticks) ms prior = do {
     (ms', s) \<leftarrow> ready_check env key expected ms prior;
     (case s of
        ReadyDone r \<Rightarrow> State_Monad.return (ms', r)
      | ReadyAgain prior' \<Rightarrow> wait_loop env key expected cause ticks ms' prior')
   }"

definition wait_ready ::
  "env \<Rightarrow> member list \<Rightarrow> string \<Rightarrow> string \<Rightarrow> string \<Rightarrow> (member list \<times> (gerror + test_result)) op" where
  "wait_ready env ms key expected bkc = do {
     (ticks, cause) \<leftarrow> ask (\<lambda>h. en_wait env h (readiness_timeout env bkc) (readiness_interval env));
     wait_loop env key expected (map_option ctx_error cause) ticks ms None
   }"

section \<open>Selection and preflight\<close>

text \<open>
  Inspecting the containers the request selects for replacement: the bindings with the
  observed identifiers, the previous members and their highest generation.
\<close>

fun inspect_selected ::
  "env \<Rightarrow> multi_device \<Rightarrow> binding list \<Rightarrow> binding list \<Rightarrow> member list \<Rightarrow> int \<Rightarrow>
   (gerror + (binding list \<times> member list \<times> int)) op" where
  "inspect_selected env md seen [] prev gen = State_Monad.return (Inr (seen, prev, gen))"
| "inspect_selected env md seen (b # bs) prev gen =
     (if b_observed b = [] then inspect_selected env md (seen @ [b]) bs prev gen
      else do {
        r \<leftarrow> op_inspect env (b_device b) (b_observed b);
        (case r of
           Inl e \<Rightarrow>
             State_Monad.return (Inl (wrap_error
               (case error_kind_of e of Some k \<Rightarrow> k | None \<Rightarrow> ErrorValidation)
               (''inspect selected '' @ b_role b @ '' container'') e))
         | Inr ob \<Rightarrow>
             if o_deployment ob \<noteq> []
             then State_Monad.return (Inl (wrap_error ErrorConflict
                    (''inspect selected '' @ b_role b @ '' container'')
                    (Errorf (''container is already managed by grouped deployment '' @ o_deployment ob))))
             else (let b' = b\<lparr>b_observed := o_id ob\<rparr>;
                       m = member_from_observed b' (role_rank_of md (b_role b)) ob
                   in inspect_selected env md (seen @ [b']) bs (prev @ [m])
                        (if m_generation m > gen then m_generation m else gen)))
      })"

definition new_deployment ::
  "string \<Rightarrow> create_request \<Rightarrow> bkc_config \<Rightarrow> multi_device \<Rightarrow> binding list \<Rightarrow> member list \<Rightarrow> int \<Rightarrow> int \<Rightarrow> deployment" where
  "new_deployment i r cfg md bs prev gen now =
     deployment_zero\<lparr>d_id := i, d_bkc_id := cfg_id cfg, d_key := rq_key r, d_hash := request_hash r,
       d_state := StatePending, d_phase := PhasePlanned, d_generation := gen + 1,
       d_prev_generation := gen, d_bindings := bs, d_prev := prev,
       d_uses_local := (rq_model_path r \<noteq> []), d_recipe_source := cfg_source cfg,
       d_recipe_revision := md_source_revision md, d_model_revision := md_model_revision md,
       d_image_digest := pinned_image_digest (cfg_image cfg),
       d_launch_order := recipe_launch_order md, d_patches := runtime_patch_provenance md,
       d_recipe := recipe_provenance_of md, d_created_at := now, d_updated_at := now\<rparr>"

text \<open>The planned members; \<open>None\<close> when building a candidate panics.\<close>

fun plan_members ::
  "deployment \<Rightarrow> create_request \<Rightarrow> bkc_config \<Rightarrow> multi_device \<Rightarrow> string \<Rightarrow> binding list \<Rightarrow> member list option" where
  "plan_members d r cfg md head_address [] = Some []"
| "plan_members d r cfg md head_address (b # bs) =
     (case build_candidate (d_id d) (d_generation d) r cfg md b head_address of
        None \<Rightarrow> None
      | Some c \<Rightarrow>
          (case plan_members d r cfg md head_address bs of
             None \<Rightarrow> None
           | Some ms \<Rightarrow> Some (planned_member b c (d_generation d) # ms)))"

definition preflight_of ::
  "create_request \<Rightarrow> bkc_config \<Rightarrow> multi_device \<Rightarrow> binding \<Rightarrow> member \<Rightarrow> candidate \<Rightarrow> preflight_request" where
  "preflight_of r cfg md b m c =
     \<lparr>pf_binding = b, pf_candidate_name = m_name m, pf_model_path = rq_model_path r,
      pf_service_port = md_service_port md, pf_rendezvous_port = md_rendezvous_port md,
      pf_head = (b_role b = role_head), pf_bkc_id = cfg_id cfg,
      pf_model_revision = md_model_revision md, pf_driver = c_driver c, pf_recipe = c_recipe c\<rparr>"

fun preflight_all ::
  "env \<Rightarrow> deployment \<Rightarrow> create_request \<Rightarrow> bkc_config \<Rightarrow> multi_device \<Rightarrow> string \<Rightarrow>
   (binding \<times> member) list \<Rightarrow> gerror option op" where
  "preflight_all env d r cfg md head_address [] = State_Monad.return None"
| "preflight_all env d r cfg md head_address ((b, m) # bms) =
     (case build_candidate (d_id d) (d_generation d) r cfg md b head_address of
        None \<Rightarrow> State_Monad.return (Some (GoPanic ''nil pointer dereference''))
      | Some c \<Rightarrow> do {
          e \<leftarrow> op_preflight env (preflight_of r cfg md b m c) (md_capabilities md) (cfg_targets cfg);
          (case e of
             Some err \<Rightarrow>
               State_Monad.return (Some (wrap_error
                 (case error_kind_of err of Some k \<Rightarrow> k | None \<Rightarrow> ErrorConflict)
                 (''preflight '' @ b_role b) err))
           | None \<Rightarrow> preflight_all env d r cfg md head_address bms)
        })"

section \<open>The effects\<close>

text \<open>How a step can end a create: an error with its safe cause, or a run-time panic.\<close>

datatype failure = Fail gerror string | Panic string

type_synonym stage = "(deployment \<times> failure option) op"

definition and_then :: "stage \<Rightarrow> (deployment \<Rightarrow> stage) \<Rightarrow> stage" where
  "and_then m k = do {
     (d, f) \<leftarrow> m;
     (case f of Some x \<Rightarrow> State_Monad.return (d, Some x) | None \<Rightarrow> k d)
   }"

definition journaled :: "string \<Rightarrow> (deployment \<times> gerror option) op \<Rightarrow> stage" where
  "journaled safe m = do {
     (d, e) \<leftarrow> m;
     State_Monad.return (d, case e of Some err \<Rightarrow> Some (Fail err safe) | None \<Rightarrow> None)
   }"

definition effect :: "deployment \<Rightarrow> string \<Rightarrow> string \<Rightarrow> gerror option op \<Rightarrow> stage" where
  "effect d what safe m = do {
     e \<leftarrow> m;
     State_Monad.return (d, case e of Some err \<Rightarrow> Some (Fail (Wrapf what err []) safe) | None \<Rightarrow> None)
   }"

definition pull_one :: "env \<Rightarrow> string \<Rightarrow> nat \<times> binding \<Rightarrow> deployment \<Rightarrow> stage" where
  "pull_one env img ib d =
     and_then (journaled ''persist pull intent failed''
                 (before_member_action env d (fst ib) PhasePulling ''pull'' ''pulling'')) (\<lambda>d.
     and_then (effect d (''pull '' @ b_role (snd ib) @ '' candidate: '') ''candidate pull failed''
                 (op_pull env (snd ib) img)) (\<lambda>d.
     journaled ''persist pull completion failed''
       (after_member_action env d (fst ib) PhasePulling ''pull'' ''pulled'')))"

definition stop_previous_one :: "env \<Rightarrow> nat \<Rightarrow> deployment \<Rightarrow> stage" where
  "stop_previous_one env i d =
     (let m = d_prev d ! i in
      and_then (journaled ''persist previous stop intent failed''
                  (before_previous_action env d i PhaseCutover ''stop_previous'' ''stopping'')) (\<lambda>d.
      and_then (effect d (''stop selected '' @ m_role m @ '' container: '')
                  ''selected previous container stop failed'' (op_stop env (m_device m) (m_container m))) (\<lambda>d.
      journaled ''persist previous stop completion failed''
        (after_previous_action env d i PhaseCutover ''stop_previous'' ''stopped''))))"

definition launched :: "nat \<Rightarrow> observed \<Rightarrow> deployment \<Rightarrow> deployment" where
  "launched i ob d =
     d\<lparr>d_members := (d_members d)[i := (d_members d ! i)\<lparr>m_container := o_id ob, m_name := o_name ob,
                                          m_ownership := OwnershipManaged\<rparr>]\<rparr>"

definition launch_member ::
  "env \<Rightarrow> nat \<Rightarrow> binding \<Rightarrow> candidate \<Rightarrow> deployment \<Rightarrow> stage" where
  "launch_member env i b c d =
     and_then (journaled ''persist launch intent failed''
                 (before_member_action env d i PhaseLaunching ''launch'' ''launching'')) (\<lambda>d. do {
       r \<leftarrow> op_launch env b c;
       (case r of
          Inl e \<Rightarrow> State_Monad.return
                     (d, Some (Fail (Wrapf (''launch '' @ b_role b @ '' candidate: '') e []) ''candidate launch failed''))
        | Inr ob \<Rightarrow>
            and_then (journaled ''persist launch completion failed''
              (after_member_action env (launched i ob d) i PhaseLaunching ''launch'' (o_status ob))) (\<lambda>d. do {
                e \<leftarrow> ask (\<lambda>h. map_option ctx_error (en_ctx_err env h));
                State_Monad.return
                  (d, case e of Some err \<Rightarrow> Some (Fail err ''deployment request ended after candidate launch'')
                              | None \<Rightarrow> None)
              }))
     })"

text \<open>A role without member indexes the member slice at -1, which panics.\<close>

definition launch_one ::
  "env \<Rightarrow> create_request \<Rightarrow> bkc_config \<Rightarrow> multi_device \<Rightarrow> binding list \<Rightarrow> string \<Rightarrow> string \<Rightarrow> deployment \<Rightarrow> stage" where
  "launch_one env r cfg md bs head_address role d =
     (let b = binding_by_role bs role in
      case build_candidate (d_id d) (d_generation d) r cfg md b head_address of
        None \<Rightarrow> State_Monad.return (d, Some (Panic ''nil pointer dereference''))
      | Some c \<Rightarrow>
          (case member_index_by_role (d_members d) role of
             None \<Rightarrow> State_Monad.return (d, Some (Panic ''index out of range [-1]''))
           | Some i \<Rightarrow> launch_member env i b c d))"

fun each :: "('x \<Rightarrow> deployment \<Rightarrow> stage) \<Rightarrow> 'x list \<Rightarrow> deployment \<Rightarrow> stage" where
  "each f [] d = State_Monad.return (d, None)"
| "each f (x # xs) d = and_then (f x d) (each f xs)"

definition await_promotion ::
  "env \<Rightarrow> create_request \<Rightarrow> bkc_config \<Rightarrow> deployment \<Rightarrow> stage" where
  "await_promotion env r cfg d =
     and_then (journaled ''persist readiness intent failed''
                 (persist_progress env d PhaseReadiness ''readiness'' [] ''started''
                    ''waiting for both ranks and semantic gates'')) (\<lambda>d. do {
       (ms, result) \<leftarrow> wait_ready env (d_members d) (rq_api_key r)
                         (expected_model cfg (rq_model_path r \<noteq> [])) (d_bkc_id d);
       let d1 = d\<lparr>d_members := ms\<rparr>;
       (case result of
          Inl e \<Rightarrow> State_Monad.return (d1, Some (Fail (readiness_operation_error e) ''candidate readiness failed''))
        | Inr t \<Rightarrow>
            and_then (journaled ''persist readiness completion failed''
               (persist_progress env (d1\<lparr>d_last_test := Some t\<rparr>) PhaseReadiness ''readiness'' [] ''completed''
                  ''both ranks running and semantic gates passed'')) (\<lambda>d.
             journaled ''persist promotion failed''
               (persist_progress env (d\<lparr>d_state := StateRunning\<rparr>) PhaseRunning ''promote'' [] ''completed''
                  ''both ranks running and semantic gates passed'')))
     })"

definition deploy ::
  "env \<Rightarrow> create_request \<Rightarrow> bkc_config \<Rightarrow> multi_device \<Rightarrow> binding list \<Rightarrow> string \<Rightarrow> deployment \<Rightarrow> stage" where
  "deploy env r cfg md bs head_address d =
     and_then (each (pull_one env (cfg_image cfg)) (zip [0..<length bs] bs) d) (\<lambda>d.
     and_then (each (stop_previous_one env) [0..<length (d_prev d)] d) (\<lambda>d.
     and_then (each (launch_one env r cfg md bs head_address) (recipe_launch_order md) d) (\<lambda>d.
     await_promotion env r cfg d)))"

section \<open>Create\<close>

record create_outcome =
  co_deployment :: deployment
  co_created :: bool

definition outcome_zero :: create_outcome where
  "outcome_zero = \<lparr>co_deployment = deployment_zero, co_created = False\<rparr>"

definition outcome_of :: "deployment \<Rightarrow> create_outcome" where
  "outcome_of d = \<lparr>co_deployment = d, co_created = False\<rparr>"

definition create_rollback ::
  "env \<Rightarrow> deployment \<Rightarrow> gerror \<Rightarrow> string \<Rightarrow> string \<Rightarrow> (create_outcome \<times> gerror option) op" where
  "create_rollback env d cause safe redaction = do {
     (d', e) \<leftarrow> rollback_locked env d safe redaction;
     State_Monad.return
       (outcome_of d', case e of
          Some err \<Rightarrow> Some (Wrapf [] cause (''; '' @ err_text err))
        | None \<Rightarrow> Some cause)
   }"

text \<open>A fresh create: everything after the idempotency lookup found nothing.\<close>

definition create_fresh ::
  "env \<Rightarrow> create_request \<Rightarrow> bkc_config \<Rightarrow> multi_device \<Rightarrow> (create_outcome \<times> gerror option) op" where
  "create_fresh env r cfg md = do {
     i \<leftarrow> ask (en_new_id env);
     sel \<leftarrow> inspect_selected env md [] (ordered_bindings (rq_bindings r) md) [] 0;
     (case sel of
        Inl e \<Rightarrow> State_Monad.return (outcome_zero, Some e)
      | Inr (bs, prev, gen) \<Rightarrow> do {
          now \<leftarrow> read_clock env;
          let d0 = new_deployment i r cfg md bs prev gen now;
          let head_address = (case bs of [] \<Rightarrow> [] | b # _ \<Rightarrow> b_fabric_address b);
          (case plan_members d0 r cfg md head_address bs of
             None \<Rightarrow> State_Monad.return (outcome_zero, Some (GoPanic ''nil pointer dereference''))
           | Some ms \<Rightarrow> do {
               let d1 = d0\<lparr>d_members := ms\<rparr>;
               pf \<leftarrow> preflight_all env d1 r cfg md head_address (zip bs ms);
               (case pf of
                  Some e \<Rightarrow> State_Monad.return (outcome_zero, Some e)
                | None \<Rightarrow> do {
                    (d2, e) \<leftarrow> persist_progress env d1 PhasePlanned ''journal'' [] ''completed''
                                 ''candidate and previous members selected'';
                    (case e of
                       Some err \<Rightarrow>
                         State_Monad.return
                           (outcome_zero, Some (wrap_error ErrorDependency ''journal pending deployment'' err))
                     | None \<Rightarrow> do {
                         (d3, f) \<leftarrow> deploy env r cfg md bs head_address d2;
                         (case f of
                            None \<Rightarrow> State_Monad.return (\<lparr>co_deployment = d3, co_created = True\<rparr>, None)
                          | Some (Fail cause safe) \<Rightarrow> create_rollback env d3 cause safe (rq_api_key r)
                          | Some (Panic s) \<Rightarrow> State_Monad.return (outcome_zero, Some (GoPanic s)))
                       })
                  })
             })
        })
   }"

end
