(* ===== verification/Deploy_Lifecycle.thy ===== *)
theory Deploy_Lifecycle
  imports Deploy_Create
begin

text \<open>
  The operations on existing deployments of \<^verbatim>\<open>internal/deployments/engine.go\<close>:
  \<^verbatim>\<open>Test\<close>, \<^verbatim>\<open>Stop\<close>, \<^verbatim>\<open>Start\<close> with its failure path \<^verbatim>\<open>failStart\<close>, \<^verbatim>\<open>Rollback\<close>, the
  recovery of interrupted operations (\<^verbatim>\<open>Reconcile\<close>, \<^verbatim>\<open>reconcileUnsafeStateLocked\<close>), and
  \<^verbatim>\<open>CreateWithOutcome\<close>, which recovers before it creates.
\<close>

section \<open>Stop\<close>

text \<open>The body of the stop loop; an error is a description added to the stop errors.\<close>

definition stop_one :: "env \<Rightarrow> nat \<Rightarrow> deployment \<Rightarrow> (deployment \<times> string option) op" where
  "stop_one env i d =
     (let m = d_members d ! i in
      if m_ownership m = OwnershipObserved
        then State_Monad.return (d, Some (''refused observed '' @ m_role m))
      else do {
        (d1, e) \<leftarrow> before_member_action env d i PhaseStopping ''stop'' ''stopping'';
        (if e \<noteq> None then State_Monad.return (d1, Some (''persist '' @ m_role m @ '' stop intent''))
         else do {
           r \<leftarrow> op_inspect env (m_device m) (member_locator m);
           (case r of
              Inl err \<Rightarrow> State_Monad.return (d1, Some (''inspect '' @ m_role m))
            | Inr ob \<Rightarrow>
                if validate_managed_identity d1 m ob \<noteq> None
                then State_Monad.return (d1, Some (''provenance '' @ m_role m))
                else do {
                  e2 \<leftarrow> (if o_status ob \<noteq> ''stopped'' then op_stop_managed env d1 m
                         else State_Monad.return None);
                  (if e2 \<noteq> None then State_Monad.return (d1, Some (''stop '' @ m_role m))
                   else do {
                     (d2, e3) \<leftarrow> after_member_action env d1 i PhaseStopping ''stop'' ''stopped'';
                     State_Monad.return
                       (d2, if e3 = None then None else Some (''persist '' @ m_role m @ '' stop completion''))
                   })
                })
         })
      })"

fun stop_all ::
  "env \<Rightarrow> nat list \<Rightarrow> deployment \<Rightarrow> string list \<Rightarrow> (deployment \<times> string list) op" where
  "stop_all env [] d errs = State_Monad.return (d, errs)"
| "stop_all env (i # is) d errs =
     (if is_head_recipe_bkc (en_catalog env) (d_bkc_id d) \<and>
         m_role (d_members d ! i) = role_worker \<and> errs \<noteq> []
      then State_Monad.return (d, errs)
      else do {
        (d', e) \<leftarrow> stop_one env i d;
        stop_all env is d' (errs @ (case e of None \<Rightarrow> [] | Some msg \<Rightarrow> [msg]))
      })"

definition stop_locked :: "env \<Rightarrow> deployment \<Rightarrow> (deployment \<times> gerror option) op" where
  "stop_locked env d =
     (if d_state d = StateStopped then State_Monad.return (d, None)
      else if d_state d \<notin> {StateRunning, StateStopping, StateStarting, StateFailed}
        then State_Monad.return
               (deployment_zero, Some (wrap_error ErrorConflict ''stop deployment''
                  (Errorf (''deployment state '' @ state_text (d_state d) @ '' cannot be stopped''))))
      else do {
        (d1, e) \<leftarrow> persist_progress env (d\<lparr>d_state := StateStopping\<rparr>) PhaseStopping ''stop_group'' []
                    ''started'' ''reverse launch order'';
        (case e of
           Some err \<Rightarrow> State_Monad.return (deployment_zero, Some err)
         | None \<Rightarrow> do {
             (d2, errs) \<leftarrow> stop_all env (reverse_launch_indexes (en_catalog env) d1) d1 [];
             (if errs \<noteq> []
              then do {
                let why = ''group stop incomplete: '' @ join_with '', '' errs;
                (d3, e3) \<leftarrow> persist_progress env (d2\<lparr>d_state := StateFailed, d_error := why\<rparr>)
                             PhaseComplete ''stop_group'' [] ''failed'' why;
                State_Monad.return
                  (d3, case e3 of
                     Some err \<Rightarrow> Some err
                   | None \<Rightarrow> Some (wrap_error ErrorConflict ''stop deployment'' (Errorf (d_error d3))))
              }
              else do {
                (d3, e3) \<leftarrow> persist_progress env (d2\<lparr>d_state := StateStopped\<rparr>) PhaseComplete
                             ''stop_group'' [] ''completed'' ''all managed members stopped'';
                State_Monad.return
                  (case e3 of Some err \<Rightarrow> (deployment_zero, Some err) | None \<Rightarrow> (d3, None))
              })
           })
      })"

section \<open>Failed starts\<close>

text \<open>The body of the cleanup loop of \<^verbatim>\<open>failStart\<close>; the result says whether the role failed.\<close>

definition fail_start_one :: "env \<Rightarrow> nat \<Rightarrow> deployment \<Rightarrow> (deployment \<times> bool) op" where
  "fail_start_one env i d =
     (let m = d_members d ! i in do {
        r \<leftarrow> op_inspect env (m_device m) (member_locator m);
        (case r of
           Inl err \<Rightarrow> State_Monad.return (d, True)
         | Inr ob \<Rightarrow>
             if validate_managed_identity d m ob \<noteq> None then State_Monad.return (d, True)
             else do {
               e \<leftarrow> (if o_status ob \<noteq> ''stopped'' \<and> o_status ob \<noteq> ''exited'' \<and> o_status ob \<noteq> ''dead''
                     then op_stop_managed env d m else State_Monad.return None);
               State_Monad.return (if e \<noteq> None then (d, True) else (set_member_status i ''stopped'' d, False))
             })
      })"

fun fail_start_all ::
  "env \<Rightarrow> nat list \<Rightarrow> deployment \<Rightarrow> string list \<Rightarrow> (deployment \<times> string list) op" where
  "fail_start_all env [] d errs = State_Monad.return (d, errs)"
| "fail_start_all env (i # is) d errs =
     (if is_head_recipe_bkc (en_catalog env) (d_bkc_id d) \<and>
         m_role (d_members d ! i) = role_worker \<and> errs \<noteq> []
      then State_Monad.return (d, errs)
      else do {
        (d', failed) \<leftarrow> fail_start_one env i d;
        fail_start_all env is d' (if failed then errs @ [m_role (d_members d ! i)] else errs)
      })"

definition fail_start :: "env \<Rightarrow> deployment \<Rightarrow> gerror \<Rightarrow> (deployment \<times> gerror option) op" where
  "fail_start env d cause = do {
     (d1, errs) \<leftarrow> fail_start_all env (reverse_launch_indexes (en_catalog env) d) d [];
     let d2 = (if errs \<noteq> []
        then d1\<lparr>d_state := StateFailed,
                d_error := ''group start failed and one or more members could not be stopped''\<rparr>
        else d1\<lparr>d_state := StateStopped, d_error := ''group start readiness failed''\<rparr>);
     (d3, e) \<leftarrow> persist_progress env d2 PhaseComplete ''start_group'' [] ''failed'' (d_error d2);
     State_Monad.return
       (d3, case e of
          Some err \<Rightarrow> Some (Wrapf [] cause (''; persist failed start: '' @ err_text err))
        | None \<Rightarrow>
            if errs \<noteq> [] then Some (Wrapf [] cause (''; failed to stop roles '' @ join_with '','' errs))
            else Some cause)
   }"

definition mark_unsafe_running :: "env \<Rightarrow> deployment \<Rightarrow> gerror \<Rightarrow> (deployment \<times> gerror option) op" where
  "mark_unsafe_running env d cause = do {
     let why = ''running deployment member verification failed'';
     (d1, e) \<leftarrow> persist_progress env (d\<lparr>d_state := StateFailed, d_error := why\<rparr>) PhaseComplete
                 ''verify_running'' [] ''failed'' why;
     State_Monad.return
       (d1, case e of
          Some err \<Rightarrow> Some (Wrapf [] cause (''; persist unsafe running state: '' @ err_text err))
        | None \<Rightarrow> Some (wrap_error ErrorConflict ''verify running deployment'' cause))
   }"

section \<open>Start\<close>

text \<open>
  Verifying a deployment that is recorded as running: an error marks it unsafe, and the
  flag says whether some member has stopped.
\<close>

fun verify_running ::
  "env \<Rightarrow> nat list \<Rightarrow> deployment \<Rightarrow> bool \<Rightarrow> (deployment \<times> gerror option \<times> bool) op" where
  "verify_running env [] d recover = State_Monad.return (d, None, recover)"
| "verify_running env (i # is) d recover =
     (let m = d_members d ! i in do {
        r \<leftarrow> op_inspect env (m_device m) (member_locator m);
        (case r of
           Inl e \<Rightarrow> State_Monad.return (d, Some (Wrapf (''inspect '' @ m_role m @ '' rank: '') e []), recover)
         | Inr ob \<Rightarrow>
             (case validate_managed_identity d m ob of
                Some e \<Rightarrow> State_Monad.return (d, Some e, recover)
              | None \<Rightarrow>
                  (let d' = set_member_status i (o_status ob) d in
                   if o_status ob = ''running'' then verify_running env is d' recover
                   else if o_status ob \<in> {''stopped'', ''exited'', ''dead''}
                     then verify_running env is d' True
                   else State_Monad.return
                          (d', Some (Errorf (''managed '' @ m_role m @ '' rank is '' @ o_status ob)), recover))))
      })"

text \<open>
  The restart loop. A failure is \<open>Inl (True, e)\<close> when \<^verbatim>\<open>failStart\<close> must clean up, and
  \<open>Inl (False, e)\<close> when nothing can have been restarted and the call just returns.
\<close>

fun restart_all ::
  "env \<Rightarrow> string list \<Rightarrow> deployment \<Rightarrow> bool \<Rightarrow> (deployment \<times> (bool \<times> gerror) option) op" where
  "restart_all env [] d may = State_Monad.return (d, None)"
| "restart_all env (role # roles) d may =
     (case member_index_by_role (d_members d) role of
        None \<Rightarrow>
          State_Monad.return (d, Some (may, wrap_error ErrorConflict ''start deployment''
            (Errorf (''deployment has no '' @ role @ '' member''))))
      | Some i \<Rightarrow>
          (let m = d_members d ! i in do {
             (d1, e) \<leftarrow> before_member_action env d i PhaseStarting ''restart'' ''starting'';
             (case e of
                Some err \<Rightarrow> State_Monad.return (d1, Some (may, err))
              | None \<Rightarrow> do {
                  r \<leftarrow> op_inspect env (m_device m) (member_locator m);
                  (case r of
                     Inl err \<Rightarrow>
                       State_Monad.return (d1, Some
                         (if err_is err ErrContainerNotFound
                          then (True, wrap_error ErrorConflict ''start deployment''
                                  (Errorf (''managed '' @ role @ '' member is absent'')))
                          else (may, err)))
                   | Inr ob \<Rightarrow>
                       (case validate_managed_identity d1 m ob of
                          Some err \<Rightarrow>
                            State_Monad.return (d1, Some (True, wrap_error ErrorConflict ''start deployment'' err))
                        | None \<Rightarrow> do {
                            let restart = (o_status ob \<noteq> ''running'' \<or> m_status m = ''stopping'');
                            e2 \<leftarrow> (if restart then op_restart_managed env d1 m else State_Monad.return None);
                            (case e2 of
                               Some err \<Rightarrow> State_Monad.return (d1, Some (True, err))
                             | None \<Rightarrow> do {
                                 (d2, e3) \<leftarrow> after_member_action env d1 i PhaseStarting ''restart'' ''running'';
                                 (case e3 of
                                    Some err \<Rightarrow> State_Monad.return (d2, Some (may \<or> restart, err))
                                  | None \<Rightarrow> restart_all env roles d2 (may \<or> restart))
                               })
                          }))
                })
           }))"

definition start_ready :: "env \<Rightarrow> string \<Rightarrow> deployment \<Rightarrow> (deployment \<times> gerror option) op" where
  "start_ready env key d = do {
     (d1, e) \<leftarrow> persist_progress env d PhaseReadiness ''readiness'' [] ''started''
                 ''waiting for both ranks and semantic gates'';
     (case e of
        Some err \<Rightarrow> fail_start env d1 err
      | None \<Rightarrow>
          (case expected_stored_model (en_catalog env) d1 of
             Inl err \<Rightarrow> fail_start env d1 err
           | Inr expected \<Rightarrow> do {
               (ms, result) \<leftarrow> wait_ready env (d_members d1) key expected (d_bkc_id d1);
               let d2 = d1\<lparr>d_members := ms\<rparr>;
               (case result of
                  Inl err \<Rightarrow> fail_start env d2 (readiness_operation_error err)
                | Inr t \<Rightarrow> do {
                    (d3, e3) \<leftarrow> persist_progress env (d2\<lparr>d_last_test := Some t\<rparr>) PhaseReadiness ''readiness''
                                 [] ''completed'' ''both ranks running and semantic gates passed'';
                    (case e3 of
                       Some err \<Rightarrow> State_Monad.return (d3, Some err)
                     | None \<Rightarrow>
                         persist_progress env (d3\<lparr>d_state := StateRunning\<rparr>) PhaseRunning ''start_group'' []
                           ''completed'' ''both ranks running and semantic gates passed'')
                  })
             }))
   }"

definition start_stopped :: "env \<Rightarrow> string \<Rightarrow> deployment \<Rightarrow> (deployment \<times> gerror option) op" where
  "start_stopped env key d =
     (if d_state d \<noteq> StateStopped \<and> d_state d \<noteq> StateStarting
      then State_Monad.return
             (deployment_zero, Some (wrap_error ErrorConflict ''start deployment''
                (Errorf (''deployment state '' @ state_text (d_state d) @ '' cannot be started''))))
      else do {
        (d1, e) \<leftarrow> persist_progress env (d\<lparr>d_state := StateStarting, d_error := []\<rparr>) PhaseStarting
                    ''start_group'' [] ''started'' ''recipe launch order'';
        (case e of
           Some err \<Rightarrow> State_Monad.return (deployment_zero, Some err)
         | None \<Rightarrow> do {
             (d2, f) \<leftarrow> restart_all env (deployment_launch_order (en_catalog env) d1) d1 False;
             (case f of
                Some (True, err) \<Rightarrow> fail_start env d2 err
              | Some (False, err) \<Rightarrow> State_Monad.return (deployment_zero, Some err)
              | None \<Rightarrow> start_ready env key d2)
           })
      })"

definition start :: "env \<Rightarrow> string \<Rightarrow> string \<Rightarrow> (deployment \<times> gerror option) op" where
  "start env i key = do {
     docs \<leftarrow> get_docs;
     (case store_get docs i of
        None \<Rightarrow> State_Monad.return (deployment_zero, Some (Sentinel ErrNotFound))
      | Some d \<Rightarrow>
          (case validate_deployment_api_key (en_catalog env) (d_bkc_id d) key of
             Some err \<Rightarrow> State_Monad.return
                           (deployment_zero, Some (wrap_error ErrorValidation ''validate api key'' err))
           | None \<Rightarrow>
               if d_state d \<noteq> StateRunning then start_stopped env key d
               else do {
                 (d1, e, recover) \<leftarrow> verify_running env [0..<length (d_members d)] d False;
                 (case e of
                    Some err \<Rightarrow> mark_unsafe_running env d1 err
                  | None \<Rightarrow>
                      if \<not> recover then State_Monad.return (d1, None)
                      else do {
                        (d2, e2) \<leftarrow> fail_start env d1 (wrap_error ErrorConflict ''verify running deployment''
                                      (Errorf ''one or more managed ranks exited''));
                        (if d_state d2 \<noteq> StateStopped then State_Monad.return (d2, e2)
                         else start_stopped env key d2)
                      })
               }))
   }"

section \<open>Stop, test and rollback on request\<close>

definition stop :: "env \<Rightarrow> string \<Rightarrow> (deployment \<times> gerror option) op" where
  "stop env i = do {
     docs \<leftarrow> get_docs;
     (case store_get docs i of
        None \<Rightarrow> State_Monad.return (deployment_zero, Some (Sentinel ErrNotFound))
      | Some d \<Rightarrow> stop_locked env d)
   }"

definition test :: "env \<Rightarrow> string \<Rightarrow> string \<Rightarrow> (deployment \<times> gerror option) op" where
  "test env i key = do {
     docs \<leftarrow> get_docs;
     (case store_get docs i of
        None \<Rightarrow> State_Monad.return (deployment_zero, Some (Sentinel ErrNotFound))
      | Some d \<Rightarrow>
          (case validate_deployment_api_key (en_catalog env) (d_bkc_id d) key of
             Some err \<Rightarrow> State_Monad.return
                           (deployment_zero, Some (wrap_error ErrorValidation ''validate api key'' err))
           | None \<Rightarrow>
               (case member_by_role (d_members d) role_head of
                  None \<Rightarrow> State_Monad.return (deployment_zero, Some (wrap_error ErrorConflict
                            ''test deployment'' (Errorf ''deployment has no rank-0 member'')))
                | Some h \<Rightarrow> do {
                    r \<leftarrow> op_test env (m_device h) (member_locator h) key;
                    (case r of
                       Inl err \<Rightarrow> State_Monad.return (deployment_zero, Some err)
                     | Inr t \<Rightarrow>
                         (case expected_stored_model (en_catalog env) d of
                            Inl err \<Rightarrow> State_Monad.return (deployment_zero, Some err)
                          | Inr expected \<Rightarrow>
                              (case validate_promotion_result t expected of
                                 Some err \<Rightarrow> State_Monad.return (deployment_zero, Some (wrap_error
                                   ErrorDependency ''test rank-0 API/model/metrics'' err))
                               | None \<Rightarrow> do {
                                   now \<leftarrow> read_clock env;
                                   let d' = d\<lparr>d_last_test := Some (t\<lparr>tr_tested_at := now\<rparr>), d_updated_at := now\<rparr>;
                                   e \<leftarrow> store_put env d';
                                   State_Monad.return
                                     (case e of Some err \<Rightarrow> (deployment_zero, Some err) | None \<Rightarrow> (d', None))
                                 })))
                  })))
   }"

definition rollback :: "env \<Rightarrow> string \<Rightarrow> (deployment \<times> gerror option) op" where
  "rollback env i = do {
     docs \<leftarrow> get_docs;
     (case store_get docs i of
        None \<Rightarrow> State_Monad.return (deployment_zero, Some (Sentinel ErrNotFound))
      | Some d \<Rightarrow>
          if d_state d = StateRolledBack then State_Monad.return (d, None)
          else rollback_locked env d ''rollback requested'' [])
   }"

section \<open>Recovery\<close>

datatype recovery =
    RecoverIncompleteCreate | RecoverInterruptedStart | RecoverInterruptedStop
  | RecoverFailedRunningVerification

text \<open>The scan of the journal from its newest record.\<close>

fun recovery_from_journal :: "progress list \<Rightarrow> recovery option" where
  "recovery_from_journal [] = None"
| "recovery_from_journal (p # ps) =
     (if pr_action p = ''start_group'' then Some RecoverInterruptedStart
      else if pr_action p = ''stop_group'' then Some RecoverInterruptedStop
      else if pr_action p = ''verify_running'' then Some RecoverFailedRunningVerification
      else if pr_action p \<in> {''rollback'', ''promote'', ''readiness'', ''launch'', ''stop_previous'',
                              ''pull'', ''journal''} then Some RecoverIncompleteCreate
      else recovery_from_journal ps)"

definition unsafe_state_recovery_for :: "deployment \<Rightarrow> recovery" where
  "unsafe_state_recovery_for d =
     (if d_state d = StateStarting then RecoverInterruptedStart
      else if d_state d = StateStopping then RecoverInterruptedStop
      else (case recovery_from_journal (rev (d_progress d)) of
          Some r \<Rightarrow> r
        | None \<Rightarrow>
            if d_phase d = PhaseStarting then RecoverInterruptedStart
            else if d_phase d = PhaseStopping then RecoverInterruptedStop
            else RecoverIncompleteCreate))"

definition reconcile_unsafe :: "env \<Rightarrow> deployment \<Rightarrow> (deployment \<times> gerror option) op" where
  "reconcile_unsafe env d =
     (case unsafe_state_recovery_for d of
        RecoverInterruptedStart \<Rightarrow> do {
          (d1, e) \<leftarrow> fail_start env d (wrap_error ErrorConflict ''reconcile start'' (Sentinel ErrRecoveryPerformed));
          State_Monad.return (if d_state d1 = StateStopped then (d1, None) else (d1, e))
        }
      | RecoverInterruptedStop \<Rightarrow> stop_locked env d
      | RecoverFailedRunningVerification \<Rightarrow> stop_locked env d
      | RecoverIncompleteCreate \<Rightarrow> rollback_locked env d ''daemon restart reconciliation'' [])"

fun reconcile_all :: "env \<Rightarrow> deployment list \<Rightarrow> gerror list \<Rightarrow> gerror list op" where
  "reconcile_all env [] errs = State_Monad.return errs"
| "reconcile_all env (d # ds) errs =
     (if d_state d \<in> {StatePending, StateRollbackFailed} then do {
        (d1, e) \<leftarrow> rollback_locked env d ''daemon restart reconciliation'' [];
        reconcile_all env ds
          (errs @ (case e of None \<Rightarrow> [] | Some err \<Rightarrow> [Wrapf (''reconcile '' @ d_id d @ '': '') err []]))
      }
      else if d_state d \<in> {StateStarting, StateStopping, StateFailed} then do {
        (d1, e) \<leftarrow> reconcile_unsafe env d;
        reconcile_all env ds
          (errs @ (case e of None \<Rightarrow> [] | Some err \<Rightarrow> [Wrapf (''reconcile '' @ d_id d @ '': '') err []]))
      }
      else reconcile_all env ds errs)"

definition reconcile :: "env \<Rightarrow> gerror option op" where
  "reconcile env = do {
     docs \<leftarrow> get_docs;
     errs \<leftarrow> reconcile_all env (store_list docs) [];
     State_Monad.return (if errs = [] then None else Some (JoinErr errs))
   }"

section \<open>Create\<close>

text \<open>Replaying an idempotency key that is already used.\<close>

definition replay ::
  "env \<Rightarrow> deployment \<Rightarrow> string \<Rightarrow> (create_outcome \<times> gerror option) op" where
  "replay env prior hash =
     (if d_hash prior \<noteq> hash
        then State_Monad.return (outcome_zero, Some (wrap_error ErrorConflict ''replay deployment''
               (Sentinel ErrIdempotencyConflict)))
      else if d_state prior \<in> {StateRunning, StateStopped, StateRolledBack}
        then State_Monad.return (outcome_of prior, None)
      else if d_state prior \<in> {StatePending, StateRollbackFailed} then do {
        (d, e) \<leftarrow> rollback_locked env prior ''incomplete idempotent request recovered'' [];
        State_Monad.return
          (outcome_of d, case e of
             Some err \<Rightarrow> Some err
           | None \<Rightarrow> Some (wrap_error ErrorConflict ''recover deployment'' (Sentinel ErrRecoveryPerformed)))
      }
      else if d_state prior \<in> {StateStarting, StateStopping, StateFailed} then do {
        (d, e) \<leftarrow> reconcile_unsafe env prior;
        State_Monad.return
          (outcome_of d, case e of
             Some err \<Rightarrow> Some err
           | None \<Rightarrow> Some (wrap_error ErrorConflict ''recover deployment lifecycle'' (Sentinel ErrRecoveryPerformed)))
      }
      else State_Monad.return (outcome_zero, Some (wrap_error ErrorConflict ''replay deployment''
             (Errorf (''deployment has unsupported state '' @ go_quote (state_text (d_state prior)))))))"

definition create :: "env \<Rightarrow> create_request \<Rightarrow> (create_outcome \<times> gerror option) op" where
  "create env request =
     (let r = normalize_request request in
      case validate_create_request (en_catalog env) r of
        Inl e \<Rightarrow> State_Monad.return (outcome_zero, Some (wrap_error ErrorValidation ''validate deployment'' e))
      | Inr cfg \<Rightarrow> do {
          docs \<leftarrow> get_docs;
          (case store_find_key docs (rq_key r) of
             Some prior \<Rightarrow> replay env prior (request_hash r)
           | None \<Rightarrow>
               (case cfg_multi cfg of
                  None \<Rightarrow> State_Monad.return (outcome_zero, Some (GoPanic ''nil pointer dereference''))
                | Some md \<Rightarrow> create_fresh env r cfg md))
        })"

end
