(* ===== verification/Deploy_Safety.thy ===== *)
theory Deploy_Safety
  imports Deploy_Lifecycle
begin

text \<open>
  Which effects the engine may issue, given the history before them, and the proof that no
  operation ever issues another one, whatever the devices, the file system and the clock
  answer. \<open>allowed h e\<close> is the specification: an effect on a container needs a durable
  journal record that announces it and, where a container is stopped, restarted or
  removed by identity, a preceding inspection that established the identity. One effect has
  no record of its own: the cleanup of a failed start stops the members it identified. It is
  allowed only for a deployment whose newest durable record is an unfinished start, or a
  running group of which a member has just been seen to have exited.
\<close>

section \<open>The specification of effects\<close>

fun mutating :: "event \<Rightarrow> bool" where
  "mutating (EvPull b img r) = True"
| "mutating (EvStop dev c r) = True"
| "mutating (EvStopManaged d m r) = True"
| "mutating (EvLaunch b c r) = True"
| "mutating (EvRemoveManaged d m r) = True"
| "mutating (EvRestart dev c r) = True"
| "mutating (EvRestartManaged d m r) = True"
| "mutating e = False"

text \<open>What happened since the last effect, newest first.\<close>

definition recent :: "history \<Rightarrow> history" where
  "recent h = takeWhile (\<lambda>e. \<not> mutating e) h"

text \<open>
  \<open>announces members action status dev d\<close>: the newest journal record of \<open>d\<close> is the start of
  \<open>action\<close> for a role, and the member of that role on device \<open>dev\<close> has the status the
  action writes before its effect.
\<close>

definition announces ::
  "(deployment \<Rightarrow> member list) \<Rightarrow> string \<Rightarrow> string \<Rightarrow> string \<Rightarrow> deployment \<Rightarrow> bool" where
  "announces members action status dev d \<longleftrightarrow>
     d_progress d \<noteq> [] \<and> pr_action (last (d_progress d)) = action \<and>
     pr_status (last (d_progress d)) = ''started'' \<and>
     list_ex (\<lambda>m. m_role m = pr_role (last (d_progress d)) \<and> m_device m = dev \<and> m_status m = status)
       (members d)"

text \<open>A write of such a record succeeded, durably, since the last effect.\<close>

definition announced ::
  "(deployment \<Rightarrow> member list) \<Rightarrow> string \<Rightarrow> string \<Rightarrow> string \<Rightarrow> history \<Rightarrow> bool" where
  "announced members action status dev h \<longleftrightarrow>
     list_ex (\<lambda>e. case e of EvPut d promoted ok \<Rightarrow> promoted \<and> ok \<and> announces members action status dev d
                         | _ \<Rightarrow> False) (recent h)"

fun is_inspect :: "event \<Rightarrow> bool" where
  "is_inspect (EvInspect dev c r) = True"
| "is_inspect e = False"

definition last_inspect :: "history \<Rightarrow> event option" where
  "last_inspect h = find is_inspect (recent h)"

text \<open>The newest inspection since the last effect proved the identity of the member's container.\<close>

definition identified :: "deployment \<Rightarrow> member \<Rightarrow> history \<Rightarrow> bool" where
  "identified d m h \<longleftrightarrow>
     (case last_inspect h of
        Some (EvInspect dev c (Inr ob)) \<Rightarrow> dev = m_device m \<and> validate_managed_identity d m ob = None
      | _ \<Rightarrow> False)"

definition found_absent :: "member \<Rightarrow> history \<Rightarrow> bool" where
  "found_absent m h \<longleftrightarrow>
     (case last_inspect h of
        Some (EvInspect dev c (Inl e)) \<Rightarrow> dev = m_device m \<and> err_is e ErrContainerNotFound
      | _ \<Rightarrow> False)"

definition observed_present :: "string \<Rightarrow> string \<Rightarrow> history \<Rightarrow> bool" where
  "observed_present dev c h \<longleftrightarrow>
     (case last_inspect h of
        Some (EvInspect dev' c' (Inr ob)) \<Rightarrow> dev' = dev \<and> c' = c
      | _ \<Rightarrow> False)"

text \<open>The newest record of a deployment that was promoted to the store, hence what the store holds.\<close>

fun records :: "string \<Rightarrow> event \<Rightarrow> bool" where
  "records i (EvPut d promoted ok) = (promoted \<and> d_id d = i)"
| "records i e = False"

definition logged :: "history \<Rightarrow> string \<Rightarrow> deployment option" where
  "logged h i = (case find (records i) h of Some (EvPut d promoted ok) \<Rightarrow> Some d | _ \<Rightarrow> None)"

fun stops_member_of :: "string \<Rightarrow> event \<Rightarrow> bool" where
  "stops_member_of i (EvStopManaged d m r) = (d_id d = i)"
| "stops_member_of i e = False"

text \<open>
  Since the last effect other than a stop of its own members, an inspection found a member of
  \<open>d\<close> that is identified as such and has stopped.
\<close>

definition exited_member :: "deployment \<Rightarrow> string \<Rightarrow> observed \<Rightarrow> bool" where
  "exited_member d dev ob \<longleftrightarrow> o_status ob \<in> {''stopped'', ''exited'', ''dead''} \<and>
     list_ex (\<lambda>m. m_device m = dev \<and> validate_managed_identity d m ob = None) (d_members d)"

definition found_exited :: "deployment \<Rightarrow> history \<Rightarrow> bool" where
  "found_exited d h \<longleftrightarrow>
     list_ex (\<lambda>e. case e of EvInspect dev c (Inr ob) \<Rightarrow> exited_member d dev ob | _ \<Rightarrow> False)
       (takeWhile (\<lambda>e. \<not> mutating e \<or> stops_member_of (d_id d) e) h)"

text \<open>
  \<^verbatim>\<open>failStart\<close> may clean up after deployment \<open>i\<close>: its newest durable record is a start that did
  not finish, or that of a running group of which a member has exited.
\<close>

definition cleanup_due :: "string \<Rightarrow> history \<Rightarrow> bool" where
  "cleanup_due i h \<longleftrightarrow>
     (case logged h i of
        None \<Rightarrow> False
      | Some d \<Rightarrow>
          d_state d \<in> {StateStarting, StateFailed} \<and> unsafe_state_recovery_for d = RecoverInterruptedStart \<or>
          d_state d = StateRunning \<and> found_exited d h)"

fun allowed :: "history \<Rightarrow> event \<Rightarrow> bool" where
  "allowed h (EvPull b img r) = announced d_members ''pull'' ''pulling'' (b_device b) h"
| "allowed h (EvStop dev c r) = announced d_prev ''stop_previous'' ''stopping'' dev h"
| "allowed h (EvLaunch b c r) = announced d_members ''launch'' ''launching'' (b_device b) h"
| "allowed h (EvStopManaged d m r) =
     (identified d m h \<and>
      (announced d_members ''stop'' ''stopping'' (m_device m) h \<or> cleanup_due (d_id d) h))"
| "allowed h (EvRemoveManaged d m r) =
     (announced d_members ''remove_candidate'' ''removing'' (m_device m) h \<and>
      (identified d m h \<or> found_absent m h))"
| "allowed h (EvRestart dev c r) =
     (announced d_prev ''restore_previous'' ''restarting'' dev h \<and> observed_present dev c h)"
| "allowed h (EvRestartManaged d m r) =
     (announced d_members ''restart'' ''starting'' (m_device m) h \<and> identified d m h)"
| "allowed h e = True"

fun guarded :: "(history \<Rightarrow> event \<Rightarrow> bool) \<Rightarrow> history \<Rightarrow> bool" where
  "guarded G [] = True"
| "guarded G (e # h) = (G h e \<and> guarded G h)"

text \<open>
  The store: memory and disk agree, identifiers are unique, and the history tells what it
  holds of each deployment.
\<close>

definition journaled_docs :: "history \<Rightarrow> deployment list \<Rightarrow> bool" where
  "journaled_docs h docs \<longleftrightarrow> (\<forall>i. store_get docs i = logged h i)"

definition store_ok :: "world \<Rightarrow> bool" where
  "store_ok w \<longleftrightarrow> store_synced w \<and> distinct (map d_id (w_docs w)) \<and> journaled_docs (w_trace w) (w_docs w)"

abbreviation safe :: "world \<Rightarrow> bool" where
  "safe w \<equiv> guarded allowed (w_trace w) \<and> store_ok w"

fun is_put :: "event \<Rightarrow> bool" where
  "is_put (EvPut d promoted ok) = True"
| "is_put e = False"

lemma logged_simps [simp]:
  "logged (EvPut d promoted ok # h) i = (if promoted \<and> d_id d = i then Some d else logged h i)"
  "\<not> is_put e \<Longrightarrow> logged (e # h) i = logged h i"
  "logged [] i = None"
proof -
  have "\<not> records i e" if "\<not> is_put e" for e using that by (cases e) simp_all
  then show "\<not> is_put e \<Longrightarrow> logged (e # h) i = logged h i" by (simp add: logged_def)
qed (simp_all add: logged_def)

lemma journaled_docs_simps [simp]:
  "\<not> is_put e \<Longrightarrow> journaled_docs (e # h) docs = journaled_docs h docs"
  "journaled_docs h docs \<Longrightarrow> journaled_docs (EvPut d False ok # h) docs"
  "journaled_docs h docs \<Longrightarrow> journaled_docs (EvPut d True ok # h) (upsert_by d_id d docs)"
  "journaled_docs [] []"
  by (simp_all add: journaled_docs_def deployments_store.get_put deployments_store.get_empty)

lemma store_ok_event [simp]: "\<not> is_put e \<Longrightarrow> store_ok (record_event e w) = store_ok w"
  by (simp add: store_ok_def store_synced_def split: option.splits)

lemma store_ok_clock [simp]: "store_ok (w\<lparr>w_clock := n\<rparr>) = store_ok w"
  by (simp add: store_ok_def store_synced_def split: option.splits)

lemma store_ok_unwritten [simp]:
  "store_ok w \<Longrightarrow> w_trace w = h \<Longrightarrow> store_ok (w\<lparr>w_trace := EvPut d False ok # h\<rparr>)"
  by (auto simp: store_ok_def store_synced_def split: option.splits)

lemma store_ok_written [simp]:
  "store_ok w \<Longrightarrow> w_trace w = h \<Longrightarrow> w_docs w = docs \<Longrightarrow>
   store_ok (w\<lparr>w_trace := EvPut d True ok # h, w_docs := upsert_by d_id d docs,
               w_disk := Some (upsert_by d_id d docs)\<rparr>)"
  by (auto simp: store_ok_def store_synced_def upsert_by_distinct)

lemma store_ok_logged: "store_ok w \<Longrightarrow> store_get (w_docs w) i = Some d \<Longrightarrow> logged (w_trace w) (d_id d) = Some d"
proof -
  assume w: "store_ok w" and d: "store_get (w_docs w) i = Some d"
  then have "d_id d = i" by (auto simp: store_get_def find_Some_iff)
  with w d show ?thesis by (simp add: store_ok_def journaled_docs_def)
qed

lemma store_ok_mem: "store_ok w \<Longrightarrow> d \<in> set (w_docs w) \<Longrightarrow> logged (w_trace w) (d_id d) = Some d"
proof -
  assume w: "store_ok w" and d: "d \<in> set (w_docs w)"
  have "find (\<lambda>x. d_id x = d_id d) docs = Some d" if "d \<in> set docs" "distinct (map d_id docs)" for docs
    using that by (induction docs) (auto simp: image_iff)
  with w d have "store_get (w_docs w) (d_id d) = Some d" by (simp add: store_ok_def store_get_def)
  with w show ?thesis by (rule store_ok_logged)
qed

lemma store_ok_distinct [simp]: "store_ok w \<Longrightarrow> distinct (map d_id (upsert_by d_id d (w_docs w)))"
  by (simp add: store_ok_def upsert_by_distinct)

section \<open>Histories extended by quiet events\<close>

definition quiet :: "event \<Rightarrow> bool" where
  "quiet e \<longleftrightarrow> \<not> mutating e \<and> \<not> is_inspect e"

lemma recent_Cons: "recent (e # h) = (if mutating e then [] else e # recent h)"
  by (simp add: recent_def)

lemma recent_quiet: "list_all quiet es \<Longrightarrow> recent (es @ h) = es @ recent h"
  by (induction es) (simp_all add: recent_Cons quiet_def)

lemma announced_quiet:
  "announced members a st dev h \<Longrightarrow> list_all quiet es \<Longrightarrow> announced members a st dev (es @ h)"
  by (simp add: announced_def recent_quiet)

lemma last_inspect_quiet: "list_all quiet es \<Longrightarrow> last_inspect (es @ h) = last_inspect h"
  by (induction es) (simp_all add: last_inspect_def recent_Cons quiet_def)

lemma announced_Cons: "announced members a st dev h \<Longrightarrow> \<not> mutating e \<Longrightarrow> announced members a st dev (e # h)"
  by (simp add: announced_def recent_Cons)

lemma last_inspect_Cons [simp]:
  "last_inspect (EvInspect dev c r # h) = Some (EvInspect dev c r)"
  by (simp add: last_inspect_def recent_Cons)

lemma identified_quiet:
  "identified d m h \<Longrightarrow> list_all quiet es \<Longrightarrow> identified d m (es @ h)"
  by (simp add: identified_def last_inspect_quiet)

lemma identified_id: "d_id d' = d_id d \<Longrightarrow> identified d' m h = identified d m h"
proof -
  assume "d_id d' = d_id d"
  then have "validate_managed_identity d' m = validate_managed_identity d m"
    by (intro ext) (simp add: validate_managed_identity_def)
  then show ?thesis unfolding identified_def by (simp only:)
qed

lemma found_absent_quiet: "found_absent m h \<Longrightarrow> list_all quiet es \<Longrightarrow> found_absent m (es @ h)"
  by (simp add: found_absent_def last_inspect_quiet)

lemma validate_identity_cong:
  "d_id d = d_id d' \<Longrightarrow> validate_managed_identity d (m\<lparr>m_container := c\<rparr>) ob = validate_managed_identity d' m ob"
  by (simp add: validate_managed_identity_def)

section \<open>Journal writes\<close>

definition journal_entry ::
  "deployment \<Rightarrow> phase \<Rightarrow> string \<Rightarrow> string \<Rightarrow> string \<Rightarrow> string \<Rightarrow> int \<Rightarrow> deployment" where
  "journal_entry d ph action role status detail now =
     d\<lparr>d_phase := ph, d_updated_at := now,
       d_progress := d_progress d @
         [\<lparr>pr_phase = ph, pr_action = action, pr_role = role, pr_status = status,
           pr_detail = detail, pr_at = now\<rparr>]\<rparr>"

lemma journal_entry_fields [simp]:
  "d_members (journal_entry d ph a r s det now) = d_members d"
  "d_prev (journal_entry d ph a r s det now) = d_prev d"
  "d_state (journal_entry d ph a r s det now) = d_state d"
  "d_id (journal_entry d ph a r s det now) = d_id d"
  "d_bkc_id (journal_entry d ph a r s det now) = d_bkc_id d"
  "d_key (journal_entry d ph a r s det now) = d_key d"
  "d_hash (journal_entry d ph a r s det now) = d_hash d"
  "d_generation (journal_entry d ph a r s det now) = d_generation d"
  "d_rollback (journal_entry d ph a r s det now) = d_rollback d"
  "d_last_test (journal_entry d ph a r s det now) = d_last_test d"
  "d_launch_order (journal_entry d ph a r s det now) = d_launch_order d"
  "d_error (journal_entry d ph a r s det now) = d_error d"
  "d_uses_local (journal_entry d ph a r s det now) = d_uses_local d"
  "d_phase (journal_entry d ph a r s det now) = ph"
  "d_progress (journal_entry d ph a r s det now) \<noteq> []"
  "pr_action (last (d_progress (journal_entry d ph a r s det now))) = a"
  "pr_role (last (d_progress (journal_entry d ph a r s det now))) = r"
  "pr_status (last (d_progress (journal_entry d ph a r s det now))) = s"
  by (simp_all add: journal_entry_def)

definition put_world :: "deployment \<Rightarrow> bool \<Rightarrow> bool \<Rightarrow> world \<Rightarrow> world" where
  "put_world d promoted ok w =
     w\<lparr>w_trace := EvPut d promoted ok # w_trace w,
       w_docs := (if promoted then upsert_by d_id d (w_docs w) else w_docs w),
       w_disk := (if promoted then Some (upsert_by d_id d (w_docs w)) else w_disk w),
       w_clock := Suc (w_clock w)\<rparr>"

lemma put_world_fields [simp]:
  "w_trace (put_world d p ok w) = EvPut d p ok # w_trace w"
  "w_docs (put_world d p ok w) = (if p then upsert_by d_id d (w_docs w) else w_docs w)"
  "w_disk (put_world d p ok w) = (if p then Some (upsert_by d_id d (w_docs w)) else w_disk w)"
  by (simp_all add: put_world_def)

lemma store_ok_put [simp]: "store_ok w \<Longrightarrow> store_ok (put_world d p ok w)"
  by (cases p) (auto simp: store_ok_def store_synced_def put_world_def upsert_by_distinct split: option.splits)

lemma put_world_cases:
  "put_world d False ok w = w\<lparr>w_clock := Suc (w_clock w), w_trace := EvPut d False ok # w_trace w\<rparr>"
  "put_world d True ok w =
     w\<lparr>w_clock := Suc (w_clock w), w_trace := EvPut d True ok # w_trace w,
       w_docs := upsert_by d_id d (w_docs w), w_disk := Some (upsert_by d_id d (w_docs w))\<rparr>"
  by (simp_all add: put_world_def)

lemma wp_persist:
  assumes "\<And>d' e p now. d' = journal_entry d ph a r s det now \<Longrightarrow> (e = None \<Longrightarrow> p) \<Longrightarrow> no_panic e \<Longrightarrow>
     Q (d', e) (put_world d' p (e = None) w)"
  shows "wp (persist_progress env d ph a r s det) Q w"
proof -
  define d' where "d' = journal_entry d ph a r s det (en_now env (w_clock w))"
  have "Q (d', Some e) (put_world d' False False w)" if "\<not> is_panic e" for e
    using assms [OF d'_def, of "Some e" False] that by simp
  moreover have "Q (d', Some e) (put_world d' True False w)" if "\<not> is_panic e" for e
    using assms [OF d'_def, of "Some e" True] that by simp
  moreover have "Q (d', None) (put_world d' True True w)"
    using assms [OF d'_def, of None True] by simp
  ultimately show ?thesis
    unfolding persist_progress_def wp_simp Let_def journal_entry_def [symmetric] d'_def [symmetric]
    by (intro wp_store_put) (simp_all add: put_world_cases)
qed

section \<open>What the steps keep of a deployment\<close>

text \<open>
  The identity of a deployment and of its members: everything the engine addresses
  containers by. Journal writes, status changes and rollback bookkeeping keep it.
\<close>

definition member_key :: "member \<Rightarrow> string \<times> string \<times> int" where
  "member_key m = (m_role m, m_device m, m_generation m)"

definition kept :: "deployment \<Rightarrow> deployment \<Rightarrow> bool" where
  "kept d d' \<longleftrightarrow>
     d_id d' = d_id d \<and> d_key d' = d_key d \<and> d_hash d' = d_hash d \<and> d_bkc_id d' = d_bkc_id d \<and>
     d_launch_order d' = d_launch_order d \<and> d_generation d' = d_generation d \<and>
     d_state d' = d_state d \<and>
     map member_key (d_members d') = map member_key (d_members d) \<and>
     map member_key (d_prev d') = map member_key (d_prev d)"

lemma kept_refl [simp]: "kept d d"
  by (simp add: kept_def)

lemma kept_trans: "kept d d' \<Longrightarrow> kept d' d'' \<Longrightarrow> kept d d''"
  by (simp add: kept_def)

lemma kept_id: "kept d d' \<Longrightarrow> d_id d' = d_id d"
  by (simp add: kept_def)

lemma kept_length:
  "kept d d' \<Longrightarrow> length (d_members d') = length (d_members d)"
  "kept d d' \<Longrightarrow> length (d_prev d') = length (d_prev d)"
  unfolding kept_def by (metis length_map)+

lemma member_key_status [simp]: "member_key (m\<lparr>m_status := st\<rparr>) = member_key m"
  by (simp add: member_key_def)

lemma map_key_update:
  "member_key m' = member_key (ms ! i) \<Longrightarrow> map member_key (ms[i := m']) = map member_key ms"
  by (metis (no_types, lifting) list_update_beyond list_update_id map_update not_less nth_map)

lemma kept_journal: "kept d (journal_entry d ph a r s det now)"
  by (simp add: kept_def)

lemma kept_member_status: "kept d (set_member_status i st d)"
  by (simp add: kept_def set_member_status_def map_key_update)

lemma kept_prev_status: "kept d (set_prev_status i st d)"
  by (simp add: kept_def set_prev_status_def map_key_update)

lemma kept_upd_rollback: "kept d (upd_rollback f d)"
  by (simp add: kept_def upd_rollback_def)

lemma kept_iff: "kept a b \<Longrightarrow> kept d b = kept d a"
  by (simp add: kept_def)

lemma kept_add [simp]:
  "kept d (add_error e d') = kept d d'" "kept d (add_removed n d') = kept d d'"
  "kept d (add_restarted c d') = kept d d'" "kept d (journal_entry d' ph a r s det now) = kept d d'"
  "kept d (set_member_status i st d') = kept d d'" "kept d (set_prev_status i st d') = kept d d'"
  "kept d (upd_rollback f d') = kept d d'"
  unfolding add_error_def add_removed_def add_restarted_def
  by (rule kept_iff, rule kept_upd_rollback kept_journal kept_member_status kept_prev_status)+

lemma kept_iff_left: "kept a b \<Longrightarrow> kept b d = kept a d"
  by (auto simp: kept_def)

lemma kept_left [simp]:
  "kept (add_error e d) d' = kept d d'" "kept (add_removed n d) d' = kept d d'"
  "kept (add_restarted c d) d' = kept d d'" "kept (journal_entry d ph a r s det now) d' = kept d d'"
  "kept (set_member_status i st d) d' = kept d d'" "kept (set_prev_status i st d) d' = kept d d'"
  "kept (upd_rollback f d) d' = kept d d'"
  unfolding add_error_def add_removed_def add_restarted_def
  by (rule kept_iff_left, rule kept_upd_rollback kept_journal kept_member_status kept_prev_status)+

lemma upd_rollback_fields [simp]:
  "d_members (upd_rollback f d) = d_members d" "d_prev (upd_rollback f d) = d_prev d"
  "d_id (upd_rollback f d) = d_id d" "d_state (upd_rollback f d) = d_state d"
  "d_bkc_id (upd_rollback f d) = d_bkc_id d" "d_progress (upd_rollback f d) = d_progress d"
  "d_launch_order (upd_rollback f d) = d_launch_order d"
  by (simp_all add: upd_rollback_def)

lemma add_fields [simp]:
  "d_members (add_error e d) = d_members d" "d_members (add_removed n d) = d_members d"
  "d_members (add_restarted c d) = d_members d"
  "d_prev (add_error e d) = d_prev d" "d_prev (add_removed n d) = d_prev d"
  "d_prev (add_restarted c d) = d_prev d"
  "d_id (add_error e d) = d_id d" "d_id (add_removed n d) = d_id d"
  "d_id (add_restarted c d) = d_id d"
  "d_state (add_error e d) = d_state d" "d_state (add_removed n d) = d_state d"
  "d_state (add_restarted c d) = d_state d"
  by (simp_all add: add_error_def add_removed_def add_restarted_def)

section \<open>Rollback is safe\<close>

lemma status_rollback [simp]:
  "d_rollback (set_member_status i st d) = d_rollback d" "d_rollback (set_prev_status i st d) = d_rollback d"
  by (simp_all add: set_member_status_def set_prev_status_def)

lemma announces_member:
  assumes "i < length (d_members d)" and "dev = m_device (d_members d ! i)"
  shows "announces d_members a st dev
     (journal_entry (set_member_status i st d) ph a (m_role (d_members d ! i)) ''started'' det now)"
proof -
  have "d_members (set_member_status i st d) ! i \<in> set (d_members (set_member_status i st d))"
    using assms(1) by (intro nth_mem) simp
  then have "\<exists>m \<in> set (d_members (set_member_status i st d)). m_role m = m_role (d_members d ! i) \<and>
      m_device m = dev \<and> m_status m = st"
    using assms by (intro bexI) simp_all
  then show ?thesis by (simp add: announces_def list_ex_iff)
qed

lemma announces_prev:
  assumes "i < length (d_prev d)" and "dev = m_device (d_prev d ! i)"
  shows "announces d_prev a st dev
     (journal_entry (set_prev_status i st d) ph a (m_role (d_prev d ! i)) ''started'' det now)"
proof -
  have "d_prev (set_prev_status i st d) ! i \<in> set (d_prev (set_prev_status i st d))"
    using assms(1) by (intro nth_mem) simp
  then have "\<exists>m \<in> set (d_prev (set_prev_status i st d)). m_role m = m_role (d_prev d ! i) \<and>
      m_device m = dev \<and> m_status m = st"
    using assms by (intro bexI) simp_all
  then show ?thesis by (simp add: announces_def list_ex_iff)
qed

lemma wp_before_member:
  assumes "i < length (d_members d)"
    and "\<And>d' e p. kept d d' \<Longrightarrow> (e = None \<Longrightarrow> p) \<Longrightarrow> no_panic e \<Longrightarrow>
      announces d_members a st (m_device (d_members d ! i)) d' \<Longrightarrow>
      d_members d' = d_members (set_member_status i st d) \<Longrightarrow> d_prev d' = d_prev d \<Longrightarrow>
      d_rollback d' = d_rollback d \<Longrightarrow> Q (d', e) (put_world d' p (e = None) w)"
  shows "wp (before_member_action env d i ph a st) Q w"
  unfolding before_member_action_def
proof (rule wp_persist)
  fix d' p now and e :: "gerror option"
  assume "d' = journal_entry (set_member_status i st d) ph a (m_role (d_members d ! i)) ''started'' [] now"
    and "e = None \<Longrightarrow> p" and "no_panic e"
  then show "Q (d', e) (put_world d' p (e = None) w)"
    using assms(1) by (intro assms(2)) (simp_all add: announces_member)
qed

lemma wp_after_member:
  assumes "\<And>d' e p. kept d d' \<Longrightarrow> (e = None \<Longrightarrow> p) \<Longrightarrow> no_panic e \<Longrightarrow>
      d_members d' = d_members (set_member_status i st d) \<Longrightarrow> d_prev d' = d_prev d \<Longrightarrow>
      d_rollback d' = d_rollback d \<Longrightarrow> Q (d', e) (put_world d' p (e = None) w)"
  shows "wp (after_member_action env d i ph a st) Q w"
  unfolding after_member_action_def
proof (rule wp_persist)
  fix d' p now and e :: "gerror option"
  assume "d' = journal_entry (set_member_status i st d) ph a (m_role (d_members d ! i)) ''completed'' [] now"
    and "e = None \<Longrightarrow> p" and "no_panic e"
  then show "Q (d', e) (put_world d' p (e = None) w)"
    by (intro assms) simp_all
qed

lemma wp_before_prev:
  assumes "i < length (d_prev d)"
    and "\<And>d' e p. kept d d' \<Longrightarrow> (e = None \<Longrightarrow> p) \<Longrightarrow> no_panic e \<Longrightarrow>
      announces d_prev a st (m_device (d_prev d ! i)) d' \<Longrightarrow>
      d_prev d' = d_prev (set_prev_status i st d) \<Longrightarrow> d_members d' = d_members d \<Longrightarrow>
      d_rollback d' = d_rollback d \<Longrightarrow> Q (d', e) (put_world d' p (e = None) w)"
  shows "wp (before_previous_action env d i ph a st) Q w"
  unfolding before_previous_action_def
proof (rule wp_persist)
  fix d' p now and e :: "gerror option"
  assume "d' = journal_entry (set_prev_status i st d) ph a (m_role (d_prev d ! i)) ''started'' [] now"
    and "e = None \<Longrightarrow> p" and "no_panic e"
  then show "Q (d', e) (put_world d' p (e = None) w)"
    using assms(1) by (intro assms(2)) (simp_all add: announces_prev)
qed

lemma wp_after_prev:
  assumes "\<And>d' e p. kept d d' \<Longrightarrow> (e = None \<Longrightarrow> p) \<Longrightarrow> no_panic e \<Longrightarrow>
      d_prev d' = d_prev (set_prev_status i st d) \<Longrightarrow> d_members d' = d_members d \<Longrightarrow>
      d_rollback d' = d_rollback d \<Longrightarrow> Q (d', e) (put_world d' p (e = None) w)"
  shows "wp (after_previous_action env d i ph a st) Q w"
  unfolding after_previous_action_def
proof (rule wp_persist)
  fix d' p now and e :: "gerror option"
  assume "d' = journal_entry (set_prev_status i st d) ph a (m_role (d_prev d ! i)) ''completed'' [] now"
    and "e = None \<Longrightarrow> p" and "no_panic e"
  then show "Q (d', e) (put_world d' p (e = None) w)"
    by (intro assms) simp_all
qed

lemma wp_capture:
  assumes "safe w"
    and "\<And>d' w' es. kept d d' \<Longrightarrow> d_members d' = d_members d \<Longrightarrow> d_prev d' = d_prev d \<Longrightarrow> safe w' \<Longrightarrow>
      w_trace w' = es @ w_trace w \<Longrightarrow> list_all quiet es \<Longrightarrow> Q d' w'"
  shows "wp (capture_candidate_logs env d m redaction) Q w"
  unfolding capture_candidate_logs_def wp_simp Let_def
proof (rule wp_persist, unfold wp_simp fst_conv snd_conv, goal_cases)
  case (1 d' e p now)
  have "w_trace (put_world d' p (e = None) (w1\<lparr>w_clock := c\<rparr>)) = [EvPut d' p (e = None), ev] @ w_trace w"
    if "w_trace w1 = ev # w_trace w" for w1 c ev
    using that by simp
  note tr = this [OF record_event_fields(1)]
  show ?case
    by (rule assms(2) [OF _ _ _ _ tr]) (use assms(1) 1 in \<open>simp_all add: quiet_def\<close>)
qed

lemma wp_capture_all:
  assumes "safe w" and "\<And>d' w'. kept d d' \<Longrightarrow> d_members d' = d_members d \<Longrightarrow> d_prev d' = d_prev d \<Longrightarrow> safe w' \<Longrightarrow> Q d' w'"
  shows "wp (capture_all env redaction ms d) Q w"
  using assms
proof (induction env redaction ms d arbitrary: w rule: capture_all.induct)
  case (2 env redaction m ms d)
  show ?case
  proof (cases "candidate_may_exist (m_status m) \<and> m_ownership m \<noteq> OwnershipObserved")
    case True
    have "wp (capture_candidate_logs env d m redaction) (\<lambda>x. wp (capture_all env redaction ms x) Q) w"
    proof (rule wp_capture [OF "2.prems"(1)])
      fix d' w' es
      assume a: "kept d d'" "d_members d' = d_members d" "d_prev d' = d_prev d" "safe w'"
      show "wp (capture_all env redaction ms d') Q w'"
      proof (rule "2.IH"(1) [OF True a(4)])
        fix d'' w''
        assume b: "kept d' d''" "d_members d'' = d_members d'" "d_prev d'' = d_prev d'" "safe w''"
        show "Q d'' w''"
          by (rule "2.prems"(2) [OF kept_trans [OF a(1) b(1)]]) (simp_all add: a b)
      qed
    qed
    then show ?thesis unfolding capture_all.simps if_P [OF True] wp_simp .
  next
    case False
    show ?thesis
      unfolding capture_all.simps if_not_P [OF False] by (rule "2.IH"(2) [OF False "2.prems"])
  qed
qed (simp add: wp_simp)

section \<open>Removing candidates is safe\<close>

lemma wp_remove_confirmed:
  assumes "safe w" and "announced d_members ''remove_candidate'' ''removing'' (m_device m) (w_trace w)"
    and "identified d m (w_trace w) \<or> found_absent m (w_trace w)"
    and "\<And>d' ok w'. kept d d' \<Longrightarrow> safe w' \<Longrightarrow> Q (d', ok) w'"
  shows "wp (remove_confirmed env head_recipe redaction i m d) Q w"
proof -
  have rest: "wp (do {
       e \<leftarrow> op_remove_managed env d1 m;
       (if (case e of None \<Rightarrow> False | Some err \<Rightarrow> \<not> err_is err ErrContainerNotFound)
        then State_Monad.return (add_error (''remove '' @ m_role m @ '' candidate failed'') d1, False)
        else do {
          (d2, e2) \<leftarrow> after_member_action env (add_removed (m_name m) d1) i PhaseRollback
                       ''remove_candidate'' ''removed'';
          State_Monad.return
            (if e2 = None then d2
             else add_error (''persist '' @ m_role m @ '' candidate removal failed'') d2, True)
        })}) Q w1"
    if d1: "kept d d1" and safe: "safe w1" and es: "w_trace w1 = es @ w_trace w" "list_all quiet es"
    for d1 w1 es
  proof -
    have ev: "allowed (w_trace w1) (EvRemoveManaged d1 m r)" for r
    proof -
      have "announced d_members ''remove_candidate'' ''removing'' (m_device m) (w_trace w1)"
        using assms(2) es announced_quiet by simp
      moreover have "identified d1 m (w_trace w1) \<or> found_absent m (w_trace w1)"
        using assms(3) es identified_quiet [of d m "w_trace w" es] found_absent_quiet [of m "w_trace w" es]
          d1 identified_id [of d1 d] by (auto simp: kept_def)
      ultimately show ?thesis by simp
    qed
    show ?thesis
      using ev safe d1 by (auto simp: wp_simp intro!: assms(4) wp_after_member elim!: kept_trans)
  qed
  show ?thesis
  proof (cases head_recipe)
    case True
    with rest [of d w "[]"] assms(1) show ?thesis by (simp add: remove_confirmed_def wp_simp)
  next
    case False
    have "wp (capture_candidate_logs env d m redaction) (\<lambda>d1. wp (do {
       e \<leftarrow> op_remove_managed env d1 m;
       (if (case e of None \<Rightarrow> False | Some err \<Rightarrow> \<not> err_is err ErrContainerNotFound)
        then State_Monad.return (add_error (''remove '' @ m_role m @ '' candidate failed'') d1, False)
        else do {
          (d2, e2) \<leftarrow> after_member_action env (add_removed (m_name m) d1) i PhaseRollback
                       ''remove_candidate'' ''removed'';
          State_Monad.return
            (if e2 = None then d2
             else add_error (''persist '' @ m_role m @ '' candidate removal failed'') d2, True)
        })}) Q) w"
      by (rule wp_capture [OF assms(1)]) (rule rest)
    with False show ?thesis by (simp add: remove_confirmed_def wp_bind)
  qed
qed

lemma announced_put:
  "announces members a st dev d \<Longrightarrow> announced members a st dev (EvPut d True True # h)"
  by (simp add: announced_def recent_Cons)

lemma announced_inspect:
  "announced members a st dev h \<Longrightarrow> announced members a st dev (EvInspect dev' c r # h)"
  by (simp add: announced_Cons)

lemma identified_inspect:
  "dev = m_device m \<Longrightarrow> validate_managed_identity d m ob = None \<Longrightarrow>
   identified d m (EvInspect dev c (Inr ob) # h)"
  by (simp add: identified_def)

lemma found_absent_inspect:
  "dev = m_device m \<Longrightarrow> err_is e ErrContainerNotFound \<Longrightarrow> found_absent m (EvInspect dev c (Inl e) # h)"
  by (simp add: found_absent_def)

lemma identified_container: "identified d (m\<lparr>m_container := c\<rparr>) h = identified d m h"
proof -
  have "validate_managed_identity d (m\<lparr>m_container := c\<rparr>) = validate_managed_identity d m"
    by (intro ext) (simp add: validate_managed_identity_def)
  moreover have "m_device (m\<lparr>m_container := c\<rparr>) = m_device m" by simp
  ultimately show ?thesis unfolding identified_def by (simp only:)
qed

lemma wp_remove_candidate:
  assumes "safe w" and i: "i < length (d_members d)"
    and Q: "\<And>d' ok w'. kept d d' \<Longrightarrow> safe w' \<Longrightarrow> Q (d', ok) w'"
  shows "wp (remove_candidate env hr red i d) Q w"
  unfolding remove_candidate_def Let_def
  using assms(1) i
  by (auto simp: wp_simp announced_inspect announced_put identified_inspect identified_container
      found_absent_inspect intro!: Q wp_before_member wp_remove_confirmed elim!: kept_trans)

lemma wp_remove_candidates:
  assumes "safe w" and "\<And>i. i \<in> set is \<Longrightarrow> i < length (d_members d)"
    and "\<And>d' ok w'. kept d d' \<Longrightarrow> safe w' \<Longrightarrow> Q (d', ok) w'"
  shows "wp (remove_candidates env hr red is d ok) Q w"
  using assms
proof (induction "is" arbitrary: d ok w)
  case (Cons i "is")
  have step: "wp (remove_candidates env hr red is d' ok') Q w'" if "kept d d'" "safe w'" for d' ok' w'
  proof (rule Cons.IH [OF that(2)])
    fix j assume "j \<in> set is"
    then show "j < length (d_members d')" using Cons.prems(2) kept_length(1) [OF that(1)] by simp
  next
    fix d'' ok w'' assume "kept d' d''" "safe w''"
    then show "Q (d'', ok) w''" by (intro Cons.prems(3) kept_trans [OF that(1)])
  qed
  have i: "i < length (d_members d)" using Cons.prems(2) by simp
  show ?case
    using Cons.prems(1) i
    by (auto simp: wp_simp intro!: Cons.prems(3) step wp_remove_candidate)
next
  case Nil
  then show ?case by (simp add: wp_simp)
qed

section \<open>Restoring is safe\<close>

lemma wp_await_restored:
  assumes "safe w" and Q: "\<And>d' w'. kept d d' \<Longrightarrow> safe w' \<Longrightarrow> Q d' w'"
  shows "wp (await_restored env i m d) Q w"
  unfolding await_restored_def
  using assms(1) by (auto simp: wp_simp intro!: Q wp_persist)

lemma wp_audit_restart:
  assumes "safe w" and Q: "\<And>d' w'. kept d d' \<Longrightarrow> safe w' \<Longrightarrow> Q d' w'"
  shows "wp (audit_restart env i m st det what d) Q w"
  unfolding audit_restart_def
  using assms(1) by (auto simp: wp_simp intro!: Q wp_persist wp_await_restored)

lemma observed_present_inspect: "observed_present dev c (EvInspect dev c (Inr ob) # h)"
  by (simp add: observed_present_def)

lemma wp_restore_one:
  assumes "safe w" and i: "i < length (d_prev d)" and Q: "\<And>d' w'. kept d d' \<Longrightarrow> safe w' \<Longrightarrow> Q d' w'"
  shows "wp (restore_one env i d) Q w"
  unfolding restore_one_def Let_def
  using assms(1) i
  by (auto simp: wp_simp announced_inspect announced_put observed_present_inspect
      intro!: Q wp_before_prev wp_audit_restart wp_await_restored elim!: kept_trans)

lemma wp_restore_previous:
  assumes "safe w" and "\<And>i. i \<in> set is \<Longrightarrow> i < length (d_prev d)"
    and "\<And>d' w'. kept d d' \<Longrightarrow> safe w' \<Longrightarrow> Q d' w'"
  shows "wp (restore_previous env is d) Q w"
  using assms
proof (induction "is" arbitrary: d w)
  case (Cons i "is")
  have step: "wp (restore_previous env is d') Q w'" if "kept d d'" "safe w'" for d' w'
  proof (rule Cons.IH [OF that(2)])
    fix j assume "j \<in> set is"
    then show "j < length (d_prev d')" using Cons.prems(2) kept_length(2) [OF that(1)] by simp
  next
    fix d'' w'' assume "kept d' d''" "safe w''"
    then show "Q d'' w''" by (intro Cons.prems(3) kept_trans [OF that(1)])
  qed
  have "i < length (d_prev d)" using Cons.prems(2) by simp
  then show ?case
    unfolding restore_previous.simps wp_bind
    by (intro wp_restore_one Cons.prems(1) step)
qed (simp add: wp_simp)

section \<open>Rollback is safe\<close>

lemma wp_finish_rollback:
  assumes "safe w"
    and Q: "\<And>d' e w'. d_id d' = d_id d \<Longrightarrow> d_state d' \<in> {StateRolledBack, StateRollbackFailed} \<Longrightarrow>
      safe w' \<Longrightarrow> Q (d', e) w'"
  shows "wp (finish_rollback env d) Q w"
  unfolding finish_rollback_def Let_def
  using assms(1) by (auto simp: wp_simp intro!: Q wp_persist)

lemma find_index_bound: "find_index p xs = Some i \<Longrightarrow> i < length xs"
  using find_index_Some by metis

lemma reverse_launch_indexes_bound:
  "i \<in> set (reverse_launch_indexes cat d) \<Longrightarrow> i < length (d_members d)"
  by (auto simp: reverse_launch_indexes_def member_index_by_role_def find_index_bound split: option.splits)

lemma begin_rollback_fields [simp]:
  "d_id (begin_rollback d c) = d_id d" "d_members (begin_rollback d c) = d_members d"
  "d_prev (begin_rollback d c) = d_prev d" "d_state (begin_rollback d c) = StateRollbackFailed"
  "d_key (begin_rollback d c) = d_key d" "d_hash (begin_rollback d c) = d_hash d"
  by (simp_all add: begin_rollback_def Let_def)

lemma wp_rollback_locked:
  assumes "safe w"
    and Q: "\<And>d' e w'. d_id d' = d_id d \<Longrightarrow> d_state d' \<in> {StateRolledBack, StateRollbackFailed} \<Longrightarrow>
      safe w' \<Longrightarrow> Q (d', e) w'"
  shows "wp (rollback_locked env d cause red) Q w"
proof -
  have finish: "wp (finish_rollback env d4) Q w4" if "d_id d4 = d_id d" "safe w4" for d4 w4
    by (rule wp_finish_rollback [OF that(2)]) (use that Q in simp)
  have restore: "wp (restore_previous env [0..<length (d_prev d3)] d3) (\<lambda>d4. wp (finish_rollback env d4) Q) w3"
    if "d_id d3 = d_id d" "safe w3" for d3 w3
    by (rule wp_restore_previous [OF that(2)]) (use that finish in \<open>auto simp: kept_def\<close>)
  show ?thesis
    unfolding rollback_locked_def Let_def
    using assms(1)
    by (auto simp: wp_simp intro!: Q finish restore wp_persist wp_capture_all
        wp_remove_candidates reverse_launch_indexes_bound) (simp_all add: kept_def)
qed

section \<open>Stop and start are safe\<close>

lemma wp_stop_one:
  assumes "safe w" and i: "i < length (d_members d)"
    and Q: "\<And>d' e w'. kept d d' \<Longrightarrow> safe w' \<Longrightarrow> Q (d', e) w'"
  shows "wp (stop_one env i d) Q w"
  unfolding stop_one_def Let_def
  using assms(1) i
  by (auto simp: wp_simp identified_inspect announced_inspect announced_put
      intro!: Q wp_before_member wp_after_member elim!: kept_trans)

lemma wp_stop_all:
  assumes "safe w" and "\<And>i. i \<in> set is \<Longrightarrow> i < length (d_members d)"
    and "\<And>d' errs w'. kept d d' \<Longrightarrow> safe w' \<Longrightarrow> Q (d', errs) w'"
  shows "wp (stop_all env is d errs) Q w"
  using assms
proof (induction "is" arbitrary: d errs w)
  case (Cons i "is")
  have step: "wp (stop_all env is d' errs') Q w'" if "kept d d'" "safe w'" for d' errs' w'
  proof (rule Cons.IH [OF that(2)])
    fix j assume "j \<in> set is"
    then show "j < length (d_members d')" using Cons.prems(2) kept_length(1) [OF that(1)] by simp
  next
    fix d'' errs w'' assume "kept d' d''" "safe w''"
    then show "Q (d'', errs) w''" by (intro Cons.prems(3) kept_trans [OF that(1)])
  qed
  have i: "i < length (d_members d)" using Cons.prems(2) by simp
  show ?case
    using Cons.prems(1) i by (auto simp: wp_simp intro!: Cons.prems(3) step wp_stop_one)
next
  case Nil
  then show ?case by (simp add: wp_simp)
qed

lemma wp_stop_locked:
  assumes "safe w" and Q: "\<And>d' e w'. safe w' \<Longrightarrow> Q (d', e) w'"
  shows "wp (stop_locked env d) Q w"
  unfolding stop_locked_def Let_def
  using assms(1)
  by (auto simp: wp_simp intro!: Q wp_persist wp_stop_all reverse_launch_indexes_bound
      split: option.splits)

text \<open>A cleanup stays due while its members are inspected and stopped.\<close>

lemma found_exited_Cons:
  "found_exited d h \<Longrightarrow> \<not> mutating e \<or> stops_member_of (d_id d) e \<Longrightarrow> found_exited d (e # h)"
  by (auto simp: found_exited_def)

lemma found_exited_inspect: "exited_member d dev ob \<Longrightarrow> found_exited d (EvInspect dev c (Inr ob) # h)"
  by (simp add: found_exited_def)

lemma logged_id: "logged h i = Some d \<Longrightarrow> d_id d = i"
  by (induction h) (auto simp: logged_def split: option.splits event.splits if_splits elim!: records.elims)

lemma cleanup_due_Cons:
  assumes "cleanup_due i h" and "\<not> mutating e \<or> stops_member_of i e" and "\<not> is_put e"
  shows "cleanup_due i (e # h)"
  using assms logged_id [of h i] found_exited_Cons
  by (auto simp: cleanup_due_def split: option.splits)

lemma cleanup_due_inspect [simp]: "cleanup_due i h \<Longrightarrow> cleanup_due i (EvInspect dev c r # h)"
  by (rule cleanup_due_Cons) simp_all

lemma cleanup_due_stop [simp]: "cleanup_due (d_id d) h \<Longrightarrow> cleanup_due (d_id d) (EvStopManaged d m r # h)"
  by (rule cleanup_due_Cons) simp_all

text \<open>The newest durable record is a start that has not finished.\<close>

definition starting :: "string \<Rightarrow> history \<Rightarrow> bool" where
  "starting i h \<longleftrightarrow> (\<exists>d. logged h i = Some d \<and> d_state d = StateStarting)"

lemma starting_put [simp]:
  "d_state d = StateStarting \<Longrightarrow> starting i h \<or> p \<and> d_id d = i \<Longrightarrow> starting i (EvPut d p ok # h)"
  by (auto simp: starting_def)

lemma starting_Cons [simp]: "\<not> is_put e \<Longrightarrow> starting i (e # h) = starting i h"
  by (simp add: starting_def)

lemma starting_cleanup: "starting i h \<Longrightarrow> cleanup_due i h"
  by (auto simp: starting_def cleanup_due_def unsafe_state_recovery_for_def)

lemma id_set_status [simp]: "d_id (set_member_status i st d) = d_id d" "d_id (set_prev_status i st d) = d_id d"
  by (simp_all add: set_member_status_def set_prev_status_def)

lemma wp_fail_start_one:
  assumes "safe w" and i: "i < length (d_members d)" and due: "cleanup_due (d_id d) (w_trace w)"
    and Q: "\<And>d' b w'. kept d d' \<Longrightarrow> safe w' \<Longrightarrow> cleanup_due (d_id d') (w_trace w') \<Longrightarrow> Q (d', b) w'"
  shows "wp (fail_start_one env i d) Q w"
  unfolding fail_start_one_def Let_def
  using assms(1) i due by (auto simp: wp_simp identified_inspect intro!: Q)

lemma wp_fail_start_all:
  assumes "safe w" and "\<And>i. i \<in> set is \<Longrightarrow> i < length (d_members d)"
    and "cleanup_due (d_id d) (w_trace w)"
    and "\<And>d' errs w'. kept d d' \<Longrightarrow> safe w' \<Longrightarrow> Q (d', errs) w'"
  shows "wp (fail_start_all env is d errs) Q w"
  using assms
proof (induction "is" arbitrary: d errs w)
  case (Cons i "is")
  have step: "wp (fail_start_all env is d' errs') Q w'" if "kept d d'" "safe w'" "cleanup_due (d_id d') (w_trace w')" for d' errs' w'
  proof (rule Cons.IH [OF that(2)])
    fix j assume "j \<in> set is"
    then show "j < length (d_members d')" using Cons.prems(2) kept_length(1) [OF that(1)] by simp
  next
    show "cleanup_due (d_id d') (w_trace w')" by (rule that(3))
  next
    fix d'' errs w'' assume "kept d' d''" "safe w''"
    then show "Q (d'', errs) w''" by (intro Cons.prems(4) kept_trans [OF that(1)])
  qed
  have i: "i < length (d_members d)" using Cons.prems(2) by simp
  show ?case
    using Cons.prems(1,3) i by (auto simp: wp_simp intro!: Cons.prems(4) step wp_fail_start_one)
next
  case Nil
  then show ?case by (simp add: wp_simp)
qed

lemma wp_fail_start:
  assumes "safe w" and "cleanup_due (d_id d) (w_trace w)"
    and Q: "\<And>d' e w'. d_state d' \<in> {StateStopped, StateFailed} \<Longrightarrow> e \<noteq> None \<Longrightarrow> safe w' \<Longrightarrow> Q (d', e) w'"
  shows "wp (fail_start env d cause) Q w"
  unfolding fail_start_def Let_def
  using assms(1,2)
  by (auto simp: wp_simp intro!: Q wp_persist wp_fail_start_all reverse_launch_indexes_bound
      split: option.splits)

lemma wp_mark_unsafe:
  assumes "safe w" and Q: "\<And>d' e w'. d_state d' = StateFailed \<Longrightarrow> safe w' \<Longrightarrow> Q (d', Some e) w'"
  shows "wp (mark_unsafe_running env d cause) Q w"
  unfolding mark_unsafe_running_def Let_def
  using assms(1) by (auto simp: wp_simp intro!: Q wp_persist split: option.splits)

text \<open>The same members up to the status the engine has noted for them.\<close>

definition same_members :: "member list \<Rightarrow> member list \<Rightarrow> bool" where
  "same_members ms ms' \<longleftrightarrow> map (m_status_update (\<lambda>_. [])) ms' = map (m_status_update (\<lambda>_. [])) ms"

lemma same_members_refl [simp]: "same_members ms ms"
  by (simp add: same_members_def)

lemma same_members_length: "same_members ms ms' \<Longrightarrow> length ms' = length ms"
  unfolding same_members_def by (metis length_map)

lemma same_members_nth:
  assumes "same_members ms ms'" and "i < length ms"
  shows "(ms' ! i)\<lparr>m_status := []\<rparr> = (ms ! i)\<lparr>m_status := []\<rparr>"
  using assms same_members_length [OF assms(1)] unfolding same_members_def
  by (metis (no_types, lifting) nth_map)

lemma map_unstatused:
  "map (m_status_update (\<lambda>_. [])) (xs[i := (xs ! i)\<lparr>m_status := st\<rparr>]) = map (m_status_update (\<lambda>_. [])) xs"
  by (cases "i < length xs") (simp_all add: map_update list_update_same_conv list_update_beyond)

lemma same_members_status [simp]:
  "same_members ms (d_members (set_member_status i st d)) = same_members ms (d_members d)"
  by (simp add: same_members_def set_member_status_def map_unstatused)

lemma same_member_fields:
  assumes "m'\<lparr>m_status := []\<rparr> = m\<lparr>m_status := []\<rparr>"
  shows "m_device m' = m_device m" "m_role m' = m_role m" "member_locator m' = member_locator m"
    "d_id d' = d_id d \<Longrightarrow> validate_managed_identity d' m' = validate_managed_identity d m"
  using assms by (cases m; cases m'; auto simp: member_locator_def validate_managed_identity_def fun_eq_iff)+

lemma exited_member_intro:
  assumes "same_members (d_members d0) (d_members d)" "d_id d = d_id d0" "i < length (d_members d0)"
    and "validate_managed_identity d (d_members d ! i) ob = None" "o_status ob \<in> {''stopped'', ''exited'', ''dead''}"
  shows "exited_member d0 (m_device (d_members d ! i)) ob"
proof -
  have "d_members d0 ! i \<in> set (d_members d0)" using assms(3) by simp
  moreover note same_member_fields [OF same_members_nth [OF assms(1,3)]]
  ultimately show ?thesis
    using assms(2,4,5) by (auto simp: exited_member_def list_ex_iff intro!: bexI [of _ "d_members d0 ! i"])
qed

lemma wp_verify_running:
  assumes "safe w" and "same_members (d_members d0) (d_members d)" "d_id d = d_id d0"
    and "\<And>i. i \<in> set is \<Longrightarrow> i < length (d_members d0)" and "r \<longrightarrow> found_exited d0 (w_trace w)"
    and "\<And>d' e r w'. kept d d' \<Longrightarrow> safe w' \<Longrightarrow> logged (w_trace w') = logged (w_trace w) \<Longrightarrow>
      (r \<longrightarrow> found_exited d0 (w_trace w')) \<Longrightarrow> Q (d', e, r) w'"
  shows "wp (verify_running env is d r) Q w"
  using assms
proof (induction "is" arbitrary: d r w)
  case (Cons i "is")
  have step: "wp (verify_running env is (set_member_status i st d) r') Q w'"
    if "safe w'" "logged (w_trace w') = logged (w_trace w)" "r' \<longrightarrow> found_exited d0 (w_trace w')" for st r' w'
    by (rule Cons.IH [OF that(1)]) (use Cons.prems(2-4) that(2,3) in \<open>auto intro!: Cons.prems(6)\<close>)
  have i: "i < length (d_members d0)" using Cons.prems(4) by simp
  have logs: "logged (EvInspect dev c x # h) = logged h" for dev c x h by (rule ext) simp
  show ?case
    using Cons.prems(1,5) found_exited_inspect [OF exited_member_intro [OF Cons.prems(2,3) i]]
    by (auto simp: wp_simp Let_def logs found_exited_Cons intro!: Cons.prems(6) step)
qed (simp add: wp_simp)

lemma wp_restart_all:
  assumes "safe w" and "d_state d = StateStarting" "starting (d_id d) (w_trace w)"
    and "\<And>d' f w'. kept d d' \<Longrightarrow> safe w' \<Longrightarrow> starting (d_id d) (w_trace w') \<Longrightarrow> Q (d', f) w'"
  shows "wp (restart_all env roles d may) Q w"
  using assms
proof (induction roles arbitrary: d may w)
  case (Cons role roles)
  have state: "d_state d' = StateStarting" "d_id d' = d_id d" if "kept d d'" for d'
    using that Cons.prems(2) by (simp_all add: kept_def)
  have step: "wp (restart_all env roles d' may') Q w'"
    if "kept d d'" "safe w'" "starting (d_id d) (w_trace w')" for d' may' w'
    by (rule Cons.IH [OF that(2)])
      (use that(3) state [OF that(1)] kept_trans [OF that(1)] in \<open>auto intro!: Cons.prems(4)\<close>)
  have after: "wp (after_member_action env d1 i ph a st) P w1"
    if "kept d d1" "safe w1" "starting (d_id d) (w_trace w1)"
      "\<And>d' e w'. kept d d' \<Longrightarrow> safe w' \<Longrightarrow> starting (d_id d) (w_trace w') \<Longrightarrow> P (d', e) w'" for d1 i ph a st P w1
  proof (rule wp_after_member)
    fix d' p and e :: "gerror option" assume "kept d1 d'"
    with that(1) have k: "kept d d'" by (rule kept_trans)
    show "P (d', e) (put_world d' p (e = None) w1)"
      by (rule that(4) [OF k]) (use that(2,3) state [OF k] in simp_all)
  qed
  have before: "wp (before_member_action env d i PhaseStarting ''restart'' ''starting'') P w"
    if "i < length (d_members d)"
      "\<And>d' e p. kept d d' \<Longrightarrow> announces d_members ''restart'' ''starting'' (m_device (d_members d ! i)) d' \<Longrightarrow>
         starting (d_id d) (EvPut d' p (e = None) # w_trace w) \<Longrightarrow> (e = None \<Longrightarrow> p) \<Longrightarrow>
         P (d', e) (put_world d' p (e = None) w)" for i P
  proof (rule wp_before_member [OF that(1)])
    fix d' p and e :: "gerror option"
    assume a: "kept d d'" "announces d_members ''restart'' ''starting'' (m_device (d_members d ! i)) d'" "e = None \<Longrightarrow> p"
    show "P (d', e) (put_world d' p (e = None) w)"
      by (rule that(2) [OF a(1,2)]) (use Cons.prems(3) state [OF a(1)] a(3) in simp_all)
  qed
  show ?case
    using Cons.prems(1,3)
    by (auto simp: wp_simp Let_def announced_inspect announced_put identified_inspect
        member_index_by_role_def dest!: find_index_bound intro!: Cons.prems(4) step before after)
qed (simp add: wp_simp)

section \<open>The readiness gate\<close>

text \<open>Between two worlds containers were only inspected and tested.\<close>

fun probing :: "event \<Rightarrow> bool" where
  "probing (EvInspect dev c r) = True"
| "probing (EvTest dev c key r) = True"
| "probing e = False"

definition probes :: "world \<Rightarrow> world \<Rightarrow> bool" where
  "probes w w' \<longleftrightarrow> (\<exists>es. w_trace w' = es @ w_trace w \<and> list_all probing es)"

lemma probes_refl [simp]: "probes w w"
  by (simp add: probes_def)

lemma probes_event [simp]: "probing e \<Longrightarrow> probes w w' \<Longrightarrow> probes w (record_event e w')"
proof -
  assume e: "probing e" and "probes w w'"
  then obtain es where "w_trace w' = es @ w_trace w" "list_all probing es" by (auto simp: probes_def)
  with e show ?thesis unfolding probes_def by (intro exI [of _ "e # es"]) simp
qed

lemma probes_clock [simp]: "probes w (w'\<lparr>w_clock := n\<rparr>) = probes w w'"
  by (simp add: probes_def)

lemma probes_trans: "probes w w' \<Longrightarrow> probes w' w'' \<Longrightarrow> probes w w''"
  unfolding probes_def by (metis append_assoc list_all_append)

lemma probes_logged: "probes w w' \<Longrightarrow> logged (w_trace w') = logged (w_trace w)"
proof -
  have "logged (es @ h) i = logged h i" if "list_all probing es" for es h i
    using that
  proof (induction es)
    case (Cons e es)
    then have "\<not> is_put e" by (cases e) simp_all
    with Cons show ?case by simp
  qed simp
  then show "probes w w' \<Longrightarrow> logged (w_trace w') = logged (w_trace w)" by (auto simp: probes_def fun_eq_iff)
qed

definition all_running :: "member list \<Rightarrow> bool" where
  "all_running ms \<longleftrightarrow> list_all (\<lambda>m. m_status m = ''running'') ms"

lemma observe_member_key [simp]: "member_key (observe_member m ob) = member_key m"
  by (simp add: observe_member_def member_key_def)

lemma observe_member_status [simp]: "m_status (observe_member m ob) = o_status ob"
  by (simp add: observe_member_def)

lemma wp_ready_scan:
  assumes "safe w" and "running \<longrightarrow> all_running seen"
    and "\<And>ms' fatal running' prior' w'. map member_key ms' = map member_key (seen @ ms) \<Longrightarrow>
      (fatal = None \<Longrightarrow> running' \<Longrightarrow> all_running ms') \<Longrightarrow> safe w' \<Longrightarrow>
      probes w w' \<Longrightarrow> Q (ms', fatal, running', prior') w'"
  shows "wp (ready_scan env seen ms running prior) Q w"
  using assms
proof (induction ms arbitrary: seen running prior w)
  case Nil
  then show ?case by (auto simp: wp_simp intro!: Nil.prems(3))
next
  case (Cons m ms)
  have step: "wp (ready_scan env (seen @ [m']) ms running' prior') Q w'"
    if "member_key m' = member_key m" "running' \<longrightarrow> all_running (seen @ [m'])" "safe w'"
      "probes w w'" for m' running' prior' w'
    by (rule Cons.IH [OF that(3,2)], rule Cons.prems(3)) (use that probes_trans [OF that(4)] in simp_all)
  show ?case
    using Cons.prems(1,2)
    by (auto simp: wp_simp Let_def all_running_def intro!: Cons.prems(3) step)
qed

lemma validate_promotion_tested [simp]:
  "validate_promotion_result (t\<lparr>tr_tested_at := now\<rparr>) x = validate_promotion_result t x"
  by (simp add: validate_promotion_result_def)

text \<open>What a readiness wait that succeeds has established.\<close>

definition ready_result :: "string \<Rightarrow> member list \<Rightarrow> gerror + test_result \<Rightarrow> bool" where
  "ready_result expected ms r \<longleftrightarrow>
     (case r of Inl e \<Rightarrow> True | Inr t \<Rightarrow> all_running ms \<and> validate_promotion_result t expected = None)"

lemma wp_ready_check:
  assumes "safe w"
    and "\<And>ms' r w'. map member_key ms' = map member_key ms \<Longrightarrow> ready_result expected ms' r \<Longrightarrow> safe w' \<Longrightarrow>
      probes w w' \<Longrightarrow> Q (ms', ReadyDone r) w'"
    and "\<And>ms' prior' w'. map member_key ms' = map member_key ms \<Longrightarrow> safe w' \<Longrightarrow>
      probes w w' \<Longrightarrow> Q (ms', ReadyAgain prior') w'"
  shows "wp (ready_check env key expected ms prior) Q w"
  unfolding ready_check_def wp_simp
proof (rule wp_ready_scan [OF assms(1)], goal_cases)
  case (2 ms' fatal running' prior' w')
  then show ?case
    by (auto simp: wp_simp ready_result_def intro!: assms(2,3))
qed (simp add: all_running_def)

lemma wp_wait_loop:
  assumes "safe w"
    and "\<And>ms' r w'. map member_key ms' = map member_key ms \<Longrightarrow> ready_result expected ms' r \<Longrightarrow> safe w' \<Longrightarrow>
      probes w w' \<Longrightarrow> Q (ms', r) w'"
  shows "wp (wait_loop env key expected cause ticks ms prior) Q w"
  using assms
proof (induction ticks arbitrary: ms prior w)
  case 0
  show ?case
    unfolding wait_loop.simps wp_simp
    by (rule wp_ready_check [OF "0.prems"(1)])
      (auto simp: wp_simp ready_result_def intro!: "0.prems"(2))
next
  case (Suc ticks)
  have again: "wp (wait_loop env key expected cause ticks ms' prior') Q w'"
    if "map member_key ms' = map member_key ms" "safe w'" "probes w w'" for ms' prior' w'
    by (rule Suc.IH [OF that(2)], rule Suc.prems(2)) (use that probes_trans [OF that(3)] in simp_all)
  show ?case
    unfolding wait_loop.simps wp_simp
    by (rule wp_ready_check [OF Suc.prems(1)]) (simp_all add: wp_simp Suc.prems(2) again)
qed

lemma wp_wait_ready:
  assumes "safe w"
    and "\<And>ms' r w'. map member_key ms' = map member_key ms \<Longrightarrow> ready_result expected ms' r \<Longrightarrow> safe w' \<Longrightarrow>
      probes w w' \<Longrightarrow> Q (ms', r) w'"
  shows "wp (wait_ready env ms key expected bkc) Q w"
  unfolding wait_ready_def wp_simp by (intro wp_wait_loop assms)

lemma starting_wait:
  "starting i (w_trace w) \<Longrightarrow> probes w w' \<Longrightarrow> cleanup_due i (w_trace w')"
  by (rule starting_cleanup) (simp add: starting_def probes_logged)

lemma wp_start_ready:
  assumes "safe w" "d_state d = StateStarting" "starting (d_id d) (w_trace w)"
    and Q: "\<And>d' e w'. safe w' \<Longrightarrow> Q (d', e) w'"
  shows "wp (start_ready env key d) Q w"
  unfolding start_ready_def Let_def
  using assms(1-3)
  by (auto simp: wp_simp starting_cleanup intro!: Q wp_persist wp_fail_start wp_wait_ready
      elim!: starting_wait [rotated])

lemma wp_start_stopped:
  assumes "safe w" and Q: "\<And>d' e w'. safe w' \<Longrightarrow> Q (d', e) w'"
  shows "wp (start_stopped env key d) Q w"
  unfolding start_stopped_def Let_def
  using assms(1)
  by (auto simp: wp_simp starting_cleanup kept_def intro!: Q wp_persist wp_fail_start wp_restart_all
      wp_start_ready split: option.splits bool.splits)

lemma exited_cleanup:
  "logged h i = Some d \<Longrightarrow> d_state d = StateRunning \<Longrightarrow> found_exited d h \<Longrightarrow> cleanup_due i h"
  by (simp add: cleanup_due_def)

lemma wp_start:
  assumes "safe w" and Q: "\<And>d' e w'. safe w' \<Longrightarrow> Q (d', e) w'"
  shows "wp (start env i key) Q w"
proof -
  have running: "wp (verify_running env [0..<length (d_members d)] d False) P w"
    if "store_get (w_docs w) i = Some d" "d_state d = StateRunning"
      "\<And>d' e r w'. safe w' \<Longrightarrow> (r \<longrightarrow> cleanup_due (d_id d') (w_trace w')) \<Longrightarrow> P (d', e, r) w'" for d P
  proof (rule wp_verify_running [where d0 = d, OF assms(1)])
    fix d' e r w'
    assume a: "kept d d'" "safe w'" "logged (w_trace w') = logged (w_trace w)" "r \<longrightarrow> found_exited d (w_trace w')"
    have "logged (w_trace w') (d_id d) = Some d"
      using a(3) store_ok_logged assms(1) that(1) by simp
    then show "P (d', e, r) w'"
      using a that(2) exited_cleanup by (intro that(3)) (auto simp: kept_def)
  qed simp_all
  show ?thesis
    unfolding start_def
    using assms(1) by (auto simp: wp_simp intro!: Q wp_start_stopped running wp_mark_unsafe wp_fail_start)
qed

lemma wp_stop:
  assumes "safe w" and Q: "\<And>d' e w'. safe w' \<Longrightarrow> Q (d', e) w'"
  shows "wp (stop env i) Q w"
  unfolding stop_def using assms(1) by (auto simp: wp_simp intro!: Q wp_stop_locked)

lemma wp_test:
  assumes "safe w" and Q: "\<And>d' e w'. safe w' \<Longrightarrow> Q (d', e) w'"
  shows "wp (test env i key) Q w"
  unfolding test_def Let_def
  using assms(1) by (auto simp: wp_simp intro!: Q wp_store_put split: option.splits)

lemma wp_rollback:
  assumes "safe w" and Q: "\<And>d' e w'. safe w' \<Longrightarrow> Q (d', e) w'"
  shows "wp (rollback env i) Q w"
  unfolding rollback_def using assms(1) by (auto simp: wp_simp intro!: Q wp_rollback_locked)

section \<open>Recovery is safe\<close>

text \<open>What an operation on one deployment keeps of the records of the others.\<close>

definition others_kept :: "string \<Rightarrow> world \<Rightarrow> world \<Rightarrow> bool" where
  "others_kept i v w \<longleftrightarrow> (\<forall>j. j \<noteq> i \<longrightarrow> logged (w_trace w) j = logged (w_trace v) j)"

lemma others_kept_simps [simp]:
  "others_kept i v v" "\<not> is_put e \<Longrightarrow> others_kept i v (record_event e w) = others_kept i v w"
  "others_kept i v (w\<lparr>w_clock := n\<rparr>) = others_kept i v w"
  "d_id d = i \<Longrightarrow> others_kept i v (put_world d p ok w) = others_kept i v w"
  by (auto simp: others_kept_def)

lemma wp_persist_others:
  assumes "others_kept i v w" "d_id d = i"
    and "\<And>e now w'. others_kept i v w' \<Longrightarrow> Q (journal_entry d ph a r s det now, e) w'"
  shows "wp (persist_progress env d ph a r s det) Q w"
  using assms by (auto intro: wp_persist)

lemma wp_stop_all_others:
  assumes "others_kept i v w" "d_id d = i"
    and "\<And>d' e w'. others_kept i v w' \<Longrightarrow> d_id d' = i \<Longrightarrow> Q (d', e) w'"
  shows "wp (stop_all env is d errs) Q w"
  using assms
proof (induction "is" arbitrary: d errs w)
  case (Cons k "is")
  show ?case
    unfolding stop_all.simps stop_one_def Let_def before_member_action_def after_member_action_def
    using Cons.prems(1,2) by (auto simp: wp_simp intro!: wp_persist_others [where i = i and v = v] Cons.IH Cons.prems(3))
qed (simp add: wp_simp)

lemma wp_stop_locked_others:
  assumes "others_kept (d_id d) v w" and "\<And>x w'. others_kept (d_id d) v w' \<Longrightarrow> Q x w'"
  shows "wp (stop_locked env d) Q w"
  unfolding stop_locked_def Let_def
  using assms(1) by (auto simp: wp_simp intro!: wp_persist_others [where i = "d_id d" and v = v]
      wp_stop_all_others [where i = "d_id d" and v = v] assms(2) split: option.splits)

lemma wp_fail_start_all_others:
  assumes "others_kept i v w" "d_id d = i"
    and "\<And>d' e w'. others_kept i v w' \<Longrightarrow> d_id d' = i \<Longrightarrow> Q (d', e) w'"
  shows "wp (fail_start_all env is d errs) Q w"
  using assms
proof (induction "is" arbitrary: d errs w)
  case (Cons k "is")
  show ?case
    unfolding fail_start_all.simps fail_start_one_def Let_def
    using Cons.prems(1,2) by (auto simp: wp_simp intro!: Cons.IH Cons.prems(3))
qed (simp add: wp_simp)

lemma wp_fail_start_others:
  assumes "others_kept (d_id d) v w" and "\<And>x w'. others_kept (d_id d) v w' \<Longrightarrow> Q x w'"
  shows "wp (fail_start env d cause) Q w"
  unfolding fail_start_def Let_def
  using assms(1) by (auto simp: wp_simp intro!: wp_persist_others [where i = "d_id d" and v = v]
      wp_fail_start_all_others [where i = "d_id d" and v = v] assms(2))

lemma wp_capture_others:
  assumes "others_kept i v w" "d_id d = i"
    and "\<And>d' w'. others_kept i v w' \<Longrightarrow> d_id d' = i \<Longrightarrow> Q d' w'"
  shows "wp (capture_candidate_logs env d m redaction) Q w"
  unfolding capture_candidate_logs_def Let_def
  using assms(1,2) by (auto simp: wp_simp intro!: wp_persist_others [where i = i and v = v] assms(3))

lemma wp_capture_all_others:
  assumes "others_kept i v w" "d_id d = i"
    and "\<And>d' w'. others_kept i v w' \<Longrightarrow> d_id d' = i \<Longrightarrow> Q d' w'"
  shows "wp (capture_all env redaction ms d) Q w"
  using assms
proof (induction ms arbitrary: d w)
  case (Cons m ms)
  show ?case
    using Cons.prems(1,2) by (auto simp: wp_simp intro!: wp_capture_others [where i = i and v = v]
      Cons.IH Cons.prems(3))
qed (simp add: wp_simp)

lemma wp_remove_candidates_others:
  assumes "others_kept i v w" "d_id d = i"
    and "\<And>d' ok w'. others_kept i v w' \<Longrightarrow> d_id d' = i \<Longrightarrow> Q (d', ok) w'"
  shows "wp (remove_candidates env hr redaction is d ok) Q w"
  using assms
proof (induction "is" arbitrary: d ok w hr)
  case (Cons k "is")
  have confirmed: "wp (remove_confirmed env b redaction k m d1) P w1"
    if "others_kept i v w1" "d_id d1 = i" "\<And>d' ok w'. others_kept i v w' \<Longrightarrow> d_id d' = i \<Longrightarrow> P (d', ok) w'"
    for b m d1 w1 P
    unfolding remove_confirmed_def after_member_action_def
    using that(1,2) by (auto simp: wp_simp intro!: wp_capture_others [where i = i and v = v]
      wp_persist_others [where i = i and v = v] that(3))
  show ?case
    unfolding remove_candidates.simps remove_candidate_def Let_def before_member_action_def
    using Cons.prems(1,2) by (auto simp: wp_simp intro!: wp_persist_others [where i = i and v = v]
      confirmed Cons.IH Cons.prems(3))
qed (simp add: wp_simp)

lemma wp_restore_previous_others:
  assumes "others_kept i v w" "d_id d = i"
    and "\<And>d' w'. others_kept i v w' \<Longrightarrow> d_id d' = i \<Longrightarrow> Q d' w'"
  shows "wp (restore_previous env is d) Q w"
  using assms
proof (induction "is" arbitrary: d w)
  case (Cons k "is")
  show ?case
    unfolding restore_previous.simps restore_one_def audit_restart_def await_restored_def
      before_previous_action_def Let_def
    using Cons.prems(1,2) by (auto simp: wp_simp intro!:
      wp_persist_others [where i = i and v = v] Cons.IH Cons.prems(3))
qed (simp add: wp_simp)

lemma wp_rollback_locked_others:
  assumes "others_kept (d_id d) v w" and "\<And>x w'. others_kept (d_id d) v w' \<Longrightarrow> Q x w'"
  shows "wp (rollback_locked env d cause redaction) Q w"
  unfolding rollback_locked_def finish_rollback_def Let_def
  using assms(1)
  by (auto simp: wp_simp intro!: wp_persist_others [where i = "d_id d" and v = v]
      wp_capture_all_others [where i = "d_id d" and v = v]
      wp_remove_candidates_others [where i = "d_id d" and v = v]
      wp_restore_previous_others [where i = "d_id d" and v = v] assms(2))

lemma wp_reconcile_unsafe_others:
  assumes "others_kept (d_id d) v w" and "\<And>x w'. others_kept (d_id d) v w' \<Longrightarrow> Q x w'"
  shows "wp (reconcile_unsafe env d) Q w"
  unfolding reconcile_unsafe_def
  using assms(1) by (cases "unsafe_state_recovery_for d")
    (auto simp: wp_simp intro!: wp_fail_start_others [where v = v] wp_stop_locked_others [where v = v]
      wp_rollback_locked_others [where v = v] assms(2))

lemma wp_reconcile_unsafe:
  assumes "safe w" "logged (w_trace w) (d_id d) = Some d"
    "d_state d \<in> {StateStarting, StateStopping, StateFailed}"
    and Q: "\<And>d' e w'. safe w' \<Longrightarrow> Q (d', e) w'"
  shows "wp (reconcile_unsafe env d) Q w"
proof -
  have due: "cleanup_due (d_id d) (w_trace w)" if "unsafe_state_recovery_for d = RecoverInterruptedStart"
    using assms(2,3) that by (auto simp: cleanup_due_def unsafe_state_recovery_for_def split: if_splits)
  show ?thesis
    unfolding reconcile_unsafe_def
    using assms(1)
    by (cases "unsafe_state_recovery_for d")
      (auto simp: wp_simp due intro!: Q wp_rollback_locked wp_stop_locked wp_fail_start)
qed

lemma wp_reconcile_all:
  assumes "safe w" "distinct (map d_id ds)" "\<And>d. d \<in> set ds \<Longrightarrow> logged (w_trace w) (d_id d) = Some d"
    and "\<And>errs w'. safe w' \<Longrightarrow> Q errs w'"
  shows "wp (reconcile_all env ds errs) Q w"
  using assms
proof (induction ds arbitrary: errs w)
  case (Cons d ds)
  have rest: "wp (reconcile_all env ds errs') Q w'" if "safe w'" "others_kept (d_id d) w w'" for errs' w'
  proof (rule Cons.IH [OF that(1)])
    show "logged (w_trace w') (d_id d') = Some d'" if d': "d' \<in> set ds" for d'
    proof -
      have "d_id d' \<noteq> d_id d" using Cons.prems(2) d' by (auto simp: image_iff)
      then show ?thesis using \<open>others_kept (d_id d) w w'\<close> Cons.prems(3) d' by (simp add: others_kept_def)
    qed
  qed (use Cons.prems(2) in \<open>auto intro: Cons.prems(4)\<close>)
  have d: "logged (w_trace w) (d_id d) = Some d" using Cons.prems(3) by simp
  have roll: "wp (rollback_locked env d c []) (\<lambda>x w'. safe w' \<and> others_kept (d_id d) w w') w" for c
    by (rule wp_conj [THEN iffD2], rule conjI, rule wp_rollback_locked [OF Cons.prems(1)], assumption)
      (rule wp_rollback_locked_others, simp_all)
  have unsafe: "wp (reconcile_unsafe env d) (\<lambda>x w'. safe w' \<and> others_kept (d_id d) w w') w"
    if "d_state d \<in> {StateStarting, StateStopping, StateFailed}"
    by (rule wp_conj [THEN iffD2], rule conjI, rule wp_reconcile_unsafe [OF Cons.prems(1) d that], assumption)
      (rule wp_reconcile_unsafe_others, simp_all)
  show ?case
    unfolding reconcile_all.simps wp_if wp_bind wp_pair
    using Cons.prems(1)
    by (intro conjI impI wp_mono [OF roll] wp_mono [OF unsafe] rest) (auto simp: others_kept_def)
qed (simp add: wp_simp)

lemma wp_reconcile:
  assumes "safe w" and Q: "\<And>e w'. safe w' \<Longrightarrow> Q e w'"
  shows "wp (reconcile env) Q w"
proof -
  have ds: "distinct (map d_id (store_list (w_docs w)))" "set (store_list (w_docs w)) = set (w_docs w)"
    using assms(1) by (auto simp: store_list_def store_ok_def distinct_map)
  show ?thesis
    unfolding reconcile_def
    using assms(1) store_ok_mem by (auto simp: wp_simp ds intro!: Q wp_reconcile_all)
qed

end
