(* ===== verification/Deploy_Create_Safety.thy ===== *)
theory Deploy_Create_Safety
  imports Deploy_Safety
begin

text \<open>
  The effects of a create: every stage is safe in the sense of \<open>Deploy_Safety\<close>, a create
  that reports success has passed the readiness gate and is durably stored as running, a
  failure after the journal entry ends in a rolled back or rollback-failed deployment, and
  an admitted request never panics.
\<close>

section \<open>Stages\<close>

lemma wp_and_then [wp_simp]:
  "wp (and_then m k) Q w =
     wp m (\<lambda>x. case snd x of Some f \<Rightarrow> Q (fst x, Some f) | None \<Rightarrow> wp (k (fst x)) Q) w"
  by (auto simp: and_then_def wp_bind wp_def State_Monad.return_def split: option.splits prod.splits)

lemma wp_journaled [wp_simp]:
  "wp (journaled safe_text m) Q w =
     wp m (\<lambda>x. Q (fst x, case snd x of Some err \<Rightarrow> Some (Fail err safe_text) | None \<Rightarrow> None)) w"
  by (auto simp: journaled_def wp_bind wp_def State_Monad.return_def split: prod.splits)

lemma wp_effect [wp_simp]:
  "wp (effect d what safe_text m) Q w =
     wp m (\<lambda>e. Q (d, case e of Some err \<Rightarrow> Some (Fail (Wrapf what err []) safe_text) | None \<Rightarrow> None)) w"
  by (auto simp: effect_def wp_bind wp_def State_Monad.return_def split: prod.splits)

text \<open>A failure that is an error, not a panic.\<close>

fun panicked :: "failure option \<Rightarrow> bool" where
  "panicked (Some (Panic s)) = True"
| "panicked (Some (Fail e s)) = is_panic e"
| "panicked None = False"

lemma ctx_error_no_panic [simp]: "\<not> is_panic (ctx_error c)"
  by (cases c) simp_all

lemma wrap_error_no_panic [simp]: "\<not> is_panic (wrap_error k op e)"
  by (cases e) (auto simp: wrap_error_def)

lemma readiness_error_no_panic [simp]: "\<not> is_panic (readiness_operation_error e)"
  by (cases e) (auto simp: readiness_operation_error_def)

lemma wp_each:
  assumes "safe w" and "kept d0 d"
    and step: "\<And>x d w Q. x \<in> set xs \<Longrightarrow> kept d0 d \<Longrightarrow> safe w \<Longrightarrow>
      (\<And>d' f w'. kept d0 d' \<Longrightarrow> safe w' \<Longrightarrow> \<not> panicked f \<Longrightarrow> Q (d', f) w') \<Longrightarrow> wp (g x d) Q w"
    and Q: "\<And>d' f w'. kept d0 d' \<Longrightarrow> safe w' \<Longrightarrow> \<not> panicked f \<Longrightarrow> Q (d', f) w'"
  shows "wp (each g xs d) Q w"
  using assms(1,2) step
proof (induction xs arbitrary: d w)
  case Nil
  then show ?case by (simp add: wp_simp Q)
next
  case (Cons x xs)
  have rest: "wp (each g xs d') Q w'" if "kept d0 d'" "safe w'" for d' w'
    by (rule Cons.IH [OF that(2,1)]) (rule Cons.prems(3), simp_all)
  show ?case
    unfolding each.simps wp_simp
    by (rule Cons.prems(3) [OF _ Cons.prems(2,1)]) (auto intro!: Q rest split: option.splits)
qed

section \<open>Members follow the bindings\<close>

definition bound_to :: "binding list \<Rightarrow> deployment \<Rightarrow> bool" where
  "bound_to bs d \<longleftrightarrow> map m_role (d_members d) = map b_role bs \<and> map m_device (d_members d) = map b_device bs"

lemma bound_to_kept: "kept d d' \<Longrightarrow> bound_to bs d \<Longrightarrow> bound_to bs d'"
proof -
  assume "kept d d'" and b: "bound_to bs d"
  then have "map member_key (d_members d') = map member_key (d_members d)" by (simp add: kept_def)
  then have "map fst (map member_key (d_members d')) = map fst (map member_key (d_members d))"
    "map (fst \<circ> snd) (map member_key (d_members d')) = map (fst \<circ> snd) (map member_key (d_members d))"
    by simp_all
  then have "map m_role (d_members d') = map m_role (d_members d)"
    "map m_device (d_members d') = map m_device (d_members d)"
    by (simp_all add: member_key_def comp_def)
  with b show ?thesis by (simp add: bound_to_def)
qed

lemma bound_to_length: "bound_to bs d \<Longrightarrow> length (d_members d) = length bs"
  unfolding bound_to_def by (metis length_map)

lemma bound_to_nth:
  "bound_to bs d \<Longrightarrow> i < length bs \<Longrightarrow>
   m_role (d_members d ! i) = b_role (bs ! i) \<and> m_device (d_members d ! i) = b_device (bs ! i)"
  unfolding bound_to_def by (metis length_map nth_map)

lemma find_index_find: "find_index p xs = Some i \<Longrightarrow> find p xs = Some (xs ! i)"
  by (induction xs arbitrary: i) (auto split: if_splits)

lemma bound_to_role:
  assumes "bound_to bs d" and "role \<in> set (map b_role bs)"
  obtains i where "member_index_by_role (d_members d) role = Some i" "i < length bs"
    "binding_by_role bs role = bs ! i"
proof -
  have "find_index (\<lambda>r. r = role) (map m_role (d_members d)) = find_index (\<lambda>r. r = role) (map b_role bs)"
    using assms(1) by (simp add: bound_to_def)
  then have eq: "member_index_by_role (d_members d) role = find_index (\<lambda>b. b_role b = role) bs"
    by (simp add: member_index_by_role_def find_index_map comp_def)
  have "find_index (\<lambda>b. b_role b = role) bs \<noteq> None"
    using assms(2) by (auto simp: find_index_None)
  then obtain i where i: "find_index (\<lambda>b. b_role b = role) bs = Some i" by blast
  then have "binding_by_role bs role = bs ! i"
    using find_index_find [OF i] by (simp add: binding_by_role_def)
  show ?thesis
    by (rule that) (use eq i find_index_bound [OF i] \<open>binding_by_role bs role = bs ! i\<close> in simp_all)
qed

section \<open>The stages are safe\<close>

lemma wp_pull_one:
  assumes "safe w" "kept d0 d" "bound_to bs d0" "ib \<in> set (zip [0..<length bs] bs)"
    and Q: "\<And>d' f w'. kept d0 d' \<Longrightarrow> safe w' \<Longrightarrow> \<not> panicked f \<Longrightarrow> Q (d', f) w'"
  shows "wp (pull_one env img ib d) Q w"
proof -
  have b: "bound_to bs d" using bound_to_kept assms(2,3) by blast
  have i: "fst ib < length bs" "snd ib = bs ! fst ib" using assms(4) by (auto simp: in_set_zip)
  have n: "fst ib < length (d_members d)" "b_device (snd ib) = m_device (d_members d ! fst ib)"
    using i bound_to_length [OF b] bound_to_nth [OF b] by auto
  show ?thesis
    unfolding pull_one_def
    using assms(1) n(2)
    by (auto simp: wp_simp announced_put intro!: wp_before_member [OF n(1)] wp_after_member
        Q kept_trans [OF assms(2)] split: option.splits elim!: kept_trans)
qed

lemma wp_stop_previous_one:
  assumes "safe w" "kept d0 d" "i < length (d_prev d0)"
    and Q: "\<And>d' f w'. kept d0 d' \<Longrightarrow> safe w' \<Longrightarrow> \<not> panicked f \<Longrightarrow> Q (d', f) w'"
  shows "wp (stop_previous_one env i d) Q w"
proof -
  have n: "i < length (d_prev d)" using assms(2,3) kept_length by simp
  show ?thesis
    unfolding stop_previous_one_def Let_def
    using assms(1)
    by (auto simp: wp_simp announced_put intro!: wp_before_prev [OF n] wp_after_prev
        Q kept_trans [OF assms(2)] split: option.splits elim!: kept_trans)
qed

lemma kept_launched: "kept d (launched i ob d)"
  by (simp add: kept_def launched_def map_key_update member_key_def)

lemma wp_launch_member:
  assumes "safe w" "kept d0 d" "i < length (d_members d)" "b_device b = m_device (d_members d ! i)"
    and Q: "\<And>d' f w'. kept d0 d' \<Longrightarrow> safe w' \<Longrightarrow> \<not> panicked f \<Longrightarrow> Q (d', f) w'"
  shows "wp (launch_member env i b c d) Q w"
proof -
  have "kept d' (launched i ob d')" for d' ob by (rule kept_launched)
  then have kl: "kept (launched i ob d') d'' = kept d' d''" for ob d' d'' by (rule kept_iff_left)
  show ?thesis
    unfolding launch_member_def
    using assms(1,4)
    by (auto simp: wp_simp announced_put kl intro!: wp_before_member [OF assms(3)] wp_after_member
        Q kept_trans [OF assms(2)] split: option.splits elim!: kept_trans)
qed

lemma wp_launch_one:
  assumes "safe w" "kept d0 d" "bound_to bs d0" "role \<in> set (map b_role bs)"
    and built: "build_candidate (d_id d) (d_generation d) r cfg md (binding_by_role bs role) head \<noteq> None"
    and Q: "\<And>d' f w'. kept d0 d' \<Longrightarrow> safe w' \<Longrightarrow> \<not> panicked f \<Longrightarrow> Q (d', f) w'"
  shows "wp (launch_one env r cfg md bs head role d) Q w"
proof -
  have b: "bound_to bs d" using bound_to_kept assms(2,3) by blast
  obtain i where i: "member_index_by_role (d_members d) role = Some i" "i < length bs"
    "binding_by_role bs role = bs ! i" using bound_to_role [OF b assms(4)] by blast
  obtain c where c: "build_candidate (d_id d) (d_generation d) r cfg md (bs ! i) head = Some c"
    using built i(3) by auto
  show ?thesis
    unfolding launch_one_def Let_def i(3) c i(1) option.case
    by (rule wp_launch_member [OF assms(1,2)])
      (use i bound_to_length [OF b] bound_to_nth [OF b] Q in auto)
qed

text \<open>A deployment that passed the gate, stored durably.\<close>

definition promoted :: "string \<Rightarrow> deployment \<Rightarrow> world \<Rightarrow> bool" where
  "promoted expected d w \<longleftrightarrow>
     d_state d = StateRunning \<and> all_running (d_members d) \<and>
     (\<exists>t. d_last_test d = Some t \<and> validate_promotion_result t expected = None) \<and>
     store_get (w_docs w) (d_id d) = Some d \<and> w_disk w = Some (w_docs w)"

lemma kept_members:
  "map member_key ms = map member_key (d_members d) \<Longrightarrow> kept d (d\<lparr>d_members := ms\<rparr>)"
  by (simp add: kept_def)

lemma journal_last_test [simp]:
  "d_members (d\<lparr>d_last_test := x\<rparr>) = d_members d" by simp

lemma store_get_upsert [simp]: "d_id d = i \<Longrightarrow> store_get (upsert_by d_id d docs) i = Some d"
  by (auto simp add: store_get_def upsert_by_get)

text \<open>Everything of \<open>kept\<close> but the state, which promotion changes.\<close>

definition same_group :: "deployment \<Rightarrow> deployment \<Rightarrow> bool" where
  "same_group d d' \<longleftrightarrow> kept (d\<lparr>d_state := d_state d'\<rparr>) d'"

lemma wp_await_promotion:
  assumes "safe w"
    and Q: "\<And>d' f w'. same_group d d' \<Longrightarrow> safe w' \<Longrightarrow> \<not> panicked f \<Longrightarrow>
      (f = None \<Longrightarrow> promoted (expected_model cfg (rq_model_path r \<noteq> [])) d' w') \<Longrightarrow> Q (d', f) w'"
  shows "wp (await_promotion env r cfg d) Q w"
  unfolding await_promotion_def Let_def
  using assms(1)
  by (auto simp: wp_simp promoted_def ready_result_def same_group_def kept_def
      intro!: wp_persist wp_wait_ready Q split: option.splits)

section \<open>Deploying\<close>

text \<open>When building a candidate cannot panic.\<close>

definition candidate_ready :: "multi_device \<Rightarrow> binding \<Rightarrow> bool" where
  "candidate_ready md b \<longleftrightarrow>
     (md_requires_fabric md \<longrightarrow> b_fabric_gid b \<noteq> None) \<and>
     (md_driver md = driver_head_recipe \<longrightarrow> md_recipe_opt md \<noteq> None)"

lemma build_candidate_ready:
  "build_candidate i g r cfg md b head \<noteq> None \<longleftrightarrow> candidate_ready md b"
  by (auto simp: build_candidate_def candidate_env_def candidate_ready_def Let_def split: option.splits)

lemma binding_by_role_mem: "role \<in> set (map b_role bs) \<Longrightarrow> binding_by_role bs role \<in> set bs"
proof -
  assume "role \<in> set (map b_role bs)"
  then obtain b where b: "find (\<lambda>b. b_role b = role) bs = Some b"
    by (cases "find (\<lambda>b. b_role b = role) bs") (auto simp: find_None_iff)
  then have "b \<in> set bs" by (auto simp: find_Some_iff)
  with b show ?thesis by (simp add: binding_by_role_def)
qed

lemma kept_same_group: "kept d d' \<Longrightarrow> same_group d' d'' \<Longrightarrow> same_group d d''"
  by (simp add: same_group_def kept_def)

lemma kept_group: "kept d d' \<Longrightarrow> same_group d d'"
  by (simp add: same_group_def kept_def)

lemma wp_deploy:
  assumes "safe w" "bound_to bs d" "set (recipe_launch_order md) \<subseteq> set (map b_role bs)"
    and ready: "\<And>b. b \<in> set bs \<Longrightarrow> candidate_ready md b"
    and Q: "\<And>d' f w'. same_group d d' \<Longrightarrow> safe w' \<Longrightarrow> \<not> panicked f \<Longrightarrow>
      (f = None \<Longrightarrow> promoted (expected_model cfg (rq_model_path r \<noteq> [])) d' w') \<Longrightarrow> Q (d', f) w'"
  shows "wp (deploy env r cfg md bs head d) Q w"
proof -
  have failed: "Q (d', Some f) w'" if "kept d d'" "safe w'" "\<not> panicked (Some f)" for d' f w'
    using that by (intro Q kept_group) simp_all
  have last: "wp (await_promotion env r cfg d') Q w'" if "kept d d'" "safe w'" for d' w'
    by (rule wp_await_promotion [OF that(2)]) (rule Q, use kept_same_group that(1) in auto)
  have launch: "wp (and_then (each (launch_one env r cfg md bs head) (recipe_launch_order md) d')
      (await_promotion env r cfg)) Q w'" if "kept d d'" "safe w'" for d' w'
    unfolding wp_and_then
  proof (rule wp_each [OF that(2,1)])
    fix x d1 w1 Q'
    assume x: "x \<in> set (recipe_launch_order md)" and d1: "kept d d1" "safe w1"
      and Q': "\<And>d' f w'. kept d d' \<Longrightarrow> safe w' \<Longrightarrow> \<not> panicked f \<Longrightarrow> Q' (d', f) w'"
    have "binding_by_role bs x \<in> set bs" using x assms(3) by (intro binding_by_role_mem) blast
    then have "build_candidate (d_id d1) (d_generation d1) r cfg md (binding_by_role bs x) head \<noteq> None"
      using ready build_candidate_ready by blast
    then show "wp (launch_one env r cfg md bs head x d1) Q' w1"
      using x assms(3) by (intro wp_launch_one [OF d1(2,1) assms(2)] Q') auto
  qed (auto intro: last failed split: option.splits)
  have stop: "wp (and_then (each (stop_previous_one env) [0..<length (d_prev d')] d')
      (\<lambda>d. and_then (each (launch_one env r cfg md bs head) (recipe_launch_order md) d)
        (await_promotion env r cfg))) Q w'" if "kept d d'" "safe w'" for d' w'
    unfolding wp_and_then [of "each (stop_previous_one env) [0..<length (d_prev d')] d'"]
    by (rule wp_each [OF that(2,1)], rule wp_stop_previous_one)
      (use kept_length that(1) in \<open>auto intro: launch failed split: option.splits\<close>)
  show ?thesis
    unfolding deploy_def wp_and_then [of "each (pull_one env (cfg_image cfg)) (zip [0..<length bs] bs) d"]
    by (rule wp_each [OF assms(1) kept_refl], rule wp_pull_one)
      (use assms(2) in \<open>auto intro: stop failed split: option.splits\<close>)
qed

end
