(* ===== verification/Deploy_Outcome.thy ===== *)
theory Deploy_Outcome
  imports Deploy_Create_Safety
begin

text \<open>
  What a create reports, from the request to the outcome: selection and preflight only
  read, the plan numbers a new generation above every container it replaces, and the
  outcome of a fresh create is either untouched hosts, a rolled back deployment or a
  promoted one.
\<close>

section \<open>Reading steps\<close>

fun reading :: "event \<Rightarrow> bool" where
  "reading (EvInspect dev c r) = True"
| "reading (EvPreflight p r) = True"
| "reading e = False"

lemma reading_allowed: "reading e \<Longrightarrow> allowed h e \<and> \<not> mutating e"
  by (cases e) simp_all

lemma reading_not_put: "reading e \<Longrightarrow> \<not> is_put e"
  by (cases e) simp_all

text \<open>Only reads happened between two worlds: the store, in memory and on disk, is the same.\<close>

definition reads :: "world \<Rightarrow> world \<Rightarrow> bool" where
  "reads w w' \<longleftrightarrow> w_docs w' = w_docs w \<and> w_disk w' = w_disk w \<and>
     (\<exists>es. w_trace w' = es @ w_trace w \<and> list_all reading es)"

text \<open>No container was touched between two worlds.\<close>

definition untouched :: "world \<Rightarrow> world \<Rightarrow> bool" where
  "untouched w w' \<longleftrightarrow> (\<exists>es. w_trace w' = es @ w_trace w \<and> list_all (\<lambda>e. \<not> mutating e) es)"

lemma reads_refl [simp]: "reads w w"
  by (simp add: reads_def)

lemma reads_event: "reads w w' \<Longrightarrow> reading e \<Longrightarrow> reads w (record_event e w')"
  by (auto simp: reads_def)

lemma reads_clock [simp]: "reads w (w'\<lparr>w_clock := n\<rparr>) = reads w w'"
  by (simp add: reads_def)

lemma reads_untouched: "reads w w' \<Longrightarrow> untouched w w'"
  unfolding reads_def untouched_def list_all_iff using reading_allowed by blast

lemma untouched_put: "untouched w w' \<Longrightarrow> untouched w (put_world d p ok w')"
  by (auto simp: untouched_def)

lemma reads_safe: "reads w w' \<Longrightarrow> safe w \<Longrightarrow> safe w'"
proof -
  have "guarded allowed (es @ h)" if "list_all reading es" "guarded allowed h" for es h
    using that by (induction es) (auto dest: reading_allowed)
  moreover have "journaled_docs (es @ h) docs = journaled_docs h docs" if "list_all reading es" for es h docs
    using that by (induction es) (auto dest: reading_not_put)
  ultimately show "reads w w' \<Longrightarrow> safe w \<Longrightarrow> safe w'"
    by (auto simp: reads_def store_ok_def store_synced_def split: option.splits)
qed

section \<open>Selection\<close>

text \<open>A binding but for the container observed on it.\<close>

definition same_place :: "binding \<Rightarrow> binding \<Rightarrow> bool" where
  "same_place b b' \<longleftrightarrow> b'\<lparr>b_observed := []\<rparr> = b\<lparr>b_observed := []\<rparr>"

definition generations_below :: "member list \<Rightarrow> int \<Rightarrow> bool" where
  "generations_below ms gen \<longleftrightarrow> 0 \<le> gen \<and> list_all (\<lambda>m. m_generation m \<le> gen) ms"

lemma same_place_refl [simp]: "same_place b b"
  by (simp add: same_place_def)

lemma same_place_observed [simp]: "same_place b (b\<lparr>b_observed := x\<rparr>)"
  by (simp add: same_place_def)

lemma same_place_fields:
  assumes "same_place b b'"
  shows "b_role b' = b_role b" "b_device b' = b_device b" "b_fabric_gid b' = b_fabric_gid b"
    "b_fabric_address b' = b_fabric_address b" "b_service_address b' = b_service_address b"
  using assms by (cases b; cases b'; simp add: same_place_def)+

lemma wp_inspect_selected:
  assumes "reads w0 w" "generations_below prev gen" "list_all2 same_place olds seen"
    and "\<And>e w'. reads w0 w' \<Longrightarrow> \<not> is_panic e \<Longrightarrow> Q (Inl e) w'"
    and "\<And>bs' prev' gen' w'. reads w0 w' \<Longrightarrow> list_all2 same_place (olds @ bs) bs' \<Longrightarrow>
      generations_below prev' gen' \<Longrightarrow> Q (Inr (bs', prev', gen')) w'"
  shows "wp (inspect_selected env md seen bs prev gen) Q w"
  using assms
proof (induction bs arbitrary: seen olds prev gen w)
  case Nil
  then show ?case by (simp add: wp_simp)
next
  case (Cons b bs)
  have skip: "wp (inspect_selected env md (seen @ [b']) bs prev' gen') Q w'"
    if "reads w0 w'" "same_place b b'" "generations_below prev' gen'" for b' prev' gen' w'
    by (rule Cons.IH [where olds = "olds @ [b]"])
      (use that Cons.prems in \<open>simp_all add: list_all2_appendI\<close>)
  have higher: "gen < m_generation m \<Longrightarrow> generations_below (prev @ [m]) (m_generation m)"
    and lower: "\<not> gen < m_generation m \<Longrightarrow> generations_below (prev @ [m]) gen" for m
    using Cons.prems(2) by (auto simp: generations_below_def list_all_iff)
  show ?case
    unfolding inspect_selected.simps
    using Cons.prems(1,2)
    by (auto simp: wp_simp Let_def reads_event intro!: skip Cons.prems(4) higher lower)
qed

section \<open>Planning and preflight\<close>

lemma candidate_built:
  assumes "candidate_ready md b"
  obtains c where "build_candidate i g r cfg md b head = Some c"
  using assms build_candidate_ready [of i g r cfg md b head] by blast

lemma plan_members_Some:
  assumes "\<And>b. b \<in> set bs \<Longrightarrow> candidate_ready md b"
  obtains ms where "plan_members d r cfg md head bs = Some ms" "map m_role ms = map b_role bs"
    "map m_device ms = map b_device bs" "list_all (\<lambda>m. m_generation m = d_generation d) ms"
proof -
  have "\<exists>ms. plan_members d r cfg md head bs = Some ms \<and> map m_role ms = map b_role bs \<and>
    map m_device ms = map b_device bs \<and> list_all (\<lambda>m. m_generation m = d_generation d) ms"
    using assms
  proof (induction bs)
    case (Cons b bs)
    have "candidate_ready md b" using Cons.prems by simp
    then obtain c where "build_candidate (d_id d) (d_generation d) r cfg md b head = Some c"
      by (rule candidate_built)
    moreover obtain ms where "plan_members d r cfg md head bs = Some ms" "map m_role ms = map b_role bs"
      "map m_device ms = map b_device bs" "list_all (\<lambda>m. m_generation m = d_generation d) ms"
      using Cons.IH Cons.prems by auto
    ultimately show ?case by (simp add: planned_member_def)
  qed simp
  then show ?thesis using that by blast
qed

lemma wp_preflight_all:
  assumes "reads w0 w" "\<And>b m. (b, m) \<in> set bms \<Longrightarrow> candidate_ready md b"
    and "\<And>e w'. reads w0 w' \<Longrightarrow> no_panic e \<Longrightarrow> Q e w'"
  shows "wp (preflight_all env d r cfg md head bms) Q w"
  using assms
proof (induction bms arbitrary: w)
  case (Cons bm bms)
  obtain b m where bm: "bm = (b, m)" by (cases bm)
  have "candidate_ready md b" by (rule Cons.prems(2) [of b m]) (simp add: bm)
  then obtain c where c: "build_candidate (d_id d) (d_generation d) r cfg md b head = Some c"
    by (rule candidate_built)
  have next_one: "wp (preflight_all env d r cfg md head bms) Q w'" if "reads w0 w'" for w'
    by (rule Cons.IH [OF that _ Cons.prems(3)]) (use Cons.prems(2) in auto)
  show ?case
    unfolding bm preflight_all.simps c option.case
    using Cons.prems(1) by (auto simp: wp_simp reads_event intro!: next_one Cons.prems(3))
qed (simp add: wp_simp)

section \<open>The outcome of a fresh create\<close>

text \<open>The members carry the deployment's generation, every replaced container an older one.\<close>

definition numbered :: "deployment \<Rightarrow> bool" where
  "numbered d \<longleftrightarrow> list_all (\<lambda>m. m_generation m = d_generation d) (d_members d) \<and>
     list_all (\<lambda>m. m_generation m < d_generation d) (d_prev d)"

lemma numbered_key:
  "numbered d \<longleftrightarrow> list_all (\<lambda>k. snd (snd k) = d_generation d) (map member_key (d_members d)) \<and>
     list_all (\<lambda>k. snd (snd k) < d_generation d) (map member_key (d_prev d))"
  by (simp add: numbered_def member_key_def list_all_iff)

lemma numbered_group: "same_group d d' \<Longrightarrow> numbered d \<Longrightarrow> numbered d'"
  unfolding numbered_key same_group_def kept_def by simp

definition fresh_outcome ::
  "string \<Rightarrow> create_request \<Rightarrow> world \<Rightarrow> create_outcome \<times> gerror option \<Rightarrow> world \<Rightarrow> bool" where
  "fresh_outcome expected r w x w' \<longleftrightarrow>
     safe w' \<and> no_panic (snd x) \<and>
     (if co_created (fst x)
      then snd x = None \<and> promoted expected (co_deployment (fst x)) w' \<and> numbered (co_deployment (fst x)) \<and>
           d_key (co_deployment (fst x)) = rq_key r \<and> d_hash (co_deployment (fst x)) = request_hash r
      else snd x \<noteq> None \<and>
           (fst x = outcome_zero \<and> untouched w w' \<or>
            d_state (co_deployment (fst x)) \<in> {StateRolledBack, StateRollbackFailed}))"

lemma outcome_of_fields [simp]: "co_created (outcome_of d) = False" "co_deployment (outcome_of d) = d"
  "co_created outcome_zero = False"
  by (simp_all add: outcome_of_def outcome_zero_def)

lemma wp_create_rollback:
  assumes "safe w" "\<not> is_panic cause"
  shows "wp (create_rollback env d cause why red) (fresh_outcome expected r w0) w"
  unfolding create_rollback_def wp_simp
  by (rule wp_rollback_locked [OF assms(1)])
    (use assms(2) in \<open>auto simp: fresh_outcome_def split: option.splits\<close>)

text \<open>What selection has to establish for the effects that follow.\<close>

lemma fresh_untouched:
  "safe w' \<Longrightarrow> untouched w0 w' \<Longrightarrow> \<not> is_panic e \<Longrightarrow> fresh_outcome expected r w0 (outcome_zero, Some e) w'"
  by (simp add: fresh_outcome_def)

lemma fresh_created:
  assumes "safe w'" "promoted expected d' w'" "same_group d d'" "numbered d" "d_key d = rq_key r"
    "d_hash d = request_hash r"
  shows "fresh_outcome expected r w0 (\<lparr>co_deployment = d', co_created = True\<rparr>, None) w'"
  using assms numbered_group [OF assms(3,4)] by (simp add: fresh_outcome_def same_group_def kept_def)

lemma wp_effects:
  assumes "safe w" "bound_to bs d" "set (recipe_launch_order md) \<subseteq> set (map b_role bs)"
    "\<And>b. b \<in> set bs \<Longrightarrow> candidate_ready md b" "numbered d" "d_key d = rq_key r" "d_hash d = request_hash r"
  shows "wp (do {
           (d3, f) \<leftarrow> deploy env r cfg md bs head d;
           (case f of
              None \<Rightarrow> State_Monad.return (\<lparr>co_deployment = d3, co_created = True\<rparr>, None)
            | Some (Fail cause why) \<Rightarrow> create_rollback env d3 cause why (rq_api_key r)
            | Some (Panic s) \<Rightarrow> State_Monad.return (outcome_zero, Some (GoPanic s)))
         }) (fresh_outcome (expected_model cfg (rq_model_path r \<noteq> [])) r w0) w"
  unfolding wp_bind
proof (rule wp_deploy [OF assms(1-4)], goal_cases)
  case (2 d' f w')
  show ?case
  proof (cases f)
    case None
    with 2 assms(5-7) show ?thesis by (auto simp: wp_simp intro!: fresh_created)
  next
    case (Some g)
    with 2 show ?thesis by (cases g) (auto simp: wp_simp intro!: wp_create_rollback)
  qed
qed

section \<open>Fresh creates\<close>

lemma binding_by_role_role: "role \<in> set (map b_role bs) \<Longrightarrow> b_role (binding_by_role bs role) = role"
proof -
  assume "role \<in> set (map b_role bs)"
  then obtain b where b: "find (\<lambda>b. b_role b = role) bs = Some b"
    by (cases "find (\<lambda>b. b_role b = role) bs") (auto simp: find_None_iff)
  then have "b_role b = role" by (auto simp: find_Some_iff)
  with b show ?thesis by (simp add: binding_by_role_def)
qed

lemma ordered_bindings_roles:
  assumes "request_bindings_ok cfg md bs" "validated_topology md"
  shows "map b_role (ordered_bindings bs md) = [role_head, role_worker]"
    and "set (ordered_bindings bs md) \<subseteq> set bs"
proof -
  have roles: "md_roles md = [head_role, worker_role]" using assms(2) by (simp add: validated_topology_def)
  have r: "set (map b_role (rev bs)) = {role_head, role_worker}"
    using assms(1) by (simp add: request_bindings_ok_def)
  show "map b_role (ordered_bindings bs md) = [role_head, role_worker]"
    using r by (simp add: ordered_bindings_def roles binding_map_get_def head_role_def worker_role_def
        binding_by_role_role)
  show "set (ordered_bindings bs md) \<subseteq> set bs"
    using r binding_by_role_mem [of role_head "rev bs"] binding_by_role_mem [of role_worker "rev bs"]
    by (simp add: ordered_bindings_def roles binding_map_get_def head_role_def worker_role_def)
qed

lemma same_places_roles: "list_all2 same_place bs bs' \<Longrightarrow> map b_role bs' = map b_role bs"
  by (induction rule: list_all2_induct) (simp_all add: same_place_fields)

lemma same_places_mem:
  "list_all2 same_place bs bs' \<Longrightarrow> b' \<in> set bs' \<Longrightarrow> \<exists>b \<in> set bs. same_place b b'"
  by (induction rule: list_all2_induct) auto

lemma admitted_candidate_ready:
  assumes "binding_ok cfg md b" "md_driver md = driver_head_recipe \<longrightarrow> md_recipe_opt md \<noteq> None"
  shows "candidate_ready md b"
  using assms by (auto simp: candidate_ready_def binding_ok_def check_fabric_def split: if_splits option.splits)

lemma recipe_launch_roles:
  "validated_topology md \<Longrightarrow> set (recipe_launch_order md) \<subseteq> {role_head, role_worker}"
  by (auto simp: validated_topology_def recipe_launch_order_def head_role_def worker_role_def)

lemma selected_ready:
  assumes ok: "request_bindings_ok cfg md bs" and top: "validated_topology md"
    and driver: "md_driver md = driver_head_recipe \<longrightarrow> md_recipe_opt md \<noteq> None"
    and places: "list_all2 same_place (ordered_bindings bs md) bs'" and b': "b' \<in> set bs'"
  shows "candidate_ready md b'"
proof -
  obtain b where b: "b \<in> set (ordered_bindings bs md)" "same_place b b'"
    using same_places_mem [OF places b'] by blast
  have "binding_ok cfg md b"
    using b(1) ordered_bindings_roles(2) [OF ok top] ok by (auto simp: request_bindings_ok_def list_all_iff)
  then have "candidate_ready md b" using driver by (rule admitted_candidate_ready)
  then show ?thesis using same_place_fields(3) [OF b(2)] by (simp add: candidate_ready_def)
qed

lemma planned:
  assumes ok: "request_bindings_ok cfg md (rq_bindings r)" and top: "validated_topology md"
    and driver: "md_driver md = driver_head_recipe \<longrightarrow> md_recipe_opt md \<noteq> None"
    and places: "list_all2 same_place (ordered_bindings (rq_bindings r) md) bs"
    and gens: "generations_below prev gen"
  obtains ms where
    "plan_members (new_deployment i r cfg md bs prev gen now) r cfg md head bs = Some ms"
    "bound_to bs (new_deployment i r cfg md bs prev gen now\<lparr>d_members := ms\<rparr>)"
    "numbered (new_deployment i r cfg md bs prev gen now\<lparr>d_members := ms\<rparr>)"
    "d_key (new_deployment i r cfg md bs prev gen now\<lparr>d_members := ms\<rparr>) = rq_key r"
    "d_hash (new_deployment i r cfg md bs prev gen now\<lparr>d_members := ms\<rparr>) = request_hash r"
proof -
  let ?d = "new_deployment i r cfg md bs prev gen now"
  obtain ms where ms: "plan_members ?d r cfg md head bs = Some ms" "map m_role ms = map b_role bs"
    "map m_device ms = map b_device bs" "list_all (\<lambda>m. m_generation m = d_generation ?d) ms"
    by (rule plan_members_Some [of bs md ?d r cfg head]) (rule selected_ready [OF ok top driver places])
  show ?thesis
    by (rule that [OF ms(1)])
      (use ms gens in \<open>auto simp: bound_to_def numbered_def new_deployment_def generations_below_def list_all_iff\<close>)
qed

lemma selected_roles:
  assumes "request_bindings_ok cfg md bs" "validated_topology md"
    and "list_all2 same_place (ordered_bindings bs md) bs'"
  shows "set (map b_role bs') = {role_head, role_worker}"
    and "set (recipe_launch_order md) \<subseteq> set (map b_role bs')"
  using same_places_roles [OF assms(3)] ordered_bindings_roles(1) [OF assms(1,2)]
    recipe_launch_roles [OF assms(2)] by simp_all

text \<open>From the plan on: preflight, the journal entry, the effects.\<close>

lemma wp_planned:
  assumes "safe w" "reads w w1" "bound_to bs d" "set (recipe_launch_order md) \<subseteq> set (map b_role bs)"
    and ready: "\<And>b. b \<in> set bs \<Longrightarrow> candidate_ready md b"
    and d: "numbered d" "d_key d = rq_key r" "d_hash d = request_hash r"
  shows "wp (do {
           pf \<leftarrow> preflight_all env d r cfg md head (zip bs ms);
           (case pf of
              Some e \<Rightarrow> State_Monad.return (outcome_zero, Some e)
            | None \<Rightarrow> do {
                (d2, e) \<leftarrow> persist_progress env d PhasePlanned ''journal'' [] ''completed''
                             ''candidate and previous members selected'';
                (case e of
                   Some err \<Rightarrow>
                     State_Monad.return
                       (outcome_zero, Some (wrap_error ErrorDependency ''journal pending deployment'' err))
                 | None \<Rightarrow> do {
                     (d3, f) \<leftarrow> deploy env r cfg md bs head d2;
                     (case f of
                        None \<Rightarrow> State_Monad.return (\<lparr>co_deployment = d3, co_created = True\<rparr>, None)
                      | Some (Fail cause why) \<Rightarrow> create_rollback env d3 cause why (rq_api_key r)
                      | Some (Panic s) \<Rightarrow> State_Monad.return (outcome_zero, Some (GoPanic s)))
                   })
              })
         }) (fresh_outcome (expected_model cfg (rq_model_path r \<noteq> [])) r w) w1"
  unfolding wp_bind
proof (rule wp_preflight_all [OF assms(2)], goal_cases)
  case (1 b m)
  then show ?case by (intro ready) (auto dest: set_zip_leftD)
next
  case (2 e w2)
  have w2: "safe w2" "untouched w w2" using 2(1) assms(1) reads_safe reads_untouched by blast+
  show ?case
  proof (cases e)
    case (Some err)
    with 2 w2 show ?thesis by (simp add: wp_simp fresh_untouched)
  next
    case None
    show ?thesis
      unfolding None option.case wp_bind
    proof (rule wp_persist, goal_cases)
      case (1 d2 e2 p now)
      have put: "safe (put_world d2 p (e2 = None) w2)" "untouched w (put_world d2 p (e2 = None) w2)"
        using w2 untouched_put by simp_all
      have k: "kept d d2" using 1(1) kept_journal by simp
      show ?case
      proof (cases e2)
        case (Some err)
        with 1 put show ?thesis by (simp add: wp_simp fresh_untouched)
      next
        case None
        have "bound_to bs d2" by (rule bound_to_kept [OF k assms(3)])
        moreover have "numbered d2" by (rule numbered_group [OF kept_group [OF k] d(1)])
        ultimately show ?thesis
          unfolding None option.case prod.case using put(1) None k d assms(4)
          by (intro wp_effects ready) (simp_all add: kept_def)
      qed
    qed
  qed
qed

lemma wp_create_fresh:
  assumes "safe w" and ok: "request_bindings_ok cfg md (rq_bindings r)" and top: "validated_topology md"
    and driver: "md_driver md = driver_head_recipe \<longrightarrow> md_recipe_opt md \<noteq> None"
  shows "wp (create_fresh env r cfg md)
           (fresh_outcome (expected_model cfg (rq_model_path r \<noteq> [])) r w) w"
proof -
  have refuse: "fresh_outcome x r w (outcome_zero, Some e) w'" if "reads w w'" "\<not> is_panic e" for x e w'
    using that assms(1) reads_safe reads_untouched by (intro fresh_untouched) blast+
  show ?thesis
    unfolding create_fresh_def wp_bind wp_ask
  proof (rule wp_inspect_selected [where olds = "[]", OF reads_refl], goal_cases)
    case (3 e w')
    then show ?case by (simp add: wp_simp refuse)
  next
    case (4 bs prev gen w1)
    then have places: "list_all2 same_place (ordered_bindings (rq_bindings r) md) bs"
      and gens: "generations_below prev gen" by simp_all
    define head where "head = (case bs of [] \<Rightarrow> [] | b # _ \<Rightarrow> b_fabric_address b)"
    define w2 where "w2 = w1\<lparr>w_clock := Suc (w_clock w1)\<rparr>"
    define d0 where "d0 = new_deployment (en_new_id env (w_trace w)) r cfg md bs prev gen (en_now env (w_clock w1))"
    obtain ms where ms: "plan_members d0 r cfg md head bs = Some ms" "bound_to bs (d0\<lparr>d_members := ms\<rparr>)"
      "numbered (d0\<lparr>d_members := ms\<rparr>)" "d_key (d0\<lparr>d_members := ms\<rparr>) = rq_key r"
      "d_hash (d0\<lparr>d_members := ms\<rparr>) = request_hash r"
      unfolding d0_def by (rule planned [OF ok top driver places gens])
    have w2: "reads w w2" using 4(1) by (simp add: w2_def)
    show ?case
      unfolding sum.case prod.case wp_bind wp_read_clock Let_def w2_def [symmetric]
        d0_def [symmetric] head_def [symmetric] ms(1) option.case
      by (rule wp_planned [OF assms(1) w2 ms(2) selected_roles(2) [OF ok top places]
            selected_ready [OF ok top driver places] ms(3-5), unfolded wp_bind])
  qed (simp_all add: generations_below_def)
qed

text \<open>
  A head-recipe driver without recipe: the plan panics before any effect. No registered
  recipe is like that.
\<close>

lemma plan_members_None:
  "bs \<noteq> [] \<Longrightarrow> \<not> (md_driver md = driver_head_recipe \<longrightarrow> md_recipe_opt md \<noteq> None) \<Longrightarrow>
   plan_members d r cfg md head bs = None"
proof -
  assume "bs \<noteq> []" and "\<not> (md_driver md = driver_head_recipe \<longrightarrow> md_recipe_opt md \<noteq> None)"
  then obtain b bs' where "bs = b # bs'" and "\<not> candidate_ready md b"
    by (cases bs) (auto simp: candidate_ready_def)
  then show ?thesis using build_candidate_ready [of "d_id d" "d_generation d" r cfg md b head] by simp
qed

lemma wp_create_fresh_safe:
  assumes "safe w" and ok: "request_bindings_ok cfg md (rq_bindings r)" and top: "validated_topology md"
  shows "wp (create_fresh env r cfg md) (\<lambda>x. safe) w"
proof (cases "md_driver md = driver_head_recipe \<longrightarrow> md_recipe_opt md \<noteq> None")
  case True
  show ?thesis
    by (rule wp_mono [OF wp_create_fresh [OF assms True]]) (simp add: fresh_outcome_def)
next
  case False
  define obs where "obs = ordered_bindings (rq_bindings r) md"
  have "map b_role obs = [role_head, role_worker]"
    unfolding obs_def by (rule ordered_bindings_roles [OF ok top])
  then have ne: "bs \<noteq> []" if "list_all2 same_place obs bs" for bs
    using that list_all2_lengthD [OF that] by auto
  have safe: "safe w'" if "reads w w'" for w' using reads_safe [OF that] assms(1) by blast
  show ?thesis
    unfolding create_fresh_def wp_bind wp_ask obs_def [symmetric]
    by (rule wp_inspect_selected [where olds = "[]", OF reads_refl])
      (use safe in \<open>auto simp: wp_simp Let_def generations_below_def plan_members_None [OF ne False]\<close>)
qed

section \<open>Replays and creates\<close>

lemma wp_replay:
  assumes "safe w" and "store_find_key (w_docs w) key = Some prior"
  shows "wp (replay env prior hash) (\<lambda>x. safe) w"
proof -
  have "prior \<in> set (w_docs w)"
    using assms(2) by (auto simp: store_find_key_def find_Some_iff)
  then have "logged (w_trace w) (d_id prior) = Some prior"
    using assms(1) store_ok_mem by blast
  then show ?thesis
    unfolding replay_def
    using assms(1) by (auto simp: wp_simp intro!: wp_rollback_locked wp_reconcile_unsafe split: option.splits)
qed

lemma wp_create:
  assumes "safe w"
  shows "wp (create env request) (\<lambda>x. safe) w"
proof (cases "validate_create_request (en_catalog env) (normalize_request request)")
  case (Inl e)
  with assms show ?thesis by (simp add: create_def Let_def wp_simp)
next
  case (Inr cfg)
  obtain md where md: "cfg_multi cfg = Some md" "validated_topology md"
    "request_bindings_ok cfg md (rq_bindings (normalize_request request))"
    using validate_create_Inr [OF Inr] by metis
  show ?thesis
    using assms by (simp add: create_def Let_def Inr md wp_simp wp_replay wp_create_fresh_safe)
qed

end
