(* ===== verification/Deploy_Properties.thy ===== *)
theory Deploy_Properties
  imports Deploy_Outcome
begin

text \<open>
  The properties of the deployment engine: the invariant of every reachable world, what a
  create reports and when it has no effect, and what reaches the candidates.
\<close>

section \<open>Reachable worlds\<close>

datatype engine_call =
    CallCreate create_request
  | CallStart string string
  | CallStop string
  | CallTest string string
  | CallRollback string
  | CallReconcile

fun serve :: "env \<Rightarrow> engine_call \<Rightarrow> world \<Rightarrow> world" where
  "serve env (CallCreate r) w = snd (run_state (create env r) w)"
| "serve env (CallStart i key) w = snd (run_state (start env i key) w)"
| "serve env (CallStop i) w = snd (run_state (stop env i) w)"
| "serve env (CallTest i key) w = snd (run_state (test env i key) w)"
| "serve env (CallRollback i) w = snd (run_state (rollback env i) w)"
| "serve env CallReconcile w = snd (run_state (reconcile env) w)"

definition initial_world :: world where
  "initial_world = \<lparr>w_trace = [], w_docs = [], w_disk = None, w_clock = 0\<rparr>"

definition reload :: "world \<Rightarrow> world" where
  "reload w = w\<lparr>w_docs := (case w_disk w of None \<Rightarrow> [] | Some docs \<Rightarrow> docs)\<rparr>"

text \<open>A daemon serves calls one at a time and may be restarted between them.\<close>

inductive reachable :: "env \<Rightarrow> world \<Rightarrow> bool" for env where
  reach_initial: "reachable env initial_world"
| reach_call: "reachable env w \<Longrightarrow> reachable env (serve env c w)"
| reach_restart: "reachable env w \<Longrightarrow> reachable env (reload w)"

inductive_cases reachable_cases: "reachable env w"

lemma wp_snd: "wp m (\<lambda>x. P) w = P (snd (run_state m w))"
  by (simp add: wp_def split: prod.splits)

lemma serve_safe: "safe w \<Longrightarrow> safe (serve env c w)"
  by (cases c; simp add: wp_snd [symmetric, where P = safe])
    (auto intro: wp_create wp_start wp_stop wp_test wp_rollback wp_reconcile)

lemma reload_safe: "safe w \<Longrightarrow> safe (reload w)"
  by (auto simp: reload_def store_ok_def store_synced_def split: option.splits)

section \<open>A healthy environment\<close>

text \<open>Every call succeeds, containers run, and the semantic check passes.\<close>

definition healthy :: "env \<Rightarrow> create_request \<Rightarrow> string \<Rightarrow> bool" where
  "healthy env r expected \<longleftrightarrow>
     (\<forall>h s. en_fault env h s = None) \<and>
     (\<forall>h p caps targets. en_preflight env h p caps targets = None) \<and>
     (\<forall>h b img. en_pull env h b img = None) \<and>
     (\<forall>h dev c. en_stop env h dev c = None) \<and>
     (\<forall>h b c. \<exists>ob. en_launch env h b c = Inr ob) \<and>
     (\<forall>h. en_ctx_err env h = None) \<and>
     (\<forall>h dev c. \<exists>ob. en_inspect env h dev c = Inr ob \<and> o_status ob = ''running'' \<and>
        (list_ex (\<lambda>b. b_device b = dev \<and> b_observed b = c) (rq_bindings r) \<longrightarrow> o_deployment ob = [])) \<and>
     (\<forall>h dev c key. \<exists>t. en_test env h dev c key = Inr t \<and> validate_promotion_result t expected = None)"

lemma wp_persist_ok:
  assumes "\<And>h s. en_fault env h s = None"
    and "\<And>d' w'. d' = journal_entry d ph a r s det (en_now env (w_clock w)) \<Longrightarrow> Q (d', None) w'"
  shows "wp (persist_progress env d ph a r s det) Q w"
proof -
  have "first_fault (en_fault env h) steps = None" for h steps
    using assms(1) by (induction steps) (auto split: prod.splits)
  then have put: "wp (store_put env d') P w'" if "\<And>w'. P None w'" for d' P w'
    using that by (simp add: wp_def store_put_def write_store_atomic_def Let_def)
  show ?thesis
    unfolding persist_progress_def wp_simp Let_def journal_entry_def [symmetric]
    by (rule put) (simp add: wp_simp assms(2))
qed

lemma wp_each_ok:
  assumes "kept d0 d"
    and "\<And>x d w Q. x \<in> set xs \<Longrightarrow> kept d0 d \<Longrightarrow> (\<And>d' w'. kept d0 d' \<Longrightarrow> Q (d', None) w') \<Longrightarrow> wp (g x d) Q w"
    and "\<And>d' w'. kept d0 d' \<Longrightarrow> Q (d', None) w'"
  shows "wp (each g xs d) Q w"
  using assms
proof (induction xs arbitrary: d w)
  case (Cons x xs)
  have rest: "wp (each g xs d') Q w'" if "kept d0 d'" for d' w'
    by (rule Cons.IH [OF that _ Cons.prems(3)]) (rule Cons.prems(2), simp_all)
  show ?case
    unfolding each.simps wp_simp by (rule Cons.prems(2) [OF _ Cons.prems(1)]) (simp_all add: rest)
qed (simp add: wp_simp)

lemma healthyD:
  assumes "healthy env r expected"
  shows "en_fault env h s = None" "en_preflight env h p caps targets = None" "en_pull env h b img = None"
    "en_stop env h dev c = None" "en_ctx_err env h = None"
  using assms by (simp_all add: healthy_def)

lemma healthy_launch: "healthy env r expected \<Longrightarrow> en_launch env h b c \<noteq> Inl e"
  unfolding healthy_def by (metis Inl_Inr_False)

lemma healthy_inspect:
  assumes "healthy env r expected"
  shows "en_inspect env h dev c \<noteq> Inl e" "en_inspect env h dev c = Inr ob \<Longrightarrow> o_status ob = ''running''"
    "en_inspect env h dev c = Inr ob \<Longrightarrow> b \<in> set (rq_bindings r) \<Longrightarrow> b_device b = dev \<Longrightarrow>
     b_observed b = c \<Longrightarrow> o_deployment ob = []"
  using assms unfolding healthy_def list_ex_iff by (metis Inl_Inr_False sum.inject(2))+

lemma healthy_test:
  assumes "healthy env r expected"
  shows "en_test env h dev c key \<noteq> Inl e"
    "en_test env h dev c key = Inr t \<Longrightarrow> validate_promotion_result t expected = None"
  using assms unfolding healthy_def by (metis Inl_Inr_False sum.inject(2))+

lemma wp_pull_ok:
  assumes h: "healthy env r expected" and "kept d0 d" and "\<And>d' w'. kept d0 d' \<Longrightarrow> Q (d', None) w'"
  shows "wp (pull_one env img ib d) Q w"
  unfolding pull_one_def before_member_action_def after_member_action_def
  by (auto simp: wp_simp healthyD [OF h] assms(2) intro!: wp_persist_ok assms(3))

lemma wp_stop_previous_ok:
  assumes h: "healthy env r expected" and "kept d0 d" and "\<And>d' w'. kept d0 d' \<Longrightarrow> Q (d', None) w'"
  shows "wp (stop_previous_one env i d) Q w"
  unfolding stop_previous_one_def before_previous_action_def after_previous_action_def Let_def
  by (auto simp: wp_simp healthyD [OF h] assms(2) intro!: wp_persist_ok assms(3))

lemma kept_launched_iff [simp]: "kept d (launched i ob d') = kept d d'"
  by (rule kept_iff) (rule kept_launched)

lemma wp_launch_ok:
  assumes h: "healthy env r expected" and "kept d0 d" "bound_to bs d0" "role \<in> set (map b_role bs)"
    and built: "candidate_ready md (binding_by_role bs role)"
    and Q: "\<And>d' w'. kept d0 d' \<Longrightarrow> Q (d', None) w'"
  shows "wp (launch_one env r' cfg md bs head role d) Q w"
proof -
  have b: "bound_to bs d" using bound_to_kept assms(2,3) by blast
  obtain i where i: "member_index_by_role (d_members d) role = Some i"
    using bound_to_role [OF b assms(4)] by blast
  obtain c where c: "build_candidate (d_id d) (d_generation d) r' cfg md (binding_by_role bs role) head = Some c"
    using built by (rule candidate_built)
  show ?thesis
    unfolding launch_one_def Let_def c i option.case launch_member_def before_member_action_def
      after_member_action_def
    by (auto simp: wp_simp healthyD [OF h] healthy_launch [OF h] assms(2) intro!: wp_persist_ok Q
        split: option.splits)
qed

lemma wp_ready_scan_ok:
  assumes h: "healthy env r expected"
    and Q: "\<And>ms' w'. map member_key ms' = map member_key (seen @ ms) \<Longrightarrow> Q (ms', None, running, prior) w'"
  shows "wp (ready_scan env seen ms running prior) Q w"
  using Q
proof (induction ms arbitrary: seen w)
  case (Cons m ms)
  have step: "wp (ready_scan env (seen @ [observe_member m ob]) ms running prior) Q w'" for ob w'
    by (rule Cons.IH) (rule Cons.prems, simp)
  show ?case
    by (auto simp: wp_simp Let_def healthy_inspect [OF h] intro!: step)
qed (simp add: wp_simp)

lemma member_by_role_key:
  "map member_key ms' = map member_key ms \<Longrightarrow> member_by_role ms role \<noteq> None \<Longrightarrow> member_by_role ms' role \<noteq> None"
proof -
  assume k: "map member_key ms' = map member_key ms" and m: "member_by_role ms role \<noteq> None"
  have "map m_role ms' = map m_role ms" using arg_cong [OF k, of "map fst"] by (simp add: member_key_def comp_def)
  then have "role \<in> set (map m_role ms') \<longleftrightarrow> role \<in> set (map m_role ms)" by simp
  with m show ?thesis
    by (auto simp: member_by_role_def member_index_by_role_def find_index_None)
qed

lemma wp_wait_ready_ok:
  assumes h: "healthy env r expected" and head: "member_by_role ms role_head \<noteq> None"
    and Q: "\<And>ms' t w'. map member_key ms' = map member_key ms \<Longrightarrow> Q (ms', Inr t) w'"
  shows "wp (wait_ready env ms key expected bkc) Q w"
proof -
  have check: "wp (ready_check env key expected ms prior) P w1"
    if P: "\<And>ms' t w'. map member_key ms' = map member_key ms \<Longrightarrow> P (ms', ReadyDone (Inr t)) w'" for prior P w1
    unfolding ready_check_def wp_bind
    by (rule wp_ready_scan_ok [OF h])
      (auto simp: wp_simp healthy_test [OF h] P dest: member_by_role_key [OF _ head] split: option.splits)
  have "wp (wait_loop env key expected cause n ms None) Q w1" for cause n w1
    by (cases n) (auto simp: wp_simp intro!: check Q)
  then show ?thesis unfolding wait_ready_def by (simp add: wp_simp split: prod.splits)
qed

lemma wp_await_ok:
  assumes h: "healthy env r expected" and x: "expected = expected_model cfg (rq_model_path r' \<noteq> [])"
    and head: "member_by_role (d_members d) role_head \<noteq> None"
    and Q: "\<And>d' w'. Q (d', None) w'"
  shows "wp (await_promotion env r' cfg d) Q w"
  unfolding await_promotion_def Let_def x [symmetric]
  using head by (auto simp: wp_simp healthyD [OF h] intro!: wp_persist_ok wp_wait_ready_ok [OF h] Q)

lemma wp_deploy_ok:
  assumes h: "healthy env r expected" and x: "expected = expected_model cfg (rq_model_path r' \<noteq> [])"
    and b: "bound_to bs d" and order: "set (recipe_launch_order md) \<subseteq> set (map b_role bs)"
    and ready: "\<And>b. b \<in> set bs \<Longrightarrow> candidate_ready md b" and head: "role_head \<in> set (map b_role bs)"
    and Q: "\<And>d' w'. Q (d', None) w'"
  shows "wp (deploy env r' cfg md bs address d) Q w"
proof -
  have last: "wp (await_promotion env r' cfg d') Q w'" if k: "kept d d'" for d' w'
  proof -
    obtain i where "member_index_by_role (d_members d') role_head = Some i"
      using bound_to_role [OF bound_to_kept [OF k b] head] by blast
    then have "member_by_role (d_members d') role_head \<noteq> None" by (simp add: member_by_role_def)
    then show ?thesis by (rule wp_await_ok [OF h x]) (rule Q)
  qed
  have launch: "wp (each (launch_one env r' cfg md bs address) (recipe_launch_order md) d') P w'"
    if "kept d d'" "\<And>d' w'. kept d d' \<Longrightarrow> P (d', None) w'" for d' w' P
    by (rule wp_each_ok [OF that(1) wp_launch_ok [OF h _ b]])
      (use that(2) order ready binding_by_role_mem in auto)
  show ?thesis
    unfolding deploy_def wp_and_then
    by (rule wp_each_ok [OF kept_refl wp_pull_ok [OF h]], assumption, assumption)
      (auto intro!: wp_each_ok [where xs = "[0..<n]" for n] wp_stop_previous_ok [OF h] launch last)
qed

lemma wp_inspect_ok:
  assumes h: "healthy env r expected" and "set bs \<subseteq> set (rq_bindings r)" "list_all2 same_place olds seen"
    and "\<And>bs' prev' gen' w'. list_all2 same_place (olds @ bs) bs' \<Longrightarrow> Q (Inr (bs', prev', gen')) w'"
  shows "wp (inspect_selected env md seen bs prev gen) Q w"
  using assms(2-)
proof (induction bs arbitrary: seen olds prev gen w)
  case (Cons b bs)
  have skip: "wp (inspect_selected env md (seen @ [b']) bs prev' gen') Q w'"
    if "same_place b b'" for b' prev' gen' w'
    by (rule Cons.IH [where olds = "olds @ [b]"])
      (use that Cons.prems in \<open>simp_all add: list_all2_appendI\<close>)
  have b: "b \<in> set (rq_bindings r)" using Cons.prems(1) by simp
  show ?case
    unfolding inspect_selected.simps
    by (auto simp: wp_simp Let_def healthy_inspect(1) [OF h] healthy_inspect(3) [OF h _ b] intro!: skip)
qed (simp add: wp_simp)

lemma wp_preflight_ok:
  assumes h: "healthy env r expected" and "\<And>b m. (b, m) \<in> set bms \<Longrightarrow> candidate_ready md b"
    and "\<And>w'. Q None w'"
  shows "wp (preflight_all env d r' cfg md head bms) Q w"
  using assms(2,3)
proof (induction bms arbitrary: w)
  case (Cons bm bms)
  obtain b m where bm: "bm = (b, m)" by (cases bm)
  have "candidate_ready md b" by (rule Cons.prems(1) [of b m]) (simp add: bm)
  then obtain c where c: "build_candidate (d_id d) (d_generation d) r' cfg md b head = Some c"
    by (rule candidate_built)
  have next_one: "wp (preflight_all env d r' cfg md head bms) Q w'" for w'
    by (rule Cons.IH [OF _ Cons.prems(2)]) (use Cons.prems(1) in auto)
  show ?case
    unfolding bm preflight_all.simps c option.case
    by (simp add: wp_simp healthyD [OF h] next_one)
qed (simp add: wp_simp)

lemma wp_create_fresh_ok:
  assumes h: "healthy env r (expected_model cfg (rq_model_path r \<noteq> []))"
    and ok: "request_bindings_ok cfg md (rq_bindings r)" and top: "validated_topology md"
    and driver: "md_driver md = driver_head_recipe \<longrightarrow> md_recipe_opt md \<noteq> None"
  shows "wp (create_fresh env r cfg md) (\<lambda>x w'. co_created (fst x)) w"
  unfolding create_fresh_def wp_bind wp_ask
proof (rule wp_inspect_ok [where olds = "[]", OF h], goal_cases)
  case 1
  show ?case by (rule ordered_bindings_roles(2) [OF ok top])
next
  case (3 bs prev gen w1)
  then have places: "list_all2 same_place (ordered_bindings (rq_bindings r) md) bs" by simp
  note ready = selected_ready [OF ok top driver places]
  note roles = selected_roles [OF ok top places]
  define head where "head = (case bs of [] \<Rightarrow> [] | b # _ \<Rightarrow> b_fabric_address b)"
  define d0 where "d0 = new_deployment (en_new_id env (w_trace w)) r cfg md bs prev gen (en_now env (w_clock w1))"
  obtain ms where ms: "plan_members d0 r cfg md head bs = Some ms" "map m_role ms = map b_role bs"
    "map m_device ms = map b_device bs"
    by (rule plan_members_Some [of bs md d0 r cfg head]) (rule ready)
  have effects: "wp (deploy env r cfg md bs head d2) (\<lambda>x w'. snd x = None) w2"
    if "kept (d0\<lparr>d_members := ms\<rparr>) d2" for d2 w2
    by (rule wp_deploy_ok [OF h refl bound_to_kept [OF that] roles(2) ready])
      (use ms(2,3) roles(1) in \<open>simp_all add: bound_to_def\<close>)
  have final: "wp (do {
       (d3, f) \<leftarrow> deploy env r cfg md bs head d2;
       (case f of
          None \<Rightarrow> State_Monad.return (\<lparr>co_deployment = d3, co_created = True\<rparr>, None)
        | Some (Fail cause why) \<Rightarrow> create_rollback env d3 cause why (rq_api_key r)
        | Some (Panic s) \<Rightarrow> State_Monad.return (outcome_zero, Some (GoPanic s)))
     }) (\<lambda>x w'. co_created (fst x)) w2" if "kept (d0\<lparr>d_members := ms\<rparr>) d2" for d2 w2
    unfolding wp_bind
    by (rule wp_mono [OF effects [OF that]]) (auto simp: wp_simp)
  show ?case
    unfolding sum.case prod.case wp_bind wp_read_clock Let_def d0_def [symmetric] head_def [symmetric]
      ms(1) option.case
    by (rule wp_preflight_ok [OF h], (rule ready, auto dest: set_zip_leftD)[1])
      (auto simp: wp_bind [of "persist_progress env d ph a r s det" for d ph a r s det] healthyD [OF h]
        intro!: wp_persist_ok final)
qed simp

section \<open>A sample environment\<close>

definition sample_observed :: observed where
  "sample_observed = \<lparr>o_id = ''c1'', o_name = ''n1'', o_status = ''running'', o_ownership = OwnershipManaged,
     o_managed = True, o_generation = 1, o_deployment = [], o_role = role_head\<rparr>"

definition sample_test :: test_result where
  "sample_test = \<lparr>tr_ok = True, tr_metrics_ready = True, tr_message = [], tr_model = tf_served_model,
     tr_response = ''ok'', tr_tested_at = 0\<rparr>"

definition sample_env :: env where
  "sample_env = \<lparr>en_catalog = [glm53_tensorfold_cfg], en_readiness_timeout = 0, en_readiness_interval = 0,
     en_now = int, en_new_id = (\<lambda>h. ''dep-1''), en_fault = (\<lambda>h s. None),
     en_preflight = (\<lambda>h p caps targets. None), en_pull = (\<lambda>h b img. None),
     en_inspect = (\<lambda>h dev c. Inr sample_observed), en_stop = (\<lambda>h dev c. None),
     en_stop_managed = (\<lambda>h d m. None), en_launch = (\<lambda>h b c. Inr sample_observed),
     en_wait_running = (\<lambda>h dev c. None), en_test = (\<lambda>h dev c key. Inr sample_test),
     en_capture = (\<lambda>h d m key. Inr (LogCapture [] False)), en_remove_managed = (\<lambda>h d m. None),
     en_restart = (\<lambda>h dev c. None), en_restart_managed = (\<lambda>h d m. None), en_ctx_err = (\<lambda>h. None),
     en_wait = (\<lambda>h timeout interval. (3, None))\<rparr>"

lemma sample_normalized: "normalize_request sample_request = sample_request"
  by (simp add: normalize_request_def sample_request_def normalize_binding_def sample_head_def
      sample_worker_def tensorfold_id_trimmed role_head_def role_worker_def)
    (simp add: trim_space_def go_str)

lemma sample_catalog: "en_catalog sample_env = [glm53_tensorfold_cfg]"
  by (simp add: sample_env_def)

lemma sample_admitted:
  "validate_create_request (en_catalog sample_env) (normalize_request sample_request) = Inr glm53_tensorfold_cfg"
  unfolding sample_normalized sample_catalog by (rule sample_request_valid)

lemma sample_gate: "validate_promotion_result sample_test tf_served_model = None"
  by (simp add: validate_promotion_result_def sample_test_def tf_served_model_def trim_space_def go_str
      equal_fold_def)

lemma sample_multi: "cfg_multi glm53_tensorfold_cfg = Some tf_multi"
  by (simp add: glm53_tensorfold_cfg_def)

lemma sample_driver: "md_recipe_opt tf_multi = Some tf_recipe"
  by (simp add: tf_multi_def)

lemma sample_expected: "expected_model glm53_tensorfold_cfg u = tf_served_model"
  by (simp add: expected_model_def sample_multi) (simp add: tf_multi_def tf_served_model_def)

lemma sample_healthy: "healthy sample_env sample_request tf_served_model"
  by (simp add: healthy_def sample_env_def sample_gate) (simp add: sample_observed_def)

section \<open>The invariant\<close>

lemma reachable_safe: "reachable env w \<Longrightarrow> safe w"
proof (induction rule: reachable.induct)
  case reach_initial
  show ?case by (simp add: initial_world_def store_ok_def store_synced_def)
next
  case (reach_call w c)
  from reach_call.IH show ?case by (rule serve_safe)
next
  case (reach_restart w)
  from reach_restart.IH show ?case by (rule reload_safe)
qed

lemma guarded_events: "guarded G h \<Longrightarrow> h = later @ e # earlier \<Longrightarrow> G earlier e"
  by (induction h arbitrary: later) (auto simp: Cons_eq_append_conv)



section \<open>Creating\<close>

lemma run_wp: "wp m Q w \<Longrightarrow> run_state m w = (x, w') \<Longrightarrow> Q x w'"
  by (simp add: wp_def)

lemma create_admitted:
  assumes "validate_create_request (en_catalog env) (normalize_request req) = Inr cfg"
    and "store_find_key (w_docs w) (rq_key (normalize_request req)) = None" and "cfg_multi cfg = Some md"
  shows "wp (create env req) Q w = wp (create_fresh env (normalize_request req) cfg md) Q w"
  by (simp add: create_def Let_def assms wp_simp)

text \<open>
  C2: creating a deployment for an admitted request with an unused key never panics and
  has exactly three kinds of outcome. It reports success: then the deployment is recorded
  as running, in memory and on disk, all its members were observed running, the semantic
  check of the head passed for the expected model, its members carry its generation, which
  is above that of every container it replaces. Or it fails before any container was
  touched. Or it fails later and the returned deployment is rolled back or marked
  rollback-failed.
\<close>

theorem create_outcome_trichotomy:
  assumes "reachable env w"
    and "validate_create_request (en_catalog env) (normalize_request req) = Inr cfg"
    and "store_find_key (w_docs w) (rq_key (normalize_request req)) = None"
    and "cfg_multi cfg = Some md" and "md_driver md = driver_head_recipe \<longrightarrow> md_recipe_opt md \<noteq> None"
    and "run_state (create env req) w = ((outcome, err), w')"
  shows "no_panic err \<and>
    (if co_created outcome
     then err = None \<and> numbered (co_deployment outcome) \<and>
          promoted (expected_model cfg (rq_model_path (normalize_request req) \<noteq> [])) (co_deployment outcome) w'
     else err \<noteq> None \<and>
          (outcome = outcome_zero \<and> untouched w w' \<or>
           d_state (co_deployment outcome) \<in> {StateRolledBack, StateRollbackFailed}))"
proof -
  obtain md' where md': "cfg_multi cfg = Some md'" "validated_topology md'"
    "request_bindings_ok cfg md' (rq_bindings (normalize_request req))"
    using validate_create_Inr [OF assms(2)] by metis
  have "wp (create env req) (fresh_outcome
      (expected_model cfg (rq_model_path (normalize_request req) \<noteq> [])) (normalize_request req) w) w"
    unfolding create_admitted [OF assms(2-4)]
    by (rule wp_create_fresh) (use reachable_safe [OF assms(1)] md' assms(4,5) in auto)
  from run_wp [OF this assms(6)] show ?thesis by (auto simp: fresh_outcome_def split: if_splits)
qed

lemma sample_find_key: "store_find_key (w_docs initial_world) k = None"
  by (simp add: initial_world_def store_find_key_def)

theorem create_outcome_trichotomy_witness:
  "no_panic (snd (fst (run_state (create sample_env sample_request) initial_world)))"
proof -
  obtain outcome err w' where r: "run_state (create sample_env sample_request) initial_world = ((outcome, err), w')"
    by (metis surj_pair)
  show ?thesis
    using create_outcome_trichotomy [OF reach_initial sample_admitted sample_find_key sample_multi _ r]
    by (simp add: r sample_driver)
qed

text \<open>
  C3: with a healthy environment (no storage faults, every device call succeeds, the
  members run and the head answers the semantic check with the expected model), creating
  a deployment for an admitted request with an unused key succeeds.
\<close>

theorem create_succeeds:
  assumes "validate_create_request (en_catalog env) (normalize_request req) = Inr cfg"
    and "store_find_key (w_docs w) (rq_key (normalize_request req)) = None"
    and "cfg_multi cfg = Some md" and "md_driver md = driver_head_recipe \<longrightarrow> md_recipe_opt md \<noteq> None"
    and "healthy env (normalize_request req) (expected_model cfg (rq_model_path (normalize_request req) \<noteq> []))"
  shows "co_created (fst (fst (run_state (create env req) w)))"
proof -
  obtain md' where md': "cfg_multi cfg = Some md'" "validated_topology md'"
    "request_bindings_ok cfg md' (rq_bindings (normalize_request req))"
    using validate_create_Inr [OF assms(1)] by metis
  have "wp (create env req) (\<lambda>x w'. co_created (fst x)) w"
    unfolding create_admitted [OF assms(1-3)]
    by (rule wp_create_fresh_ok [OF assms(5)]) (use md' assms(3,4) in auto)
  then show ?thesis by (simp add: wp_def split: prod.splits)
qed

theorem create_succeeds_witness:
  "co_created (fst (fst (run_state (create sample_env sample_request) initial_world)))"
  by (rule create_succeeds [OF sample_admitted sample_find_key sample_multi])
    (simp_all add: sample_driver sample_expected sample_normalized sample_healthy)

end
