(* ===== verification/Deploy_Lifecycle_Properties.thy ===== *)
theory Deploy_Lifecycle_Properties
  imports Deploy_Properties "HOL-Library.Sublist"
begin

text \<open>
  The properties of the operations on existing deployments: what a successful start, stop
  and rollback guarantee, what recovery may not do, replays, the store, and where the API
  key goes.
\<close>

lemma run_eq: "wp m (\<lambda>x w'. (x, w') = z) w \<Longrightarrow> run_state m w = z"
  by (simp add: wp_def split: prod.splits)

section \<open>The store\<close>

text \<open>
  C27: the store refines a map from identifiers to deployments. A put that succeeds updates
  the map at the deployment's identifier, in memory and on disk. A put that fails leaves
  memory and disk either both as they were or both updated.
\<close>

theorem store_put_refines_map:
  "case run_state (store_put env d) w of (e, w') \<Rightarrow>
     (e = None \<and> store_get (w_docs w') = (store_get (w_docs w))(d_id d \<mapsto> d) \<and> w_disk w' = Some (w_docs w')) \<or>
     (\<exists>x. e = Some x \<and>
        (w_docs w' = w_docs w \<and> w_disk w' = w_disk w \<or>
         store_get (w_docs w') = (store_get (w_docs w))(d_id d \<mapsto> d) \<and> w_disk w' = Some (w_docs w')))"
proof -
  have upd: "store_get (upsert_by d_id d docs) = (store_get docs)(d_id d \<mapsto> d)" for docs
    by (rule ext) (simp add: deployments_store.get_put)
  have "wp (store_put env d) (\<lambda>e w'.
     (e = None \<and> store_get (w_docs w') = (store_get (w_docs w))(d_id d \<mapsto> d) \<and> w_disk w' = Some (w_docs w')) \<or>
     (\<exists>x. e = Some x \<and>
        (w_docs w' = w_docs w \<and> w_disk w' = w_disk w \<or>
         store_get (w_docs w') = (store_get (w_docs w))(d_id d \<mapsto> d) \<and> w_disk w' = Some (w_docs w')))) w"
    by (rule wp_store_put) (simp_all add: upd)
  then show ?thesis by (simp add: wp_def)
qed

section \<open>Replays\<close>

text \<open>
  C25: repeating a request with a key that is already used has no effect at all when the
  recorded deployment is settled or belongs to another request: a settled deployment of
  the same request is returned as recorded, another request's is refused as a conflict,
  and neither the store nor any device is touched.
\<close>

theorem replay_without_effects:
  assumes "validate_create_request (en_catalog env) (normalize_request req) = Inr cfg"
    and "store_find_key (w_docs w) (rq_key (normalize_request req)) = Some prior"
    and "d_hash prior = request_hash (normalize_request req) \<longrightarrow>
         d_state prior \<in> {StateRunning, StateStopped, StateRolledBack}"
  shows "run_state (create env req) w =
    (if d_hash prior = request_hash (normalize_request req) then (outcome_of prior, None)
     else (outcome_zero, Some (wrap_error ErrorConflict ''replay deployment'' (Sentinel ErrIdempotencyConflict))), w)"
proof (rule run_eq)
  show "wp (create env req) (\<lambda>x w'. (x, w') =
    (if d_hash prior = request_hash (normalize_request req) then (outcome_of prior, None)
     else (outcome_zero, Some (wrap_error ErrorConflict ''replay deployment'' (Sentinel ErrIdempotencyConflict))), w)) w"
    using assms by (simp add: create_def Let_def wp_simp replay_def)
qed

definition sample_prior :: deployment where
  "sample_prior = deployment_zero\<lparr>d_id := ''dep-0'', d_key := ''key-1'',
     d_hash := request_hash sample_request, d_state := StateRunning\<rparr>"

theorem replay_without_effects_witness:
  "run_state (create sample_env sample_request) (initial_world\<lparr>w_docs := [sample_prior]\<rparr>) =
     ((outcome_of sample_prior, None), initial_world\<lparr>w_docs := [sample_prior]\<rparr>)"
proof -
  have "store_find_key (w_docs (initial_world\<lparr>w_docs := [sample_prior]\<rparr>)) (rq_key (normalize_request sample_request)) =
      Some sample_prior"
    by (simp add: sample_normalized store_find_key_def) (simp add: sample_prior_def sample_request_def)
  from replay_without_effects [OF sample_admitted this]
  show ?thesis by (simp add: sample_normalized) (simp add: sample_prior_def)
qed

section \<open>The API key\<close>

text \<open>
  C31: the API key of a request reaches nothing but the last argument of the head's
  candidate: another key gives the same deployment record, the same worker candidate, the
  same candidate for a recipe-driven head, and for an ordinary head a candidate that
  differs in that argument only.
\<close>

theorem api_key_confined:
  "build_candidate i g (r\<lparr>rq_api_key := key\<rparr>) cfg md b head =
     map_option (\<lambda>c. if b_role b = role_head \<and> md_driver md \<noteq> driver_head_recipe
                     then c\<lparr>c_args := butlast (c_args c) @ [''--api-key='' @ key]\<rparr> else c)
       (build_candidate i g r cfg md b head) \<and>
   new_deployment i (r\<lparr>rq_api_key := key\<rparr>) cfg md bs prev gen now = new_deployment i r cfg md bs prev gen now"
  by (auto simp: build_candidate_def Let_def container_candidate_def candidate_args_def candidate_model_def
      candidate_volumes_def recipe_candidate_of_def new_deployment_def request_hash_def canonical_request_def
      butlast_append split: option.splits)

section \<open>Stopping\<close>

abbreviation status_at :: "deployment \<Rightarrow> nat \<Rightarrow> string" where
  "status_at d i \<equiv> m_status (d_members d ! i)"

lemma wp_persist_any:
  assumes "\<And>e now w'. Q (journal_entry d ph a r s det now, e) w'"
  shows "wp (persist_progress env d ph a r s det) Q w"
  by (rule wp_persist) (simp add: assms)

lemma status_set_member [simp]:
  "j < length (d_members d) \<Longrightarrow>
   status_at (set_member_status i st d) j = (if i = j then st else status_at d j)"
  by (simp add: set_member_status_def nth_list_update)

lemma length_set_member [simp]: "length (d_members (set_member_status i st d)) = length (d_members d)"
  by (simp add: set_member_status_def)

text \<open>
  The history only grows. \<open>called P h h'\<close>: one of the events added to \<open>h\<close> satisfies \<open>P\<close>.
\<close>

definition called :: "(event \<Rightarrow> bool) \<Rightarrow> history \<Rightarrow> history \<Rightarrow> bool" where
  "called P h h' \<longleftrightarrow> (\<exists>es. h' = es @ h \<and> list_ex P es)"

lemma called_append [simp]: "called P h (es @ h) = list_ex P es"
  by (auto simp: called_def)

lemma suffix_grow [simp]: "suffix h h' \<Longrightarrow> suffix h (e # h')"
  by (rule suffix_ConsI)

lemma called_Cons [simp]:
  assumes "suffix h h'"
  shows "called P h (e # h') = (P e \<or> called P h h')"
proof -
  obtain es where "h' = es @ h" using assms by (rule suffixE)
  then show ?thesis using called_append [of P h "e # es"] by simp
qed

lemma called_later: "called P h h' \<Longrightarrow> suffix h' h'' \<Longrightarrow> called P h h''"
  by (auto simp: called_def elim!: suffixE)

lemma called_earlier: "suffix h0 h \<Longrightarrow> called P h h' \<Longrightarrow> called P h0 h'"
  by (auto simp: called_def elim!: suffixE)

lemma called_mono: "called P h h' \<Longrightarrow> (\<And>e. P e \<Longrightarrow> R e) \<Longrightarrow> called R h h'"
  by (auto simp: called_def list_ex_iff)

lemma wp_persist_grow:
  assumes "\<And>e now p ok w'. w_trace w' = EvPut (journal_entry d ph a r s det now) p ok # w_trace w \<Longrightarrow>
     Q (journal_entry d ph a r s det now, e) w'"
  shows "wp (persist_progress env d ph a r s det) Q w"
  by (rule wp_persist) (simp add: assms)

text \<open>
  A call after which a member is known to be stopped: a managed stop of it that succeeded, or an
  inspection that identified its container and found it stopped.
\<close>

fun stop_done :: "deployment \<Rightarrow> member \<Rightarrow> event \<Rightarrow> bool" where
  "stop_done d m (EvStopManaged d' m' r) =
     (r = None \<and> d_id d' = d_id d \<and> m'\<lparr>m_status := []\<rparr> = m\<lparr>m_status := []\<rparr>)"
| "stop_done d m (EvInspect dev c (Inr ob)) =
     (dev = m_device m \<and> c = member_locator m \<and> validate_managed_identity d m ob = None \<and>
      o_status ob = ''stopped'')"
| "stop_done d m e = False"

lemma stop_done_cong:
  assumes "m'\<lparr>m_status := []\<rparr> = m\<lparr>m_status := []\<rparr>" "d_id d' = d_id d" and "stop_done d' m' e"
  shows "stop_done d m e"
  using assms(3) same_member_fields [OF assms(1)] assms(1,2)
  by (induction d' m' e rule: stop_done.induct) auto

text \<open>
  One stop: the other members are untouched, and without an error this one is stopped, and a call
  has stopped it or found it stopped.
\<close>

definition stopped_step :: "nat \<Rightarrow> deployment \<Rightarrow> history \<Rightarrow> deployment \<times> string option \<Rightarrow> history \<Rightarrow> bool" where
  "stopped_step i d h x h' \<longleftrightarrow> suffix h h' \<and> d_id (fst x) = d_id d \<and>
     same_members (d_members d) (d_members (fst x)) \<and>
     (snd x = None \<longrightarrow> i < length (d_members d) \<longrightarrow>
        status_at (fst x) i = ''stopped'' \<and> called (stop_done d (d_members d ! i)) h h') \<and>
     (\<forall>j < length (d_members d). i \<noteq> j \<longrightarrow> status_at (fst x) j = status_at d j)"

lemma validate_identity_journal [simp]:
  "validate_managed_identity (journal_entry d ph a r s det now) = validate_managed_identity d"
  "validate_managed_identity (set_member_status i st d) = validate_managed_identity d"
  by (simp_all add: validate_managed_identity_def fun_eq_iff set_member_status_def)

lemma wp_stop_one_step:
  "wp (stop_one env i d) (\<lambda>x w'. stopped_step i d (w_trace w) x (w_trace w')) w"
  unfolding stop_one_def Let_def before_member_action_def after_member_action_def
  by (auto simp: wp_simp stopped_step_def intro!: wp_persist_grow)

definition stopped_run ::
  "nat list \<Rightarrow> deployment \<Rightarrow> string list \<Rightarrow> history \<Rightarrow> deployment \<times> string list \<Rightarrow> history \<Rightarrow> bool" where
  "stopped_run is d errs h x h' \<longleftrightarrow> suffix h h' \<and> d_id (fst x) = d_id d \<and>
     same_members (d_members d) (d_members (fst x)) \<and>
     (snd x = [] \<longrightarrow> errs = [] \<and> (\<forall>j < length (d_members d).
        (j \<in> set is \<or> status_at d j = ''stopped'' \<longrightarrow> status_at (fst x) j = ''stopped'') \<and>
        (j \<in> set is \<longrightarrow> called (stop_done d (d_members d ! j)) h h')))"

lemma same_members_trans: "same_members a b \<Longrightarrow> same_members b c \<Longrightarrow> same_members a c"
  by (simp add: same_members_def)

lemma called_stop_cong:
  assumes "same_members (d_members d) (d_members d')" "d_id d' = d_id d" "j < length (d_members d)"
    and "called (stop_done d' (d_members d' ! j)) h h'"
  shows "called (stop_done d (d_members d ! j)) h h'"
  using assms(4) by (rule called_mono) (rule stop_done_cong [OF same_members_nth [OF assms(1,3)] assms(2)])

lemma stopped_run_step:
  assumes step: "stopped_step i d h (d', e) h1"
    and run: "stopped_run is d' (errs @ (case e of None \<Rightarrow> [] | Some msg \<Rightarrow> [msg])) h1 x h'"
  shows "stopped_run (i # is) d errs h x h'"
proof -
  have grow: "suffix h h1" "suffix h1 h'" "suffix h h'"
    using assms suffix_order.trans by (auto simp: stopped_step_def stopped_run_def)
  have same: "same_members (d_members d) (d_members d')" "d_id d' = d_id d"
    "same_members (d_members d) (d_members (fst x))" "d_id (fst x) = d_id d"
    using assms same_members_trans by (auto simp: stopped_step_def stopped_run_def)
  note len = same_members_length [OF same(1)]
  have all_done: "(j \<in> set (i # is) \<or> status_at d j = ''stopped'' \<longrightarrow> status_at (fst x) j = ''stopped'') \<and>
      (j \<in> set (i # is) \<longrightarrow> called (stop_done d (d_members d ! j)) h h')"
    if "e = None" "snd x = []" "j < length (d_members d)" for j
  proof
    show "j \<in> set (i # is) \<or> status_at d j = ''stopped'' \<longrightarrow> status_at (fst x) j = ''stopped''"
      using step run that len by (cases "i = j") (auto simp: stopped_step_def stopped_run_def)
    show "j \<in> set (i # is) \<longrightarrow> called (stop_done d (d_members d ! j)) h h'"
    proof
      assume "j \<in> set (i # is)"
      then consider "j = i" | "j \<in> set is" by auto
      then show "called (stop_done d (d_members d ! j)) h h'"
      proof cases
        case 1
        then have "called (stop_done d (d_members d ! j)) h h1" using step that by (simp add: stopped_step_def)
        then show ?thesis by (rule called_later [OF _ grow(2)])
      next
        case 2
        then have "called (stop_done d' (d_members d' ! j)) h1 h'" using run that len by (simp add: stopped_run_def)
        then show ?thesis by (intro called_earlier [OF grow(1)] called_stop_cong [OF same(1,2) that(3)])
      qed
    qed
  qed
  have "snd x = [] \<longrightarrow> errs = [] \<and> e = None"
    using run by (cases e) (auto simp: stopped_run_def)
  with all_done grow same show ?thesis by (auto simp: stopped_run_def)
qed

lemma wp_stop_all_run:
  "wp (stop_all env is d errs) (\<lambda>x w'. stopped_run is d errs (w_trace w) x (w_trace w')) w"
proof (induction "is" arbitrary: d errs w)
  case (Cons i "is")
  have step: "wp (stop_all env is (fst x) (errs @ (case snd x of None \<Rightarrow> [] | Some msg \<Rightarrow> [msg])))
      (\<lambda>x w'. stopped_run (i # is) d errs (w_trace w0) x (w_trace w')) w1"
    if "stopped_step i d (w_trace w0) x (w_trace w1)" for x w0 w1
    by (rule wp_mono [OF Cons.IH]) (rule stopped_run_step [of i d _ "fst x" "snd x"], use that in simp_all)
  have "wp (stop_one env i d) (\<lambda>x. wp (stop_all env is (fst x)
      (errs @ (case snd x of None \<Rightarrow> [] | Some msg \<Rightarrow> [msg])))
      (\<lambda>x w'. stopped_run (i # is) d errs (w_trace w0) x (w_trace w'))) w0" for w0
    by (rule wp_mono [OF wp_stop_one_step]) (rule step)
  then show ?case
    unfolding stop_all.simps wp_if wp_bind wp_pair by (simp add: wp_simp stopped_run_def)
qed (simp add: wp_simp stopped_run_def)

text \<open>The members the engine stops: those of the launch order.\<close>

definition launched_indexes :: "env \<Rightarrow> deployment \<Rightarrow> nat set" where
  "launched_indexes env d = set (reverse_launch_indexes (en_catalog env) d)"

lemma launched_indexes_cong:
  "d_launch_order d' = d_launch_order d \<Longrightarrow> d_bkc_id d' = d_bkc_id d \<Longrightarrow>
   map m_role (d_members d') = map m_role (d_members d) \<Longrightarrow> launched_indexes env d' = launched_indexes env d"
proof -
  assume a: "d_launch_order d' = d_launch_order d" "d_bkc_id d' = d_bkc_id d"
    "map m_role (d_members d') = map m_role (d_members d)"
  have "member_index_by_role (d_members d') r = member_index_by_role (d_members d) r" for r
  proof -
    have "find_index (\<lambda>x. x = r) (map m_role (d_members d')) = find_index (\<lambda>x. x = r) (map m_role (d_members d))"
      using a(3) by simp
    then show ?thesis by (simp add: member_index_by_role_def find_index_map comp_def)
  qed
  then show ?thesis
    using a by (simp add: launched_indexes_def reverse_launch_indexes_def deployment_launch_order_def)
qed

lemma wp_stop_locked_success:
  assumes "d_state d \<noteq> StateStopped"
  shows "wp (stop_locked env d) (\<lambda>(d', e) w'. e = None \<longrightarrow> d_state d' = StateStopped \<and>
     (\<forall>j \<in> launched_indexes env d. j < length (d_members d) \<longrightarrow> status_at d' j = ''stopped'' \<and>
        called (stop_done d (d_members d ! j)) (w_trace w) (w_trace w')) \<and>
     store_get (w_docs w') (d_id d') = Some d' \<and> w_disk w' = Some (w_docs w')) w"
proof -
  let ?Q = "\<lambda>(d', e) w'. e = None \<longrightarrow> d_state d' = StateStopped \<and>
     (\<forall>j \<in> launched_indexes env d. j < length (d_members d) \<longrightarrow> status_at d' j = ''stopped'' \<and>
        called (stop_done d (d_members d ! j)) (w_trace w) (w_trace w')) \<and>
     store_get (w_docs w') (d_id d') = Some d' \<and> w_disk w' = Some (w_docs w')"
  have last: "wp (if errs \<noteq> [] then do {
        let why = ''group stop incomplete: '' @ join_with '', '' errs;
        (d3, e3) \<leftarrow> persist_progress env (d2\<lparr>d_state := StateFailed, d_error := why\<rparr>)
                     PhaseComplete ''stop_group'' [] ''failed'' why;
        State_Monad.return
          (d3, case e3 of
             Some err \<Rightarrow> Some err
           | None \<Rightarrow> Some (wrap_error ErrorConflict ''stop deployment'' (Errorf (d_error d3))))
      }
      else do {
        (d3, e3) \<leftarrow> persist_progress env (d2\<lparr>d_state := StateStopped\<rparr>) PhaseComplete
                     ''stop_group'' [] ''completed'' ''all managed members stopped'';
        State_Monad.return
          (case e3 of Some err \<Rightarrow> (deployment_zero, Some err) | None \<Rightarrow> (d3, None))
      }) ?Q w2"
    if "stopped_run (reverse_launch_indexes (en_catalog env) d1) d1 [] (w_trace w1) (d2, errs) (w_trace w2)"
      and d1: "launched_indexes env d1 = launched_indexes env d" "d_members d1 = d_members d" "d_id d1 = d_id d"
      and w1: "suffix (w_trace w) (w_trace w1)"
    for d1 d2 errs w1 w2
  proof -
    have stops: "stop_done d1 = stop_done d"
      using stop_done_cong [OF refl, of d1 d] stop_done_cong [OF refl, of d d1] d1(3) by (intro ext) metis
    have "status_at d2 j = ''stopped'' \<and> called (stop_done d (d_members d ! j)) (w_trace w) (w_trace w2)"
      if "errs = []" "j \<in> launched_indexes env d" "j < length (d_members d)" for j
      using \<open>stopped_run _ _ _ _ _ _\<close> that d1 called_earlier [OF w1]
      by (auto simp: stopped_run_def stops launched_indexes_def [symmetric])
    moreover have "suffix (w_trace w) (w_trace w2)"
      using \<open>stopped_run _ _ _ _ _ _\<close> w1 suffix_order.trans by (auto simp: stopped_run_def)
    ultimately show ?thesis
      by (auto simp: wp_simp Let_def intro!: wp_persist split: option.splits)
  qed
  have body: "wp (do {
        (d1, e) \<leftarrow> persist_progress env (d\<lparr>d_state := StateStopping\<rparr>) PhaseStopping ''stop_group'' []
                    ''started'' ''reverse launch order'';
        (case e of
           Some err \<Rightarrow> State_Monad.return (deployment_zero, Some err)
         | None \<Rightarrow> do {
             (d2, errs) \<leftarrow> stop_all env (reverse_launch_indexes (en_catalog env) d1) d1 [];
             (if errs \<noteq> [] then do {
                let why = ''group stop incomplete: '' @ join_with '', '' errs;
                (d3, e3) \<leftarrow> persist_progress env (d2\<lparr>d_state := StateFailed, d_error := why\<rparr>)
                             PhaseComplete ''stop_group'' [] ''failed'' why;
                State_Monad.return
                  (d3, case e3 of
                     Some err \<Rightarrow> Some err
                   | None \<Rightarrow> Some (wrap_error ErrorConflict ''stop deployment'' (Errorf (d_error d3))))
              }
              else do {
                (d3, e3) \<leftarrow> persist_progress env (d2\<lparr>d_state := StateStopped\<rparr>) PhaseComplete
                             ''stop_group'' [] ''completed'' ''all managed members stopped'';
                State_Monad.return
                  (case e3 of Some err \<Rightarrow> (deployment_zero, Some err) | None \<Rightarrow> (d3, None))
              })
           })
      }) ?Q w"
    unfolding wp_bind [of "persist_progress env (d\<lparr>d_state := StateStopping\<rparr>) PhaseStopping ''stop_group'' []
                    ''started'' ''reverse launch order''"]
  proof (rule wp_persist_grow, goal_cases)
    case (1 e now p ok w1)
    show ?case
    proof (cases e)
      case (Some err)
      then show ?thesis by (simp add: wp_simp)
    next
      case None
      show ?thesis
        unfolding None prod.case option.case wp_bind [of "stop_all env is d1 errs" for "is" d1 errs]
        by (rule wp_mono [OF wp_stop_all_run])
          (unfold wp_pair, rule last, simp, rule launched_indexes_cong, simp_all add: 1)
    qed
  qed
  then show ?thesis using assms unfolding stop_locked_def by (simp add: wp_simp)
qed

lemma reverse_launch_bound: "j \<in> launched_indexes env d \<Longrightarrow> j < length (d_members d)"
  by (simp add: launched_indexes_def reverse_launch_indexes_bound)

text \<open>
  C6: when stopping a deployment that was not stopped returns without an error, then for every
  member of its launch order the operation either made a managed stop that succeeded, or made an
  inspection that identified its container and found it stopped: no member is skipped and no
  failed stop is passed over. The members are recorded as stopped, and so is the deployment, in
  memory and on disk.
\<close>

theorem stop_success:
  assumes "store_get (w_docs w) i = Some d" and "d_state d \<noteq> StateStopped"
    and "run_state (stop env i) w = ((d', None), w')"
  shows "d_state d' = StateStopped \<and>
         (\<forall>j \<in> launched_indexes env d. called (stop_done d (d_members d ! j)) (w_trace w) (w_trace w') \<and>
            status_at d' j = ''stopped'') \<and>
         store_get (w_docs w') (d_id d') = Some d' \<and> w_disk w' = Some (w_docs w')"
proof -
  have "wp (stop env i) (\<lambda>(d', e) w'. e = None \<longrightarrow> d_state d' = StateStopped \<and>
     (\<forall>j \<in> launched_indexes env d. j < length (d_members d) \<longrightarrow> status_at d' j = ''stopped'' \<and>
        called (stop_done d (d_members d ! j)) (w_trace w) (w_trace w')) \<and>
     store_get (w_docs w') (d_id d') = Some d' \<and> w_disk w' = Some (w_docs w')) w"
    using wp_stop_locked_success [OF assms(2)] assms(1) by (simp add: stop_def wp_simp)
  from run_wp [OF this assms(3)] show ?thesis using reverse_launch_bound by auto
qed

definition sample_member :: "string \<Rightarrow> member" where
  "sample_member role = \<lparr>m_role = role, m_rank = 0, m_device = ''spark-a'', m_fabric_address = [],
     m_service_address = [], m_service_port = 0, m_container = ''c1'', m_name = ''n1'',
     m_status = ''running'', m_ownership = OwnershipManaged, m_generation = 1\<rparr>"

text \<open>A world with one running deployment whose head is its only member.\<close>

definition sample_running :: deployment where
  "sample_running = deployment_zero\<lparr>d_id := ''dep-0'', d_state := StateRunning, d_generation := 1,
     d_members := [sample_member role_head], d_launch_order := [role_head]\<rparr>"

definition sample_world :: world where
  "sample_world = initial_world\<lparr>w_trace := [EvPut sample_running True True], w_docs := [sample_running],
     w_disk := Some [sample_running]\<rparr>"

definition sample_managed :: env where
  "sample_managed = sample_env\<lparr>en_inspect := (\<lambda>h dev c. Inr (sample_observed\<lparr>o_deployment := ''dep-0''\<rparr>))\<rparr>"

lemma sample_stored: "store_get (w_docs sample_world) ''dep-0'' = Some sample_running"
  by (simp add: sample_world_def store_get_def) (simp add: sample_running_def)

lemma sample_identity:
  "d_id d = ''dep-0'' \<Longrightarrow> validate_managed_identity d (sample_member role_head)
     (sample_observed\<lparr>o_deployment := ''dep-0''\<rparr>) = None"
  by (simp add: validate_managed_identity_def sample_member_def sample_observed_def trim_space_def go_str)

lemma sample_order: "reverse_launch_indexes (en_catalog sample_managed) d = [0]"
  if "d_members d = [m]" "m_role m = role_head" "d_launch_order d = [role_head]"
  using that by (simp add: reverse_launch_indexes_def deployment_launch_order_def member_index_by_role_def)

theorem stop_success_witness:
  "d_state (fst (fst (run_state (stop sample_managed ''dep-0'') sample_world))) = StateStopped"
proof -
  have fault: "en_fault sample_managed h s = None" for h s
    by (simp add: sample_managed_def sample_env_def)
  have inspect: "en_inspect sample_managed h dev c = Inr (sample_observed\<lparr>o_deployment := ''dep-0''\<rparr>)" for h dev c
    by (simp add: sample_managed_def)
  have stop: "en_stop_managed sample_managed h d m = None" for h d m
    by (simp add: sample_managed_def sample_env_def)
  have running: "d_state sample_running = StateRunning" "d_members sample_running = [sample_member role_head]"
    "d_launch_order sample_running = [role_head]" "d_id sample_running = ''dep-0''" "d_generation sample_running = 1"
    by (simp_all add: sample_running_def)
  have one: "wp (stop_one sample_managed 0 d) Q w"
    if "d_members d = [sample_member role_head]" "d_id d = ''dep-0''" "\<And>d' w'. Q (d', None) w'" for d Q w
    unfolding stop_one_def Let_def before_member_action_def after_member_action_def
    using that sample_identity
    by (auto simp: wp_simp inspect stop sample_member_def intro!: wp_persist_ok fault)
  have "wp (stop sample_managed ''dep-0'') (\<lambda>x w'. snd x = None) sample_world"
    unfolding stop_def stop_locked_def
    by (auto simp: wp_simp sample_stored running sample_order journal_entry_def sample_member_def intro!: wp_persist_ok fault one)
  then show ?thesis
    using stop_success [OF sample_stored, of sample_managed] running
    by (cases "run_state (stop sample_managed ''dep-0'') sample_world") (auto simp: wp_def)
qed
end
