(* ===== verification/Deploy_Recovery.thy ===== *)
theory Deploy_Recovery
  imports Deploy_Lifecycle_Properties
begin

text \<open>
  What a successful start and a successful rollback leave behind, and what recovery after a
  restart of the daemon may do to containers.
\<close>

section \<open>Starting\<close>

text \<open>A start that succeeds has promoted the deployment for the model its record expects.\<close>

definition started :: "env \<Rightarrow> deployment \<times> gerror option \<Rightarrow> world \<Rightarrow> bool" where
  "started env x w \<longleftrightarrow> (snd x = None \<longrightarrow>
     (\<exists>expected. expected_stored_model (en_catalog env) (fst x) = Inr expected \<and> promoted expected (fst x) w))"

lemma expected_stored_cong:
  "d_bkc_id d' = d_bkc_id d \<Longrightarrow> d_uses_local d' = d_uses_local d \<Longrightarrow>
   expected_stored_model cat d' = expected_stored_model cat d"
  by (simp add: expected_stored_model_def split: option.split)

lemma expected_stored_journal [simp]:
  "expected_stored_model cat (journal_entry d ph a r s det now) = expected_stored_model cat d"
  "expected_stored_model cat (d\<lparr>d_members := ms\<rparr>) = expected_stored_model cat d"
  "expected_stored_model cat (d\<lparr>d_last_test := t\<rparr>) = expected_stored_model cat d"
  "expected_stored_model cat (d\<lparr>d_state := st\<rparr>) = expected_stored_model cat d"
  by (rule expected_stored_cong; simp)+

text \<open>
  The roles of the managed restarts among the events of a history, in the order they were issued.
\<close>

fun restart_roles :: "history \<Rightarrow> string list" where
  "restart_roles [] = []"
| "restart_roles (EvRestartManaged d m r # es) = restart_roles es @ [m_role m]"
| "restart_roles (e # es) = restart_roles es"

fun is_restart :: "event \<Rightarrow> bool" where
  "is_restart (EvRestartManaged d m r) = True"
| "is_restart e = False"

lemma restart_roles_other [simp]: "\<not> is_restart e \<Longrightarrow> restart_roles (e # es) = restart_roles es"
  by (cases e) simp_all

lemma restart_roles_append: "restart_roles (es @ es') = restart_roles es' @ restart_roles es"
proof (induction es)
  case (Cons e es)
  then show ?case by (cases "is_restart e") (auto elim!: is_restart.elims)
qed simp

text \<open>An inspection that identified the container of a member and found it running.\<close>

fun seen_running :: "deployment \<Rightarrow> member \<Rightarrow> event \<Rightarrow> bool" where
  "seen_running d m (EvInspect dev c (Inr ob)) =
     (dev = m_device m \<and> c = member_locator m \<and> validate_managed_identity d m ob = None \<and>
      o_status ob = ''running'')"
| "seen_running d m e = False"

text \<open>A managed restart of a member that succeeded, or such an inspection.\<close>

fun start_done :: "deployment \<Rightarrow> member \<Rightarrow> event \<Rightarrow> bool" where
  "start_done d m (EvRestartManaged d' m' r) =
     (r = None \<and> d_id d' = d_id d \<and> m'\<lparr>m_status := []\<rparr> = m\<lparr>m_status := []\<rparr>)"
| "start_done d m e = seen_running d m e"

lemma seen_running_cong:
  assumes "m'\<lparr>m_status := []\<rparr> = m\<lparr>m_status := []\<rparr>" "d_id d' = d_id d"
  shows "seen_running d' m' e = seen_running d m e"
  using same_member_fields [OF assms(1)] assms(2)
  by (induction d m e rule: seen_running.induct) simp_all

lemma start_done_cong:
  assumes "m'\<lparr>m_status := []\<rparr> = m\<lparr>m_status := []\<rparr>" "d_id d' = d_id d"
  shows "start_done d' m' e = start_done d m e"
  using assms seen_running_cong [OF assms] by (cases e) simp_all

text \<open>The events of a group that is being started.\<close>

fun startup_event :: "event \<Rightarrow> bool" where
  "startup_event (EvPut d p ok) = True"
| "startup_event (EvInspect dev c r) = True"
| "startup_event (EvRestartManaged d m r) = True"
| "startup_event (EvTest dev c key r) = True"
| "startup_event e = False"

definition role_started :: "deployment \<Rightarrow> history \<Rightarrow> string \<Rightarrow> bool" where
  "role_started d es role \<longleftrightarrow>
     (case member_index_by_role (d_members d) role of
        None \<Rightarrow> False
      | Some j \<Rightarrow> list_ex (start_done d (d_members d ! j)) es)"

text \<open>
  \<open>roles_started d roles es\<close>: the events \<open>es\<close> only start a group; their restarts follow the order
  of \<open>roles\<close>, and each role has a member that was restarted or found running.
\<close>

definition roles_started :: "deployment \<Rightarrow> string list \<Rightarrow> history \<Rightarrow> bool" where
  "roles_started d roles es \<longleftrightarrow> list_all startup_event es \<and> subseq (restart_roles es) roles \<and>
     list_all (role_started d es) roles"

definition starts_roles :: "deployment \<Rightarrow> string list \<Rightarrow> history \<Rightarrow> history \<Rightarrow> bool" where
  "starts_roles d roles h h' \<longleftrightarrow> (\<exists>es. h' = es @ h \<and> roles_started d roles es)"

lemma member_index_same:
  assumes "same_members (d_members d) (d_members d')"
  shows "member_index_by_role (d_members d') role = member_index_by_role (d_members d) role"
proof -
  have "map m_role (map (m_status_update (\<lambda>_. [])) (d_members d')) = map m_role (map (m_status_update (\<lambda>_. [])) (d_members d))"
    using assms by (simp only: same_members_def)
  then have "map m_role (d_members d') = map m_role (d_members d)" by (simp add: comp_def)
  then have "find_index (\<lambda>x. x = role) (map m_role (d_members d')) = find_index (\<lambda>x. x = role) (map m_role (d_members d))"
    by simp
  then show ?thesis by (simp add: member_index_by_role_def find_index_map comp_def)
qed

lemma role_started_same:
  assumes "same_members (d_members d) (d_members d')" "d_id d' = d_id d"
  shows "role_started d' es role = role_started d es role"
proof (cases "member_index_by_role (d_members d) role")
  case None
  then show ?thesis by (simp add: role_started_def member_index_same [OF assms(1)])
next
  case (Some j)
  then have "j < length (d_members d)" by (simp add: member_index_by_role_def find_index_bound)
  from start_done_cong [OF same_members_nth [OF assms(1) this] assms(2)] Some show ?thesis
    by (simp add: role_started_def member_index_same [OF assms(1)] fun_eq_iff list_ex_iff)
qed

lemma starts_roles_Nil [simp]: "starts_roles d [] h h"
  by (simp add: starts_roles_def roles_started_def)

lemma role_started_later: "role_started d es role \<Longrightarrow> role_started d (es2 @ es) role \<and> role_started d (es @ es2) role"
  by (auto simp: role_started_def split: option.splits)

lemma starts_roles_append:
  assumes "starts_roles d rs h h1" and "starts_roles d' roles h1 h2"
    and "same_members (d_members d) (d_members d')" "d_id d' = d_id d"
  shows "starts_roles d (rs @ roles) h h2"
proof -
  obtain es1 es2 where es: "h1 = es1 @ h" "roles_started d rs es1" "h2 = es2 @ h1" "roles_started d' roles es2"
    using assms(1,2) by (auto simp: starts_roles_def)
  have "subseq (restart_roles es1 @ restart_roles es2) (rs @ roles)"
    using es(2,4) by (intro list_emb_append_mono) (simp_all add: roles_started_def)
  moreover have "list_all (role_started d (es2 @ es1)) (rs @ roles)"
    using es(2,4) role_started_same [OF assms(3,4)] role_started_later
    unfolding roles_started_def list_all_iff by auto
  ultimately have "roles_started d (rs @ roles) (es2 @ es1)"
    using es(2,4) by (simp add: roles_started_def restart_roles_append)
  with es(1,3) show ?thesis by (auto simp: starts_roles_def)
qed

lemma starts_roles_put: "starts_roles d [] h (EvPut d' p ok # h)"
  unfolding starts_roles_def by (rule exI [of _ "[EvPut d' p ok]"]) (simp add: roles_started_def)

lemma starts_none_put: "starts_roles d [] h h' \<Longrightarrow> starts_roles d [] h (EvPut d' p ok # h')"
  using starts_roles_append [of d "[]" h h' d "[]"] starts_roles_put by simp

lemma starts_none_probes:
  assumes "probes w1 w2" and "starts_roles d [] h (w_trace w1)"
  shows "starts_roles d [] h (w_trace w2)"
proof -
  obtain es where es: "w_trace w2 = es @ w_trace w1" "list_all probing es"
    using assms(1) by (auto simp: probes_def)
  from es(2) have "list_all startup_event es" "restart_roles es = []"
    by (induction es) (auto elim!: probing.elims)
  with es(1) have "starts_roles d [] (w_trace w1) (w_trace w2)"
    by (auto simp: starts_roles_def roles_started_def)
  with assms(2) show ?thesis using starts_roles_append [of d "[]" h "w_trace w1" d "[]"] by simp
qed

text \<open>The two ways one role is started.\<close>

lemma starts_role_restart:
  assumes "member_index_by_role (d_members d) role = Some i" "d_id d1 = d_id d" "m_role (d_members d ! i) = role"
  shows "starts_roles d [role] h (EvPut d2 p2 k2 # EvRestartManaged d1 (d_members d ! i) None #
           EvInspect dev c x # EvPut d1 p1 k1 # h)"
  unfolding starts_roles_def
  by (rule exI [of _ "[EvPut d2 p2 k2, EvRestartManaged d1 (d_members d ! i) None, EvInspect dev c x, EvPut d1 p1 k1]"])
    (use assms in \<open>simp add: roles_started_def role_started_def\<close>)

lemma starts_role_running:
  assumes "member_index_by_role (d_members d) role = Some i" "seen_running d (d_members d ! i) (EvInspect dev c x)"
  shows "starts_roles d [role] h (EvPut d2 p2 k2 # EvInspect dev c x # EvPut d1 p1 k1 # h)"
  unfolding starts_roles_def
  by (rule exI [of _ "[EvPut d2 p2 k2, EvInspect dev c x, EvPut d1 p1 k1]"])
    (use assms in \<open>simp add: roles_started_def role_started_def\<close>)

lemma index_by_role_role: "member_index_by_role ms role = Some i \<Longrightarrow> m_role (ms ! i) = role"
  by (auto simp: member_index_by_role_def dest: find_index_Some)

lemma wp_restart_all_roles:
  "wp (restart_all env roles d may)
     (\<lambda>x w'. snd x = None \<longrightarrow> starts_roles d roles (w_trace w) (w_trace w')) w"
proof (induction roles arbitrary: d may w)
  case (Cons role roles)
  let ?Q = "\<lambda>x w'. snd x = None \<longrightarrow> starts_roles d (role # roles) (w_trace w) (w_trace w')"
  have rest: "wp (restart_all env roles d2 may') ?Q w2"
    if "starts_roles d [role] (w_trace w) (w_trace w2)" "same_members (d_members d) (d_members d2)" "d_id d2 = d_id d"
    for d2 may' w2
    by (rule wp_mono [OF Cons.IH]) (use starts_roles_append [OF that(1) _ that(2,3)] in auto)
  show ?case
  proof (cases "member_index_by_role (d_members d) role")
    case None
    then show ?thesis by (simp add: wp_simp)
  next
    case (Some i)
    note role = index_by_role_role [OF Some]
    show ?thesis
      unfolding restart_all.simps Some option.case Let_def before_member_action_def after_member_action_def
      by (auto simp: wp_simp role intro!: wp_persist_grow rest starts_role_restart [OF Some]
          starts_role_running [OF Some])
  qed
qed (simp add: wp_simp)

lemma wp_start_ready_success:
  assumes "safe w" "d_state d = StateStarting" "starting (d_id d) (w_trace w)"
  shows "wp (start_ready env key d)
     (\<lambda>x w'. started env x w' \<and> (snd x = None \<longrightarrow> starts_roles dep [] (w_trace w) (w_trace w'))) w"
  unfolding start_ready_def Let_def
  using assms
  by (auto simp: wp_simp started_def promoted_def ready_result_def starting_cleanup
      intro!: wp_persist wp_fail_start wp_wait_ready starts_none_put
      elim!: starting_wait [rotated] starts_none_probes)

lemma started_error [simp]: "started env (d, Some e) w"
  by (simp add: started_def)

text \<open>A group start that succeeds: the deployment is promoted, the roles were started in order.\<close>

definition group_started :: "env \<Rightarrow> deployment \<Rightarrow> history \<Rightarrow> deployment \<times> gerror option \<Rightarrow> world \<Rightarrow> bool" where
  "group_started env d h x w \<longleftrightarrow> started env x w \<and>
     (snd x = None \<longrightarrow> starts_roles d (deployment_launch_order (en_catalog env) d) h (w_trace w))"

lemma group_started_error: "snd x \<noteq> None \<Longrightarrow> group_started env d h x w"
  by (auto simp: group_started_def started_def)

lemma wp_restart_all_success:
  assumes "safe w" "d_state d = StateStarting" "starting (d_id d) (w_trace w)"
  shows "wp (restart_all env roles d may) (\<lambda>x w'. (kept d (fst x) \<and> safe w' \<and> starting (d_id d) (w_trace w')) \<and>
     (snd x = None \<longrightarrow> starts_roles d roles (w_trace w) (w_trace w'))) w"
  by (rule wp_conj [THEN iffD2], rule conjI, rule wp_restart_all [OF assms]) (simp_all add: wp_restart_all_roles)

lemma wp_start_stopped_success:
  assumes "safe w"
  shows "wp (start_stopped env key d) (group_started env d (w_trace w)) w"
proof -
  let ?d1 = "\<lambda>now. journal_entry (d\<lparr>d_state := StateStarting, d_error := []\<rparr>) PhaseStarting ''start_group'' [] ''started'' ''recipe launch order'' now"
  have restarted: "wp (do {
       (d2, f) \<leftarrow> restart_all env (deployment_launch_order (en_catalog env) d1) d1 False;
       (case f of
          Some (True, err) \<Rightarrow> fail_start env d2 err
        | Some (False, err) \<Rightarrow> State_Monad.return (deployment_zero, Some err)
        | None \<Rightarrow> start_ready env key d2)
     }) (group_started env d (w_trace w)) w1"
    if "d1 = ?d1 now" "w1 = put_world d1 True True w" for d1 now w1
  proof -
    have d1: "d_state d1 = StateStarting" "d_id d1 = d_id d" "d_members d1 = d_members d"
      "deployment_launch_order (en_catalog env) d1 = deployment_launch_order (en_catalog env) d"
      by (simp_all add: that(1) deployment_launch_order_def)
    have w1: "safe w1" "starting (d_id d1) (w_trace w1)" using assms d1(1) by (simp_all add: that(2))
    have ready: "wp (start_ready env key d2) (group_started env d (w_trace w)) w2"
      if "kept d1 d2" "safe w2" "starting (d_id d1) (w_trace w2)"
        "starts_roles d1 (deployment_launch_order (en_catalog env) d) (w_trace w1) (w_trace w2)" for d2 w2
    proof -
      have d2: "d_state d2 = StateStarting" "d_id d2 = d_id d1" using that(1) d1(1) by (simp_all add: kept_def)
      have "starts_roles d ([] @ deployment_launch_order (en_catalog env) d) (w_trace w) (w_trace w2)"
        by (rule starts_roles_append [OF starts_roles_put that(4) [unfolded \<open>w1 = put_world d1 True True w\<close> put_world_fields]])
          (simp_all add: d1)
      then have "starts_roles d (deployment_launch_order (en_catalog env) d @ []) (w_trace w) h"
        if "starts_roles d [] (w_trace w2) h" for h
        using that by (intro starts_roles_append [of d _ _ "w_trace w2" d "[]"]) simp_all
      then show ?thesis
        by (intro wp_mono [OF wp_start_ready_success [where dep = d, OF that(2) d2(1)]])
          (use that(3) d2(2) in \<open>auto simp: group_started_def\<close>)
    qed
    show ?thesis
      unfolding wp_bind d1(4)
      by (rule wp_mono [OF wp_restart_all_success [OF w1(1) d1(1) w1(2)]])
        (auto simp: wp_simp starting_cleanup kept_def group_started_error split: option.splits bool.splits
          intro!: wp_fail_start ready)
  qed
  show ?thesis
    unfolding start_stopped_def wp_if
    by (auto simp: wp_simp group_started_error intro!: wp_persist restarted [simplified wp_simp])
qed

text \<open>
  A verification without an error and without a stopped member identified every member, saw it
  running, and noted that; it changed nothing else.
\<close>

definition saw_running :: "nat list \<Rightarrow> deployment \<Rightarrow> history \<Rightarrow> deployment \<Rightarrow> history \<Rightarrow> bool" where
  "saw_running is d h d' h' \<longleftrightarrow> suffix h h' \<and> d' = d\<lparr>d_members := d_members d'\<rparr> \<and>
     length (d_members d') = length (d_members d) \<and>
     (\<forall>j < length (d_members d).
        (j \<notin> set is \<longrightarrow> d_members d' ! j = d_members d ! j) \<and>
        (j \<in> set is \<longrightarrow> d_members d' ! j = (d_members d ! j)\<lparr>m_status := ''running''\<rparr> \<and>
           called (seen_running d (d_members d ! j)) h h'))"

lemma state_set_member [simp]: "d_state (set_member_status i st d) = d_state d"
  by (simp add: set_member_status_def)

lemma saw_running_step:
  assumes run: "saw_running is (set_member_status i ''running'' d) (e # h) d' h'"
    and e: "i < length (d_members d) \<longrightarrow> seen_running d (d_members d ! i) e"
  shows "saw_running (i # is) d h d' h'"
proof -
  let ?d = "set_member_status i ''running'' d"
  have grow: "suffix h h'"
    using run suffix_ConsD by (auto simp: saw_running_def)
  have nth: "d_members ?d ! j = (if j = i then (d_members d ! j)\<lparr>m_status := ''running''\<rparr> else d_members d ! j)"
    if "j < length (d_members d)" for j
    using that by (auto simp: set_member_status_def nth_list_update)
  have seen: "seen_running ?d (d_members ?d ! j) = seen_running d (d_members d ! j)" if "j < length (d_members d)" for j
    by (rule ext, rule seen_running_cong) (simp_all add: nth [OF that])
  have here: "called (seen_running d (d_members d ! i)) h h'" if "i < length (d_members d)"
  proof -
    have "called (seen_running d (d_members d ! i)) h (e # h)" using e that by simp
    then show ?thesis by (rule called_later) (use run in \<open>simp add: saw_running_def\<close>)
  qed
  have "(j \<notin> set (i # is) \<longrightarrow> d_members d' ! j = d_members d ! j) \<and>
        (j \<in> set (i # is) \<longrightarrow> d_members d' ! j = (d_members d ! j)\<lparr>m_status := ''running''\<rparr> \<and>
           called (seen_running d (d_members d ! j)) h h')" if j: "j < length (d_members d)" for j
  proof -
    have "(j \<notin> set is \<longrightarrow> d_members d' ! j = d_members ?d ! j) \<and>
        (j \<in> set is \<longrightarrow> d_members d' ! j = (d_members ?d ! j)\<lparr>m_status := ''running''\<rparr> \<and>
           called (seen_running ?d (d_members ?d ! j)) (e # h) h')"
      using run j by (simp add: saw_running_def)
    note r = this [unfolded seen [OF j]]
    have later: "called P h h'" if "called P (e # h) h'" for P
      by (rule called_earlier [OF _ that]) simp
    show ?thesis
    proof (cases "j = i")
      case True
      then have "d_members d' ! j = (d_members d ! j)\<lparr>m_status := ''running''\<rparr>"
        using r nth [OF j] by (cases "j \<in> set is") simp_all
      then show ?thesis using True here j by simp
    next
      case False
      then show ?thesis using r nth [OF j] later by simp
    qed
  qed
  moreover have "d' = d\<lparr>d_members := d_members d'\<rparr>"
    using run by (simp add: saw_running_def set_member_status_def)
  ultimately show ?thesis using grow run by (simp add: saw_running_def)
qed

lemma wp_verify_running_all:
  assumes "reads w0 w"
    and "\<And>d' e r w'. reads w0 w' \<Longrightarrow> (rec \<longrightarrow> e = None \<longrightarrow> r) \<Longrightarrow>
      (e = None \<Longrightarrow> \<not> r \<Longrightarrow> saw_running is d (w_trace w) d' (w_trace w')) \<Longrightarrow> Q (d', e, r) w'"
  shows "wp (verify_running env is d rec) Q w"
  using assms
proof (induction "is" arbitrary: d rec w)
  case Nil
  then show ?case by (simp add: wp_simp saw_running_def)
next
  case (Cons i "is")
  let ?m = "d_members d ! i"
  have step: "wp (verify_running env is (set_member_status i st d) r) Q (record_event e w)"
    if "reads w0 (record_event e w)" "rec \<longrightarrow> r" "\<not> r \<longrightarrow> st = ''running'' \<and> seen_running d ?m e" for st r e
    by (rule Cons.IH [OF that(1)], rule Cons.prems(2))
      (use that(2,3) saw_running_step in auto)
  show ?case
    using Cons.prems(1)
    by (auto simp: wp_simp Let_def reads_event intro!: Cons.prems(2) step)
qed

text \<open>A deployment recorded as running was found running: nothing changed.\<close>

definition found_running :: "deployment \<Rightarrow> world \<Rightarrow> deployment \<Rightarrow> world \<Rightarrow> bool" where
  "found_running d w d' w' \<longleftrightarrow> untouched w w' \<and> w_docs w' = w_docs w \<and> w_disk w' = Some (w_docs w') \<and>
     d_state d = StateRunning \<and>
     d' = d\<lparr>d_members := map (\<lambda>m. m\<lparr>m_status := ''running''\<rparr>) (d_members d)\<rparr> \<and>
     (\<forall>m \<in> set (d_members d). called (seen_running d m) (w_trace w) (w_trace w'))"

lemma saw_found:
  assumes "saw_running [0..<length (d_members d)] d (w_trace w) d' (w_trace w')" and "reads w w'"
    and "safe w" "store_get (w_docs w) i = Some d" "d_state d = StateRunning"
  shows "found_running d w d' w'"
proof -
  have "d_members d' = map (\<lambda>m. m\<lparr>m_status := ''running''\<rparr>) (d_members d)"
    by (rule nth_equalityI) (use assms(1) in \<open>simp_all add: saw_running_def\<close>)
  moreover have "d' = d\<lparr>d_members := d_members d'\<rparr>" using assms(1) by (simp add: saw_running_def)
  moreover have "w_disk w = Some (w_docs w)"
    using assms(3,4) by (auto simp: store_ok_def store_synced_def store_get_def split: option.splits)
  moreover have "called (seen_running d m) (w_trace w) (w_trace w')" if "m \<in> set (d_members d)" for m
    using that assms(1) by (auto simp: saw_running_def in_set_conv_nth)
  ultimately show ?thesis
    using assms(2,5) reads_untouched [OF assms(2)] by (simp add: found_running_def reads_def)
qed

text \<open>Cleaning up after a group restarts nothing.\<close>

definition restarts_none :: "world \<Rightarrow> world \<Rightarrow> bool" where
  "restarts_none v w \<longleftrightarrow> (\<exists>es. w_trace w = es @ w_trace v \<and> restart_roles es = [])"

lemma restarts_none_Cons:
  "restarts_none v w \<Longrightarrow> w_trace w' = e # w_trace w \<Longrightarrow> \<not> is_restart e \<Longrightarrow> restarts_none v w'"
proof -
  assume "restarts_none v w" and e: "w_trace w' = e # w_trace w" "\<not> is_restart e"
  then obtain es where "w_trace w = es @ w_trace v" "restart_roles es = []" by (auto simp: restarts_none_def)
  with e show ?thesis unfolding restarts_none_def by (intro exI [of _ "e # es"]) simp
qed

lemma restarts_none_simps [simp]:
  "restarts_none v v" "restarts_none v (w\<lparr>w_clock := n\<rparr>) = restarts_none v w"
  by (simp_all add: restarts_none_def)

lemma restarts_none_steps [simp]:
  "restarts_none v w \<Longrightarrow> \<not> is_restart e \<Longrightarrow> restarts_none v (record_event e w)"
  "restarts_none v w \<Longrightarrow> restarts_none v (put_world d p ok w)"
  by (erule restarts_none_Cons, rule record_event_fields, assumption) (erule restarts_none_Cons, rule put_world_fields, simp)

lemma restarts_none_reads: "reads v w \<Longrightarrow> restarts_none v w"
proof -
  have "restart_roles es = []" if "list_all reading es" for es
    using that by (induction es) (auto elim!: reading.elims)
  then show "reads v w \<Longrightarrow> restarts_none v w" by (auto simp: reads_def restarts_none_def)
qed

text \<open>What the engine starts by: the identifier, the launch order and the members but for their status.\<close>

definition same_plan :: "deployment \<Rightarrow> deployment \<Rightarrow> bool" where
  "same_plan d d' \<longleftrightarrow> same_members (d_members d) (d_members d') \<and> d_id d' = d_id d \<and>
     d_launch_order d' = d_launch_order d \<and> d_bkc_id d' = d_bkc_id d"

lemma plan_set_member [simp]:
  "d_launch_order (set_member_status i st d) = d_launch_order d" "d_bkc_id (set_member_status i st d) = d_bkc_id d"
  by (simp_all add: set_member_status_def)

lemma same_plan_simps [simp]:
  "same_plan d d" "same_plan d (set_member_status i st d') = same_plan d d'"
  "same_plan d (journal_entry d' ph a r s det now) = same_plan d d'"
  "same_plan d (d'\<lparr>d_state := x\<rparr>) = same_plan d d'" "same_plan d (d'\<lparr>d_error := y\<rparr>) = same_plan d d'"
  by (simp_all add: same_plan_def)

lemma same_plan_trans: "same_plan a b \<Longrightarrow> same_plan b c \<Longrightarrow> same_plan a c"
  by (auto simp: same_plan_def intro: same_members_trans)

lemma roles_started_plan:
  "same_plan d d' \<Longrightarrow> roles_started d' (deployment_launch_order cat d') es = roles_started d (deployment_launch_order cat d) es"
proof -
  assume p: "same_plan d d'"
  then have "role_started d' es = role_started d es"
    by (intro ext) (simp add: same_plan_def role_started_same)
  moreover have "deployment_launch_order cat d' = deployment_launch_order cat d"
    using p by (simp add: same_plan_def deployment_launch_order_def)
  ultimately show ?thesis by (simp add: roles_started_def)
qed

lemma wp_fail_start_none:
  assumes "restarts_none v w" and "\<And>d' e w'. restarts_none v w' \<Longrightarrow> same_plan d d' \<Longrightarrow> Q (d', e) w'"
  shows "wp (fail_start env d cause) Q w"
proof -
  have all: "wp (fail_start_all env is d1 errs) P w1"
    if "restarts_none v w1" "same_plan d d1" "\<And>d' e w'. restarts_none v w' \<Longrightarrow> same_plan d d' \<Longrightarrow> P (d', e) w'"
    for "is" errs d1 P w1
    using that
  proof (induction "is" arbitrary: d1 errs w1)
    case (Cons i "is")
    show ?case
      unfolding fail_start_all.simps fail_start_one_def Let_def
      using Cons.prems(1,2) by (auto simp: wp_simp intro!: Cons.prems(3) Cons.IH)
  qed (simp add: wp_simp)
  show ?thesis
    unfolding fail_start_def Let_def
    using assms(1) by (auto simp: wp_simp intro!: wp_persist all assms(2))
qed

lemma wp_verify_running_plan:
  assumes "same_plan d0 d" and "\<And>d' e r w'. same_plan d0 d' \<Longrightarrow> Q (d', e, r) w'"
  shows "wp (verify_running env is d rec) Q w"
  using assms
proof (induction "is" arbitrary: d rec w)
  case (Cons i "is")
  show ?case
    using Cons.prems(1) by (auto simp: wp_simp Let_def intro!: Cons.prems(2) Cons.IH)
qed (simp add: wp_simp)

text \<open>
  What a verification of a deployment recorded as running establishes: without a stopped member it
  was found running, with one its cleanup is due.
\<close>

definition verified :: "deployment \<Rightarrow> world \<Rightarrow> deployment \<times> gerror option \<times> bool \<Rightarrow> world \<Rightarrow> bool" where
  "verified d w x w' \<longleftrightarrow> safe w' \<and> restarts_none w w' \<and> same_plan d (fst x) \<and>
     (if snd (snd x) then cleanup_due (d_id (fst x)) (w_trace w')
      else fst (snd x) = None \<longrightarrow> found_running d w (fst x) w')"

lemma wp_verify_running_verified:
  assumes w: "safe w" and d: "store_get (w_docs w) i = Some d" "d_state d = StateRunning"
  shows "wp (verify_running env [0..<length (d_members d)] d False) (verified d w) w"
proof -
  let ?m = "verify_running env [0..<length (d_members d)] d False"
  have "wp ?m (\<lambda>x w'. reads w w' \<and> (fst (snd x) = None \<longrightarrow> \<not> snd (snd x) \<longrightarrow> found_running d w (fst x) w')) w"
    by (rule wp_verify_running_all [OF reads_refl]) (use saw_found [OF _ _ w d] in auto)
  moreover have "wp ?m (\<lambda>x w'. same_plan d (fst x)) w"
    by (rule wp_verify_running_plan) simp_all
  moreover have "wp ?m (\<lambda>x w'. snd (snd x) \<longrightarrow> found_exited d (w_trace w')) w"
    by (rule wp_verify_running [OF w]) simp_all
  ultimately have "wp ?m (\<lambda>x w'. ((reads w w' \<and> (fst (snd x) = None \<longrightarrow> \<not> snd (snd x) \<longrightarrow> found_running d w (fst x) w')) \<and>
      same_plan d (fst x)) \<and> (snd (snd x) \<longrightarrow> found_exited d (w_trace w'))) w"
    by (simp only: wp_conj)
  then show ?thesis
  proof (rule wp_mono)
    fix x :: "deployment \<times> gerror option \<times> bool" and w'
    assume x: "((reads w w' \<and> (fst (snd x) = None \<longrightarrow> \<not> snd (snd x) \<longrightarrow> found_running d w (fst x) w')) \<and>
      same_plan d (fst x)) \<and> (snd (snd x) \<longrightarrow> found_exited d (w_trace w'))"
    then have r: "safe w'" "w_docs w' = w_docs w" using reads_safe w by (auto simp: reads_def)
    then have "logged (w_trace w') (d_id d) = Some d" using store_ok_logged d(1) by simp
    with x r d(2) show "verified d w x w'"
      using exited_cleanup by (auto simp: verified_def restarts_none_reads same_plan_def)
  qed
qed


lemma sample_no_recipe: "lookup_id (en_catalog sample_managed) [] = None"
proof -
  have "cfg_id glm53_tensorfold_cfg \<noteq> []"
    by (simp add: glm53_tensorfold_cfg_def glm53_tensorfold_id_def)
  then show ?thesis
    by (simp add: sample_managed_def sample_env_def lookup_id_def trim_space_def go_str)
qed


section \<open>Rolling back\<close>

abbreviation clean :: "deployment \<Rightarrow> bool" where
  "clean d \<equiv> rr_errors (rollback_of d) = []"

abbreviation prev_status_at :: "deployment \<Rightarrow> nat \<Rightarrow> string" where
  "prev_status_at d i \<equiv> m_status (d_prev d ! i)"

lemma clean_simps [simp]:
  "\<not> clean (add_error msg d)" "clean (add_removed n d) = clean d" "clean (add_restarted c d) = clean d"
  "clean (journal_entry d ph a r s det now) = clean d" "clean (set_member_status i st d) = clean d"
  "clean (set_prev_status i st d) = clean d" "clean (begin_rollback d c)"
  "rollback_of (upd_rollback f d) = f (rollback_of d)"
  by (simp_all add: add_error_def add_removed_def add_restarted_def rollback_of_def upd_rollback_def
      begin_rollback_def rollback_empty_def Let_def split: option.split)

lemma begin_rollback_recipe [simp]:
  "d_launch_order (begin_rollback d c) = d_launch_order d" "d_bkc_id (begin_rollback d c) = d_bkc_id d"
  by (simp_all add: begin_rollback_def Let_def)

text \<open>
  A call after which a candidate is known to be gone: its managed removal succeeded or found no
  container. The member it names is the recorded one, with the container that was inspected.
\<close>

fun removal_done :: "deployment \<Rightarrow> member \<Rightarrow> event \<Rightarrow> bool" where
  "removal_done d m (EvRemoveManaged d' m' r) =
     ((case r of None \<Rightarrow> True | Some e \<Rightarrow> err_is e ErrContainerNotFound) \<and> d_id d' = d_id d \<and>
      m'\<lparr>m_status := [], m_container := []\<rparr> = m\<lparr>m_status := [], m_container := []\<rparr>)"
| "removal_done d m e = False"

text \<open>
  A previous container was restarted, or found running without a stop having been asked for; and
  the wait for it to run succeeded.
\<close>

fun restore_done :: "member \<Rightarrow> event \<Rightarrow> bool" where
  "restore_done m (EvRestart dev c r) = (r = None \<and> dev = m_device m \<and> c = m_container m)"
| "restore_done m (EvInspect dev c (Inr ob)) =
     (dev = m_device m \<and> c = m_container m \<and> o_status ob = ''running'' \<and> m_status m \<noteq> ''stopping'')"
| "restore_done m e = False"

fun wait_done :: "member \<Rightarrow> event \<Rightarrow> bool" where
  "wait_done m (EvWaitRunning dev c r) = (r = None \<and> dev = m_device m \<and> c = m_container m)"
| "wait_done m e = False"

lemma removal_done_id: "d_id d' = d_id d \<Longrightarrow> removal_done d' m = removal_done d m"
proof
  fix e assume "d_id d' = d_id d"
  then show "removal_done d' m e = removal_done d m e" by (cases e) simp_all
qed

text \<open>Steps that touch neither the members nor the record of errors.\<close>

definition same_progress :: "deployment \<Rightarrow> deployment \<Rightarrow> bool" where
  "same_progress d d' \<longleftrightarrow> d_members d' = d_members d \<and> d_prev d' = d_prev d \<and> clean d' = clean d \<and>
     d_launch_order d' = d_launch_order d \<and> d_bkc_id d' = d_bkc_id d \<and> d_id d' = d_id d"

lemma wp_capture_same:
  "wp (capture_candidate_logs env d m redaction)
     (\<lambda>d' w'. same_progress d d' \<and> suffix (w_trace w) (w_trace w')) w"
  unfolding capture_candidate_logs_def Let_def
  by (auto simp: wp_simp same_progress_def intro!: wp_persist_grow)

lemma same_progress_trans: "same_progress a b \<Longrightarrow> same_progress b c \<Longrightarrow> same_progress a c"
  by (simp add: same_progress_def)

lemma wp_capture_all_same:
  "wp (capture_all env redaction ms d) (\<lambda>d' w'. same_progress d d' \<and> suffix (w_trace w) (w_trace w')) w"
proof (induction ms arbitrary: d w)
  case (Cons m ms)
  let ?Q = "\<lambda>d' w'. same_progress d d' \<and> suffix (w_trace w) (w_trace w')"
  have later: "wp (capture_all env redaction ms d1) ?Q w1" if "?Q d1 w1" for d1 w1
    by (rule wp_mono [OF Cons.IH]) (use that same_progress_trans suffix_order.trans in blast)
  have "wp (capture_candidate_logs env d m redaction) (\<lambda>d1. wp (capture_all env redaction ms d1) ?Q) w"
    by (rule wp_mono [OF wp_capture_same]) (rule later)
  with Cons.IH show ?case by (simp add: wp_simp)
qed (simp add: wp_simp same_progress_def)

text \<open>
  The removal of one candidate: without a new error it is removed, by a call that removed it or
  found it gone; the others are kept.
\<close>

definition removed_step :: "nat \<Rightarrow> deployment \<Rightarrow> history \<Rightarrow> deployment \<times> bool \<Rightarrow> history \<Rightarrow> bool" where
  "removed_step i d h x h' \<longleftrightarrow> suffix h h' \<and> d_id (fst x) = d_id d \<and>
     length (d_members (fst x)) = length (d_members d) \<and> d_prev (fst x) = d_prev d \<and>
     (\<forall>j < length (d_members d). j \<noteq> i \<longrightarrow> d_members (fst x) ! j = d_members d ! j) \<and>
     (clean (fst x) \<longrightarrow> clean d \<and> snd x \<and> (i < length (d_members d) \<longrightarrow>
        status_at (fst x) i = ''removed'' \<and> called (removal_done d (d_members d ! i)) h h'))"

lemma prev_set_member [simp]: "d_prev (set_member_status i st d) = d_prev d"
  by (simp add: set_member_status_def)

lemma members_set_prev [simp]: "d_members (set_prev_status i st d) = d_members d"
  by (simp add: set_prev_status_def)

lemma member_at_set [simp]:
  "j \<noteq> i \<Longrightarrow> d_members (set_member_status i st d) ! j = d_members d ! j"
  by (simp add: set_member_status_def)

lemma add_id [simp]:
  "d_id (add_error msg d) = d_id d" "d_id (add_removed n d) = d_id d" "d_id (add_restarted c d) = d_id d"
  by (simp_all add: add_error_def add_removed_def add_restarted_def upd_rollback_def)

lemma wp_remove_confirmed_step:
  assumes d1: "same_progress (set_member_status i st d0) d1" and h: "suffix h (w_trace w)"
    and m: "m\<lparr>m_status := [], m_container := []\<rparr> = (d_members d0 ! i)\<lparr>m_status := [], m_container := []\<rparr>"
  shows "wp (remove_confirmed env hr redaction i m d1) (\<lambda>x w'. removed_step i d0 h x (w_trace w')) w"
proof -
  have rest: "wp (do {
      e \<leftarrow> op_remove_managed env d2 m;
      (if (case e of None \<Rightarrow> False | Some err \<Rightarrow> \<not> err_is err ErrContainerNotFound)
       then State_Monad.return (add_error (''remove '' @ m_role m @ '' candidate failed'') d2, False)
       else do {
         (d3, e2) \<leftarrow> after_member_action env (add_removed (m_name m) d2) i PhaseRollback
                      ''remove_candidate'' ''removed'';
         State_Monad.return
           (if e2 = None then d3
            else add_error (''persist '' @ m_role m @ '' candidate removal failed'') d3, True)
       })
    }) (\<lambda>x w'. removed_step i d0 h x (w_trace w')) w2"
    if d2: "same_progress (set_member_status i st d0) d2" and h2: "suffix h (w_trace w2)" for d2 w2
  proof -
    have fields: "d_members d2 = d_members (set_member_status i st d0)" "d_prev d2 = d_prev d0"
      "clean d2 = clean d0" "d_id d2 = d_id d0"
      using d2 by (simp_all add: same_progress_def)
    show ?thesis
      unfolding after_member_action_def
      by (auto simp: wp_simp removed_step_def fields m h2 intro!: wp_persist_grow split: option.splits)
  qed
  show ?thesis
  proof (cases hr)
    case True
    with rest [OF d1 h] show ?thesis by (simp add: remove_confirmed_def wp_simp)
  next
    case False
    show ?thesis
      unfolding remove_confirmed_def if_not_P [OF False]
        wp_bind [of "capture_candidate_logs env d1 m redaction"]
      by (rule wp_mono [OF wp_capture_same], rule rest)
        (use same_progress_trans [OF d1] suffix_order.trans [OF h] in blast)+
  qed
qed

lemma wp_remove_candidate_step:
  "wp (remove_candidate env hr redaction i d) (\<lambda>x w'. removed_step i d (w_trace w) x (w_trace w')) w"
proof -
  have go: "wp (remove_confirmed env b redaction i m (journal_entry (set_member_status i st d) ph a r s det now))
      (\<lambda>x w'. removed_step i d (w_trace w) x (w_trace w')) w1"
    if "suffix (w_trace w) (w_trace w1)"
      "m\<lparr>m_status := [], m_container := []\<rparr> = (d_members d ! i)\<lparr>m_status := [], m_container := []\<rparr>"
    for b m st ph a r s det now w1
    by (rule wp_remove_confirmed_step [OF _ that]) (simp add: same_progress_def set_member_status_def)
  show ?thesis
    unfolding remove_candidate_def Let_def before_member_action_def
    by (auto simp: wp_simp removed_step_def [of _ _ _ "(add_error msg x, ok)" for msg x ok] intro!: wp_persist_grow go)
qed

text \<open>All removals: without an error each possibly existing candidate of the list is removed.\<close>

definition removed_run :: "nat list \<Rightarrow> deployment \<Rightarrow> history \<Rightarrow> deployment \<times> bool \<Rightarrow> history \<Rightarrow> bool" where
  "removed_run is d h x h' \<longleftrightarrow> suffix h h' \<and> d_id (fst x) = d_id d \<and>
     length (d_members (fst x)) = length (d_members d) \<and> d_prev (fst x) = d_prev d \<and>
     (clean (fst x) \<longrightarrow> clean d \<and> snd x \<and>
        (\<forall>j < length (d_members d).
           (j \<in> set is \<and> candidate_may_exist (status_at d j) \<or> status_at d j = ''removed'' \<longrightarrow>
              status_at (fst x) j = ''removed'') \<and>
           (j \<in> set is \<and> candidate_may_exist (status_at d j) \<longrightarrow>
              called (removal_done d (d_members d ! j)) h h')))"

lemma removed_run_step:
  assumes step: "removed_step i d h (d', ok) h1" and run: "removed_run is d' h1 x h'"
  shows "removed_run (i # is) d h x h'"
proof -
  have grow: "suffix h h1" "suffix h1 h'" "suffix h h'"
    using assms suffix_order.trans by (auto simp: removed_step_def removed_run_def)
  have id: "d_id d' = d_id d" and len: "length (d_members d') = length (d_members d)"
    using step by (simp_all add: removed_step_def)
  have "(j \<in> set (i # is) \<and> candidate_may_exist (status_at d j) \<or> status_at d j = ''removed'' \<longrightarrow>
           status_at (fst x) j = ''removed'') \<and>
        (j \<in> set (i # is) \<and> candidate_may_exist (status_at d j) \<longrightarrow>
           called (removal_done d (d_members d ! j)) h h')"
    if c: "clean (fst x)" and j: "j < length (d_members d)" for j
  proof (cases "j = i")
    case True
    then have "status_at d' j = ''removed''" "called (removal_done d (d_members d ! j)) h h1"
      using step run c j by (auto simp: removed_step_def removed_run_def)
    then show ?thesis using run c j len called_later [OF _ grow(2)] by (auto simp: removed_run_def)
  next
    case False
    then have "d_members d' ! j = d_members d ! j" using step j by (simp add: removed_step_def)
    then show ?thesis
      using False run c j len called_earlier [OF grow(1)] by (auto simp: removed_run_def removal_done_id [OF id])
  qed
  then show ?thesis using step run grow(3) by (auto simp: removed_step_def removed_run_def)
qed

lemma removed_run_skip:
  "\<not> candidate_may_exist (status_at d i) \<Longrightarrow> removed_run is d h x h' \<Longrightarrow> removed_run (i # is) d h x h'"
  unfolding removed_run_def by (metis set_ConsD)

lemma wp_remove_candidates_run:
  "wp (remove_candidates env hr redaction is d ok)
     (\<lambda>x w'. (clean d \<longrightarrow> ok) \<longrightarrow> removed_run is d (w_trace w) x (w_trace w')) w"
proof (induction "is" arbitrary: d ok w)
  case (Cons i "is")
  let ?Q = "\<lambda>x w'. (clean d \<longrightarrow> ok) \<longrightarrow> removed_run (i # is) d (w_trace w) x (w_trace w')"
  have step: "wp (remove_candidates env hr redaction is (fst x) (ok \<and> snd x)) ?Q w1"
    if "removed_step i d (w_trace w) x (w_trace w1)" for x w1
    by (rule wp_mono [OF Cons.IH])
      (use that in \<open>auto simp: removed_step_def intro!: removed_run_step [of i d _ "fst x" "snd x" "w_trace w1"]\<close>)
  have skip: "wp (remove_candidates env hr redaction is d ok) ?Q w"
    if "\<not> candidate_may_exist (status_at d i)"
    by (rule wp_mono [OF Cons.IH]) (blast intro: removed_run_skip [OF that])
  have stuck: "removed_run (i # is) d (w_trace w) (d, False) (w_trace w)" if "\<not> clean d"
    using that by (simp add: removed_run_def)
  have act: "wp (remove_candidate env hr redaction i d)
      (\<lambda>x. wp (remove_candidates env hr redaction is (fst x) (ok \<and> snd x)) ?Q) w"
    by (rule wp_mono [OF wp_remove_candidate_step]) (rule step)
  show ?case
    unfolding remove_candidates.simps wp_if wp_bind wp_pair
    by (intro conjI impI skip act) (simp_all add: wp_return stuck)
qed (simp add: wp_simp removed_run_def)

text \<open>
  Restoring one previous member: without a new error it runs, by calls that made it run and waited
  for it; the others are kept.
\<close>

definition restored_step :: "nat \<Rightarrow> deployment \<Rightarrow> history \<Rightarrow> deployment \<Rightarrow> history \<Rightarrow> bool" where
  "restored_step i d h d' h' \<longleftrightarrow> suffix h h' \<and> d_members d' = d_members d \<and>
     length (d_prev d') = length (d_prev d) \<and>
     (\<forall>j < length (d_prev d). j \<noteq> i \<longrightarrow> d_prev d' ! j = d_prev d ! j) \<and>
     (clean d' \<longrightarrow> clean d \<and> (i < length (d_prev d) \<longrightarrow> prev_status_at d' i = ''running'' \<and>
        called (restore_done (d_prev d ! i)) h h' \<and> called (wait_done (d_prev d ! i)) h h'))"

lemma prev_status_set [simp]:
  "length (d_prev (set_prev_status i st d)) = length (d_prev d)"
  "j < length (d_prev d) \<Longrightarrow>
   prev_status_at (set_prev_status i st d) j = (if i = j then st else prev_status_at d j)"
  "j \<noteq> i \<Longrightarrow> d_prev (set_prev_status i st d) ! j = d_prev d ! j"
  by (simp_all add: set_prev_status_def nth_list_update)

lemma wp_restore_one_step:
  "wp (restore_one env i d) (\<lambda>d' w'. restored_step i d (w_trace w) d' (w_trace w')) w"
  unfolding restore_one_def audit_restart_def await_restored_def before_previous_action_def Let_def
  by (auto simp: wp_simp restored_step_def intro!: wp_persist_grow)

definition restored_run :: "nat list \<Rightarrow> deployment \<Rightarrow> history \<Rightarrow> deployment \<Rightarrow> history \<Rightarrow> bool" where
  "restored_run is d h d' h' \<longleftrightarrow> suffix h h' \<and> d_members d' = d_members d \<and>
     length (d_prev d') = length (d_prev d) \<and>
     (clean d' \<longrightarrow> clean d \<and> (\<forall>j < length (d_prev d).
        (j \<in> set is \<or> prev_status_at d j = ''running'' \<longrightarrow> prev_status_at d' j = ''running'') \<and>
        (j \<in> set is \<longrightarrow> called (restore_done (d_prev d ! j)) h h' \<and> called (wait_done (d_prev d ! j)) h h')))"

lemma restored_run_step:
  assumes step: "restored_step i d h d1 h1" and run: "restored_run is d1 h1 d' h'"
  shows "restored_run (i # is) d h d' h'"
proof -
  have grow: "suffix h h1" "suffix h1 h'" "suffix h h'"
    using assms suffix_order.trans by (auto simp: restored_step_def restored_run_def)
  have len: "length (d_prev d1) = length (d_prev d)" using step by (simp add: restored_step_def)
  have "(j \<in> set (i # is) \<or> prev_status_at d j = ''running'' \<longrightarrow> prev_status_at d' j = ''running'') \<and>
        (j \<in> set (i # is) \<longrightarrow> called (restore_done (d_prev d ! j)) h h' \<and> called (wait_done (d_prev d ! j)) h h')"
    if c: "clean d'" and j: "j < length (d_prev d)" for j
  proof (cases "j = i")
    case True
    then have "prev_status_at d1 j = ''running''" "called (restore_done (d_prev d ! j)) h h1"
      "called (wait_done (d_prev d ! j)) h h1"
      using step run c j by (auto simp: restored_step_def restored_run_def)
    then show ?thesis using run c j len called_later [OF _ grow(2)] by (auto simp: restored_run_def)
  next
    case False
    then have "d_prev d1 ! j = d_prev d ! j" using step j by (simp add: restored_step_def)
    then show ?thesis
      using False run c j len called_earlier [OF grow(1)] by (auto simp: restored_run_def)
  qed
  then show ?thesis using step run grow(3) by (auto simp: restored_step_def restored_run_def)
qed

lemma wp_restore_previous_run:
  "wp (restore_previous env is d) (\<lambda>d' w'. restored_run is d (w_trace w) d' (w_trace w')) w"
proof (induction "is" arbitrary: d w)
  case (Cons i "is")
  have step: "wp (restore_previous env is d1) (\<lambda>d' w'. restored_run (i # is) d (w_trace w) d' (w_trace w')) w1"
    if "restored_step i d (w_trace w) d1 (w_trace w1)" for d1 w1
    by (rule wp_mono [OF Cons.IH]) (rule restored_run_step [OF that])
  show ?case
    unfolding restore_previous.simps wp_bind
    by (rule wp_mono [OF wp_restore_one_step]) (rule step)
qed (simp add: wp_simp restored_run_def)

text \<open>The final record: rolled back without errors, and then every member removed or stopped.\<close>

lemma rollback_of_updated: "rollback_of (d\<lparr>d_updated_at := now\<rparr>) = rollback_of d"
  by (simp add: rollback_of_def)

definition finished :: "deployment \<Rightarrow> deployment \<Rightarrow> world \<Rightarrow> bool" where
  "finished d d' w \<longleftrightarrow> clean d \<and> d_state d' = StateRolledBack \<and>
     d_prev d' = d_prev d \<and> length (d_members d') = length (d_members d) \<and>
     (\<forall>j < length (d_members d).
        status_at d' j = (if status_at d j = ''removed'' then ''removed'' else ''stopped'')) \<and>
     store_get (w_docs w) (d_id d') = Some d' \<and> w_disk w = Some (w_docs w)"

lemma wp_finish_rollback_success:
  "wp (finish_rollback env d) (\<lambda>(d', e) w'. e = None \<longrightarrow> finished d d' w' \<and> suffix (w_trace w) (w_trace w')) w"
proof -
  define d1 where "d1 now = (upd_rollback (\<lambda>r. r\<lparr>rr_completed_at := now\<rparr>) d)\<lparr>d_updated_at := now\<rparr>" for now
  have d1: "rr_errors (rollback_of (d1 now)) = rr_errors (rollback_of d)" "d_members (d1 now) = d_members d"
    "d_prev (d1 now) = d_prev d" for now
    by (simp_all add: d1_def rollback_of_updated)
  show ?thesis
  proof (cases "clean d")
    case True
    show ?thesis
      unfolding finish_rollback_def Let_def d1_def [symmetric] d1(1) True wp_simp
      by (rule wp_persist) (auto simp: wp_simp finished_def True d1 split: option.splits)
  next
    case False
    show ?thesis
      unfolding finish_rollback_def Let_def d1_def [symmetric] d1(1) wp_simp
      by (rule wp_persist) (auto simp: wp_simp False split: option.splits)
  qed
qed

lemma launched_indexes_keep:
  assumes "d_launch_order d' = d_launch_order d" "d_bkc_id d' = d_bkc_id d" "d_members d' = d_members d"
  shows "reverse_launch_indexes (en_catalog env) d' = reverse_launch_indexes (en_catalog env) d"
  using assms by (simp add: reverse_launch_indexes_def deployment_launch_order_def)

text \<open>
  A rollback that ended well. Its calls fall into two parts: in the first every candidate that may
  exist was removed or found gone, in the second every previous container was brought up.
\<close>

definition rolled_back :: "env \<Rightarrow> deployment \<Rightarrow> history \<Rightarrow> deployment \<Rightarrow> world \<Rightarrow> bool" where
  "rolled_back env d h d' w \<longleftrightarrow> d_state d' = StateRolledBack \<and>
     length (d_members d') = length (d_members d) \<and> length (d_prev d') = length (d_prev d) \<and>
     (\<exists>h1. suffix h h1 \<and> suffix h1 (w_trace w) \<and>
        (\<forall>j \<in> launched_indexes env d. candidate_may_exist (status_at d j) \<longrightarrow>
           status_at d' j = ''removed'' \<and> called (removal_done d (d_members d ! j)) h h1) \<and>
        (\<forall>j < length (d_prev d). prev_status_at d' j = ''running'' \<and>
           called (restore_done (d_prev d ! j)) h1 (w_trace w) \<and> called (wait_done (d_prev d ! j)) h1 (w_trace w))) \<and>
     (\<forall>j < length (d_members d). status_at d' j = ''removed'' \<or> status_at d' j = ''stopped'') \<and>
     store_get (w_docs w) (d_id d') = Some d' \<and> w_disk w = Some (w_docs w)"

lemma rolled_back_intro:
  assumes fin: "finished d4 d' w" and last: "suffix h4 (w_trace w)"
    and res: "restored_run [0..<length (d_prev d3)] d3 h3 d4 h4"
    and rem: "removed_run (reverse_launch_indexes (en_catalog env) d) d2 h2 (d3, ok) h3"
    and same: "d_members d2 = d_members d" "d_prev d2 = d_prev d" "d_id d2 = d_id d" and first: "suffix h h2"
  shows "rolled_back env d h d' w"
proof -
  have c: "clean d4" "clean d3" using fin res by (simp_all add: finished_def restored_run_def)
  have len: "length (d_members d4) = length (d_members d)" "length (d_prev d4) = length (d_prev d)"
    "length (d_prev d3) = length (d_prev d)" "d_prev d3 = d_prev d"
    using res rem same by (simp_all add: restored_run_def removed_run_def)
  have grow: "suffix h h3" "suffix h3 (w_trace w)"
    using res rem first last suffix_order.trans by (auto simp: restored_run_def removed_run_def)
  have gone: "status_at d' j = ''removed'' \<and> called (removal_done d (d_members d ! j)) h h3"
    if "j \<in> launched_indexes env d" "candidate_may_exist (status_at d j)" for j
  proof -
    have j: "j < length (d_members d)" using that(1) by (rule reverse_launch_bound)
    then have "status_at d3 j = ''removed''" "called (removal_done d (d_members d ! j)) h2 h3"
      using rem c(2) that same by (simp_all add: removed_run_def launched_indexes_def removal_done_id [OF same(3)])
    moreover have "d_members d4 = d_members d3" using res by (simp add: restored_run_def)
    ultimately show ?thesis using fin j len(1) called_earlier [OF first] by (simp add: finished_def)
  qed
  have prev: "prev_status_at d' j = ''running'' \<and> called (restore_done (d_prev d ! j)) h3 (w_trace w) \<and>
      called (wait_done (d_prev d ! j)) h3 (w_trace w)" if "j < length (d_prev d)" for j
  proof -
    have "prev_status_at d4 j = ''running''" "called (restore_done (d_prev d ! j)) h3 h4"
      "called (wait_done (d_prev d ! j)) h3 h4"
      using res c(1) that len(3,4) by (simp_all add: restored_run_def)
    then show ?thesis using fin called_later [OF _ last] by (simp add: finished_def)
  qed
  have "d_state d' = StateRolledBack" "length (d_members d') = length (d_members d)"
    "length (d_prev d') = length (d_prev d)" "store_get (w_docs w) (d_id d') = Some d'" "w_disk w = Some (w_docs w)"
    "\<forall>j < length (d_members d). status_at d' j = ''removed'' \<or> status_at d' j = ''stopped''"
    using fin len by (simp_all add: finished_def)
  then show ?thesis unfolding rolled_back_def using grow gone prev by blast
qed

lemma wp_rollback_locked_success:
  "wp (rollback_locked env d cause redaction) (\<lambda>(d', e) w'. e = None \<longrightarrow> rolled_back env d (w_trace w) d' w') w"
proof -
  let ?Q = "\<lambda>(d', e) w'. e = None \<longrightarrow> rolled_back env d (w_trace w) d' w'"
  let ?start = "\<lambda>now. journal_entry (begin_rollback d cause) PhaseRollback ''rollback'' [] ''started''
                ''remove candidates then restore previous members'' now"
  let ?rem = "\<lambda>d2 w2 d3 ok w3. removed_run (reverse_launch_indexes (en_catalog env) d) d2 (w_trace w2) (d3, ok) (w_trace w3)"
  have rest: "wp (do {
      (d3, ok) \<leftarrow> remove_candidates env hr redaction (reverse_launch_indexes (en_catalog env) d2) d2 True;
      d4 \<leftarrow> (if ok then restore_previous env [0..<length (d_prev d3)] d3 else State_Monad.return d3);
      finish_rollback env d4
    }) ?Q w2" if "same_progress (?start now) d2" and first: "suffix (w_trace w) (w_trace w2)" for d2 hr now w2
  proof -
    have same: "d_members d2 = d_members d" "d_prev d2 = d_prev d" "d_id d2 = d_id d" "clean d2"
      "d_launch_order d2 = d_launch_order d" "d_bkc_id d2 = d_bkc_id d"
      using that by (simp_all add: same_progress_def)
    note launch = launched_indexes_keep [OF same(5,6,1)]
    have finish: "wp (finish_rollback env d4) ?Q w4"
      if "?rem d2 w2 d3 ok w3" "restored_run [0..<length (d_prev d3)] d3 (w_trace w3) d4 (w_trace w4)"
      for d3 d4 ok w3 w4
      by (rule wp_mono [OF wp_finish_rollback_success])
        (use rolled_back_intro [OF _ _ that(2,1) same(1,2,3) first] in auto)
    have stuck: "wp (finish_rollback env d3) ?Q w3" if "?rem d2 w2 d3 False w3" for d3 w3
      by (rule wp_mono [OF wp_finish_rollback_success])
        (use that in \<open>auto simp: finished_def removed_run_def\<close>)
    have restore: "wp (restore_previous env [0..<length (d_prev d3)] d3) (\<lambda>d4. wp (finish_rollback env d4) ?Q) w3"
      if "?rem d2 w2 d3 ok w3" for d3 ok w3
      by (rule wp_mono [OF wp_restore_previous_run]) (rule finish [OF that])
    show ?thesis
      unfolding wp_bind [of "remove_candidates env hr redaction z d2 True" for z] launch
      by (rule wp_mono [OF wp_remove_candidates_run])
        (auto simp: wp_simp intro: stuck restore)
  qed
  show ?thesis
    unfolding rollback_locked_def wp_bind [of "persist_progress env z ph a r s det" for z ph a r s det]
  proof (rule wp_persist_grow, goal_cases)
    case (1 e now p ok w1)
    have here: "same_progress (?start now) (?start now)" by (simp add: same_progress_def)
    have grow: "suffix (w_trace w) (w_trace w1)" by (simp add: 1)
    have later: "suffix (w_trace w) h" if "suffix (w_trace w1) h" for h
      using grow that by (rule suffix_order.trans)
    show ?case
      unfolding prod.case wp_option Let_def
        wp_bind [of "if b then capture_all env redaction ms d1 else State_Monad.return d1" for b ms d1]
      by (auto simp: wp_return intro!: rest [OF here grow] wp_mono [OF wp_capture_all_same] rest later)
  qed
qed

text \<open>
  C4: when the rollback of a deployment that was not rolled back returns without an error, its
  calls fall into two parts. In the first, for every member of the launch order whose container
  may exist there was a managed removal that succeeded or found no container. In the second, for
  every previous member there was a restart that succeeded, or an inspection that found it running
  although no stop had been asked for, and a wait for it to run that succeeded. The deployment is
  recorded as rolled back, in memory and on disk, with those members removed, the rest removed or
  stopped, and the previous ones running.
\<close>

theorem rollback_success:
  assumes "store_get (w_docs w) i = Some d" and "d_state d \<noteq> StateRolledBack"
    and "run_state (rollback env i) w = ((d', None), w')"
  shows "(\<exists>h. suffix (w_trace w) h \<and> suffix h (w_trace w') \<and>
      (\<forall>j \<in> launched_indexes env d. candidate_may_exist (m_status (d_members d ! j)) \<longrightarrow>
         m_status (d_members d' ! j) = ''removed'' \<and> called (removal_done d (d_members d ! j)) (w_trace w) h) \<and>
      (\<forall>p \<in> set (d_prev d). called (restore_done p) h (w_trace w') \<and> called (wait_done p) h (w_trace w'))) \<and>
    d_state d' = StateRolledBack \<and>
    list_all (\<lambda>m. m_status m \<in> {''removed'', ''stopped''}) (d_members d') \<and>
    length (d_prev d') = length (d_prev d) \<and> list_all (\<lambda>m. m_status m = ''running'') (d_prev d') \<and>
    store_get (w_docs w') (d_id d') = Some d' \<and> w_disk w' = Some (w_docs w')"
proof -
  have "wp (rollback env i) (\<lambda>(d', e) w'. e = None \<longrightarrow> rolled_back env d (w_trace w) d' w') w"
    using wp_rollback_locked_success assms(1,2) by (simp add: rollback_def wp_simp)
  from run_wp [OF this assms(3)] have r: "rolled_back env d (w_trace w) d' w'" by simp
  then obtain h where "suffix (w_trace w) h" "suffix h (w_trace w')"
    "\<forall>j \<in> launched_indexes env d. candidate_may_exist (status_at d j) \<longrightarrow>
       status_at d' j = ''removed'' \<and> called (removal_done d (d_members d ! j)) (w_trace w) h"
    "\<forall>j < length (d_prev d). called (restore_done (d_prev d ! j)) h (w_trace w') \<and>
       called (wait_done (d_prev d ! j)) h (w_trace w')"
    by (auto simp: rolled_back_def)
  moreover from r have "list_all (\<lambda>m. m_status m \<in> {''removed'', ''stopped''}) (d_members d')"
    "list_all (\<lambda>m. m_status m = ''running'') (d_prev d')"
    by (auto simp: rolled_back_def list_all_length)
  ultimately show ?thesis
    using r by (auto simp: rolled_back_def in_set_conv_nth intro!: exI [of _ h])
qed

lemma sample_rollback:
  assumes "d_members d = [sample_member role_head]" "d_id d = ''dep-0''" "d_prev d = []"
    "d_launch_order d = [role_head]" "d_bkc_id d = []"
  shows "wp (rollback_locked sample_managed d cause redaction) (\<lambda>x w'. snd x = None) w"
proof -
  have fault: "en_fault sample_managed h s = None" for h s
    by (simp add: sample_managed_def sample_env_def)
  have calls: "en_inspect sample_managed h dev c = Inr (sample_observed\<lparr>o_deployment := ''dep-0''\<rparr>)"
    "en_remove_managed sample_managed h d0 m = None" for h dev c d0 m
    by (simp_all add: sample_managed_def sample_env_def)
  have plain: "\<not> is_head_recipe_bkc (en_catalog sample_managed) []"
    using sample_no_recipe by (simp add: is_head_recipe_bkc_def)
  have capture: "wp (capture_candidate_logs sample_managed d0 m redaction) Q w0"
    if "\<And>d' w'. same_progress d0 d' \<Longrightarrow> Q d' w'" for d0 m Q w0
    by (rule wp_mono [OF wp_capture_same]) (use that in blast)
  have finish: "wp (finish_rollback sample_managed d0) (\<lambda>x w'. snd x = None) w0" if "clean d0" for d0 w0
    unfolding finish_rollback_def Let_def
    using that by (auto simp: wp_simp rollback_of_updated intro!: wp_persist_ok fault)
  have one: "wp (remove_candidate sample_managed False redaction 0 d0) Q w0"
    if "d_members d0 = [sample_member role_head]" "d_id d0 = ''dep-0''" "clean d0"
      "\<And>d' w'. clean d' \<Longrightarrow> d_prev d' = d_prev d0 \<Longrightarrow> Q (d', True) w'" for d0 Q w0
    unfolding remove_candidate_def remove_confirmed_def Let_def before_member_action_def after_member_action_def
    using that sample_identity
    by (auto simp: wp_simp calls sample_member_def same_progress_def intro!: wp_persist_ok fault capture)
  have status: "candidate_may_exist (m_status (sample_member role_head))"
    by (simp add: sample_member_def candidate_may_exist_def)
  have order: "reverse_launch_indexes (en_catalog sample_managed) d0 = [0]"
    if "d_members d0 = [sample_member role_head]" "d_launch_order d0 = [role_head]" for d0
    by (rule sample_order [OF that(1) _ that(2)]) (simp add: sample_member_def)
  show ?thesis
    unfolding rollback_locked_def Let_def
    by (auto simp: wp_simp assms plain order status intro!: wp_persist_ok fault one finish)
qed

theorem rollback_success_witness:
  "d_state (fst (fst (run_state (rollback sample_managed ''dep-0'') sample_world))) = StateRolledBack"
proof -
  have running: "d_state sample_running = StateRunning" "d_members sample_running = [sample_member role_head]"
    "d_launch_order sample_running = [role_head]" "d_id sample_running = ''dep-0''" "d_prev sample_running = []"
    "d_bkc_id sample_running = []"
    by (simp_all add: sample_running_def deployment_zero_def)
  have "wp (rollback sample_managed ''dep-0'') (\<lambda>x w'. snd x = None) sample_world"
    by (simp add: rollback_def wp_simp sample_stored running sample_rollback)
  then show ?thesis
    using rollback_success [OF sample_stored, of sample_managed] running
    by (cases "run_state (rollback sample_managed ''dep-0'') sample_world") (auto simp: wp_def)
qed

end
