(* ===== verification/Deploy_Reconcile.thy ===== *)
theory Deploy_Reconcile
  imports Deploy_Recovery
begin

text \<open>
  What recovering interrupted operations may do to containers: an interrupted start or stop
  is finished by stopping members, and only the deployments of incomplete creates and
  failed rollbacks are rolled back, so only their candidates are ever removed.
\<close>

section \<open>The events of a recovery\<close>

text \<open>\<open>I\<close> is the set of deployments that may be rolled back.\<close>

fun recovery_event :: "string set \<Rightarrow> event \<Rightarrow> bool" where
  "recovery_event I (EvPut d p ok) = True"
| "recovery_event I (EvInspect dev c r) = True"
| "recovery_event I (EvStopManaged d m r) = True"
| "recovery_event I (EvCapture d m key r) = (d_id d \<in> I)"
| "recovery_event I (EvRemoveManaged d m r) = (d_id d \<in> I)"
| "recovery_event I (EvRestart dev c r) = (I \<noteq> {})"
| "recovery_event I (EvWaitRunning dev c r) = (I \<noteq> {})"
| "recovery_event I e = False"

definition adds :: "string set \<Rightarrow> world \<Rightarrow> world \<Rightarrow> bool" where
  "adds I w w' \<longleftrightarrow> (\<exists>es. w_trace w' = es @ w_trace w \<and> list_all (recovery_event I) es)"

lemma adds_refl [simp]: "adds I w w"
  by (simp add: adds_def)

lemma adds_Cons: "recovery_event I e \<Longrightarrow> adds I w w' \<Longrightarrow> w_trace w'' = e # w_trace w' \<Longrightarrow> adds I w w''"
proof -
  assume e: "recovery_event I e" "w_trace w'' = e # w_trace w'" and "adds I w w'"
  then obtain es where "w_trace w' = es @ w_trace w" "list_all (recovery_event I) es" by (auto simp: adds_def)
  with e show "adds I w w''" unfolding adds_def by (intro exI [of _ "e # es"]) simp
qed

lemma adds_event [simp]: "recovery_event I e \<Longrightarrow> adds I w w' \<Longrightarrow> adds I w (record_event e w')"
  by (rule adds_Cons) simp_all

lemma adds_clock [simp]: "adds I w (w'\<lparr>w_clock := n\<rparr>) = adds I w w'"
  by (simp add: adds_def)

lemma adds_put [simp]: "adds I w w' \<Longrightarrow> adds I w (put_world d p ok w')"
  by (rule adds_Cons [of I "EvPut d p ok"]) simp_all

lemma wp_persist_adds:
  assumes "adds I v w" and "\<And>e now w'. adds I v w' \<Longrightarrow> Q (journal_entry d ph a r s det now, e) w'"
  shows "wp (persist_progress env d ph a r s det) Q w"
  using assms by (auto intro: wp_persist)

section \<open>Stopping\<close>

lemma wp_stop_one_adds:
  assumes "adds I v w" and "\<And>x w'. adds I v w' \<Longrightarrow> Q x w'"
  shows "wp (stop_one env i d) Q w"
  unfolding stop_one_def Let_def before_member_action_def after_member_action_def
  using assms(1) by (auto simp: wp_simp intro!: wp_persist_adds [where I = I and v = v] assms(2))

lemma wp_stop_all_adds:
  assumes "adds I v w" and "\<And>x w'. adds I v w' \<Longrightarrow> Q x w'"
  shows "wp (stop_all env is d errs) Q w"
  using assms
proof (induction "is" arbitrary: d errs w)
  case (Cons i "is")
  show ?case
    using Cons.prems(1)
    by (auto simp: wp_simp intro!: Cons.prems(2) wp_stop_one_adds [where I = I and v = v] Cons.IH)
qed (simp add: wp_simp)

lemma wp_stop_locked_adds:
  assumes "adds I v w" and "\<And>x w'. adds I v w' \<Longrightarrow> Q x w'"
  shows "wp (stop_locked env d) Q w"
  unfolding stop_locked_def Let_def
  using assms(1) by (auto simp: wp_simp intro!: wp_persist_adds [where I = I and v = v]
      wp_stop_all_adds [where I = I and v = v] assms(2) split: option.splits)

lemma wp_fail_start_all_adds:
  assumes "adds I v w" and "\<And>x w'. adds I v w' \<Longrightarrow> Q x w'"
  shows "wp (fail_start_all env is d errs) Q w"
  using assms
proof (induction "is" arbitrary: d errs w)
  case (Cons i "is")
  have one: "wp (fail_start_one env i d) P w1" if "adds I v w1" "\<And>x w'. adds I v w' \<Longrightarrow> P x w'" for P w1
    unfolding fail_start_one_def Let_def using that(1) by (auto simp: wp_simp intro!: that(2))
  show ?case
    using Cons.prems(1)
    by (auto simp: wp_simp intro!: Cons.prems(2) one Cons.IH)
qed (simp add: wp_simp)

lemma wp_fail_start_adds:
  assumes "adds I v w" and "\<And>x w'. adds I v w' \<Longrightarrow> Q x w'"
  shows "wp (fail_start env d cause) Q w"
  unfolding fail_start_def Let_def
  using assms(1) by (auto simp: wp_simp intro!: wp_persist_adds [where I = I and v = v]
      wp_fail_start_all_adds [where I = I and v = v] assms(2))

section \<open>Rolling back\<close>

lemma wp_capture_adds:
  assumes "adds I v w" "d_id d \<in> I" and "\<And>d' w'. adds I v w' \<Longrightarrow> d_id d' = d_id d \<Longrightarrow> Q d' w'"
  shows "wp (capture_candidate_logs env d m redaction) Q w"
  unfolding capture_candidate_logs_def Let_def
  using assms(1,2) by (auto simp: wp_simp intro!: wp_persist_adds [where I = I and v = v] assms(3))

lemma wp_capture_all_adds:
  assumes "adds I v w" "d_id d \<in> I" and "\<And>d' w'. adds I v w' \<Longrightarrow> d_id d' = d_id d \<Longrightarrow> Q d' w'"
  shows "wp (capture_all env redaction ms d) Q w"
  using assms
proof (induction ms arbitrary: d w)
  case (Cons m ms)
  show ?case
    using Cons.prems(1,2) by (auto simp: wp_simp intro!: wp_capture_adds [where I = I and v = v]
      Cons.IH Cons.prems(3))
qed (simp add: wp_simp)

lemma wp_remove_candidate_adds:
  assumes "adds I v w" "d_id d \<in> I" and "\<And>d' ok w'. adds I v w' \<Longrightarrow> d_id d' = d_id d \<Longrightarrow> Q (d', ok) w'"
  shows "wp (remove_candidate env hr redaction i d) Q w"
proof -
  have confirmed: "wp (remove_confirmed env b redaction i m d1) Q w1" if "adds I v w1" "d_id d1 = d_id d" for b m d1 w1
    unfolding remove_confirmed_def after_member_action_def
    using that assms(2) by (auto simp: wp_simp intro!: wp_capture_adds [where I = I and v = v]
      wp_persist_adds [where I = I and v = v] assms(3))
  show ?thesis
    unfolding remove_candidate_def Let_def before_member_action_def
    using assms(1,2) by (auto simp: wp_simp intro!: wp_persist_adds [where I = I and v = v]
      confirmed assms(3))
qed

lemma wp_remove_candidates_adds:
  assumes "adds I v w" "d_id d \<in> I" and "\<And>d' ok w'. adds I v w' \<Longrightarrow> d_id d' = d_id d \<Longrightarrow> Q (d', ok) w'"
  shows "wp (remove_candidates env hr redaction is d ok) Q w"
  using assms
proof (induction "is" arbitrary: d ok w)
  case (Cons i "is")
  show ?case
    using Cons.prems(1,2) by (auto simp: wp_simp intro!:
      wp_remove_candidate_adds [where I = I and v = v] Cons.IH Cons.prems(3))
qed (simp add: wp_simp)

lemma wp_restore_previous_adds:
  assumes "adds I v w" "I \<noteq> {}" and "\<And>d' w'. adds I v w' \<Longrightarrow> Q d' w'"
  shows "wp (restore_previous env is d) Q w"
  using assms
proof (induction "is" arbitrary: d w)
  case (Cons i "is")
  show ?case
    unfolding restore_previous.simps restore_one_def audit_restart_def await_restored_def
      before_previous_action_def Let_def
    using Cons.prems(1) by (auto simp: wp_simp Cons.prems(2) intro!:
      wp_persist_adds [where I = I and v = v] Cons.IH Cons.prems(3))
qed (simp add: wp_simp)

lemma wp_rollback_locked_adds:
  assumes "adds I v w" "d_id d \<in> I" and "\<And>x w'. adds I v w' \<Longrightarrow> Q x w'"
  shows "wp (rollback_locked env d cause redaction) Q w"
proof -
  have "I \<noteq> {}" using assms(2) by auto
  then show ?thesis
    unfolding rollback_locked_def finish_rollback_def Let_def
    using assms(1,2)
    by (auto simp: wp_simp intro!: wp_persist_adds [where I = I and v = v]
      wp_capture_all_adds [where I = I and v = v] wp_remove_candidates_adds [where I = I and v = v]
        wp_restore_previous_adds [where I = I and v = v] assms(3))
qed

section \<open>Reconciling\<close>

text \<open>
  The deployments the recovery may roll back: those whose create never finished, those
  whose rollback failed, and failed ones whose journal ends in a create or a rollback.
\<close>

definition rollback_due :: "deployment \<Rightarrow> bool" where
  "rollback_due d \<longleftrightarrow> d_state d \<in> {StatePending, StateRollbackFailed} \<or>
     d_state d = StateFailed \<and> unsafe_state_recovery_for d = RecoverIncompleteCreate"

lemma wp_reconcile_unsafe_adds:
  assumes "adds I v w" "unsafe_state_recovery_for d = RecoverIncompleteCreate \<Longrightarrow> d_id d \<in> I"
    and "\<And>x w'. adds I v w' \<Longrightarrow> Q x w'"
  shows "wp (reconcile_unsafe env d) Q w"
  unfolding reconcile_unsafe_def
  using assms(1,2)
  by (cases "unsafe_state_recovery_for d")
    (auto simp: wp_simp intro!: wp_fail_start_adds [where I = I and v = v]
      wp_stop_locked_adds [where I = I and v = v] wp_rollback_locked_adds [where I = I and v = v]
      assms(3))

lemma rollback_due_state:
  assumes "d_state d \<in> {StateStarting, StateStopping, StateFailed}"
    and "unsafe_state_recovery_for d = RecoverIncompleteCreate"
  shows "rollback_due d"
  using assms by (auto simp: rollback_due_def unsafe_state_recovery_for_def)

lemma wp_reconcile_all_adds:
  assumes "adds I v w" "\<And>d. d \<in> set ds \<Longrightarrow> rollback_due d \<Longrightarrow> d_id d \<in> I"
    and "\<And>x w'. adds I v w' \<Longrightarrow> Q x w'"
  shows "wp (reconcile_all env ds errs) Q w"
  using assms
proof (induction ds arbitrary: errs w)
  case (Cons d ds)
  have rest: "wp (reconcile_all env ds errs') Q w1" if "adds I v w1" for errs' w1
    by (rule Cons.IH [OF that]) (auto intro: Cons.prems(2,3))
  have due: "d_id d \<in> I" if "rollback_due d" using Cons.prems(2) that by simp
  have roll: "d_id d \<in> I" if "d_state d \<in> {StatePending, StateRollbackFailed}"
    using that by (intro due) (auto simp: rollback_due_def)
  have unsafe: "d_id d \<in> I" if "d_state d \<in> {StateStarting, StateStopping, StateFailed}"
    "unsafe_state_recovery_for d = RecoverIncompleteCreate"
    by (rule due [OF rollback_due_state [OF that]])
  show ?case
    unfolding reconcile_all.simps wp_if wp_bind wp_pair
    using Cons.prems(1)
    by (intro conjI impI wp_rollback_locked_adds [where I = I and v = v]
      wp_reconcile_unsafe_adds [where I = I and v = v] rest)
      (auto intro: roll unsafe)
qed (simp add: wp_simp)

text \<open>
  C26: reconciling after a restart never launches, pulls or tests anything. It removes a
  container, or reads its logs, only for a deployment recorded as pending or
  rollback-failed, or as failed with a journal that ends in a create or a rollback; it
  restarts previous containers only if there is such a deployment. Every other interrupted
  deployment is recovered by stopping its members.
\<close>

theorem reconcile_removes_incomplete_only:
  "case run_state (reconcile env) w of (e, w') \<Rightarrow> \<exists>es. w_trace w' = es @ w_trace w \<and>
     list_all (recovery_event {d_id d |d. d \<in> set (w_docs w) \<and> rollback_due d}) es"
proof -
  let ?I = "{d_id d |d. d \<in> set (w_docs w) \<and> rollback_due d}"
  have "wp (reconcile env) (\<lambda>e w'. adds ?I w w') w"
    unfolding reconcile_def
    by (auto simp: wp_simp store_list_def intro!: wp_reconcile_all_adds [where I = ?I and v = w])
  then show ?thesis by (simp add: wp_def adds_def)
qed

end
