(* ===== verification/Go_Base64.thy ===== *)
theory Go_Base64
  imports Go_Json
begin

text \<open>
  \<^verbatim>\<open>encoding/base64\<close> without padding, as the sources use it: the URL alphabet for tokens and
  the standard alphabet for keys. The decoder ignores line breaks and the unused bits of the
  last digit, as Go's does.
\<close>

definition b64_common :: string where
  "b64_common = ''ABCDEFGHIJKLMNOPQRSTUVWXYZabcdefghijklmnopqrstuvwxyz0123456789''"

definition b64_url :: string where "b64_url = b64_common @ ''-_''"
definition b64_std :: string where "b64_std = b64_common @ ''+/''"

fun b64_digits :: "nat list \<Rightarrow> nat list" where
  "b64_digits [] = []"
| "b64_digits [a] = [a div 4, a mod 4 * 16]"
| "b64_digits [a, b] = [a div 4, a mod 4 * 16 + b div 16, b mod 16 * 4]"
| "b64_digits (a # b # c # bs) =
     (a div 4) # (a mod 4 * 16 + b div 16) # (b mod 16 * 4 + c div 64) # (c mod 64) # b64_digits bs"

fun b64_bytes :: "nat list \<Rightarrow> nat list option" where
  "b64_bytes [] = Some []"
| "b64_bytes [w] = None"
| "b64_bytes [w, x] = Some [w * 4 + x div 16]"
| "b64_bytes [w, x, y] = Some [w * 4 + x div 16, x mod 16 * 16 + y div 4]"
| "b64_bytes (w # x # y # z # ds) =
     map_option (\<lambda>bs. (w * 4 + x div 16) # (x mod 16 * 16 + y div 4) # (y mod 4 * 64 + z) # bs) (b64_bytes ds)"

fun map_all :: "('a \<Rightarrow> 'b option) \<Rightarrow> 'a list \<Rightarrow> 'b list option" where
  "map_all f [] = Some []"
| "map_all f (x # xs) =
     (case f x of None \<Rightarrow> None | Some y \<Rightarrow> (case map_all f xs of None \<Rightarrow> None | Some ys \<Rightarrow> Some (y # ys)))"

definition b64_encode :: "string \<Rightarrow> string \<Rightarrow> string" where
  "b64_encode alphabet s = map (\<lambda>d. alphabet ! d) (b64_digits (map of_char s))"

definition b64_decode :: "string \<Rightarrow> string \<Rightarrow> string option" where
  "b64_decode alphabet s =
     (case map_all (\<lambda>c. find_index (\<lambda>x. x = c) alphabet) (filter (\<lambda>c. c \<notin> {CHR 0x0A, CHR 0x0D}) s) of
        None \<Rightarrow> None
      | Some ds \<Rightarrow> map_option (map char_of) (b64_bytes ds))"

section \<open>Round trip\<close>

lemma b64_digits_bound: "list_all (\<lambda>b. b < 256) bs \<Longrightarrow> list_all (\<lambda>d. d < 64) (b64_digits bs)"
  by (induction bs rule: b64_digits.induct) auto

lemma pack_digit:
  fixes q k r :: nat
  assumes "r < k"
  shows "(q * k + r) div k = q" "(q * k + r) mod k = r"
  using assms by simp_all

lemma b64_group:
  fixes a b c :: nat
  assumes "a < 256" "b < 256" "c < 256"
  shows "a div 4 * 4 + (a mod 4 * 16 + b div 16) div 16 = a"
    "(a mod 4 * 16 + b div 16) mod 16 * 16 + (b mod 16 * 4 + c div 64) div 4 = b"
    "(b mod 16 * 4 + c div 64) mod 4 * 64 + c mod 64 = c"
proof -
  have "b div 16 < 16" "c div 64 < 4" using assms by (simp_all add: less_mult_imp_div_less)
  then show "a div 4 * 4 + (a mod 4 * 16 + b div 16) div 16 = a"
    "(a mod 4 * 16 + b div 16) mod 16 * 16 + (b mod 16 * 4 + c div 64) div 4 = b"
    "(b mod 16 * 4 + c div 64) mod 4 * 64 + c mod 64 = c"
    by (simp_all only: pack_digit div_mult_mod_eq)
qed

lemma b64_bytes_digits: "list_all (\<lambda>b. b < 256) bs \<Longrightarrow> b64_bytes (b64_digits bs) = Some bs"
proof (induction bs rule: b64_digits.induct)
  case (2 a)
  then show ?case using b64_group [of a 0 0] by simp
next
  case (3 a b)
  then show ?case using b64_group [of a b 0] by simp
next
  case (4 a b c bs)
  then show ?case using b64_group [of a b c] by simp
qed simp

lemma find_index_nth:
  assumes "distinct xs" "n < length xs"
  shows "find_index (\<lambda>x. x = xs ! n) xs = Some n"
  using assms
proof (induction xs arbitrary: n)
  case (Cons x xs)
  then show ?case by (cases n) auto
qed simp

lemma map_all_inverse: "(\<And>x. x \<in> set xs \<Longrightarrow> f (g x) = Some x) \<Longrightarrow> map_all f (map g xs) = Some xs"
  by (induction xs) auto

definition b64_alphabet :: "string \<Rightarrow> bool" where
  "b64_alphabet a \<longleftrightarrow> distinct a \<and> length a = 64 \<and> CHR 0x0A \<notin> set a \<and> CHR 0x0D \<notin> set a"

lemma b64_alphabets [simp]: "b64_alphabet b64_url" "b64_alphabet b64_std"
  by (simp_all add: b64_alphabet_def b64_url_def b64_std_def b64_common_def)

lemma b64_decode_encode:
  assumes "b64_alphabet a"
  shows "b64_decode a (b64_encode a s) = Some s"
proof -
  define ds where "ds = b64_digits (map of_char s)"
  have bytes: "list_all (\<lambda>b. b < 256) (map of_char s :: nat list)"
    by (induction s) simp_all
  then have ds: "list_all (\<lambda>d. d < 64) ds" unfolding ds_def by (rule b64_digits_bound)
  have a: "distinct a" "length a = 64" using assms by (simp_all add: b64_alphabet_def)
  have "a ! d \<notin> {CHR 0x0A, CHR 0x0D}" if "d \<in> set ds" for d
  proof -
    have "a ! d \<in> set a" using ds that a(2) by (intro nth_mem) (simp add: list_all_iff)
    then show ?thesis using assms by (auto simp: b64_alphabet_def)
  qed
  then have "filter (\<lambda>c. c \<notin> {CHR 0x0A, CHR 0x0D}) (map (\<lambda>d. a ! d) ds) = map (\<lambda>d. a ! d) ds"
    by (intro filter_True) auto
  moreover have "map_all (\<lambda>c. find_index (\<lambda>x. x = c) a) (map (\<lambda>d. a ! d) ds) = Some ds"
    by (rule map_all_inverse) (use ds a in \<open>auto simp: list_all_iff intro: find_index_nth\<close>)
  moreover have "map char_of (map of_char s :: nat list) = s"
    by (simp add: comp_def)
  ultimately show ?thesis
    using b64_bytes_digits [OF bytes] by (simp add: b64_decode_def b64_encode_def ds_def)
qed

text \<open>Encoded text has only alphabet characters.\<close>

lemma b64_encode_chars:
  assumes "b64_alphabet a"
  shows "set (b64_encode a s) \<subseteq> set a"
proof -
  have "list_all (\<lambda>b. b < 256) (map of_char s :: nat list)"
    by (induction s) simp_all
  then have "list_all (\<lambda>d. d < 64) (b64_digits (map of_char s))" by (rule b64_digits_bound)
  then show ?thesis using assms by (auto simp: b64_encode_def b64_alphabet_def list_all_iff)
qed

end
