(* ===== verification/Launch_Auth.thy ===== *)
theory Launch_Auth
  imports Bkc_Validate Go_Base64 Go_Sha256
begin

text \<open>
  Launch authorizations: \<^verbatim>\<open>internal/launchauth\<close> (claims, tokens, the replay store) and
  \<^verbatim>\<open>internal/agent/launch_authorization.go\<close> (what an agent checks before it starts a
  coordinated container). The signature scheme and the JSON decoder of the claims are
  parameters; instants are integers, in nanoseconds, with Go's 64-bit seconds underneath.
\<close>

section \<open>Requests and their digest\<close>

record launch_request =
  lr_image :: string
  lr_name :: string
  lr_model :: string
  lr_gguf_variant :: string
  lr_gguf_files :: "string list"
  lr_hf_token :: string
  lr_ports :: "gomap option"
  lr_env :: "gomap option"
  lr_gpu_ids :: string
  lr_extra_args :: string
  lr_args :: "string list"
  lr_volumes :: "gomap option"
  lr_plugins :: "string list option"
  lr_runtime :: runtime_options
  lr_skip_pull :: bool
  lr_labels :: gomap
  lr_network_mode :: string
  lr_devices :: "string list"
  lr_cap_add :: "string list"
  lr_entrypoint :: string

text \<open>The agent's container request is a launch request with its token.\<close>

record container_request = launch_request +
  cr_authorization :: string

definition json_runtime :: "runtime_options \<Rightarrow> string" where
  "json_runtime rt = json_object
     (omit_if (rt_ipc_mode rt = []) (json_field ''ipc_mode'' (json_string (rt_ipc_mode rt))) @
      omit_if (rt_shm_size rt = []) (json_field ''shm_size'' (json_string (rt_shm_size rt))) @
      omit_if (rt_ulimits rt = []) (json_field ''ulimits'' (json_map (rt_ulimits rt))) @
      omit_if (rt_restart_policy rt = []) (json_field ''restart_policy'' (json_string (rt_restart_policy rt))))"

definition json_request :: "'a launch_request_scheme \<Rightarrow> string" where
  "json_request r = json_object
     ([json_field ''image'' (json_string (lr_image r)), json_field ''name'' (json_string (lr_name r)),
       json_field ''model'' (json_string (lr_model r))] @
      omit_if (lr_gguf_variant r = []) (json_field ''gguf_variant'' (json_string (lr_gguf_variant r))) @
      omit_if (lr_gguf_files r = []) (json_field ''gguf_files'' (json_strings (lr_gguf_files r))) @
      omit_if (lr_hf_token r = []) (json_field ''hf_token'' (json_string (lr_hf_token r))) @
      [json_field ''ports'' (json_nullable json_map (lr_ports r)),
       json_field ''env'' (json_nullable json_map (lr_env r)),
       json_field ''gpu_ids'' (json_string (lr_gpu_ids r)),
       json_field ''extra_args'' (json_string (lr_extra_args r))] @
      omit_if (lr_args r = []) (json_field ''args'' (json_strings (lr_args r))) @
      [json_field ''volumes'' (json_nullable json_map (lr_volumes r)),
       json_field ''plugins'' (json_nullable json_strings (lr_plugins r)),
       json_field ''runtime'' (json_runtime (lr_runtime r))] @
      omit_if (\<not> lr_skip_pull r) (json_field ''skip_pull'' ''true'') @
      omit_if (lr_labels r = []) (json_field ''labels'' (json_map (lr_labels r))) @
      omit_if (lr_network_mode r = []) (json_field ''network_mode'' (json_string (lr_network_mode r))) @
      omit_if (lr_devices r = []) (json_field ''devices'' (json_strings (lr_devices r))) @
      omit_if (lr_cap_add r = []) (json_field ''cap_add'' (json_strings (lr_cap_add r))) @
      omit_if (lr_entrypoint r = []) (json_field ''entrypoint'' (json_string (lr_entrypoint r))))"

definition redact_key_arg :: "string \<Rightarrow> string" where
  "redact_key_arg a = (if has_prefix a ''--api-key='' then ''--api-key=<request-scoped>'' else a)"

definition candidate_digest :: "'a launch_request_scheme \<Rightarrow> string" where
  "candidate_digest r =
     sha256_hex (json_request (r\<lparr>lr_args := map redact_key_arg (lr_args r), lr_hf_token := []\<rparr>))"

section \<open>Claims and tokens\<close>

datatype auth_error =
    AuthInvalid string | AuthExpired | AuthReplay | AuthUnavailable | AuthUnexpected
  | AuthRejected string | AuthStore string

record claims =
  cl_version :: int
  cl_audience :: string
  cl_id :: string
  cl_target :: string
  cl_deployment :: string
  cl_generation :: int
  cl_candidate :: string
  cl_role :: string
  cl_bkc :: string
  cl_model :: string
  cl_model_revision :: string
  cl_source_revision :: string
  cl_image :: string
  cl_image_digest :: string
  cl_digest :: string
  cl_issued :: int
  cl_expires :: int

definition token_prefix :: string where "token_prefix = ''yokai-launch-v1''"
definition token_audience :: string where "token_audience = ''yokai-agent-coordinated-qwen-launch''"
definition lifetime_seconds :: int where "lifetime_seconds = 120"
definition max_skew_seconds :: int where "max_skew_seconds = 15"
definition nanos :: int where "nanos = 10 ^ 9"

text \<open>Go's \<^verbatim>\<open>int64\<close>: the value a computation leaves after wrapping.\<close>

definition wrap64 :: "int \<Rightarrow> int" where
  "wrap64 x = (x + 2 ^ 63) mod 2 ^ 64 - 2 ^ 63"

text \<open>
  \<^verbatim>\<open>time.Unix(s, 0)\<close> keeps 64-bit seconds since the year 1, which wrap; \<^verbatim>\<open>Add\<close> saturates.
  An instant is then compared in nanoseconds since 1970.
\<close>

definition unix_to_internal :: int where "unix_to_internal = 62135596800"

definition unix_time :: "int \<Rightarrow> int" where
  "unix_time s = wrap64 (s + unix_to_internal)"

definition add_seconds :: "int \<Rightarrow> int \<Rightarrow> int" where
  "add_seconds t d =
     (if - (2 ^ 63) \<le> t + d \<and> t + d < 2 ^ 63 then t + d
      else if d > 0 then 2 ^ 63 - 1 else - (2 ^ 63 - 1))"

definition instant :: "int \<Rightarrow> int" where
  "instant t = (t - unix_to_internal) * nanos"

text \<open>\<^verbatim>\<open>NewClaims\<close>; the random bytes are an argument, \<open>None\<close> when the system gives none.\<close>

definition new_claims ::
  "int \<Rightarrow> string option \<Rightarrow> 'a launch_request_scheme \<Rightarrow> string \<Rightarrow> string \<Rightarrow> int \<Rightarrow> string \<Rightarrow> string \<Rightarrow> string \<Rightarrow>
   string \<Rightarrow> string \<Rightarrow> string \<Rightarrow> auth_error + claims" where
  "new_claims now random r target deployment generation candidate role bkc model_revision source_revision
     image_digest =
     (if trim_space target = [] then Inl (AuthInvalid ''target device identity is required'')
      else (case random of
          None \<Rightarrow> Inl (AuthRejected ''generate authorization ID'')
        | Some bytes \<Rightarrow> Inr
            \<lparr>cl_version = 1, cl_audience = token_audience, cl_id = concat (map (hex_byte \<circ> of_char) bytes),
             cl_target = target, cl_deployment = deployment, cl_generation = generation,
             cl_candidate = candidate, cl_role = role, cl_bkc = bkc, cl_model = lr_model r,
             cl_model_revision = model_revision, cl_source_revision = source_revision,
             cl_image = lr_image r, cl_image_digest = image_digest, cl_digest = candidate_digest r,
             cl_issued = now div nanos, cl_expires = (now + lifetime_seconds * nanos) div nanos\<rparr>))"

definition json_claims :: "claims \<Rightarrow> string" where
  "json_claims c = json_object
     [json_field ''version'' (itoa (cl_version c)), json_field ''audience'' (json_string (cl_audience c)),
      json_field ''id'' (json_string (cl_id c)), json_field ''target_device_id'' (json_string (cl_target c)),
      json_field ''deployment_id'' (json_string (cl_deployment c)),
      json_field ''generation'' (itoa (cl_generation c)),
      json_field ''candidate_name'' (json_string (cl_candidate c)),
      json_field ''role'' (json_string (cl_role c)), json_field ''bkc_id'' (json_string (cl_bkc c)),
      json_field ''model'' (json_string (cl_model c)),
      json_field ''model_revision'' (json_string (cl_model_revision c)),
      json_field ''source_revision'' (json_string (cl_source_revision c)),
      json_field ''image'' (json_string (cl_image c)),
      json_field ''image_digest'' (json_string (cl_image_digest c)),
      json_field ''candidate_digest'' (json_string (cl_digest c)),
      json_field ''issued_at'' (itoa (cl_issued c)), json_field ''expires_at'' (itoa (cl_expires c))]"

text \<open>\<^verbatim>\<open>Sign\<close>; keys and signatures are byte strings of Ed25519's fixed lengths.\<close>

definition sign_token ::
  "(string \<Rightarrow> string \<Rightarrow> string) \<Rightarrow> string \<Rightarrow> claims \<Rightarrow> auth_error + string" where
  "sign_token ed_sign private c =
     (if length private \<noteq> 64 then Inl (AuthInvalid ''coordinator signing key has invalid length'')
      else (let message = token_prefix @ ''.'' @ b64_encode b64_url (json_claims c)
            in Inr (message @ ''.'' @ b64_encode b64_url (ed_sign private message))))"

definition is_hex :: "char \<Rightarrow> bool" where
  "is_hex c \<longleftrightarrow> is_digit c \<or> (let n = of_char c :: nat in (97 \<le> n \<and> n \<le> 102) \<or> (65 \<le> n \<and> n \<le> 70))"

definition hex_ok :: "string \<Rightarrow> bool" where
  "hex_ok s \<longleftrightarrow> even (length s) \<and> list_all is_hex s"

text \<open>The checks of \<^verbatim>\<open>Verify\<close> on decoded claims, in order.\<close>

definition check_claims :: "claims \<Rightarrow> int \<Rightarrow> auth_error option" where
  "check_claims c now =
     (if cl_version c \<noteq> 1 \<or> cl_audience c \<noteq> token_audience \<or> length (cl_id c) \<noteq> 32
        then Some (AuthInvalid ''unsupported claims'')
      else if \<not> hex_ok (cl_id c) then Some (AuthInvalid ''invalid authorization ID'')
      else if trim_space (cl_target c) = [] \<or> cl_generation c \<le> 0 \<or> cl_deployment c = [] \<or>
              cl_candidate c = [] \<or> cl_role c = [] \<or> cl_bkc c = [] \<or> cl_model c = [] \<or>
              cl_model_revision c = [] \<or> cl_source_revision c = [] \<or> cl_image c = [] \<or>
              cl_image_digest c = [] \<or> length (cl_digest c) \<noteq> 64
        then Some (AuthInvalid ''incomplete candidate claims'')
      else if \<not> hex_ok (cl_digest c) then Some (AuthInvalid ''invalid candidate digest'')
      else if cl_issued c \<le> 0 \<or> cl_expires c \<le> cl_issued c \<or>
              wrap64 (wrap64 (cl_expires c - cl_issued c) * nanos) > lifetime_seconds * nanos
        then Some (AuthInvalid ''invalid lifetime'')
      else if now < instant (add_seconds (unix_time (cl_issued c)) (- max_skew_seconds))
        then Some (AuthInvalid ''issued in the future'')
      else if \<not> now < instant (unix_time (cl_expires c)) then Some AuthExpired
      else None)"

record crypto =
  cy_verify :: "string \<Rightarrow> string \<Rightarrow> string \<Rightarrow> bool"
  cy_decode :: "string \<Rightarrow> claims option"

definition verify_token :: "crypto \<Rightarrow> string \<Rightarrow> string \<Rightarrow> int \<Rightarrow> auth_error + claims" where
  "verify_token cy public token now =
     (if length public \<noteq> 32 then Inl (AuthInvalid ''coordinator verification key is not configured'')
      else (case split_char CHR ''.'' token of
          [prefix, payload, signature] \<Rightarrow>
            if prefix \<noteq> token_prefix then Inl (AuthInvalid ''malformed token'')
            else (case b64_decode b64_url payload of
                None \<Rightarrow> Inl (AuthInvalid ''malformed payload'')
              | Some data \<Rightarrow>
                  (case b64_decode b64_url signature of
                     None \<Rightarrow> Inl (AuthInvalid ''malformed signature'')
                   | Some sig \<Rightarrow>
                       if length sig \<noteq> 64 then Inl (AuthInvalid ''malformed signature'')
                       else if \<not> cy_verify cy public (prefix @ ''.'' @ payload) sig
                         then Inl (AuthInvalid ''signature verification failed'')
                       else (case cy_decode cy data of
                           None \<Rightarrow> Inl (AuthInvalid ''invalid claims'')
                         | Some c \<Rightarrow> (case check_claims c now of Some e \<Rightarrow> Inl e | None \<Rightarrow> Inr c))))
        | _ \<Rightarrow> Inl (AuthInvalid ''malformed token'')))"

section \<open>The replay store\<close>

text \<open>
  What the file system answers while the store directory is prepared: the results of the
  three \<^verbatim>\<open>Lstat\<close> calls, and the errors of \<^verbatim>\<open>MkdirAll\<close> and \<^verbatim>\<open>Chmod\<close>.
\<close>

datatype lstat = LMissing | LError string | LInfo (li_dir: bool) (li_symlink: bool) (li_perm: nat)

record prepare_answers =
  pa_first :: lstat
  pa_mkdir :: "string option"
  pa_second :: lstat
  pa_chmod :: "string option"
  pa_third :: lstat

definition prepare_store :: "prepare_answers \<Rightarrow> auth_error option" where
  "prepare_store pa =
     (let info = (if pa_first pa = LMissing then (if pa_mkdir pa = None then pa_second pa else LMissing)
                  else pa_first pa) in
      if pa_first pa = LMissing \<and> pa_mkdir pa \<noteq> None
        then Some (AuthStore ''create authorization replay store'')
      else (case info of
          LInfo d l p \<Rightarrow>
            if \<not> d \<or> l then Some (AuthStore ''authorization replay store is not a private directory'')
            else if pa_chmod pa \<noteq> None then Some (AuthStore ''secure authorization replay store'')
            else (case pa_third pa of
                LInfo d' l' p' \<Rightarrow>
                  if \<not> d' \<or> l' \<or> p' \<noteq> 448
                  then Some (AuthStore ''authorization replay store is not a private directory'')
                  else None
              | _ \<Rightarrow> Some (AuthStore ''inspect authorization replay store''))
        | _ \<Rightarrow> Some (AuthStore ''inspect authorization replay store'')))"

text \<open>The directory: file names with their contents.\<close>

type_synonym replay_dir = gomap

text \<open>How far the reservation got; an interrupted write leaves any content behind.\<close>

datatype consume_fault =
    NoFault | FaultOpen | FaultWrite string | FaultSync | FaultClose | FaultSyncDir

definition trim_ascii :: "string \<Rightarrow> string" where
  "trim_ascii s =
     (let blank = (\<lambda>c. c \<in> {CHR '' '', CHR 0x0A, CHR 0x0D, CHR 0x09})
      in rev (dropWhile blank (rev (dropWhile blank s))))"

text \<open>\<open>kept\<close>: the entries that are directories, or that cannot be read or removed.\<close>

definition prune_expired :: "(string \<Rightarrow> bool) \<Rightarrow> int \<Rightarrow> replay_dir \<Rightarrow> replay_dir" where
  "prune_expired kept now dir =
     filter (\<lambda>(name, data). kept name \<or>
        (case atoi (trim_ascii data) of
           None \<Rightarrow> True
         | Some s \<Rightarrow> \<not> now > instant (add_seconds (unix_time s) lifetime_seconds))) dir"

definition consume ::
  "prepare_answers \<Rightarrow> consume_fault \<Rightarrow> (string \<Rightarrow> bool) \<Rightarrow> string \<Rightarrow> int \<Rightarrow> int \<Rightarrow> replay_dir \<Rightarrow>
   auth_error option \<times> replay_dir" where
  "consume pa fault kept i expires now dir =
     (case prepare_store pa of
        Some e \<Rightarrow> (Some e, dir)
      | None \<Rightarrow>
          if i \<in> fst ` set dir then (Some AuthReplay, dir)
          else (case fault of
              FaultOpen \<Rightarrow> (Some (AuthStore ''reserve launch authorization''), dir)
            | FaultWrite partial \<Rightarrow>
                (Some (AuthStore ''persist launch authorization reservation''), (i, partial) # dir)
            | _ \<Rightarrow>
                (let dir' = (i, itoa expires @ [CHR 0x0A]) # dir
                 in case fault of
                      FaultSync \<Rightarrow> (Some (AuthStore ''sync launch authorization reservation''), dir')
                    | FaultClose \<Rightarrow> (Some (AuthStore ''close launch authorization reservation''), dir')
                    | FaultSyncDir \<Rightarrow> (Some (AuthStore ''sync launch authorization replay store''), dir')
                    | _ \<Rightarrow> (None, prune_expired kept now dir'))))"

section \<open>Admission by the agent\<close>

definition label_bkc_id :: string where "label_bkc_id = ''io.yokai.bkc.id''"
definition label_deployment :: string where "label_deployment = ''io.yokai.deployment.id''"
definition label_generation :: string where "label_generation = ''io.yokai.deployment.generation''"
definition label_role :: string where "label_role = ''io.yokai.deployment.role''"
definition label_managed :: string where "label_managed = ''io.yokai.managed''"
definition label_ownership :: string where "label_ownership = ''io.yokai.ownership''"
definition label_model_revision :: string where "label_model_revision = ''io.yokai.model.revision''"
definition label_source_revision :: string where "label_source_revision = ''io.yokai.source.revision''"
definition label_image_digest :: string where "label_image_digest = ''io.yokai.image.digest''"
definition label_runtime_patch :: string where "label_runtime_patch = ''io.yokai.runtime.patch''"

text \<open>
  \<^verbatim>\<open>sanitizeName\<close>: every character outside the class, one UTF-8 encoding at a time, becomes
  a hyphen; hyphens at the ends are cut.
\<close>

definition name_char :: "char \<Rightarrow> bool" where
  "name_char c \<longleftrightarrow> is_letter c \<or> is_digit c \<or> c \<in> {CHR ''_'', CHR ''.'', CHR ''-''}"

primrec hyphenate :: "string \<Rightarrow> nat \<Rightarrow> string" where
  "hyphenate [] k = []"
| "hyphenate (c # s) k =
     (case k of
        Suc j \<Rightarrow> hyphenate s j
      | 0 \<Rightarrow> if name_char c then c # hyphenate s 0 else CHR ''-'' # hyphenate s (rune_len (c # s) - 1))"

definition trim_hyphens :: "string \<Rightarrow> string" where
  "trim_hyphens s = rev (dropWhile (\<lambda>c. c = CHR ''-'') (rev (dropWhile (\<lambda>c. c = CHR ''-'') s)))"

definition sanitize_name :: "string \<Rightarrow> string" where
  "sanitize_name name =
     (let s = trim_hyphens (hyphenate name 0) in if s = [] then ''unnamed'' else s)"

definition normalized_name :: "string \<Rightarrow> string" where
  "normalized_name name =
     (let s = sanitize_name name in if has_prefix s ''yokai-'' then s else ''yokai-'' @ s)"

definition complete_provenance :: "'a launch_request_scheme \<Rightarrow> bool" where
  "complete_provenance r \<longleftrightarrow>
     list_all (\<lambda>k. trim_space (map_get (lr_labels r) k) \<noteq> []) [label_deployment, label_generation, label_role] \<and>
     map_get (lr_labels r) label_managed = ''true'' \<and> map_get (lr_labels r) label_ownership = ''managed''"

definition is_qwen_candidate :: "'a launch_request_scheme \<Rightarrow> bool" where
  "is_qwen_candidate r \<longleftrightarrow>
     map_get (lr_labels r) label_bkc_id = qwen38_dual_id \<or> lr_image r = qwen38_image \<or>
     lr_model r = qwen38_model \<or> lr_model r = qwen38_container_model \<or>
     map_get (lr_labels r) label_model_revision = qwen38_revision \<or>
     map_get (lr_labels r) label_source_revision = qwen38_source_revision \<or>
     map_get (lr_labels r) label_image_digest = qwen38_image_digest \<or>
     map_get (lr_labels r) label_runtime_patch = runtime_patch_set_label qwen38_patches"

text \<open>The comparison of the claims with the request, field by field.\<close>

definition claims_match :: "claims \<Rightarrow> container_request \<Rightarrow> int \<Rightarrow> bool" where
  "claims_match c r generation \<longleftrightarrow>
     cl_deployment c = map_get (lr_labels r) label_deployment \<and> cl_generation c = generation \<and>
     cl_candidate c = normalized_name (lr_name r) \<and> cl_role c = map_get (lr_labels r) label_role \<and>
     cl_bkc c = map_get (lr_labels r) label_bkc_id \<and> cl_model c = lr_model r \<and>
     cl_model_revision c = map_get (lr_labels r) label_model_revision \<and>
     cl_source_revision c = map_get (lr_labels r) label_source_revision \<and>
     cl_image c = lr_image r \<and> cl_image_digest c = map_get (lr_labels r) label_image_digest \<and>
     cl_digest c = candidate_digest r"

text \<open>An agent: its verification key, its device and whether it has a replay store.\<close>

record agent =
  ag_crypto :: crypto
  ag_public :: string
  ag_device :: string
  ag_store :: bool

text \<open>The checks before the token is looked at, in order.\<close>

definition check_request :: "agent \<Rightarrow> container_request \<Rightarrow> auth_error + int" where
  "check_request ag r =
     (if length (ag_public ag) \<noteq> 32 \<or> trim_space (ag_device ag) = [] \<or> \<not> ag_store ag then Inl AuthUnavailable
      else if trim_space (cr_authorization r) = []
        then Inl (AuthRejected ''coordinator launch authorization is required'')
      else if map_get (lr_labels r) label_bkc_id \<noteq> qwen38_dual_id
        then Inl (AuthRejected ''coordinated Qwen3.8 BKC provenance is required'')
      else if \<not> complete_provenance r
        then Inl (AuthRejected ''Qwen3.8 dual-node ranks must carry complete coordinated deployment provenance'')
      else if lr_hf_token r \<noteq> []
        then Inl (AuthRejected ''coordinated Qwen3.8 launches do not accept an HF token'')
      else (case atoi (map_get (lr_labels r) label_generation) of
          None \<Rightarrow> Inl (AuthRejected ''coordinated deployment generation is invalid'')
        | Some g \<Rightarrow>
            if g \<le> 0 then Inl (AuthRejected ''coordinated deployment generation is invalid'')
            else if map_get (lr_labels r) label_role \<noteq> role_head \<and>
                    map_get (lr_labels r) label_role \<noteq> role_worker
              then Inl (AuthRejected ''coordinated deployment role is invalid'')
            else if list_ex (\<lambda>k. trim_space (map_get (lr_labels r) k) = [])
                      [label_deployment, label_model_revision, label_source_revision, label_image_digest]
              then Inl (AuthRejected ''coordinated deployment provenance is required'')
            else Inr g))"

definition authorize ::
  "agent \<Rightarrow> container_request \<Rightarrow> int \<Rightarrow> prepare_answers \<Rightarrow> consume_fault \<Rightarrow> (string \<Rightarrow> bool) \<Rightarrow> replay_dir \<Rightarrow>
   auth_error option \<times> replay_dir" where
  "authorize ag r now pa fault kept dir =
     (if \<not> is_qwen_candidate r
        then (if trim_space (cr_authorization r) \<noteq> [] then Some AuthUnexpected else None, dir)
      else (case check_request ag r of
          Inl e \<Rightarrow> (Some e, dir)
        | Inr generation \<Rightarrow>
            (case verify_token (ag_crypto ag) (ag_public ag) (cr_authorization r) now of
               Inl e \<Rightarrow> (Some e, dir)
             | Inr c \<Rightarrow>
                 if cl_target c \<noteq> ag_device ag
                 then (Some (AuthRejected ''launch authorization target device does not match this agent''), dir)
                 else if \<not> claims_match c r generation
                 then (Some (AuthRejected
                         ''launch authorization does not match the exact candidate request''), dir)
                 else consume pa fault kept (cl_id c) (cl_expires c) now dir)))"

section \<open>The coordinator's side\<close>

text \<open>
  \<^verbatim>\<open>signQwenLaunchAuthorization\<close> of \<^verbatim>\<open>internal/daemon/deployments.go\<close>. The payload has no
  GGUF fields, no HF token, no plugins and no entrypoint (\<^verbatim>\<open>launchAuthorizationPayload\<close>).
\<close>

definition launch_payload_request :: "'a launch_request_scheme \<Rightarrow> launch_request" where
  "launch_payload_request p =
     \<lparr>lr_image = lr_image p, lr_name = lr_name p, lr_model = lr_model p, lr_gguf_variant = [],
      lr_gguf_files = [], lr_hf_token = [], lr_ports = lr_ports p, lr_env = lr_env p,
      lr_gpu_ids = lr_gpu_ids p, lr_extra_args = lr_extra_args p, lr_args = lr_args p,
      lr_volumes = lr_volumes p, lr_plugins = None, lr_runtime = lr_runtime p,
      lr_skip_pull = lr_skip_pull p, lr_labels = lr_labels p, lr_network_mode = lr_network_mode p,
      lr_devices = lr_devices p, lr_cap_add = lr_cap_add p, lr_entrypoint = []\<rparr>"

definition launch_claims ::
  "int \<Rightarrow> string option \<Rightarrow> string \<Rightarrow> 'a launch_request_scheme \<Rightarrow> auth_error + claims" where
  "launch_claims now random target p =
     (case atoi (map_get (lr_labels p) label_generation) of
        None \<Rightarrow> Inl (AuthRejected ''candidate generation is invalid'')
      | Some g \<Rightarrow>
          if g \<le> 0 then Inl (AuthRejected ''candidate generation is invalid'')
          else new_claims now random (launch_payload_request p) target
                 (map_get (lr_labels p) label_deployment) g (lr_name p)
                 (map_get (lr_labels p) label_role) (map_get (lr_labels p) label_bkc_id)
                 (map_get (lr_labels p) label_model_revision)
                 (map_get (lr_labels p) label_source_revision)
                 (map_get (lr_labels p) label_image_digest))"

definition sign_launch ::
  "(string \<Rightarrow> string \<Rightarrow> string) \<Rightarrow> string \<Rightarrow> int \<Rightarrow> string option \<Rightarrow> string \<Rightarrow> 'a launch_request_scheme \<Rightarrow>
   auth_error + string" where
  "sign_launch ed_sign private now random target p =
     (if length private \<noteq> 64 then Inl (AuthRejected ''coordinator signing key is not configured'')
      else (case launch_claims now random target p of
          Inl e \<Rightarrow> Inl e
        | Inr c \<Rightarrow> sign_token ed_sign private c))"

text \<open>The container request the agent decodes from the payload.\<close>

definition agent_request :: "'a launch_request_scheme \<Rightarrow> string \<Rightarrow> container_request" where
  "agent_request p token =
     launch_request.extend (launch_payload_request p) (container_request.fields token)"

end
