(* ===== verification/Launch_Auth_Properties.thy ===== *)
theory Launch_Auth_Properties
  imports Launch_Auth
begin

text \<open>
  What launch authorizations guarantee: an authorization starts at most one launch, it
  fits exactly one candidate on one device, the coordinator's tokens are accepted, and
  which lifetimes a token can have.
\<close>

section \<open>Instants\<close>

lemma wrap64_bounds: "- (2 ^ 63) \<le> wrap64 x" "wrap64 x < 2 ^ 63"
  by (simp_all add: wrap64_def)

lemma wrap64_id: "- (2 ^ 63) \<le> x \<Longrightarrow> x < 2 ^ 63 \<Longrightarrow> wrap64 x = x"
  by (simp add: wrap64_def)

lemma add_seconds_later: "0 \<le> d \<Longrightarrow> unix_time s \<le> add_seconds (unix_time s) d"
  using wrap64_bounds [of "s + unix_to_internal"] by (auto simp: add_seconds_def unix_time_def)

lemma instant_mono: "a \<le> b \<Longrightarrow> instant a \<le> instant b"
  by (simp add: instant_def nanos_def)

section \<open>Numbers in text\<close>

lemma digit_value: "n < 10 \<Longrightarrow> is_digit (char_of (48 + n)) \<and> (of_char (char_of (48 + n) :: char) :: nat) = 48 + n"
  by (simp add: is_digit_def)

lemma digits_value_append: "digits_value k (a @ b) = Option.bind (digits_value k a) (\<lambda>m. digits_value m b)"
  by (induction k a rule: digits_value.induct) auto

lemma digits_value_nat_text: "digits_value 0 (nat_text n) = Some n"
proof (induction n rule: nat_text.induct)
  case (1 n)
  show ?case
  proof (cases "n < 10")
    case True
    then show ?thesis using digit_value [OF True] by (simp add: nat_text.simps [of n])
  next
    case False
    have "n mod 10 < 10" by simp
    then show ?thesis
      using 1 False digit_value [of "n mod 10"]
      by (simp add: nat_text.simps [of n] digits_value_append)
  qed
qed

lemma nat_text_digits: "nat_text n \<noteq> [] \<and> list_all is_digit (nat_text n)"
proof (induction n rule: nat_text.induct)
  case (1 n)
  have "n mod 10 < 10" by simp
  then show ?case
    using 1 digit_value [of n] digit_value [of "n mod 10"] by (simp add: nat_text.simps [of n])
qed

lemma digit_not_sign: "is_digit c \<Longrightarrow> c \<notin> {CHR ''-'', CHR ''+'', CHR '' '', CHR 0x0A, CHR 0x0D, CHR 0x09}"
  by (auto simp: is_digit_def)

lemma atoi_itoa: "atoi (itoa n) = (if - (2 ^ 63) \<le> n \<and> n < 2 ^ 63 then Some n else None)"
proof (cases "n < 0")
  case True
  then show ?thesis
    using digits_value_nat_text [of "nat (- n)"] nat_text_digits [of "nat (- n)"]
    by (simp add: atoi_def itoa_def has_prefix_def)
next
  case False
  obtain c s where t: "nat_text (nat n) = c # s" "is_digit c"
    using nat_text_digits [of "nat n"] by (cases "nat_text (nat n)") auto
  have p: "\<not> has_prefix (c # s) ''-''" "\<not> has_prefix (c # s) ''+''"
    using digit_not_sign [OF t(2)] by (auto simp: has_prefix_def)
  show ?thesis
    using False digits_value_nat_text [of "nat n"] t(1) by (simp add: atoi_def itoa_def p)
qed

lemma trim_ascii_line:
  assumes "s \<noteq> []" "list_all (\<lambda>c. c \<notin> {CHR '' '', CHR 0x0A, CHR 0x0D, CHR 0x09}) s"
  shows "trim_ascii (s @ [CHR 0x0A]) = s"
proof -
  let ?b = "\<lambda>c. c \<in> {CHR '' '', CHR 0x0A, CHR 0x0D, CHR 0x09 :: char}"
  have same: "dropWhile ?b xs = xs" if "xs \<noteq> []" "list_all (\<lambda>c. \<not> ?b c) xs" for xs
    using that by (cases xs) auto
  have "dropWhile ?b (s @ [CHR 0x0A]) = s @ [CHR 0x0A]"
    using assms by (cases s) auto
  moreover have "dropWhile ?b (rev (s @ [CHR 0x0A])) = rev s"
    using same [of "rev s"] assms by simp
  ultimately show ?thesis unfolding trim_ascii_def Let_def by simp
qed

lemma stored_expiry: "atoi (trim_ascii (itoa n @ [CHR 0x0A])) \<in> {Some n, None}"
proof -
  have "list_all (\<lambda>c. c \<notin> {CHR '' '', CHR 0x0A, CHR 0x0D, CHR 0x09}) (nat_text k)" for k
    using nat_text_digits [of k] digit_not_sign by (auto simp: list_all_iff)
  then have "trim_ascii (itoa n @ [CHR 0x0A]) = itoa n"
    using nat_text_digits by (intro trim_ascii_line) (auto simp: itoa_def)
  then show ?thesis by (simp add: atoi_itoa)
qed

section \<open>An authorization is used once\<close>

text \<open>One launch request as an agent sees it, with everything the file system answers.\<close>

record launch_call =
  ca_request :: container_request
  ca_now :: int
  ca_prepare :: prepare_answers
  ca_fault :: consume_fault
  ca_kept :: "string \<Rightarrow> bool"

definition authorize_call :: "agent \<Rightarrow> launch_call \<Rightarrow> replay_dir \<Rightarrow> auth_error option \<times> replay_dir" where
  "authorize_call ag c = authorize ag (ca_request c) (ca_now c) (ca_prepare c) (ca_fault c) (ca_kept c)"

text \<open>The claims of the launches that were let through, in order.\<close>

text \<open>What one call adds.\<close>

definition let_through :: "agent \<Rightarrow> launch_call \<Rightarrow> auth_error option \<Rightarrow> claims list" where
  "let_through ag c e =
     (if e = None \<and> is_qwen_candidate (ca_request c)
      then (case verify_token (ag_crypto ag) (ag_public ag) (cr_authorization (ca_request c)) (ca_now c) of
              Inr cl \<Rightarrow> [cl] | Inl _ \<Rightarrow> [])
      else [])"

lemma let_through_cases:
  obtains "let_through ag c e = []"
  | cl where "let_through ag c e = [cl]" "e = None" "is_qwen_candidate (ca_request c)"
      "verify_token (ag_crypto ag) (ag_public ag) (cr_authorization (ca_request c)) (ca_now c) = Inr cl"
proof (cases "verify_token (ag_crypto ag) (ag_public ag) (cr_authorization (ca_request c)) (ca_now c)")
  case (Inl x)
  then show ?thesis using that(1) by (simp add: let_through_def)
next
  case (Inr cl)
  then show ?thesis
    using that by (cases "e = None \<and> is_qwen_candidate (ca_request c)") (auto simp: let_through_def)
qed

fun consumed :: "agent \<Rightarrow> launch_call list \<Rightarrow> replay_dir \<Rightarrow> claims list" where
  "consumed ag [] dir = []"
| "consumed ag (c # cs) dir =
     (case authorize_call ag c dir of (e, dir') \<Rightarrow> let_through ag c e @ consumed ag cs dir')"

text \<open>The claims are on record, or so old that the record was cleared.\<close>

definition spent :: "claims \<Rightarrow> int \<Rightarrow> replay_dir \<Rightarrow> bool" where
  "spent c t dir \<longleftrightarrow> (cl_id c, itoa (cl_expires c) @ [CHR 0x0A]) \<in> set dir \<or>
     instant (add_seconds (unix_time (cl_expires c)) lifetime_seconds) < t"

lemma spent_prune: "spent c t dir \<Longrightarrow> t \<le> now \<Longrightarrow> spent c now (prune_expired kept now dir)"
  using stored_expiry [of "cl_expires c"] by (auto simp: spent_def prune_expired_def)

lemma spent_more: "spent c t dir \<Longrightarrow> t \<le> now \<Longrightarrow> spent c now (e # dir)"
  by (auto simp: spent_def)

lemma spent_later: "spent c t dir \<Longrightarrow> t \<le> now \<Longrightarrow> spent c now dir"
  by (auto simp: spent_def)

lemma consume_dir:
  "snd (consume pa fault kept i ex now dir) = dir \<or>
   (\<exists>x. snd (consume pa fault kept i ex now dir) = (i, x) # dir) \<or>
   (\<exists>x. snd (consume pa fault kept i ex now dir) = prune_expired kept now ((i, x) # dir))"
  by (auto simp: consume_def Let_def split: option.split consume_fault.split)

lemma spent_consume:
  assumes "spent c t dir" "t \<le> now"
  shows "spent c now (snd (consume pa fault kept i ex now dir))"
  using consume_dir [of pa fault kept i ex now dir] spent_later [OF assms] spent_more [OF assms]
    spent_prune [OF spent_more [OF assms] order_refl] by metis

lemma authorize_dir:
  "snd (authorize ag r now pa fault kept dir) = dir \<or>
   (\<exists>i ex. snd (authorize ag r now pa fault kept dir) = snd (consume pa fault kept i ex now dir))"
  by (auto simp: authorize_def split: sum.split)

lemma spent_authorize:
  assumes "spent c t dir" "t \<le> ca_now call"
  shows "spent c (ca_now call) (snd (authorize_call ag call dir))"
  using authorize_dir [of ag "ca_request call" "ca_now call" "ca_prepare call" "ca_fault call" "ca_kept call" dir]
    spent_later [OF assms] spent_consume [OF assms] unfolding authorize_call_def by metis

lemma check_claims_unexpired: "check_claims c now = None \<Longrightarrow> now < instant (unix_time (cl_expires c))"
  by (simp add: check_claims_def split: if_splits)

lemma verify_checked: "verify_token cy pk token now = Inr c \<Longrightarrow> check_claims c now = None"
  by (auto simp: verify_token_def split: if_splits list.splits option.splits)

text \<open>What a launch that was let through had to pass.\<close>

lemma authorize_None:
  assumes "authorize ag r now pa fault kept dir = (None, dir')" "is_qwen_candidate r"
  obtains c g where "verify_token (ag_crypto ag) (ag_public ag) (cr_authorization r) now = Inr c"
    "check_request ag r = Inr g" "cl_target c = ag_device ag" "claims_match c r g"
    "consume pa fault kept (cl_id c) (cl_expires c) now dir = (None, dir')"
  using assms by (auto simp: authorize_def split: sum.splits if_splits)

lemma consume_None:
  assumes "consume pa fault kept i ex now dir = (None, dir')"
  shows "i \<notin> fst ` set dir" "fault = NoFault"
    "dir' = prune_expired kept now ((i, itoa ex @ [CHR 0x0A]) # dir)"
  using assms by (auto simp: consume_def Let_def split: option.splits if_splits consume_fault.splits)

lemma spent_refused:
  assumes "spent c t dir" "t \<le> now" "check_claims c now = None"
  shows "fst (consume pa fault kept (cl_id c) (cl_expires c) now dir) \<noteq> None"
proof -
  have "now < instant (unix_time (cl_expires c))" using assms(3) by (rule check_claims_unexpired)
  also have "\<dots> \<le> instant (add_seconds (unix_time (cl_expires c)) lifetime_seconds)"
    by (intro instant_mono add_seconds_later) (simp add: lifetime_seconds_def)
  finally have "cl_id c \<in> fst ` set dir" using assms(1,2) by (force simp: spent_def)
  then show ?thesis by (auto simp: consume_def split: option.split)
qed

lemma consumed_not_again:
  assumes "spent c t dir" "list_all (\<lambda>call. t \<le> ca_now call) calls" "sorted (map ca_now calls)"
  shows "c \<notin> set (consumed ag calls dir)"
  using assms
proof (induction calls arbitrary: t dir)
  case (Cons call calls)
  obtain e dir' where r: "authorize_call ag call dir = (e, dir')" by fastforce
  have "t \<le> ca_now call" using Cons.prems(2) by simp
  from spent_authorize [OF Cons.prems(1) this, of ag] have "spent c (ca_now call) dir'" by (simp add: r)
  then have rest: "c \<notin> set (consumed ag calls dir')"
    using Cons.prems(3) by (intro Cons.IH) (auto simp: list_all_iff)
  have "verify_token (ag_crypto ag) (ag_public ag) (cr_authorization (ca_request call)) (ca_now call) \<noteq> Inr c"
    if "e = None" "is_qwen_candidate (ca_request call)"
  proof
    assume v: "verify_token (ag_crypto ag) (ag_public ag) (cr_authorization (ca_request call)) (ca_now call) = Inr c"
    have a: "authorize ag (ca_request call) (ca_now call) (ca_prepare call) (ca_fault call) (ca_kept call) dir =
        (None, dir')" using r that(1) by (simp add: authorize_call_def)
    show False
    proof (rule authorize_None [OF a that(2)])
      fix c' g
      assume "verify_token (ag_crypto ag) (ag_public ag) (cr_authorization (ca_request call)) (ca_now call) = Inr c'"
        "consume (ca_prepare call) (ca_fault call) (ca_kept call) (cl_id c') (cl_expires c') (ca_now call) dir = (None, dir')"
      then show False
        using v spent_refused [OF Cons.prems(1) \<open>t \<le> ca_now call\<close> verify_checked [OF v]]
        by (metis fst_conv sum.inject(2))
    qed
  qed
  then have "c \<notin> set (let_through ag call e)" by (cases rule: let_through_cases [of ag call e]) auto
  with rest show ?case by (simp add: r)
qed simp


section \<open>Digests\<close>

lemma sha_round_length: "length s = 8 \<Longrightarrow> length (sha_round s kw) = 8"
  by (cases "(s, kw)" rule: sha_round.cases) (auto simp: Let_def)

lemma sha_compress_length: "length s = 8 \<Longrightarrow> length (sha_compress s ws) = 8"
proof -
  assume s: "length s = 8"
  have "length (foldl sha_round s kws) = 8" for kws
    by (induction kws rule: rev_induct) (simp_all add: s sha_round_length)
  with s show ?thesis by (simp add: sha_compress_def)
qed

lemma sha_blocks_length: "length s = 8 \<Longrightarrow> length (sha_blocks n s ws) = 8"
  by (induction n s ws rule: sha_blocks.induct) (simp_all add: sha_compress_length)

lemma hex_digit_hex: "n < 16 \<Longrightarrow> is_hex (hex_digit n)"
  by (auto simp: is_hex_def hex_digit_def is_digit_def Let_def)

lemma hex_bytes_ok:
  "list_all (\<lambda>b. b < 256) bs \<Longrightarrow>
   length (concat (map hex_byte bs)) = 2 * length bs \<and> hex_ok (concat (map hex_byte bs))"
  by (induction bs) (auto simp: hex_byte_def hex_ok_def hex_digit_hex less_mult_imp_div_less)

lemma word_bytes_bound: "list_all (\<lambda>b. b < 256) (concat (map word_bytes ws))"
  by (auto simp: word_bytes_def list_all_iff)

lemma word_bytes_length: "length (concat (map word_bytes ws)) = 4 * length ws"
  by (induction ws) (simp_all add: word_bytes_def)

lemma sha256_hex_ok: "length (sha256_hex s) = 64 \<and> hex_ok (sha256_hex s)"
proof -
  define ws where "ws = sha_blocks (length (sha_pad (map of_char s)) div 64) sha_init (be_words (sha_pad (map of_char s)))"
  have "length ws = 8" unfolding ws_def by (rule sha_blocks_length) (simp add: sha_init_def)
  then show ?thesis
    using hex_bytes_ok [OF word_bytes_bound [of ws]]
    by (simp add: sha256_hex_def Let_def ws_def [symmetric] word_bytes_length)
qed

text \<open>
  What an authorization commits to does not depend on credentials: requests that differ
  in the value of an API key argument or in the Hugging Face token have the same digest.
\<close>

lemma digest_hides_credentials:
  "candidate_digest (r\<lparr>lr_args := before @ (''--api-key='' @ key) # rest, lr_hf_token := token\<rparr>) =
   candidate_digest (r\<lparr>lr_args := before @ (''--api-key='' @ key') # rest, lr_hf_token := token'\<rparr>)"
  unfolding candidate_digest_def by (simp add: redact_key_arg_def has_prefix_def)

section \<open>Lifetimes\<close>

text \<open>
  C34: how long an accepted token can live: an accepted token runs for at most two minutes,
  unless its claims give a lifetime of more than 292 years, for which the 64-bit product of
  the check wraps.
\<close>

theorem accepted_lifetime:
  assumes "verify_token cy pk token now = Inr c"
  shows "0 < cl_expires c - cl_issued c \<and>
    (cl_expires c - cl_issued c \<le> 120 \<or> cl_expires c - cl_issued c > 9223372036)"
proof -
  have c: "check_claims c now = None" using assms by (rule verify_checked)
  then have *: "0 < cl_expires c - cl_issued c"
    "wrap64 (wrap64 (cl_expires c - cl_issued c) * nanos) \<le> lifetime_seconds * nanos"
    by (simp_all add: check_claims_def split: if_splits)
  have "cl_expires c - cl_issued c \<le> 120" if "cl_expires c - cl_issued c \<le> 9223372036"
    using * that by (simp add: wrap64_id nanos_def lifetime_seconds_def)
  with * show ?thesis by linarith
qed

definition sample_claims :: claims where
  "sample_claims = \<lparr>cl_version = 1, cl_audience = token_audience, cl_id = replicate 32 CHR ''0'',
     cl_target = ''spark-a'', cl_deployment = ''dep-1'', cl_generation = 1, cl_candidate = ''yokai-c'',
     cl_role = role_head, cl_bkc = qwen38_dual_id, cl_model = qwen38_model,
     cl_model_revision = qwen38_revision, cl_source_revision = qwen38_source_revision,
     cl_image = qwen38_image, cl_image_digest = qwen38_image_digest,
     cl_digest = replicate 64 CHR ''0'', cl_issued = 1000, cl_expires = 1060\<rparr>"

text \<open>
  The two-minute limit can be passed: claims with a lifetime of 2 to the 55 seconds pass
  every check, since the lifetime in nanoseconds wraps to zero.
\<close>

lemma lifetime_check_wraps:
  "check_claims (sample_claims\<lparr>cl_expires := 1000 + 2 ^ 55\<rparr>) (2000000 * nanos) = None"
proof -
  have hex: "hex_ok (replicate 32 CHR ''0'')" "hex_ok (replicate 64 CHR ''0'')"
    by (simp_all add: hex_ok_def list_all_iff is_hex_def is_digit_def)
  show ?thesis
    by (simp add: check_claims_def sample_claims_def hex trim_space_def go_str role_head_def qwen38_dual_id_def
        qwen38_model_def qwen38_revision_def qwen38_source_revision_def qwen38_image_def qwen38_image_digest_def
        nanos_def wrap64_def lifetime_seconds_def instant_def unix_time_def unix_to_internal_def add_seconds_def
        max_skew_seconds_def)
qed

section \<open>The coordinator's tokens are accepted\<close>

lemma token_split_append: "c \<notin> set a \<Longrightarrow> split_char c (a @ c # b) = a # split_char c b"
  by (induction a) auto

lemma split_char_none: "c \<notin> set a \<Longrightarrow> split_char c a = [a]"
  by (induction a) auto

lemma token_parts:
  "split_char CHR ''.'' (token_prefix @ ''.'' @ b64_encode b64_url a @ ''.'' @ b64_encode b64_url b) =
     [token_prefix, b64_encode b64_url a, b64_encode b64_url b]"
proof -
  have "CHR ''.'' \<notin> set b64_url" by (simp add: b64_url_def b64_common_def)
  then have "CHR ''.'' \<notin> set (b64_encode b64_url x)" for x
    using b64_encode_chars [of b64_url x] b64_alphabets(1) by blast
  then show ?thesis
    using token_split_append [of "CHR ''.''" token_prefix "b64_encode b64_url a @ ''.'' @ b64_encode b64_url b"]
    by (simp add: token_split_append split_char_none) (simp add: token_prefix_def token_split_append split_char_none)
qed

lemma trim_right_head: "space_len (c # s) = 0 \<Longrightarrow> trim_right (c # s) \<noteq> []"
  by simp

lemma token_nonblank: "trim_space (token_prefix @ s) \<noteq> []"
proof -
  have "space_len (token_prefix @ s) = 0" by (simp add: token_prefix_def go_str ascii_space_def)
  then have "trim_left (token_prefix @ s) = token_prefix @ s" by (simp add: trim_left.simps)
  then show ?thesis
    using trim_right_head [of "CHR ''y''" "tl token_prefix @ s"] \<open>space_len (token_prefix @ s) = 0\<close>
    by (simp add: trim_space_def token_prefix_def)
qed

lemma agent_request_fields [simp]:
  "lr_image (agent_request p t) = lr_image p" "lr_name (agent_request p t) = lr_name p"
  "lr_model (agent_request p t) = lr_model p" "lr_labels (agent_request p t) = lr_labels p"
  "lr_hf_token (agent_request p t) = []" "cr_authorization (agent_request p t) = t"
  by (simp_all add: agent_request_def launch_payload_request_def launch_request.defs container_request.defs)

lemma agent_request_digest: "candidate_digest (agent_request p t) = candidate_digest (launch_payload_request p)"
  by (simp add: candidate_digest_def json_request_def agent_request_def launch_payload_request_def
      launch_request.defs container_request.defs)

lemma agent_request_qwen [simp]: "is_qwen_candidate (agent_request p t) = is_qwen_candidate p"
  "complete_provenance (agent_request p t) = complete_provenance p"
  by (simp_all add: is_qwen_candidate_def complete_provenance_def)

text \<open>A complete coordinated launch payload.\<close>

definition coordinated :: "'a launch_request_scheme \<Rightarrow> bool" where
  "coordinated p \<longleftrightarrow>
     map_get (lr_labels p) label_bkc_id = qwen38_dual_id \<and> complete_provenance p \<and>
     map_get (lr_labels p) label_role \<in> {role_head, role_worker} \<and>
     list_all (\<lambda>k. trim_space (map_get (lr_labels p) k) \<noteq> [])
       [label_model_revision, label_source_revision, label_image_digest] \<and>
     normalized_name (lr_name p) = lr_name p \<and> lr_model p \<noteq> [] \<and> lr_image p \<noteq> []"

lemma trim_nonempty: "trim_space s \<noteq> [] \<Longrightarrow> s \<noteq> []"
  by (auto simp: trim_space_def go_str)

lemma normalized_nonempty: "normalized_name n \<noteq> []"
  by (auto simp: normalized_name_def sanitize_name_def Let_def)

lemma rank_role_nonempty: "r \<in> {role_head, role_worker} \<Longrightarrow> r \<noteq> []"
  by (auto simp: role_head_def role_worker_def)

lemma unix_time_plain: "0 \<le> s \<Longrightarrow> s < 2 ^ 40 \<Longrightarrow> unix_time s = s + unix_to_internal"
  by (simp add: unix_time_def wrap64_def unix_to_internal_def)

text \<open>The claims a coordinator makes for a complete payload pass the checks of their window.\<close>

lemma launch_claims_Inr:
  assumes "launch_claims t random target p = Inr c"
  obtains g bytes where "atoi (map_get (lr_labels p) label_generation) = Some g" "0 < g"
    "trim_space target \<noteq> []" "random = Some bytes"
    "c = \<lparr>cl_version = 1, cl_audience = token_audience, cl_id = concat (map (hex_byte \<circ> of_char) bytes),
          cl_target = target, cl_deployment = map_get (lr_labels p) label_deployment, cl_generation = g,
          cl_candidate = lr_name p, cl_role = map_get (lr_labels p) label_role,
          cl_bkc = map_get (lr_labels p) label_bkc_id, cl_model = lr_model p,
          cl_model_revision = map_get (lr_labels p) label_model_revision,
          cl_source_revision = map_get (lr_labels p) label_source_revision, cl_image = lr_image p,
          cl_image_digest = map_get (lr_labels p) label_image_digest,
          cl_digest = candidate_digest (launch_payload_request p), cl_issued = t div nanos,
          cl_expires = (t + lifetime_seconds * nanos) div nanos\<rparr>"
  using assms
  by (auto simp: launch_claims_def new_claims_def launch_payload_request_def split: option.splits if_splits)

lemma claims_id_ok:
  assumes "length bytes = 16"
  shows "length (concat (map (hex_byte \<circ> of_char) bytes)) = 32 \<and> hex_ok (concat (map (hex_byte \<circ> of_char) bytes))"
  using hex_bytes_ok [of "map of_char bytes"] assms by (simp add: list_all_iff)

lemma launch_claims_checked:
  assumes c: "launch_claims t (Some bytes) target p = Inr c" and "length bytes = 16" and p: "coordinated p"
    and time: "nanos \<le> t" "t < 2 ^ 62" "t - 15 * nanos \<le> now" "now \<le> t + 119 * nanos"
  shows "check_claims c now = None"
proof (rule launch_claims_Inr [OF c])
  fix g bytes'
  assume g: "0 < g" and target: "trim_space target \<noteq> []" and b: "Some bytes = Some bytes'"
    and def: "c = \<lparr>cl_version = 1, cl_audience = token_audience, cl_id = concat (map (hex_byte \<circ> of_char) bytes'),
          cl_target = target, cl_deployment = map_get (lr_labels p) label_deployment, cl_generation = g,
          cl_candidate = lr_name p, cl_role = map_get (lr_labels p) label_role,
          cl_bkc = map_get (lr_labels p) label_bkc_id, cl_model = lr_model p,
          cl_model_revision = map_get (lr_labels p) label_model_revision,
          cl_source_revision = map_get (lr_labels p) label_source_revision, cl_image = lr_image p,
          cl_image_digest = map_get (lr_labels p) label_image_digest,
          cl_digest = candidate_digest (launch_payload_request p), cl_issued = t div nanos,
          cl_expires = (t + lifetime_seconds * nanos) div nanos\<rparr>"
  define s where "s = t div nanos"
  have s: "cl_issued c = s" "cl_expires c = s + 120"
    by (simp_all add: def s_def lifetime_seconds_def nanos_def)
  have range: "1 \<le> s" "s < 2 ^ 33" "s * nanos \<le> t" "t < (s + 1) * nanos"
    using time(1,2) by (simp_all add: s_def nanos_def)
  have wrap: "wrap64 (wrap64 120 * nanos) = lifetime_seconds * nanos"
    by (simp add: wrap64_def nanos_def lifetime_seconds_def)
  have early: "instant (add_seconds (unix_time s) (- max_skew_seconds)) = (s - 15) * nanos"
    and late: "instant (unix_time (s + 120)) = (s + 120) * nanos"
    using range(1,2)
    by (simp_all add: unix_time_plain add_seconds_def instant_def max_skew_seconds_def unix_to_internal_def)
  have window: "\<not> now < (s - 15) * nanos" "now < (s + 120) * nanos"
    using time(3,4) range(3,4) by (simp_all add: left_diff_distrib distrib_right)
  have labels: "map_get (lr_labels p) k \<noteq> []"
    if "k \<in> {label_deployment, label_model_revision, label_source_revision, label_image_digest}" for k
    using p that trim_nonempty by (auto simp: coordinated_def complete_provenance_def)
  have "map_get (lr_labels p) label_role \<noteq> []" "lr_name p \<noteq> []" "map_get (lr_labels p) label_bkc_id \<noteq> []"
    "lr_model p \<noteq> []" "lr_image p \<noteq> []"
    using p rank_role_nonempty normalized_nonempty [of "lr_name p"] by (auto simp: coordinated_def qwen38_dual_id_def)
  moreover have "length (candidate_digest r) = 64 \<and> hex_ok (candidate_digest r)" for r :: launch_request
    by (simp add: candidate_digest_def sha256_hex_ok)
  moreover have "length (cl_id c) = 32 \<and> hex_ok (cl_id c)" using claims_id_ok assms(2) b by (simp add: def)
  ultimately show "check_claims c now = None"
    unfolding check_claims_def s early late
    using window range(1) g target labels by (simp add: def wrap)
qed

lemma sign_launch_Inr:
  assumes "sign_launch ed_sign private t random target p = Inr token" "launch_claims t random target p = Inr c"
  obtains "token = token_prefix @ ''.'' @ b64_encode b64_url (json_claims c) @ ''.'' @
     b64_encode b64_url (ed_sign private (token_prefix @ ''.'' @ b64_encode b64_url (json_claims c)))"
  using assms by (auto simp: sign_launch_def sign_token_def Let_def split: if_splits)

lemma token_verified:
  assumes token: "sign_launch ed_sign private t random target p = Inr token" and c: "launch_claims t random target p = Inr c"
    and "length public = 32" "length (ed_sign private m) = 64" "cy_verify cy public m (ed_sign private m)"
      "m = token_prefix @ ''.'' @ b64_encode b64_url (json_claims c)"
    and "cy_decode cy (json_claims c) = Some c" "check_claims c now = None"
  shows "verify_token cy public token now = Inr c"
proof -
  have tok: "token = token_prefix @ ''.'' @ b64_encode b64_url (json_claims c) @ ''.'' @ b64_encode b64_url (ed_sign private m)"
    by (rule sign_launch_Inr [OF token c]) (simp add: assms(6))
  show ?thesis
    using assms(3-8)
    by (simp only: verify_token_def tok token_parts list.case b64_decode_encode b64_alphabets option.case refl
        if_False not_True_eq_False)
qed

text \<open>
  C8: the two sides of a coordinated launch fit together: a token the coordinator signs for
  a complete payload is accepted, once, by the agent of the target device for the request
  decoded from that payload, from fifteen seconds before to 119 seconds after it was made,
  provided the verification key belongs to the signing key, the claims survive their JSON
  encoding, the replay store can be used and does not hold the fresh identifier.
\<close>

theorem coordinated_launch_accepted:
  assumes p: "coordinated p"
    and c: "launch_claims t (Some bytes) target p = Inr c" "length bytes = 16"
    and token: "sign_launch ed_sign private t (Some bytes) target p = Inr token"
    and agent: "length (ag_public ag) = 32" "ag_store ag" "ag_device ag = target"
    and ed: "length (ed_sign private m) = 64" "cy_verify (ag_crypto ag) (ag_public ag) m (ed_sign private m)"
      "m = token_prefix @ ''.'' @ b64_encode b64_url (json_claims c)"
    and json: "cy_decode (ag_crypto ag) (json_claims c) = Some c"
    and time: "nanos \<le> t" "t < 2 ^ 62" "t - 15 * nanos \<le> now" "now \<le> t + 119 * nanos"
    and store: "prepare_store pa = None" "cl_id c \<notin> fst ` set dir"
  shows "fst (authorize ag (agent_request p token) now pa NoFault kept dir) = None \<and>
         fst (authorize ag (agent_request p token) now pa' fault kept'
                (snd (authorize ag (agent_request p token) now pa NoFault kept dir))) \<noteq> None"
proof (rule launch_claims_Inr [OF c(1)])
  fix g bytes'
  assume g: "atoi (map_get (lr_labels p) label_generation) = Some g" "0 < g" and target: "trim_space target \<noteq> []"
    and def: "c = \<lparr>cl_version = 1, cl_audience = token_audience, cl_id = concat (map (hex_byte \<circ> of_char) bytes'),
          cl_target = target, cl_deployment = map_get (lr_labels p) label_deployment, cl_generation = g,
          cl_candidate = lr_name p, cl_role = map_get (lr_labels p) label_role,
          cl_bkc = map_get (lr_labels p) label_bkc_id, cl_model = lr_model p,
          cl_model_revision = map_get (lr_labels p) label_model_revision,
          cl_source_revision = map_get (lr_labels p) label_source_revision, cl_image = lr_image p,
          cl_image_digest = map_get (lr_labels p) label_image_digest,
          cl_digest = candidate_digest (launch_payload_request p), cl_issued = t div nanos,
          cl_expires = (t + lifetime_seconds * nanos) div nanos\<rparr>"
  have checked: "check_claims c now = None" by (rule launch_claims_checked [OF c p time])
  have verified: "verify_token (ag_crypto ag) (ag_public ag) token now = Inr c"
    by (rule token_verified [OF token c(1) agent(1) ed json checked])
  have tok: "trim_space token \<noteq> []"
    by (rule sign_launch_Inr [OF token c(1)]) (simp only: token_nonblank not_False_eq_True)
  have labels: "map_get (lr_labels p) label_bkc_id = qwen38_dual_id" "complete_provenance p"
    "map_get (lr_labels p) label_role = role_head \<or> map_get (lr_labels p) label_role = role_worker"
    "normalized_name (lr_name p) = lr_name p"
    "trim_space (map_get (lr_labels p) label_deployment) \<noteq> []"
    "trim_space (map_get (lr_labels p) label_model_revision) \<noteq> []"
    "trim_space (map_get (lr_labels p) label_source_revision) \<noteq> []"
    "trim_space (map_get (lr_labels p) label_image_digest) \<noteq> []"
    using p by (auto simp: coordinated_def complete_provenance_def)
  have qwen: "is_qwen_candidate p" using labels(1) by (simp add: is_qwen_candidate_def)
  have request: "check_request ag (agent_request p token) = Inr g"
    using agent target g labels tok by (auto simp: check_request_def)
  have match: "claims_match c (agent_request p token) g"
    using labels(4) by (simp add: claims_match_def agent_request_digest) (simp add: def)
  have run: "authorize ag (agent_request p token) now pa1 fault1 kept1 dir1 =
      consume pa1 fault1 kept1 (cl_id c) (cl_expires c) now dir1" for pa1 fault1 kept1 dir1
    using qwen agent(3) match by (simp add: authorize_def request verified) (simp add: def)
  have spent: "spent c now (snd (consume pa NoFault kept (cl_id c) (cl_expires c) now dir))"
    using store spent_prune [of c now "(cl_id c, itoa (cl_expires c) @ [CHR 0x0A]) # dir" now kept]
    by (simp add: consume_def Let_def spent_def)
  show ?thesis
    unfolding run
    using store spent_refused [OF spent order_refl checked] by (simp add: consume_def Let_def)
qed

text \<open>Witnesses: a head payload for one device, and an agent with a trivial signature scheme.\<close>

definition sample_payload :: launch_request where
  "sample_payload = \<lparr>lr_image = qwen38_image, lr_name = ''yokai-c'', lr_model = qwen38_model, lr_gguf_variant = [],
     lr_gguf_files = [], lr_hf_token = [], lr_ports = Some [], lr_env = Some [], lr_gpu_ids = [], lr_extra_args = [],
     lr_args = [''--api-key=secret''], lr_volumes = Some [], lr_plugins = None, lr_runtime = runtime_zero,
     lr_skip_pull = True,
     lr_labels = [(label_bkc_id, qwen38_dual_id), (label_deployment, ''dep-1''), (label_generation, ''1''),
       (label_role, role_head), (label_managed, ''true''), (label_ownership, ''managed''),
       (label_model_revision, qwen38_revision), (label_source_revision, qwen38_source_revision),
       (label_image_digest, qwen38_image_digest)],
     lr_network_mode = ''host'', lr_devices = [], lr_cap_add = [], lr_entrypoint = []\<rparr>"

definition sample_random :: string where "sample_random = replicate 16 CHR ''a''"
definition sample_now :: int where "sample_now = 10 ^ 18"
definition sample_sign :: "string \<Rightarrow> string \<Rightarrow> string" where "sample_sign k m = replicate 64 CHR ''s''"

definition sample_launch :: claims where
  "sample_launch = (case launch_claims sample_now (Some sample_random) ''spark-a'' sample_payload of Inr c \<Rightarrow> c)"

definition sample_token :: string where
  "sample_token = (case sign_launch sample_sign (replicate 64 CHR ''k'') sample_now (Some sample_random) ''spark-a''
                     sample_payload of Inr t \<Rightarrow> t)"

definition sample_agent :: agent where
  "sample_agent = \<lparr>ag_crypto = \<lparr>cy_verify = (\<lambda>k m sig. sig = sample_sign k m), cy_decode = (\<lambda>s. Some sample_launch)\<rparr>,
     ag_public = replicate 32 CHR ''p'', ag_device = ''spark-a'', ag_store = True\<rparr>"

definition sample_prepare :: prepare_answers where
  "sample_prepare = \<lparr>pa_first = LInfo True False 448, pa_mkdir = None, pa_second = LMissing, pa_chmod = None,
     pa_third = LInfo True False 448\<rparr>"

lemma sample_labels:
  "map_get (lr_labels sample_payload) label_bkc_id = qwen38_dual_id"
  "map_get (lr_labels sample_payload) label_deployment = ''dep-1''"
  "map_get (lr_labels sample_payload) label_generation = ''1''"
  "map_get (lr_labels sample_payload) label_role = role_head"
  "map_get (lr_labels sample_payload) label_managed = ''true''"
  "map_get (lr_labels sample_payload) label_ownership = ''managed''"
  "map_get (lr_labels sample_payload) label_model_revision = qwen38_revision"
  "map_get (lr_labels sample_payload) label_source_revision = qwen38_source_revision"
  "map_get (lr_labels sample_payload) label_image_digest = qwen38_image_digest"
  by (simp_all add: sample_payload_def map_get_def label_bkc_id_def label_deployment_def label_generation_def
      label_role_def label_managed_def label_ownership_def label_model_revision_def label_source_revision_def
      label_image_digest_def)

lemma sample_coordinated: "coordinated sample_payload"
proof -
  have "normalized_name ''yokai-c'' = ''yokai-c''"
    by (simp add: normalized_name_def sanitize_name_def trim_hyphens_def name_char_def is_letter_def has_prefix_def
        Let_def)
  moreover have "trim_space qwen38_revision \<noteq> []" "trim_space qwen38_source_revision \<noteq> []"
    "trim_space qwen38_image_digest \<noteq> []" "trim_space role_head \<noteq> []"
    by (simp_all add: qwen38_revision_def qwen38_source_revision_def qwen38_image_digest_def role_head_def
        trim_space_def go_str)
  ultimately show ?thesis
    by (simp add: coordinated_def complete_provenance_def sample_labels trim_space_def go_str)
      (simp add: sample_payload_def qwen38_model_def qwen38_image_def)
qed

lemma sample_launch: "launch_claims sample_now (Some sample_random) ''spark-a'' sample_payload = Inr sample_launch"
  by (simp add: sample_launch_def launch_claims_def new_claims_def sample_labels atoi_def has_prefix_def
      is_digit_def trim_space_def go_str)

lemma sample_token:
  "sign_launch sample_sign (replicate 64 CHR ''k'') sample_now (Some sample_random) ''spark-a'' sample_payload =
     Inr sample_token"
  by (simp add: sample_token_def sign_launch_def sample_launch sign_token_def Let_def)

lemma sample_store: "prepare_store sample_prepare = None"
  by (simp add: prepare_store_def sample_prepare_def)

theorem coordinated_launch_accepted_witness:
  "fst (authorize sample_agent (agent_request sample_payload sample_token) (sample_now + nanos) sample_prepare
          NoFault (\<lambda>n. False) []) = None"
proof -
  have "fst (authorize sample_agent (agent_request sample_payload sample_token) (sample_now + nanos) sample_prepare
          NoFault (\<lambda>n. False) []) = None \<and>
        fst (authorize sample_agent (agent_request sample_payload sample_token) (sample_now + nanos) sample_prepare
          NoFault (\<lambda>n. False) (snd (authorize sample_agent (agent_request sample_payload sample_token)
             (sample_now + nanos) sample_prepare NoFault (\<lambda>n. False) []))) \<noteq> None"
    by (rule coordinated_launch_accepted [OF sample_coordinated sample_launch _ sample_token])
      (simp_all add: sample_random_def sample_agent_def sample_sign_def sample_now_def nanos_def sample_store)
  then show ?thesis ..
qed

definition sample_call :: launch_call where
  "sample_call = \<lparr>ca_request = agent_request sample_payload sample_token, ca_now = sample_now + nanos,
     ca_prepare = sample_prepare, ca_fault = NoFault, ca_kept = (\<lambda>n. False)\<rparr>"


theorem accepted_lifetime_witness:
  "\<exists>c. verify_token (ag_crypto sample_agent) (ag_public sample_agent) sample_token (sample_now + nanos) = Inr c \<and>
       0 < cl_expires c - cl_issued c"
proof -
  have "check_claims sample_launch (sample_now + nanos) = None"
    by (rule launch_claims_checked [OF sample_launch _ sample_coordinated])
      (simp_all add: sample_random_def sample_now_def nanos_def)
  then have "verify_token (ag_crypto sample_agent) (ag_public sample_agent) sample_token (sample_now + nanos) =
      Inr sample_launch"
    by (intro token_verified [OF sample_token sample_launch]) (simp_all add: sample_agent_def sample_sign_def)
  from accepted_lifetime [OF this] this show ?thesis by blast
qed

end
