(* ===== verification/Recipe_Types.thy ===== *)
theory Recipe_Types
  imports Bkc_Catalog_Names Go_Json Go_Sha256 "HOL-Library.Multiset"
begin

text \<open>
  The mutable recipe overlay, \<^verbatim>\<open>internal/recipes\<close>: the records of \<^verbatim>\<open>types.go\<close>, the
  fingerprint of a configuration, the ingest gate of \<^verbatim>\<open>validate.go\<close> with the plugin lookup
  of \<^verbatim>\<open>internal/plugins/catalog.go\<close>. Status and tier are strings, as in the file format.
  The slices that JSON writes without \<^verbatim>\<open>omitempty\<close> are never nil here.
\<close>

section \<open>Records\<close>

definition tier_curated :: string where "tier_curated = ''curated''"
definition tier_candidate :: string where "tier_candidate = ''candidate''"
definition status_proposed :: string where "status_proposed = ''proposed''"
definition status_validated :: string where "status_validated = ''validated''"
definition status_superseded :: string where "status_superseded = ''superseded''"

record provenance =
  pv_agent :: string
  pv_source :: string
  pv_source_url :: string
  pv_research_note :: string
  pv_reported_on :: "string list"

record recipe_config =
  rc_id :: string
  rc_name :: string
  rc_workload :: string
  rc_model :: string
  rc_image :: string
  rc_port :: string
  rc_extra_args :: string
  rc_env :: gomap
  rc_volumes :: gomap
  rc_plugins :: "string list"
  rc_description :: string
  rc_targets :: "string list"
  rc_min_vram :: rat
  rc_min_gpus :: int
  rc_quant :: string
  rc_arch :: string
  rc_multi :: "multi_device option"

definition to_bkc :: "recipe_config \<Rightarrow> bkc_config" where
  "to_bkc c =
     \<lparr>cfg_id = rc_id c, cfg_name = rc_name c, cfg_workload = rc_workload c, cfg_model_id = rc_model c,
      cfg_image = rc_image c, cfg_port = rc_port c, cfg_extra_args = rc_extra_args c,
      cfg_env = rc_env c, cfg_volumes = rc_volumes c, cfg_plugins = rc_plugins c,
      cfg_runtime = runtime_zero, cfg_description = rc_description c, cfg_source = [], cfg_notes = [],
      cfg_multi = rc_multi c, cfg_targets = rc_targets c, cfg_min_vram = rc_min_vram c,
      cfg_min_gpus = rc_min_gpus c, cfg_quant = rc_quant c, cfg_arch = rc_arch c\<rparr>"

record recipe_verify =
  rv_device :: string
  rv_at :: string
  rv_ok :: bool
  rv_container :: string
  rv_served_model :: string
  rv_metrics_ready :: bool
  rv_message :: string

record swap_record =
  sw_device :: string
  sw_at :: string
  sw_previous_model :: string
  sw_previous_container :: string
  sw_new_container :: string
  sw_allow_self :: bool
  sw_ok :: bool
  sw_message :: string

record recipe =
  rp_id :: string
  rp_tier :: string
  rp_status :: string
  rp_config :: recipe_config
  rp_provenance :: provenance
  rp_validated_on :: "string list"
  rp_last_verify :: "recipe_verify option"
  rp_swaps :: "swap_record list"
  rp_fingerprint :: string
  rp_proposed_by :: string
  rp_supersedes :: string
  rp_created_at :: string
  rp_updated_at :: string

section \<open>Fingerprint\<close>

definition json_bool :: "bool \<Rightarrow> string" where
  "json_bool b = (if b then ''true'' else ''false'')"

definition json_role :: "multi_device_role \<Rightarrow> string" where
  "json_role r = json_object
     [json_field ''name'' (json_string (role_name r)), json_field ''rank'' (itoa (role_rank r)),
      json_field ''api'' (json_bool (role_api r))]"

definition json_patch :: "runtime_patch \<Rightarrow> string" where
  "json_patch p = json_object
     [json_field ''label'' (json_string (patch_label p)),
      json_field ''source_path'' (json_string (patch_source_path p)),
      json_field ''original_line'' (json_string (patch_original_line p)),
      json_field ''replacement_line'' (json_string (patch_replacement_line p)),
      json_field ''original_sha256'' (json_string (patch_original_sha p)),
      json_field ''patched_sha256'' (json_string (patch_patched_sha p))]"

definition json_md_recipe :: "md_recipe \<Rightarrow> string" where
  "json_md_recipe r = json_object
     [json_field ''repository'' (json_string (rcp_repository r)),
      json_field ''commit'' (json_string (rcp_commit r)),
      json_field ''image_tag'' (json_string (rcp_image_tag r)),
      json_field ''image_digest'' (json_string (rcp_image_digest r)),
      json_field ''drafter_model'' (json_string (rcp_drafter_model r)),
      json_field ''drafter_revision'' (json_string (rcp_drafter_revision r)),
      json_field ''context_tokens'' (itoa (rcp_context_tokens r)),
      json_field ''parallel_requests'' (itoa (rcp_parallel_requests r)),
      json_field ''kv_cache'' (json_string (rcp_kv_cache r)),
      json_field ''dense'' (json_string (rcp_dense r)),
      json_field ''drafter'' (json_string (rcp_drafter r)),
      json_field ''vision'' (json_bool (rcp_vision r)),
      json_field ''memory_reserve_gib'' (json_string (rcp_memory_reserve r)),
      json_field ''kv_pool_gib'' (json_string (rcp_kv_pool r)),
      json_field ''nccl_rails'' (itoa (rcp_nccl_rails r)),
      json_field ''readiness_timeout_s'' (itoa (rcp_readiness_timeout_sec r))]"

definition json_multi_device :: "multi_device \<Rightarrow> string" where
  "json_multi_device md = json_object
     ([json_field ''world_size'' (itoa (md_world_size md)), json_field ''tp_size'' (itoa (md_tp_size md)),
       json_field ''backend'' (json_string (md_backend md)),
       json_field ''gpus_per_node'' (itoa (md_gpus_per_node md)),
       json_field ''rendezvous_port'' (itoa (md_rendezvous_port md)),
       json_field ''service_port'' (itoa (md_service_port md)),
       json_field ''model_revision'' (json_string (md_model_revision md))] @
      omit_if (md_served_model md = []) (json_field ''served_model_name'' (json_string (md_served_model md))) @
      omit_if (md_source_revision md = []) (json_field ''source_revision'' (json_string (md_source_revision md))) @
      omit_if (\<not> md_requires_local_model md) (json_field ''requires_local_model'' ''true'') @
      omit_if (\<not> md_requires_fabric md) (json_field ''requires_fabric_config'' ''true'') @
      omit_if (md_common_args md = []) (json_field ''common_args'' (json_strings (md_common_args md))) @
      omit_if (md_role_args md = []) (json_field ''role_args''
        (json_object (map (\<lambda>(k, v). json_string k @ '':'' @ json_strings v) (sort_key fst (md_role_args md))))) @
      omit_if (md_launch_order md = []) (json_field ''launch_order'' (json_strings (md_launch_order md))) @
      omit_if (md_patches md = []) (json_field ''runtime_patches'' (json_array (map json_patch (md_patches md)))) @
      [json_field ''roles'' (json_array (map json_role (md_roles md))),
       json_field ''required_capabilities'' (json_strings (md_capabilities md))] @
      omit_if (md_driver md = []) (json_field ''driver'' (json_string (md_driver md))) @
      (case md_recipe_opt md of None \<Rightarrow> [] | Some r \<Rightarrow> [json_field ''recipe'' (json_md_recipe r)]))"

text \<open>The parts that \<^verbatim>\<open>Fingerprint\<close> hashes: each joined by NUL and closed by a unit separator.\<close>

definition fp_write :: "string list \<Rightarrow> string" where
  "fp_write parts = join_with [CHR 0x00] parts @ [CHR 0x1F]"

definition fp_map :: "string \<Rightarrow> gomap \<Rightarrow> string" where
  "fp_map what m = concat (map (\<lambda>k. fp_write [what, k, map_get m k]) (sort (map fst m)))"

definition fingerprint_text :: "recipe_config \<Rightarrow> string" where
  "fingerprint_text c =
     fp_write [rc_model c, rc_workload c, rc_image c, rc_port c, rc_extra_args c] @
     fp_map ''env'' (rc_env c) @
     fp_map ''vol'' (rc_volumes c) @
     fp_write [''plugins'', join_with '','' (sort (rc_plugins c))] @
     fp_write [''targets'', join_with '','' (rc_targets c)] @
     fp_write [''quant'', rc_quant c, ''arch'', rc_arch c] @
     (case rc_multi c of None \<Rightarrow> [] | Some md \<Rightarrow> fp_write [''md'', json_multi_device md])"

definition fingerprint :: "recipe_config \<Rightarrow> string" where
  "fingerprint c = sha256_hex (fingerprint_text c)"

section \<open>The ingest gate\<close>

definition plugin_ids :: "string list" where
  "plugin_ids = [''vllm-reasoning-parser-super-v3'']"

definition plugin_exists :: "string \<Rightarrow> bool" where
  "plugin_exists i = list_ex (\<lambda>p. equal_fold p (trim_space i)) plugin_ids"

definition known_workload :: "string \<Rightarrow> bool" where
  "known_workload w = (to_lower (trim_space w) \<in>
     {workload_vllm, workload_sglang, workload_llamacpp, ''comfyui''})"

definition known_quantization :: "string \<Rightarrow> bool" where
  "known_quantization q = (to_upper (trim_space q) \<in>
     set [quant_bf16, quant_fp16, quant_fp8, quant_fp4, quant_nvfp4, quant_mxfp4, quant_int4])"

definition known_device :: "string \<Rightarrow> bool" where
  "known_device d = (to_lower (trim_space d) \<in> set
     [device_gb10, device_jetsonthor, device_rtxpro6000, device_rtx5090, device_rtx4090, device_l40s,
      device_a100_80, device_h100_80, device_h100_94, device_h200, device_h20, device_b200,
      device_gb200, device_mi300x, device_mi325x, device_mi355x, device_r9700])"

definition is_digest_pinned :: "string \<Rightarrow> bool" where
  "is_digest_pinned img = str_contains img ''@sha256:''"

definition is_numeric :: "string \<Rightarrow> bool" where
  "is_numeric s \<longleftrightarrow> s \<noteq> [] \<and> list_all is_digit s"

record validation_result =
  vr_ok :: bool
  vr_errors :: "string list"
  vr_warnings :: "string list"

definition msg_if :: "bool \<Rightarrow> string \<Rightarrow> string list" where
  "msg_if b m = (if b then [m] else [])"

definition model_errors :: "recipe_config \<Rightarrow> string list" where
  "model_errors c =
     msg_if (trim_space (rc_model c) = []) ''config.model_id is required'' @
     (if trim_space (rc_workload c) = [] then [''config.workload is required'']
      else msg_if (\<not> known_workload (rc_workload c))
        (''config.workload must be one of vllm, sglang, llamacpp, comfyui (got '' @ rc_workload c @ '')''))"

definition image_errors :: "recipe_config \<Rightarrow> string list" where
  "image_errors c =
     (if trim_space (rc_image c) = [] then [''config.image is required'']
      else msg_if (\<not> is_digest_pinned (rc_image c))
        ''config.image must be digest-pinned (reference like repo/img@sha256:...) so validation is reproducible'')"

definition bound_errors :: "recipe_config \<Rightarrow> string list" where
  "bound_errors c =
     msg_if (rc_min_vram c < 0) ''config.min_vram_gb_per_gpu cannot be negative'' @
     msg_if (rc_min_gpus c < 0) ''config.min_gpu_count cannot be negative''"

definition plugin_errors :: "recipe_config \<Rightarrow> string list" where
  "plugin_errors c =
     map (\<lambda>p. ''config.plugins references unknown plugin '' @ p) (filter (\<lambda>p. \<not> plugin_exists p) (rc_plugins c))"

definition writer_errors :: "provenance \<Rightarrow> string \<Rightarrow> string list" where
  "writer_errors prov by =
     msg_if (trim_space by = []) ''proposed_by is required (the writing agent/human identity)'' @
     msg_if (trim_space (pv_source prov) = [] \<and> trim_space (pv_source_url prov) = [])
       ''provenance must include at least one of source or source_url''"

definition config_warnings :: "recipe_config \<Rightarrow> string list" where
  "config_warnings c =
     msg_if (rc_min_gpus c > 1 \<and> trim_space (rc_extra_args c) = [] \<and> rc_multi c = None)
       ''min_gpu_count > 1 but no tensor-parallel args or multi-device plan declared'' @
     msg_if (rc_quant c \<noteq> [] \<and> \<not> known_quantization (rc_quant c))
       (''config.quantization is not a recognized value: '' @ rc_quant c) @
     map (\<lambda>t. ''config.target_devices contains unrecognized profile '' @ t)
       (filter (\<lambda>t. \<not> known_device t) (rc_targets c)) @
     msg_if (rc_port c \<noteq> [] \<and> \<not> is_numeric (rc_port c))
       (''config.port should be a numeric string: '' @ rc_port c)"

definition validate :: "recipe_config \<Rightarrow> provenance \<Rightarrow> string \<Rightarrow> validation_result" where
  "validate c prov by =
     (let errors = model_errors c @ image_errors c @ bound_errors c @ plugin_errors c @ writer_errors prov by;
          warnings = config_warnings c @ msg_if (pv_agent prov = []) ''provenance.agent is empty''
      in \<lparr>vr_ok = (length errors = 0), vr_errors = errors, vr_warnings = warnings\<rparr>)"

text \<open>What an accepted candidate satisfies.\<close>

definition accepted :: "recipe_config \<Rightarrow> provenance \<Rightarrow> string \<Rightarrow> bool" where
  "accepted c prov by \<longleftrightarrow>
     trim_space (rc_model c) \<noteq> [] \<and> known_workload (rc_workload c) \<and>
     trim_space (rc_image c) \<noteq> [] \<and> is_digest_pinned (rc_image c) \<and>
     0 \<le> rc_min_vram c \<and> 0 \<le> rc_min_gpus c \<and> list_all plugin_exists (rc_plugins c) \<and>
     trim_space by \<noteq> [] \<and> \<not> (trim_space (pv_source prov) = [] \<and> trim_space (pv_source_url prov) = [])"

lemma known_workload_nonempty: "known_workload w \<Longrightarrow> trim_space w \<noteq> []"
  by (auto simp: known_workload_def to_lower_def workload_vllm_def workload_sglang_def workload_llamacpp_def)

lemma msg_if_Nil [simp]: "(msg_if b m = []) = (\<not> b)"
  by (simp add: msg_if_def)

lemma model_errors_Nil: "(model_errors c = []) = (trim_space (rc_model c) \<noteq> [] \<and> known_workload (rc_workload c))"
  using known_workload_nonempty [of "rc_workload c"] by (auto simp: model_errors_def)

lemma image_errors_Nil:
  "(image_errors c = []) = (trim_space (rc_image c) \<noteq> [] \<and> is_digest_pinned (rc_image c))"
  by (auto simp: image_errors_def)

lemma bound_errors_Nil: "(bound_errors c = []) = (0 \<le> rc_min_vram c \<and> 0 \<le> rc_min_gpus c)"
  by (auto simp: bound_errors_def)

lemma plugin_errors_Nil: "(plugin_errors c = []) = list_all plugin_exists (rc_plugins c)"
  by (auto simp: plugin_errors_def filter_empty_conv list_all_iff)

lemma writer_errors_Nil:
  "(writer_errors p by = []) =
   (trim_space by \<noteq> [] \<and> \<not> (trim_space (pv_source p) = [] \<and> trim_space (pv_source_url p) = []))"
  by (auto simp: writer_errors_def)

lemma validate_ok: "vr_ok (validate c prov by) = accepted c prov by"
  by (simp add: validate_def Let_def accepted_def model_errors_Nil image_errors_Nil bound_errors_Nil
        plugin_errors_Nil writer_errors_Nil)

lemma validate_errors: "vr_ok (validate c prov by) = (vr_errors (validate c prov by) = [])"
  by (simp add: validate_def Let_def)

section \<open>Fingerprints do not depend on map order\<close>

lemma map_get_perm:
  assumes d: "distinct (map fst m)" and e: "mset m = mset m'"
  shows "map_get m k = map_get m' k"
proof -
  have "set m = set m'" using e by (metis set_mset_mset)
  moreover have "distinct (map fst m')"
    using d e by (metis (no_types) distinct_count_atmost_1 mset_map set_mset_mset)
  ultimately have "map_of m = map_of m'" using d by (simp add: map_of_inject_set)
  then show ?thesis by (simp add: map_get_def)
qed

lemma sort_keys_perm: "mset m = mset m' \<Longrightarrow> sort (map fst m) = sort (map fst m')"
  by (rule properties_for_sort) (metis mset_map mset_sort, simp)

lemma fp_map_perm: "distinct (map fst m) \<Longrightarrow> mset m = mset m' \<Longrightarrow> fp_map what m = fp_map what m'"
  by (simp add: fp_map_def sort_keys_perm [of m m'] map_get_perm [of m m'])

end
