(* ===== verification/Config_Store.thy ===== *)
theory Config_Store
  imports Bkc_Types Deploy_World
begin

text \<open>
  The configuration, \<^verbatim>\<open>internal/config/config.go\<close>, and the deploy history,
  \<^verbatim>\<open>internal/config/history.go\<close>. A Go slice that may be nil is an option, since nil and
  empty slices differ in the JSON the program writes. Reading the files (their JSON
  decoding included) is an argument; writing them is a step with the faults of each call.
\<close>

section \<open>In-place filtering\<close>

text \<open>
  The loops over \<^verbatim>\<open>filtered := xs[:0]\<close> overwrite the array they read: \<open>i\<close> is the read
  position, \<open>w\<close> the length of \<^verbatim>\<open>filtered\<close>. The body keeps a state and emits at most one
  element.
\<close>

function in_place :: "('s \<Rightarrow> 'a \<Rightarrow> 's \<times> 'a option) \<Rightarrow> 's \<Rightarrow> 'a list \<Rightarrow> nat \<Rightarrow> nat \<Rightarrow> 's \<times> 'a list \<times> nat" where
  "in_place f s arr i w =
     (if i < length arr
      then (case f s (arr ! i) of
          (s', None) \<Rightarrow> in_place f s' arr (Suc i) w
        | (s', Some y) \<Rightarrow> in_place f s' (arr[w := y]) (Suc i) (Suc w))
      else (s, arr, w))"
  by pat_completeness auto
termination by (relation "measure (\<lambda>(f, s, arr, i, w). length arr - i)") auto

declare in_place.simps [simp del]

lemma in_place_done: "\<not> i < length arr \<Longrightarrow> in_place f s arr i w = (s, arr, w)"
  by (simp add: in_place.simps)

text \<open>The same body without the sharing.\<close>

fun filter_map_state :: "('s \<Rightarrow> 'a \<Rightarrow> 's \<times> 'a option) \<Rightarrow> 's \<Rightarrow> 'a list \<Rightarrow> 's \<times> 'a list" where
  "filter_map_state f s [] = (s, [])"
| "filter_map_state f s (x # xs) =
     (case f s x of (s', y) \<Rightarrow>
        (case filter_map_state f s' xs of (s'', ys) \<Rightarrow> (s'', (case y of None \<Rightarrow> [] | Some y \<Rightarrow> [y]) @ ys)))"

lemma in_place_correct:
  assumes "w \<le> i" "i \<le> length arr"
  shows "case in_place f s arr i w of (s', arr', w') \<Rightarrow>
    (s', take w' arr') = (let (s', ys) = filter_map_state f s (drop i arr) in (s', take w arr @ ys)) \<and>
    w' \<le> length arr' \<and> length arr' = length arr"
  using assms
proof (induction f s arr i w rule: in_place.induct)
  case (1 f s arr i w)
  show ?case
  proof (cases "i < length arr")
    case False
    then show ?thesis using 1 by (simp add: in_place_done)
  next
    case True
    have d: "drop i arr = arr ! i # drop (Suc i) arr" using True by (simp add: Cons_nth_drop_Suc)
    obtain s' y where f: "f s (arr ! i) = (s', y)" by fastforce
    show ?thesis
    proof (cases y)
      case None
      then show ?thesis
        using "1.IH"(1) [OF True f [symmetric] None] f None "1.prems" True
        by (simp add: in_place.simps [of f s arr i w] d split: prod.splits)
    next
      case (Some v)
      have keep: "take (Suc w) (arr[w := v]) = take w arr @ [v]" "drop (Suc i) (arr[w := v]) = drop (Suc i) arr"
        using "1.prems" True by (simp_all add: take_Suc_conv_app_nth)
      show ?thesis
        using "1.IH"(2) [OF True f [symmetric] Some] f Some "1.prems" True keep
        by (simp add: in_place.simps [of f s arr i w] d split: prod.splits)
    qed
  qed
qed

text \<open>The slice after a loop: \<^verbatim>\<open>filtered\<close>, with the final state of the body.\<close>

definition rewrite_slice :: "('s \<Rightarrow> 'a \<Rightarrow> 's \<times> 'a option) \<Rightarrow> 's \<Rightarrow> 'a list \<Rightarrow> 's \<times> 'a list" where
  "rewrite_slice f s xs = (case in_place f s xs 0 0 of (s', arr, w) \<Rightarrow> (s', take w arr))"

lemma rewrite_slice_eq: "rewrite_slice f s xs = filter_map_state f s xs"
  using in_place_correct [of 0 0 xs f s] by (auto simp: rewrite_slice_def split: prod.splits)

section \<open>The configuration\<close>

record device =
  dv_id :: string
  dv_label :: string
  dv_host :: string
  dv_ssh_user :: string
  dv_ssh_key :: string
  dv_ssh_port :: int
  dv_connection :: string
  dv_agent_port :: int
  dv_agent_token :: string
  dv_monitoring :: bool
  dv_gpu_type :: string
  dv_control :: bool
  dv_tags :: "string list"

record service =
  sv_id :: string
  sv_device :: string
  sv_type :: string
  sv_image :: string
  sv_model :: string
  sv_gguf_variant :: string
  sv_gguf_files :: "string list"
  sv_port :: int
  sv_gpu_ids :: string
  sv_extra_args :: string
  sv_env :: gomap
  sv_volumes :: gomap
  sv_plugins :: "string list"
  sv_runtime :: runtime_options
  sv_container :: string

record daemon_config =
  dc_listen :: string
  dc_metrics_poll :: int
  dc_reconnect :: int

record preferences =
  pf_theme :: string
  pf_vllm :: string
  pf_sglang :: string
  pf_llama :: string
  pf_comfy :: string

record config =
  cf_version :: int
  cf_hf_token :: string
  cf_daemon :: daemon_config
  cf_devices :: "device list option"
  cf_services :: "service list option"
  cf_preferences :: preferences

definition config_version :: int where "config_version = 1"

definition slice :: "'a list option \<Rightarrow> 'a list" where
  "slice xs = (case xs of None \<Rightarrow> [] | Some ys \<Rightarrow> ys)"

definition ssh_port_or_default :: "device \<Rightarrow> int" where
  "ssh_port_or_default d = (if dv_ssh_port d \<le> 0 then 22 else dv_ssh_port d)"

definition default_config :: config where
  "default_config = \<lparr>cf_version = config_version, cf_hf_token = [],
     cf_daemon = \<lparr>dc_listen = ''127.0.0.1:7473'', dc_metrics_poll = 2, dc_reconnect = 30\<rparr>,
     cf_devices = Some [], cf_services = Some [],
     cf_preferences = \<lparr>pf_theme = ''tokyonight'', pf_vllm = ''vllm/vllm-openai:latest'',
       pf_sglang = ''lmsysorg/sglang:latest'', pf_llama = ''ghcr.io/ggml-org/llama.cpp:server-cuda'',
       pf_comfy = ''spencerbull/yokai-comfyui:latest''\<rparr>\<rparr>"

text \<open>\<^verbatim>\<open>Load\<close> after the file is decoded: migration, then a default for every missing field.\<close>

definition or_default :: "'a \<Rightarrow> 'a \<Rightarrow> 'a \<Rightarrow> 'a" where
  "or_default zero d x = (if x = zero then d else x)"

definition fill_defaults :: "config \<Rightarrow> config" where
  "fill_defaults c = c\<lparr>
     cf_version := (if cf_version c < config_version then config_version else cf_version c),
     cf_daemon := \<lparr>dc_listen = or_default [] ''127.0.0.1:7473'' (dc_listen (cf_daemon c)),
       dc_metrics_poll = or_default 0 2 (dc_metrics_poll (cf_daemon c)),
       dc_reconnect = or_default 0 30 (dc_reconnect (cf_daemon c))\<rparr>,
     cf_preferences := (cf_preferences c)
       \<lparr>pf_vllm := or_default [] ''vllm/vllm-openai:latest'' (pf_vllm (cf_preferences c)),
        pf_sglang := or_default [] ''lmsysorg/sglang:latest'' (pf_sglang (cf_preferences c)),
        pf_llama := or_default [] ''ghcr.io/ggml-org/llama.cpp:server-cuda'' (pf_llama (cf_preferences c)),
        pf_comfy := or_default [] ''spencerbull/yokai-comfyui:latest'' (pf_comfy (cf_preferences c))\<rparr>,
     cf_devices := Some (slice (cf_devices c)), cf_services := Some (slice (cf_services c))\<rparr>"

text \<open>What reading a JSON file gives: the path cannot be formed, or the file cannot be read or parsed.\<close>

datatype 'd json_file = NoHome | Unreadable string | NotThere | Garbled string | Parsed 'd

definition load_config :: "config json_file \<Rightarrow> string + config" where
  "load_config f =
     (case f of
        NoHome \<Rightarrow> Inl ''cannot determine home directory''
      | Unreadable e \<Rightarrow> Inl (''reading config: '' @ e)
      | NotThere \<Rightarrow> Inr default_config
      | Garbled e \<Rightarrow> Inl (''parsing config: '' @ e)
      | Parsed c \<Rightarrow> Inr (fill_defaults c))"

text \<open>
  \<^verbatim>\<open>Save\<close> and \<^verbatim>\<open>SaveHistory\<close> write a temporary file and rename it over the target. The two
  files are the state; an interrupted write leaves some garbage in the temporary file.
\<close>

datatype save_fault =
    SaveOk | FailHome string | FailMkdir string | FailMarshal string | FailWrite "string option" string
  | FailRename string | FailRenameAndCleanup string string

record 'd saved =
  sd_target :: "'d json_file"
  sd_temp :: "'d json_file"

definition save_json :: "string \<Rightarrow> save_fault \<Rightarrow> 'd \<Rightarrow> 'd saved \<Rightarrow> string option \<times> 'd saved" where
  "save_json what fault c s =
     (case fault of
        FailHome e \<Rightarrow> (Some e, s)
      | FailMkdir e \<Rightarrow> (Some (''creating config dir: '' @ e), s)
      | FailMarshal e \<Rightarrow> (Some (''marshaling '' @ what @ '': '' @ e), s)
      | FailWrite left e \<Rightarrow>
          (Some (''writing '' @ what @ '': '' @ e),
           case left of None \<Rightarrow> s | Some junk \<Rightarrow> s\<lparr>sd_temp := Garbled junk\<rparr>)
      | FailRename e \<Rightarrow> (Some (''renaming '' @ what @ '': '' @ e), s\<lparr>sd_temp := NotThere\<rparr>)
      | FailRenameAndCleanup e e' \<Rightarrow>
          (Some (''renaming '' @ what @ '': '' @ e @ '' (cleanup tmp failed: '' @ e' @ '')''),
           s\<lparr>sd_temp := Parsed c\<rparr>)
      | SaveOk \<Rightarrow> (None, \<lparr>sd_target = Parsed c, sd_temp = NotThere\<rparr>))"

definition save_config :: "save_fault \<Rightarrow> config \<Rightarrow> config saved \<Rightarrow> string option \<times> config saved" where
  "save_config = save_json ''config''"

section \<open>Devices and services\<close>

definition has_devices :: "config \<Rightarrow> bool" where
  "has_devices c \<longleftrightarrow> length (slice (cf_devices c)) > 0"

definition find_device :: "config \<Rightarrow> string \<Rightarrow> device option" where
  "find_device c i = find (\<lambda>d. dv_id d = i) (slice (cf_devices c))"

definition add_device :: "device \<Rightarrow> config \<Rightarrow> config" where
  "add_device d c = c\<lparr>cf_devices := Some (slice (cf_devices c) @ [d])\<rparr>"

text \<open>The body of the two upserts: the first match becomes the new value, later ones go.\<close>

definition upsert_body :: "('a \<Rightarrow> string) \<Rightarrow> 'a \<Rightarrow> bool \<Rightarrow> 'a \<Rightarrow> bool \<times> 'a option" where
  "upsert_body key x replaced y =
     (if key y = key x then (True, if replaced then None else Some x) else (replaced, Some y))"

definition upsert_slice :: "('a \<Rightarrow> string) \<Rightarrow> 'a \<Rightarrow> 'a list \<Rightarrow> 'a list" where
  "upsert_slice key x xs =
     (case rewrite_slice (upsert_body key x) False xs of
        (replaced, filtered) \<Rightarrow> if replaced then filtered else filtered @ [x])"

definition upsert_device :: "device \<Rightarrow> config \<Rightarrow> config" where
  "upsert_device d c = c\<lparr>cf_devices := Some (upsert_slice dv_id d (slice (cf_devices c)))\<rparr>"

definition upsert_service :: "service \<Rightarrow> config \<Rightarrow> config" where
  "upsert_service s c = c\<lparr>cf_services := Some (upsert_slice sv_id s (slice (cf_services c)))\<rparr>"

text \<open>The removals; a nil slice stays nil. Services also count what they remove.\<close>

definition remove_body :: "('a \<Rightarrow> bool) \<Rightarrow> int \<Rightarrow> 'a \<Rightarrow> int \<times> 'a option" where
  "remove_body gone removed y = (if gone y then (removed + 1, None) else (removed, Some y))"

definition remove_device :: "string \<Rightarrow> config \<Rightarrow> config" where
  "remove_device i c =
     c\<lparr>cf_devices := map_option (\<lambda>ds. snd (rewrite_slice (remove_body (\<lambda>d. dv_id d = i)) 0 ds)) (cf_devices c)\<rparr>"

definition remove_services :: "(service \<Rightarrow> bool) \<Rightarrow> config \<Rightarrow> config \<times> int" where
  "remove_services gone c =
     (case cf_services c of
        None \<Rightarrow> (c, 0)
      | Some ss \<Rightarrow> (case rewrite_slice (remove_body gone) 0 ss of
          (removed, filtered) \<Rightarrow> (c\<lparr>cf_services := Some filtered\<rparr>, removed)))"

definition remove_services_by_device :: "string \<Rightarrow> config \<Rightarrow> config \<times> int" where
  "remove_services_by_device i = remove_services (\<lambda>s. sv_device s = i)"

definition remove_service_by_container :: "string \<Rightarrow> config \<Rightarrow> config \<times> int" where
  "remove_service_by_container i = remove_services (\<lambda>s. sv_container s = i)"

definition remove_service_by_id :: "string \<Rightarrow> config \<Rightarrow> config \<times> int" where
  "remove_service_by_id i = remove_services (\<lambda>s. sv_id s = i)"

section \<open>History\<close>

record history_items =
  hs_images :: "string list option"
  hs_models :: "string list option"

definition max_history_items :: nat where "max_history_items = 20"

definition empty_history :: history_items where
  "empty_history = \<lparr>hs_images = Some [], hs_models = Some []\<rparr>"

definition load_history :: "history_items json_file \<Rightarrow> string + history_items" where
  "load_history f =
     (case f of
        NoHome \<Rightarrow> Inl ''cannot determine home directory''
      | Unreadable e \<Rightarrow> Inl (''reading history: '' @ e)
      | NotThere \<Rightarrow> Inr empty_history
      | Garbled e \<Rightarrow> Inl (''parsing history: '' @ e)
      | Parsed h \<Rightarrow> Inr \<lparr>hs_images = Some (slice (hs_images h)), hs_models = Some (slice (hs_models h))\<rparr>)"

definition save_history :: "save_fault \<Rightarrow> history_items \<Rightarrow> history_items saved \<Rightarrow> string option \<times> history_items saved" where
  "save_history = save_json ''history''"

definition prepend_unique :: "string list \<Rightarrow> string \<Rightarrow> nat \<Rightarrow> string list" where
  "prepend_unique items v m =
     (let result = v # filter (\<lambda>x. x \<noteq> v) items in if length result > m then take m result else result)"

definition add_image :: "string \<Rightarrow> history_items \<Rightarrow> history_items" where
  "add_image v h =
     (if v = [] then h else h\<lparr>hs_images := Some (prepend_unique (slice (hs_images h)) v max_history_items)\<rparr>)"

definition add_model :: "string \<Rightarrow> history_items \<Rightarrow> history_items" where
  "add_model v h =
     (if v = [] then h else h\<lparr>hs_models := Some (prepend_unique (slice (hs_models h)) v max_history_items)\<rparr>)"

section \<open>The loops and their reference\<close>

text \<open>The reference of an upsert: the first element with the key is replaced, later ones dropped.\<close>

fun upsert_unique :: "('a \<Rightarrow> string) \<Rightarrow> 'a \<Rightarrow> 'a list \<Rightarrow> 'a list" where
  "upsert_unique key x [] = [x]"
| "upsert_unique key x (y # ys) =
     (if key y = key x then x # filter (\<lambda>z. key z \<noteq> key x) ys else y # upsert_unique key x ys)"

lemma upsert_body_simps:
  "key y = key x \<Longrightarrow> upsert_body key x r y = (True, if r then None else Some x)"
  "key y \<noteq> key x \<Longrightarrow> upsert_body key x r y = (r, Some y)"
  by (simp_all add: upsert_body_def)

lemma upsert_body_replaced:
  "filter_map_state (upsert_body key x) True xs = (True, filter (\<lambda>z. key z \<noteq> key x) xs)"
  by (induction xs) (auto simp: upsert_body_def)

lemma upsert_body_scan:
  "filter_map_state (upsert_body key x) False xs = (r, ys) \<Longrightarrow>
   (if r then ys else ys @ [x]) = upsert_unique key x xs"
proof (induction xs arbitrary: r ys)
  case (Cons y xs)
  show ?case
  proof (cases "key y = key x")
    case True
    then show ?thesis using Cons.prems by (auto simp: upsert_body_simps upsert_body_replaced)
  next
    case False
    obtain r' ys' where rest: "filter_map_state (upsert_body key x) False xs = (r', ys')" by fastforce
    then have "(if r' then ys' else ys' @ [x]) = upsert_unique key x xs" by (rule Cons.IH)
    then show ?thesis using Cons.prems False rest by (auto simp: upsert_body_simps split: if_splits)
  qed
qed simp

lemma upsert_slice_eq: "upsert_slice key x xs = upsert_unique key x xs"
  using upsert_body_scan [of key x xs]
  by (auto simp: upsert_slice_def rewrite_slice_eq split: prod.split)

lemma remove_body_scan:
  "filter_map_state (remove_body gone) n xs = (n + int (length (filter gone xs)), filter (\<lambda>x. \<not> gone x) xs)"
  by (induction xs arbitrary: n) (simp_all add: remove_body_def)

lemma remove_slice_eq:
  "rewrite_slice (remove_body gone) 0 xs = (int (length (filter gone xs)), filter (\<lambda>x. \<not> gone x) xs)"
  by (simp add: rewrite_slice_eq remove_body_scan)

lemma upsert_unique_find:
  "find (\<lambda>y. key y = k) (upsert_unique key x xs) = (if k = key x then Some x else find (\<lambda>y. key y = k) xs)"
proof (induction xs)
  case (Cons y ys)
  have "find (\<lambda>z. key z = k) (filter (\<lambda>z. key z \<noteq> key x) ys) = find (\<lambda>z. key z = k) ys" if "k \<noteq> key x"
    using that by (induction ys) auto
  with Cons show ?case by auto
qed simp

lemma upsert_unique_keys: "set (map key (upsert_unique key x xs)) \<subseteq> insert (key x) (set (map key xs))"
  by (induction xs) auto

lemma upsert_unique_elements: "set (upsert_unique key x xs) \<subseteq> insert x (set xs)"
  by (induction xs) auto

lemma upsert_unique_distinct:
  "distinct (map key xs) \<Longrightarrow> distinct (map key (upsert_unique key x xs))"
proof (induction xs)
  case (Cons y ys)
  have "distinct (map key (filter P ys))" for P
    using Cons.prems by (simp add: distinct_map_filter)
  then show ?case
    using Cons upsert_unique_keys [of key x ys] by (auto simp: image_iff)
qed simp

text \<open>Devices and services are keyed stores, like the deployments.\<close>

interpretation devices_store: keyed_store dv_id "upsert_slice dv_id" "\<lambda>ds i. find (\<lambda>d. dv_id d = i) ds"
  by unfold_locales
    (simp_all add: upsert_slice_eq upsert_unique_find upsert_unique_distinct upsert_unique_elements)

interpretation services_store: keyed_store sv_id "upsert_slice sv_id" "\<lambda>ss i. find (\<lambda>s. sv_id s = i) ss"
  by unfold_locales
    (simp_all add: upsert_slice_eq upsert_unique_find upsert_unique_distinct upsert_unique_elements)

lemma slice_updates:
  "slice (cf_devices (remove_device i c)) = filter (\<lambda>d. dv_id d \<noteq> i) (slice (cf_devices c))"
  "slice (cf_devices (upsert_device d c)) = upsert_slice dv_id d (slice (cf_devices c))"
  "slice (cf_services (upsert_service s c)) = upsert_slice sv_id s (slice (cf_services c))"
  by (auto simp: remove_device_def upsert_device_def upsert_service_def slice_def remove_slice_eq split: option.split)

section \<open>Properties\<close>

text \<open>
  C29: the loops that filter the devices and services of the configuration in place, reading
  and overwriting the same array, compute what a fresh list would: removals keep exactly the
  other elements in order and count the removed ones, and an upsert replaces the first
  device with the identifier, drops the others with it, or appends.
\<close>

theorem in_place_updates_equal_reference:
  "slice (cf_devices (remove_device i c)) = filter (\<lambda>d. dv_id d \<noteq> i) (slice (cf_devices c)) \<and>
   slice (cf_services (fst (remove_services gone c))) = filter (\<lambda>s. \<not> gone s) (slice (cf_services c)) \<and>
   snd (remove_services gone c) = int (length (filter gone (slice (cf_services c)))) \<and>
   slice (cf_devices (upsert_device d c)) = upsert_unique dv_id d (slice (cf_devices c)) \<and>
   slice (cf_services (upsert_service s c)) = upsert_unique sv_id s (slice (cf_services c))"
  by (simp add: slice_updates upsert_slice_eq)
    (auto simp: remove_services_def slice_def remove_slice_eq split: option.split)

text \<open>
  What a lookup finds after an update of the configuration: after an upsert of a device
  its identifier finds exactly that device, after a removal it finds none, and in both
  cases every other identifier finds what it found before.
\<close>

lemma find_device_after_update:
  "find_device (upsert_device d c) i = (if i = dv_id d then Some d else find_device c i) \<and>
   find_device (remove_device j c) i = (if i = j then None else find_device c i)"
proof -
  have gone: "find (\<lambda>d. dv_id d = i) (filter (\<lambda>d. dv_id d \<noteq> j) ds) =
      (if i = j then None else find (\<lambda>d. dv_id d = i) ds)" for ds
    by (induction ds) auto
  show ?thesis
    unfolding find_device_def slice_updates gone devices_store.get_put by simp
qed


text \<open>
  The history is a bounded most-recently-used list: adding a value to a list without
  duplicates gives one without duplicates, of at most 20 values, that starts with the value
  and then has the most recent of the others in their order.
\<close>

lemma history_most_recent:
  assumes "distinct items"
  shows "distinct (prepend_unique items v max_history_items) \<and>
    length (prepend_unique items v max_history_items) \<le> 20 \<and>
    prepend_unique items v max_history_items = v # take 19 (filter (\<lambda>x. x \<noteq> v) items)"
proof -
  have "prepend_unique items v max_history_items = v # take 19 (filter (\<lambda>x. x \<noteq> v) items)"
    by (simp add: prepend_unique_def max_history_items_def Let_def take_Cons')
  moreover have "v \<notin> set (take 19 (filter (\<lambda>x. x \<noteq> v) items))" by (auto dest: in_set_takeD)
  ultimately show ?thesis using assms by simp
qed

theorem history_most_recent_witness:
  "distinct (prepend_unique [''b'', ''a''] ''a'' max_history_items)"
  using history_most_recent [of "[''b'', ''a'']" "''a''"] by simp

end
