(* ===== verification/Recipe_Store.thy ===== *)
theory Recipe_Store
  imports Recipe_Types Config_Store
begin

text \<open>
  The store of candidate recipes, \<^verbatim>\<open>internal/recipes/store.go\<close> and \<^verbatim>\<open>seed.go\<close>: the
  document in memory and on disk, opening with and without the shipped seeds, lookups and
  the atomic upsert with every step that can fail. The deep copies of the source make the
  records plain values.
\<close>

section \<open>Seeds\<close>

definition seed_config :: "string \<Rightarrow> string \<Rightarrow> string list \<Rightarrow> rat \<Rightarrow> int \<Rightarrow> string \<Rightarrow> recipe_config" where
  "seed_config model img targets vram gpus quant =
     \<lparr>rc_id = [], rc_name = [], rc_workload = ''vllm'', rc_model = model, rc_image = img, rc_port = [],
      rc_extra_args = [], rc_env = [], rc_volumes = [], rc_plugins = [], rc_description = [],
      rc_targets = targets, rc_min_vram = vram, rc_min_gpus = gpus, rc_quant = quant, rc_arch = [],
      rc_multi = None\<rparr>"

definition seed_configs :: "recipe_config list" where
  "seed_configs =
    [seed_config ''nvidia/DeepSeek-V4-Flash-NVFP4''
       (''vllm/vllm-openai:v0.29.0-cu129@sha256:7ef5a35d1ef8ce2cf9d671dd91eec6e367c5849262'' @
       ''e0362b4d3d4a26be0d87d2'')
       [''b200''] 180 2 ''NVFP4'',
     seed_config ''deepseek-ai/DeepSeek-V4.1-Flash''
       (''vllm/vllm-openai:deepseekv41-flash-0909-cu129@sha256:4a4431d6a283f7551c3d7a7d5ef'' @
       ''b905569328c665cb89512d7ba1280c4ca1957'')
       [''h200'', ''b200''] 141 8 ''FP8'',
     seed_config ''deepseek-ai/DeepSeek-V4-Pro-0813''
       (''vllm/vllm-openai:deepseekv4-cu129@sha256:c71f14ab0e86b5314521c465a229563c4cd4858'' @
       ''d4d8f38e2b787113368df8722'')
       [''b200''] 192 8 ''FP8'',
     seed_config ''Qwen/Qwen3.8-Flash-Next-FP8''
       (''vllm/vllm-openai:qwen38-flash-next-x86_64-cu129@sha256:f16a96245c0add1a624972ed7'' @
       ''a671857369adde6be6193583fca84db77714a48'')
       [''h100-80'', ''h100-94'', ''h200'', ''b200''] 141 2 ''FP8'',
     seed_config ''nvidia/Qwen3.8-Flash-Next-NVFP4''
       (''vllm/vllm-openai:qwen38-flash-next-x86_64-cu129@sha256:f16a96245c0add1a624972ed7'' @
       ''a671857369adde6be6193583fca84db77714a48'')
       [''b200''] 192 1 ''NVFP4'',
     seed_config ''baidu/Unlimited-OCR''
       (''vllm/vllm-openai:unlimited-ocr-cu129@sha256:e45cf562cbc885af2531f576e79377069e0a'' @
       ''6f0af42cdad7658b8494185a1143'')
       [''rtx-4090'', ''rtx-5090'', ''l40s'', ''a100-80'', ''h100-80'', ''h200'', ''b200'', ''rtx-pro-6000'', ''gb10'',
        ''jetson-thor''] 16 1 ''BF16'']"

definition seed_provenance :: "provenance list" where
  "seed_provenance =
    [\<lparr>pv_agent = ''hermes'',
      pv_source = ''Hugging Face '' @ [CHR 0xE2, CHR 0x80, CHR 0x94] @
       '' nvidia/DeepSeek-V4-Flash-NVFP4 (official NVIDIA Model Optimizer NVFP4 quant of '' @
       ''deepseek-ai/DeepSeek-V4-Flash)'',
      pv_source_url = ''https://huggingface.co/nvidia/DeepSeek-V4-Flash-NVFP4'',
      pv_research_note =
       ''Verified NVFP4 exists: moe_quant_algo=NVFP4, routed experts NVFP4 '' @
       ''group_size=16, remainder FP8 e4m3, producer=modelopt dsv4-nvfp4-experts. Base '' @
       ''DeepSeek-V4-Flash (DeepseekV4ForCausalLM, MoE 284B total / 13B active, 1M ctx, '' @
       ''MIT). Weights est ~163GB -> 2x B200 (192GB) TP2; NVFP4/Blackwell needs cu129. '' @
       ''Image digest verified via Docker Hub API.'',
      pv_reported_on = [''2026-09-10'']\<rparr>,
     \<lparr>pv_agent = ''hermes'',
      pv_source = ''Hugging Face '' @ [CHR 0xE2, CHR 0x80, CHR 0x94] @
       '' deepseek-ai/DeepSeek-V4.1-Flash (multimodal MoE, 552B backbone, 1M ctx, MIT)'',
      pv_source_url = ''https://huggingface.co/deepseek-ai/DeepSeek-V4.1-Flash'',
      pv_research_note =
       ''Brand new (HF 2026-09-10). Ships native FP8 (~510GB) in-repo; purpose-built '' @
       ''official image deepseekv41-flash-0909-cu129, digest verified via Docker Hub '' @
       ''API. 8x H200/B200 (141GB/GPU) footprint. Multimodal flash MoE.'',
      pv_reported_on = [''2026-09-11'']\<rparr>,
     \<lparr>pv_agent = ''hermes'',
      pv_source = ''Hugging Face '' @ [CHR 0xE2, CHR 0x80, CHR 0x94] @
       '' deepseek-ai/DeepSeek-V4-Pro-0813 (flagship full-size V4-Pro refresh)'',
      pv_source_url = ''https://huggingface.co/deepseek-ai/DeepSeek-V4-Pro-0813'',
      pv_research_note =
       ''Flagship V4-Pro (refresh 08-13). 384 routed / 6 active experts, 71B layer, 1M '' @
       ''ctx, ~893GB FP8. Complements the V4-Flash NVFP4 candidate (different model). '' @
       ''deepseekv4-cu129 image digest verified via Docker Hub API. Needs 8x B200 '' @
       ''(192GB).'',
      pv_reported_on = [''2026-09-11'']\<rparr>,
     \<lparr>pv_agent = ''hermes'',
      pv_source = ''Hugging Face '' @ [CHR 0xE2, CHR 0x80, CHR 0x94] @
       '' Qwen/Qwen3.8-Flash-Next-FP8 (official Qwen FP8)'',
      pv_source_url = ''https://huggingface.co/Qwen/Qwen3.8-Flash-Next-FP8'',
      pv_research_note =
       ''Official Qwen FP8 (HF created 2026-08-24). Multimodal flash MoE (512 experts / '' @
       ''10 active), 1M ctx, built-in tools, qwen-community-1.0, ~185GB FP8. '' @
       ''qwen38-flash-next-x86_64-cu129 image digest verified via Docker Hub API. 2x '' @
       ''H100/H200/B200.'',
      pv_reported_on = [''2026-09-11'']\<rparr>,
     \<lparr>pv_agent = ''hermes'',
      pv_source = ''Hugging Face '' @ [CHR 0xE2, CHR 0x80, CHR 0x94] @
       '' nvidia/Qwen3.8-Flash-Next-NVFP4 (NVIDIA Model Optimizer NVFP4)'',
      pv_source_url = ''https://huggingface.co/nvidia/Qwen3.8-Flash-Next-NVFP4'',
      pv_research_note =
       ''NVIDIA Model Optimizer NVFP4 of the same model (created 2026-09-02), Blackwell, '' @
       ''~132GB -> single B200. Pairs with the FP8 variant to cover H100/H200 (FP8) and '' @
       ''B200 (NVFP4). Digest verified via Docker Hub API.'',
      pv_reported_on = [''2026-09-11'']\<rparr>,
     \<lparr>pv_agent = ''hermes'',
      pv_source = ''Hugging Face '' @ [CHR 0xE2, CHR 0x80, CHR 0x94] @
       '' baidu/Unlimited-OCR (multilingual OCR VLM, ~3.3B, 32K ctx, MIT)'',
      pv_source_url = ''https://huggingface.co/baidu/Unlimited-OCR'',
      pv_research_note =
       ''Baidu multilingual OCR VLM (~3.3B, 32K ctx, MIT, 4.2k likes / 2.7M downloads). '' @
       ''Official vLLM serving command documented in its README. Fills the OCR slot with '' @
       ''a non-GLM/Paddle option. unlimited-ocr-cu129 image digest verified via Docker '' @
       ''Hub API. Runs on consumer/edge cards incl. GB10/jetson-thor.'',
      pv_reported_on = [''2026-09-11'']\<rparr>]"

definition seed_ids :: "string list" where
  "seed_ids = [''rec_37c6eb9b'', ''rec_a8530eed'', ''rec_fcbc736f'', ''rec_7fb39e9c'', ''rec_0642f7a0'',
    ''rec_7039261d'']"

definition seed_time :: string where "seed_time = ''2026-09-11T00:00:00Z''"

definition seed_recipe :: "string \<Rightarrow> recipe_config \<Rightarrow> provenance \<Rightarrow> recipe" where
  "seed_recipe i c p =
     \<lparr>rp_id = i, rp_tier = tier_candidate, rp_status = status_proposed, rp_config = c, rp_provenance = p,
      rp_validated_on = [], rp_last_verify = None, rp_swaps = [], rp_fingerprint = fingerprint c,
      rp_proposed_by = ''hermes'', rp_supersedes = [], rp_created_at = seed_time, rp_updated_at = seed_time\<rparr>"

definition default_recipes :: "recipe list" where
  "default_recipes = map (\<lambda>(i, c, p). seed_recipe i c p) (zip seed_ids (zip seed_configs seed_provenance))"

section \<open>The store\<close>

record recipe_store =
  rs_recipes :: "recipe list"
  rs_disk :: "recipe list option"

text \<open>
  \<^verbatim>\<open>writeStoreAtomic\<close>: nothing is visible before the rename; the directory sync can fail
  with the new document in place.
\<close>

fun first_failure :: "(write_step \<Rightarrow> string option) \<Rightarrow> write_step list \<Rightarrow> string option" where
  "first_failure fault [] = None"
| "first_failure fault (st # sts) =
     (case fault st of Some e \<Rightarrow> Some e | None \<Rightarrow> first_failure fault sts)"

definition write_recipes ::
  "(write_step \<Rightarrow> string option) \<Rightarrow> recipe list option \<Rightarrow> recipe list \<Rightarrow>
   recipe list option \<times> bool \<times> string option" where
  "write_recipes fault old new =
     (case first_failure fault [StepMkdir, StepCreateTemp, StepMarshal, StepSync, StepClose, StepRename] of
        Some e \<Rightarrow> (old, False, Some e)
      | None \<Rightarrow> (Some new, True, first_failure fault [StepOpenDir, StepSyncDir]))"

definition put_recipe ::
  "(write_step \<Rightarrow> string option) \<Rightarrow> recipe \<Rightarrow> recipe_store \<Rightarrow> string option \<times> recipe_store" where
  "put_recipe fault r s =
     (let docs = upsert_by rp_id r (rs_recipes s);
          (disk, promoted, err) = write_recipes fault (rs_disk s) docs
      in (case err of
            Some e \<Rightarrow> Some e
          | None \<Rightarrow> if promoted then None else Some ''recipes store write completed without promotion'',
          \<lparr>rs_recipes = (if promoted then docs else rs_recipes s), rs_disk = disk\<rparr>))"

definition get_recipe :: "recipe_store \<Rightarrow> string \<Rightarrow> recipe option" where
  "get_recipe s i = find (\<lambda>r. rp_id r = i) (rs_recipes s)"

definition find_fingerprint :: "recipe_store \<Rightarrow> string \<Rightarrow> recipe option" where
  "find_fingerprint s fp = find (\<lambda>r. rp_fingerprint r = fp) (rs_recipes s)"

text \<open>
  \<^verbatim>\<open>sort.Slice\<close> is not stable: it gives some ordered rearrangement, an argument here.
\<close>

definition sort_slice :: "('a \<Rightarrow> 'a \<Rightarrow> bool) \<Rightarrow> ('a list \<Rightarrow> 'a list) \<Rightarrow> bool" where
  "sort_slice lt srt \<longleftrightarrow> (\<forall>xs. mset (srt xs) = mset xs \<and> sorted_wrt (\<lambda>x y. \<not> lt y x) (srt xs))"

definition newer :: "recipe \<Rightarrow> recipe \<Rightarrow> bool" where
  "newer r r' \<longleftrightarrow> rp_updated_at r > rp_updated_at r'"

definition list_recipes :: "(recipe list \<Rightarrow> recipe list) \<Rightarrow> recipe_store \<Rightarrow> recipe list" where
  "list_recipes srt s = srt (rs_recipes s)"

datatype recipe_file =
    RecipesMissing | RecipesUnreadable string | RecipesGarbled string | RecipesDocument int "recipe list"

definition open_recipes :: "recipe_file \<Rightarrow> string + recipe_store" where
  "open_recipes f =
     (case f of
        RecipesMissing \<Rightarrow> Inr \<lparr>rs_recipes = [], rs_disk = None\<rparr>
      | RecipesUnreadable e \<Rightarrow> Inl (''reading recipes store: '' @ e)
      | RecipesGarbled e \<Rightarrow> Inl (''parsing recipes store: '' @ e)
      | RecipesDocument version docs \<Rightarrow>
          if version > 1 \<or> version < 0
          then Inl (''unsupported recipes store version '' @ itoa version @ '' (supported: 1)'')
          else Inr \<lparr>rs_recipes = docs, rs_disk = Some docs\<rparr>)"

definition open_recipes_default ::
  "(write_step \<Rightarrow> string option) \<Rightarrow> recipe_file \<Rightarrow> string + recipe_store" where
  "open_recipes_default fault f =
     (case open_recipes f of
        Inl e \<Rightarrow> Inl e
      | Inr s \<Rightarrow>
          if f = RecipesMissing
          then (case write_recipes fault (rs_disk s) default_recipes of
                  (disk, promoted, Some e) \<Rightarrow> Inl (''seeding recipes store: '' @ e)
                | (disk, promoted, None) \<Rightarrow> Inr \<lparr>rs_recipes = default_recipes, rs_disk = disk\<rparr>)
          else Inr s)"

section \<open>The store is a keyed store\<close>

interpretation recipes_store: keyed_store rp_id "upsert_by rp_id" "\<lambda>rs i. find (\<lambda>r. rp_id r = i) rs"
  by unfold_locales (simp_all add: upsert_by_get upsert_by_distinct upsert_by_elements)

lemma write_recipes_cases:
  assumes "write_recipes fault old new = (disk, promoted, err)"
  shows "promoted \<and> disk = Some new \<or> \<not> promoted \<and> disk = old \<and> err \<noteq> None"
  using assms by (auto simp: write_recipes_def split: option.splits)

text \<open>A put leaves the recipes alone or updates them in memory and on disk; only a promoted put succeeds.\<close>

lemma put_recipe_cases:
  obtains (kept) e where "put_recipe fault r s = (Some e, s)"
  | (updated) e where "put_recipe fault r s =
      (e, \<lparr>rs_recipes = upsert_by rp_id r (rs_recipes s), rs_disk = Some (upsert_by rp_id r (rs_recipes s))\<rparr>)"
proof -
  obtain disk promoted err where w:
    "write_recipes fault (rs_disk s) (upsert_by rp_id r (rs_recipes s)) = (disk, promoted, err)"
    by (cases "write_recipes fault (rs_disk s) (upsert_by rp_id r (rs_recipes s))")
  from write_recipes_cases [OF w] show thesis
    using kept updated by (cases err) (auto simp: put_recipe_def w Let_def)
qed

lemma put_recipe_success:
  assumes "put_recipe fault r s = (None, s')"
  shows "rs_recipes s' = upsert_by rp_id r (rs_recipes s) \<and> rs_disk s' = Some (rs_recipes s')"
  using assms by (cases rule: put_recipe_cases [of fault r s]) auto

lemma put_recipe_set:
  "set (rs_recipes (snd (put_recipe fault r s))) \<subseteq> insert r (set (rs_recipes s))"
  by (cases rule: put_recipe_cases [of fault r s]) (auto dest: subsetD [OF upsert_by_elements])

lemma put_recipe_distinct:
  "distinct (map rp_id (rs_recipes s)) \<Longrightarrow> distinct (map rp_id (rs_recipes (snd (put_recipe fault r s))))"
  by (cases rule: put_recipe_cases [of fault r s]) (auto simp: upsert_by_distinct)

lemma get_recipe_mem: "get_recipe s i = Some r \<Longrightarrow> r \<in> set (rs_recipes s) \<and> rp_id r = i"
  unfolding get_recipe_def by (auto dest: find_Some_mem)

lemma get_put_recipe:
  assumes "put_recipe fault r s = (None, s')"
  shows "get_recipe s' i = (if i = rp_id r then Some r else get_recipe s i)"
  using put_recipe_success [OF assms] by (simp add: get_recipe_def upsert_by_get)

section \<open>The seeds\<close>

lemma trim_space_starts: "\<not> digit7 c \<Longrightarrow> \<not> ascii_space c \<Longrightarrow> trim_space (c # s) \<noteq> []"
  by (simp add: trim_space_def trim_left_plain trim_right_plain)

lemma has_prefix_Cons: "has_prefix (c # s) (d # p) = (c = d \<and> has_prefix s p)"
  by (simp add: has_prefix_def)

lemma vllm_known: "known_workload ''vllm''"
  by code_simp

lemma seed_config_accepted:
  assumes "model = c # s" "\<not> digit7 c" "\<not> ascii_space c" "img = d # t" "\<not> digit7 d" "\<not> ascii_space d"
    and "is_digest_pinned img" "0 \<le> vram" "0 \<le> gpus"
    and "pv_source_url p = e # u" "\<not> digit7 e" "\<not> ascii_space e"
  shows "accepted (seed_config model img targets vram gpus quant) p ''hermes''"
  using assms by (simp add: accepted_def seed_config_def vllm_known trim_space_starts ascii_space_bits)

lemma seeds_accepted:
  "list_all (\<lambda>r. accepted (rp_config r) (rp_provenance r) (rp_proposed_by r)) default_recipes"
  by (simp add: default_recipes_def seed_configs_def seed_provenance_def seed_ids_def seed_recipe_def
      seed_config_accepted is_digest_pinned_def has_prefix_Cons ascii_space_bits)

lemma default_ids: "map rp_id default_recipes = seed_ids"
  by (simp add: default_recipes_def seed_recipe_def seed_ids_def seed_configs_def seed_provenance_def)

end
