(* ===== verification/Recipe_Agent.thy ===== *)
theory Recipe_Agent
  imports Recipe_Store Bkc_Catalog
begin

text \<open>
  The handlers through which agents propose, check and roll out candidate recipes:
  \<^verbatim>\<open>internal/daemon/agent_recipes.go\<close>, \<^verbatim>\<open>agent_verify.go\<close>, \<^verbatim>\<open>agent_inspect.go\<close>,
  \<^verbatim>\<open>agent_swap.go\<close>, the GPU lookup of \<^verbatim>\<open>agent.go\<close> and the persistence of a deployed
  service in \<^verbatim>\<open>daemon.go\<close>. A handler takes what the request and the outside world give it
  and maps the state of the daemon to a reply and the next state; every call to a device is
  recorded in order. A nil recipe store is \<^term>\<open>None\<close>.
\<close>

section \<open>The outside world of one request\<close>

record gpu =
  gp_name :: string
  gp_memory_type :: string
  gp_vram_mb :: int

record deploy_request =
  dr_device :: string
  dr_service_type :: string
  dr_image :: string
  dr_name :: string
  dr_model :: string
  dr_gguf_variant :: string
  dr_gguf_files :: "string list"
  dr_ports :: gomap
  dr_env :: gomap
  dr_gpu_ids :: string
  dr_extra_args :: string
  dr_volumes :: gomap
  dr_plugins :: "string list"
  dr_runtime :: runtime_options

record service_test =
  st_ok :: bool
  st_message :: string
  st_model :: string
  st_metrics_ready :: bool

text \<open>
  The metrics the aggregator keeps of a device, as a poll left them: whether the device
  answered the last poll, and the GPUs if the cached text decodes.
\<close>

record cached_metrics =
  cm_online :: bool
  cm_gpus :: "gpu list option"

record outside =
  hw_time :: string
  hw_random :: "nat list option"
  hw_nanos :: nat
  hw_aggregator :: bool
  hw_cached :: "string \<Rightarrow> cached_metrics option"
  hw_port :: "string \<Rightarrow> int"
  hw_direct :: "string \<Rightarrow> string + gpu list"
  hw_deploy :: "deploy_request \<Rightarrow> string + string"
  hw_test :: "string \<Rightarrow> string \<Rightarrow> string \<Rightarrow> string + service_test option"
  hw_put :: "write_step \<Rightarrow> string option"
  hw_save :: save_fault

datatype agent_call =
    CallDeploy deploy_request
  | CallTest string string
  | CallStop string string
  | CallRemove string string

record fleet =
  fl_store :: "recipe_store option"
  fl_config :: config
  fl_saved :: "config saved"
  fl_calls :: "agent_call list"

definition called :: "agent_call list \<Rightarrow> fleet \<Rightarrow> fleet" where
  "called cs fl = fl\<lparr>fl_calls := fl_calls fl @ cs\<rparr>"

section \<open>Hardware of a device\<close>

text \<open>
  \<^verbatim>\<open>fetchAgentGPUs\<close>: the cached GPUs when there are any, else a query of the agent.
\<close>

definition fetch_agent_gpus :: "outside \<Rightarrow> fleet \<Rightarrow> string \<Rightarrow> string + gpu list" where
  "fetch_agent_gpus hw fl dev =
     (case (if hw_aggregator hw then Option.bind (hw_cached hw dev) cm_gpus else None) of
        Some (g # gs) \<Rightarrow> Inr (g # gs)
      | _ \<Rightarrow>
          if find_device (fl_config fl) dev = None then Inl ''device not found''
          else if hw_port hw dev = 0 then Inl ''fetching device metrics: not available yet''
          else hw_direct hw dev)"

definition vram_gb :: "gpu \<Rightarrow> rat" where
  "vram_gb g = of_int (gp_vram_mb g) / 1024"

text \<open>The loops over the GPUs; the first is known to exist.\<close>

fun smallest_from :: "rat \<Rightarrow> gpu list \<Rightarrow> rat" where
  "smallest_from v [] = v"
| "smallest_from v (g # gs) = smallest_from (if vram_gb g < v then vram_gb g else v) gs"

definition smallest_vram :: "gpu list \<Rightarrow> rat" where
  "smallest_vram gs = smallest_from (vram_gb (hd gs)) (tl gs)"

text \<open>\<^verbatim>\<open>%.0f\<close> rounds to the nearest integer, halves to even; \<^verbatim>\<open>%v\<close> of a list of strings.\<close>

definition round_even :: "rat \<Rightarrow> int" where
  "round_even x =
     (let f = \<lfloor>x\<rfloor>; r = x - of_int f in
      if r < 1/2 then f else if r > 1/2 then f + 1 else if even f then f else f + 1)"

definition text_0f :: "rat \<Rightarrow> string" where
  "text_0f x = (if x < 0 \<and> round_even x = 0 then ''-0'' else itoa (round_even x))"

definition text_list :: "string list \<Rightarrow> string" where
  "text_list xs = ''['' @ join_with '' '' xs @ '']''"

definition vram_reason :: "recipe_config \<Rightarrow> rat \<Rightarrow> string" where
  "vram_reason c v = ''needs '' @ text_0f (rc_min_vram c) @ ''GB/GPU, device has '' @ text_0f v @ ''GB''"

definition gpus_reason :: "recipe_config \<Rightarrow> nat \<Rightarrow> string" where
  "gpus_reason c n = ''needs '' @ itoa (rc_min_gpus c) @ '' GPU(s), device has '' @ itoa (int n)"

definition too_little_vram :: "recipe_config \<Rightarrow> rat \<Rightarrow> bool" where
  "too_little_vram c v \<longleftrightarrow> rc_min_vram c > 0 \<and> v < rc_min_vram c"

definition too_few_gpus :: "recipe_config \<Rightarrow> nat \<Rightarrow> bool" where
  "too_few_gpus c n \<longleftrightarrow> rc_min_gpus c > 0 \<and> int n < rc_min_gpus c"

definition target_matches :: "string \<Rightarrow> string \<Rightarrow> bool" where
  "target_matches name t \<longleftrightarrow>
     name \<noteq> [] \<and> (str_contains name (to_lower t) \<or> str_contains (to_lower t) name)"

definition wrong_target :: "recipe_config \<Rightarrow> gpu \<Rightarrow> bool" where
  "wrong_target c g \<longleftrightarrow>
     rc_targets c \<noteq> [] \<and> \<not> list_ex (target_matches (to_lower (gp_name g))) (rc_targets c) \<and>
     to_lower (gp_name g) \<noteq> []"

text \<open>\<^verbatim>\<open>recipeDeviceFit\<close>: whether the metrics are live, whether the recipe fits, and why not.\<close>

definition device_fit_reasons :: "recipe_config \<Rightarrow> gpu list \<Rightarrow> string list" where
  "device_fit_reasons c gs =
     msg_if (too_little_vram c (smallest_vram gs)) (vram_reason c (smallest_vram gs)) @
     msg_if (too_few_gpus c (length gs)) (gpus_reason c (length gs)) @
     msg_if (wrong_target c (hd gs))
       (''declared target_devices '' @ text_list (rc_targets c) @ '', device GPU is '' @
        go_quote (gp_name (hd gs)))"

definition recipe_device_fit :: "outside \<Rightarrow> fleet \<Rightarrow> string \<Rightarrow> recipe_config \<Rightarrow> bool \<times> bool \<times> string list" where
  "recipe_device_fit hw fl dev c =
     (case fetch_agent_gpus hw fl dev of
        Inl e \<Rightarrow> (False, False, [''device not reachable for live metrics: '' @ e])
      | Inr [] \<Rightarrow> (False, False, [''device reports no GPUs''])
      | Inr gs \<Rightarrow> (True, length (device_fit_reasons c gs) = 0, device_fit_reasons c gs))"

definition device_agent_token :: "fleet \<Rightarrow> string \<Rightarrow> string" where
  "device_agent_token fl dev = (case find_device (fl_config fl) dev of None \<Rightarrow> [] | Some d \<Rightarrow> dv_agent_token d)"

section \<open>Requests and replies\<close>

record propose_request =
  pq_proposed_by :: string
  pq_id :: string
  pq_config :: recipe_config
  pq_provenance :: provenance
  pq_supersedes :: string

record patch_request =
  pt_config :: "recipe_config option"
  pt_provenance :: "provenance option"
  pt_supersedes :: "string option"

record swap_request =
  sq_recipe :: string
  sq_device :: string
  sq_backing_model :: string
  sq_allow_self :: bool

record validation_report =
  vp_recipe :: string
  vp_device :: string
  vp_live :: bool
  vp_fits :: bool
  vp_reasons :: "string list"
  vp_status :: string
  vp_validated_on :: "string list"

record inspect_report =
  ir_recipe :: string
  ir_device :: string
  ir_live :: bool
  ir_vram :: rat
  ir_gpus :: nat
  ir_min_vram :: rat
  ir_min_gpus :: int
  ir_targets :: "string list"
  ir_fits :: bool
  ir_reasons :: "string list"
  ir_status :: string

record verify_report =
  vf_recipe :: string
  vf_device :: string
  vf_gate :: bool
  vf_reasons :: "string list"
  vf_container :: string
  vf_ready :: bool
  vf_served_model :: string
  vf_status :: string
  vf_validated_on :: "string list"
  vf_last :: "recipe_verify option"

record swap_report =
  sr_recipe :: string
  sr_device :: string
  sr_self_hosted :: bool
  sr_allow_self :: bool
  sr_previous_model :: string
  sr_previous_container :: string
  sr_new_container :: string
  sr_ready :: bool
  sr_status :: string
  sr_history :: "swap_record list"

datatype reply =
    ErrorReply nat string string
  | InvalidReply validation_result
  | DuplicateReply recipe
  | RecipeReply nat recipe
  | RecipesReply "recipe list"
  | ValidationReply validation_report
  | InspectReply inspect_report
  | VerifyErrorReply nat string string verify_report
  | VerifyReply nat bool verify_report
  | SwapErrorReply nat string string swap_report
  | SwapReply nat bool swap_report

definition store_missing :: reply where
  "store_missing = ErrorReply 404 ''not_found'' ''recipe store is not loaded''"

definition recipe_missing :: reply where
  "recipe_missing = ErrorReply 404 ''not_found'' ''no candidate recipe with that id''"

text \<open>Writing a recipe: the store after the write, and the error.\<close>

definition fleet_put :: "outside \<Rightarrow> recipe \<Rightarrow> fleet \<Rightarrow> string option \<times> fleet" where
  "fleet_put hw r fl =
     (case fl_store fl of
        None \<Rightarrow> (None, fl)
      | Some s \<Rightarrow> (case put_recipe (hw_put hw) r s of (e, s') \<Rightarrow> (e, fl\<lparr>fl_store := Some s'\<rparr>)))"

definition write_failed :: "string \<Rightarrow> reply" where
  "write_failed e = ErrorReply 500 ''store_write_failed'' e"

section \<open>Propose, read and patch\<close>

text \<open>
  \<^verbatim>\<open>randHex\<close>: one hexadecimal digit per random byte; without randomness, the digits of the
  clock.
\<close>

fun seed_digits :: "nat \<Rightarrow> nat \<Rightarrow> string" where
  "seed_digits 0 s = []"
| "seed_digits (Suc n) s = hex_digit (s mod 16) # seed_digits n (s div 16)"

definition rand_hex :: "outside \<Rightarrow> nat \<Rightarrow> string" where
  "rand_hex hw n =
     (case hw_random hw of
        Some bytes \<Rightarrow> map (\<lambda>b. hex_digit (b mod 16)) (take n bytes)
      | None \<Rightarrow> seed_digits n (hw_nanos hw))"

definition new_recipe :: "outside \<Rightarrow> propose_request \<Rightarrow> recipe" where
  "new_recipe hw q =
     \<lparr>rp_id = (if trim_space (pq_id q) = [] then ''rec_'' @ rand_hex hw 8 else pq_id q),
      rp_tier = tier_candidate, rp_status = status_proposed, rp_config = pq_config q,
      rp_provenance = pq_provenance q, rp_validated_on = [], rp_last_verify = None, rp_swaps = [],
      rp_fingerprint = fingerprint (pq_config q), rp_proposed_by = trim_space (pq_proposed_by q),
      rp_supersedes = pq_supersedes q, rp_created_at = hw_time hw, rp_updated_at = hw_time hw\<rparr>"

definition propose_recipe :: "outside \<Rightarrow> string + propose_request \<Rightarrow> fleet \<Rightarrow> reply \<times> fleet" where
  "propose_recipe hw body fl =
     (case body of
        Inl e \<Rightarrow> (ErrorReply 400 ''invalid_json'' e, fl)
      | Inr q \<Rightarrow>
          (let res = validate (pq_config q) (pq_provenance q) (trim_space (pq_proposed_by q))
           in if \<not> vr_ok res then (InvalidReply res, fl)
              else (case fl_store fl of
                  None \<Rightarrow> (ErrorReply 500 ''store_unavailable'' ''recipe store is not loaded'', fl)
                | Some s \<Rightarrow>
                    (case find_fingerprint s (fingerprint (pq_config q)) of
                       Some existing \<Rightarrow> (DuplicateReply existing, fl)
                     | None \<Rightarrow>
                         (case fleet_put hw (new_recipe hw q) fl of
                            (Some e, fl') \<Rightarrow> (write_failed e, fl')
                          | (None, fl') \<Rightarrow> (RecipeReply 201 (new_recipe hw q), fl'))))))"

definition list_candidates :: "(recipe list \<Rightarrow> recipe list) \<Rightarrow> fleet \<Rightarrow> reply" where
  "list_candidates srt fl =
     RecipesReply (case fl_store fl of None \<Rightarrow> [] | Some s \<Rightarrow> list_recipes srt s)"

text \<open>The shared beginning of the handlers: the loaded recipe, or the reply that it is missing.\<close>

definition find_recipe :: "fleet \<Rightarrow> string \<Rightarrow> reply + recipe" where
  "find_recipe fl i =
     (case fl_store fl of
        None \<Rightarrow> Inl store_missing
      | Some s \<Rightarrow> (case get_recipe s i of None \<Rightarrow> Inl recipe_missing | Some r \<Rightarrow> Inr r))"

definition show_recipe :: "fleet \<Rightarrow> string \<Rightarrow> reply" where
  "show_recipe fl i = (case find_recipe fl i of Inl e \<Rightarrow> e | Inr r \<Rightarrow> RecipeReply 200 r)"

definition patched :: "patch_request \<Rightarrow> recipe \<Rightarrow> recipe" where
  "patched q r =
     r\<lparr>rp_config := (case pt_config q of None \<Rightarrow> rp_config r | Some c \<Rightarrow> c),
       rp_provenance := (case pt_provenance q of None \<Rightarrow> rp_provenance r | Some p \<Rightarrow> p),
       rp_supersedes := (case pt_supersedes q of None \<Rightarrow> rp_supersedes r | Some x \<Rightarrow> x)\<rparr>"

definition next_version :: "outside \<Rightarrow> patch_request \<Rightarrow> recipe \<Rightarrow> recipe" where
  "next_version hw q r =
     (let nx = patched q r
      in nx\<lparr>rp_fingerprint := fingerprint (rp_config nx),
            rp_status := (if rp_status nx \<noteq> status_validated then status_proposed else rp_status nx),
            rp_updated_at := hw_time hw\<rparr>)"

definition patch_recipe :: "outside \<Rightarrow> string \<Rightarrow> string + patch_request \<Rightarrow> fleet \<Rightarrow> reply \<times> fleet" where
  "patch_recipe hw i body fl =
     (case find_recipe fl i of
        Inl e \<Rightarrow> (e, fl)
      | Inr existing \<Rightarrow>
          (case body of
             Inl e \<Rightarrow> (ErrorReply 400 ''invalid_json'' e, fl)
           | Inr q \<Rightarrow>
               (let nx = patched q existing;
                    res = validate (rp_config nx) (rp_provenance nx) (rp_proposed_by nx)
                in if \<not> vr_ok res then (InvalidReply res, fl)
                   else (case fleet_put hw (next_version hw q existing) fl of
                           (Some e, fl') \<Rightarrow> (write_failed e, fl')
                         | (None, fl') \<Rightarrow> (RecipeReply 200 (next_version hw q existing), fl')))))"

section \<open>Validate and inspect\<close>

definition live_gpus :: "outside \<Rightarrow> fleet \<Rightarrow> string \<Rightarrow> gpu list \<times> string list" where
  "live_gpus hw fl dev =
     (if dev = [] then ([], [])
      else (case fetch_agent_gpus hw fl dev of
              Inl e \<Rightarrow> ([], [''device not reachable for live metrics: '' @ e])
            | Inr gs \<Rightarrow> (gs, [])))"

definition gate_reasons :: "recipe_config \<Rightarrow> gpu list \<Rightarrow> string list" where
  "gate_reasons c gs =
     (if too_little_vram c (smallest_vram gs) then [vram_reason c (smallest_vram gs)]
      else if too_few_gpus c (length gs) then [gpus_reason c (length gs)] else [])"

definition promoted_recipe :: "outside \<Rightarrow> string \<Rightarrow> recipe \<Rightarrow> recipe" where
  "promoted_recipe hw dev r =
     r\<lparr>rp_status := status_validated, rp_validated_on := snoc_new (rp_validated_on r) dev,
       rp_updated_at := hw_time hw\<rparr>"

definition validate_recipe :: "outside \<Rightarrow> string \<Rightarrow> string \<Rightarrow> fleet \<Rightarrow> reply \<times> fleet" where
  "validate_recipe hw i dev fl =
     (case find_recipe fl i of
        Inl e \<Rightarrow> (e, fl)
      | Inr r \<Rightarrow>
          (let (gs, reasons) = live_gpus hw fl dev;
               gate = gate_reasons (rp_config r) gs;
               targets = rc_targets (rp_config r);
               declared = msg_if (targets \<noteq> []) (''target_devices declared: '' @ join_with '', '' targets);
               report = \<lparr>vp_recipe = i, vp_device = dev, vp_live = (gs \<noteq> []), vp_fits = False,
                         vp_reasons = reasons, vp_status = rp_status r, vp_validated_on = []\<rparr>
           in if gs = []
              then (ValidationReply (report\<lparr>vp_reasons := reasons @
                     [''no live device metrics; affinity unverified (must pass a live probe before promotion)'']\<rparr>), fl)
              else if gate \<noteq> []
              then (ValidationReply (report\<lparr>vp_reasons := reasons @ gate @ declared\<rparr>), fl)
              else (let r' = promoted_recipe hw dev r
                    in case fleet_put hw r' fl of
                         (Some e, fl') \<Rightarrow> (write_failed e, fl')
                       | (None, fl') \<Rightarrow>
                           (ValidationReply (report\<lparr>vp_fits := True, vp_status := status_validated,
                              vp_validated_on := rp_validated_on r',
                              vp_reasons := reasons @ declared @
                                [''hardware gate passed against live metrics; promoted to validated'']\<rparr>), fl'))))"

definition inspect_recipe :: "outside \<Rightarrow> string \<Rightarrow> string \<Rightarrow> string option \<Rightarrow> fleet \<Rightarrow> reply" where
  "inspect_recipe hw i query body fl =
     (let dev = (if trim_space query \<noteq> [] then trim_space query
                 else (case body of None \<Rightarrow> [] | Some d \<Rightarrow> trim_space d))
      in case find_recipe fl i of
           Inl e \<Rightarrow> e
         | Inr r \<Rightarrow>
             (let c = rp_config r;
                  report = \<lparr>ir_recipe = i, ir_device = dev, ir_live = False, ir_vram = 0, ir_gpus = 0,
                            ir_min_vram = rc_min_vram c, ir_min_gpus = rc_min_gpus c,
                            ir_targets = rc_targets c, ir_fits = False, ir_reasons = [],
                            ir_status = rp_status r\<rparr>
              in if dev = []
                 then InspectReply (report\<lparr>ir_reasons :=
                        [''no device_id supplied; only claimed requirements reported'']\<rparr>)
                 else (case recipe_device_fit hw fl dev c of
                     (live, fits, reasons) \<Rightarrow>
                       (let report = report\<lparr>ir_live := live, ir_fits := fits, ir_reasons := reasons\<rparr>
                        in InspectReply (case (if live then fetch_agent_gpus hw fl dev else Inr []) of
                             Inr (g # gs) \<Rightarrow> report\<lparr>ir_gpus := length (g # gs), ir_vram := smallest_vram (g # gs)\<rparr>
                           | _ \<Rightarrow> report)))))"

section \<open>Verify on hardware\<close>

definition recipe_deploy_request :: "recipe_config \<Rightarrow> string \<Rightarrow> deploy_request" where
  "recipe_deploy_request c dev =
     \<lparr>dr_device = dev, dr_service_type = rc_workload c, dr_image = rc_image c,
      dr_name = (if rc_name c = [] then ''recipe-verify-'' @ rc_model c else rc_name c),
      dr_model = rc_model c, dr_gguf_variant = [], dr_gguf_files = [],
      dr_ports = (if rc_port c \<noteq> [] then [(rc_port c, rc_port c)] else []), dr_env = rc_env c,
      dr_gpu_ids = [], dr_extra_args = rc_extra_args c, dr_volumes = rc_volumes c,
      dr_plugins = rc_plugins c, dr_runtime = runtime_zero\<rparr>"

definition verify_note :: "outside \<Rightarrow> string \<Rightarrow> string \<Rightarrow> recipe_verify" where
  "verify_note hw dev message =
     \<lparr>rv_device = dev, rv_at = hw_time hw, rv_ok = False, rv_container = [], rv_served_model = [],
      rv_metrics_ready = False, rv_message = message\<rparr>"

definition verify_outcome :: "string + service_test option \<Rightarrow> recipe_verify \<Rightarrow> recipe_verify" where
  "verify_outcome answer v =
     (case answer of
        Inl e \<Rightarrow> v\<lparr>rv_message := ''readiness probe failed: '' @ e\<rparr>
      | Inr None \<Rightarrow> v\<lparr>rv_message := ''readiness probe returned no result''\<rparr>
      | Inr (Some t) \<Rightarrow>
          if \<not> st_ok t
          then v\<lparr>rv_message := (if st_message t = [] then ''readiness probe reported not ready'' else st_message t)\<rparr>
          else v\<lparr>rv_ok := True, rv_metrics_ready := st_metrics_ready t, rv_served_model := st_model t,
                 rv_message := st_message t\<rparr>)"

text \<open>The trial: deploy, probe, record, and remove the container whatever happened.\<close>

definition verify_trial ::
  "outside \<Rightarrow> string \<Rightarrow> recipe \<Rightarrow> verify_report \<Rightarrow> string \<Rightarrow> fleet \<Rightarrow> reply \<times> fleet" where
  "verify_trial hw dev r report cid fl =
     (let v = verify_outcome (hw_test hw dev cid (device_agent_token fl dev))
                ((verify_note hw dev [])\<lparr>rv_container := cid\<rparr>);
          r1 = r\<lparr>rp_last_verify := Some v, rp_updated_at := hw_time hw\<rparr>;
          r2 = (if rv_ok v
                then r1\<lparr>rp_status := status_validated, rp_validated_on := snoc_new (rp_validated_on r1) dev\<rparr>
                else r1);
          report = report\<lparr>vf_container := cid, vf_ready := rv_ok v,
            vf_served_model := (if rv_ok v then rv_served_model v else [])\<rparr>;
          (err, fl1) = fleet_put hw r2 (called [CallTest dev cid] fl);
          fl2 = called [CallRemove dev cid] fl1
      in case err of
           Some e \<Rightarrow> (write_failed e, fl2)
         | None \<Rightarrow>
             (VerifyReply (if rv_ok v then 200 else 422) (rv_ok v)
                (report\<lparr>vf_status := rp_status r2, vf_validated_on := rp_validated_on r2, vf_last := Some v\<rparr>), fl2))"

definition verify_recipe :: "outside \<Rightarrow> string \<Rightarrow> string \<Rightarrow> fleet \<Rightarrow> reply \<times> fleet" where
  "verify_recipe hw i query fl =
     (let dev = trim_space query
      in case find_recipe fl i of
           Inl e \<Rightarrow> (e, fl)
         | Inr r \<Rightarrow>
             if dev = []
             then (ErrorReply 400 ''device_required'' ''verify requires ?device_id=<configured device id>'', fl)
             else
               (let (live, fits, reasons) = recipe_device_fit hw fl dev (rp_config r);
                    report = \<lparr>vf_recipe = i, vf_device = dev, vf_gate = False, vf_reasons = reasons,
                              vf_container = [], vf_ready = False, vf_served_model = [],
                              vf_status = rp_status r, vf_validated_on = [], vf_last = None\<rparr>
                in if \<not> live then
                     (let v = verify_note hw dev (''device unreachable for live metrics: '' @ join_with ''; '' reasons)
                      in (VerifyErrorReply 422 ''device_unreachable''
                            ''no live metrics for device; cannot verify'' report,
                          snd (fleet_put hw (r\<lparr>rp_last_verify := Some v\<rparr>) fl)))
                   else if \<not> fits then
                     (let v = verify_note hw dev (''hardware gate failed: '' @ join_with ''; '' reasons)
                      in (VerifyErrorReply 422 ''no_fit'' ''candidate does not fit this device''
                            (report\<lparr>vf_last := Some v\<rparr>),
                          snd (fleet_put hw (r\<lparr>rp_last_verify := Some v, rp_updated_at := hw_time hw\<rparr>) fl)))
                   else if \<not> hw_aggregator hw then
                     (ErrorReply 500 ''aggregator_unavailable'' ''aggregator is not running'', fl)
                   else
                     (let report = report\<lparr>vf_gate := True\<rparr>;
                          q = recipe_deploy_request (rp_config r) dev;
                          fl1 = called [CallDeploy q] fl
                      in case hw_deploy hw q of
                           Inl e \<Rightarrow>
                             (let v = verify_note hw dev (''deploy failed: '' @ e)
                              in (VerifyErrorReply 422 ''deploy_failed'' e (report\<lparr>vf_last := Some v\<rparr>),
                                  snd (fleet_put hw (r\<lparr>rp_last_verify := Some v, rp_updated_at := hw_time hw\<rparr>) fl1)))
                         | Inr cid \<Rightarrow> verify_trial hw dev r report cid fl1)))"

section \<open>Swap\<close>

definition infer_service_type :: "string \<Rightarrow> string \<Rightarrow> string" where
  "infer_service_type img name =
     (let haystack = to_lower (trim_space (img @ '' '' @ name))
      in if str_contains haystack ''vllm'' then ''vllm''
         else if str_contains haystack ''sglang'' then ''sglang''
         else if str_contains haystack ''tensorfold'' then ''tensorfold''
         else if str_contains haystack ''llama'' then ''llamacpp''
         else if str_contains haystack ''comfy'' then ''comfyui'' else ''service'')"

text \<open>
  \<^verbatim>\<open>fmt.Sscanf\<close> with \<^verbatim>\<open>%d\<close>: leading blanks but no newline, a sign, digits; the rest of
  the text is ignored.
\<close>

definition scan_int :: "string \<Rightarrow> int option" where
  "scan_int s =
     (let t = trim_left s;
          sign = (if has_prefix t ''-'' \<or> has_prefix t ''+'' then take 1 t else [])
      in if CHR 0x0A \<in> set (take (length s - length t) s) then None
         else atoi (sign @ takeWhile is_digit (drop (length sign) t)))"

fun external_port :: "gomap \<Rightarrow> int" where
  "external_port [] = 0"
| "external_port ((k, v) # ports) =
     (case scan_int v of
        Some p \<Rightarrow> if p > 0 then p else external_port ports
      | None \<Rightarrow> external_port ports)"

definition deployed_service :: "deploy_request \<Rightarrow> string \<Rightarrow> service" where
  "deployed_service q cid =
     \<lparr>sv_id = (if trim_space (dr_name q) = [] then trim_space cid else trim_space (dr_name q)),
      sv_device = trim_space (dr_device q),
      sv_type = (if trim_space (dr_service_type q) = [] then infer_service_type (dr_image q) (dr_name q)
                 else trim_space (dr_service_type q)),
      sv_image = trim_space (dr_image q), sv_model = trim_space (dr_model q),
      sv_gguf_variant = trim_space (dr_gguf_variant q), sv_gguf_files = dr_gguf_files q,
      sv_port = external_port (dr_ports q), sv_gpu_ids = trim_space (dr_gpu_ids q),
      sv_extra_args = trim_space (dr_extra_args q), sv_env = dr_env q, sv_volumes = dr_volumes q,
      sv_plugins = dr_plugins q, sv_runtime = dr_runtime q, sv_container = trim_space cid\<rparr>"

definition persist_deploy_result :: "outside \<Rightarrow> deploy_request \<Rightarrow> string \<Rightarrow> fleet \<Rightarrow> string option \<times> fleet" where
  "persist_deploy_result hw q cid fl =
     (let c = upsert_service (deployed_service q cid) (fl_config fl)
      in case save_config (hw_save hw) c (fl_saved fl) of
           (e, saved) \<Rightarrow> (e, fl\<lparr>fl_config := c, fl_saved := saved\<rparr>))"

definition service_on_device :: "fleet \<Rightarrow> string \<Rightarrow> service option" where
  "service_on_device fl dev = find (\<lambda>s. sv_device s = dev) (slice (cf_services (fl_config fl)))"

definition control_device :: "fleet \<Rightarrow> string \<Rightarrow> bool" where
  "control_device fl dev = (case find_device (fl_config fl) dev of None \<Rightarrow> False | Some d \<Rightarrow> dv_control d)"

definition self_hosted_collision :: "fleet \<Rightarrow> string \<Rightarrow> string \<Rightarrow> service option" where
  "self_hosted_collision fl dev backing_model =
     (let backing = to_lower (trim_space backing_model);
          on = filter (\<lambda>s. sv_device s = dev) (slice (cf_services (fl_config fl)))
      in case find (\<lambda>s. backing \<noteq> [] \<and> sv_model s \<noteq> [] \<and> str_contains (to_lower (sv_model s)) backing) on of
           Some s \<Rightarrow> Some s
         | None \<Rightarrow> if control_device fl dev \<and> on \<noteq> [] then Some (hd on) else None)"

definition swap_note :: "outside \<Rightarrow> swap_report \<Rightarrow> bool \<Rightarrow> string \<Rightarrow> swap_record" where
  "swap_note hw report ok message =
     \<lparr>sw_device = sr_device report, sw_at = hw_time hw, sw_previous_model = sr_previous_model report,
      sw_previous_container = sr_previous_container report, sw_new_container = [],
      sw_allow_self = sr_allow_self report, sw_ok = ok, sw_message = message\<rparr>"

definition add_swap :: "swap_record \<Rightarrow> recipe \<Rightarrow> recipe" where
  "add_swap n r = r\<lparr>rp_swaps := rp_swaps r @ [n]\<rparr>"

text \<open>The cutover after a passed probe: persist, stop the previous container, record.\<close>

definition cutover ::
  "outside \<Rightarrow> string \<Rightarrow> swap_report \<Rightarrow> service option \<Rightarrow> string \<Rightarrow> recipe \<Rightarrow> fleet \<Rightarrow> recipe \<times> fleet" where
  "cutover hw dev report prev cid r fl =
     (let (err, fl1) = persist_deploy_result hw (recipe_deploy_request (rp_config r) dev) cid fl;
          (r1, fl2) = (case err of
             Some e \<Rightarrow> (add_swap (swap_note hw report False (''persist new service failed: '' @ e)) r, fl1)
           | None \<Rightarrow>
               (r, case prev of
                     Some p \<Rightarrow> if sv_container p \<noteq> [] \<and> sv_container p \<noteq> cid
                               then called [CallStop dev (sv_container p)] fl1 else fl1
                   | None \<Rightarrow> fl1))
      in (if rp_swaps r1 = [] \<or> \<not> sw_ok (last (rp_swaps r1))
          then add_swap (swap_note hw report True ''swapped in; previous deployment retained as rollback target'') r1
          else r1, fl2))"

definition test_ready :: "string + service_test option \<Rightarrow> bool" where
  "test_ready answer = (case answer of Inr (Some t) \<Rightarrow> st_ok t | _ \<Rightarrow> False)"

definition unready_message :: "string + service_test option \<Rightarrow> string" where
  "unready_message answer =
     (case answer of
        Inl e \<Rightarrow> ''readiness probe failed: '' @ e
      | Inr (Some t) \<Rightarrow> if st_message t \<noteq> [] then st_message t else ''readiness probe failed''
      | Inr None \<Rightarrow> ''readiness probe failed'')"

definition swap_trial ::
  "outside \<Rightarrow> string \<Rightarrow> swap_report \<Rightarrow> service option \<Rightarrow> string \<Rightarrow> recipe \<Rightarrow> fleet \<Rightarrow> reply \<times> fleet" where
  "swap_trial hw dev report prev cid r fl =
     (let answer = hw_test hw dev cid (device_agent_token fl dev);
          ready = test_ready answer;
          report = report\<lparr>sr_new_container := cid, sr_ready := ready,
            sr_status := (if ready then ''active'' else rp_status r)\<rparr>;
          (r1, fl1) =
            (if ready then cutover hw dev report prev cid r (called [CallTest dev cid] fl)
             else (add_swap (swap_note hw report False (unready_message answer)) r,
                   called [CallTest dev cid, CallRemove dev cid] fl))
      in case fleet_put hw (r1\<lparr>rp_updated_at := hw_time hw\<rparr>) fl1 of
           (Some e, fl2) \<Rightarrow> (write_failed e, fl2)
         | (None, fl2) \<Rightarrow> (SwapReply (if ready then 200 else 422) ready (report\<lparr>sr_history := rp_swaps r1\<rparr>), fl2))"

definition swap_recipe :: "outside \<Rightarrow> string + swap_request \<Rightarrow> fleet \<Rightarrow> reply \<times> fleet" where
  "swap_recipe hw body fl =
     (case body of
        Inl e \<Rightarrow> (ErrorReply 400 ''invalid_json'' e, fl)
      | Inr q \<Rightarrow>
          (let i = trim_space (sq_recipe q); dev = trim_space (sq_device q)
           in if i = [] \<or> dev = []
              then (ErrorReply 400 ''recipe_and_device_required'' ''recipe_id and device_id are required'', fl)
              else (case find_recipe fl i of
                  Inl e \<Rightarrow> (e, fl)
                | Inr r \<Rightarrow>
                    (let report = \<lparr>sr_recipe = i, sr_device = dev, sr_self_hosted = False,
                           sr_allow_self = sq_allow_self q, sr_previous_model = [], sr_previous_container = [],
                           sr_new_container = [], sr_ready = False, sr_status = rp_status r, sr_history = []\<rparr>
                     in if self_hosted_collision fl dev (sq_backing_model q) \<noteq> None \<and> \<not> sq_allow_self q
                        then (SwapErrorReply 409 ''self_hosted_swap''
                                ''this device currently serves the active agent's own model (or is marked control); swapping would take the fleet's brain offline. Set allow_self=true to acknowledge you accept disrupting the controller.''
                                report, fl)
                        else
                          (let report = report\<lparr>sr_self_hosted := sq_allow_self q \<and> control_device fl dev\<rparr>
                           in if rp_status r \<noteq> status_validated \<or> dev \<notin> set (rp_validated_on r)
                              then (SwapErrorReply 422 ''require_verify''
                                      ''candidate must be validated (passing live probe) on this device before swap; run /agent/recipe/{id}/verify first''
                                      report, fl)
                              else
                                (let prev = service_on_device fl dev;
                                     report = report\<lparr>
                                       sr_previous_model := (case prev of None \<Rightarrow> [] | Some s \<Rightarrow> sv_model s),
                                       sr_previous_container := (case prev of None \<Rightarrow> [] | Some s \<Rightarrow> sv_container s)\<rparr>;
                                     d = recipe_deploy_request (rp_config r) dev;
                                     fl1 = called [CallDeploy d] fl
                                 in if \<not> hw_aggregator hw
                                    then (ErrorReply 500 ''aggregator_unavailable'' ''aggregator is not running'', fl)
                                    else (case hw_deploy hw d of
                                        Inl e \<Rightarrow>
                                          (let r1 = add_swap (swap_note hw report False (''deploy failed: '' @ e)) r
                                           in (SwapErrorReply 422 ''deploy_failed'' e
                                                 (report\<lparr>sr_history := rp_swaps r1\<rparr>),
                                               snd (fleet_put hw (r1\<lparr>rp_updated_at := hw_time hw\<rparr>) fl1)))
                                      | Inr cid \<Rightarrow> swap_trial hw dev report prev cid r fl1)))))))"

end
