(* ===== verification/Recipe_Agent_Properties.thy ===== *)
theory Recipe_Agent_Properties
  imports Recipe_Agent
begin

text \<open>
  What the recipe endpoints guarantee: the invariant of the store over every sequence of
  requests, what a promotion rests on, which calls a verification and a swap make, and the
  cases in which the promises of the comments do not hold.
\<close>

section \<open>Requests\<close>

datatype agent_request =
    Propose "string + propose_request"
  | Patch string "string + patch_request"
  | Validate string string
  | Verify string string
  | Swap "string + swap_request"

fun handle :: "outside \<Rightarrow> agent_request \<Rightarrow> fleet \<Rightarrow> reply \<times> fleet" where
  "handle hw (Propose body) fl = propose_recipe hw body fl"
| "handle hw (Patch i body) fl = patch_recipe hw i body fl"
| "handle hw (Validate i dev) fl = validate_recipe hw i dev fl"
| "handle hw (Verify i query) fl = verify_recipe hw i query fl"
| "handle hw (Swap body) fl = swap_recipe hw body fl"

fun serve_all :: "(outside \<times> agent_request) list \<Rightarrow> fleet \<Rightarrow> fleet" where
  "serve_all [] fl = fl"
| "serve_all ((hw, q) # qs) fl = serve_all qs (snd (handle hw q fl))"

section \<open>The invariant of the store\<close>

definition recipe_ok :: "recipe \<Rightarrow> bool" where
  "recipe_ok r \<longleftrightarrow>
     rp_tier r = tier_candidate \<and>
     accepted (rp_config r) (rp_provenance r) (rp_proposed_by r) \<and>
     rp_fingerprint r = fingerprint (rp_config r) \<and>
     rp_status r = (if rp_validated_on r = [] then status_proposed else status_validated) \<and>
     distinct (rp_validated_on r) \<and>
     (case rp_last_verify r of None \<Rightarrow> True | Some v \<Rightarrow> rv_ok v \<longrightarrow> rv_device v \<in> set (rp_validated_on r))"

definition store_ok_recipes :: "recipe_store \<Rightarrow> bool" where
  "store_ok_recipes s \<longleftrightarrow>
     list_all recipe_ok (rs_recipes s) \<and> distinct (map rp_id (rs_recipes s)) \<and>
     rs_disk s = Some (rs_recipes s)"

definition fleet_ok :: "fleet \<Rightarrow> bool" where
  "fleet_ok fl \<longleftrightarrow> (case fl_store fl of None \<Rightarrow> True | Some s \<Rightarrow> store_ok_recipes s)"

lemma status_neq [simp]: "status_proposed \<noteq> status_validated" "status_validated \<noteq> status_proposed"
  by (simp_all add: status_proposed_def status_validated_def)

lemma snoc_new_nonempty [simp]: "snoc_new xs x \<noteq> []"
  by (auto simp: snoc_new_def)

lemma put_store_ok: "store_ok_recipes s \<Longrightarrow> recipe_ok r \<Longrightarrow> store_ok_recipes (snd (put_recipe fault r s))"
  by (cases rule: put_recipe_cases [of fault r s])
    (auto simp: store_ok_recipes_def list_all_iff upsert_by_distinct dest: subsetD [OF upsert_by_elements])

lemma fleet_put_ok: "fleet_ok fl \<Longrightarrow> recipe_ok r \<Longrightarrow> fleet_ok (snd (fleet_put hw r fl))"
  by (simp add: fleet_ok_def fleet_put_def split_beta put_store_ok split: option.splits)

lemma fleet_put_fields [simp]:
  "fl_config (snd (fleet_put hw r fl)) = fl_config fl"
  "fl_saved (snd (fleet_put hw r fl)) = fl_saved fl"
  "fl_calls (snd (fleet_put hw r fl)) = fl_calls fl"
  by (simp_all add: fleet_put_def split: option.splits prod.splits)

lemma called_fields [simp]:
  "fl_store (called cs fl) = fl_store fl" "fl_config (called cs fl) = fl_config fl"
  "fl_saved (called cs fl) = fl_saved fl" "fl_calls (called cs fl) = fl_calls fl @ cs"
  by (simp_all add: called_def)

lemma fleet_ok_called [simp]: "fleet_ok (called cs fl) = fleet_ok fl"
  by (simp add: fleet_ok_def)

lemma find_recipe_ok: "fleet_ok fl \<Longrightarrow> find_recipe fl i = Inr r \<Longrightarrow> recipe_ok r \<and> rp_id r = i"
  by (auto simp: find_recipe_def fleet_ok_def store_ok_recipes_def list_all_iff
      split: option.splits dest: get_recipe_mem)

lemma recipe_ok_updates [simp]:
  "recipe_ok (r\<lparr>rp_updated_at := t\<rparr>) = recipe_ok r"
  "recipe_ok (add_swap n r) = recipe_ok r"
  by (simp_all add: recipe_ok_def add_swap_def split: option.split)

lemma recipe_ok_failed_verify:
  "recipe_ok r \<Longrightarrow> \<not> rv_ok v \<Longrightarrow> recipe_ok (r\<lparr>rp_last_verify := Some v\<rparr>)"
  by (simp add: recipe_ok_def)

lemma recipe_ok_promoted:
  "recipe_ok r \<Longrightarrow> recipe_ok (r\<lparr>rp_status := status_validated, rp_validated_on := snoc_new (rp_validated_on r) dev\<rparr>)"
  by (auto simp: recipe_ok_def distinct_snoc_new split: option.splits)

lemma recipe_ok_verified:
  "recipe_ok r \<Longrightarrow> rv_device v = dev \<Longrightarrow>
   recipe_ok (r\<lparr>rp_last_verify := Some v, rp_updated_at := t, rp_status := status_validated,
                rp_validated_on := snoc_new (rp_validated_on r) dev\<rparr>)"
  by (auto simp: recipe_ok_def distinct_snoc_new)

lemma verify_outcome_device [simp]: "rv_device (verify_outcome a v) = rv_device v"
  by (auto simp: verify_outcome_def split: sum.split option.split)

lemma verify_outcome_ok: "\<not> rv_ok v \<Longrightarrow> rv_ok (verify_outcome a v) = test_ready a"
  by (auto simp: verify_outcome_def test_ready_def split: sum.split option.split)

lemma verify_note_fields [simp]: "\<not> rv_ok (verify_note hw dev m)" "rv_device (verify_note hw dev m) = dev"
  by (simp_all add: verify_note_def)

section \<open>Every handler keeps the invariant\<close>

lemma new_recipe_ok:
  "vr_ok (validate (pq_config q) (pq_provenance q) (trim_space (pq_proposed_by q))) \<Longrightarrow> recipe_ok (new_recipe hw q)"
  by (simp add: recipe_ok_def new_recipe_def validate_ok)

lemma propose_ok: "fleet_ok fl \<Longrightarrow> fleet_ok (snd (propose_recipe hw body fl))"
  by (simp add: propose_recipe_def Let_def split_beta new_recipe_ok fleet_put_ok split: sum.split option.split)

lemma next_version_ok:
  "recipe_ok r \<Longrightarrow>
   vr_ok (validate (rp_config (patched q r)) (rp_provenance (patched q r)) (rp_proposed_by (patched q r))) \<Longrightarrow>
   recipe_ok (next_version hw q r)"
  by (auto simp: recipe_ok_def next_version_def validate_ok patched_def Let_def split: option.splits)

lemma patch_ok: "fleet_ok fl \<Longrightarrow> fleet_ok (snd (patch_recipe hw i body fl))"
  using find_recipe_ok [of fl i]
  by (auto simp: patch_recipe_def Let_def split_beta next_version_ok fleet_put_ok split: sum.split option.split)

lemma promoted_ok: "recipe_ok r \<Longrightarrow> recipe_ok (promoted_recipe hw dev r)"
  using recipe_ok_promoted [of r dev] by (simp add: promoted_recipe_def recipe_ok_def split: option.splits)

lemma validate_ok_fleet: "fleet_ok fl \<Longrightarrow> fleet_ok (snd (validate_recipe hw i dev fl))"
  using find_recipe_ok [of fl i]
  by (auto simp: validate_recipe_def Let_def split_beta promoted_ok fleet_put_ok split: sum.split option.split)

lemma verify_trial_ok: "fleet_ok fl \<Longrightarrow> recipe_ok r \<Longrightarrow> fleet_ok (snd (verify_trial hw dev r report cid fl))"
  by (cases "rv_ok (verify_outcome (hw_test hw dev cid (device_agent_token fl dev))
        (verify_note hw dev []\<lparr>rv_container := cid\<rparr>))")
    (simp_all add: verify_trial_def Let_def split_beta recipe_ok_verified recipe_ok_failed_verify fleet_put_ok
      split: option.split)

lemma verify_fleet_ok: "fleet_ok fl \<Longrightarrow> fleet_ok (snd (verify_recipe hw i query fl))"
  using find_recipe_ok [of fl i]
  by (auto simp: verify_recipe_def Let_def split_beta recipe_ok_failed_verify fleet_put_ok verify_trial_ok
      split: sum.split option.split)

lemma persist_fields [simp]:
  "fl_store (snd (persist_deploy_result hw q cid fl)) = fl_store fl"
  "fl_calls (snd (persist_deploy_result hw q cid fl)) = fl_calls fl"
  by (simp_all add: persist_deploy_result_def split_beta Let_def)

lemma fleet_ok_persist [simp]: "fleet_ok (snd (persist_deploy_result hw q cid fl)) = fleet_ok fl"
  by (simp add: fleet_ok_def)

lemma cutover_ok:
  "recipe_ok (fst (cutover hw dev report prev cid r fl)) = recipe_ok r"
  "fleet_ok (snd (cutover hw dev report prev cid r fl)) = fleet_ok fl"
  by (auto simp: cutover_def Let_def split_beta split: option.split)

lemma swap_trial_ok: "fleet_ok fl \<Longrightarrow> recipe_ok r \<Longrightarrow> fleet_ok (snd (swap_trial hw dev report prev cid r fl))"
  by (auto simp: swap_trial_def Let_def split_beta fleet_put_ok cutover_ok split: option.split)

lemma swap_fleet_ok: "fleet_ok fl \<Longrightarrow> fleet_ok (snd (swap_recipe hw body fl))"
  using find_recipe_ok [of fl]
  by (auto simp: swap_recipe_def Let_def split_beta fleet_put_ok swap_trial_ok split: sum.split option.split)

lemma handle_ok: "fleet_ok fl \<Longrightarrow> fleet_ok (snd (handle hw q fl))"
  by (cases q) (simp_all add: propose_ok patch_ok validate_ok_fleet verify_fleet_ok swap_fleet_ok)

lemma serve_all_ok: "fleet_ok fl \<Longrightarrow> fleet_ok (serve_all qs fl)"
  by (induction qs fl rule: serve_all.induct) (simp_all add: handle_ok)

lemma seeds_ok: "list_all recipe_ok default_recipes"
  using seeds_accepted
  by (simp add: default_recipes_def list_all_iff recipe_ok_def seed_recipe_def case_prod_beta)

lemma seed_ids_distinct: "distinct (map rp_id default_recipes)"
  by (simp add: default_ids seed_ids_def)

lemma opened_ok:
  assumes "open_recipes_default fault RecipesMissing = Inr s"
  shows "store_ok_recipes s"
proof -
  obtain disk promoted err where w: "write_recipes fault None default_recipes = (disk, promoted, err)"
    by (cases "write_recipes fault None default_recipes")
  from assms have "err = None" and "s = \<lparr>rs_recipes = default_recipes, rs_disk = disk\<rparr>"
    by (auto simp: open_recipes_default_def open_recipes_def w split: option.splits)
  with write_recipes_cases [OF w] seeds_ok seed_ids_distinct show ?thesis
    by (simp add: store_ok_recipes_def)
qed

section \<open>What a promotion rests on\<close>

definition recipes :: "fleet \<Rightarrow> recipe list" where
  "recipes fl = (case fl_store fl of None \<Rightarrow> [] | Some s \<Rightarrow> rs_recipes s)"

definition gate_passed :: "outside \<Rightarrow> fleet \<Rightarrow> string \<Rightarrow> recipe_config \<Rightarrow> bool" where
  "gate_passed hw fl dev c =
     (case fetch_agent_gpus hw fl dev of
        Inl e \<Rightarrow> False
      | Inr gs \<Rightarrow> gs \<noteq> [] \<and> \<not> too_little_vram c (smallest_vram gs) \<and> \<not> too_few_gpus c (length gs))"

definition trial_passed :: "outside \<Rightarrow> fleet \<Rightarrow> string \<Rightarrow> recipe_config \<Rightarrow> bool" where
  "trial_passed hw fl dev c =
     (case hw_deploy hw (recipe_deploy_request c dev) of
        Inl e \<Rightarrow> False
      | Inr cid \<Rightarrow> test_ready (hw_test hw dev cid (device_agent_token fl dev)))"

text \<open>The evidence a request brings for a recipe on a device.\<close>

definition evidence :: "outside \<Rightarrow> agent_request \<Rightarrow> fleet \<Rightarrow> recipe \<Rightarrow> string \<Rightarrow> bool" where
  "evidence hw q fl r dev =
     (case q of
        Validate i d \<Rightarrow> i = rp_id r \<and> d = dev \<and> d \<noteq> [] \<and> gate_passed hw fl dev (rp_config r)
      | Verify i query \<Rightarrow>
          i = rp_id r \<and> trim_space query = dev \<and> dev \<noteq> [] \<and> gate_passed hw fl dev (rp_config r) \<and>
          trial_passed hw fl dev (rp_config r)
      | _ \<Rightarrow> False)"

definition is_patch :: "agent_request \<Rightarrow> bool" where
  "is_patch q = (case q of Patch i b \<Rightarrow> True | _ \<Rightarrow> False)"

definition justified :: "outside \<Rightarrow> agent_request \<Rightarrow> fleet \<Rightarrow> recipe \<Rightarrow> string \<Rightarrow> bool" where
  "justified hw q fl r' dev =
     list_ex (\<lambda>r. rp_id r = rp_id r' \<and> (dev \<in> set (rp_validated_on r) \<or> evidence hw q fl r dev) \<and>
                  (rp_config r' = rp_config r \<or> is_patch q)) (recipes fl)"

lemma recipes_called [simp]: "recipes (called cs fl) = recipes fl"
  by (simp add: recipes_def)

lemma recipes_persist [simp]: "recipes (snd (persist_deploy_result hw d cid fl)) = recipes fl"
  by (simp add: recipes_def)

lemma recipes_put: "set (recipes (snd (fleet_put hw x fl))) \<subseteq> insert x (set (recipes fl))"
  using subsetD [OF put_recipe_set [of "hw_put hw" x]]
  by (cases "fl_store fl") (auto simp: recipes_def fleet_put_def split_beta)

lemma find_recipe_mem: "find_recipe fl i = Inr r \<Longrightarrow> r \<in> set (recipes fl) \<and> rp_id r = i"
  by (auto simp: find_recipe_def recipes_def split: option.splits dest: get_recipe_mem)

text \<open>All recipes after a request are justified: shown for what the request writes.\<close>

definition all_justified :: "outside \<Rightarrow> agent_request \<Rightarrow> fleet \<Rightarrow> fleet \<Rightarrow> bool" where
  "all_justified hw q fl fl' \<longleftrightarrow>
     list_all (\<lambda>r'. list_all (justified hw q fl r') (rp_validated_on r')) (recipes fl')"

lemma justified_old: "r \<in> set (recipes fl) \<Longrightarrow> dev \<in> set (rp_validated_on r) \<Longrightarrow> justified hw q fl r dev"
  by (auto simp: justified_def list_ex_iff)

lemma all_justified_same [simp]: "recipes fl' = recipes fl \<Longrightarrow> all_justified hw q fl fl'"
  by (auto simp: all_justified_def list_all_iff intro: justified_old)

lemma all_justified_put:
  assumes "recipes fl0 = recipes fl"
    and "\<And>dev. dev \<in> set (rp_validated_on x) \<Longrightarrow> justified hw q fl x dev"
  shows "all_justified hw q fl (snd (fleet_put hw x fl0))"
  using recipes_put [of hw x fl0] assms
  by (auto simp: all_justified_def list_all_iff intro: justified_old)

lemma justified_from:
  assumes "find_recipe fl i = Inr r" and "rp_id x = rp_id r" and "rp_config x = rp_config r \<or> is_patch q"
    and "dev \<in> set (rp_validated_on r) \<or> evidence hw q fl r dev"
  shows "justified hw q fl x dev"
  using find_recipe_mem [OF assms(1)] assms(2-4) by (auto simp: justified_def list_ex_iff)

lemma propose_justified: "all_justified hw (Propose body) fl (snd (propose_recipe hw body fl))"
  by (simp add: propose_recipe_def Let_def split_beta split: sum.split option.split)
    (auto intro!: all_justified_put simp: new_recipe_def)

lemma patch_justified: "all_justified hw (Patch i body) fl (snd (patch_recipe hw i body fl))"
proof (cases "find_recipe fl i")
  case (Inr r)
  have "all_justified hw (Patch i body) fl (snd (fleet_put hw (next_version hw q r) fl))" for q
    by (rule all_justified_put [OF refl]) (rule justified_from [OF Inr],
      simp_all add: next_version_def patched_def is_patch_def Let_def)
  then show ?thesis
    by (cases body) (simp_all add: patch_recipe_def Inr Let_def split_beta split: option.split)
qed (simp add: patch_recipe_def)

lemma gate_reasons_Nil:
  "(gate_reasons c gs = []) = (\<not> too_little_vram c (smallest_vram gs) \<and> \<not> too_few_gpus c (length gs))"
  by (simp add: gate_reasons_def)

lemma live_gpus_some:
  "live_gpus hw fl dev = (gs, rs) \<Longrightarrow> gs \<noteq> [] \<Longrightarrow> dev \<noteq> [] \<and> fetch_agent_gpus hw fl dev = Inr gs"
  by (auto simp: live_gpus_def split: if_splits sum.splits)

lemma validate_justified: "all_justified hw (Validate i dev) fl (snd (validate_recipe hw i dev fl))"
proof (cases "find_recipe fl i")
  case (Inr r)
  obtain gs rs where g: "live_gpus hw fl dev = (gs, rs)" by fastforce
  have "all_justified hw (Validate i dev) fl (snd (fleet_put hw (promoted_recipe hw dev r) fl))"
    if "gs \<noteq> []" "gate_reasons (rp_config r) gs = []"
    using that live_gpus_some [OF g that(1)] find_recipe_mem [OF Inr]
    by (intro all_justified_put) (auto intro!: justified_from [OF Inr]
        simp: promoted_recipe_def evidence_def gate_passed_def gate_reasons_Nil)
  then show ?thesis
    by (simp add: validate_recipe_def Inr g Let_def split_beta split: option.split)
qed (simp add: validate_recipe_def)

text \<open>The recipe that a trial writes.\<close>

definition trial_record :: "outside \<Rightarrow> string \<Rightarrow> string \<Rightarrow> fleet \<Rightarrow> recipe_verify" where
  "trial_record hw dev cid fl =
     verify_outcome (hw_test hw dev cid (device_agent_token fl dev)) ((verify_note hw dev [])\<lparr>rv_container := cid\<rparr>)"

lemma trial_record_ok:
  "rv_ok (trial_record hw dev cid fl) = test_ready (hw_test hw dev cid (device_agent_token fl dev))"
  by (simp add: trial_record_def verify_outcome_ok)

definition tried :: "outside \<Rightarrow> string \<Rightarrow> string \<Rightarrow> fleet \<Rightarrow> recipe \<Rightarrow> recipe" where
  "tried hw dev cid fl r =
     (let v = trial_record hw dev cid fl;
          r1 = r\<lparr>rp_last_verify := Some v, rp_updated_at := hw_time hw\<rparr>
      in if rv_ok v then r1\<lparr>rp_status := status_validated, rp_validated_on := snoc_new (rp_validated_on r1) dev\<rparr>
         else r1)"

lemma verify_trial_state:
  "snd (verify_trial hw dev r report cid fl) =
     called [CallRemove dev cid] (snd (fleet_put hw (tried hw dev cid fl r) (called [CallTest dev cid] fl)))"
  by (simp add: verify_trial_def tried_def trial_record_def Let_def split_beta split: option.split)

lemma called_called [simp]: "called cs (called cs' fl) = called (cs' @ cs) fl" "called [] fl = fl"
  by (simp_all add: called_def)

lemma all_justified_called [simp]: "all_justified hw q fl (called cs fl') = all_justified hw q fl fl'"
  by (simp add: all_justified_def)

lemma tried_called [simp]: "tried hw dev cid (called cs fl) r = tried hw dev cid fl r"
  by (simp add: tried_def trial_record_def device_agent_token_def)

lemma fit_gate: "recipe_device_fit hw fl dev c = (True, True, rs) \<Longrightarrow> gate_passed hw fl dev c"
  by (auto simp: recipe_device_fit_def gate_passed_def device_fit_reasons_def split: sum.splits list.splits)

lemma verify_justified: "all_justified hw (Verify i query) fl (snd (verify_recipe hw i query fl))"
proof (cases "find_recipe fl i")
  case (Inr r)
  let ?dev = "trim_space query" and ?q = "Verify i query"
  obtain live fits rs where fit: "recipe_device_fit hw fl ?dev (rp_config r) = (live, fits, rs)"
    by (cases "recipe_device_fit hw fl ?dev (rp_config r)")
  have noted: "all_justified hw ?q fl (snd (fleet_put hw (r\<lparr>rp_last_verify := Some v\<rparr>) (called cs fl)))"
    "all_justified hw ?q fl (snd (fleet_put hw (r\<lparr>rp_last_verify := Some v, rp_updated_at := t\<rparr>) (called cs fl)))"
    for v t cs
    by (auto intro!: all_justified_put justified_from [OF Inr])
  have "all_justified hw ?q fl (snd (fleet_put hw (tried hw ?dev cid fl r) (called cs fl)))"
    if "live" "fits" "?dev \<noteq> []" "hw_deploy hw (recipe_deploy_request (rp_config r) ?dev) = Inr cid" for cid cs
    using that fit find_recipe_mem [OF Inr] fit_gate [of hw fl ?dev "rp_config r"]
    by (auto intro!: all_justified_put justified_from [OF Inr]
        simp: tried_def Let_def evidence_def trial_passed_def trial_record_ok split: if_splits)
  then show ?thesis
    using noted [where cs = "[]"] noted
    by (simp add: verify_recipe_def Inr fit Let_def verify_trial_state split: sum.split)
qed (simp add: verify_recipe_def)

lemma add_swap_fields [simp]:
  "rp_id (add_swap n r) = rp_id r" "rp_config (add_swap n r) = rp_config r"
  "rp_validated_on (add_swap n r) = rp_validated_on r"
  by (simp_all add: add_swap_def)

lemma cutover_fields [simp]:
  "rp_id (fst (cutover hw dev report prev cid r fl)) = rp_id r"
  "rp_config (fst (cutover hw dev report prev cid r fl)) = rp_config r"
  "rp_validated_on (fst (cutover hw dev report prev cid r fl)) = rp_validated_on r"
  "recipes (snd (cutover hw dev report prev cid r fl)) = recipes fl"
  by (simp_all add: cutover_def Let_def split_beta split: option.split)

lemma swap_justified: "all_justified hw (Swap body) fl (snd (swap_recipe hw body fl))"
proof (cases body)
  case (Inr q)
  show ?thesis
  proof (cases "find_recipe fl (trim_space (sq_recipe q))")
    case r: (Inr r)
    have put: "all_justified hw (Swap (Inr q)) fl (snd (fleet_put hw x fl'))"
      if "rp_id x = rp_id r" "rp_config x = rp_config r" "rp_validated_on x = rp_validated_on r"
        "recipes fl' = recipes fl" for x fl'
      using that by (auto intro!: all_justified_put justified_from [OF r])
    have "all_justified hw (Swap (Inr q)) fl (snd (swap_trial hw dev report prev cid r (called cs fl)))"
      for dev report prev cid cs
      by (simp add: swap_trial_def Let_def split_beta put split: option.split)
    then show ?thesis
      by (simp add: swap_recipe_def Inr r Let_def put split: sum.split)
  qed (simp add: swap_recipe_def Inr Let_def)
qed (simp add: swap_recipe_def)

text \<open>
  C36: no recipe becomes validated on a device by a claim: whatever request an agent sends,
  whenever a stored recipe lists a device afterwards, the recipe of that identifier listed
  it before, or the request was a validation or verification on that device whose hardware
  gate passed, and for a verification the container booted there and answered the probe.
  Only a patch changes the configuration of a recipe
  that stays validated.
\<close>

theorem promotion_needs_evidence:
  "list_all (\<lambda>r'. list_all (justified hw q fl r') (rp_validated_on r')) (recipes (snd (handle hw q fl)))"
proof -
  have "all_justified hw q fl (snd (handle hw q fl))"
    by (cases q) (simp_all add: propose_justified patch_justified validate_justified verify_justified swap_justified)
  then show ?thesis by (simp add: all_justified_def)
qed

text \<open>
  C37: whatever agents send, in whatever order, and whatever devices and file system answer,
  a store opened with the shipped seeds keeps its invariant, in memory and on disk: every
  recipe is a candidate whose configuration, provenance and author pass the ingest gate and
  whose fingerprint is that of its configuration; it is validated exactly when it lists a
  device, lists no device twice and lists the device of a passed last verification;
  identifiers are unique.
\<close>

theorem recipe_store_invariant:
  "case open_recipes_default fault RecipesMissing of
     Inl e \<Rightarrow> first_failure fault [StepMkdir, StepCreateTemp, StepMarshal, StepSync, StepClose, StepRename,
                StepOpenDir, StepSyncDir] \<noteq> None
   | Inr s \<Rightarrow> fleet_ok (serve_all qs \<lparr>fl_store = Some s, fl_config = c, fl_saved = sv, fl_calls = []\<rparr>)"
proof (cases "open_recipes_default fault RecipesMissing")
  case (Inl e)
  then show ?thesis
    by (auto simp: open_recipes_default_def open_recipes_def write_recipes_def split: option.splits)
next
  case (Inr s)
  have "fleet_ok \<lparr>fl_store = Some s, fl_config = c, fl_saved = sv, fl_calls = []\<rparr>"
    using opened_ok [OF Inr] by (simp add: fleet_ok_def)
  then show ?thesis using Inr by (simp add: serve_all_ok)
qed

end
