(* ===== verification/Recipe_Rollout.thy ===== *)
theory Recipe_Rollout
  imports Recipe_Agent_Properties
begin

text \<open>
  What verifying and swapping a recipe does to a device: the exact calls, when the
  configuration changes, and the cases in which the outcome is not what the comments of
  \<^verbatim>\<open>agent_verify.go\<close> and \<^verbatim>\<open>agent_swap.go\<close> promise.
\<close>

section \<open>Verification leaves nothing behind\<close>

lemma verify_trial_calls:
  "fl_calls (snd (verify_trial hw dev r report cid fl)) = fl_calls fl @ [CallTest dev cid, CallRemove dev cid]"
  "fl_config (snd (verify_trial hw dev r report cid fl)) = fl_config fl"
  "fl_saved (snd (verify_trial hw dev r report cid fl)) = fl_saved fl"
  by (simp_all add: verify_trial_state)

text \<open>
  C39: a verification leaves nothing on the device: whatever the trial answers and whether
  or not its record can be written, the calls are none, a failed deployment, or a
  deployment, one probe and the removal of that very container; the configuration of the
  daemon does not change.
\<close>

theorem verify_leaves_nothing:
  "case snd (verify_recipe hw i query fl) of fl' \<Rightarrow>
     fl_config fl' = fl_config fl \<and> fl_saved fl' = fl_saved fl \<and>
     (fl_calls fl' = fl_calls fl \<or>
      (\<exists>d. fl_calls fl' = fl_calls fl @ [CallDeploy d] \<and> dr_device d = trim_space query \<and>
           (\<exists>e. hw_deploy hw d = Inl e)) \<or>
      (\<exists>d cid. fl_calls fl' = fl_calls fl @
             [CallDeploy d, CallTest (trim_space query) cid, CallRemove (trim_space query) cid] \<and>
           dr_device d = trim_space query \<and> hw_deploy hw d = Inr cid))"
proof (cases "find_recipe fl i")
  case (Inr r)
  show ?thesis
    by (cases "recipe_device_fit hw fl (trim_space query) (rp_config r)";
        cases "hw_deploy hw (recipe_deploy_request (rp_config r) (trim_space query))")
      (auto simp: verify_recipe_def Inr Let_def verify_trial_calls recipe_deploy_request_def)
qed (simp add: verify_recipe_def)

section \<open>Swaps\<close>

lemma persist_saved:
  assumes "persist_deploy_result hw q cid fl = (None, fl')"
  shows "sd_target (fl_saved fl') = Parsed (fl_config fl')"
  using assms
  by (auto simp: persist_deploy_result_def save_config_def save_json_def Let_def split: save_fault.splits option.splits)

text \<open>What a swap does with the device after a passed probe.\<close>

definition stops :: "outside \<Rightarrow> fleet \<Rightarrow> string \<Rightarrow> recipe_config \<Rightarrow> string \<Rightarrow> agent_call list" where
  "stops hw fl dev c cid =
     (if fst (persist_deploy_result hw (recipe_deploy_request c dev) cid fl) \<noteq> None then []
      else (case service_on_device fl dev of
              None \<Rightarrow> []
            | Some p \<Rightarrow> if sv_container p \<noteq> [] \<and> sv_container p \<noteq> cid then [CallStop dev (sv_container p)] else []))"

lemma persist_called [simp]:
  "fst (persist_deploy_result hw q cid (called cs fl)) = fst (persist_deploy_result hw q cid fl)"
  "fl_config (snd (persist_deploy_result hw q cid (called cs fl))) = fl_config (snd (persist_deploy_result hw q cid fl))"
  "fl_saved (snd (persist_deploy_result hw q cid (called cs fl))) = fl_saved (snd (persist_deploy_result hw q cid fl))"
  by (simp_all add: persist_deploy_result_def Let_def split_beta)

lemma cutover_state:
  "fl_calls (snd (cutover hw dev report (service_on_device fl dev) cid r (called cs fl))) =
     fl_calls fl @ cs @ stops hw fl dev (rp_config r) cid"
  "fl_config (snd (cutover hw dev report prev cid r (called cs fl))) =
     fl_config (snd (persist_deploy_result hw (recipe_deploy_request (rp_config r) dev) cid fl))"
  by (simp_all add: cutover_def stops_def Let_def split_beta split: option.split)

lemma device_agent_token_called [simp]: "device_agent_token (called cs fl) dev = device_agent_token fl dev"
  by (simp add: device_agent_token_def)

definition answer :: "outside \<Rightarrow> fleet \<Rightarrow> string \<Rightarrow> string \<Rightarrow> string + service_test option" where
  "answer hw fl dev cid = hw_test hw dev cid (device_agent_token fl dev)"

lemma swap_trial_state:
  "fl_calls (snd (swap_trial hw dev report (service_on_device fl dev) cid r (called cs fl))) =
     fl_calls fl @ cs @ CallTest dev cid #
       (if test_ready (answer hw fl dev cid) then stops hw fl dev (rp_config r) cid else [CallRemove dev cid])"
  "fl_config (snd (swap_trial hw dev report prev cid r (called cs fl))) =
     (if test_ready (answer hw fl dev cid)
      then fl_config (snd (persist_deploy_result hw (recipe_deploy_request (rp_config r) dev) cid fl))
      else fl_config fl)"
  by (simp_all add: swap_trial_def answer_def cutover_state Let_def split_beta split: option.split)

text \<open>
  C38: a swap acts on a device only for a recipe that is validated on exactly this device,
  and, unless the caller acknowledged it, never on a device that serves the caller's own
  model or is a control device in use. It deploys that recipe's configuration once; when
  the probe fails it removes only the new container and keeps the configuration; when the
  probe passes the new service is written before the previous container is stopped, and no
  previous container is ever removed.
\<close>

theorem swap_calls:
  "case snd (swap_recipe hw (Inr q) fl) of fl' \<Rightarrow>
     fl_calls fl' = fl_calls fl \<and> fl_config fl' = fl_config fl \<or>
     (\<exists>r cs. find_recipe fl (trim_space (sq_recipe q)) = Inr r \<and>
        rp_status r = status_validated \<and> trim_space (sq_device q) \<in> set (rp_validated_on r) \<and>
        (self_hosted_collision fl (trim_space (sq_device q)) (sq_backing_model q) = None \<or> sq_allow_self q) \<and>
        fl_calls fl' = fl_calls fl @ CallDeploy (recipe_deploy_request (rp_config r) (trim_space (sq_device q))) # cs \<and>
        (case hw_deploy hw (recipe_deploy_request (rp_config r) (trim_space (sq_device q))) of
           Inl e \<Rightarrow> cs = [] \<and> fl_config fl' = fl_config fl
         | Inr cid \<Rightarrow>
             if test_ready (answer hw fl (trim_space (sq_device q)) cid)
             then cs = CallTest (trim_space (sq_device q)) cid # stops hw fl (trim_space (sq_device q)) (rp_config r) cid \<and>
                  fl_config fl' = fl_config (snd (persist_deploy_result hw
                    (recipe_deploy_request (rp_config r) (trim_space (sq_device q))) cid fl))
             else cs = [CallTest (trim_space (sq_device q)) cid, CallRemove (trim_space (sq_device q)) cid] \<and>
                  fl_config fl' = fl_config fl))"
proof (cases "find_recipe fl (trim_space (sq_recipe q))")
  case (Inr r)
  show ?thesis
    by (cases "hw_deploy hw (recipe_deploy_request (rp_config r) (trim_space (sq_device q)))")
      (simp_all add: swap_recipe_def Inr Let_def swap_trial_state)
qed (simp add: swap_recipe_def Let_def)

lemma swap_config:
  assumes "find_recipe fl (trim_space (sq_recipe q)) = Inr r"
  shows "fl_config (snd (swap_recipe hw (Inr q) fl)) = fl_config fl \<or>
    (\<exists>cid. fl_config (snd (swap_recipe hw (Inr q) fl)) =
      fl_config (snd (persist_deploy_result hw (recipe_deploy_request (rp_config r) (trim_space (sq_device q))) cid fl)))"
  by (cases "hw_deploy hw (recipe_deploy_request (rp_config r) (trim_space (sq_device q)))")
    (simp_all add: swap_recipe_def assms Let_def swap_trial_state, blast)

section \<open>Where the promises end\<close>

lemma put_no_fault:
  "hw_put hw = (\<lambda>_. None) \<Longrightarrow> fl_store fl = Some s \<Longrightarrow>
   fleet_put hw r fl = (None, fl\<lparr>fl_store := Some \<lparr>rs_recipes = upsert_by rp_id r (rs_recipes s),
                                            rs_disk = Some (upsert_by rp_id r (rs_recipes s))\<rparr>\<rparr>)"
  by (simp add: fleet_put_def put_recipe_def write_recipes_def Let_def)

lemma find_recipe_store: "find_recipe fl i = Inr r \<Longrightarrow> \<exists>s. fl_store fl = Some s"
  by (auto simp: find_recipe_def split: option.splits)

lemma find_after_put:
  assumes "hw_put hw = (\<lambda>_. None)" and "find_recipe fl i = Inr r" and "rp_id x = rp_id r"
  shows "fst (fleet_put hw x fl) = None \<and> find_recipe (snd (fleet_put hw x fl)) i = Inr x"
proof -
  obtain s where s: "fl_store fl = Some s" using find_recipe_store [OF assms(2)] by blast
  have "rp_id r = i" using find_recipe_mem [OF assms(2)] by simp
  with put_no_fault [OF assms(1) s] assms(3) show ?thesis
    by (simp add: find_recipe_def get_recipe_def upsert_by_get)
qed

lemma fleet_put_reads [simp]:
  "control_device (snd (fleet_put hw x fl)) dev = control_device fl dev"
  "service_on_device (snd (fleet_put hw x fl)) dev = service_on_device fl dev"
  by (simp_all add: control_device_def service_on_device_def)

lemma fleet_put_collision [simp]:
  "self_hosted_collision (snd (fleet_put hw x fl)) dev backing = self_hosted_collision fl dev backing"
  by (simp add: self_hosted_collision_def Let_def)

text \<open>
  C40: a patch replaces the configuration of a validated recipe and keeps its validation:
  the next swap deploys a configuration that no probe has seen on that device, whatever it
  is, as long as it passes the ingest gate.
\<close>

theorem patched_recipe_swapped_unverified:
  assumes "find_recipe fl i = Inr r" and "rp_status r = status_validated" and "dev \<in> set (rp_validated_on r)"
    and "accepted c (rp_provenance r) (rp_proposed_by r)" and "hw_put hw = (\<lambda>_. None)"
    and "trim_space i = i" "i \<noteq> []" "trim_space dev = dev" "dev \<noteq> []"
    and "self_hosted_collision fl dev backing = None" and "hw_aggregator hw"
  shows "\<exists>cs. fl_calls (serve_all
      [(hw, Patch i (Inr \<lparr>pt_config = Some c, pt_provenance = None, pt_supersedes = None\<rparr>)),
       (hw, Swap (Inr \<lparr>sq_recipe = i, sq_device = dev, sq_backing_model = backing, sq_allow_self = False\<rparr>))] fl) =
    fl_calls fl @ CallDeploy (recipe_deploy_request c dev) # cs"
proof -
  let ?q = "\<lparr>pt_config = Some c, pt_provenance = None, pt_supersedes = None\<rparr>"
  let ?x = "next_version hw ?q r"
  let ?s = "\<lparr>sq_recipe = i, sq_device = dev, sq_backing_model = backing, sq_allow_self = False\<rparr>"
  define fl1 where "fl1 = snd (fleet_put hw ?x fl)"
  have x: "rp_id ?x = rp_id r" "rp_config ?x = c" "rp_status ?x = status_validated"
    "rp_validated_on ?x = rp_validated_on r" "rp_provenance ?x = rp_provenance r" "rp_proposed_by ?x = rp_proposed_by r"
    using assms(2) by (simp_all add: next_version_def patched_def Let_def)
  have put: "fst (fleet_put hw ?x fl) = None" and found: "find_recipe fl1 i = Inr ?x"
    using find_after_put [OF assms(5,1) x(1)] by (simp_all add: fl1_def)
  have "snd (patch_recipe hw i (Inr ?q) fl) = fl1"
    using assms(1,4) put
    by (simp add: patch_recipe_def Let_def validate_ok fl1_def split_beta patched_def split: option.split)
  moreover have "self_hosted_collision fl1 dev backing = None"
    using assms(10) by (simp add: fl1_def)
  moreover have "fl_calls fl1 = fl_calls fl" by (simp add: fl1_def)
  ultimately show ?thesis
    using assms(3,6-9,11) x found
    by (cases "hw_deploy hw (recipe_deploy_request c dev)")
      (simp_all add: swap_recipe_def Let_def swap_trial_state)
qed

definition sample_provenance :: provenance where
  "sample_provenance = \<lparr>pv_agent = ''a'', pv_source = [], pv_source_url = ''u'', pv_research_note = [],
     pv_reported_on = []\<rparr>"

definition sample_recipe_config :: "string \<Rightarrow> recipe_config" where
  "sample_recipe_config model = seed_config model ''r/i@sha256:0'' [] 16 1 ''BF16''"

definition sample_recipe :: recipe where
  "sample_recipe = (seed_recipe ''rec'' (sample_recipe_config ''m'') sample_provenance)
     \<lparr>rp_status := status_validated, rp_validated_on := [''spark'']\<rparr>"

definition sample_outside :: outside where
  "sample_outside = \<lparr>hw_time = ''t'', hw_random = None, hw_nanos = 0, hw_aggregator = True,
     hw_cached = (\<lambda>d. Some \<lparr>cm_online = False, cm_gpus = Some [\<lparr>gp_name = ''NVIDIA GB10'',
       gp_memory_type = ''unified'', gp_vram_mb = 122880\<rparr>]\<rparr>),
     hw_port = (\<lambda>d. 0), hw_direct = (\<lambda>d. Inl ''down''), hw_deploy = (\<lambda>d. Inr ''c-2''),
     hw_test = (\<lambda>d c k. Inr (Some \<lparr>st_ok = True, st_message = [], st_model = ''m'', st_metrics_ready = True\<rparr>)),
     hw_put = (\<lambda>_. None), hw_save = SaveOk\<rparr>"

definition sample_fleet :: fleet where
  "sample_fleet = \<lparr>fl_store = Some \<lparr>rs_recipes = [sample_recipe], rs_disk = Some [sample_recipe]\<rparr>,
     fl_config = default_config, fl_saved = \<lparr>sd_target = NotThere, sd_temp = NotThere\<rparr>, fl_calls = []\<rparr>"

lemma sample_found: "find_recipe sample_fleet ''rec'' = Inr sample_recipe"
  by (simp add: find_recipe_def sample_fleet_def get_recipe_def sample_recipe_def seed_recipe_def)

lemma sample_accepted: "accepted (sample_recipe_config ''n'') sample_provenance ''hermes''"
  unfolding sample_recipe_config_def
  by (rule seed_config_accepted [OF refl _ _ refl, where e = "CHR ''u''"])
    (simp_all add: sample_provenance_def is_digest_pinned_def has_prefix_Cons ascii_space_bits)

lemma trimmed_words: "trim_space ''rec'' = ''rec''" "trim_space ''spark'' = ''spark''" "trim_space ''m'' = ''m''"
  by code_simp+

theorem patched_recipe_swapped_unverified_witness:
  "\<exists>cs. fl_calls (serve_all
      [(sample_outside, Patch ''rec'' (Inr \<lparr>pt_config = Some (sample_recipe_config ''n''),
         pt_provenance = None, pt_supersedes = None\<rparr>)),
       (sample_outside, Swap (Inr \<lparr>sq_recipe = ''rec'', sq_device = ''spark'', sq_backing_model = [],
         sq_allow_self = False\<rparr>))] sample_fleet) =
    fl_calls sample_fleet @ CallDeploy (recipe_deploy_request (sample_recipe_config ''n'') ''spark'') # cs"
proof (rule patched_recipe_swapped_unverified [OF sample_found])
  show "accepted (sample_recipe_config ''n'') (rp_provenance sample_recipe) (rp_proposed_by sample_recipe)"
    using sample_accepted by (simp add: sample_recipe_def seed_recipe_def)
  show "self_hosted_collision sample_fleet ''spark'' [] = None"
    by (simp add: self_hosted_collision_def sample_fleet_def default_config_def slice_def control_device_def
        find_device_def trim_space_def trim_left_plain to_lower_def)
qed (simp_all add: sample_recipe_def sample_outside_def trimmed_words)

text \<open>
  The hardware gate of a validation does not ask whether the device answers: the
  metrics cached before it went offline promote the recipe to validated on it.
\<close>

lemma offline_device_validates:
  assumes "find_recipe fl i = Inr r" and "dev \<noteq> []" and "hw_aggregator hw"
    and "hw_cached hw dev = Some \<lparr>cm_online = False, cm_gpus = Some gs\<rparr>" and "gs \<noteq> []"
    and "\<not> too_little_vram (rp_config r) (smallest_vram gs)" "\<not> too_few_gpus (rp_config r) (length gs)"
    and "hw_put hw = (\<lambda>_. None)"
  shows "\<exists>r'. find_recipe (snd (validate_recipe hw i dev fl)) i = Inr r' \<and>
    rp_status r' = status_validated \<and> dev \<in> set (rp_validated_on r')"
proof -
  have "fetch_agent_gpus hw fl dev = Inr gs"
    using assms(3-5) by (cases gs) (simp_all add: fetch_agent_gpus_def)
  then have "live_gpus hw fl dev = (gs, [])" using assms(2) by (simp add: live_gpus_def)
  moreover have "gate_reasons (rp_config r) gs = []" using assms(6,7) by (simp add: gate_reasons_Nil)
  ultimately show ?thesis
    using find_after_put [OF assms(8,1), of "promoted_recipe hw dev r"] assms(1,5)
    by (simp add: validate_recipe_def Let_def split_beta promoted_recipe_def split: option.split)
qed

lemma offline_device_validates_witness:
  "\<exists>r'. find_recipe (snd (validate_recipe sample_outside ''rec'' ''spark'' sample_fleet)) ''rec'' = Inr r' \<and>
    rp_status r' = status_validated \<and> ''spark'' \<in> set (rp_validated_on r')"
  by (rule offline_device_validates [OF sample_found,
        where gs = "[\<lparr>gp_name = ''NVIDIA GB10'', gp_memory_type = ''unified'', gp_vram_mb = 122880\<rparr>]"])
    (simp_all add: sample_outside_def sample_recipe_def seed_recipe_def sample_recipe_config_def seed_config_def
      too_little_vram_def too_few_gpus_def smallest_vram_def vram_gb_def)

text \<open>
  A swap onto a device that already runs a service adds a second entry for the device
  and leaves the old one first: the service the next swap takes for the previous one, and
  stops, is again the old one, and the container of this swap keeps running.
\<close>

lemma swap_keeps_old_service_first:
  assumes "find_recipe fl (trim_space (sq_recipe q)) = Inr r"
    and "service_on_device fl (trim_space (sq_device q)) = Some old"
    and "trim_space (dr_name (recipe_deploy_request (rp_config r) dev)) = name" "name \<noteq> []"
    and "list_all (\<lambda>s. sv_id s \<noteq> name) (slice (cf_services (fl_config fl)))"
  shows "service_on_device (snd (swap_recipe hw (Inr q) fl)) (trim_space (sq_device q)) = Some old"
proof -
  have absent: "key x \<notin> set (map key xs) \<Longrightarrow> upsert_unique key x xs = xs @ [x]" for key :: "service \<Rightarrow> string" and x xs
    by (induction xs) auto
  have first: "find P xs = Some y \<Longrightarrow> find P (xs @ ys) = Some y" for P :: "service \<Rightarrow> bool" and xs y ys
    by (induction xs) auto
  let ?dev = "trim_space (sq_device q)"
  have "sv_id (deployed_service (recipe_deploy_request (rp_config r) ?dev) cid) = name" for cid
    using assms(3,4) by (simp add: deployed_service_def recipe_deploy_request_def)
  then have "upsert_unique sv_id (deployed_service (recipe_deploy_request (rp_config r) ?dev) cid)
      (slice (cf_services (fl_config fl))) =
    slice (cf_services (fl_config fl)) @ [deployed_service (recipe_deploy_request (rp_config r) ?dev) cid]" for cid
    using assms(5) by (intro absent) (auto simp: list_all_iff)
  then have "service_on_device (snd (persist_deploy_result hw (recipe_deploy_request (rp_config r) ?dev) cid fl)) ?dev = Some old" for cid
    using assms(2)
    by (simp add: service_on_device_def persist_deploy_result_def Let_def split_beta slice_updates upsert_slice_eq first)
  with swap_config [OF assms(1), of hw] assms(2) show ?thesis
    by (auto simp: service_on_device_def)
qed

definition sample_service :: service where
  "sample_service = \<lparr>sv_id = ''old'', sv_device = ''spark'', sv_type = ''vllm'', sv_image = [], sv_model = ''o'',
     sv_gguf_variant = [], sv_gguf_files = [], sv_port = 0, sv_gpu_ids = [], sv_extra_args = [], sv_env = [],
     sv_volumes = [], sv_plugins = [], sv_runtime = runtime_zero, sv_container = ''c-1''\<rparr>"

definition sample_busy :: fleet where
  "sample_busy = sample_fleet\<lparr>fl_config := default_config\<lparr>cf_services := Some [sample_service]\<rparr>\<rparr>"

lemma swap_keeps_old_service_first_witness:
  "service_on_device (snd (swap_recipe sample_outside
     (Inr \<lparr>sq_recipe = ''rec'', sq_device = ''spark'', sq_backing_model = [], sq_allow_self = True\<rparr>) sample_busy))
     (trim_space ''spark'') = Some sample_service"
proof -
  let ?q = "\<lparr>sq_recipe = ''rec'', sq_device = ''spark'', sq_backing_model = [], sq_allow_self = True\<rparr>"
  have a: "find_recipe sample_busy (trim_space (sq_recipe ?q)) = Inr sample_recipe"
    using sample_found by (simp add: trimmed_words find_recipe_def sample_busy_def)
  have b: "service_on_device sample_busy (trim_space (sq_device ?q)) = Some sample_service"
    by (simp add: trimmed_words service_on_device_def sample_busy_def sample_service_def slice_def)
  have c: "trim_space (dr_name (recipe_deploy_request (rp_config sample_recipe) [])) = ''recipe-verify-m''"
    by (simp add: recipe_deploy_request_def sample_recipe_def seed_recipe_def sample_recipe_config_def
        seed_config_def) code_simp
  have d: "list_all (\<lambda>s. sv_id s \<noteq> ''recipe-verify-m'') (slice (cf_services (fl_config sample_busy)))"
    by (simp add: sample_busy_def sample_service_def slice_def)
  have "service_on_device (snd (swap_recipe sample_outside (Inr ?q) sample_busy))
      (trim_space (sq_device ?q)) = Some sample_service"
    by (rule swap_keeps_old_service_first [OF a b c _ d]) simp
  then show ?thesis by simp
qed

text \<open>
  What a swap that answers success writes to the history of the recipe: nothing at all
  when the last entry is a success (of an earlier swap, perhaps of another device), and a
  failure followed by a success when the new service could not be saved.
\<close>

lemma cutover_history:
  "map sw_ok (rp_swaps (fst (cutover hw dev report prev cid r fl))) =
     map sw_ok (rp_swaps r) @
     (case fst (persist_deploy_result hw (recipe_deploy_request (rp_config r) dev) cid fl) of
        Some e \<Rightarrow> [False, True]
      | None \<Rightarrow> if rp_swaps r \<noteq> [] \<and> sw_ok (last (rp_swaps r)) then [] else [True])"
  by (simp add: cutover_def Let_def split_beta add_swap_def swap_note_def split: option.split)

text \<open>
  The target check of a verification compares the profile names of the catalog with the
  name a GPU reports as substrings: a recipe for RTX 5090 cards is refused on an RTX 5090,
  and one for 80 GB H100 cards on an 80 GB H100.
\<close>

lemma target_names_never_match:
  "device_profile_from_gpu [] ''NVIDIA GeForce RTX 5090'' = device_rtx5090 \<and>
   wrong_target (seed_config m img [device_rtx5090] v n quant)
     \<lparr>gp_name = ''NVIDIA GeForce RTX 5090'', gp_memory_type = mt, gp_vram_mb = mb\<rparr> \<and>
   device_profile_from_gpu [] ''NVIDIA H100 80GB HBM3'' = device_h100_80 \<and>
   wrong_target (seed_config m img [device_h100_80] v n quant)
     \<lparr>gp_name = ''NVIDIA H100 80GB HBM3'', gp_memory_type = mt, gp_vram_mb = mb\<rparr>"
proof -
  have "device_profile_from_gpu [] ''NVIDIA GeForce RTX 5090'' = device_rtx5090"
    "device_profile_from_gpu [] ''NVIDIA H100 80GB HBM3'' = device_h100_80"
    "\<not> target_matches (to_lower ''NVIDIA GeForce RTX 5090'') device_rtx5090"
    "\<not> target_matches (to_lower ''NVIDIA H100 80GB HBM3'') device_h100_80"
    "to_lower ''NVIDIA GeForce RTX 5090'' \<noteq> []" "to_lower ''NVIDIA H100 80GB HBM3'' \<noteq> []"
    by code_simp+
  then show ?thesis by (simp add: wrong_target_def seed_config_def)
qed

end
