(* ===== verification/Docker_Args.thy ===== *)
theory Docker_Args
  imports Launch_Auth Go_Path
begin

text \<open>
  The argument vector of \<^verbatim>\<open>docker run\<close>, \<^verbatim>\<open>internal/agent/docker.go\<close>: the checks of
  \<^verbatim>\<open>validateContainerRuntime\<close>, the rewriting of a request's extra arguments and ports for
  each inference server, the plugins of \<^verbatim>\<open>internal/plugins/catalog.go\<close>, the GGUF files of
  \<^verbatim>\<open>gguf.go\<close>, and \<^verbatim>\<open>buildDockerRunArgs\<close>. A request's maps are options (nil or made).
  Downloads and directory creation answer with an error text or succeed.
\<close>

section \<open>Maps and flags\<close>

definition made :: "gomap option \<Rightarrow> gomap" where
  "made m = (case m of None \<Rightarrow> [] | Some kvs \<Rightarrow> kvs)"

definition sorted_map_keys :: "gomap \<Rightarrow> string list" where
  "sorted_map_keys m = sort (map fst m)"

definition has_flag :: "string \<Rightarrow> string \<Rightarrow> bool" where
  "has_flag token flag \<longleftrightarrow> token = flag \<or> has_prefix token (flag @ ''='')"

definition append_arg :: "string \<Rightarrow> string \<Rightarrow> string" where
  "append_arg extra arg = (if trim_space extra = [] then arg else extra @ '' '' @ arg)"

definition with_host_arg :: "string \<Rightarrow> string \<Rightarrow> string \<Rightarrow> string" where
  "with_host_arg extra flag value =
     (if list_ex (\<lambda>t. has_flag t flag) (str_fields extra) then extra
      else (let host = flag @ '' '' @ value
            in if trim_space extra = [] then host else extra @ '' '' @ host))"

definition with_vllm_tokenizer_arg :: "string \<Rightarrow> string \<Rightarrow> string" where
  "with_vllm_tokenizer_arg extra repo =
     (if repo = [] then extra
      else if list_ex (\<lambda>t. has_flag t ''--tokenizer'') (str_fields extra) then extra
      else append_arg extra (''--tokenizer '' @ repo))"

definition with_vllm_model_arg :: "string \<Rightarrow> string \<Rightarrow> string" where
  "with_vllm_model_arg extra model =
     (if model = [] then extra
      else if list_ex (\<lambda>t. has_flag t ''--model'') (str_fields extra) then extra
      else if trim_space extra = [] then ''--model '' @ model
      else ''--model '' @ model @ '' '' @ extra)"

definition serve_prefix :: "string list \<Rightarrow> bool" where
  "serve_prefix tokens \<longleftrightarrow> 2 \<le> length tokens \<and> tokens ! 0 = ''sglang'' \<and> tokens ! 1 = ''serve''"

definition with_sglang_serve_args :: "string \<Rightarrow> string \<Rightarrow> string" where
  "with_sglang_serve_args extra model =
     (let tokens = str_fields extra;
          has_model = list_ex (\<lambda>t. has_flag t ''--model-path'' \<or> has_flag t ''--model'') tokens;
          trimmed = trim_space extra;
          args = (if serve_prefix tokens then trimmed else append_arg ''sglang serve'' trimmed)
      in if model = [] \<or> has_model then args
         else (let tokens = str_fields args
               in if serve_prefix tokens
                  then append_arg (''sglang serve --model-path '' @ model) (join_with '' '' (drop 2 tokens))
                  else append_arg args (''--model-path '' @ model)))"

definition with_llama_model_arg :: "string \<Rightarrow> string \<Rightarrow> string" where
  "with_llama_model_arg extra model =
     (if model = [] then extra
      else if list_ex (\<lambda>t. has_flag t ''-m'' \<or> has_flag t ''--model'') (str_fields extra) then extra
      else (let model_path = (if has_prefix model ''/'' then model else path_join [''/models'', path_base model])
            in if trim_space extra = [] then ''-m '' @ model_path
               else ''-m '' @ model_path @ '' '' @ extra))"

definition infer_tool_call_parser :: "string \<Rightarrow> string" where
  "infer_tool_call_parser model =
     (let m = to_lower model
      in if str_contains m ''llama'' then ''llama3_json''
         else if str_contains m ''mistral'' \<or> str_contains m ''mixtral'' then ''mistral''
         else if str_contains m ''jamba'' then ''jamba''
         else if str_contains m ''internlm'' then ''internlm''
         else if str_contains m ''granite'' then ''granite''
         else if str_contains m ''qwen3-coder'' \<or> str_contains m ''qwen3coder'' then ''qwen3_xml''
         else if str_contains m ''qwen3.5'' \<or> str_contains m ''qwen3_5'' then ''qwen3_coder''
         else if str_contains m ''qwen'' \<or> str_contains m ''hermes'' then ''hermes''
         else ''hermes'')"

definition with_vllm_tool_call_args :: "string \<Rightarrow> string \<Rightarrow> string" where
  "with_vllm_tool_call_args extra model =
     (let tokens = str_fields extra;
          has_auto = list_ex (\<lambda>t. has_flag t ''--enable-auto-tool-choice'') tokens;
          has_parser = list_ex (\<lambda>t. has_flag t ''--tool-call-parser'') tokens;
          extra1 = (if has_auto then extra else append_arg extra ''--enable-auto-tool-choice'')
      in if has_parser then extra1
         else append_arg extra1 (''--tool-call-parser '' @ infer_tool_call_parser model))"

section \<open>Images, volumes and ports\<close>

definition is_vllm_image :: "string \<Rightarrow> bool" where
  "is_vllm_image img = str_contains (to_lower img) ''vllm''"

definition is_sglang_image :: "string \<Rightarrow> bool" where
  "is_sglang_image img = str_contains (to_lower img) ''sglang''"

definition is_tensorfold_image :: "string \<Rightarrow> bool" where
  "is_tensorfold_image img = str_contains (to_lower img) ''tensorfold''"

definition is_llamacpp_image :: "string \<Rightarrow> bool" where
  "is_llamacpp_image img = str_contains (to_lower img) ''llama.cpp''"

definition is_comfyui_image :: "string \<Rightarrow> bool" where
  "is_comfyui_image img \<longleftrightarrow> str_contains (to_lower img) ''comfyui'' \<or> str_contains (to_lower img) ''comfy-ui''"

text \<open>The three \<^verbatim>\<open>ensure...Volume\<close> functions add one mount unless its target is there.\<close>

definition ensure_mount :: "string \<Rightarrow> string \<Rightarrow> gomap \<Rightarrow> gomap" where
  "ensure_mount host target volumes =
     (if list_ex (\<lambda>(h, t). t = target) volumes then volumes else map_put host target volumes)"

definition gguf_host_dir :: string where "gguf_host_dir = ''/var/lib/yokai/models''"
definition gguf_container_dir :: string where "gguf_container_dir = ''/models''"

definition ensure_models_volume :: "gomap \<Rightarrow> gomap" where
  "ensure_models_volume = ensure_mount ''/var/lib/yokai/models'' ''/models''"

definition ensure_hf_cache_volume :: "gomap \<Rightarrow> gomap" where
  "ensure_hf_cache_volume = ensure_mount ''/var/lib/yokai/huggingface'' ''/root/.cache/huggingface''"

definition ensure_gguf_volume :: "gomap \<Rightarrow> gomap" where
  "ensure_gguf_volume = ensure_mount gguf_host_dir gguf_container_dir"

text \<open>\<^verbatim>\<open>normalizeServicePorts\<close>: the map is visited in the order of the list.\<close>

definition normalize_port :: "string \<Rightarrow> gomap \<Rightarrow> string \<times> string \<Rightarrow> gomap" where
  "normalize_port service out p =
     (case p of (internal, external) \<Rightarrow>
        if internal = service then map_put internal external out
        else if internal = external then map_put service external out
        else map_put internal external out)"

definition normalize_service_ports :: "gomap \<Rightarrow> string \<Rightarrow> gomap" where
  "normalize_service_ports ports service =
     (if ports = [] then [(service, service)] else foldl (normalize_port service) [] ports)"

section \<open>The runtime checks\<close>

definition capability_ok :: "string \<Rightarrow> bool" where
  "capability_ok s =
     (case s of [] \<Rightarrow> False
      | c # cs \<Rightarrow> (is_letter c \<and> upper_char c = c) \<and>
          list_all (\<lambda>d. (is_letter d \<and> upper_char d = d) \<or> is_digit d \<or> d = CHR ''_'') cs)"

definition contains_any :: "string \<Rightarrow> char list \<Rightarrow> bool" where
  "contains_any s cs = list_ex (\<lambda>c. c \<in> set cs) s"

definition device_ok :: "string \<Rightarrow> bool" where
  "device_ok device = has_prefix (path_clean (hd (split_char CHR '':'' device))) ''/dev/''"

definition label_ok :: "string \<times> string \<Rightarrow> bool" where
  "label_ok kv \<longleftrightarrow> trim_space (fst kv) \<noteq> [] \<and> \<not> contains_any (fst kv @ snd kv) [CHR 0x0D, CHR 0x0A]"

definition restart_policy_ok :: "string \<Rightarrow> bool" where
  "restart_policy_ok p \<longleftrightarrow> p = [] \<or> p = ''no'' \<or> p = ''unless-stopped''"

definition validate_container_runtime :: "container_request \<Rightarrow> gerror option" where
  "validate_container_runtime r =
     (if lr_network_mode r \<noteq> [] \<and> lr_network_mode r \<noteq> ''host''
        then Some (Errorf (''unsupported network mode '' @ go_quote (lr_network_mode r)))
      else (case find (\<lambda>d. \<not> device_ok d) (lr_devices r) of
        Some d \<Rightarrow> Some (Errorf (''device mount must be under /dev: '' @ go_quote d))
      | None \<Rightarrow>
      (case find (\<lambda>c. \<not> capability_ok c) (lr_cap_add r) of
        Some c \<Rightarrow> Some (Errorf (''invalid Linux capability '' @ go_quote c))
      | None \<Rightarrow>
      if \<not> restart_policy_ok (rt_restart_policy (lr_runtime r))
        then Some (Errorf (''unsupported restart policy '' @ go_quote (rt_restart_policy (lr_runtime r))))
      else if list_ex (\<lambda>a. a = [] \<or> contains_any a [CHR 0x00, CHR 0x0D, CHR 0x0A]) (lr_args r)
        then Some (Errorf ''invalid structured container argument'')
      else if lr_entrypoint r \<noteq> [] \<and>
              (lr_entrypoint r \<noteq> ''python3'' \<or> map_get (lr_labels r) label_bkc_id \<noteq> qwen38_dual_id)
        then Some (Errorf ''container entrypoint override is reserved for the pinned Qwen3.8 runtime bootstrap'')
      else if list_ex (\<lambda>kv. \<not> label_ok kv) (lr_labels r)
        then Some (Errorf ''invalid container label'')
      else None)))"

section \<open>The argument vector\<close>

text \<open>One option per entry of a map, in the order of its sorted keys.\<close>

definition map_options :: "string \<Rightarrow> (string \<Rightarrow> string \<Rightarrow> string) \<Rightarrow> gomap \<Rightarrow> string list" where
  "map_options flag text m = concat (map (\<lambda>k. [flag, text k (map_get m k)]) (sorted_map_keys m))"

definition key_value :: "string \<Rightarrow> string \<Rightarrow> string" where
  "key_value k v = k @ ''='' @ v"

definition gpu_options :: "string \<Rightarrow> string list" where
  "gpu_options ids =
     (if ids = [] then [] else if ids = ''all'' then [''--gpus'', ''all'']
      else [''--gpus'', [CHR 0x22] @ ''device='' @ ids @ [CHR 0x22]])"

definition opt_if :: "string \<Rightarrow> string \<Rightarrow> string list" where
  "opt_if flag value = (if value = [] then [] else [flag, value])"

definition docker_options :: "container_request \<Rightarrow> string \<Rightarrow> string list" where
  "docker_options r name =
     [''run'', ''-d'', ''--name'', name] @
     opt_if ''--network'' (lr_network_mode r) @
     (if lr_network_mode r = ''host'' then []
      else map_options ''-p'' (\<lambda>internal external. ''0.0.0.0:'' @ external @ '':'' @ internal) (made (lr_ports r))) @
     map_options ''--label'' key_value (lr_labels r) @
     map_options ''-e'' key_value (made (lr_env r)) @
     gpu_options (lr_gpu_ids r) @
     map_options ''-v'' (\<lambda>host target. host @ '':'' @ target) (made (lr_volumes r)) @
     concat (map (\<lambda>d. [''--device'', d]) (lr_devices r)) @
     concat (map (\<lambda>c. [''--cap-add'', c]) (lr_cap_add r)) @
     opt_if ''--ipc'' (rt_ipc_mode (lr_runtime r)) @
     opt_if ''--shm-size'' (rt_shm_size (lr_runtime r)) @
     map_options ''--ulimit'' key_value (rt_ulimits (lr_runtime r)) @
     [''--restart'', if rt_restart_policy (lr_runtime r) = [] then ''unless-stopped''
                     else rt_restart_policy (lr_runtime r)] @
     opt_if ''--entrypoint'' (lr_entrypoint r)"

definition build_run_args :: "container_request \<Rightarrow> string \<Rightarrow> string list" where
  "build_run_args r name =
     docker_options r name @ [lr_image r] @
     (if lr_extra_args r = [] then [] else str_fields (lr_extra_args r)) @ lr_args r"

section \<open>Plugins\<close>

record plugin =
  pl_id :: string
  pl_name :: string
  pl_workload :: string
  pl_assets :: "(string \<times> string) list"
  pl_mounts :: "(string \<times> string) list"
  pl_extra_args :: string
  pl_env :: gomap
  pl_runtime :: runtime_options

definition plugin_catalog :: "plugin list" where
  "plugin_catalog =
     [\<lparr>pl_id = ''vllm-reasoning-parser-super-v3'', pl_name = ''Nemotron Super V3 Reasoning Parser'',
       pl_workload = ''vllm'',
       pl_assets = [(''super_v3_reasoning_parser.py'', ''https://huggingface.co/nvidia/NVIDIA-Nemotron-3-Super-120B-A12B-NVFP4/raw/main/super_v3_reasoning_parser.py'')],
       pl_mounts = [(''super_v3_reasoning_parser.py'', ''/plugins/super_v3_reasoning_parser.py'')],
       pl_extra_args = ''--reasoning-parser-plugin /plugins/super_v3_reasoning_parser.py --reasoning-parser super_v3 --enable-auto-tool-choice --tool-call-parser qwen3_coder'',
       pl_env = [], pl_runtime = runtime_zero\<rparr>]"

definition lookup_plugin :: "string \<Rightarrow> plugin option" where
  "lookup_plugin i = find (\<lambda>p. equal_fold (pl_id p) (trim_space i)) plugin_catalog"

text \<open>\<^verbatim>\<open>rootDir\<close>: the variable, whether the agent is root, its home, the temporary directory.\<close>

definition plugin_root :: "string \<Rightarrow> bool \<Rightarrow> string option \<Rightarrow> string \<Rightarrow> string" where
  "plugin_root override euid_zero home tmp =
     (if trim_space override \<noteq> [] then trim_space override
      else if euid_zero then ''/var/lib/yokai/plugins''
      else (case home of
          Some h \<Rightarrow> if h = [] then path_join [tmp, ''yokai-plugins'']
                    else path_join [h, ''.local'', ''share'', ''yokai'', ''plugins'']
        | None \<Rightarrow> path_join [tmp, ''yokai-plugins'']))"

definition asset_host_path :: "string \<Rightarrow> string \<Rightarrow> string \<Rightarrow> string" where
  "asset_host_path pdir plugin_id file = path_join [pdir, plugin_id, file]"

text \<open>What the file system and the network answer while one asset is fetched.\<close>

record asset_answers =
  as_stat_size :: "int option"
  as_mkdir :: "string option"
  as_get :: "string + int"
  as_body :: "string + string"
  as_write :: "string option"

text \<open>The written file, if any, with the error.\<close>

definition ensure_plugin_asset :: "asset_answers \<Rightarrow> string \<Rightarrow> string \<Rightarrow> gerror option \<times> string option" where
  "ensure_plugin_asset a host_path url =
     (if (case as_stat_size a of Some n \<Rightarrow> n > 0 | None \<Rightarrow> False) then (None, None)
      else (case as_mkdir a of
        Some e \<Rightarrow> (Some (Wrapf ''creating plugin dir: '' (Errorf e) []), None)
      | None \<Rightarrow>
      (case as_get a of
        Inl e \<Rightarrow> (Some (Wrapf (''downloading plugin asset '' @ url @ '': '') (Errorf e) []), None)
      | Inr status \<Rightarrow>
      if status \<noteq> 200
        then (Some (Errorf (''downloading plugin asset '' @ url @ '': status '' @ itoa status)), None)
      else (case as_body a of
        Inl e \<Rightarrow> (Some (Wrapf (''reading plugin asset '' @ url @ '': '') (Errorf e) []), None)
      | Inr data \<Rightarrow>
      if data = [] then (Some (Errorf (''downloaded empty plugin asset '' @ url)), None)
      else (case as_write a of
        Some e \<Rightarrow> (Some (Wrapf (''writing plugin asset '' @ host_path @ '': '') (Errorf e) []), None)
      | None \<Rightarrow> (None, Some data))))))"

definition keep_set :: "string \<Rightarrow> string \<Rightarrow> string" where
  "keep_set old new = (if old = [] then new else old)"

definition merge_runtime :: "runtime_options \<Rightarrow> runtime_options \<Rightarrow> runtime_options" where
  "merge_runtime rt p = rt\<lparr>rt_ipc_mode := keep_set (rt_ipc_mode rt) (rt_ipc_mode p),
     rt_shm_size := keep_set (rt_shm_size rt) (rt_shm_size p),
     rt_ulimits := foldl (\<lambda>m (k, v). if map_of m k = None then map_put k v m else m)
       (rt_ulimits rt) (rt_ulimits p)\<rparr>"

definition apply_plugin :: "string \<Rightarrow> plugin \<Rightarrow> container_request \<Rightarrow> container_request" where
  "apply_plugin pdir p r = r\<lparr>
     lr_volumes := Some (foldl (\<lambda>m (file, target). map_put (asset_host_path pdir (pl_id p) file) target m)
       (made (lr_volumes r)) (pl_mounts p)),
     lr_env := Some (foldl (\<lambda>m (k, v). map_put k v m) (made (lr_env r)) (pl_env p)),
     lr_extra_args := append_arg (lr_extra_args r) (pl_extra_args p),
     lr_runtime := merge_runtime (lr_runtime r) (pl_runtime p)\<rparr>"

fun first_asset_error ::
  "(string \<Rightarrow> asset_answers) \<Rightarrow> (string \<Rightarrow> string) \<Rightarrow> (string \<times> string) list \<Rightarrow> gerror option" where
  "first_asset_error answers host [] = None"
| "first_asset_error answers host ((file, url) # assets) =
     (case fst (ensure_plugin_asset (answers file) (host file) url) of
        Some e \<Rightarrow> Some e
      | None \<Rightarrow> first_asset_error answers host assets)"

fun apply_each_plugin ::
  "(string \<Rightarrow> asset_answers) \<Rightarrow> string \<Rightarrow> string list \<Rightarrow> container_request \<Rightarrow> gerror + container_request" where
  "apply_each_plugin answers pdir [] r = Inr r"
| "apply_each_plugin answers pdir (i # is) r =
     (case lookup_plugin i of
        None \<Rightarrow> Inl (Errorf (''unknown plugin '' @ i))
      | Some p \<Rightarrow>
          (case first_asset_error answers (asset_host_path pdir (pl_id p)) (pl_assets p) of
             Some e \<Rightarrow> Inl e
           | None \<Rightarrow> apply_each_plugin answers pdir is (apply_plugin pdir p r)))"

definition apply_plugins ::
  "(string \<Rightarrow> asset_answers) \<Rightarrow> string \<Rightarrow> container_request \<Rightarrow> gerror + container_request" where
  "apply_plugins answers pdir r =
     (let ids = (case lr_plugins r of None \<Rightarrow> [] | Some is \<Rightarrow> is)
      in if ids = [] then Inr r
         else apply_each_plugin answers pdir ids
                (r\<lparr>lr_env := Some (made (lr_env r)), lr_volumes := Some (made (lr_volumes r))\<rparr>))"

section \<open>GGUF files\<close>

text \<open>\<^verbatim>\<open>modelDirName\<close>: each run of unsafe characters becomes one underscore.\<close>

fun underscore_runs :: "bool \<Rightarrow> string \<Rightarrow> string" where
  "underscore_runs inside [] = []"
| "underscore_runs inside (c # s) =
     (if name_char c then c # underscore_runs False s
      else if inside then underscore_runs True s else CHR ''_'' # underscore_runs True s)"

definition model_dir_name :: "string \<Rightarrow> string" where
  "model_dir_name i =
     (let name = trim_chars ''_'' (underscore_runs False i) in if name = [] then ''model'' else name)"

definition gguf_path_error :: "string \<Rightarrow> string \<Rightarrow> gerror" where
  "gguf_path_error p why = Errorf (''invalid gguf path '' @ go_quote p @ '': '' @ why)"

definition sanitize_repo_path :: "string \<Rightarrow> gerror + string" where
  "sanitize_repo_path raw =
     (let p = trim_space raw in
      if p = [] then Inr []
      else if CHR 0x5C \<in> set p then Inl (gguf_path_error p ''contains backslash'')
      else if has_prefix p ''/'' then Inl (gguf_path_error p ''must be relative'')
      else (let clean = path_clean p in
        if clean = ''.'' \<or> clean = [] then Inl (gguf_path_error p ''empty after clean'')
        else if clean = ''..'' \<or> has_prefix clean ''../'' then Inl (gguf_path_error p ''escapes repo root'')
        else if ''..'' \<in> set (split_char CHR ''/'' clean) then Inl (gguf_path_error p (''contains '' @ [CHR 0x27] @ ''..'' @ [CHR 0x27]))
        else Inr clean))"

text \<open>
  The downloads: \<open>mkdir\<close> and \<open>download\<close> answer with an error text for a path. The result
  carries the destinations handed to the downloader, in order.
\<close>

record gguf_answers =
  gg_mkdir :: "string \<Rightarrow> string option"
  gg_download :: "string \<Rightarrow> string \<Rightarrow> string option"

fun gguf_loop ::
  "gguf_answers \<Rightarrow> string \<Rightarrow> bool \<Rightarrow> string \<Rightarrow> string list \<Rightarrow> (gerror + string) \<times> string list" where
  "gguf_loop a base first primary [] = (Inr primary, [])"
| "gguf_loop a base first primary (f # fs) =
     (case sanitize_repo_path f of
        Inl e \<Rightarrow> (Inl e, [])
      | Inr rel \<Rightarrow>
          if rel = [] then gguf_loop a base False primary fs
          else (let dest = path_join [base, rel] in
            case gg_mkdir a (path_dir dest) of
              Some e \<Rightarrow> (Inl (Wrapf (''creating '' @ path_dir dest @ '': '') (Errorf e) []), [])
            | None \<Rightarrow>
                (case gg_download a rel dest of
                   Some e \<Rightarrow> (Inl (Wrapf (''downloading '' @ rel @ '': '') (Errorf e) []), [dest])
                 | None \<Rightarrow>
                     (let (out, ds) = gguf_loop a base False (if first then rel else primary) fs
                      in (out, dest # ds)))))"

definition ensure_gguf_files ::
  "gguf_answers \<Rightarrow> 'a launch_request_scheme \<Rightarrow> (gerror + string) \<times> string list" where
  "ensure_gguf_files a r =
     (if lr_gguf_files r = [] then (Inr [], [])
      else if trim_space (lr_model r) = [] then (Inl (Errorf ''gguf_files specified without a model repo id''), [])
      else (let subdir = model_dir_name (lr_model r); base = path_join [gguf_host_dir, subdir] in
        case gg_mkdir a base of
          Some e \<Rightarrow> (Inl (Wrapf (''creating '' @ base @ '': '') (Errorf e) []), [])
        | None \<Rightarrow>
            (case gguf_loop a base True [] (lr_gguf_files r) of
               (Inl e, ds) \<Rightarrow> (Inl e, ds)
             | (Inr primary, ds) \<Rightarrow>
                 (Inr (if primary = [] then [] else path_join [gguf_container_dir, subdir, primary]), ds))))"

end
