(* ===== verification/Docker_Patch.thy ===== *)
theory Docker_Patch
  imports Docker_Args Go_Net Deploy_Candidate
begin

text \<open>
  The pinned runtime patches an agent applies to a coordinated candidate before it runs:
  \<^verbatim>\<open>internal/agent/runtime_patch.go\<close> (SGLang, a Python bootstrap built from the patch
  specifications) and \<^verbatim>\<open>runtime_patch_qwen38.go\<close> (vLLM, a fixed bootstrap and downloaded
  assets), with the contracts both check. Where the source ranges over a map to check it,
  the list order here only decides which of several errors is reported.
\<close>

section \<open>Scanning argument vectors\<close>

definition arg_sequence_count :: "string list \<Rightarrow> string list \<Rightarrow> nat" where
  "arg_sequence_count args sequence =
     length (filter (\<lambda>start. take (length sequence) (drop start args) = sequence)
       [0..<Suc (length args) - length sequence])"

definition token_flag_value_count :: "string list \<Rightarrow> string \<Rightarrow> string \<times> nat" where
  "token_flag_value_count args flag = flag_scan flag [] 0 args"

definition flag_count :: "string list \<Rightarrow> string \<Rightarrow> nat" where
  "flag_count args flag = length (filter (\<lambda>a. a = flag \<or> has_prefix a (flag @ ''='')) args)"

text \<open>A flag given exactly once, with this value.\<close>

definition exactly_once :: "string list \<Rightarrow> string \<Rightarrow> string \<Rightarrow> bool" where
  "exactly_once args flag value \<longleftrightarrow> token_flag_value_count args flag = (value, 1)"

definition request_command :: "container_request \<Rightarrow> string list" where
  "request_command r = str_fields (lr_extra_args r) @ lr_args r"

section \<open>SGLang\<close>

definition glm53_patch_specs :: "runtime_patch list" where
  "glm53_patch_specs =
     [\<lparr>patch_label = glm53_patch_label, patch_source_path = glm53_patch_path,
       patch_original_line = glm53_patch_old_line, patch_replacement_line = glm53_patch_new_line,
       patch_original_sha = glm53_patch_old_sha, patch_patched_sha = glm53_patch_new_sha\<rparr>,
      \<lparr>patch_label = glm53_tile_label, patch_source_path = glm53_tile_path,
       patch_original_line = glm53_tile_old_line, patch_replacement_line = glm53_tile_new_line,
       patch_original_sha = glm53_tile_old_sha, patch_patched_sha = glm53_tile_new_sha\<rparr>]"

definition glm53_image_digest :: string where
  "glm53_image_digest = ''73f9294b78e38d8cc297bfed16daec8ac192b126a2d1fb9055e259a632c68f00''"

definition tile_shared_memory_bytes :: int where "tile_shared_memory_bytes = 100352"

text \<open>A file is at one digest, holds one of the two lines once and the other never.\<close>

definition digest_test :: "string \<Rightarrow> string \<Rightarrow> string \<Rightarrow> string \<Rightarrow> string \<Rightarrow> string" where
  "digest_test digest sha data once never =
     digest @ ''=='' @ go_quote sha @ '' and line_count('' @ data @ '','' @ once @ '')==1 and line_count('' @
     data @ '','' @ never @ '')==0''"

definition exit_with :: "string \<Rightarrow> string" where
  "exit_with message = ''sys.exit('' @ go_quote message @ '')''"

definition check_statements :: "nat \<times> runtime_patch \<Rightarrow> string list" where
  "check_statements ip = (case ip of (i, p) \<Rightarrow> (let n = nat_text i in
     [''p'' @ n @ ''=pathlib.Path('' @ go_quote (patch_source_path p) @ '')'',
      ''old'' @ n @ ''=b'' @ go_quote (patch_original_line p),
      ''new'' @ n @ ''=b'' @ go_quote (patch_replacement_line p),
      ''data'' @ n @ ''=p'' @ n @ ''.read_bytes()'',
      ''current'' @ n @ ''=digest(data'' @ n @ '')'',
      ''original_ok'' @ n @ ''='' @
        digest_test (''current'' @ n) (patch_original_sha p) (''data'' @ n) (''old'' @ n) (''new'' @ n),
      ''patched_ok'' @ n @ ''='' @
        digest_test (''current'' @ n) (patch_patched_sha p) (''data'' @ n) (''new'' @ n) (''old'' @ n),
      ''(original_ok'' @ n @ '' or patched_ok'' @ n @ '') or '' @
        exit_with (''refusing unexpected SGLang runtime patch source: '' @ patch_label p),
      ''candidate'' @ n @ ''=data'' @ n @ ''.replace(old'' @ n @ '',new'' @ n @ '',1) if original_ok'' @ n @
        '' else data'' @ n,
      ''('' @ digest_test (''digest(candidate'' @ n @ '')'') (patch_patched_sha p) (''candidate'' @ n)
        (''new'' @ n) (''old'' @ n) @ '') or '' @
        exit_with (''refusing unexpected SGLang runtime patch result: '' @ patch_label p)]))"

definition tile_statements :: "string list" where
  "tile_statements =
     [''import torch'',
      ''properties=torch.cuda.get_device_properties(0)'',
      ''limit=getattr(properties,'' @ [CHR 0x27] @ ''shared_memory_per_block_optin'' @ [CHR 0x27] @ '',None)'',
      ''type(limit) is int or '' @ exit_with ''unable to read the GB10 opt-in shared-memory limit'',
      ''sys.stderr.write('' @ go_quote (''GLM-5.3-Flash TP=2 tile=32/1/128 shared-memory required='' @
        itoa tile_shared_memory_bytes @ '' observed='') @ ''+str(limit)+'' @ go_quote [CHR 0x0A] @ '')'',
      ''sys.stderr.flush()'',
      ''limit>='' @ itoa tile_shared_memory_bytes @ '' or sys.exit(1)'']"

definition write_statements :: "nat \<times> runtime_patch \<Rightarrow> string list" where
  "write_statements ip = (case ip of (i, p) \<Rightarrow> (let n = nat_text i in
     [''written'' @ n @ ''=p'' @ n @ ''.write_bytes(candidate'' @ n @ '') if original_ok'' @ n @
        '' else len(candidate'' @ n @ '')'',
      ''written'' @ n @ ''==len(candidate'' @ n @ '') or '' @
        exit_with (''incomplete SGLang runtime patch write: '' @ patch_label p)]))"

definition verify_statements :: "nat \<times> runtime_patch \<Rightarrow> string list" where
  "verify_statements ip = (case ip of (i, p) \<Rightarrow> (let n = nat_text i in
     [''verified'' @ n @ ''=p'' @ n @ ''.read_bytes()'',
      ''('' @ digest_test (''digest(verified'' @ n @ '')'') (patch_patched_sha p) (''verified'' @ n)
        (''new'' @ n) (''old'' @ n) @ '') or '' @
        exit_with (''SGLang runtime patch verification failed: '' @ patch_label p)]))"

definition build_sglang_patch_script :: "runtime_patch list \<Rightarrow> string" where
  "build_sglang_patch_script specs =
     (let numbered = zip [0..<length specs] specs
      in join_with '';''
          ([''import hashlib,os,pathlib,sys'',
            ''digest=lambda value:hashlib.sha256(value).hexdigest()'',
            ''line_count=lambda value,line:value.splitlines().count(line)''] @
           concat (map check_statements numbered) @ tile_statements @
           concat (map write_statements numbered) @ concat (map verify_statements numbered) @
           [''len(sys.argv)>1 or sys.exit('' @ [CHR 0x27] @ ''missing SGLang command'' @ [CHR 0x27] @ '')'',
            ''os.execvp(sys.argv[1],sys.argv[1:])'']))"

definition glm53_provenance :: "container_request \<Rightarrow> bool" where
  "glm53_provenance r \<longleftrightarrow>
     trim_space (map_get (lr_labels r) label_runtime_patch) = runtime_patch_set_label glm53_patches \<and>
     map_get (lr_labels r) label_bkc_id = glm53_nvfp4_id \<and> lr_image r = glm53_image \<and>
     map_get (lr_labels r) label_image_digest = glm53_image_digest \<and>
     map_get (lr_labels r) label_model_revision = glm53_revision"

definition glm53_command_error :: "container_request \<Rightarrow> string list \<Rightarrow> gerror option" where
  "glm53_command_error r command =
     (if length command < 2 \<or> command ! 0 \<noteq> ''sglang'' \<or> command ! 1 \<noteq> ''serve'' \<or>
         arg_sequence_count command [''sglang'', ''serve''] \<noteq> 1
        then Some (Errorf ''pinned GLM-5.3-Flash runtime patch requires exactly one sglang serve command prefix'')
      else if \<not> exactly_once command ''--revision'' glm53_revision
        then Some (Errorf ''pinned GLM-5.3-Flash runtime patch requires exactly one pinned model revision'')
      else if \<not> exactly_once command ''--model-path'' (lr_model r)
        then Some (Errorf ''pinned GLM-5.3-Flash runtime patch requires exactly one model path matching the request'')
      else if \<not> exactly_once command ''--tp-size'' ''2''
        then Some (Errorf ''pinned GLM-5.3-Flash DSA tile requires exactly one TP=2 setting'')
      else None)"

definition apply_sglang_patch :: "container_request \<Rightarrow> gerror + container_request" where
  "apply_sglang_patch r =
     (let patch = trim_space (map_get (lr_labels r) label_runtime_patch);
          bkc = map_get (lr_labels r) label_bkc_id
      in if bkc = qwen38_dual_id \<and> patch = runtime_patch_set_label qwen38_patches then Inr r
         else if patch = [] then
           (if bkc = glm53_nvfp4_id
            then Inl (Errorf ''pinned GLM-5.3-Flash BKC is missing its required runtime patch label'')
            else Inr r)
         else if \<not> glm53_provenance r
           then Inl (Errorf ''runtime patch provenance does not match the pinned GLM-5.3-Flash BKC'')
         else if lr_model r \<noteq> glm53_model \<and> lr_model r \<noteq> fixed_local_model_path
           then Inl (Errorf ''runtime patch model does not match the pinned GLM-5.3-Flash model or fixed local snapshot'')
         else (case glm53_command_error r (request_command r) of
           Some e \<Rightarrow> Inl e
         | None \<Rightarrow>
             (let script = build_sglang_patch_script glm53_patch_specs
              in if contains_any script [CHR 0x00, CHR 0x0D, CHR 0x0A]
                 then Inl (Errorf ''invalid pinned GLM-5.3-Flash runtime patch bootstrap'')
                 else Inr (r\<lparr>lr_extra_args := [],
                             lr_args := [''python3'', ''-c'', script] @ request_command r\<rparr>))))"

section \<open>vLLM: the Qwen3.8 contract\<close>

definition qwen38_patch_container_dir :: string where
  "qwen38_patch_container_dir = ''/opt/yokai-qwen38-patches''"

definition qwen38_runtime_assets :: "(string \<times> string) list" where
  "qwen38_runtime_assets =
     [(''ple_layer_patched.py'', ''fae9fd5242748e8cdb314445a25ad628a0ce335cf26f794623f8679497a65186''),
      (''patch_modelopt_mxfp8.py'', ''adf72c590969a8a690fdca83e0cb2428df0dc7c7debdd2cb1983013492d9f285''),
      (''patch_modelopt_fp8_block_moe.py'', ''20b5d81b097f6135a0403d91cdea25e90180f7b7d0aa2fe8d9ba3fe3d4c83acf''),
      (''patch_mtp_draft_vocab.py'', ''d5a85baaab238917d70448feb57761e61826f4e515bbc098167515d601bb6ea5''),
      (''patch_qsa_fp8_kv.py'', ''61b7fc7cb64b9ef0d6dc702966385331a27464616cdc3ade22c5d85057a30956''),
      (''patch_checkpoint_config.py'', ''d727134c3af8db66ee2979fc64049da7895aa0e97408895903d54c52bbdc479b''),
      (''draft_vocab_en_code_47k.txt'', ''20e36b6e8eae2598019298959a578ef8adc2948bbed7189e43a8da9b9d84a0b1'')]"

definition exact_qwen_volume :: "gomap option \<Rightarrow> bool" where
  "exact_qwen_volume volumes =
     (case made volumes of
        [(host, target)] \<Rightarrow> path_base (path_clean host) = qwen38_hf_cache_dir \<and>
                            target = qwen38_container_root @ '':ro''
      | _ \<Rightarrow> False)"

definition fabric_name_ok :: "string \<Rightarrow> bool" where
  "fabric_name_ok s \<longleftrightarrow> 1 \<le> length s \<and> length s \<le> 64 \<and>
     list_all (\<lambda>c. is_letter c \<or> is_digit c \<or> c \<in> {CHR ''_'', CHR ''.'', CHR '':'', CHR ''-''}) s"

definition qwen38_required_env :: gomap where
  "qwen38_required_env =
     [(''NCCL_IB_DISABLE'', ''0''), (''NCCL_IB_AUTO_DETECT'', ''0''), (''NCCL_DEBUG'', ''WARN''),
      (''HF_HUB_OFFLINE'', ''1''), (''TRANSFORMERS_OFFLINE'', ''1''), (''HF_HOME'', ''/root/.cache/huggingface'')]"

definition qwen38_device_contract :: "container_request \<Rightarrow> bool" where
  "qwen38_device_contract r \<longleftrightarrow>
     lr_network_mode r = ''host'' \<and> lr_gpu_ids r = ''0'' \<and>
     lr_devices r = [''/dev/infiniband:/dev/infiniband''] \<and> lr_cap_add r = [''SYS_NICE'']"

definition qwen38_runtime_contract :: "runtime_options \<Rightarrow> bool" where
  "qwen38_runtime_contract rt \<longleftrightarrow>
     rt_ipc_mode rt = ''host'' \<and> rt_shm_size rt = [] \<and> rt_restart_policy rt = ''no'' \<and>
     length (rt_ulimits rt) = 2 \<and> map_get (rt_ulimits rt) ''memlock'' = ''-1'' \<and>
     map_get (rt_ulimits rt) ''stack'' = ''67108864''"

definition fabric_interface_ok :: "gomap \<Rightarrow> bool" where
  "fabric_interface_ok env \<longleftrightarrow>
     (let name = map_get env ''NCCL_SOCKET_IFNAME''
      in fabric_name_ok name \<and> map_get env ''GLOO_SOCKET_IFNAME'' = name \<and> map_get env ''TP_SOCKET_IFNAME'' = name)"

definition fabric_hca_ok :: "gomap \<Rightarrow> bool" where
  "fabric_hca_ok env \<longleftrightarrow>
     (let hca = trim_prefix (map_get env ''NCCL_IB_HCA'') ''=''
      in map_get env ''NCCL_IB_HCA'' = ''='' @ hca \<and> fabric_name_ok hca)"

definition fabric_address_ok :: "gomap \<Rightarrow> bool" where
  "fabric_address_ok env \<longleftrightarrow>
     (case atoi (map_get env ''NCCL_IB_GID_INDEX'') of
        None \<Rightarrow> False
      | Some gid \<Rightarrow> 0 \<le> gid \<and> gid \<le> 255 \<and> parse_ip (map_get env ''VLLM_HOST_IP'') \<noteq> None)"

definition qwen38_contract_error :: "container_request \<Rightarrow> gerror option" where
  "qwen38_contract_error r =
     (let env = made (lr_env r) in
      if \<not> qwen38_device_contract r
        then Some (Errorf ''pinned Qwen3.8 runtime or device contract mismatch'')
      else if \<not> qwen38_runtime_contract (lr_runtime r)
        then Some (Errorf ''pinned Qwen3.8 IPC, ulimit, or restart contract mismatch'')
      else if length (made (lr_ports r)) \<noteq> 1 \<or> map_get (made (lr_ports r)) ''8888'' \<noteq> ''8888''
        then Some (Errorf ''pinned Qwen3.8 service port contract mismatch'')
      else if length env \<noteq> length qwen38_required_env + 6
        then Some (Errorf ''pinned Qwen3.8 environment contains unexpected settings'')
      else (case find (\<lambda>(k, v). map_get env k \<noteq> v) qwen38_required_env of
        Some (k, v) \<Rightarrow> Some (Errorf (''pinned Qwen3.8 environment '' @ k @ '' mismatch''))
      | None \<Rightarrow>
      if \<not> fabric_interface_ok env
        then Some (Errorf ''pinned Qwen3.8 fabric interface environment mismatch'')
      else if \<not> fabric_hca_ok env
        then Some (Errorf ''pinned Qwen3.8 fabric HCA environment mismatch'')
      else if \<not> fabric_address_ok env
        then Some (Errorf ''pinned Qwen3.8 fabric address or GID environment mismatch'')
      else None))"

definition qwen38_fixed_flags :: gomap where
  "qwen38_fixed_flags =
     [(''--tensor-parallel-size'', ''2''), (''--nnodes'', ''2''),
      (''--master-port'', itoa qwen38_rendezvous_port), (''--kv-cache-dtype'', ''fp8''),
      (''--mamba-ssm-cache-dtype'', ''bfloat16'')]"

definition master_address_ok :: "string list \<Rightarrow> bool" where
  "master_address_ok command \<longleftrightarrow>
     (case token_flag_value_count command ''--master-addr'' of
        (address, n) \<Rightarrow> n = 1 \<and> parse_ip (trim_chars ''[]'' address) \<noteq> None)"

definition head_argv_ok :: "string list \<Rightarrow> bool" where
  "head_argv_ok command \<longleftrightarrow>
     exactly_once command ''--node-rank'' ''0'' \<and>
     (case token_flag_value_count command ''--host'' of (host, n) \<Rightarrow> n = 1 \<and> parse_ip host \<noteq> None) \<and>
     snd (token_flag_value_count command ''--port'') = 1 \<and>
     arg_sequence_count command [''--headless''] = 0 \<and> flag_count command ''--api-key'' = 1"

definition worker_argv_ok :: "string list \<Rightarrow> bool" where
  "worker_argv_ok command \<longleftrightarrow>
     exactly_once command ''--node-rank'' ''1'' \<and>
     snd (token_flag_value_count command ''--host'') = 0 \<and>
     snd (token_flag_value_count command ''--port'') = 0 \<and>
     arg_sequence_count command [''--headless''] = 1 \<and> flag_count command ''--api-key'' = 0"

definition qwen38_role_error :: "string \<Rightarrow> string list \<Rightarrow> gerror option" where
  "qwen38_role_error role command =
     (if role = role_head then
        (if head_argv_ok command then None
         else Some (Errorf ''pinned Qwen3.8 head argv does not match rank-0 API role''))
      else if role = role_worker then
        (if worker_argv_ok command then None
         else Some (Errorf ''pinned Qwen3.8 worker argv does not match rank-1 headless role''))
      else Some (Errorf ''pinned Qwen3.8 runtime patch requires an exact head or worker role''))"

definition qwen38_command_error :: "string \<Rightarrow> string list \<Rightarrow> gerror option" where
  "qwen38_command_error role command =
     (if \<not> exactly_once command ''--model'' qwen38_container_model
        then Some (Errorf ''pinned Qwen3.8 runtime patch requires exactly one fixed local model argument'')
      else if \<not> exactly_once command ''--revision'' qwen38_revision
        then Some (Errorf ''pinned Qwen3.8 runtime patch requires exactly one pinned model revision'')
      else (case find (\<lambda>(flag, v). \<not> exactly_once command flag v) qwen38_fixed_flags of
        Some (flag, v) \<Rightarrow> Some (Errorf (''pinned Qwen3.8 runtime patch requires exactly one '' @ flag @ '' '' @ v @ '' setting''))
      | None \<Rightarrow>
      if \<not> master_address_ok command
        then Some (Errorf ''pinned Qwen3.8 runtime patch requires one concrete master address'')
      else (case qwen38_role_error role command of
        Some e \<Rightarrow> Some e
      | None \<Rightarrow>
          map_option (\<lambda>required. Errorf (''pinned Qwen3.8 runtime patch requires exactly one '' @ required))
            (find (\<lambda>required. arg_sequence_count command [required] \<noteq> 1)
               [''--enable-expert-parallel'', ''--enable-chunked-prefill'', ''--enable-auto-tool-choice'']))))"

definition qwen38_provenance :: "container_request \<Rightarrow> bool" where
  "qwen38_provenance r \<longleftrightarrow>
     map_get (lr_labels r) label_runtime_patch = runtime_patch_set_label qwen38_patches \<and>
     lr_image r = qwen38_image \<and> map_get (lr_labels r) label_image_digest = qwen38_image_digest \<and>
     map_get (lr_labels r) label_model_revision = qwen38_revision \<and>
     map_get (lr_labels r) label_source_revision = qwen38_source_revision"

text \<open>The bootstrap program, line by line.\<close>

definition qwen38_bootstrap_lines :: "string list" where
  "qwen38_bootstrap_lines =
     [''import hashlib,os,pathlib,shutil,subprocess,sys'',
      ''asset=pathlib.Path('' @ [CHR 0x22] @ ''/opt/yokai-qwen38-patches'' @ [CHR 0x22] @ '')'',
      ''work=pathlib.Path('' @ [CHR 0x22] @ ''/tmp/yokai-qwen38-patches'' @ [CHR 0x22] @ '')'',
      ''originals=pathlib.Path('' @ [CHR 0x22] @ ''/tmp/yokai-qwen38-originals'' @ [CHR 0x22] @ '')'',
      ''model=pathlib.Path('' @ [CHR 0x22] @ ''/models/yokai-qwen38-repository/snapshots/fc694b54fb0174e0913e6adf86691ef85a4ead47'' @ [CHR 0x22] @ '')'',
      ''overlay=pathlib.Path('' @ [CHR 0x22] @ ''/tmp/yokai-qwen38-model'' @ [CHR 0x22] @ '')'',
      ''def digest(path): return hashlib.sha256(path.read_bytes()).hexdigest()'',
      ''assets={'' @ [CHR 0x22] @ ''ple_layer_patched.py'' @ [CHR 0x22] @ '':'' @ [CHR 0x22] @ ''fae9fd5242748e8cdb314445a25ad628a0ce335cf26f794623f8679497a65186'' @ [CHR 0x22] @ '','' @ [CHR 0x22] @ ''patch_modelopt_mxfp8.py'' @ [CHR 0x22] @ '':'' @ [CHR 0x22] @ ''adf72c590969a8a690fdca83e0cb2428df0dc7c7debdd2cb1983013492d9f285'' @ [CHR 0x22] @ '','' @ [CHR 0x22] @ ''patch_modelopt_fp8_block_moe.py'' @ [CHR 0x22] @ '':'' @ [CHR 0x22] @ ''20b5d81b097f6135a0403d91cdea25e90180f7b7d0aa2fe8d9ba3fe3d4c83acf'' @ [CHR 0x22] @ '','' @ [CHR 0x22] @ ''patch_mtp_draft_vocab.py'' @ [CHR 0x22] @ '':'' @ [CHR 0x22] @ ''d5a85baaab238917d70448feb57761e61826f4e515bbc098167515d601bb6ea5'' @ [CHR 0x22] @ '','' @ [CHR 0x22] @ ''patch_qsa_fp8_kv.py'' @ [CHR 0x22] @ '':'' @ [CHR 0x22] @ ''61b7fc7cb64b9ef0d6dc702966385331a27464616cdc3ade22c5d85057a30956'' @ [CHR 0x22] @ '','' @ [CHR 0x22] @ ''patch_checkpoint_config.py'' @ [CHR 0x22] @ '':'' @ [CHR 0x22] @ ''d727134c3af8db66ee2979fc64049da7895aa0e97408895903d54c52bbdc479b'' @ [CHR 0x22] @ '','' @ [CHR 0x22] @ ''draft_vocab_en_code_47k.txt'' @ [CHR 0x22] @ '':'' @ [CHR 0x22] @ ''20e36b6e8eae2598019298959a578ef8adc2948bbed7189e43a8da9b9d84a0b1'' @ [CHR 0x22] @ ''}'',
      ''for name,want in assets.items():'',
      '' p=asset/name'',
      '' if not p.is_file() or digest(p)!=want: raise SystemExit('' @ [CHR 0x22] @ ''refusing unverified Qwen3.8 patch asset: '' @ [CHR 0x22] @ ''+name)'',
      ''sources=[('' @ [CHR 0x22] @ ''/usr/local/lib/python3.12/dist-packages/vllm/models/qwen3_8_flash_next/nvidia/ple_layer.py'' @ [CHR 0x22] @ '','' @ [CHR 0x22] @ ''a71144c1d36e06f22a2da1b1ada900076597fe5e824a911e7ada86249a0993e7'' @ [CHR 0x22] @ '','' @ [CHR 0x22] @ ''fae9fd5242748e8cdb314445a25ad628a0ce335cf26f794623f8679497a65186'' @ [CHR 0x22] @ ''),('' @ [CHR 0x22] @ ''/usr/local/lib/python3.12/dist-packages/vllm/model_executor/layers/quantization/modelopt.py'' @ [CHR 0x22] @ '','' @ [CHR 0x22] @ ''3f3ca743fd3c66d72be92b7544591a8632f1aa422b73bb50c83e8a3281196e7d'' @ [CHR 0x22] @ '','' @ [CHR 0x22] @ ''ed14a21a9331d78deddd78f3c953536c7b827dc35edbb1acabd0f0fe68c64802'' @ [CHR 0x22] @ ''),('' @ [CHR 0x22] @ ''/usr/local/lib/python3.12/dist-packages/vllm/models/qwen3_8_flash_next/nvidia/mtp.py'' @ [CHR 0x22] @ '','' @ [CHR 0x22] @ ''7735cee47d0d1e4776bebd30d907e4a62160409ce4ef2d65611559f8d58af431'' @ [CHR 0x22] @ '','' @ [CHR 0x22] @ ''30e3bad24d151f50f318b3836e6a6c5c1979c1b6ef7264a9fef21bdc162e01a2'' @ [CHR 0x22] @ ''),('' @ [CHR 0x22] @ ''/usr/local/lib/python3.12/dist-packages/vllm/models/qwen3_8_flash_next/nvidia/ops/qsa.py'' @ [CHR 0x22] @ '','' @ [CHR 0x22] @ ''c4ffe3674cafa0ce2dabc39a39f0ddbb4b594bc358ad210ffce9d04383350c7f'' @ [CHR 0x22] @ '','' @ [CHR 0x22] @ ''0669d6334f58a624c89c15f3e46c90f28e59b0b913507101dec1c5765e3c3b12'' @ [CHR 0x22] @ ''),('' @ [CHR 0x22] @ ''/usr/local/lib/python3.12/dist-packages/vllm/models/qwen3_8_flash_next/nvidia/qsa.py'' @ [CHR 0x22] @ '','' @ [CHR 0x22] @ ''748addc85efaa8f7df940d1245bc900192f92e1f17af8fa774625758600751cb'' @ [CHR 0x22] @ '','' @ [CHR 0x22] @ ''ee5de40742ad48a6064ea24b99a285ff69c47d57bbb170f57c4eef71567a1df3'' @ [CHR 0x22] @ '')]'',
      ''for index,(name,pristine,patched) in enumerate(sources):'',
      '' p=pathlib.Path(name)'',
      '' live=digest(p) if p.is_file() else '' @ [CHR 0x22] @ [CHR 0x22],
      '' backup=originals/(str(index)+'' @ [CHR 0x22] @ ''-'' @ [CHR 0x22] @ ''+p.name)'',
      '' if live not in (pristine,patched): raise SystemExit('' @ [CHR 0x22] @ ''refusing unexpected pinned vLLM source: '' @ [CHR 0x22] @ ''+name)'',
      '' if backup.exists() and (not backup.is_file() or digest(backup)!=pristine): raise SystemExit('' @ [CHR 0x22] @ ''refusing unexpected Qwen3.8 pristine backup: '' @ [CHR 0x22] @ ''+name)'',
      '' if live==patched and not backup.is_file(): raise SystemExit('' @ [CHR 0x22] @ ''patched Qwen3.8 source has no verified pristine backup: '' @ [CHR 0x22] @ ''+name)'',
      ''for name,want in (('' @ [CHR 0x22] @ ''config.json'' @ [CHR 0x22] @ '','' @ [CHR 0x22] @ ''deef67a61f3311faf051b23dc4192f442c7fee4f9cd2f38cbcbe4da55c763a80'' @ [CHR 0x22] @ ''),('' @ [CHR 0x22] @ ''hf_quant_config.json'' @ [CHR 0x22] @ '','' @ [CHR 0x22] @ ''331ad11d57c8bc374554579977198084e0d4d0933d5b3558f125f6f670aba0e8'' @ [CHR 0x22] @ '')):'',
      '' p=model/name'',
      '' if not p.is_file() or digest(p)!=want: raise SystemExit('' @ [CHR 0x22] @ ''refusing unexpected pinned model source: '' @ [CHR 0x22] @ ''+name)'',
      ''originals.mkdir(mode=0o700,exist_ok=True)'',
      ''for index,(name,pristine,patched) in enumerate(sources):'',
      '' backup=originals/(str(index)+'' @ [CHR 0x22] @ ''-'' @ [CHR 0x22] @ ''+pathlib.Path(name).name)'',
      '' if not backup.exists(): shutil.copyfile(name,backup)'',
      '' if digest(backup)!=pristine: raise SystemExit('' @ [CHR 0x22] @ ''Qwen3.8 pristine backup verification failed: '' @ [CHR 0x22] @ ''+name)'',
      ''shutil.rmtree(work,ignore_errors=True);work.mkdir(mode=0o700)'',
      ''for name in assets:'',
      '' if name.endswith('' @ [CHR 0x22] @ ''.py'' @ [CHR 0x22] @ ''): shutil.copyfile(asset/name,work/name)'',
      ''ple=pathlib.Path(sources[0][0]);shutil.copyfile(asset/'' @ [CHR 0x22] @ ''ple_layer_patched.py'' @ [CHR 0x22] @ '',ple)'',
      ''if digest(ple)!='' @ [CHR 0x22] @ ''fae9fd5242748e8cdb314445a25ad628a0ce335cf26f794623f8679497a65186'' @ [CHR 0x22] @ '': raise SystemExit('' @ [CHR 0x22] @ ''PLE patch verification failed'' @ [CHR 0x22] @ '')'',
      ''modelopt=pathlib.Path(sources[1][0]);shutil.copyfile(originals/('' @ [CHR 0x22] @ ''1-'' @ [CHR 0x22] @ ''+modelopt.name),work/'' @ [CHR 0x22] @ ''modelopt_patched.py.orig'' @ [CHR 0x22] @ '')'',
      ''subprocess.run([sys.executable,str(work/'' @ [CHR 0x22] @ ''patch_modelopt_mxfp8.py'' @ [CHR 0x22] @ '')],check=True,cwd=work)'',
      ''subprocess.run([sys.executable,str(work/'' @ [CHR 0x22] @ ''patch_modelopt_fp8_block_moe.py'' @ [CHR 0x22] @ '')],check=True,cwd=work)'',
      ''if digest(work/'' @ [CHR 0x22] @ ''modelopt_patched.py'' @ [CHR 0x22] @ '')!='' @ [CHR 0x22] @ ''ed14a21a9331d78deddd78f3c953536c7b827dc35edbb1acabd0f0fe68c64802'' @ [CHR 0x22] @ '': raise SystemExit('' @ [CHR 0x22] @ ''ModelOpt patch verification failed'' @ [CHR 0x22] @ '')'',
      ''shutil.copyfile(work/'' @ [CHR 0x22] @ ''modelopt_patched.py'' @ [CHR 0x22] @ '',modelopt)'',
      ''mtp=pathlib.Path(sources[2][0]);shutil.copyfile(originals/('' @ [CHR 0x22] @ ''2-'' @ [CHR 0x22] @ ''+mtp.name),work/'' @ [CHR 0x22] @ ''mtp_patched.py.orig'' @ [CHR 0x22] @ '')'',
      ''subprocess.run([sys.executable,str(work/'' @ [CHR 0x22] @ ''patch_mtp_draft_vocab.py'' @ [CHR 0x22] @ '')],check=True,cwd=work)'',
      ''if digest(work/'' @ [CHR 0x22] @ ''mtp_patched.py'' @ [CHR 0x22] @ '')!='' @ [CHR 0x22] @ ''30e3bad24d151f50f318b3836e6a6c5c1979c1b6ef7264a9fef21bdc162e01a2'' @ [CHR 0x22] @ '': raise SystemExit('' @ [CHR 0x22] @ ''MTP patch verification failed'' @ [CHR 0x22] @ '')'',
      ''shutil.copyfile(work/'' @ [CHR 0x22] @ ''mtp_patched.py'' @ [CHR 0x22] @ '',mtp)'',
      ''qops=pathlib.Path(sources[3][0]);qimpl=pathlib.Path(sources[4][0]);shutil.copyfile(originals/('' @ [CHR 0x22] @ ''3-'' @ [CHR 0x22] @ ''+qops.name),work/'' @ [CHR 0x22] @ ''qsa_ops_patched.py.orig'' @ [CHR 0x22] @ '');shutil.copyfile(originals/('' @ [CHR 0x22] @ ''4-'' @ [CHR 0x22] @ ''+qimpl.name),work/'' @ [CHR 0x22] @ ''qsa_nvidia_patched.py.orig'' @ [CHR 0x22] @ '')'',
      ''subprocess.run([sys.executable,str(work/'' @ [CHR 0x22] @ ''patch_qsa_fp8_kv.py'' @ [CHR 0x22] @ '')],check=True,cwd=work)'',
      ''if digest(work/'' @ [CHR 0x22] @ ''qsa_ops_patched.py'' @ [CHR 0x22] @ '')!='' @ [CHR 0x22] @ ''0669d6334f58a624c89c15f3e46c90f28e59b0b913507101dec1c5765e3c3b12'' @ [CHR 0x22] @ '' or digest(work/'' @ [CHR 0x22] @ ''qsa_nvidia_patched.py'' @ [CHR 0x22] @ '')!='' @ [CHR 0x22] @ ''ee5de40742ad48a6064ea24b99a285ff69c47d57bbb170f57c4eef71567a1df3'' @ [CHR 0x22] @ '': raise SystemExit('' @ [CHR 0x22] @ ''FP8 KV patch verification failed'' @ [CHR 0x22] @ '')'',
      ''shutil.copyfile(work/'' @ [CHR 0x22] @ ''qsa_ops_patched.py'' @ [CHR 0x22] @ '',qops);shutil.copyfile(work/'' @ [CHR 0x22] @ ''qsa_nvidia_patched.py'' @ [CHR 0x22] @ '',qimpl)'',
      ''shutil.rmtree(overlay,ignore_errors=True);overlay.mkdir(mode=0o700)'',
      ''for child in model.iterdir():'',
      '' if child.name not in ('' @ [CHR 0x22] @ ''config.json'' @ [CHR 0x22] @ '','' @ [CHR 0x22] @ ''hf_quant_config.json'' @ [CHR 0x22] @ ''): (overlay/child.name).symlink_to(child)'',
      ''subprocess.run([sys.executable,str(work/'' @ [CHR 0x22] @ ''patch_checkpoint_config.py'' @ [CHR 0x22] @ ''),str(model),str(work)],check=True,cwd=work)'',
      ''for source_name,patched_name,want in (('' @ [CHR 0x22] @ ''config.json'' @ [CHR 0x22] @ '','' @ [CHR 0x22] @ ''config_patched.json'' @ [CHR 0x22] @ '','' @ [CHR 0x22] @ ''b3ff72b8164d31f902106ad8a54e06e41cf0a8136cc8b75d02781b8a6c30b322'' @ [CHR 0x22] @ ''),('' @ [CHR 0x22] @ ''hf_quant_config.json'' @ [CHR 0x22] @ '','' @ [CHR 0x22] @ ''hf_quant_config_patched.json'' @ [CHR 0x22] @ '','' @ [CHR 0x22] @ ''dd8727422cafbb0257d11a7163442bda46421f6e67c78eb9acd58669cb6eb5f8'' @ [CHR 0x22] @ '')):'',
      '' p=work/patched_name'',
      '' if not p.is_file() or digest(p)!=want: raise SystemExit('' @ [CHR 0x22] @ ''checkpoint config patch verification failed: '' @ [CHR 0x22] @ ''+source_name)'',
      '' shutil.copyfile(p,overlay/source_name)'',
      ''args=sys.argv[1:]'',
      ''positions=[i for i,value in enumerate(args) if value=='' @ [CHR 0x22] @ ''--model'' @ [CHR 0x22] @ '']'',
      ''if len(positions)!=1 or positions[0]+1>=len(args) or args[positions[0]+1]!=str(model): raise SystemExit('' @ [CHR 0x22] @ ''invalid model argv for Qwen3.8 bootstrap'' @ [CHR 0x22] @ '')'',
      ''args[positions[0]+1]=str(overlay)'',
      ''os.execvp('' @ [CHR 0x22] @ ''vllm'' @ [CHR 0x22] @ '',['' @ [CHR 0x22] @ ''vllm'' @ [CHR 0x22] @ '','' @ [CHR 0x22] @ ''serve'' @ [CHR 0x22] @ '',*args])'',
      []]"

definition qwen38_bootstrap_python :: string where
  "qwen38_bootstrap_python = join_with [CHR 0x0A] qwen38_bootstrap_lines"

definition qwen38_bootstrap_arg :: string where
  "qwen38_bootstrap_arg =
     ''import base64;exec(compile(base64.b64decode('' @ go_quote (b64_encode b64_std qwen38_bootstrap_python) @
     ''),'' @ [CHR 0x27] @ ''<yokai-qwen38-bootstrap>'' @ [CHR 0x27] @ '','' @ [CHR 0x27] @ ''exec'' @
     [CHR 0x27] @ ''))''"

text \<open>
  \<open>assets\<close> is what \<^verbatim>\<open>ensureQwen38RuntimeAssets\<close> returned: the directory, or its error.
\<close>

definition apply_qwen38_patch :: "gerror + string \<Rightarrow> container_request \<Rightarrow> gerror + container_request" where
  "apply_qwen38_patch assets r =
     (let command = request_command r in
      if map_get (lr_labels r) label_bkc_id \<noteq> qwen38_dual_id then
        (if map_get (lr_labels r) label_runtime_patch = runtime_patch_set_label qwen38_patches
         then Inl (Errorf ''Qwen3.8 runtime patch label is restricted to its pinned BKC'')
         else Inr r)
      else if \<not> qwen38_provenance r
        then Inl (Errorf ''runtime patch provenance does not match the pinned Qwen3.8 BKC'')
      else if lr_model r \<noteq> qwen38_container_model \<or> \<not> exact_qwen_volume (lr_volumes r)
        then Inl (Errorf ''pinned Qwen3.8 runtime patch requires the read-only fixed Hugging Face repository mount'')
      else (case qwen38_contract_error r of
        Some e \<Rightarrow> Inl e
      | None \<Rightarrow>
      (case qwen38_command_error (map_get (lr_labels r) label_role) command of
        Some e \<Rightarrow> Inl e
      | None \<Rightarrow>
      (case assets of
        Inl e \<Rightarrow> Inl e
      | Inr dir \<Rightarrow>
          Inr (r\<lparr>lr_volumes := Some (map_put dir (qwen38_patch_container_dir @ '':ro'') (made (lr_volumes r))),
                 lr_env := Some (map_put ''VLLM_MTP_DRAFT_VOCAB''
                   (qwen38_patch_container_dir @ ''/draft_vocab_en_code_47k.txt'') (made (lr_env r))),
                 lr_extra_args := [], lr_entrypoint := ''python3'',
                 lr_args := [''-c'', qwen38_bootstrap_arg] @ command\<rparr>)))))"

section \<open>The assets of the Qwen3.8 patch\<close>

definition qwen38_asset_dir :: "string \<Rightarrow> bool \<Rightarrow> string option \<Rightarrow> string \<Rightarrow> string" where
  "qwen38_asset_dir override euid_zero home tmp =
     (if trim_space override \<noteq> [] then path_join [trim_space override, qwen38_source_revision]
      else if euid_zero then path_join [''/var/lib/yokai/runtime-patches'', qwen38_source_revision]
      else (case home of
          Some h \<Rightarrow> if h = [] then path_join [tmp, ''yokai-runtime-patches'', qwen38_source_revision]
                    else path_join [h, ''.local'', ''share'', ''yokai'', ''runtime-patches'', qwen38_source_revision]
        | None \<Rightarrow> path_join [tmp, ''yokai-runtime-patches'', qwen38_source_revision]))"

text \<open>
  What the file system and the network answer for one asset: the file there (\<^verbatim>\<open>ReadFile\<close>), the
  request, the response with its status and the body read to at most 4 MiB (\<open>None\<close> when reading
  or closing fails), and the first staging step that fails, by its word in the error message.
\<close>

record runtime_asset_answers =
  ra_present :: "string option"
  ra_request :: "string option"
  ra_response :: "string + int \<times> string option"
  ra_staging :: "(string \<times> string) option"

definition asset_limit :: nat where "asset_limit = 4194304"

text \<open>One asset: the error, and the file installed when it had to be downloaded.\<close>

definition ensure_runtime_asset ::
  "runtime_asset_answers \<Rightarrow> string \<times> string \<Rightarrow> gerror option \<times> (string \<times> string) option" where
  "ensure_runtime_asset a asset = (case asset of (name, sha) \<Rightarrow>
     (if (case ra_present a of Some data \<Rightarrow> sha256_hex data = sha | None \<Rightarrow> False) then (None, None)
      else (case ra_request a of
        Some e \<Rightarrow> (Some (Wrapf ''build pinned runtime asset request: '' (Errorf e) []), None)
      | None \<Rightarrow>
      (case ra_response a of
        Inl e \<Rightarrow> (Some (Wrapf (''download pinned runtime asset '' @ name @ '': '') (Errorf e) []), None)
      | Inr (status, body) \<Rightarrow>
      if status \<noteq> 200
        then (Some (Errorf (''download pinned runtime asset '' @ name @ '': status '' @ itoa status)), None)
      else (case body of
        None \<Rightarrow> (Some (Errorf (''read pinned runtime asset '' @ name)), None)
      | Some full \<Rightarrow>
      (let data = take asset_limit full in
      if data = [] \<or> length data \<ge> asset_limit \<or> sha256_hex data \<noteq> sha
        then (Some (Errorf (''pinned runtime asset '' @ name @ '' hash mismatch'')), None)
      else (case ra_staging a of
        Some (step, e) \<Rightarrow>
          (Some (Wrapf (step @ '' pinned runtime asset '' @ name @ '': '') (Errorf e) []), None)
      | None \<Rightarrow> (None, Some (name, data)))))))))"

fun ensure_runtime_assets ::
  "(string \<Rightarrow> runtime_asset_answers) \<Rightarrow> (string \<times> string) list \<Rightarrow> gerror option \<times> (string \<times> string) list" where
  "ensure_runtime_assets answers [] = (None, [])"
| "ensure_runtime_assets answers (asset # rest) =
     (case ensure_runtime_asset (answers (fst asset)) asset of
        (Some e, _) \<Rightarrow> (Some e, [])
      | (None, installed) \<Rightarrow>
          (let (out, more) = ensure_runtime_assets answers rest
           in (out, (case installed of None \<Rightarrow> more | Some file \<Rightarrow> file # more))))"

definition ensure_qwen38_assets ::
  "string option \<Rightarrow> (string \<Rightarrow> runtime_asset_answers) \<Rightarrow> string \<Rightarrow> (gerror + string) \<times> (string \<times> string) list" where
  "ensure_qwen38_assets mkdir answers dir =
     (case mkdir of
        Some e \<Rightarrow> (Inl (Wrapf ''create pinned Qwen3.8 patch directory: '' (Errorf e) []), [])
      | None \<Rightarrow>
          (case ensure_runtime_assets answers qwen38_runtime_assets of
             (Some e, files) \<Rightarrow> (Inl e, files)
           | (None, files) \<Rightarrow> (Inr dir, files)))"

end
