(* ===== verification/Docker_Run.thy ===== *)
theory Docker_Run
  imports Docker_Patch
begin

text \<open>
  Running and restarting containers, \<^verbatim>\<open>internal/agent/docker.go\<close>: the platform checks, the
  identity inspection, \<^verbatim>\<open>runContainerWithContext\<close> with the cleanup of an ambiguous failure,
  and \<^verbatim>\<open>restartContainerWithDeps\<close>. What Docker, the file system and the clock answer is
  an argument; the state-changing Docker commands issued are returned, in order. JSON
  documents appear decoded (\<open>None\<close>: the decoder fails).
\<close>

section \<open>Docker commands and their failures\<close>

datatype docker_event =
    EvRun "string list" | EvStop string | EvRemove string | EvRestart string | EvPull string

datatype cmd_error = Canceled sentinel | Failed string

definition docker_failure :: "string \<Rightarrow> cmd_error \<Rightarrow> gerror" where
  "docker_failure what e =
     (case e of
        Canceled s \<Rightarrow> Wrapf (''docker '' @ what @ '' canceled: '') (Sentinel s) []
      | Failed t \<Rightarrow> Wrapf (''docker '' @ what @ '' failed: '') (Errorf t) [])"

section \<open>Platforms\<close>

definition normalize_arch :: "string \<Rightarrow> string" where
  "normalize_arch arch =
     (let a = to_lower arch in if a = ''x86_64'' then ''amd64'' else if a = ''aarch64'' then ''arm64'' else a)"

record manifest_entry =
  me_arch :: string
  me_os :: string
  me_variant :: string

record manifest =
  mf_entries :: "manifest_entry list"
  mf_arch :: string
  mf_os :: string

definition entry_platform :: "manifest_entry \<Rightarrow> string" where
  "entry_platform e = me_os e @ ''/'' @ normalize_arch (me_arch e) @
     (if me_variant e = [] then [] else ''/'' @ me_variant e)"

fun scan_manifests ::
  "string \<Rightarrow> string \<Rightarrow> string list \<Rightarrow> manifest_entry list \<Rightarrow> bool \<times> string list" where
  "scan_manifests os arch seen [] = (False, seen)"
| "scan_manifests os arch seen (e # es) =
     (if me_os e = [] \<or> normalize_arch (me_arch e) = [] then scan_manifests os arch seen es
      else if me_os e = os \<and> normalize_arch (me_arch e) = normalize_arch arch
        then (True, seen @ [entry_platform e])
      else scan_manifests os arch (seen @ [entry_platform e]) es)"

definition image_supports_platform ::
  "manifest option \<Rightarrow> string \<Rightarrow> string \<Rightarrow> string + bool \<times> string list" where
  "image_supports_platform decoded os arch =
     (case decoded of
        None \<Rightarrow> Inl ''invalid JSON''
      | Some m \<Rightarrow>
          if mf_entries m \<noteq> [] then
            (case scan_manifests os arch [] (mf_entries m) of
               (True, platforms) \<Rightarrow> Inr (True, platforms)
             | (False, platforms) \<Rightarrow>
                 if platforms = [] then Inl ''manifest list has no platform entries''
                 else Inr (False, platforms))
          else if mf_os m = [] \<or> mf_arch m = [] then Inl ''manifest missing os/architecture''
          else Inr (mf_os m = os \<and> normalize_arch (mf_arch m) = normalize_arch arch,
                    [mf_os m @ ''/'' @ normalize_arch (mf_arch m)]))"

record platform_answers =
  pf_manifest :: "cmd_error + manifest option"
  pf_architecture :: "cmd_error + string"
  pf_os :: string
  pf_arch :: string

definition validate_image_architecture :: "platform_answers \<Rightarrow> string \<Rightarrow> gerror option" where
  "validate_image_architecture a img =
     (case pf_architecture a of
        Inl e \<Rightarrow> Some (docker_failure ''inspect'' e)
      | Inr out \<Rightarrow>
          (let got = normalize_arch (trim_space out); host = normalize_arch (pf_arch a) in
           if got = [] then Some (Errorf (''docker inspect returned empty architecture for '' @ img))
           else if got \<noteq> host
             then Some (Errorf (''image '' @ img @ '' architecture '' @ got @
                                '' does not match host architecture '' @ host))
           else None))"

definition validate_image_platform :: "platform_answers \<Rightarrow> string \<Rightarrow> gerror option" where
  "validate_image_platform a img =
     (case pf_manifest a of
        Inl (Canceled s) \<Rightarrow> Some (docker_failure ''manifest inspect'' (Canceled s))
      | Inl (Failed t) \<Rightarrow> None
      | Inr decoded \<Rightarrow>
          (case image_supports_platform decoded (pf_os a) (pf_arch a) of
             Inl warning \<Rightarrow> None
           | Inr (supported, platforms) \<Rightarrow>
               if supported then None
               else if platforms = [] \<and> str_contains img ''@sha256:''
                 then validate_image_architecture a img
               else Some (Errorf (''image '' @ img @ '' does not support host platform '' @ pf_os a @ ''/'' @
                      pf_arch a @ '' (supported: '' @ join_with '', '' platforms @ '')''))))"

section \<open>The identity of a container\<close>

record identity =
  id_id :: string
  id_name :: string
  id_labels :: gomap

datatype inspect_error = IdentityNotFound string | IdentityError gerror

definition docker_id_ok :: "string \<Rightarrow> bool" where
  "docker_id_ok i \<longleftrightarrow> length i = 64 \<and> list_all is_hex i"

text \<open>\<^verbatim>\<open>strings.SplitN(s, "\n", 3)\<close>.\<close>

definition three_lines :: "string \<Rightarrow> string list" where
  "three_lines s = (let parts = split_char CHR 0x0A s
     in take 2 parts @ (if 2 < length parts then [join_with [CHR 0x0A] (drop 2 parts)] else []))"

text \<open>
  \<open>failure\<close>: the error of the command with its output; \<open>dec_string\<close> and \<open>dec_labels\<close> are
  \<^verbatim>\<open>json.Unmarshal\<close> into a string and into a map.
\<close>

definition inspect_identity ::
  "(string \<Rightarrow> string option) \<Rightarrow> (string \<Rightarrow> gomap option) \<Rightarrow> (cmd_error \<times> string) + string \<Rightarrow> string \<Rightarrow>
   inspect_error + identity" where
  "inspect_identity dec_string dec_labels answer name =
     (case answer of
        Inl (Canceled s, out) \<Rightarrow> Inl (IdentityError (docker_failure ''inspect'' (Canceled s)))
      | Inl (Failed t, out) \<Rightarrow>
          (let message = to_lower out in
           if str_contains message ''no such object'' \<or> str_contains message ''no such container''
           then Inl (IdentityNotFound name)
           else Inl (IdentityError (docker_failure ''inspect'' (Failed t))))
      | Inr out \<Rightarrow>
          (case three_lines (trim_space out) of
             [first, second, third] \<Rightarrow>
               (case dec_string first of
                  None \<Rightarrow> Inl (IdentityError (Errorf ''decode docker container ID''))
                | Some i \<Rightarrow>
                    if \<not> docker_id_ok i then Inl (IdentityError (Errorf ''decode docker container ID''))
                    else (case dec_string second of
                        None \<Rightarrow> Inl (IdentityError (Errorf ''decode docker container name''))
                      | Some n \<Rightarrow>
                          (case dec_labels third of
                             None \<Rightarrow> Inl (IdentityError (Errorf ''decode docker container labels''))
                           | Some labels \<Rightarrow>
                               Inr \<lparr>id_id = i, id_name = trim_prefix n ''/'', id_labels = labels\<rparr>)))
           | _ \<Rightarrow> Inl (IdentityError (Errorf ''docker inspect returned incomplete identity''))))"

section \<open>Cleaning up a failed run\<close>

definition label_launch_nonce :: string where "label_launch_nonce = ''io.yokai.launch.nonce''"

definition provenance_keys :: "string list" where
  "provenance_keys = [label_deployment, label_generation, label_role]"

definition label_set :: "gomap \<Rightarrow> string \<Rightarrow> bool" where
  "label_set labels k \<longleftrightarrow> trim_space (map_get labels k) \<noteq> []"

text \<open>The labels a container must carry to be removed; \<open>None\<close> when nothing may be removed.\<close>

definition cleanup_expected :: "gomap \<Rightarrow> gomap option" where
  "cleanup_expected labels =
     (let set_keys = filter (label_set labels) provenance_keys;
          extra = (if length set_keys = length provenance_keys
                   then map (\<lambda>k. (k, map_get labels k)) provenance_keys
                   else [(label_launch_nonce, map_get labels label_launch_nonce)]);
          expected = [(label_managed, ''true''), (label_ownership, ''managed'')] @ extra
      in if map_get labels label_managed \<noteq> ''true'' \<or> map_get labels label_ownership \<noteq> ''managed'' then None
         else if length set_keys \<noteq> 0 \<and> length set_keys \<noteq> length provenance_keys then None
         else if list_ex (\<lambda>(k, v). trim_space v = []) expected then None
         else Some expected)"

text \<open>What one attempt sees: the inspection by name and the outcome of a removal by ID.\<close>

record cleanup_deps =
  cd_inspect :: "string \<Rightarrow> inspect_error + identity"
  cd_remove :: "string \<Rightarrow> bool"

definition cleanup_failed_run ::
  "gomap \<Rightarrow> string \<Rightarrow> cleanup_deps \<Rightarrow> bool \<times> docker_event list" where
  "cleanup_failed_run labels name deps =
     (case cleanup_expected labels of
        None \<Rightarrow> (False, [])
      | Some expected \<Rightarrow>
          (case cd_inspect deps name of
             Inl e \<Rightarrow> (False, [])
           | Inr c \<Rightarrow>
               if id_name c \<noteq> name then (False, [])
               else if list_ex (\<lambda>(k, v). map_get (id_labels c) k \<noteq> v) expected then (False, [])
               else (cd_remove deps (id_id c), [EvRemove (id_id c)])))"

text \<open>
  \<^verbatim>\<open>cleanupFailedManagedRunEventually\<close>: one entry per attempt made before the settle
  deadline; the first attempt is always made.
\<close>

fun cleanup_eventually ::
  "gomap \<Rightarrow> string \<Rightarrow> cleanup_deps list \<Rightarrow> bool \<times> docker_event list" where
  "cleanup_eventually labels name [] = (False, [])"
| "cleanup_eventually labels name (d # ds) =
     (case cleanup_failed_run labels name d of
        (True, evs) \<Rightarrow> (True, evs)
      | (False, evs) \<Rightarrow> (let (ok, more) = cleanup_eventually labels name ds in (ok, evs @ more)))"

section \<open>Running\<close>

definition legacy_nonce_applies :: "gomap \<Rightarrow> bool" where
  "legacy_nonce_applies labels \<longleftrightarrow>
     map_get labels label_managed = ''true'' \<and> map_get labels label_ownership = ''managed'' \<and>
     \<not> list_ex (label_set labels) provenance_keys"

definition prepare_legacy_nonce :: "string option \<Rightarrow> container_request \<Rightarrow> gerror + container_request" where
  "prepare_legacy_nonce random r =
     (if \<not> legacy_nonce_applies (lr_labels r) then Inr r
      else (case random of
          None \<Rightarrow> Inl (Errorf ''generate legacy launch identity'')
        | Some bytes \<Rightarrow> Inr (r\<lparr>lr_labels :=
            map_put label_launch_nonce (concat (map (hex_byte \<circ> of_char) bytes)) (lr_labels r)\<rparr>)))"

definition is_qwen_bkc :: "container_request \<Rightarrow> bool" where
  "is_qwen_bkc r \<longleftrightarrow> map_get (lr_labels r) label_bkc_id = qwen38_dual_id"

definition rewrite_llamacpp :: "string \<Rightarrow> container_request \<Rightarrow> container_request" where
  "rewrite_llamacpp gguf r =
     (if \<not> is_llamacpp_image (lr_image r) then r
      else (let r1 = (if lr_model r = [] then r
              else r\<lparr>lr_volumes := Some (ensure_models_volume (made (lr_volumes r))),
                     lr_extra_args := with_llama_model_arg (lr_extra_args r)
                       (if gguf = [] then lr_model r else gguf)\<rparr>)
        in r1\<lparr>lr_ports := Some (normalize_service_ports (made (lr_ports r1)) ''8080''),
              lr_extra_args := with_host_arg (lr_extra_args r1) ''--host'' ''0.0.0.0''\<rparr>))"

definition rewrite_vllm :: "string \<Rightarrow> container_request \<Rightarrow> container_request" where
  "rewrite_vllm gguf r =
     (if \<not> is_vllm_image (lr_image r) then r
      else (let r1 = (if lr_model r = [] then r
              else r\<lparr>lr_volumes := Some (if is_qwen_bkc r then made (lr_volumes r)
                                         else ensure_hf_cache_volume (made (lr_volumes r))),
                     lr_extra_args :=
                       (if gguf = [] then with_vllm_model_arg (lr_extra_args r) (lr_model r)
                        else with_vllm_model_arg (with_vllm_tokenizer_arg (lr_extra_args r) (lr_model r)) gguf)\<rparr>)
        in if is_qwen_bkc r then r1
           else r1\<lparr>lr_ports := Some (normalize_service_ports (made (lr_ports r1)) ''8000''),
                   lr_extra_args := with_vllm_tool_call_args
                     (with_host_arg (lr_extra_args r1) ''--host'' ''0.0.0.0'') (lr_model r1)\<rparr>))"

definition rewrite_sglang :: "container_request \<Rightarrow> container_request" where
  "rewrite_sglang r =
     (if \<not> is_sglang_image (lr_image r) then r
      else (let r1 = (if lr_model r = [] then r
              else r\<lparr>lr_volumes := Some (ensure_hf_cache_volume (made (lr_volumes r)))\<rparr>)
        in r1\<lparr>lr_ports := Some (normalize_service_ports (made (lr_ports r1)) ''30000''),
              lr_extra_args := with_host_arg (with_sglang_serve_args (lr_extra_args r1) (lr_model r1))
                ''--host'' ''0.0.0.0''\<rparr>))"

definition rewrite_comfyui :: "container_request \<Rightarrow> container_request" where
  "rewrite_comfyui r =
     (if is_comfyui_image (lr_image r)
      then r\<lparr>lr_ports := Some (normalize_service_ports (made (lr_ports r)) ''8188'')\<rparr> else r)"

text \<open>What one run asks of its surroundings.\<close>

record run_answers =
  ru_platform :: platform_answers
  ru_assets :: "string \<Rightarrow> asset_answers"
  ru_plugin_root :: string
  ru_gguf :: gguf_answers
  ru_qwen_assets :: "gerror + string"
  ru_nonce :: "string option"
  ru_cache_failure :: "container_request \<Rightarrow> string"
  ru_admission :: "gerror option"
  ru_tenants :: "gerror + nat"
  ru_docker :: "string list \<Rightarrow> string + string"
  ru_cleanups :: "cleanup_deps list"

text \<open>Everything up to the Docker command: the request as it will be run.\<close>

definition rewrite_request :: "run_answers \<Rightarrow> container_request \<Rightarrow> gerror + container_request" where
  "rewrite_request a r =
     (case apply_plugins (ru_assets a) (ru_plugin_root a) r of
        Inl e \<Rightarrow> Inl e
      | Inr r1 \<Rightarrow>
     (case fst (ensure_gguf_files (ru_gguf a) r1) of
        Inl e \<Rightarrow> Inl e
      | Inr gguf \<Rightarrow>
     (let r2 = (if gguf = [] then r1 else r1\<lparr>lr_volumes := Some (ensure_gguf_volume (made (lr_volumes r1)))\<rparr>);
          r3 = rewrite_sglang (rewrite_vllm gguf (rewrite_llamacpp gguf r2))
      in case apply_sglang_patch r3 of
        Inl e \<Rightarrow> Inl e
      | Inr r4 \<Rightarrow>
     (case apply_qwen38_patch (ru_qwen_assets a) r4 of
        Inl e \<Rightarrow> Inl e
      | Inr r5 \<Rightarrow>
          (case (if is_sglang_image (lr_image r) \<or> is_qwen_bkc r5 then validate_container_runtime r5 else None) of
             Some e \<Rightarrow> Inl e
           | None \<Rightarrow> prepare_legacy_nonce (ru_nonce a) (rewrite_comfyui r5))))))"

definition qwen_launch_gate :: "run_answers \<Rightarrow> container_request \<Rightarrow> gerror option" where
  "qwen_launch_gate a r =
     (if \<not> is_qwen_bkc r then None
      else if ru_cache_failure a r \<noteq> []
        then Some (Errorf (''validate Qwen3.8 page-cache release targets: '' @ ru_cache_failure a r))
      else (case ru_admission a of
        Some e \<Rightarrow> Some (Wrapf ''wait for Qwen3.8 GPU admission: '' e [])
      | None \<Rightarrow>
      (case ru_tenants a of
        Inl e \<Rightarrow> Some (Wrapf ''verify idle GPU immediately before Qwen3.8 docker run: '' e [])
      | Inr n \<Rightarrow>
          if n \<noteq> 0
          then Some (Errorf ''GPU has an active compute tenant immediately before Qwen3.8 docker run'')
          else None)))"

text \<open>\<open>containerID[:12]\<close> panics on a shorter output.\<close>

definition short_run_id :: "string \<Rightarrow> gerror + string" where
  "short_run_id out = (let i = trim_space out in
     if length i < 12 then Inl (GoPanic ''slice bounds out of range'') else Inr (take 12 i))"

definition run_container ::
  "run_answers \<Rightarrow> container_request \<Rightarrow> (gerror + string) \<times> docker_event list" where
  "run_container a r =
     (case validate_container_runtime r of
        Some e \<Rightarrow> (Inl e, [])
      | None \<Rightarrow>
     (case validate_image_platform (ru_platform a) (lr_image r) of
        Some e \<Rightarrow> (Inl e, [])
      | None \<Rightarrow>
     (case rewrite_request a r of
        Inl e \<Rightarrow> (Inl e, [])
      | Inr q \<Rightarrow>
     (case qwen_launch_gate a q of
        Some e \<Rightarrow> (Inl e, [])
      | None \<Rightarrow>
     (let name = normalized_name (lr_name r); argv = build_run_args q name
      in case ru_docker a argv of
           Inr out \<Rightarrow> (short_run_id out, [EvRun argv])
         | Inl e \<Rightarrow>
             (Inl (Wrapf ''docker run failed: '' (Errorf e) []),
              EvRun argv #
              (if complete_provenance q then snd (cleanup_eventually (lr_labels q) name (ru_cleanups a))
               else (case ru_cleanups a of [] \<Rightarrow> [] | d # ds \<Rightarrow> snd (cleanup_failed_run (lr_labels q) name d)))))))))"

section \<open>Restarting\<close>

record mount =
  mt_type :: string
  mt_source :: string
  mt_destination :: string
  mt_rw :: bool

fun scan_mounts :: "string \<Rightarrow> mount list \<Rightarrow> gerror + string" where
  "scan_mounts found [] = Inr found"
| "scan_mounts found (m # ms) =
     (if mt_destination m \<noteq> qwen38_container_root then scan_mounts found ms
      else (let clean = path_clean (mt_source m) in
        if found \<noteq> [] \<or> mt_type m \<noteq> ''bind'' \<or> mt_rw m \<or> \<not> path_is_abs clean \<or> clean = ''/'' \<or>
           path_base clean \<noteq> qwen38_hf_cache_dir
        then Inl (Errorf ''container does not have one exact read-only pinned Hugging Face repository mount'')
        else scan_mounts clean ms))"

definition inspect_qwen_snapshot_path :: "cmd_error + mount list option \<Rightarrow> gerror + string" where
  "inspect_qwen_snapshot_path answer =
     (case answer of
        Inl (Canceled s) \<Rightarrow> Inl (docker_failure ''inspect'' (Canceled s))
      | Inl (Failed t) \<Rightarrow> Inl (docker_failure ''inspect mounts'' (Failed t))
      | Inr None \<Rightarrow> Inl (Errorf ''decode docker container mounts'')
      | Inr (Some mounts) \<Rightarrow>
          (case scan_mounts [] mounts of
             Inl e \<Rightarrow> Inl e
           | Inr found \<Rightarrow>
               if found = [] then Inl (Errorf ''container is missing the pinned Hugging Face repository mount'')
               else Inr (path_join [found, ''snapshots'', qwen38_revision])))"

record restart_deps =
  rd_inspect :: "string \<Rightarrow> inspect_error + identity"
  rd_admission :: "gerror option"
  rd_snapshot_path :: "string \<Rightarrow> gerror + string"
  rd_validate_snapshot :: "string \<Rightarrow> string \<Rightarrow> gerror option"
  rd_tenants :: "gerror + nat"
  rd_restart :: "string \<Rightarrow> gerror option"

definition inspect_failure :: "inspect_error \<Rightarrow> gerror" where
  "inspect_failure e =
     (case e of IdentityNotFound n \<Rightarrow> Errorf (''container identity not found: '' @ n) | IdentityError g \<Rightarrow> g)"

text \<open>The checks for a Qwen3.8 container, in order.\<close>

definition qwen_restart_gate :: "restart_deps \<Rightarrow> identity \<Rightarrow> gerror option" where
  "qwen_restart_gate d c =
     (let labels = id_labels c; role = map_get labels label_role in
      if role \<noteq> role_head \<and> role \<noteq> role_worker
        then Some (Errorf ''refuse Qwen3.8 restart with invalid deployment role'')
      else if map_get labels label_model_revision \<noteq> qwen38_revision
        then Some (Errorf ''refuse Qwen3.8 restart without pinned model revision'')
      else (case rd_admission d of
        Some e \<Rightarrow> Some (Wrapf ''wait for Qwen3.8 GPU admission before restart: '' e [])
      | None \<Rightarrow>
      (case rd_snapshot_path d (id_id c) of
        Inl e \<Rightarrow> Some (Wrapf ''inspect pinned Qwen3.8 snapshot before restart: '' e [])
      | Inr path \<Rightarrow>
      (case rd_validate_snapshot d path (map_get labels label_model_revision) of
        Some e \<Rightarrow> Some (Wrapf ''verify pinned Qwen3.8 snapshot before restart: '' e [])
      | None \<Rightarrow>
      (case rd_tenants d of
        Inl e \<Rightarrow> Some (Wrapf ''verify idle GPU immediately before Qwen3.8 restart: '' e [])
      | Inr n \<Rightarrow>
          if n \<noteq> 0
          then Some (Errorf ''GPU has an active compute tenant immediately before Qwen3.8 restart'')
          else None)))))"

definition restart_container :: "restart_deps \<Rightarrow> string \<Rightarrow> gerror option \<times> docker_event list" where
  "restart_container d id_or_name =
     (case rd_inspect d id_or_name of
        Inl e \<Rightarrow> (Some (Wrapf ''inspect container before restart: '' (inspect_failure e) []), [])
      | Inr c \<Rightarrow>
          if map_get (id_labels c) label_bkc_id = qwen38_dual_id then
            (case qwen_restart_gate d c of
               Some e \<Rightarrow> (Some e, [])
             | None \<Rightarrow> (rd_restart d (id_id c), [EvRestart (id_id c)]))
          else (rd_restart d id_or_name, [EvRestart id_or_name]))"

end
