(* ===== verification/Docker_Handlers.thy ===== *)
theory Docker_Handlers
  imports Docker_Run Log_Tail
begin

text \<open>
  The container handlers of \<^verbatim>\<open>internal/agent/server.go\<close>: deploying, stopping, removing and
  restarting a container through the legacy API and through the deployment-member API, the
  log tail of a member, the image pull, and the bounded output buffer of \<^verbatim>\<open>docker.go\<close>. A
  reply is an HTTP status with the error code, or the status word of a success. Whether a
  barrier of \<^verbatim>\<open>deployment_launch.go\<close> was free or settled is an argument here;
  \<open>Docker_Barrier\<close> models the barriers themselves.
\<close>

datatype reply = Reply int string

section \<open>Pulling images\<close>

definition new_bounded_buffer :: "int \<Rightarrow> nat" where
  "new_bounded_buffer limit = (if limit \<le> 0 then 8192 else nat limit)"

definition bounded_write :: "nat \<Rightarrow> string \<Rightarrow> string \<Rightarrow> string" where
  "bounded_write limit buf p =
     (let b = buf @ p in if length b > limit then drop (length b - limit) b else b)"

definition docker_output_tail :: "string \<Rightarrow> string" where
  "docker_output_tail out =
     (let ls = split_char CHR 0x0A (trim_space out)
      in join_with [CHR 0x0A] (if length ls > 8 then drop (length ls - 8) ls else ls))"

text \<open>The chunks the command wrote, and how it ended.\<close>

definition pull_image :: "string list \<Rightarrow> cmd_error option \<Rightarrow> string \<Rightarrow> gerror option \<times> docker_event list" where
  "pull_image chunks ended img =
     (case ended of
        None \<Rightarrow> (None, [EvPull img])
      | Some (Canceled s) \<Rightarrow> (Some (docker_failure ''pull'' (Canceled s)), [EvPull img])
      | Some (Failed t) \<Rightarrow>
          (let detail = docker_output_tail (foldl (bounded_write (new_bounded_buffer 8192)) [] chunks)
           in (Some (if detail = [] then Wrapf ''docker pull failed: '' (Errorf t) []
                     else Wrapf ''docker pull failed: '' (Errorf t) ('' ('' @ detail @ '')'')), [EvPull img])))"

definition image_pull_handler :: "string list \<Rightarrow> cmd_error option \<Rightarrow> string option \<Rightarrow> reply \<times> docker_event list" where
  "image_pull_handler chunks ended body =
     (case body of
        None \<Rightarrow> (Reply 400 ''invalid_json'', [])
      | Some img \<Rightarrow>
          if img = [] then (Reply 400 ''missing_image'', [])
          else (case pull_image chunks ended img of
              (Some e, evs) \<Rightarrow> (Reply 500 ''pull_failed'', evs)
            | (None, evs) \<Rightarrow> (Reply 200 ''pulled'', evs)))"

section \<open>Deploying\<close>

definition default_label :: "string \<Rightarrow> string \<Rightarrow> container_request \<Rightarrow> container_request" where
  "default_label k v r =
     (if map_get (lr_labels r) k = [] then r\<lparr>lr_labels := map_put k v (lr_labels r)\<rparr> else r)"

definition mark_managed :: "container_request \<Rightarrow> container_request" where
  "mark_managed r = default_label label_ownership ''managed'' (default_label label_managed ''true'' r)"

definition auth_reply :: "auth_error \<Rightarrow> reply" where
  "auth_reply e =
     (case e of
        AuthUnavailable \<Rightarrow> Reply 503 ''coordinator_authorization_unavailable''
      | AuthReplay \<Rightarrow> Reply 409 ''coordinator_authorization_replayed''
      | AuthUnexpected \<Rightarrow> Reply 400 ''unexpected_launch_authorization''
      | _ \<Rightarrow> Reply 403 ''coordinator_authorization_invalid'')"

record deploy_env =
  de_agent :: agent
  de_now :: int
  de_prepare :: prepare_answers
  de_fault :: consume_fault
  de_kept :: "string \<Rightarrow> bool"
  de_launch_busy :: bool
  de_pull_chunks :: "string list"
  de_pull_end :: "cmd_error option"
  de_run :: run_answers

definition fetch_image :: "deploy_env \<Rightarrow> container_request \<Rightarrow> reply option \<times> docker_event list" where
  "fetch_image env r =
     (if lr_skip_pull r then (None, [])
      else (case validate_image_platform (ru_platform (de_run env)) (lr_image r) of
          Some e \<Rightarrow> (Some (Reply 400 ''unsupported_platform''), [])
        | None \<Rightarrow>
            (case pull_image (de_pull_chunks env) (de_pull_end env) (lr_image r) of
               (Some e, evs) \<Rightarrow> (Some (Reply 500 ''pull_failed''), evs)
             | (None, evs) \<Rightarrow> (None, evs))))"

definition launch_request_now :: "deploy_env \<Rightarrow> container_request \<Rightarrow> reply \<times> docker_event list" where
  "launch_request_now env r =
     (case fetch_image env r of
        (Some rep, evs) \<Rightarrow> (rep, evs)
      | (None, evs) \<Rightarrow>
          (case validate_image_architecture (ru_platform (de_run env)) (lr_image r) of
             Some e \<Rightarrow> (Reply 400 ''unsupported_platform'', evs)
           | None \<Rightarrow>
               (case run_container (de_run env) r of
                  (Inl e, evs2) \<Rightarrow> (Reply 500 ''deploy_failed'', evs @ evs2)
                | (Inr i, evs2) \<Rightarrow> (Reply 201 i, evs @ evs2))))"

definition container_deploy ::
  "deploy_env \<Rightarrow> replay_dir \<Rightarrow> container_request option \<Rightarrow> reply \<times> docker_event list \<times> replay_dir" where
  "container_deploy env dir body =
     (case body of
        None \<Rightarrow> (Reply 400 ''invalid_json'', [], dir)
      | Some r0 \<Rightarrow>
          if lr_image r0 = [] then (Reply 400 ''missing_image'', [], dir)
          else if lr_name r0 = [] then (Reply 400 ''missing_name'', [], dir)
          else if validate_container_runtime r0 \<noteq> None then (Reply 400 ''invalid_runtime'', [], dir)
          else (let r = mark_managed r0 in
            case authorize (de_agent env) r (de_now env) (de_prepare env) (de_fault env) (de_kept env) dir of
              (Some e, dir') \<Rightarrow> (auth_reply e, [], dir')
            | (None, dir') \<Rightarrow>
                if complete_provenance r \<and> de_launch_busy env then (Reply 409 ''launch_in_progress'', [], dir')
                else (case launch_request_now env r of (rep, evs) \<Rightarrow> (rep, evs, dir'))))"

section \<open>The legacy lifecycle API\<close>

record lifecycle_env =
  le_inspect :: "string \<Rightarrow> inspect_error + identity"
  le_stop_busy :: bool
  le_stop_settled :: bool
  le_launch_settled :: bool
  le_exists :: bool
  le_stop :: "gerror option"
  le_remove :: "gerror option"
  le_restart :: restart_deps

definition reject_legacy_grouped :: "lifecycle_env \<Rightarrow> string \<Rightarrow> reply option" where
  "reject_legacy_grouped env i =
     (case le_inspect env i of
        Inl (IdentityNotFound n) \<Rightarrow> None
      | Inl (IdentityError e) \<Rightarrow> Some (Reply 503 ''container_identity_unavailable'')
      | Inr c \<Rightarrow> if map_get (id_labels c) label_deployment = [] then None
                 else Some (Reply 409 ''grouped_deployment_required''))"

definition stop_reply :: "lifecycle_env \<Rightarrow> string \<Rightarrow> reply \<times> docker_event list" where
  "stop_reply env i =
     (if le_stop_busy env then (Reply 409 ''container_stop_in_progress'', [])
      else (if le_stop env \<noteq> None then Reply 500 ''stop_failed'' else Reply 200 ''stopped'', [EvStop i]))"

definition container_stop :: "lifecycle_env \<Rightarrow> string \<Rightarrow> reply \<times> docker_event list" where
  "container_stop env i =
     (if i = [] then (Reply 400 ''missing_id'', [])
      else (case reject_legacy_grouped env i of
          Some rep \<Rightarrow> (rep, [])
        | None \<Rightarrow> stop_reply env i))"

definition container_delete :: "lifecycle_env \<Rightarrow> string \<Rightarrow> reply \<times> docker_event list" where
  "container_delete env i =
     (if i = [] then (Reply 400 ''missing_id'', [])
      else (case reject_legacy_grouped env i of
          Some rep \<Rightarrow> (rep, [])
        | None \<Rightarrow>
            if \<not> le_stop_settled env then (Reply 503 ''container_stop_in_progress'', [])
            else if \<not> le_exists env then (Reply 404 ''container_not_found'', [])
            else (if le_remove env \<noteq> None then Reply 500 ''remove_failed'' else Reply 200 ''removed'',
                  [EvStop i, EvRemove i])))"

definition restart_reply :: "lifecycle_env \<Rightarrow> string \<Rightarrow> reply \<times> docker_event list" where
  "restart_reply env i =
     (case restart_container (le_restart env) i of
        (Some e, evs) \<Rightarrow> (Reply 500 ''restart_failed'', evs)
      | (None, evs) \<Rightarrow> (Reply 200 ''restarted'', evs))"

definition container_restart :: "lifecycle_env \<Rightarrow> string \<Rightarrow> reply \<times> docker_event list" where
  "container_restart env i =
     (if i = [] then (Reply 400 ''missing_id'', [])
      else (case reject_legacy_grouped env i of
          Some rep \<Rightarrow> (rep, [])
        | None \<Rightarrow>
            if \<not> le_stop_settled env then (Reply 503 ''container_stop_in_progress'', [])
            else if \<not> le_exists env then (Reply 404 ''container_not_found'', [])
            else restart_reply env i))"

section \<open>The deployment-member API\<close>

text \<open>The member a request names: the path and the query.\<close>

record member_query =
  mq_id :: string
  mq_deployment :: string
  mq_generation :: string
  mq_role :: string
  mq_name :: string

definition member_expected :: "member_query \<Rightarrow> gomap" where
  "member_expected q =
     [(label_managed, ''true''), (label_ownership, ''managed''), (label_deployment, mq_deployment q),
      (label_generation, mq_generation q), (label_role, mq_role q)]"

definition validate_member_provenance :: "string \<Rightarrow> gomap \<Rightarrow> member_query \<Rightarrow> gerror option" where
  "validate_member_provenance name labels q =
     (if list_ex (\<lambda>(k, v). v = [] \<or> map_get labels k \<noteq> v) (member_expected q)
        then Some (Errorf ''container provenance does not match expected deployment member'')
      else if mq_name q = [] \<or> name \<noteq> mq_name q
        then Some (Errorf ''container name does not match expected deployment member'')
      else None)"

definition member_provenance :: "lifecycle_env \<Rightarrow> member_query \<Rightarrow> inspect_error + gomap" where
  "member_provenance env q =
     (case le_inspect env (mq_id q) of
        Inl e \<Rightarrow> Inl e
      | Inr c \<Rightarrow>
          (case validate_member_provenance (id_name c) (id_labels c) q of
             Some e \<Rightarrow> Inl (IdentityError e)
           | None \<Rightarrow> Inr (id_labels c)))"

definition member_stop :: "lifecycle_env \<Rightarrow> member_query \<Rightarrow> reply \<times> docker_event list" where
  "member_stop env q =
     (case member_provenance env q of
        Inl e \<Rightarrow> (Reply 409 ''deployment_member_mismatch'', [])
      | Inr labels \<Rightarrow> stop_reply env (mq_id q))"

definition member_delete :: "lifecycle_env \<Rightarrow> member_query \<Rightarrow> reply \<times> docker_event list" where
  "member_delete env q =
     (if \<not> le_launch_settled env then (Reply 503 ''deployment_launch_in_progress'', [])
      else if \<not> le_stop_settled env then (Reply 503 ''container_stop_in_progress'', [])
      else (case member_provenance env q of
          Inl (IdentityNotFound n) \<Rightarrow> (Reply 404 ''container_not_found'', [])
        | Inl (IdentityError e) \<Rightarrow> (Reply 409 ''deployment_member_mismatch'', [])
        | Inr labels \<Rightarrow>
            (if le_remove env \<noteq> None then Reply 500 ''remove_failed'' else Reply 200 ''removed'',
             [EvRemove (mq_id q)])))"

definition member_restart :: "lifecycle_env \<Rightarrow> member_query \<Rightarrow> reply \<times> docker_event list" where
  "member_restart env q =
     (case member_provenance env q of
        Inl e \<Rightarrow> (Reply 409 ''deployment_member_mismatch'', [])
      | Inr labels \<Rightarrow>
          if \<not> le_stop_settled env then (Reply 503 ''container_stop_in_progress'', [])
          else restart_reply env (mq_id q))"

section \<open>Logs\<close>

definition qwen_head_labels :: "gomap \<Rightarrow> bool" where
  "qwen_head_labels labels \<longleftrightarrow>
     map_get labels label_bkc_id = qwen38_dual_id \<and> map_get labels label_role = role_head"

text \<open>\<^verbatim>\<open>rejectGenericGroupedLogs\<close>: a reply when the generic log stream is refused.\<close>

definition reject_generic_logs :: "lifecycle_env \<Rightarrow> string \<Rightarrow> reply option" where
  "reject_generic_logs env i =
     (case le_inspect env i of
        Inl (IdentityNotFound n) \<Rightarrow> Some (Reply 404 ''container_not_found'')
      | Inl (IdentityError e) \<Rightarrow> Some (Reply 503 ''container_identity_unavailable'')
      | Inr c \<Rightarrow>
          if qwen_head_labels (id_labels c) then Some (Reply 409 ''qwen_rank_zero_logs_unavailable'')
          else if map_get (id_labels c) label_deployment = [] then None
          else Some (Reply 409 ''grouped_deployment_required''))"

definition token_value_ok :: "string \<Rightarrow> bool" where
  "token_value_ok s \<longleftrightarrow> s = [] \<or> (length s \<le> 512 \<and> \<not> has_space s \<and> \<not> has_control s)"

text \<open>
  \<open>body\<close>: the redaction value of the request, \<open>None\<close> for a body that does not decode;
  \<open>captured\<close>: the error or output of \<^verbatim>\<open>docker logs\<close>, with whether bytes were lost.
\<close>

definition member_log_tail ::
  "lifecycle_env \<Rightarrow> member_query \<Rightarrow> string option \<Rightarrow> string \<times> bool \<times> gerror option \<Rightarrow>
   reply \<times> (string \<times> bool) option" where
  "member_log_tail env q body captured =
     (if \<not> le_launch_settled env then (Reply 503 ''deployment_launch_in_progress'', None)
      else (case member_provenance env q of
          Inl (IdentityNotFound n) \<Rightarrow> (Reply 404 ''container_not_found'', None)
        | Inl (IdentityError e) \<Rightarrow> (Reply 409 ''deployment_member_mismatch'', None)
        | Inr labels \<Rightarrow>
            if qwen_head_labels labels then (Reply 409 ''qwen_rank_zero_logs_unavailable'', None)
            else (case body of
                None \<Rightarrow> (Reply 400 ''invalid_json'', None)
              | Some redact \<Rightarrow>
                  if \<not> token_value_ok redact then (Reply 400 ''invalid_redaction'', None)
                  else (case captured of (output, lost, err) \<Rightarrow>
                    (case capture_container_log_tail output lost err redact of
                       Inl e \<Rightarrow> (Reply 500 ''logs_failed'', None)
                     | Inr tail \<Rightarrow> (Reply 200 [], Some tail))))))"

end
