(* ===== verification/Docker_Barrier.thy ===== *)
theory Docker_Barrier
  imports Docker_Handlers
begin

text \<open>
  The operation barriers of \<^verbatim>\<open>internal/agent/deployment_launch.go\<close>: a registry of the names
  with an operation under way, each with the channel its waiters block on. The step relation
  interleaves the handlers that use one registry: launches (\<^verbatim>\<open>handleContainerDeploy\<close>) that
  begin and finish, and removals (\<^verbatim>\<open>handleDeploymentMemberDelete\<close>) that look the name up and
  wait. Channels are numbered in the order they are made; a closed channel stays closed.
\<close>

section \<open>The registry\<close>

record registry =
  rg_active :: "(string \<times> nat) list"
  rg_closed :: "nat list"
  rg_next :: nat

definition empty_registry :: registry where
  "empty_registry = \<lparr>rg_active = [], rg_closed = [], rg_next = 0\<rparr>"

definition barrier_begin :: "string \<Rightarrow> registry \<Rightarrow> (nat \<times> registry) option" where
  "barrier_begin name g =
     (case map_of (rg_active g) name of
        Some c \<Rightarrow> None
      | None \<Rightarrow> Some (rg_next g,
          g\<lparr>rg_active := map_put name (rg_next g) (rg_active g), rg_next := Suc (rg_next g)\<rparr>))"

text \<open>The function \<^verbatim>\<open>begin\<close> returns; calling it again changes nothing.\<close>

definition barrier_finish :: "string \<Rightarrow> nat \<Rightarrow> registry \<Rightarrow> registry" where
  "barrier_finish name c g =
     (if map_of (rg_active g) name = Some c
      then g\<lparr>rg_active := AList.delete name (rg_active g), rg_closed := c # rg_closed g\<rparr>
      else g)"

text \<open>\<^verbatim>\<open>wait\<close>: the channel to block on, \<open>None\<close> to go on at once.\<close>

definition barrier_lookup :: "string \<Rightarrow> registry \<Rightarrow> nat option" where
  "barrier_lookup name g = map_of (rg_active g) name"

section \<open>Interleaved handlers\<close>

text \<open>
  \<open>running\<close>: the launches under way, by channel; \<open>waiting\<close>: the removals blocked, each with its
  name, its channel and the launches of its name that ran when it looked; \<open>passed\<close>: the
  removals that went past the barrier, with the same launches.
\<close>

record barrier_state =
  bs_registry :: registry
  bs_running :: "(nat \<times> string) list"
  bs_waiting :: "(string \<times> nat \<times> nat list) list"
  bs_passed :: "(string \<times> nat list) list"

definition barrier_start :: barrier_state where
  "barrier_start = \<lparr>bs_registry = empty_registry, bs_running = [], bs_waiting = [], bs_passed = []\<rparr>"

definition launches_of :: "string \<Rightarrow> barrier_state \<Rightarrow> nat list" where
  "launches_of name s = map fst (filter (\<lambda>(c, n). n = name) (bs_running s))"

inductive barrier_step :: "barrier_state \<Rightarrow> barrier_state \<Rightarrow> bool" where
  launch_begin: "barrier_begin name (bs_registry s) = Some (c, g) \<Longrightarrow>
    barrier_step s (s\<lparr>bs_registry := g, bs_running := (c, name) # bs_running s\<rparr>)"
| launch_refused: "barrier_begin name (bs_registry s) = None \<Longrightarrow> barrier_step s s"
| launch_finish: "(c, name) \<in> set (bs_running s) \<Longrightarrow>
    barrier_step s (s\<lparr>bs_registry := barrier_finish name c (bs_registry s),
                      bs_running := removeAll (c, name) (bs_running s)\<rparr>)"
| remove_free: "barrier_lookup name (bs_registry s) = None \<Longrightarrow>
    barrier_step s (s\<lparr>bs_passed := (name, launches_of name s) # bs_passed s\<rparr>)"
| remove_block: "barrier_lookup name (bs_registry s) = Some c \<Longrightarrow>
    barrier_step s (s\<lparr>bs_waiting := (name, c, launches_of name s) # bs_waiting s\<rparr>)"
| remove_pass: "(name, c, ls) \<in> set (bs_waiting s) \<Longrightarrow> c \<in> set (rg_closed (bs_registry s)) \<Longrightarrow>
    barrier_step s (s\<lparr>bs_waiting := removeAll (name, c, ls) (bs_waiting s),
                      bs_passed := (name, ls) # bs_passed s\<rparr>)"
| remove_cancel: "w \<in> set (bs_waiting s) \<Longrightarrow>
    barrier_step s (s\<lparr>bs_waiting := removeAll w (bs_waiting s)\<rparr>)"

inductive barrier_reach :: "barrier_state \<Rightarrow> bool" where
  reach_start: "barrier_reach barrier_start"
| reach_step: "barrier_reach s \<Longrightarrow> barrier_step s t \<Longrightarrow> barrier_reach t"

inductive_cases barrier_stepE: "barrier_step s t"

section \<open>The invariant\<close>

lemma barrier_begin_Some:
  "barrier_begin name g = Some (c, g') \<longleftrightarrow> barrier_lookup name g = None \<and> c = rg_next g \<and>
     g' = g\<lparr>rg_active := map_put name c (rg_active g), rg_next := Suc c\<rparr>"
  by (auto simp: barrier_begin_def barrier_lookup_def split: option.split)

lemma lookup_put [simp]:
  "barrier_lookup n (g\<lparr>rg_active := map_put name c (rg_active g), rg_next := k\<rparr>) =
   (if n = name then Some c else barrier_lookup n g)"
  by (simp add: barrier_lookup_def update_conv')

lemma lookup_finish:
  "barrier_lookup n (barrier_finish name c g) =
   (if n = name \<and> barrier_lookup name g = Some c then None else barrier_lookup n g)"
  by (simp add: barrier_lookup_def barrier_finish_def AList.delete_conv')

lemma finish_closed:
  "rg_closed (barrier_finish name c g) =
   (if barrier_lookup name g = Some c then c # rg_closed g else rg_closed g)"
  "rg_next (barrier_finish name c g) = rg_next g"
  by (simp_all add: barrier_lookup_def barrier_finish_def)

lemma finish_twice: "barrier_finish name c (barrier_finish name c g) = barrier_finish name c g"
  by (simp add: barrier_finish_def AList.delete_conv')

definition channels_ok :: "registry \<Rightarrow> bool" where
  "channels_ok g \<longleftrightarrow>
     (\<forall>name c. barrier_lookup name g = Some c \<longrightarrow> c < rg_next g \<and> c \<notin> set (rg_closed g)) \<and>
     (\<forall>a b c. barrier_lookup a g = Some c \<longrightarrow> barrier_lookup b g = Some c \<longrightarrow> a = b) \<and>
     (\<forall>c \<in> set (rg_closed g). c < rg_next g)"

definition barrier_inv :: "barrier_state \<Rightarrow> bool" where
  "barrier_inv s \<longleftrightarrow>
     channels_ok (bs_registry s) \<and>
     (\<forall>c name. (c, name) \<in> set (bs_running s) \<longleftrightarrow> barrier_lookup name (bs_registry s) = Some c) \<and>
     (\<forall>name c ls. (name, c, ls) \<in> set (bs_waiting s) \<longrightarrow> set ls = {c} \<and>
        (barrier_lookup name (bs_registry s) = Some c \<or> c \<in> set (rg_closed (bs_registry s)))) \<and>
     (\<forall>name ls. (name, ls) \<in> set (bs_passed s) \<longrightarrow> set ls \<subseteq> set (rg_closed (bs_registry s)))"

lemma barrier_inv_start: "barrier_inv barrier_start"
  by (simp add: barrier_inv_def channels_ok_def barrier_start_def empty_registry_def barrier_lookup_def)

lemma launches_of_set:
  "barrier_inv s \<Longrightarrow> set (launches_of name s) = set_option (barrier_lookup name (bs_registry s))"
  by (auto simp: launches_of_def barrier_inv_def image_iff)

lemma channels_ok_begin: "channels_ok g \<Longrightarrow> barrier_begin name g = Some (c, g') \<Longrightarrow> channels_ok g'"
  by (auto simp: channels_ok_def barrier_begin_Some less_Suc_eq split: if_splits)

lemma channels_ok_finish: "channels_ok g \<Longrightarrow> channels_ok (barrier_finish name c g)"
  by (auto simp: channels_ok_def lookup_finish finish_closed split: if_splits)

lemma barrier_inv_fewer:
  assumes "barrier_inv s" and "set w \<subseteq> set (bs_waiting s)"
    and "\<And>name ls. (name, ls) \<in> set p \<Longrightarrow> set ls \<subseteq> set (rg_closed (bs_registry s))"
  shows "barrier_inv (s\<lparr>bs_waiting := w, bs_passed := p\<rparr>)"
  using assms unfolding barrier_inv_def by (simp add: subset_iff) blast

lemma barrier_inv_step:
  assumes inv: "barrier_inv s" and "barrier_step s t"
  shows "barrier_inv t"
proof -
  have ok: "channels_ok (bs_registry s)" using inv by (simp add: barrier_inv_def)
  show ?thesis using assms(2)
  proof cases
    case (launch_begin name c g)
    then have none: "barrier_lookup name (bs_registry s) = None"
      and lk: "\<And>n. barrier_lookup n (bs_registry t) = (if n = name then Some c else barrier_lookup n (bs_registry s))"
      and cl: "rg_closed (bs_registry t) = rg_closed (bs_registry s)"
      by (simp_all add: barrier_begin_Some)
    have "channels_ok (bs_registry t)"
      using channels_ok_begin [OF ok launch_begin(2)] launch_begin by simp
    moreover have "(c', n) \<in> set (bs_running t) \<longleftrightarrow> barrier_lookup n (bs_registry t) = Some c'" for c' n
      using inv launch_begin(1) none unfolding lk by (auto simp: barrier_inv_def)
    moreover have "set ls = {c'} \<and> (barrier_lookup n (bs_registry t) = Some c' \<or> c' \<in> set (rg_closed (bs_registry t)))"
      if w: "(n, c', ls) \<in> set (bs_waiting t)" for n c' ls
    proof -
      from w launch_begin have "(n, c', ls) \<in> set (bs_waiting s)" by simp
      with inv have ls: "set ls = {c'}"
        and "barrier_lookup n (bs_registry s) = Some c' \<or> c' \<in> set (rg_closed (bs_registry s))"
        unfolding barrier_inv_def by blast+
      then have "barrier_lookup n (bs_registry t) = Some c' \<or> c' \<in> set (rg_closed (bs_registry t))"
        using none lk [of n] cl by (cases "n = name") simp_all
      with ls show ?thesis by blast
    qed
    moreover have "set ls \<subseteq> set (rg_closed (bs_registry t))" if "(n, ls) \<in> set (bs_passed t)" for n ls
      using inv that launch_begin(1) unfolding cl by (simp add: barrier_inv_def)
    ultimately show ?thesis unfolding barrier_inv_def by blast
  next
    case (launch_finish c name)
    then have bt: "bs_registry t = barrier_finish name c (bs_registry s)" by simp
    have "channels_ok (bs_registry t)"
      using channels_ok_finish [OF ok, of name c] launch_finish by simp
    moreover have "(c', n) \<in> set (bs_running t) \<longleftrightarrow> barrier_lookup n (bs_registry t) = Some c'" for c' n
      using inv launch_finish by (auto simp: barrier_inv_def lookup_finish)
    moreover have "set ls = {c'} \<and> (barrier_lookup n (bs_registry t) = Some c' \<or> c' \<in> set (rg_closed (bs_registry t)))"
      if w: "(n, c', ls) \<in> set (bs_waiting t)" for n c' ls
    proof -
      from w launch_finish have "(n, c', ls) \<in> set (bs_waiting s)" by simp
      with inv have ls: "set ls = {c'}"
        and "barrier_lookup n (bs_registry s) = Some c' \<or> c' \<in> set (rg_closed (bs_registry s))"
        unfolding barrier_inv_def by blast+
      then have "barrier_lookup n (bs_registry t) = Some c' \<or> c' \<in> set (rg_closed (bs_registry t))"
        unfolding bt lookup_finish finish_closed by (cases "n = name") auto
      with ls show ?thesis by blast
    qed
    moreover have "set ls \<subseteq> set (rg_closed (bs_registry t))" if "(n, ls) \<in> set (bs_passed t)" for n ls
    proof -
      from that launch_finish(1) have "(n, ls) \<in> set (bs_passed s)" by simp
      with inv have "set ls \<subseteq> set (rg_closed (bs_registry s))" unfolding barrier_inv_def by blast
      then show ?thesis unfolding bt finish_closed by auto
    qed
    ultimately show ?thesis unfolding barrier_inv_def by blast
  next
    case (remove_free name)
    with inv launches_of_set [OF inv, of name] show ?thesis by (auto simp: barrier_inv_def)
  next
    case (remove_block name c)
    with inv launches_of_set [OF inv, of name] show ?thesis by (auto simp: barrier_inv_def)
  next
    case (remove_pass name c ls)
    with inv have ls: "set ls = {c}" unfolding barrier_inv_def by blast
    have old: "set l \<subseteq> set (rg_closed (bs_registry s))" if "(n, l) \<in> set (bs_passed s)" for n l
      using inv that unfolding barrier_inv_def by blast
    show ?thesis unfolding remove_pass(1)
    proof (rule barrier_inv_fewer [OF inv])
      fix n l
      assume "(n, l) \<in> set ((name, ls) # bs_passed s)"
      then show "set l \<subseteq> set (rg_closed (bs_registry s))"
        using ls remove_pass(3) old [of n l] by auto
    qed auto
  next
    case (remove_cancel w)
    with inv barrier_inv_fewer [OF inv, of "removeAll w (bs_waiting s)" "bs_passed s"] show ?thesis
      by (simp add: barrier_inv_def)
  qed (use inv in simp_all)
qed

lemma barrier_reach_inv: "barrier_reach s \<Longrightarrow> barrier_inv s"
  by (induction rule: barrier_reach.induct) (auto intro: barrier_inv_start barrier_inv_step)

text \<open>
  C14: in every interleaving of launches and removals, at most one launch of a name runs; a removal
  that went past the barrier met no launch of its name that still runs from before it looked; and a
  removal that waits does so for a launch under way, or may go on.
\<close>

theorem removals_wait_for_launches:
  assumes "barrier_reach s"
  shows "(\<forall>c d name. (c, name) \<in> set (bs_running s) \<longrightarrow> (d, name) \<in> set (bs_running s) \<longrightarrow> c = d) \<and>
    (\<forall>name ls c n. (name, ls) \<in> set (bs_passed s) \<longrightarrow> (c, n) \<in> set (bs_running s) \<longrightarrow> c \<notin> set ls) \<and>
    (\<forall>name c ls. (name, c, ls) \<in> set (bs_waiting s) \<longrightarrow>
       (c, name) \<in> set (bs_running s) \<or> c \<in> set (rg_closed (bs_registry s)))"
proof -
  have inv: "barrier_inv s" by (rule barrier_reach_inv [OF assms])
  then have run: "(c, name) \<in> set (bs_running s) \<longleftrightarrow> barrier_lookup name (bs_registry s) = Some c" for c name
    unfolding barrier_inv_def by blast
  have passed: "(name, ls) \<in> set (bs_passed s) \<Longrightarrow> set ls \<subseteq> set (rg_closed (bs_registry s))" for name ls
    using inv unfolding barrier_inv_def by blast
  have "channels_ok (bs_registry s)" using inv by (simp add: barrier_inv_def)
  then have "\<forall>name c. barrier_lookup name (bs_registry s) = Some c \<longrightarrow> c \<notin> set (rg_closed (bs_registry s))"
    by (simp add: channels_ok_def)
  then have live: "barrier_lookup name (bs_registry s) = Some c \<Longrightarrow> c \<notin> set (rg_closed (bs_registry s))" for name c
    by blast
  have wait: "(name, c, ls) \<in> set (bs_waiting s) \<Longrightarrow>
      barrier_lookup name (bs_registry s) = Some c \<or> c \<in> set (rg_closed (bs_registry s))" for name c ls
    using inv unfolding barrier_inv_def by blast
  show ?thesis
  proof (intro conjI allI impI)
    fix c d name
    assume "(c, name) \<in> set (bs_running s)" and "(d, name) \<in> set (bs_running s)"
    then show "c = d" unfolding run by simp
  next
    fix name ls c n
    assume p: "(name, ls) \<in> set (bs_passed s)" and "(c, n) \<in> set (bs_running s)"
    then have "c \<notin> set (rg_closed (bs_registry s))" unfolding run by (intro live)
    with passed [OF p] show "c \<notin> set ls" by blast
  next
    fix name c ls
    assume "(name, c, ls) \<in> set (bs_waiting s)"
    then show "(c, name) \<in> set (bs_running s) \<or> c \<in> set (rg_closed (bs_registry s))"
      unfolding run by (rule wait)
  qed
qed

definition barrier_sample :: barrier_state where
  "barrier_sample = \<lparr>bs_registry = \<lparr>rg_active = [], rg_closed = [0], rg_next = 1\<rparr>, bs_running = [],
     bs_waiting = [], bs_passed = [(''yokai-head'', [0])]\<rparr>"

lemma barrier_sample_reach: "barrier_reach barrier_sample"
proof -
  let ?n = "''yokai-head''"
  let ?g = "\<lparr>rg_active = [(?n, 0)], rg_closed = [], rg_next = 1\<rparr>"
  let ?s1 = "\<lparr>bs_registry = ?g, bs_running = [(0, ?n)], bs_waiting = [], bs_passed = []\<rparr>"
  let ?s2 = "?s1\<lparr>bs_waiting := [(?n, 0, [0])]\<rparr>"
  let ?s3 = "\<lparr>bs_registry = \<lparr>rg_active = [], rg_closed = [0], rg_next = 1\<rparr>, bs_running = [],
     bs_waiting = [(?n, 0, [0])], bs_passed = []\<rparr>"
  have "barrier_step barrier_start ?s1"
    using launch_begin [of ?n barrier_start 0 ?g]
    by (simp add: barrier_start_def barrier_begin_def empty_registry_def)
  moreover have "barrier_step ?s1 ?s2"
    using remove_block [of ?n ?s1 0] by (simp add: barrier_lookup_def launches_of_def)
  moreover have "barrier_step ?s2 ?s3"
    using launch_finish [of 0 ?n ?s2] by (simp add: barrier_finish_def)
  moreover have "barrier_step ?s3 barrier_sample"
    using remove_pass [of ?n 0 "[0]" ?s3] by (simp add: barrier_sample_def)
  ultimately show ?thesis by (meson reach_start reach_step)
qed

lemma removals_wait_for_launches_witness:
  "(''yokai-head'', [0]) \<in> set (bs_passed barrier_sample) \<and> (0, ''yokai-head'') \<notin> set (bs_running barrier_sample)"
  using removals_wait_for_launches [OF barrier_sample_reach] by (simp add: barrier_sample_def)

section \<open>Every wait ends\<close>

text \<open>The steps that need no new request: a launch returns, a released removal goes on.\<close>

inductive settle_step :: "barrier_state \<Rightarrow> barrier_state \<Rightarrow> bool" where
  settle_finish: "(c, name) \<in> set (bs_running s) \<Longrightarrow>
    settle_step s (s\<lparr>bs_registry := barrier_finish name c (bs_registry s),
                     bs_running := removeAll (c, name) (bs_running s)\<rparr>)"
| settle_pass: "(name, c, ls) \<in> set (bs_waiting s) \<Longrightarrow> c \<in> set (rg_closed (bs_registry s)) \<Longrightarrow>
    settle_step s (s\<lparr>bs_waiting := removeAll (name, c, ls) (bs_waiting s),
                     bs_passed := (name, ls) # bs_passed s\<rparr>)"

definition pending :: "barrier_state \<Rightarrow> nat" where
  "pending s = length (bs_running s) + length (bs_waiting s)"

lemma settle_is_step: "settle_step s t \<Longrightarrow> barrier_step s t"
  by (induction rule: settle_step.induct) (auto intro: barrier_step.intros)

lemma removeAll_shorter: "x \<in> set xs \<Longrightarrow> length (removeAll x xs) < length xs"
  by (metis length_removeAll_less)

lemma settle_pending: "settle_step s t \<Longrightarrow> pending t < pending s"
  by (induction rule: settle_step.induct) (auto simp: pending_def intro: removeAll_shorter)

lemma settle_reach: "settle_step s t \<Longrightarrow> barrier_reach s \<Longrightarrow> barrier_reach t"
  using reach_step settle_is_step by blast

definition passed_or_waiting :: "barrier_state \<Rightarrow> (string \<times> nat list) set" where
  "passed_or_waiting s = set (bs_passed s) \<union> (\<lambda>(name, c, ls). (name, ls)) ` set (bs_waiting s)"

lemma settle_keeps: "settle_step s t \<Longrightarrow> passed_or_waiting s \<subseteq> passed_or_waiting t"
  by (induction rule: settle_step.induct) (force simp: passed_or_waiting_def)+

lemma settle_enabled:
  assumes "barrier_reach s" and "bs_running s \<noteq> [] \<or> bs_waiting s \<noteq> []"
  shows "\<exists>t. settle_step s t"
proof (cases "bs_running s")
  case Nil
  then obtain name c ls where w: "(name, c, ls) \<in> set (bs_waiting s)"
    using assms(2) by (metis list.set_intros(1) neq_Nil_conv prod_cases3)
  have inv: "barrier_inv s" by (rule barrier_reach_inv [OF assms(1)])
  have "barrier_lookup name (bs_registry s) \<noteq> Some c" using inv Nil unfolding barrier_inv_def by force
  moreover have "barrier_lookup name (bs_registry s) = Some c \<or> c \<in> set (rg_closed (bs_registry s))"
    using inv w unfolding barrier_inv_def by blast
  ultimately show ?thesis using settle_pass [OF w] by blast
next
  case (Cons r rs)
  obtain c name where "r = (c, name)" by (cases r)
  with Cons settle_finish [of c name s] show ?thesis by auto
qed

lemma settles:
  "barrier_reach s \<Longrightarrow> \<exists>t. settle_step\<^sup>*\<^sup>* s t \<and> bs_running t = [] \<and> bs_waiting t = [] \<and>
     passed_or_waiting s \<subseteq> set (bs_passed t)"
proof (induction "pending s" arbitrary: s rule: less_induct)
  case less
  show ?case
  proof (cases "bs_running s \<noteq> [] \<or> bs_waiting s \<noteq> []")
    case True
    with settle_enabled [OF less.prems] obtain u where u: "settle_step s u" by blast
    from less.hyps [OF settle_pending [OF u] settle_reach [OF u less.prems]]
    obtain t where t: "settle_step\<^sup>*\<^sup>* u t" "bs_running t = []" "bs_waiting t = []"
      "passed_or_waiting u \<subseteq> set (bs_passed t)" by blast
    then show ?thesis using u settle_keeps [OF u] by (meson converse_rtranclp_into_rtranclp order_trans)
  next
    case False
    then show ?thesis by (intro exI [of _ s]) (auto simp: passed_or_waiting_def)
  qed
qed

text \<open>
  C23: no wait is forever. From every reachable state the launches under way and the waiting
  removals can settle, after which none is left and every removal has gone past the barrier; and
  every way of settling, in whatever order, ends.
\<close>

theorem barriers_settle:
  assumes "barrier_reach s"
  shows "(\<exists>t. settle_step\<^sup>*\<^sup>* s t \<and> bs_running t = [] \<and> bs_waiting t = [] \<and>
      (\<lambda>(name, c, ls). (name, ls)) ` set (bs_waiting s) \<subseteq> set (bs_passed t)) \<and>
    wfP (\<lambda>v u. settle_step u v)"
proof
  show "\<exists>t. settle_step\<^sup>*\<^sup>* s t \<and> bs_running t = [] \<and> bs_waiting t = [] \<and>
      (\<lambda>(name, c, ls). (name, ls)) ` set (bs_waiting s) \<subseteq> set (bs_passed t)"
    using settles [OF assms] by (auto simp: passed_or_waiting_def)
  show "wfP (\<lambda>v u. settle_step u v)"
    by (rule wfp_if_convertible_to_nat [of _ pending]) (rule settle_pending)
qed

definition barrier_blocked :: barrier_state where
  "barrier_blocked = \<lparr>bs_registry = \<lparr>rg_active = [(''yokai-head'', 0)], rg_closed = [], rg_next = 1\<rparr>,
     bs_running = [(0, ''yokai-head'')], bs_waiting = [(''yokai-head'', 0, [0])], bs_passed = []\<rparr>"

lemma barrier_blocked_reach: "barrier_reach barrier_blocked"
proof -
  let ?s = "barrier_blocked\<lparr>bs_waiting := []\<rparr>"
  have "barrier_step barrier_start ?s"
    using launch_begin [of "''yokai-head''" barrier_start 0 "bs_registry barrier_blocked"]
    by (simp add: barrier_start_def barrier_begin_def empty_registry_def barrier_blocked_def)
  moreover have "barrier_step ?s barrier_blocked"
    using remove_block [of "''yokai-head''" ?s 0]
    by (simp add: barrier_lookup_def launches_of_def barrier_blocked_def)
  ultimately show ?thesis by (meson reach_start reach_step)
qed

lemma barriers_settle_witness:
  "\<exists>t. settle_step\<^sup>*\<^sup>* barrier_blocked t \<and> bs_waiting t = [] \<and> (''yokai-head'', [0]) \<in> set (bs_passed t)"
  using barriers_settle [OF barrier_blocked_reach] by (auto simp: barrier_blocked_def)

end
