(* ===== verification/Docker_Properties.thy ===== *)
theory Docker_Properties
  imports Docker_Barrier Recipe_Types
begin

text \<open>
  Properties of the agent's container layer: what is removed after an ambiguous failure, who may
  change a container, what a Qwen3.8 launch or restart has checked, where GGUF files land, the
  determinism of the argument vector, and the ordering of launches and removals.
\<close>

section \<open>Removal after a failed run\<close>

text \<open>The container is the one this request would have created.\<close>

definition own_container :: "gomap \<Rightarrow> string \<Rightarrow> identity \<Rightarrow> bool" where
  "own_container labels name c \<longleftrightarrow>
     id_name c = name \<and> map_get labels label_managed = ''true'' \<and> map_get labels label_ownership = ''managed'' \<and>
     map_get (id_labels c) label_managed = ''true'' \<and> map_get (id_labels c) label_ownership = ''managed'' \<and>
     (if list_ex (label_set labels) provenance_keys
      then list_all (\<lambda>k. label_set labels k \<and> map_get (id_labels c) k = map_get labels k) provenance_keys
      else label_set labels label_launch_nonce \<and>
           map_get (id_labels c) label_launch_nonce = map_get labels label_launch_nonce)"

lemma filter_all: "length (filter p xs) = length xs \<longleftrightarrow> list_all p xs"
  by (metis filter_id_conv length_filter_less less_irrefl list_all_iff)

lemma filter_none: "length (filter p xs) = 0 \<longleftrightarrow> \<not> list_ex p xs"
  by (auto simp: filter_empty_conv list_ex_iff)

lemma cleanup_expected_Some:
  assumes "cleanup_expected labels = Some expected"
  shows "map_get labels label_managed = ''true''" and "map_get labels label_ownership = ''managed''"
    and "(label_managed, ''true'') \<in> set expected" and "(label_ownership, ''managed'') \<in> set expected"
    and "list_all (label_set labels) provenance_keys \<and>
           (\<forall>k \<in> set provenance_keys. (k, map_get labels k) \<in> set expected) \<or>
         \<not> list_ex (label_set labels) provenance_keys \<and> label_set labels label_launch_nonce \<and>
           (label_launch_nonce, map_get labels label_launch_nonce) \<in> set expected"
proof -
  note d = assms [unfolded cleanup_expected_def Let_def filter_all filter_none]
  show "map_get labels label_managed = ''true''" and "map_get labels label_ownership = ''managed''"
    using d by (auto split: if_splits)
  show "(label_managed, ''true'') \<in> set expected" and "(label_ownership, ''managed'') \<in> set expected"
    using d by (auto split: if_splits)
  show "list_all (label_set labels) provenance_keys \<and>
           (\<forall>k \<in> set provenance_keys. (k, map_get labels k) \<in> set expected) \<or>
         \<not> list_ex (label_set labels) provenance_keys \<and> label_set labels label_launch_nonce \<and>
           (label_launch_nonce, map_get labels label_launch_nonce) \<in> set expected"
  proof (cases "list_all (label_set labels) provenance_keys")
    case True
    with d have "expected = [(label_managed, ''true''), (label_ownership, ''managed'')] @
        map (\<lambda>k. (k, map_get labels k)) provenance_keys"
      by (simp split: if_splits)
    with True show ?thesis by auto
  next
    case False
    with d show ?thesis by (auto simp: label_set_def split: if_splits)
  qed
qed

lemma cleanup_expected_own:
  assumes "cleanup_expected labels = Some expected" and "id_name c = name"
    and e: "\<And>k v. (k, v) \<in> set expected \<Longrightarrow> map_get (id_labels c) k = v"
  shows "own_container labels name c"
proof -
  note f = cleanup_expected_Some [OF assms(1)]
  have "map_get (id_labels c) label_managed = ''true''" "map_get (id_labels c) label_ownership = ''managed''"
    using f(3,4) e by blast+
  moreover have "if list_ex (label_set labels) provenance_keys
      then list_all (\<lambda>k. label_set labels k \<and> map_get (id_labels c) k = map_get labels k) provenance_keys
      else label_set labels label_launch_nonce \<and>
           map_get (id_labels c) label_launch_nonce = map_get labels label_launch_nonce"
  proof (cases "list_ex (label_set labels) provenance_keys")
    case True
    with f(5) e have "\<forall>k \<in> set provenance_keys. label_set labels k \<and> map_get (id_labels c) k = map_get labels k"
      unfolding list_all_iff by blast
    with True show ?thesis by (simp add: list_all_iff)
  next
    case False
    then have "\<not> list_all (label_set labels) provenance_keys" by (auto simp: provenance_keys_def)
    with False f(5) e show ?thesis by auto
  qed
  ultimately show ?thesis using assms(2) f(1,2) by (simp add: own_container_def)
qed

lemma cleanup_failed_run_removes:
  assumes "EvRemove i \<in> set (snd (cleanup_failed_run labels name d))"
  shows "\<exists>c. cd_inspect d name = Inr c \<and> id_id c = i \<and> own_container labels name c"
proof -
  obtain expected c where e: "cleanup_expected labels = Some expected" and c: "cd_inspect d name = Inr c"
    using assms by (auto simp: cleanup_failed_run_def split: option.splits sum.splits)
  then have n: "id_name c = name" and i: "id_id c = i"
    and l: "\<not> list_ex (\<lambda>(k, v). map_get (id_labels c) k \<noteq> v) expected"
    using assms by (simp_all add: cleanup_failed_run_def split: if_splits)
  have "own_container labels name c"
    by (rule cleanup_expected_own [OF e n]) (use l in \<open>auto simp: list_ex_iff\<close>)
  with c i show ?thesis by blast
qed

lemma cleanup_eventually_removes:
  "EvRemove i \<in> set (snd (cleanup_eventually labels name ds)) \<Longrightarrow>
   \<exists>d \<in> set ds. \<exists>c. cd_inspect d name = Inr c \<and> id_id c = i \<and> own_container labels name c"
proof (induction ds)
  case (Cons d ds)
  show ?case
  proof (cases "EvRemove i \<in> set (snd (cleanup_failed_run labels name d))")
    case True
    with cleanup_failed_run_removes [OF this] show ?thesis by auto
  next
    case False
    with Cons.prems have "EvRemove i \<in> set (snd (cleanup_eventually labels name ds))"
      by (auto split: prod.splits bool.splits)
    with Cons.IH show ?thesis by auto
  qed
qed simp

lemma rewrite_labels [simp]:
  "lr_labels (rewrite_llamacpp g r) = lr_labels r" "lr_labels (rewrite_vllm g r) = lr_labels r"
  "lr_labels (rewrite_sglang r) = lr_labels r" "lr_labels (rewrite_comfyui r) = lr_labels r"
  "lr_image (rewrite_llamacpp g r) = lr_image r" "lr_image (rewrite_vllm g r) = lr_image r"
  "lr_image (rewrite_sglang r) = lr_image r" "lr_image (rewrite_comfyui r) = lr_image r"
  by (simp_all add: rewrite_llamacpp_def rewrite_vllm_def rewrite_sglang_def rewrite_comfyui_def Let_def)

lemma apply_each_labels:
  "apply_each_plugin as p is r = Inr q \<Longrightarrow> lr_labels q = lr_labels r \<and> lr_image q = lr_image r"
  by (induction as p "is" r rule: apply_each_plugin.induct) (auto simp: apply_plugin_def split: option.splits)

lemma apply_plugins_labels:
  "apply_plugins as p r = Inr q \<Longrightarrow> lr_labels q = lr_labels r \<and> lr_image q = lr_image r"
  by (auto simp: apply_plugins_def Let_def split: if_splits dest!: apply_each_labels)

lemma sglang_patch_labels:
  "apply_sglang_patch r = Inr q \<Longrightarrow> lr_labels q = lr_labels r \<and> lr_image q = lr_image r"
  by (auto simp: apply_sglang_patch_def Let_def split: if_splits option.splits)

lemma qwen38_patch_labels:
  "apply_qwen38_patch as r = Inr q \<Longrightarrow> lr_labels q = lr_labels r \<and> lr_image q = lr_image r"
  by (auto simp: apply_qwen38_patch_def Let_def split: if_splits option.splits sum.splits)

text \<open>The steps a rewritten request went through.\<close>

lemma rewrite_request_Inr:
  assumes "rewrite_request a r = Inr q"
  obtains r4 r5 where "apply_qwen38_patch (ru_qwen_assets a) r4 = Inr r5"
    and "lr_labels r4 = lr_labels r" and "lr_image r4 = lr_image r"
    and "prepare_legacy_nonce (ru_nonce a) (rewrite_comfyui r5) = Inr q"
proof -
  obtain r1 where 1: "apply_plugins (ru_assets a) (ru_plugin_root a) r = Inr r1"
    using assms by (auto simp: rewrite_request_def split: sum.splits)
  obtain g where 2: "fst (ensure_gguf_files (ru_gguf a) r1) = Inr g"
    using assms 1 by (auto simp: rewrite_request_def split: sum.splits)
  let ?r3 = "rewrite_sglang (rewrite_vllm g (rewrite_llamacpp g
    (if g = [] then r1 else r1\<lparr>lr_volumes := Some (ensure_gguf_volume (made (lr_volumes r1)))\<rparr>)))"
  have 3: "lr_labels ?r3 = lr_labels r" "lr_image ?r3 = lr_image r"
    using apply_plugins_labels [OF 1] by auto
  obtain r4 where 4: "apply_sglang_patch ?r3 = Inr r4"
    using assms 1 2 by (auto simp: rewrite_request_def Let_def split: sum.splits)
  obtain r5 where 5: "apply_qwen38_patch (ru_qwen_assets a) r4 = Inr r5"
    using assms 1 2 4 by (auto simp: rewrite_request_def Let_def split: sum.splits)
  have "prepare_legacy_nonce (ru_nonce a) (rewrite_comfyui r5) = Inr q"
    using assms 1 2 4 5 by (auto simp: rewrite_request_def Let_def split: sum.splits option.splits if_splits)
  moreover have "lr_labels r4 = lr_labels r" "lr_image r4 = lr_image r"
    using sglang_patch_labels [OF 4] 3 by simp_all
  ultimately show thesis using that 5 by blast
qed

lemma nonce_labels:
  "prepare_legacy_nonce random r = Inr q \<Longrightarrow> k \<noteq> label_launch_nonce \<Longrightarrow>
   map_get (lr_labels q) k = map_get (lr_labels r) k"
  by (auto simp: prepare_legacy_nonce_def map_get_put split: if_splits option.splits)

lemma nonce_set:
  "prepare_legacy_nonce random r = Inr q \<Longrightarrow> legacy_nonce_applies (lr_labels r) \<Longrightarrow>
   \<exists>bytes. random = Some bytes \<and>
     map_get (lr_labels q) label_launch_nonce = concat (map (hex_byte \<circ> of_char) bytes)"
  by (auto simp: prepare_legacy_nonce_def map_get_put split: option.splits)

lemma rewrite_request_labels:
  "rewrite_request a r = Inr q \<Longrightarrow> k \<noteq> label_launch_nonce \<Longrightarrow>
   map_get (lr_labels q) k = map_get (lr_labels r) k"
  by (elim rewrite_request_Inr) (drule (1) nonce_labels, drule qwen38_patch_labels, simp)

lemma rewrite_request_nonce:
  "rewrite_request a r = Inr q \<Longrightarrow> legacy_nonce_applies (lr_labels r) \<Longrightarrow>
   \<exists>bytes. ru_nonce a = Some bytes \<and>
     map_get (lr_labels q) label_launch_nonce = concat (map (hex_byte \<circ> of_char) bytes)"
  by (elim rewrite_request_Inr) (auto dest!: qwen38_patch_labels nonce_set)

lemma run_container_events:
  assumes "ev \<in> set (snd (run_container a r))"
  obtains q where "rewrite_request a r = Inr q" and "qwen_launch_gate a q = None"
    and "ev = EvRun (build_run_args q (normalized_name (lr_name r))) \<or>
         (\<exists>e. ru_docker a (build_run_args q (normalized_name (lr_name r))) = Inl e) \<and>
         (ev \<in> set (snd (cleanup_eventually (lr_labels q) (normalized_name (lr_name r)) (ru_cleanups a))) \<or>
          (\<exists>d \<in> set (ru_cleanups a). ev \<in> set (snd (cleanup_failed_run (lr_labels q) (normalized_name (lr_name r)) d))))"
proof -
  obtain q where q: "rewrite_request a r = Inr q" and g: "qwen_launch_gate a q = None"
    using assms by (auto simp: run_container_def split: option.splits sum.splits)
  show thesis
  proof (rule that [OF q g])
    show "ev = EvRun (build_run_args q (normalized_name (lr_name r))) \<or>
         (\<exists>e. ru_docker a (build_run_args q (normalized_name (lr_name r))) = Inl e) \<and>
         (ev \<in> set (snd (cleanup_eventually (lr_labels q) (normalized_name (lr_name r)) (ru_cleanups a))) \<or>
          (\<exists>d \<in> set (ru_cleanups a). ev \<in> set (snd (cleanup_failed_run (lr_labels q) (normalized_name (lr_name r)) d))))"
      using assms q g
      by (cases "ru_cleanups a")
         (auto simp: run_container_def Let_def split: option.splits sum.splits if_splits)
  qed
qed

lemma label_keys_distinct:
  "label_managed \<noteq> label_launch_nonce" "label_ownership \<noteq> label_launch_nonce"
  "label_deployment \<noteq> label_launch_nonce" "label_generation \<noteq> label_launch_nonce"
  "label_role \<noteq> label_launch_nonce"
  by (simp_all add: label_managed_def label_ownership_def label_deployment_def label_generation_def
      label_role_def label_launch_nonce_def)

text \<open>
  C11: a container removed by a failed run was inspected under the request's own name, and carries
  the request's ownership labels with its complete provenance, or with the nonce of this very run.
\<close>

theorem failed_run_removes_own:
  assumes "EvRemove i \<in> set (snd (run_container a r))"
  shows "\<exists>d \<in> set (ru_cleanups a). \<exists>c labels.
    cd_inspect d (normalized_name (lr_name r)) = Inr c \<and> id_id c = i \<and>
    own_container labels (normalized_name (lr_name r)) c \<and>
    (\<forall>k. k \<noteq> label_launch_nonce \<longrightarrow> map_get labels k = map_get (lr_labels r) k) \<and>
    (legacy_nonce_applies (lr_labels r) \<longrightarrow> (\<exists>bytes. ru_nonce a = Some bytes \<and>
       map_get labels label_launch_nonce = concat (map (hex_byte \<circ> of_char) bytes)))"
proof -
  obtain q where q: "rewrite_request a r = Inr q"
    and ev: "EvRemove i \<in> set (snd (cleanup_eventually (lr_labels q) (normalized_name (lr_name r)) (ru_cleanups a))) \<or>
      (\<exists>d \<in> set (ru_cleanups a). EvRemove i \<in> set (snd (cleanup_failed_run (lr_labels q) (normalized_name (lr_name r)) d)))"
    using run_container_events [OF assms] by blast
  then obtain d c where "d \<in> set (ru_cleanups a)" "cd_inspect d (normalized_name (lr_name r)) = Inr c"
    "id_id c = i" "own_container (lr_labels q) (normalized_name (lr_name r)) c"
    using cleanup_eventually_removes cleanup_failed_run_removes by metis
  moreover have "\<forall>k. k \<noteq> label_launch_nonce \<longrightarrow> map_get (lr_labels q) k = map_get (lr_labels r) k"
    using rewrite_request_labels [OF q] by blast
  moreover have "legacy_nonce_applies (lr_labels r) \<longrightarrow> (\<exists>bytes. ru_nonce a = Some bytes \<and>
       map_get (lr_labels q) label_launch_nonce = concat (map (hex_byte \<circ> of_char) bytes))"
    using rewrite_request_nonce [OF q] by blast
  ultimately show ?thesis by blast
qed

text \<open>A surrounding in which everything but Docker answers well, for the witnesses.\<close>

definition calm_platform :: platform_answers where
  "calm_platform = \<lparr>pf_manifest = Inl (Failed ''no registry''), pf_architecture = Inr ''arm64'',
     pf_os = ''linux'', pf_arch = ''arm64''\<rparr>"

definition calm_answers :: "(string list \<Rightarrow> string + string) \<Rightarrow> cleanup_deps list \<Rightarrow> run_answers" where
  "calm_answers docker cleanups =
     \<lparr>ru_platform = calm_platform,
      ru_assets = (\<lambda>f. \<lparr>as_stat_size = Some 1, as_mkdir = None, as_get = Inl [], as_body = Inl [], as_write = None\<rparr>),
      ru_plugin_root = ''/var/lib/yokai/plugins'',
      ru_gguf = \<lparr>gg_mkdir = (\<lambda>p. None), gg_download = (\<lambda>rel dest. None)\<rparr>,
      ru_qwen_assets = Inr ''/opt/assets'', ru_nonce = Some ''k'', ru_cache_failure = (\<lambda>r. []),
      ru_admission = None, ru_tenants = Inr 0, ru_docker = docker, ru_cleanups = cleanups\<rparr>"

definition plain_request :: container_request where
  "plain_request =
     \<lparr>lr_image = ''nginx'', lr_name = ''web'', lr_model = [], lr_gguf_variant = [], lr_gguf_files = [],
      lr_hf_token = [], lr_ports = None, lr_env = None, lr_gpu_ids = [], lr_extra_args = [], lr_args = [],
      lr_volumes = None, lr_plugins = None, lr_runtime = runtime_zero, lr_skip_pull = True,
      lr_labels = [(label_managed, ''true''), (label_ownership, ''managed'')], lr_network_mode = [],
      lr_devices = [], lr_cap_add = [], lr_entrypoint = [], cr_authorization = []\<rparr>"

definition leftover_deps :: cleanup_deps where
  "leftover_deps = \<lparr>cd_inspect = (\<lambda>n. Inr \<lparr>id_id = ''cafe'', id_name = ''yokai-web'',
     id_labels = [(label_managed, ''true''), (label_ownership, ''managed''), (label_launch_nonce, ''6b'')]\<rparr>),
     cd_remove = (\<lambda>i. True)\<rparr>"

lemma leftover_removed:
  "EvRemove ''cafe'' \<in> set (snd (run_container (calm_answers (\<lambda>argv. Inl ''exit status 125'') [leftover_deps]) plain_request))"
  by code_simp

lemma failed_run_removes_own_witness:
  "\<exists>c labels. cd_inspect leftover_deps (normalized_name ''web'') = Inr c \<and> id_id c = ''cafe'' \<and>
     own_container labels (normalized_name ''web'') c"
  using failed_run_removes_own [OF leftover_removed]
  by (auto simp: calm_answers_def plain_request_def)

section \<open>Who may change a container\<close>

definition legacy_allowed :: "lifecycle_env \<Rightarrow> string \<Rightarrow> bool" where
  "legacy_allowed env i \<longleftrightarrow>
     (case le_inspect env i of
        Inr c \<Rightarrow> map_get (id_labels c) label_deployment = []
      | Inl (IdentityNotFound n) \<Rightarrow> True
      | Inl (IdentityError e) \<Rightarrow> False)"

definition member_allowed :: "lifecycle_env \<Rightarrow> member_query \<Rightarrow> bool" where
  "member_allowed env q \<longleftrightarrow>
     (case le_inspect env (mq_id q) of
        Inl e \<Rightarrow> False
      | Inr c \<Rightarrow> id_name c = mq_name q \<and> mq_name q \<noteq> [] \<and>
          list_all (\<lambda>(k, v). v \<noteq> [] \<and> map_get (id_labels c) k = v) (member_expected q))"

lemma reject_legacy_None: "reject_legacy_grouped env i = None \<longleftrightarrow> legacy_allowed env i"
  by (auto simp: reject_legacy_grouped_def legacy_allowed_def split: sum.splits inspect_error.splits)

lemma member_provenance_Inr: "member_provenance env q = Inr labels \<Longrightarrow> member_allowed env q"
  by (auto simp: member_provenance_def member_allowed_def validate_member_provenance_def list_ex_iff list_all_iff
      split: sum.splits if_splits option.splits)

lemma restart_container_events:
  "ev \<in> set (snd (restart_container d i)) \<Longrightarrow>
   \<exists>c. rd_inspect d i = Inr c \<and>
     (if map_get (id_labels c) label_bkc_id = qwen38_dual_id
      then ev = EvRestart (id_id c) \<and> qwen_restart_gate d c = None else ev = EvRestart i)"
  by (auto simp: restart_container_def split: sum.splits option.splits if_splits)

definition names_target :: "lifecycle_env \<Rightarrow> string \<Rightarrow> docker_event \<Rightarrow> bool" where
  "names_target env i ev \<longleftrightarrow>
     (ev \<in> {EvStop i, EvRemove i, EvRestart i} \<or>
      (\<exists>c. rd_inspect (le_restart env) i = Inr c \<and> ev = EvRestart (id_id c)))"

lemma restart_reply_target: "ev \<in> set (snd (restart_reply env i)) \<Longrightarrow> names_target env i ev"
  using restart_container_events [of ev "le_restart env" i]
  by (auto simp: restart_reply_def names_target_def split: prod.splits option.splits if_splits)

text \<open>
  C12: a stop, removal or restart through the legacy API acts on the container named only if its
  inspection found no deployment label or no container; through the member API only if the
  inspected container has exactly the managed, deployment, generation and role labels and the
  name the request states. The commands name the container the request names, or, for a Qwen3.8
  restart, the inspected one.
\<close>

theorem lifecycle_authority:
  "(ev \<in> set (snd (container_stop env i)) \<union> set (snd (container_delete env i)) \<union>
      set (snd (container_restart env i)) \<longrightarrow> legacy_allowed env i \<and> names_target env i ev) \<and>
   (ev \<in> set (snd (member_stop env q)) \<union> set (snd (member_delete env q)) \<union>
      set (snd (member_restart env q)) \<longrightarrow> member_allowed env q \<and> names_target env (mq_id q) ev)"
proof (intro conjI impI)
  assume "ev \<in> set (snd (container_stop env i)) \<union> set (snd (container_delete env i)) \<union> set (snd (container_restart env i))"
  then show "legacy_allowed env i" and "names_target env i ev"
    by (auto simp: container_stop_def container_delete_def container_restart_def stop_reply_def names_target_def
        reject_legacy_None split: if_splits option.splits dest!: restart_reply_target)
next
  assume "ev \<in> set (snd (member_stop env q)) \<union> set (snd (member_delete env q)) \<union> set (snd (member_restart env q))"
  then show "member_allowed env q" and "names_target env (mq_id q) ev"
    by (auto simp: member_stop_def member_delete_def member_restart_def stop_reply_def names_target_def
        split: if_splits sum.splits inspect_error.splits dest!: restart_reply_target dest: member_provenance_Inr)
qed

definition member_env :: lifecycle_env where
  "member_env = (let c = \<lparr>id_id = ''cafe'', id_name = ''yokai-head'',
       id_labels = [(label_managed, ''true''), (label_ownership, ''managed''), (label_deployment, ''d1''),
         (label_generation, ''2''), (label_role, ''head'')]\<rparr>
     in \<lparr>le_inspect = (\<lambda>i. Inr c), le_stop_busy = False, le_stop_settled = True, le_launch_settled = True,
         le_exists = True, le_stop = None, le_remove = None,
         le_restart = \<lparr>rd_inspect = (\<lambda>i. Inr c), rd_admission = None, rd_snapshot_path = (\<lambda>i. Inr []),
           rd_validate_snapshot = (\<lambda>p v. None), rd_tenants = Inr 0, rd_restart = (\<lambda>i. None)\<rparr>\<rparr>)"

definition head_query :: member_query where
  "head_query = \<lparr>mq_id = ''cafe'', mq_deployment = ''d1'', mq_generation = ''2'', mq_role = ''head'',
     mq_name = ''yokai-head''\<rparr>"

lemma member_stop_sample: "EvStop ''cafe'' \<in> set (snd (member_stop member_env head_query))"
  by code_simp

lemma lifecycle_authority_witness:
  "member_allowed member_env head_query \<and> container_stop member_env ''cafe'' = (Reply 409 ''grouped_deployment_required'', [])"
proof
  show "member_allowed member_env head_query"
    using lifecycle_authority [of "EvStop ''cafe''" member_env "[]" head_query] member_stop_sample by blast
  show "container_stop member_env ''cafe'' = (Reply 409 ''grouped_deployment_required'', [])" by code_simp
qed

text \<open>
  C13: a restart of a Qwen3.8 container is issued, on the inspected ID, only when its role is head
  or worker, its revision the pinned one, the GPU admission held, the snapshot behind its single
  read-only mount validated, and no compute process runs; any other container is restarted as named.
\<close>

theorem restart_checked:
  assumes "EvRestart t \<in> set (snd (restart_container d i))"
  shows "\<exists>c. rd_inspect d i = Inr c \<and>
    (if map_get (id_labels c) label_bkc_id = qwen38_dual_id
     then t = id_id c \<and> map_get (id_labels c) label_role \<in> {role_head, role_worker} \<and>
       map_get (id_labels c) label_model_revision = qwen38_revision \<and> rd_admission d = None \<and>
       (\<exists>path. rd_snapshot_path d (id_id c) = Inr path \<and> rd_validate_snapshot d path qwen38_revision = None) \<and>
       rd_tenants d = Inr 0
     else t = i)"
proof -
  obtain c where c: "rd_inspect d i = Inr c" and
    t: "if map_get (id_labels c) label_bkc_id = qwen38_dual_id
      then EvRestart t = EvRestart (id_id c) \<and> qwen_restart_gate d c = None else EvRestart t = EvRestart i"
    using restart_container_events [OF assms] by blast
  show ?thesis
  proof (cases "map_get (id_labels c) label_bkc_id = qwen38_dual_id")
    case True
    with t have "qwen_restart_gate d c = None" by simp
    then have "map_get (id_labels c) label_role \<in> {role_head, role_worker} \<and>
       map_get (id_labels c) label_model_revision = qwen38_revision \<and> rd_admission d = None \<and>
       (\<exists>path. rd_snapshot_path d (id_id c) = Inr path \<and> rd_validate_snapshot d path qwen38_revision = None) \<and>
       rd_tenants d = Inr 0"
      by (auto simp: qwen_restart_gate_def Let_def split: if_splits option.splits sum.splits)
    with True c t show ?thesis by auto
  qed (use c t in auto)
qed

definition qwen_head_deps :: restart_deps where
  "qwen_head_deps =
     \<lparr>rd_inspect = (\<lambda>i. Inr \<lparr>id_id = ''cafe'', id_name = i, id_labels = [(label_bkc_id, qwen38_dual_id),
        (label_role, ''head''), (label_model_revision, qwen38_revision)]\<rparr>),
      rd_admission = None, rd_snapshot_path = (\<lambda>i. Inr ''/srv/s''),
      rd_validate_snapshot = (\<lambda>p v. None), rd_tenants = Inr 0, rd_restart = (\<lambda>i. None)\<rparr>"

lemma restart_checked_sample: "EvRestart ''cafe'' \<in> set (snd (restart_container qwen_head_deps ''yokai-head''))"
  by code_simp

lemma restart_checked_witness:
  "\<exists>c. rd_inspect qwen_head_deps ''yokai-head'' = Inr c \<and>
     map_get (id_labels c) label_role \<in> {role_head, role_worker}"
  using restart_checked [OF restart_checked_sample] by (auto simp: qwen_head_deps_def map_get_def label_bkc_id_def)

section \<open>GGUF files\<close>

lemma model_dir_chars: "c \<in> set (model_dir_name i) \<Longrightarrow> name_char c"
proof -
  have u: "name_char c" if "c \<in> set (underscore_runs b s)" for b s c
    using that by (induction b s rule: underscore_runs.induct) (auto simp: name_char_def split: if_splits)
  have t: "set (trim_chars cs s) \<subseteq> set s" for cs s
    by (auto simp: trim_chars_def dest!: set_dropWhileD)
  assume "c \<in> set (model_dir_name i)"
  then have "c \<in> set ''model'' \<or> c \<in> set (trim_chars ''_'' (underscore_runs False i))"
    unfolding model_dir_name_def Let_def by (simp split: if_splits)
  moreover have "list_all name_char ''model''" by code_simp
  ultimately show ?thesis using u t [of "''_''" "underscore_runs False i"] by (auto simp: list_all_iff)
qed

lemma sanitize_repo_path_names:
  assumes "sanitize_repo_path raw = Inr rel" and "rel \<noteq> []"
  shows "names_only (split_char slash rel)"
proof -
  let ?p = "trim_space raw"
  have rel: "rel = path_clean ?p" and p: "\<not> path_is_abs ?p" and dot: "path_clean ?p \<noteq> ''.''"
    and up: "''..'' \<notin> set (split_char slash (path_clean ?p))"
    using assms by (auto simp: sanitize_repo_path_def Let_def path_is_abs_def split: if_splits)
  have ne: "clean_segments ?p \<noteq> []"
    using dot p by (auto simp: path_clean_def)
  have seg: "split_char slash rel = clean_segments ?p"
    using path_clean_segments [OF ne p] rel by simp
  obtain n ys where c: "clean_segments ?p = replicate n ''..'' @ ys" and ys: "names_only ys"
    using clean_segments_cleaned cleaned_iff by blast
  moreover have "n = 0" using up seg rel c by (cases n) auto
  ultimately show ?thesis using seg by simp
qed

lemma clean_names: "names_only ss \<Longrightarrow> foldl (clean_step r) out ss = out @ ss"
  by (induction ss arbitrary: out) (auto simp: clean_step_def)

lemma split_char_join: "c \<notin> set s \<Longrightarrow> split_char c (s @ c # t) = s # split_char c t"
  by (rule split_char_append)

lemma join_with_append:
  "xs \<noteq> [] \<Longrightarrow> ys \<noteq> [] \<Longrightarrow> join_with sep (xs @ ys) = join_with sep xs @ sep @ join_with sep ys"
proof (induction xs rule: induct_list012)
  case (2 x)
  then show ?case by (cases ys) auto
qed auto

definition models_segments :: "string list" where
  "models_segments = [''var'', ''lib'', ''yokai'', ''models'']"

text \<open>A path below the models directory, from its segments.\<close>

lemma clean_models:
  assumes "names_only (split_char slash rel)" and "rel \<noteq> []"
  shows "path_clean (''/var/lib/yokai/models/'' @ rel) = ''/var/lib/yokai/models/'' @ rel"
proof -
  have "split_char slash (''/var/lib/yokai/models/'' @ rel) = [] # models_segments @ split_char slash rel"
    by (simp add: models_segments_def)
  then have "clean_segments (''/var/lib/yokai/models/'' @ rel) = models_segments @ split_char slash rel"
    using assms(1) clean_names [of "models_segments @ split_char slash rel" True "[]"]
    by (simp add: clean_segments_def path_is_abs_def has_prefix_def names_only_append models_segments_def clean_step_def)
  then show ?thesis
    using join_with_append [of models_segments "split_char slash rel" "''/''"] join_split_char [of slash rel]
    by (simp add: path_clean_def path_is_abs_def has_prefix_def models_segments_def)
qed

lemma gguf_loop_dests:
  "dest \<in> set (snd (gguf_loop a base first primary fs)) \<Longrightarrow>
   \<exists>rel. dest = path_join [base, rel] \<and> rel \<noteq> [] \<and> names_only (split_char slash rel)"
proof (induction a base first primary fs rule: gguf_loop.induct)
  case (2 a base first primary f fs)
  show ?case
  proof (cases "sanitize_repo_path f")
    case (Inl e)
    with 2(3) show ?thesis by simp
  next
    case (Inr rel)
    show ?thesis
    proof (cases "rel = []")
      case True
      with 2 Inr show ?thesis by auto
    next
      case False
      then have here: "\<exists>r. path_join [base, rel] = path_join [base, r] \<and> r \<noteq> [] \<and> names_only (split_char slash r)"
        using sanitize_repo_path_names [OF Inr] by blast
      show ?thesis
      proof (cases "gg_mkdir a (path_dir (path_join [base, rel])) = None \<and>
          gg_download a rel (path_join [base, rel]) = None \<and> dest \<noteq> path_join [base, rel]")
        case True
        with 2(3) Inr False have "dest \<in> set (snd (gguf_loop a base False (if first then rel else primary) fs))"
          by (auto simp: Let_def split: prod.splits)
        with 2(2) [OF Inr False refl] True show ?thesis by (elim conjE) simp
      next
        case other: False
        with 2(3) Inr False have "dest = path_join [base, rel]"
          by (auto simp: Let_def split: option.splits prod.splits)
        with here show ?thesis by simp
      qed
    qed
  qed
qed simp

lemma model_dir_segment:
  "model_dir_name i \<notin> {''.'', ''..''} \<Longrightarrow> names_only [model_dir_name i] \<and> slash \<notin> set (model_dir_name i)"
  using model_dir_chars [of slash i]
  by (auto simp: model_dir_name_def Let_def name_char_def is_letter_def is_digit_def)

text \<open>
  Whatever files a request lists, every destination given to the downloader lies below
  \<^verbatim>\<open>/var/lib/yokai/models/\<close> and the directory of the model, along proper names only, unless that
  directory name is one of the two dot names.
\<close>

lemma gguf_destinations_confined:
  assumes "dest \<in> set (snd (ensure_gguf_files a r))" and "model_dir_name (lr_model r) \<notin> {''.'', ''..''}"
  shows "\<exists>rel. dest = ''/var/lib/yokai/models/'' @ model_dir_name (lr_model r) @ ''/'' @ rel \<and>
    names_only (split_char slash rel)"
proof -
  let ?d = "model_dir_name (lr_model r)"
  have d: "names_only [?d]" "slash \<notin> set ?d" using model_dir_segment [OF assms(2)] by auto
  then have one: "split_char slash ?d = [?d]" by (simp add: split_char_single)
  have base: "path_join [gguf_host_dir, ?d] = ''/var/lib/yokai/models/'' @ ?d"
    using clean_models [of ?d] d one by (simp add: path_join_def gguf_host_dir_def)
  obtain rel where rel: "dest = path_join [''/var/lib/yokai/models/'' @ ?d, rel]" "rel \<noteq> []"
      "names_only (split_char slash rel)"
    using assms(1) gguf_loop_dests
    by (auto simp: ensure_gguf_files_def Let_def base split: if_splits option.splits prod.splits sum.splits)
       (metis snd_conv)+
  have "names_only (split_char slash (?d @ slash # rel))"
    using d rel(3) split_char_append [of slash ?d rel] by simp
  then have "dest = ''/var/lib/yokai/models/'' @ ?d @ ''/'' @ rel"
    using clean_models [of "?d @ slash # rel"] rel(1,2) by (simp add: path_join_def)
  with rel(3) show ?thesis by blast
qed

definition gguf_request :: "string \<Rightarrow> string list \<Rightarrow> container_request" where
  "gguf_request model files = plain_request\<lparr>lr_model := model, lr_gguf_files := files\<rparr>"

lemma gguf_sample:
  "''/var/lib/yokai/models/org_m/q/a.gguf'' \<in>
     set (snd (ensure_gguf_files (ru_gguf (calm_answers (\<lambda>argv. Inl []) [])) (gguf_request ''org/m'' [''q/./a.gguf''])))"
  by code_simp

lemma gguf_destinations_confined_witness:
  "\<exists>rel. ''/var/lib/yokai/models/org_m/q/a.gguf'' = ''/var/lib/yokai/models/'' @ model_dir_name ''org/m'' @ ''/'' @ rel"
proof -
  have "model_dir_name (lr_model (gguf_request ''org/m'' [''q/./a.gguf''])) \<notin> {''.'', ''..''}" by code_simp
  from gguf_destinations_confined [OF gguf_sample this] show ?thesis
    by (auto simp: gguf_request_def plain_request_def)
qed

text \<open>The dot name leaves the models directory.\<close>

lemma gguf_dot_model_escapes:
  "ensure_gguf_files (ru_gguf (calm_answers (\<lambda>argv. Inl []) [])) (gguf_request ''..'' [''plugins/a'']) =
     (Inr ''/plugins/a'', [''/var/lib/yokai/plugins/a''])"
  by code_simp

section \<open>The argument vector\<close>

definition same_map :: "gomap \<Rightarrow> gomap \<Rightarrow> bool" where
  "same_map m m' \<longleftrightarrow> distinct (map fst m) \<and> mset m = mset m'"

lemma map_options_perm: "same_map m m' \<Longrightarrow> map_options flag f m = map_options flag f m'"
  by (simp add: map_options_def sorted_map_keys_def same_map_def sort_keys_perm [of m m'] map_get_perm [of m m'])

text \<open>
  The argument vector of a run does not depend on the order of any of the request's maps, and
  under host networking it does not depend on the ports.
\<close>

lemma run_args_order_independent:
  assumes "same_map (made (lr_ports r)) ports \<or> lr_network_mode r = ''host''"
    and "same_map (lr_labels r) labels" and "same_map (made (lr_env r)) env"
    and "same_map (made (lr_volumes r)) volumes" and "same_map (rt_ulimits (lr_runtime r)) ulimits"
  shows "build_run_args (r\<lparr>lr_ports := Some ports, lr_labels := labels, lr_env := Some env,
      lr_volumes := Some volumes, lr_runtime := (lr_runtime r)\<lparr>rt_ulimits := ulimits\<rparr>\<rparr>) name =
    build_run_args r name"
  using assms map_options_perm [OF assms(2)] map_options_perm [OF assms(3)] map_options_perm [OF assms(4)]
    map_options_perm [OF assms(5)] map_options_perm [of "made (lr_ports r)" ports]
  by (auto simp: build_run_args_def docker_options_def made_def)

lemma run_args_order_independent_witness:
  "build_run_args (plain_request\<lparr>lr_ports := Some [], lr_labels := [(label_ownership, ''managed''), (label_managed, ''true'')],
      lr_env := Some [], lr_volumes := Some [], lr_runtime := runtime_zero\<lparr>rt_ulimits := []\<rparr>\<rparr>) ''yokai-web'' =
    build_run_args plain_request ''yokai-web''"
proof -
  have "label_managed \<noteq> label_ownership" by (simp add: label_managed_def label_ownership_def)
  then have "same_map (lr_labels plain_request) [(label_ownership, ''managed''), (label_managed, ''true'')]"
    by (simp add: same_map_def plain_request_def)
  moreover have "same_map (made (lr_ports plain_request)) [] \<or> lr_network_mode plain_request = ''host''"
    "same_map (made (lr_env plain_request)) []" "same_map (made (lr_volumes plain_request)) []"
    "same_map (rt_ulimits (lr_runtime plain_request)) []"
    by (simp_all add: same_map_def made_def plain_request_def runtime_zero_def)
  ultimately have "build_run_args (plain_request\<lparr>lr_ports := Some [], lr_labels := [(label_ownership, ''managed''), (label_managed, ''true'')],
      lr_env := Some [], lr_volumes := Some [], lr_runtime := (lr_runtime plain_request)\<lparr>rt_ulimits := []\<rparr>\<rparr>) ''yokai-web'' =
    build_run_args plain_request ''yokai-web''"
    by (intro run_args_order_independent)
  then show ?thesis by (simp add: plain_request_def)
qed

end
