(* ===== verification/Docker_Qwen.thy ===== *)
theory Docker_Qwen
  imports Docker_Properties
begin

text \<open>
  What a Qwen3.8 launch has gone through: every \<^verbatim>\<open>docker run\<close> an agent issues for a request
  with the pinned recipe has the pinned image, device, runtime and argument contract, the fixed
  bootstrap in front of the checked command, and an idle GPU under the admission lock.
\<close>

section \<open>Quoting leaves no line breaks\<close>

definition breaking :: "char list" where "breaking = [CHR 0x00, CHR 0x0D, CHR 0x0A]"

lemma contains_any_append [simp]: "contains_any (s @ t) cs = (contains_any s cs \<or> contains_any t cs)"
  by (simp add: contains_any_def)

lemma contains_any_concat: "contains_any (concat ss) cs = list_ex (\<lambda>s. contains_any s cs) ss"
  by (induction ss) (auto simp: contains_any_def)

lemma hex_digit_clean: "k < 16 \<Longrightarrow> hex_digit k \<notin> set breaking"
proof -
  have "list_all (\<lambda>k. hex_digit k \<notin> set breaking) [0..<16]" by code_simp
  then show "k < 16 \<Longrightarrow> hex_digit k \<notin> set breaking" by (auto simp: list_all_iff)
qed

lemma quote_char_clean: "\<not> contains_any (quote_char c) breaking"
proof -
  have n: "(of_char c :: nat) < 256" by simp
  have c: "c \<notin> set breaking" if "(of_char c :: nat) \<notin> {0, 13, 10}" using that by (auto simp: breaking_def)
  have h: "hex_digit (of_char c div 16) \<notin> set breaking" "hex_digit (of_char c mod 16) \<notin> set breaking"
    by (rule hex_digit_clean, rule less_mult_imp_div_less, use n in simp) (rule hex_digit_clean, simp)
  have l: "list_all (\<lambda>d. d \<notin> set breaking)
    [CHR 0x5C, CHR 0x22, CHR ''a'', CHR ''b'', CHR ''f'', CHR ''n'', CHR ''r'', CHR ''t'', CHR ''v'', CHR ''x'']"
    by code_simp
  show ?thesis
    using c h l by (auto simp: quote_char_def Let_def contains_any_def list_ex_iff)
qed

lemma go_quote_clean: "\<not> contains_any (go_quote s) breaking"
proof -
  have q: "\<not> contains_any [CHR 0x22] breaking" by code_simp
  have "\<not> contains_any (concat (map quote_char s)) breaking"
    by (simp add: contains_any_concat list_ex_iff quote_char_clean)
  with q show ?thesis unfolding go_quote_def contains_any_append by blast
qed

lemma bootstrap_arg_clean: "\<not> contains_any qwen38_bootstrap_arg breaking"
proof -
  have "\<not> contains_any ''import base64;exec(compile(base64.b64decode('' breaking" by code_simp
  moreover have "\<not> contains_any (''),'' @ [CHR 0x27] @ ''<yokai-qwen38-bootstrap>'' @ [CHR 0x27] @ '','' @
    [CHR 0x27] @ ''exec'' @ [CHR 0x27] @ ''))'') breaking" by code_simp
  ultimately show ?thesis
    unfolding qwen38_bootstrap_arg_def using go_quote_clean contains_any_append by blast
qed

lemma bootstrap_arg_nonempty: "qwen38_bootstrap_arg \<noteq> []"
  by (simp add: qwen38_bootstrap_arg_def)

section \<open>The contract of a launch\<close>

lemma qwen38_patch_Inr:
  assumes "apply_qwen38_patch assets r = Inr q" and "is_qwen_bkc r"
  obtains dir where "assets = Inr dir" and "qwen38_provenance r" and "qwen38_contract_error r = None"
    and "exact_qwen_volume (lr_volumes r)" and "lr_model r = qwen38_container_model"
    and "qwen38_command_error (map_get (lr_labels r) label_role) (request_command r) = None"
    and "q = r\<lparr>lr_volumes := Some (map_put dir (qwen38_patch_container_dir @ '':ro'') (made (lr_volumes r))),
                 lr_env := Some (map_put ''VLLM_MTP_DRAFT_VOCAB''
                   (qwen38_patch_container_dir @ ''/draft_vocab_en_code_47k.txt'') (made (lr_env r))),
                 lr_extra_args := [], lr_entrypoint := ''python3'',
                 lr_args := [''-c'', qwen38_bootstrap_arg] @ request_command r\<rparr>"
  using assms
  by (auto simp: apply_qwen38_patch_def Let_def is_qwen_bkc_def split: if_splits option.splits sum.splits)

lemma qwen38_contract_fields:
  assumes "qwen38_contract_error r = None"
  shows "qwen38_device_contract r" and "qwen38_runtime_contract (lr_runtime r)"
  using assms by (auto simp: qwen38_contract_error_def Let_def split: if_splits)

lemma qwen38_command_role:
  "qwen38_command_error role command = None \<Longrightarrow> role = role_head \<or> role = role_worker"
  by (auto simp: qwen38_command_error_def qwen38_role_error_def split: if_splits option.splits)

lemma qwen_image_plain: "\<not> is_comfyui_image qwen38_image"
  by code_simp

lemma role_set: "trim_space role_head \<noteq> []" "trim_space role_worker \<noteq> []"
  by code_simp+

lemma qwen_no_legacy_nonce:
  assumes "map_get labels label_role = role_head \<or> map_get labels label_role = role_worker"
  shows "\<not> legacy_nonce_applies labels"
  using assms role_set by (auto simp: legacy_nonce_applies_def provenance_keys_def label_set_def)

text \<open>
  C10: a \<^verbatim>\<open>docker run\<close> issued for a request that carries the Qwen3.8 recipe identifier is the
  pinned image under host networking on GPU 0, started as the bootstrap followed by a command that
  passes the rank's checks; the patch directory is mounted read-only, the page cache was released,
  the admission lock held and no compute process ran.
\<close>

theorem qwen_run_contract:
  assumes "EvRun argv \<in> set (snd (run_container a r))" and "is_qwen_bkc r"
  shows "\<exists>q dir command.
    argv = docker_options q (normalized_name (lr_name r)) @ [qwen38_image, ''-c'', qwen38_bootstrap_arg] @ command \<and>
    qwen38_command_error (map_get (lr_labels r) label_role) command = None \<and>
    lr_labels q = lr_labels r \<and> qwen38_device_contract q \<and> qwen38_runtime_contract (lr_runtime q) \<and>
    lr_entrypoint q = ''python3'' \<and> ru_qwen_assets a = Inr dir \<and>
    map_get (made (lr_volumes q)) dir = qwen38_patch_container_dir @ '':ro'' \<and>
    ru_cache_failure a q = [] \<and> ru_admission a = None \<and> ru_tenants a = Inr 0"
proof -
  obtain q where q: "rewrite_request a r = Inr q" and gate: "qwen_launch_gate a q = None"
    and argv: "argv = build_run_args q (normalized_name (lr_name r))"
  proof (rule run_container_events [OF assms(1)])
    fix q
    assume r: "rewrite_request a r = Inr q" "qwen_launch_gate a q = None"
    assume ev: "EvRun argv = EvRun (build_run_args q (normalized_name (lr_name r))) \<or>
         (\<exists>e. ru_docker a (build_run_args q (normalized_name (lr_name r))) = Inl e) \<and>
         (EvRun argv \<in> set (snd (cleanup_eventually (lr_labels q) (normalized_name (lr_name r)) (ru_cleanups a))) \<or>
          (\<exists>d \<in> set (ru_cleanups a). EvRun argv \<in> set (snd (cleanup_failed_run (lr_labels q) (normalized_name (lr_name r)) d))))"
    have none: "EvRun argv \<notin> set (snd (cleanup_failed_run l n d))" for l n d
      by (auto simp: cleanup_failed_run_def split: option.splits sum.splits)
    have "EvRun argv \<notin> set (snd (cleanup_eventually l n ds))" for l n ds
    proof (induction ds)
      case (Cons d ds)
      show ?case
      proof (cases "cleanup_failed_run l n d")
        case (Pair ok evs)
        with none [of l n d] Cons show ?thesis by (cases ok) (auto split: prod.splits)
      qed
    qed simp
    with ev none have "EvRun argv = EvRun (build_run_args q (normalized_name (lr_name r)))" by blast
    with r show thesis by (intro that) auto
  qed
  obtain r4 r5 where 5: "apply_qwen38_patch (ru_qwen_assets a) r4 = Inr r5"
    and l4: "lr_labels r4 = lr_labels r" and i4: "lr_image r4 = lr_image r"
    and n: "prepare_legacy_nonce (ru_nonce a) (rewrite_comfyui r5) = Inr q"
    by (rule rewrite_request_Inr [OF q])
  have bkc: "is_qwen_bkc r4" using assms(2) l4 by (simp add: is_qwen_bkc_def)
  obtain dir where dir: "ru_qwen_assets a = Inr dir" and prov: "qwen38_provenance r4"
    and con: "qwen38_contract_error r4 = None"
    and com: "qwen38_command_error (map_get (lr_labels r4) label_role) (request_command r4) = None"
    and r5: "r5 = r4\<lparr>lr_volumes := Some (map_put dir (qwen38_patch_container_dir @ '':ro'') (made (lr_volumes r4))),
                 lr_env := Some (map_put ''VLLM_MTP_DRAFT_VOCAB''
                   (qwen38_patch_container_dir @ ''/draft_vocab_en_code_47k.txt'') (made (lr_env r4))),
                 lr_extra_args := [], lr_entrypoint := ''python3'',
                 lr_args := [''-c'', qwen38_bootstrap_arg] @ request_command r4\<rparr>"
    by (rule qwen38_patch_Inr [OF 5 bkc])
  have img: "lr_image r5 = qwen38_image" using prov by (simp add: r5 qwen38_provenance_def)
  then have "rewrite_comfyui r5 = r5" using qwen_image_plain by (simp add: rewrite_comfyui_def)
  moreover have "\<not> legacy_nonce_applies (lr_labels r5)"
    using qwen_no_legacy_nonce [OF qwen38_command_role [OF com]] by (simp add: r5)
  ultimately have qr: "q = r5" using n by (simp add: prepare_legacy_nonce_def)
  have "is_qwen_bkc q" using bkc by (simp add: qr r5 is_qwen_bkc_def)
  with gate have "ru_cache_failure a q = [] \<and> ru_admission a = None \<and> ru_tenants a = Inr 0"
    by (auto simp: qwen_launch_gate_def split: if_splits option.splits sum.splits)
  moreover have "argv = docker_options q (normalized_name (lr_name r)) @
      [qwen38_image, ''-c'', qwen38_bootstrap_arg] @ request_command r4"
    using argv img by (simp add: build_run_args_def qr r5)
  moreover have "qwen38_device_contract q \<and> qwen38_runtime_contract (lr_runtime q)"
    using qwen38_contract_fields [OF con] by (simp add: qr r5 qwen38_device_contract_def)
  moreover have "map_get (made (lr_volumes q)) dir = qwen38_patch_container_dir @ '':ro''"
    by (simp add: qr r5 made_def map_get_put)
  ultimately show ?thesis
    using com l4 dir by (intro exI [of _ q] exI [of _ dir] exI [of _ "request_command r4"]) (simp add: qr r5)
qed

end
