(* ===== verification/Docker_Template.thy ===== *)
theory Docker_Template
  imports Docker_Qwen
begin

text \<open>
  Arguments of a Qwen3.8 candidate as a fixed template with three tokens to fill in
  (\<^verbatim>\<open>internal/deployments/engine.go\<close>, \<^verbatim>\<open>renderCandidateArgs\<close>): the characters an
  address can have, and what the flag scans of \<^verbatim>\<open>internal/agent/runtime_patch.go\<close> see.
\<close>

section \<open>The characters of an address\<close>

definition address_char :: "char \<Rightarrow> bool" where
  "address_char c \<longleftrightarrow> hex_value c \<noteq> None \<or> c = CHR ''.'' \<or> c = CHR '':''"

lemma digit_hex: "is_digit c \<Longrightarrow> hex_value c \<noteq> None"
  by (simp add: is_digit_def hex_value_def Let_def)

lemma digits_value_chars: "digits_value acc s = Some n \<Longrightarrow> \<forall>c \<in> set s. address_char c"
  by (induction s arbitrary: acc) (auto simp: address_char_def digit_hex split: if_splits)

lemma split_char_chars: "c \<in> set s \<Longrightarrow> c = sep \<or> (\<exists>t \<in> set (split_char sep s). c \<in> set t)"
proof (induction s)
  case (Cons x s)
  then show ?case by (cases "split_char sep s") (auto split: if_splits)
qed simp

lemma parse_v4_chars: "parse_v4 s = Some q \<Longrightarrow> \<forall>c \<in> set s. address_char c"
proof
  fix c
  assume p: "parse_v4 s = Some q" and "c \<in> set s"
  then consider "c = CHR ''.''" | t where "t \<in> set (split_char (CHR ''.'') s)" "c \<in> set t"
    using split_char_chars by blast
  then show "address_char c"
  proof cases
    case 2
    with p have "v4_field t \<noteq> None" by (auto simp: parse_v4_def Let_def split: if_splits)
    then obtain n where "digits_value 0 t = Some n"
      by (auto simp: v4_field_def split: if_splits option.splits)
    with 2 show ?thesis using digits_value_chars by blast
  qed (simp add: address_char_def)
qed

lemma hex_run_chars:
  "hex_run k acc s = (k', v, r) \<Longrightarrow> \<forall>c \<in> set s. address_char c \<or> c \<in> set r"
  by (induction k acc s rule: hex_run.induct) (auto simp: address_char_def split: option.splits)

lemma hd_tl_chars: "c \<in> set s \<Longrightarrow> c = hd s \<or> c \<in> set (tl s)"
  by (cases s) auto

lemma v6_groups_chars:
  "v6_groups room gs e s = Some (gs', e', r) \<Longrightarrow> \<forall>c \<in> set s. address_char c \<or> c \<in> set r"
proof (induction room gs e s rule: v6_groups.induct)
  case (2 room gs e s)
  obtain k v t where h: "hex_run 0 0 s = (k, v, t)" by (cases "hex_run 0 0 s") auto
  have s: "\<forall>c \<in> set s. address_char c \<or> c \<in> set t" by (rule hex_run_chars [OF h])
  have colon: "address_char (CHR '':'')" by (simp add: address_char_def)
  show ?case
  proof (cases "t \<noteq> [] \<and> hd t = CHR ''.''")
    case True
    with 2(3) h have "parse_v4 s \<noteq> None" by (auto split: if_splits option.splits)
    then show ?thesis using parse_v4_chars by blast
  next
    case False
    show ?thesis
    proof (cases "t = []")
      case True
      with s show ?thesis by simp
    next
      case ne: False
      with False 2(3) h have hd: "hd t = CHR '':''" and k: "\<not> (k = 0 \<or> 4 < k)" "length t \<noteq> 1"
        by (auto split: if_splits)
      note f = h ne hd k
      show ?thesis
      proof (cases "hd (tl t) = CHR '':''")
        case True
        have t: "c \<in> set t \<Longrightarrow> address_char c \<or> c \<in> set (tl (tl t))" for c
          using hd_tl_chars [of c t] hd_tl_chars [of c "tl t"] hd True colon by auto
        show ?thesis
        proof (cases "tl (tl t) = []")
          case True
          with s t show ?thesis by auto
        next
          case ne2: False
          with True f 2(3) have e: "e = None" by (auto split: if_splits)
          with True f ne2 2(3) have g: "v6_groups room (gs @ [v]) (Some (Suc (length gs))) (tl (tl t)) = Some (gs', e', r)"
            by simp
          have "\<forall>c \<in> set (tl (tl t)). address_char c \<or> c \<in> set r"
            by (rule 2(1) [OF h [symmetric] refl k(1) _ ne _ True _ ne2 g]) (use False hd k e in simp_all)
          with s t show ?thesis by blast
        qed
      next
        case other: False
        have t: "c \<in> set t \<Longrightarrow> address_char c \<or> c \<in> set (tl t)" for c
          using hd_tl_chars [of c t] hd colon by auto
        from other f 2(3) have g: "v6_groups room (gs @ [v]) e (tl t) = Some (gs', e', r)" by simp
        have "\<forall>c \<in> set (tl t). address_char c \<or> c \<in> set r"
          by (rule 2(2) [OF h [symmetric] refl k(1) _ ne _ other g]) (use False hd k in simp_all)
        with s t show ?thesis by blast
      qed
    qed
  qed
qed simp

lemma parse_ip_chars: "parse_ip s = Some a \<Longrightarrow> \<forall>c \<in> set s. address_char c"
proof -
  assume p: "parse_ip s = Some a"
  have d: "has_prefix s ''::'' \<Longrightarrow> s = ''::'' @ drop 2 s"
    using append_take_drop_id [of 2 s] by (simp add: has_prefix_def numeral_2_eq_2)
  have colon: "address_char (CHR '':'')" by (simp add: address_char_def)
  consider q where "parse_v4 s = Some q" | "parse_v6 s = Some a"
    using p by (auto simp: parse_ip_def split: if_splits option.splits)
  then show ?thesis
  proof cases
    case 1
    then show ?thesis by (rule parse_v4_chars)
  next
    case 2
    show ?thesis
    proof (cases "has_prefix s ''::''")
      case True
      show ?thesis
      proof (cases "length s = 2")
        case True
        with \<open>has_prefix s ''::''\<close> have "s = ''::''" by (simp add: has_prefix_def)
        with colon show ?thesis by simp
      next
        case False
        with True 2 obtain gs e where "v6_groups 8 [] (Some 0) (drop 2 s) = Some (gs, e, [])"
          by (auto simp: parse_v6_def Let_def split: option.splits prod.splits if_splits)
        from v6_groups_chars [OF this] have "\<forall>c \<in> set (''::'' @ drop 2 s). address_char c"
          using colon by auto
        with d [OF True] show ?thesis by metis
      qed
    next
      case False
      with 2 obtain gs e where "v6_groups 8 [] None s = Some (gs, e, [])"
        by (auto simp: parse_v6_def Let_def split: option.splits prod.splits if_splits)
      from v6_groups_chars [OF this] show ?thesis by simp
    qed
  qed
qed

lemma parse_ip_nonempty: "parse_ip s = Some a \<Longrightarrow> s \<noteq> []"
  by (auto simp: parse_ip_def)

lemma address_char_plain: "address_char c \<Longrightarrow> c \<notin> set (''-{}[]'' @ breaking)"
  by (auto simp: address_char_def hex_value_def breaking_def)

section \<open>Argument templates\<close>

text \<open>
  The argument list of a candidate is a fixed template in which three tokens are filled in; a
  scan for a flag sees the same tokens before and after.
\<close>

definition fill :: "string \<Rightarrow> string \<Rightarrow> string \<Rightarrow> string \<Rightarrow> string" where
  "fill master service key t =
     (if t = head_addr_placeholder then master else if t = ''{SERVICE_ADDRESS}'' then service
      else if t = ''{API_KEY}'' then ''--api-key='' @ key else t)"

definition unseen :: "(string \<Rightarrow> string) \<Rightarrow> string \<Rightarrow> string \<Rightarrow> bool" where
  "unseen f flag t \<longleftrightarrow>
     (f t = flag \<longleftrightarrow> t = flag) \<and> \<not> has_prefix t (flag @ ''='') \<and> \<not> has_prefix (f t) (flag @ ''='')"

lemma flag_scan_map:
  "list_all (unseen f flag) ts \<Longrightarrow> flag_scan flag (f v) n (map f ts) = map_prod f id (flag_scan flag v n ts)"
  by (induction flag v n ts rule: flag_scan.induct) (auto simp: unseen_def)

lemma flag_value_map:
  "list_all (unseen f flag) ts \<Longrightarrow> f [] = [] \<Longrightarrow>
   token_flag_value_count (map f ts) flag = map_prod f id (token_flag_value_count ts flag)"
  using flag_scan_map [of f flag ts "[]" 0] by (simp add: token_flag_value_count_def)

lemma single_count: "arg_sequence_count args [x] = length (filter (\<lambda>t. t = x) args)"
proof -
  have "filter (\<lambda>i. take 1 (drop i args) = [x]) [0..<length args] =
      filter (\<lambda>i. args ! i = x) [0..<length args]"
    by (rule filter_cong) (auto simp: take_Suc hd_drop_conv_nth)
  moreover have "length (filter (\<lambda>i. args ! i = x) [0..<length args]) = length (filter (\<lambda>t. t = x) args)"
    using filter_map [of "\<lambda>t. t = x" "(!) args" "[0..<length args]"] by (simp add: map_nth comp_def)
  ultimately show ?thesis by (simp add: arg_sequence_count_def)
qed

lemma single_count_map:
  "list_all (unseen f x) ts \<Longrightarrow> arg_sequence_count (map f ts) [x] = arg_sequence_count ts [x]"
  unfolding single_count by (induction ts) (auto simp: unseen_def)

lemma has_prefix_append_cases:
  assumes "has_prefix (a @ k) p"
  shows "has_prefix a p \<or> has_prefix p a"
proof (cases "length p \<le> length a")
  case True
  with assms show ?thesis by (simp add: has_prefix_def)
next
  case False
  with assms have "p = a @ take (length p - length a) k" by (simp add: has_prefix_def)
  then show ?thesis by (metis has_prefix_append)
qed

definition scan_safe :: "string \<Rightarrow> bool" where
  "scan_safe flag \<longleftrightarrow>
     has_prefix flag ''-'' \<and> \<not> has_prefix (flag @ ''='') ''--api-key='' \<and> \<not> has_prefix ''--api-key='' (flag @ ''='')"

definition undashed :: "string \<Rightarrow> bool" where
  "undashed t \<longleftrightarrow> t = [] \<or> hd t \<noteq> CHR ''-''"

lemma undashed_plain: "undashed t \<Longrightarrow> has_prefix flag ''-'' \<Longrightarrow> t \<noteq> flag \<and> \<not> has_prefix t (flag @ ''='')"
  by (cases t; cases flag) (auto simp: has_prefix_def undashed_def)

lemma no_equals: "CHR ''='' \<notin> set t \<Longrightarrow> \<not> has_prefix t (flag @ ''='')"
proof
  assume "CHR ''='' \<notin> set t" and "has_prefix t (flag @ ''='')"
  then have "set (flag @ ''='') \<subseteq> set t" unfolding has_prefix_def by (metis set_take_subset)
  with \<open>CHR ''='' \<notin> set t\<close> show False by simp
qed

lemma markers_undashed:
  "undashed head_addr_placeholder" "undashed ''{SERVICE_ADDRESS}''" "undashed ''{API_KEY}''"
  by (simp_all add: undashed_def head_addr_placeholder_def)

lemma fill_unseen:
  assumes flag: "scan_safe flag" and t: "CHR ''='' \<notin> set t"
    and m: "undashed master" and v: "undashed service"
  shows "unseen (fill master service key) flag t"
proof -
  note plain = undashed_plain [OF _ conjunct1 [OF flag [unfolded scan_safe_def]]]
  have key: "''--api-key='' @ key \<noteq> flag" and key2: "\<not> has_prefix (''--api-key='' @ key) (flag @ ''='')"
  proof -
    show "''--api-key='' @ key \<noteq> flag"
      using flag unfolding scan_safe_def by (metis append_assoc has_prefix_append)
    show "\<not> has_prefix (''--api-key='' @ key) (flag @ ''='')"
      using flag has_prefix_append_cases [of "''--api-key=''" key "flag @ ''=''"] unfolding scan_safe_def by blast
  qed
  consider "t = head_addr_placeholder" "fill master service key t = master"
    | "t = ''{SERVICE_ADDRESS}''" "fill master service key t = service"
    | "t = ''{API_KEY}''" "fill master service key t = ''--api-key='' @ key" | "fill master service key t = t"
    unfolding fill_def by metis
  then show ?thesis
  proof cases
    case 1
    with plain [OF m] plain [OF markers_undashed(1)] show ?thesis unfolding unseen_def by metis
  next
    case 2
    with plain [OF v] plain [OF markers_undashed(2)] show ?thesis unfolding unseen_def by metis
  next
    case 3
    with key key2 plain [OF markers_undashed(3)] show ?thesis unfolding unseen_def by metis
  next
    case 4
    with no_equals [OF t] show ?thesis unfolding unseen_def by metis
  qed
qed

text \<open>On a template without equals signs only whole tokens count.\<close>

fun plain_scan :: "string \<Rightarrow> string \<Rightarrow> nat \<Rightarrow> string list \<Rightarrow> string \<times> nat" where
  "plain_scan flag v n [] = (v, n)"
| "plain_scan flag v n [t] = (if t = flag then (v, Suc n) else (v, n))"
| "plain_scan flag v n (t # u # ts) =
     (if t = flag then plain_scan flag u (Suc n) ts else plain_scan flag v n (u # ts))"

lemma flag_scan_plain: "list_all (\<lambda>t. CHR ''='' \<notin> set t) ts \<Longrightarrow> flag_scan flag v n ts = plain_scan flag v n ts"
  by (induction flag v n ts rule: flag_scan.induct) (auto simp: no_equals)

definition qwen_template :: "string \<Rightarrow> string list" where
  "qwen_template role =
     [''--model'', qwen38_container_model] @ qwen38_common_args @
     (case map_of qwen38_role_args role of None \<Rightarrow> [] | Some xs \<Rightarrow> xs) @
     (if role = role_head then [''{API_KEY}''] else [])"

definition scanned_flags :: "string list" where
  "scanned_flags =
     [''--model'', ''--revision'', ''--master-addr'', ''--node-rank'', ''--host'', ''--port'', ''--headless'',
      ''--enable-expert-parallel'', ''--enable-chunked-prefill'', ''--enable-auto-tool-choice''] @
     map fst qwen38_fixed_flags"

lemma has_prefix_simps:
  "has_prefix s []" "\<not> has_prefix [] (d # p)"
  "has_prefix (c # s) (d # p) = (if c = d then has_prefix s p else False)"
  by (simp_all add: has_prefix_def)

text \<open>Comparing texts character by character, stopping at the first difference.\<close>

lemma cons_eq_if: "(c # s = d # p) = (if c = d then s = p else False)"
  by simp

lemmas template_defs =
  qwen_template_def qwen38_container_model_def qwen38_container_root_def qwen38_common_args_def qwen38_role_args_def head_addr_placeholder_def
  qwen38_revision_def qwen38_served_model_def role_head_def role_worker_def

lemma rendezvous_text: "itoa qwen38_rendezvous_port = ''50000''"
  by (simp add: itoa_def qwen38_rendezvous_port_def nat_text.simps char_of_def bit_Suc_0_iff)

lemma flags_safe: "list_all scan_safe scanned_flags"
  by (simp add: scanned_flags_def qwen38_fixed_flags_def rendezvous_text scan_safe_def has_prefix_simps)

lemma template_tokens:
  "list_all (\<lambda>t. CHR ''='' \<notin> set t \<and> t \<noteq> ''--api-key'') (qwen_template role_head)"
  "list_all (\<lambda>t. CHR ''='' \<notin> set t \<and> t \<noteq> ''--api-key'') (qwen_template role_worker)"
  by (simp_all add: template_defs)

definition token_count :: "string \<Rightarrow> string list \<Rightarrow> nat" where
  "token_count x ts = length (filter (\<lambda>t. t = x) ts)"

lemmas scan_defs =
  template_defs qwen38_fixed_flags_def rendezvous_text token_count_def

lemma head_scans:
  "map (\<lambda>flag. plain_scan flag [] 0 (qwen_template role_head))
     ([''--model'', ''--revision'', ''--master-addr'', ''--node-rank'', ''--host'', ''--port''] @ map fst qwen38_fixed_flags) =
   map (\<lambda>v. (v, 1)) ([qwen38_container_model, qwen38_revision, head_addr_placeholder, ''0'', ''{SERVICE_ADDRESS}'', ''8888''] @
     map snd qwen38_fixed_flags)"
  by (simp add: scan_defs cons_eq_if del: list.inject)

lemma worker_scans:
  "map (\<lambda>flag. plain_scan flag [] 0 (qwen_template role_worker))
     ([''--model'', ''--revision'', ''--master-addr'', ''--node-rank''] @ map fst qwen38_fixed_flags) =
   map (\<lambda>v. (v, 1)) ([qwen38_container_model, qwen38_revision, head_addr_placeholder, ''1''] @
     map snd qwen38_fixed_flags)"
  "map (\<lambda>flag. plain_scan flag [] 0 (qwen_template role_worker)) [''--host'', ''--port''] = [([], 0), ([], 0)]"
  by (simp_all add: scan_defs cons_eq_if del: list.inject)

lemma head_counts:
  "map (\<lambda>x. token_count x (qwen_template role_head))
     [''--enable-expert-parallel'', ''--enable-chunked-prefill'', ''--enable-auto-tool-choice'', ''--headless'', ''{API_KEY}''] =
   [1, 1, 1, 0, 1]"
  by (simp add: scan_defs cons_eq_if del: list.inject)

lemma worker_counts:
  "map (\<lambda>x. token_count x (qwen_template role_worker))
     [''--enable-expert-parallel'', ''--enable-chunked-prefill'', ''--enable-auto-tool-choice'', ''--headless'', ''{API_KEY}''] =
   [1, 1, 1, 1, 0]"
  by (simp add: scan_defs cons_eq_if del: list.inject)

lemma values_fixed:
  "list_all (\<lambda>v. v \<noteq> head_addr_placeholder \<and> v \<noteq> ''{SERVICE_ADDRESS}'' \<and> v \<noteq> ''{API_KEY}'')
     ([[], qwen38_container_model, qwen38_revision, ''0'', ''1'', ''8888''] @ map snd qwen38_fixed_flags)"
  by (simp add: scan_defs cons_eq_if del: list.inject)

end
