(* ===== verification/Daemon_Deploy.thy ===== *)
theory Daemon_Deploy
  imports Launch_Auth Deploy_Candidate Config_Store Log_Tail Bkc_Catalog_Names
begin

text \<open>
  The daemon's side of coordinated deployments, \<^verbatim>\<open>internal/daemon/deployments.go\<close>: the HTTP
  replies of the deployment handlers, the operations the deployment engine calls (preflight, pull,
  inspect, launch, wait, test, log capture, and the mutations of a member), and the classification
  of an agent's failures. A call to an agent answers with a decoded document or an agent error.
\<close>

section \<open>Failures of an agent\<close>

text \<open>A reply that is no success, or any other error of the call.\<close>

datatype agent_error = AgentHttp int string string | AgentTransport gerror

definition agent_error_value :: "agent_error \<Rightarrow> gerror" where
  "agent_error_value e =
     (case e of
        AgentHttp status code message \<Rightarrow>
          Errorf (if message \<noteq> [] then ''agent '' @ code @ '': '' @ message
                  else ''agent returned status '' @ itoa status)
      | AgentTransport g \<Rightarrow> g)"

text \<open>\<^verbatim>\<open>agentResponseError\<close>: \<open>envelope\<close> is the decoded error and message of the body.\<close>

definition agent_response_error :: "int \<Rightarrow> (string \<times> string) option \<Rightarrow> agent_error" where
  "agent_response_error status envelope =
     (case envelope of
        Some (code, message) \<Rightarrow> if message \<noteq> [] then AgentHttp status code message else AgentHttp status [] []
      | None \<Rightarrow> AgentHttp status [] [])"

text \<open>\<^verbatim>\<open>requestJSON\<close>: a tunnel, a response in the 200s, a decoded body when one is wanted.\<close>

definition request_json ::
  "int \<Rightarrow> string \<Rightarrow> gerror + (int \<times> (string \<times> string) option \<times> 'a option) \<Rightarrow> agent_error + 'a" where
  "request_json port device response =
     (if port = 0 then Inl (AgentTransport (Errorf (''device '' @ device @ '' is offline'')))
      else (case response of
          Inl g \<Rightarrow> Inl (AgentTransport g)
        | Inr (status, envelope, body) \<Rightarrow>
            if status < 200 \<or> status \<ge> 300 then Inl (agent_response_error status envelope)
            else (case body of None \<Rightarrow> Inl (AgentTransport (Errorf ''decode agent response'')) | Some x \<Rightarrow> Inr x)))"

definition classify_preflight_error :: "agent_error \<Rightarrow> gerror" where
  "classify_preflight_error e =
     (let kind = (case e of
          AgentHttp status code message \<Rightarrow>
            if status = 400 then ErrorValidation else if status = 409 then ErrorConflict
            else if status = 503 then ErrorUnavailable else ErrorDependency
        | AgentTransport g \<Rightarrow> ErrorUnavailable)
      in wrap_error kind ''agent deployment preflight'' (agent_error_value e))"

definition classify_preflight_dependency :: "string \<Rightarrow> agent_error \<Rightarrow> gerror" where
  "classify_preflight_dependency op e =
     (let kind = (case e of
          AgentHttp status code message \<Rightarrow> if status = 503 then ErrorUnavailable else ErrorDependency
        | AgentTransport g \<Rightarrow> ErrorDependency)
      in wrap_error kind op (agent_error_value e))"

definition agent_operation_error :: "string \<Rightarrow> agent_error \<Rightarrow> bool \<Rightarrow> gerror" where
  "agent_operation_error op e client_conflicts =
     (if error_kind_of (agent_error_value e) \<noteq> None then agent_error_value e
      else (case e of
          AgentHttp status code message \<Rightarrow>
            if code = ''service_unauthorized'' then wrap_error ErrorDependency op (Sentinel ErrServiceUnauthorized)
            else if client_conflicts \<and> 400 \<le> status \<and> status < 500
              then wrap_error ErrorConflict op (agent_error_value e)
            else if status = 404 \<or> status = 409 then wrap_error ErrorConflict op (agent_error_value e)
            else wrap_error ErrorDependency op (agent_error_value e)
        | AgentTransport g \<Rightarrow> wrap_error ErrorUnavailable op g))"

section \<open>HTTP replies\<close>

definition deployment_error_response :: "gerror \<Rightarrow> string \<Rightarrow> int \<times> string" where
  "deployment_error_response e fallback =
     (if err_is e ErrIdempotencyConflict then (409, ''idempotency_conflict'')
      else if err_is e ErrRecoveryPerformed then (409, ''idempotency_recovered'')
      else (case error_kind_of e of
          Some ErrorValidation \<Rightarrow> (400, ''invalid_deployment'')
        | Some ErrorConflict \<Rightarrow> (409, ''deployment_conflict'')
        | Some ErrorDependency \<Rightarrow> (502, ''deployment_dependency'')
        | Some ErrorUnavailable \<Rightarrow> (503, ''deployment_unavailable'')
        | None \<Rightarrow> (500, fallback)))"

definition safe_deployment :: "deployment \<Rightarrow> deployment" where
  "safe_deployment d = d\<lparr>d_hash := []\<rparr>"

text \<open>A reply: status, error code (empty on success) and the deployment shown, if any.\<close>

type_synonym deployment_reply = "int \<times> string \<times> deployment option"

definition create_reply :: "deployment \<times> bool \<times> gerror option \<Rightarrow> deployment_reply" where
  "create_reply outcome =
     (case outcome of (d, created, err) \<Rightarrow>
        (case err of
           Some e \<Rightarrow> (case deployment_error_response e ''deployment_failed'' of (status, code) \<Rightarrow>
                       (status, code, Some (safe_deployment d)))
         | None \<Rightarrow> (if created then 201 else 200, [], Some (safe_deployment d))))"

definition list_reply :: "deployment list \<Rightarrow> deployment list" where
  "list_reply ds = map safe_deployment ds"

definition lookup_error_reply :: "gerror \<Rightarrow> deployment_reply" where
  "lookup_error_reply e =
     (if err_is e ErrNotFound then (404, ''deployment_not_found'', None)
      else (500, ''deployment_read_failed'', None))"

definition action_error_reply :: "string \<Rightarrow> gerror \<Rightarrow> deployment_reply" where
  "action_error_reply code e =
     (if err_is e ErrNotFound then lookup_error_reply e
      else (case deployment_error_response e code of (status, typed) \<Rightarrow> (status, typed, None)))"

definition start_error_reply :: "deployment \<Rightarrow> gerror \<Rightarrow> deployment_reply" where
  "start_error_reply d e =
     (if err_is e ErrNotFound then lookup_error_reply e
      else (case deployment_error_response e ''deployment_start_failed'' of (status, code) \<Rightarrow>
             (status, code, Some (safe_deployment d))))"

definition get_reply :: "gerror + deployment \<Rightarrow> deployment_reply" where
  "get_reply result = (case result of Inl e \<Rightarrow> lookup_error_reply e | Inr d \<Rightarrow> (200, [], Some (safe_deployment d)))"

definition action_reply :: "string \<Rightarrow> gerror + deployment \<Rightarrow> deployment_reply" where
  "action_reply code result =
     (case result of Inl e \<Rightarrow> action_error_reply code e | Inr d \<Rightarrow> (200, [], Some (safe_deployment d)))"

section \<open>Grouped members\<close>

definition same_container_id :: "string \<Rightarrow> string \<Rightarrow> bool" where
  "same_container_id left right \<longleftrightarrow>
     (let l = trim_space left; r = trim_space right in
      l \<noteq> [] \<and> r \<noteq> [] \<and>
      (l = r \<or> (length l \<ge> 12 \<and> length r \<ge> 12 \<and> (has_prefix l r \<or> has_prefix r l))))"

definition guards_member :: "string \<Rightarrow> string \<Rightarrow> member \<Rightarrow> bool" where
  "guards_member device container m \<longleftrightarrow>
     m_device m = device \<and> m_ownership m = OwnershipManaged \<and>
     (same_container_id (m_container m) container \<or> (m_name m \<noteq> [] \<and> m_name m = trim_space container))"

definition guard_grouped_mutation :: "deployment list \<Rightarrow> string \<Rightarrow> string \<Rightarrow> gerror option" where
  "guard_grouped_mutation ds device container =
     (case find (\<lambda>d. list_ex (guards_member device container) (d_members d)) ds of
        None \<Rightarrow> None
      | Some d \<Rightarrow> Some (Errorf (''container '' @ container @ '' is managed by deployment '' @ d_id d @
          ''; use /deployments/'' @ d_id d @ '' lifecycle operations'')))"

section \<open>TensorFold resource names\<close>

text \<open>
  \<^verbatim>\<open>^yokai-deployment-(.+)-g([1-9][0-9]*)-(head|worker)$\<close>: the digits before the role are the
  whole run of digits, so the parts are unique; the dot does not match a line break.
\<close>

definition strip_role :: "string \<Rightarrow> (string \<times> string) option" where
  "strip_role s =
     (if has_suffix s ''-head'' then Some (trim_suffix s ''-head'', ''head'')
      else if has_suffix s ''-worker'' then Some (trim_suffix s ''-worker'', ''worker'')
      else None)"

definition split_generation :: "string \<Rightarrow> (string \<times> string) option" where
  "split_generation s =
     (let digits = rev (takeWhile is_digit (rev s)); rest = rev (dropWhile is_digit (rev s)) in
      if digits \<noteq> [] \<and> hd digits \<noteq> CHR ''0'' \<and> has_suffix rest ''-g''
      then Some (trim_suffix rest ''-g'', digits) else None)"

definition parse_tensorfold_name :: "string \<Rightarrow> (string \<times> int \<times> string) option" where
  "parse_tensorfold_name name =
     (if \<not> has_prefix name ''yokai-deployment-'' then None
      else (case strip_role (drop 17 name) of
          None \<Rightarrow> None
        | Some (front, role) \<Rightarrow>
            (case split_generation front of
               None \<Rightarrow> None
             | Some (i, digits) \<Rightarrow>
                 if i = [] \<or> CHR 0x0A \<in> set i then None
                 else (case atoi digits of None \<Rightarrow> None | Some g \<Rightarrow> Some (i, g, role)))))"

record tf_resource =
  tf_id :: string
  tf_name :: string
  tf_status :: string
  tf_ownership :: string
  tf_managed :: bool
  tf_deployment :: string
  tf_generation :: int
  tf_role :: string

definition ownership_of_text :: "string \<Rightarrow> ownership" where
  "ownership_of_text s =
     (if s = ''managed'' then OwnershipManaged else if s = ''adopted'' then OwnershipAdopted
      else if s = ''observed'' then OwnershipObserved else OwnershipOther s)"

definition observed_tf_resource :: "tf_resource \<Rightarrow> observed" where
  "observed_tf_resource t =
     \<lparr>o_id = tf_id t, o_name = tf_name t, o_status = tf_status t, o_ownership = ownership_of_text (tf_ownership t),
      o_managed = tf_managed t, o_generation = tf_generation t, o_deployment = tf_deployment t, o_role = tf_role t\<rparr>"

section \<open>Inspecting\<close>

record agent_container =
  ac_id :: string
  ac_name :: string
  ac_status :: string
  ac_ownership :: string
  ac_labels :: gomap

definition match_observed :: "agent_container list \<Rightarrow> string \<Rightarrow> gerror + agent_container" where
  "match_observed cs raw =
     (let selector = trim_space raw;
          conflict = (\<lambda>what. Inl (wrap_error ErrorConflict ''match observed container''
            (Errorf (''container '' @ what @ '' '' @ go_quote selector @ '' is ambiguous''))))
      in case filter (\<lambda>c. ac_name c = selector) cs of
           [c] \<Rightarrow> Inr c
         | _ # _ \<Rightarrow> conflict ''name''
         | [] \<Rightarrow>
             if length selector < 12
             then Inl (wrap_error ErrorValidation ''match observed container''
                    (Errorf ''container ID prefix must contain at least 12 characters''))
             else (case filter (\<lambda>c. has_prefix (ac_id c) selector) cs of
                 [] \<Rightarrow> Inl (Wrapf [] (Sentinel ErrContainerNotFound) ('': '' @ selector))
               | [c] \<Rightarrow> Inr c
               | _ \<Rightarrow> conflict ''ID prefix''))"

definition observed_of :: "agent_container \<Rightarrow> observed" where
  "observed_of c =
     (let label = map_get (ac_labels c); own = ownership_of_text (ac_ownership c) in
      \<lparr>o_id = ac_id c, o_name = ac_name c, o_status = ac_status c,
       o_ownership = (if own \<noteq> OwnershipManaged \<and> own \<noteq> OwnershipAdopted then OwnershipObserved else own),
       o_managed = (label label_managed = ''true''),
       o_generation = (case atoi (label label_generation) of Some g \<Rightarrow> g | None \<Rightarrow> 0),
       o_deployment = label label_deployment, o_role = label label_role\<rparr>)"

text \<open>What an agent answers: its TensorFold resources by name, and its container inventory.\<close>

record agent_view =
  av_resource :: "string \<Rightarrow> agent_error + tf_resource"
  av_inventory :: "agent_error + agent_container list"

definition is_not_found :: "agent_error \<Rightarrow> bool" where
  "is_not_found e = (case e of AgentHttp status code message \<Rightarrow> status = 404 | AgentTransport g \<Rightarrow> False)"

definition inspect_inventory :: "agent_view \<Rightarrow> string \<Rightarrow> gerror + observed" where
  "inspect_inventory v container =
     (case av_inventory v of
        Inl e \<Rightarrow> Inl (agent_operation_error ''read agent container inventory'' e True)
      | Inr cs \<Rightarrow> (case match_observed cs container of Inl e \<Rightarrow> Inl e | Inr c \<Rightarrow> Inr (observed_of c)))"

text \<open>
  Only a name of the resource pattern is asked for; a generation out of range matches the pattern
  without parsing, and then the resource lookup fails before any request.
\<close>

definition tensorfold_name_like :: "string \<Rightarrow> bool" where
  "tensorfold_name_like name \<longleftrightarrow> has_prefix name ''yokai-deployment-'' \<and>
     (case strip_role (drop 17 name) of
        None \<Rightarrow> False
      | Some (front, role) \<Rightarrow>
          (case split_generation front of None \<Rightarrow> False | Some (i, d) \<Rightarrow> i \<noteq> [] \<and> CHR 0x0A \<notin> set i))"

definition get_tf_resource :: "agent_view \<Rightarrow> string \<Rightarrow> agent_error + tf_resource" where
  "get_tf_resource v name =
     (if parse_tensorfold_name name = None then Inl (AgentTransport (Errorf ''invalid TensorFold resource name''))
      else av_resource v name)"

definition inspect_member :: "agent_view \<Rightarrow> string \<Rightarrow> gerror + observed" where
  "inspect_member v container =
     (if has_prefix container ''tensorfold:'' then
        (case get_tf_resource v (trim_prefix container ''tensorfold:'') of
           Inl e \<Rightarrow> Inl (agent_operation_error ''inspect TensorFold resource'' e True)
         | Inr t \<Rightarrow> Inr (observed_tf_resource t))
      else if tensorfold_name_like container then
        (case get_tf_resource v container of
           Inr t \<Rightarrow> Inr (observed_tf_resource t)
         | Inl e \<Rightarrow> if is_not_found e then inspect_inventory v container
                   else Inl (agent_operation_error ''inspect TensorFold resource'' e True))
      else inspect_inventory v container)"

section \<open>Waiting\<close>

datatype wait_end = WaitCanceled sentinel | WaitTimeout

text \<open>
  \<open>views\<close>: one agent view per poll before the wait ends; after the last one the context is
  canceled or the timer fires. The first poll always happens.
\<close>

definition failed_status :: "string \<Rightarrow> bool" where
  "failed_status s \<longleftrightarrow> s \<in> {''stopped'', ''exited'', ''dead'', ''unknown''}"

fun wait_running :: "agent_view list \<Rightarrow> wait_end \<Rightarrow> string \<Rightarrow> gerror option" where
  "wait_running [] ended container =
     Some (case ended of
        WaitCanceled s \<Rightarrow> wrap_error ErrorUnavailable ''wait for member running'' (Sentinel s)
      | WaitTimeout \<Rightarrow> wrap_error ErrorDependency ''wait for member running''
          (Errorf ''candidate did not reach running state''))"
| "wait_running (v # vs) ended container =
     (case inspect_member v container of
        Inr ob \<Rightarrow> if o_status ob = ''running'' then None
                  else if failed_status (o_status ob)
                    then Some (Errorf (''candidate entered '' @ o_status ob @ '' state''))
                  else wait_running vs ended container
      | Inl e \<Rightarrow> wait_running vs ended container)"

section \<open>Preflight\<close>

record agent_health =
  ah_status :: string
  ah_device :: string
  ah_capabilities :: "string list"

record agent_info =
  ai_fingerprint :: string
  ai_gpus :: "string list"

text \<open>The document an agent's preflight handler receives.\<close>

record preflight_payload =
  pp_fabric_address :: string
  pp_fabric_interface :: string
  pp_fabric_hca :: string
  pp_fabric_gid :: "int option"
  pp_require_fabric :: bool
  pp_service_address :: string
  pp_service_port :: int
  pp_rendezvous_port :: int
  pp_head :: bool
  pp_observed :: string
  pp_candidate :: string
  pp_model_path :: string
  pp_bkc_id :: string
  pp_model_revision :: string

definition preflight_payload_of :: "preflight_request \<Rightarrow> preflight_payload" where
  "preflight_payload_of q = (let b = pf_binding q in
     \<lparr>pp_fabric_address = b_fabric_address b, pp_fabric_interface = b_fabric_interface b,
      pp_fabric_hca = b_fabric_hca b, pp_fabric_gid = b_fabric_gid b,
      pp_require_fabric = (pf_bkc_id q = qwen38_dual_id), pp_service_address = b_service_address b,
      pp_service_port = pf_service_port q, pp_rendezvous_port = pf_rendezvous_port q,
      pp_head = pf_head q, pp_observed = b_observed b, pp_candidate = pf_candidate_name q,
      pp_model_path = pf_model_path q, pp_bkc_id = pf_bkc_id q, pp_model_revision = pf_model_revision q\<rparr>)"

record tf_payload =
  tp_name :: string
  tp_deployment :: string
  tp_generation :: int
  tp_role :: string
  tp_worker_user :: string
  tp_worker_address :: string
  tp_head_fabric :: string
  tp_service_address :: string
  tp_service_port :: int
  tp_repository :: string
  tp_commit :: string

definition tf_payload_base :: "string \<Rightarrow> string \<Rightarrow> int \<Rightarrow> string \<Rightarrow> recipe_candidate \<Rightarrow> tf_payload" where
  "tf_payload_base name i g role rc =
     \<lparr>tp_name = name, tp_deployment = i, tp_generation = g, tp_role = role, tp_worker_user = [],
      tp_worker_address = [], tp_head_fabric = [], tp_service_address = [], tp_service_port = 0,
      tp_repository = rc_repository rc, tp_commit = rc_commit rc\<rparr>"

definition tf_payload_head :: "string \<Rightarrow> recipe_candidate \<Rightarrow> tf_payload \<Rightarrow> tf_payload" where
  "tf_payload_head user rc p = p\<lparr>tp_worker_user := user, tp_worker_address := rc_worker_address rc,
     tp_head_fabric := rc_head_fabric_address rc, tp_service_address := rc_service_address rc,
     tp_service_port := rc_service_port rc\<rparr>"

record preflight_env =
  pe_config :: config
  pe_port :: "string \<Rightarrow> int"
  pe_health :: "agent_error + agent_health"
  pe_info :: "agent_error + agent_info"
  pe_public_key :: "string option"
  pe_agent_preflight :: "preflight_payload \<Rightarrow> agent_error option"
  pe_tf_preflight :: "tf_payload \<Rightarrow> agent_error option"

text \<open>\<^verbatim>\<open>PublicKeyFingerprint\<close> on a key of the right length.\<close>

definition key_fingerprint :: "string \<Rightarrow> string" where
  "key_fingerprint key = ''sha256:'' @ sha256_hex key"

definition requires_device :: "string list \<Rightarrow> string \<Rightarrow> bool" where
  "requires_device targets target = list_ex (\<lambda>t. equal_fold t target) targets"

definition device_is_gb10 :: "string \<Rightarrow> bool" where
  "device_is_gb10 gpu \<longleftrightarrow> str_contains (to_lower gpu) ''gb10'' \<or> str_contains (to_lower gpu) ''dgx spark''"

definition fail :: "error_kind \<Rightarrow> string \<Rightarrow> string \<Rightarrow> gerror option" where
  "fail kind op message = Some (wrap_error kind op (Errorf message))"

text \<open>The identity, capabilities and hardware of the agent.\<close>

definition check_health :: "preflight_request \<Rightarrow> string list \<Rightarrow> agent_health \<Rightarrow> gerror option" where
  "check_health q capabilities h =
     (let device = b_device (pf_binding q) in
      if ah_status h \<noteq> ''ok''
        then fail ErrorUnavailable ''agent health'' (''agent health is '' @ go_quote (ah_status h))
      else if pf_bkc_id q = qwen38_dual_id \<and> ah_device h \<noteq> device
        then fail ErrorConflict ''agent device identity'' (''agent configured device identity '' @
               go_quote (ah_device h) @ '' does not match target '' @ go_quote device)
      else (case find (\<lambda>c. c \<notin> set (ah_capabilities h)) capabilities of
          Some c \<Rightarrow> fail ErrorConflict ''agent capability'' (''agent lacks required capability '' @ c)
        | None \<Rightarrow> None))"

definition check_info :: "preflight_env \<Rightarrow> preflight_request \<Rightarrow> string list \<Rightarrow> agent_info \<Rightarrow> gerror option" where
  "check_info env q targets info =
     (let device = b_device (pf_binding q);
          verifier = (if pf_bkc_id q \<noteq> qwen38_dual_id then None
            else (case pe_public_key env of
                None \<Rightarrow> fail ErrorUnavailable ''coordinator verifier fingerprint''
                          ''coordinator signing key is not configured''
              | Some key \<Rightarrow>
                  if ai_fingerprint info \<noteq> key_fingerprint key
                  then fail ErrorConflict ''coordinator verifier fingerprint''
                    ''agent verifier does not match the coordinator signing key; bootstrap the agent again''
                  else None))
      in case verifier of
           Some e \<Rightarrow> Some e
         | None \<Rightarrow>
             (case ai_gpus info of
                [gpu] \<Rightarrow>
                  if requires_device targets device_gb10 \<and> \<not> device_is_gb10 gpu
                  then fail ErrorConflict ''agent GPU capability'' (''device '' @ device @ '' is not identified as GB10'')
                  else None
              | gpus \<Rightarrow> fail ErrorConflict ''agent GPU capability'' (''device '' @ device @
                  '' must expose exactly one GPU, got '' @ itoa (int (length gpus)))))"

definition tensorfold_preflight :: "preflight_env \<Rightarrow> preflight_request \<Rightarrow> gerror option" where
  "tensorfold_preflight env q =
     (case pf_recipe q of
        None \<Rightarrow> fail ErrorValidation ''TensorFold preflight'' ''recipe metadata is missing''
      | Some rc \<Rightarrow>
     (case parse_tensorfold_name (pf_candidate_name q) of
        None \<Rightarrow> fail ErrorValidation ''TensorFold preflight'' ''candidate identity is inconsistent''
      | Some (i, g, role) \<Rightarrow>
      if role \<noteq> b_role (pf_binding q)
        then fail ErrorValidation ''TensorFold preflight'' ''candidate identity is inconsistent''
      else (let base = tf_payload_base (pf_candidate_name q) i g role rc;
                send = (\<lambda>p. map_option classify_preflight_error (pe_tf_preflight env p)) in
        if \<not> pf_head q then send base
        else (case find_device (pe_config env) (rc_worker_device rc) of
            None \<Rightarrow> fail ErrorValidation ''TensorFold preflight'' ''worker device is not configured''
          | Some worker \<Rightarrow> send (tf_payload_head (dv_ssh_user worker) rc base)))))"

definition daemon_preflight ::
  "preflight_env \<Rightarrow> preflight_request \<Rightarrow> string list \<Rightarrow> string list \<Rightarrow> gerror option" where
  "daemon_preflight env q capabilities targets =
     (let device = b_device (pf_binding q) in
      if find_device (pe_config env) device = None
        then fail ErrorValidation ''resolve device'' (''device '' @ device @ '' is not configured'')
      else if pe_port env device = 0
        then fail ErrorUnavailable ''connect agent'' (''device '' @ device @ '' is offline'')
      else (case pe_health env of
        Inl e \<Rightarrow> Some (wrap_error ErrorUnavailable ''agent health'' (agent_error_value e))
      | Inr h \<Rightarrow>
      (case check_health q capabilities h of
        Some e \<Rightarrow> Some e
      | None \<Rightarrow>
      (case pe_info env of
        Inl e \<Rightarrow> Some (classify_preflight_dependency ''agent system info'' e)
      | Inr info \<Rightarrow>
      (case check_info env q targets info of
        Some e \<Rightarrow> Some e
      | None \<Rightarrow>
      (case pe_agent_preflight env (preflight_payload_of q) of
        Some e \<Rightarrow> Some (classify_preflight_error e)
      | None \<Rightarrow>
          if pf_driver q = driver_head_recipe then tensorfold_preflight env q else None))))))"

section \<open>Launching\<close>

text \<open>\<^verbatim>\<open>Pull\<close>: the image of the TensorFold recipe is built by its driver.\<close>

definition pull_candidate :: "string \<Rightarrow> agent_error option \<Rightarrow> gerror option" where
  "pull_candidate img posted =
     (if img = tf_image then None
      else map_option (\<lambda>e. agent_operation_error ''pull candidate image'' e False) posted)"

text \<open>The body of the launch request of an ordinary candidate.\<close>

definition launch_payload :: "candidate \<Rightarrow> launch_request" where
  "launch_payload c =
     \<lparr>lr_image = c_image c, lr_name = c_name c, lr_model = c_model c, lr_gguf_variant = [], lr_gguf_files = [],
      lr_hf_token = [], lr_ports = Some (if c_port c = [] then [] else [(c_port c, c_port c)]),
      lr_env = Some (c_env c), lr_gpu_ids = c_gpu_ids c, lr_extra_args = c_extra_args c, lr_args = c_args c,
      lr_volumes = Some (c_volumes c), lr_plugins = None, lr_runtime = c_runtime c, lr_skip_pull = True,
      lr_labels = c_labels c, lr_network_mode = c_network_mode c, lr_devices = c_devices c,
      lr_cap_add = c_cap_add c, lr_entrypoint = []\<rparr>"

text \<open>
  What a launch needs: the signer (\<^verbatim>\<open>signQwenLaunchAuthorization\<close>, with the target device), the
  agent's answers with the identifier and status it reports, and the TensorFold side.
\<close>

record launch_env =
  ln_config :: config
  ln_sign :: "string \<Rightarrow> launch_request \<Rightarrow> auth_error + string"
  ln_containers :: "container_request \<Rightarrow> agent_error + string \<times> string"
  ln_worker :: "string \<Rightarrow> string \<Rightarrow> agent_error + tf_resource"
  ln_resources :: "tf_payload \<Rightarrow> agent_error + tf_resource"

definition auth_error_value :: "auth_error \<Rightarrow> gerror" where
  "auth_error_value e =
     (case e of
        AuthInvalid m \<Rightarrow> Wrapf [] (Sentinel ErrInvalid) ('': '' @ m)
      | AuthExpired \<Rightarrow> Sentinel ErrExpired
      | AuthReplay \<Rightarrow> Sentinel ErrReplay
      | AuthUnavailable \<Rightarrow> Errorf ''coordinator launch authorization is not configured''
      | AuthUnexpected \<Rightarrow> Errorf ''launch authorization is only valid for the coordinated Qwen3.8 BKC''
      | AuthRejected m \<Rightarrow> Errorf m
      | AuthStore m \<Rightarrow> Errorf m)"

definition launch_container :: "launch_env \<Rightarrow> binding \<Rightarrow> candidate \<Rightarrow> gerror + observed" where
  "launch_container env b c =
     (let payload = launch_payload c;
          token = (if map_get (c_labels c) label_bkc_id = qwen38_dual_id
                   then ln_sign env (b_device b) payload else Inr [])
      in case token of
           Inl e \<Rightarrow> Inl (wrap_error ErrorConflict ''authorize candidate launch'' (auth_error_value e))
         | Inr t \<Rightarrow>
             (case ln_containers env (agent_request payload t) of
                Inl e \<Rightarrow> Inl (agent_operation_error ''launch candidate'' e False)
              | Inr (i, status) \<Rightarrow>
                  Inr \<lparr>o_id = i, o_name = c_name c, o_status = status, o_ownership = OwnershipManaged,
                       o_managed = False, o_generation = 0, o_deployment = [], o_role = []\<rparr>))"

definition tf_identity :: "string \<Rightarrow> int \<Rightarrow> string \<Rightarrow> tf_resource \<Rightarrow> bool" where
  "tf_identity i g role t \<longleftrightarrow>
     tf_deployment t = i \<and> tf_generation t = g \<and> tf_role t = role \<and> tf_managed t \<and> tf_ownership t = ''managed''"

definition candidate_identity :: "candidate \<Rightarrow> (string \<times> int \<times> string) option" where
  "candidate_identity c =
     (case parse_tensorfold_name (c_name c) of
        None \<Rightarrow> None
      | Some (i, g, role) \<Rightarrow>
          if role = c_role c \<and> map_get (c_labels c) label_deployment = i \<and>
             map_get (c_labels c) label_generation = itoa g \<and> map_get (c_labels c) label_role = role
          then Some (i, g, role) else None)"

definition reject :: "error_kind \<Rightarrow> string \<Rightarrow> string \<Rightarrow> gerror + 'a" where
  "reject kind op message = Inl (wrap_error kind op (Errorf message))"

definition tf_head_payload ::
  "launch_env \<Rightarrow> recipe_candidate \<Rightarrow> string \<Rightarrow> int \<Rightarrow> tf_payload \<Rightarrow> gerror + tf_payload" where
  "tf_head_payload env rc i g base =
     (case find_device (ln_config env) (rc_worker_device rc) of
        None \<Rightarrow> reject ErrorValidation ''launch TensorFold resource'' ''worker device is not configured''
      | Some worker \<Rightarrow>
          if trim_space (dv_ssh_user worker) = []
          then reject ErrorValidation ''launch TensorFold resource'' ''worker device has no SSH user''
          else (case ln_worker env (rc_worker_device rc) (candidate_name i g role_worker) of
              Inl e \<Rightarrow> Inl (agent_operation_error ''verify TensorFold worker reservation'' e True)
            | Inr t \<Rightarrow>
                if \<not> tf_identity i g role_worker t
                then reject ErrorConflict ''verify TensorFold worker reservation'' ''worker reservation identity mismatch''
                else Inr (tf_payload_head (dv_ssh_user worker) rc base)))"

definition launch_tensorfold :: "launch_env \<Rightarrow> candidate \<Rightarrow> gerror + observed" where
  "launch_tensorfold env c =
     (case c_recipe c of
        None \<Rightarrow> reject ErrorValidation ''launch TensorFold resource'' ''recipe metadata is missing''
      | Some rc \<Rightarrow>
     (case candidate_identity c of
        None \<Rightarrow> reject ErrorValidation ''launch TensorFold resource'' ''candidate identity is inconsistent''
      | Some (i, g, role) \<Rightarrow>
     (let base = tf_payload_base (c_name c) i g role rc in
      case (if role = role_head then tf_head_payload env rc i g base else Inr base) of
        Inl e \<Rightarrow> Inl e
      | Inr payload \<Rightarrow>
          (case ln_resources env payload of
             Inl e \<Rightarrow> Inl (agent_operation_error ''launch TensorFold resource'' e False)
           | Inr t \<Rightarrow>
               if tf_name t \<noteq> c_name c \<or> \<not> tf_identity i g role t
               then reject ErrorConflict ''launch TensorFold resource'' ''agent returned mismatched resource identity''
               else Inr (observed_tf_resource t)))))"

definition launch_candidate :: "launch_env \<Rightarrow> binding \<Rightarrow> candidate \<Rightarrow> gerror + observed" where
  "launch_candidate env b c =
     (if c_driver c = driver_head_recipe then launch_tensorfold env c else launch_container env b c)"

section \<open>Mutating members\<close>

text \<open>Durations in seconds, from \<^verbatim>\<open>internal/deployments/types.go\<close>.\<close>

definition launch_command_timeout :: int where "launch_command_timeout = 5 * 60"
definition launch_settle_timeout :: int where "launch_settle_timeout = 5 * 60"
definition launch_rpc_timeout :: int where "launch_rpc_timeout = 11 * 60"
definition preflight_rpc_timeout :: int where "preflight_rpc_timeout = 15 * 60"
definition mutation_rpc_timeout :: int where "mutation_rpc_timeout = 2 * 60"

definition member_mutation_timeout :: "bool \<Rightarrow> string \<Rightarrow> string \<Rightarrow> int" where
  "member_mutation_timeout is_delete action bkc =
     (if is_delete then launch_rpc_timeout
      else if action = ''restart'' \<and> bkc = qwen38_dual_id then preflight_rpc_timeout
      else mutation_rpc_timeout)"

text \<open>An agent request about a member: method, action, its path parameters and its deadline.\<close>

datatype member_call =
    MemberCall (mc_delete: bool) (mc_action: string) (mc_deployment: string) (mc_locator: string)
      (mc_generation: int) (mc_role: string) (mc_name: string) (mc_timeout: int)
  | ResourceCall (tc_delete: bool) (tc_action: string) (tc_name: string) (tc_identity: "string \<times> int \<times> string")
      (tc_timeout: int)

definition is_tensorfold_deployment :: "deployment \<Rightarrow> bool" where
  "is_tensorfold_deployment d \<longleftrightarrow> d_bkc_id d = glm53_tensorfold_id"

definition mutate_tf_resource ::
  "(member_call \<Rightarrow> agent_error option) \<Rightarrow> bool \<Rightarrow> string \<Rightarrow> member \<Rightarrow> agent_error option \<times> gerror option" where
  "mutate_tf_resource post is_delete action m =
     (case parse_tensorfold_name (m_name m) of
        None \<Rightarrow> (None, Some (wrap_error ErrorValidation ''mutate TensorFold resource''
                   (Errorf ''invalid TensorFold resource name'')))
      | Some ident \<Rightarrow>
          (let answer = post (ResourceCall is_delete action (m_name m) ident
                 (member_mutation_timeout is_delete action glm53_tensorfold_id))
           in (answer, map_option (\<lambda>e. agent_operation_error ''mutate TensorFold resource'' e False) answer)))"

definition mutate_member ::
  "(member_call \<Rightarrow> agent_error option) \<Rightarrow> bool \<Rightarrow> string \<Rightarrow> deployment \<Rightarrow> member \<Rightarrow> agent_error option \<times> gerror option" where
  "mutate_member post is_delete action d m =
     (let answer = post (MemberCall is_delete action (d_id d) (member_locator m) (m_generation m) (m_role m)
            (m_name m) (member_mutation_timeout is_delete action (d_bkc_id d)))
      in (answer, map_option (\<lambda>e. agent_operation_error ''mutate deployment member'' e False) answer))"

definition stop_managed :: "(member_call \<Rightarrow> agent_error option) \<Rightarrow> deployment \<Rightarrow> member \<Rightarrow> gerror option" where
  "stop_managed post d m =
     snd (if is_tensorfold_deployment d then mutate_tf_resource post False ''stop'' m
          else mutate_member post False ''stop'' d m)"

definition restart_managed :: "(member_call \<Rightarrow> agent_error option) \<Rightarrow> deployment \<Rightarrow> member \<Rightarrow> gerror option" where
  "restart_managed post d m =
     snd (if is_tensorfold_deployment d then mutate_tf_resource post False ''restart'' m
          else mutate_member post False ''restart'' d m)"

text \<open>A removal that finds nothing is done.\<close>

definition remove_managed :: "(member_call \<Rightarrow> agent_error option) \<Rightarrow> deployment \<Rightarrow> member \<Rightarrow> gerror option" where
  "remove_managed post d m =
     (case (if is_tensorfold_deployment d then mutate_tf_resource post True [] m
            else mutate_member post True [] d m) of
        (Some e, err) \<Rightarrow> if is_not_found e then None else err
      | (None, err) \<Rightarrow> err)"

section \<open>Logs and tests\<close>

text \<open>The tail an agent returned is sanitised again here.\<close>

definition log_capture :: "string \<Rightarrow> string \<Rightarrow> agent_error + string \<times> bool \<Rightarrow> gerror + string \<times> bool" where
  "log_capture op key answer =
     (case answer of
        Inl e \<Rightarrow> Inl (agent_operation_error op e False)
      | Inr (raw, lost) \<Rightarrow>
          (case sanitize_log_tail raw key of (tail, truncated) \<Rightarrow> Inr (tail, lost \<or> truncated)))"

definition capture_managed_logs ::
  "(member_call \<Rightarrow> agent_error + string \<times> bool) \<Rightarrow> deployment \<Rightarrow> member \<Rightarrow> string \<Rightarrow> gerror + string \<times> bool" where
  "capture_managed_logs post d m key =
     (if is_tensorfold_deployment d then
        (case parse_tensorfold_name (m_name m) of
           None \<Rightarrow> Inl (Errorf ''invalid TensorFold resource name'')
         | Some ident \<Rightarrow>
             log_capture ''capture TensorFold logs'' key (post (ResourceCall False ''logs/tail'' (m_name m) ident 15)))
      else log_capture ''capture candidate logs'' key
        (post (MemberCall False ''logs/tail'' (d_id d) (member_locator m) (m_generation m) (m_role m) (m_name m) 15)))"

definition test_member ::
  "(member_call \<Rightarrow> agent_error + test_result) \<Rightarrow> (string \<Rightarrow> string \<Rightarrow> agent_error + test_result) \<Rightarrow>
   string \<Rightarrow> string \<Rightarrow> gerror + test_result" where
  "test_member post probe container key =
     (if has_prefix container ''tensorfold:'' then
        (if key \<noteq> [] then reject ErrorValidation ''test TensorFold resource'' ''api key is not supported''
         else (let name = trim_prefix container ''tensorfold:'' in
           case parse_tensorfold_name name of
             None \<Rightarrow> Inl (Errorf ''invalid TensorFold resource name'')
           | Some ident \<Rightarrow>
               (case post (ResourceCall False ''test'' name ident mutation_rpc_timeout) of
                  Inl e \<Rightarrow> Inl (agent_operation_error ''test TensorFold resource'' e False)
                | Inr t \<Rightarrow> Inr (t\<lparr>tr_tested_at := 0\<rparr>))))
      else (case probe container key of
          Inl e \<Rightarrow> Inl (agent_operation_error ''test rank-0 service'' e False)
        | Inr t \<Rightarrow> Inr (t\<lparr>tr_tested_at := 0\<rparr>)))"

end
