(* ===== verification/Docker_Launch.thy ===== *)
theory Docker_Launch
  imports Docker_Template Daemon_Deploy Launch_Auth_Properties
begin

text \<open>
  The coordinator and the agents agree on the Qwen3.8 recipe: the candidate that
  \<^verbatim>\<open>internal/deployments\<close> builds for a validated request, sent as \<^verbatim>\<open>internal/daemon\<close>
  sends it, passes every check \<^verbatim>\<open>internal/agent\<close> makes before it runs the container.
\<close>

section \<open>The filled template passes the command checks\<close>

text \<open>The tokens to fill in: neither address starts with a dash.\<close>

definition fills_ok :: "string \<Rightarrow> string \<Rightarrow> bool" where
  "fills_ok master service \<longleftrightarrow> undashed master \<and> undashed service"

lemma template_plain:
  "role = role_head \<or> role = role_worker \<Longrightarrow>
   list_all (\<lambda>t. CHR ''='' \<notin> set t \<and> t \<noteq> ''--api-key'') (qwen_template role)"
  using template_tokens by blast

lemma template_unseen:
  assumes "role = role_head \<or> role = role_worker" and "flag \<in> set scanned_flags"
    and "undashed master" and "undashed service"
  shows "list_all (unseen (fill master service key) flag) (qwen_template role)"
  using template_plain [OF assms(1)] flags_safe assms(2-4)
  by (auto simp: list_all_iff intro!: fill_unseen)

lemma fill_nil: "fill master service key [] = []"
  using values_fixed by (simp add: fill_def)

lemma template_scan:
  assumes "role = role_head \<or> role = role_worker" and "flag \<in> set scanned_flags"
    and "undashed master" and "undashed service"
  shows "token_flag_value_count (map (fill master service key) (qwen_template role)) flag =
    map_prod (fill master service key) id (plain_scan flag [] 0 (qwen_template role))"
proof -
  have "list_all (\<lambda>t. CHR ''='' \<notin> set t) (qwen_template role)"
    using template_plain [OF assms(1)] by (simp add: list_all_iff)
  then have "token_flag_value_count (qwen_template role) flag = plain_scan flag [] 0 (qwen_template role)"
    by (simp add: token_flag_value_count_def flag_scan_plain)
  with flag_value_map [OF template_unseen [OF assms] fill_nil] show ?thesis by simp
qed

lemma template_count:
  assumes "role = role_head \<or> role = role_worker" and "flag \<in> set scanned_flags"
    and "undashed master" and "undashed service"
  shows "arg_sequence_count (map (fill master service key) (qwen_template role)) [flag] =
    token_count flag (qwen_template role)"
  using single_count_map [OF template_unseen [OF assms]] by (simp add: single_count token_count_def)

lemma template_api_key:
  assumes "role = role_head \<or> role = role_worker" and "undashed master" and "undashed service"
  shows "flag_count (map (fill master service key) (qwen_template role)) ''--api-key'' =
    token_count ''{API_KEY}'' (qwen_template role)"
proof -
  have d: "has_prefix ''--api-key'' ''-''" by (simp add: has_prefix_def)
  have "(fill master service key t = ''--api-key'' \<or> has_prefix (fill master service key t) (''--api-key'' @ ''='')) =
      (t = ''{API_KEY}'')" if "t \<in> set (qwen_template role)" for t
  proof -
    have t: "CHR ''='' \<notin> set t" "t \<noteq> ''--api-key''"
      using template_plain [OF assms(1)] that by (auto simp: list_all_iff)
    have "has_prefix (''--api-key='' @ key) (''--api-key'' @ ''='')" by (simp add: has_prefix_def)
    moreover have "head_addr_placeholder \<noteq> ''{API_KEY}''" by (simp add: head_addr_placeholder_def)
    ultimately show ?thesis
      using undashed_plain [OF assms(2) d] undashed_plain [OF assms(3) d] t no_equals [OF t(1), of "''--api-key''"]
      unfolding fill_def by (cases "t = ''{API_KEY}''") auto
  qed
  then show ?thesis
    by (simp add: flag_count_def token_count_def filter_map comp_def cong: filter_cong)
qed

lemma fill_value:
  "v \<in> set ([[], qwen38_container_model, qwen38_revision, ''0'', ''1'', ''8888''] @ map snd qwen38_fixed_flags) \<Longrightarrow>
   fill master service key v = v"
  using values_fixed by (auto simp: list_all_iff fill_def)

lemma fill_markers:
  "fill master service key head_addr_placeholder = master"
  "fill master service key ''{SERVICE_ADDRESS}'' = service"
  by (simp_all add: fill_def head_addr_placeholder_def)

lemma common_scan:
  assumes "role = role_head \<or> role = role_worker"
    and "(flag, v) \<in> set ([(''--model'', qwen38_container_model), (''--revision'', qwen38_revision),
      (''--master-addr'', head_addr_placeholder)] @ qwen38_fixed_flags)"
  shows "plain_scan flag [] 0 (qwen_template role) = (v, 1)"
  using assms head_scans worker_scans(1) by auto

text \<open>Everything the checks ask of both roles.\<close>

lemma common_command_ok:
  assumes role: "role = role_head \<or> role = role_worker" and d: "undashed master" "undashed service"
    and "parse_ip (trim_chars ''[]'' master) \<noteq> None"
    and argv: "qwen38_role_error role (map (fill master service key) (qwen_template role)) = None"
  shows "qwen38_command_error role (map (fill master service key) (qwen_template role)) = None"
proof -
  let ?T = "map (fill master service key) (qwen_template role)"
  note scan = template_scan [OF role _ d, of _ key]
  have "exactly_once ?T flag v" if "(flag, v) \<in> set qwen38_fixed_flags" for flag v
  proof -
    have "plain_scan flag [] 0 (qwen_template role) = (v, 1)" by (rule common_scan [OF role]) (use that in simp)
    moreover have "flag \<in> set scanned_flags" using that by (force simp: scanned_flags_def)
    moreover have "v \<in> snd ` set qwen38_fixed_flags" using that by force
    ultimately show ?thesis using fill_value [of v] by (simp add: exactly_once_def scan)
  qed
  then have fixed: "find (\<lambda>(flag, v). \<not> exactly_once ?T flag v) qwen38_fixed_flags = None"
    by (auto simp: find_None_iff)
  have once: "exactly_once ?T ''--model'' qwen38_container_model" "exactly_once ?T ''--revision'' qwen38_revision"
    using common_scan [OF role, of "''--model''" qwen38_container_model]
      common_scan [OF role, of "''--revision''" qwen38_revision]
    by (simp_all add: exactly_once_def scan scanned_flags_def fill_value)
  have "master_address_ok ?T"
    using common_scan [OF role, of "''--master-addr''" head_addr_placeholder] assms(4)
    by (simp add: master_address_ok_def scan scanned_flags_def fill_markers)
  moreover have "arg_sequence_count ?T [flag] = 1"
    if "flag \<in> {''--enable-expert-parallel'', ''--enable-chunked-prefill'', ''--enable-auto-tool-choice''}" for flag
  proof -
    have "token_count flag (qwen_template role) = 1"
      using that role head_counts worker_counts by (elim insertE disjE) simp_all
    moreover have "flag \<in> set scanned_flags" using that unfolding scanned_flags_def by auto
    ultimately show ?thesis using template_count [OF role _ d, of flag key] by simp
  qed
  ultimately show ?thesis
    by (simp add: qwen38_command_error_def once fixed argv)
qed

lemma head_command_ok:
  assumes d: "undashed master" "undashed service"
    and "parse_ip (trim_chars ''[]'' master) \<noteq> None" and "parse_ip service \<noteq> None"
  shows "qwen38_command_error role_head (map (fill master service key) (qwen_template role_head)) = None"
proof -
  have r: "role_head = role_head \<or> role_head = role_worker" by simp
  have "head_argv_ok (map (fill master service key) (qwen_template role_head))"
    using head_scans head_counts assms(4) template_api_key [OF r d, of key]
    by (simp add: head_argv_ok_def exactly_once_def template_scan [OF r _ d] template_count [OF r _ d]
        scanned_flags_def fill_value fill_markers)
  then show ?thesis
    using common_command_ok [OF r d assms(3)] by (simp add: qwen38_role_error_def)
qed

lemma worker_command_ok:
  assumes d: "undashed master" "undashed service" and "parse_ip (trim_chars ''[]'' master) \<noteq> None"
  shows "qwen38_command_error role_worker (map (fill master service key) (qwen_template role_worker)) = None"
proof -
  have r: "role_worker = role_head \<or> role_worker = role_worker" by simp
  have "worker_argv_ok (map (fill master service key) (qwen_template role_worker))"
    using worker_scans worker_counts template_api_key [OF r d, of key]
    by (simp add: worker_argv_ok_def exactly_once_def template_scan [OF r _ d] template_count [OF r _ d]
        scanned_flags_def fill_value)
  then show ?thesis
    using common_command_ok [OF r d assms(3)] by (simp add: qwen38_role_error_def)
qed

section \<open>The candidate's command\<close>

lemma replace_all_absent:
  "old \<noteq> [] \<Longrightarrow> hd old \<notin> set s \<Longrightarrow> replace_all old new s = s"
  by (induction s) (auto simp: has_prefix_def neq_Nil_conv)

lemma dropWhile_none: "\<forall>c \<in> set s. \<not> P c \<Longrightarrow> dropWhile P s = s"
  by (cases s) auto

lemma head_for_undashed:
  assumes "parse_ip a = Some x"
  shows "undashed (head_for_arg a)" and "CHR ''{'' \<notin> set (head_for_arg a)"
    and "parse_ip (trim_chars ''[]'' (head_for_arg a)) \<noteq> None"
proof -
  have c: "\<forall>c \<in> set a. c \<notin> set (''-{}[]'' @ breaking)"
    using parse_ip_chars [OF assms] address_char_plain by blast
  show "undashed (head_for_arg a)" "CHR ''{'' \<notin> set (head_for_arg a)"
    using c by (cases a; auto simp: undashed_def head_for_arg_def)+
  have "\<forall>c \<in> set a. c \<notin> set ''[]''" "\<forall>c \<in> set (rev a). c \<notin> set ''[]''" using c by auto
  note this [THEN dropWhile_none]
  then have "trim_chars ''[]'' (head_for_arg a) = a"
    by (simp add: trim_chars_def head_for_arg_def)
  with assms show "parse_ip (trim_chars ''[]'' (head_for_arg a)) \<noteq> None" by simp
qed

lemma replace_all_no_match: "\<not> str_contains s old \<Longrightarrow> replace_all old new s = s"
  by (induction s) auto

lemma arg_markers:
  "list_all (\<lambda>t. t = head_addr_placeholder \<or> t = ''{SERVICE_ADDRESS}'' \<or>
       \<not> str_contains t head_addr_placeholder \<and> \<not> str_contains t ''{SERVICE_ADDRESS}'' \<and> t \<noteq> ''{API_KEY}'')
     (qwen38_common_args @ concat (map snd qwen38_role_args))"
  by (simp add: template_defs has_prefix_simps cons_eq_if del: list.inject)

lemma candidate_args_template:
  assumes role: "role = role_head \<or> role = role_worker" and "CHR ''{'' \<notin> set master"
  shows "map (\<lambda>a. replace_all ''{SERVICE_ADDRESS}'' service (replace_all head_addr_placeholder master a))
      (qwen38_common_args @ (case map_of qwen38_role_args role of None \<Rightarrow> [] | Some xs \<Rightarrow> xs)) =
    map (fill master service key)
      (qwen38_common_args @ (case map_of qwen38_role_args role of None \<Rightarrow> [] | Some xs \<Rightarrow> xs))"
proof (rule map_cong [OF refl])
  fix t
  assume t: "t \<in> set (qwen38_common_args @ (case map_of qwen38_role_args role of None \<Rightarrow> [] | Some xs \<Rightarrow> xs))"
  have hd: "hd head_addr_placeholder = CHR ''{''" "head_addr_placeholder \<noteq> []" by (simp_all add: head_addr_placeholder_def)
  have head: "replace_all head_addr_placeholder master head_addr_placeholder = master"
    by (simp add: head_addr_placeholder_def has_prefix_def)
  have service: "replace_all head_addr_placeholder master ''{SERVICE_ADDRESS}'' = ''{SERVICE_ADDRESS}''"
    "replace_all ''{SERVICE_ADDRESS}'' service ''{SERVICE_ADDRESS}'' = service"
    by (simp_all add: head_addr_placeholder_def has_prefix_def)
  have master: "replace_all ''{SERVICE_ADDRESS}'' service master = master"
    using assms(2) by (intro replace_all_absent) auto
  show "replace_all ''{SERVICE_ADDRESS}'' service (replace_all head_addr_placeholder master t) = fill master service key t"
  proof -
    have "t \<in> set (qwen38_common_args @ concat (map snd qwen38_role_args))"
    proof (cases "map_of qwen38_role_args role")
      case (Some xs)
      with t have "t \<in> set (qwen38_common_args @ xs)" by simp
      with map_of_SomeD [OF Some] show ?thesis by fastforce
    qed (use t in simp)
    with arg_markers consider "t = head_addr_placeholder" | "t = ''{SERVICE_ADDRESS}''" "t \<noteq> head_addr_placeholder"
      | "\<not> str_contains t head_addr_placeholder" "\<not> str_contains t ''{SERVICE_ADDRESS}''" "t \<noteq> ''{API_KEY}''"
        "t \<noteq> head_addr_placeholder" "t \<noteq> ''{SERVICE_ADDRESS}''"
      unfolding list_all_iff by metis
    then show ?thesis
    proof cases
      case 1
      then show ?thesis unfolding fill_def using head master by metis
    next
      case 2
      then show ?thesis unfolding fill_def using service by metis
    next
      case 3
      then show ?thesis unfolding fill_def using replace_all_no_match by metis
    qed
  qed
qed

text \<open>The command the agent assembles: the model argument it adds itself, then the filled template.\<close>

lemma candidate_command:
  assumes role: "b_role b = role_head \<or> b_role b = role_worker" and ip: "parse_ip head_address = Some x"
  shows "[''--model'', qwen38_container_model] @ candidate_args r qwen38_multi b head_address =
    map (fill (head_for_arg head_address) (b_service_address b) (rq_api_key r)) (qwen_template (b_role b))"
proof -
  let ?f = "fill (head_for_arg head_address) (b_service_address b) (rq_api_key r)"
  let ?role = "case map_of qwen38_role_args (b_role b) of None \<Rightarrow> [] | Some xs \<Rightarrow> xs"
  have m: "?f ''--model'' = ''--model''" "?f qwen38_container_model = qwen38_container_model"
    using fill_value [of qwen38_container_model] by (simp_all add: fill_def head_addr_placeholder_def)
  have k: "?f ''{API_KEY}'' = ''--api-key='' @ rq_api_key r" by (simp add: fill_def head_addr_placeholder_def)
  have "candidate_args r qwen38_multi b head_address =
      map (\<lambda>a. replace_all ''{SERVICE_ADDRESS}'' (b_service_address b)
            (replace_all head_addr_placeholder (head_for_arg head_address) a)) (qwen38_common_args @ ?role) @
      (if b_role b = role_head then [''--api-key='' @ rq_api_key r] else [])"
    by (simp add: candidate_args_def qwen38_multi_def render_candidate_args_def Let_def)
  then have "candidate_args r qwen38_multi b head_address = map ?f (qwen38_common_args @ ?role) @
      (if b_role b = role_head then [''--api-key='' @ rq_api_key r] else [])"
    unfolding candidate_args_template [OF role head_for_undashed(2) [OF ip], of _ "rq_api_key r"] .
  with m k show ?thesis by (simp add: qwen_template_def)
qed

section \<open>The request an agent receives\<close>

text \<open>What validation has established about a binding of a fabric recipe.\<close>

definition fabric_binding :: "binding \<Rightarrow> bool" where
  "fabric_binding b \<longleftrightarrow>
     (b_role b = role_head \<or> b_role b = role_worker) \<and>
     fabric_name (b_fabric_interface b) \<and> fabric_name (b_fabric_hca b) \<and>
     (\<exists>gid. b_fabric_gid b = Some gid \<and> 0 \<le> gid \<and> gid \<le> 255) \<and>
     parse_ip (b_fabric_address b) \<noteq> None \<and>
     (if b_role b = role_head then parse_ip (b_service_address b) \<noteq> None else b_service_address b = [])"

lemma qwen_cfg_fields:
  "cfg_id qwen38_cfg = qwen38_dual_id" "cfg_image qwen38_cfg = qwen38_image" "cfg_port qwen38_cfg = ''8888''"
  "cfg_extra_args qwen38_cfg = []" "cfg_env qwen38_cfg = qwen38_static_env" "cfg_volumes qwen38_cfg = []"
  "cfg_runtime qwen38_cfg = runtime_default" "cfg_multi qwen38_cfg = Some qwen38_multi"
  by (simp_all only: qwen38_cfg_def bkc_config.select_convs)

lemma qwen_multi_fields:
  "md_model_revision qwen38_multi = qwen38_revision" "md_source_revision qwen38_multi = qwen38_source_revision"
  "md_requires_fabric qwen38_multi = True" "md_common_args qwen38_multi = qwen38_common_args"
  "md_patches qwen38_multi = qwen38_patches" "md_driver qwen38_multi = []"
  by (simp_all only: qwen38_multi_def multi_device.select_convs)

lemma nonempty_constants: "qwen38_common_args \<noteq> []" "qwen38_source_revision \<noteq> []" "qwen38_patches \<noteq> []"
  by (simp_all add: qwen38_common_args_def qwen38_source_revision_def qwen38_patches_def)

lemma build_candidate_qwen:
  assumes "build_candidate i g r qwen38_cfg qwen38_multi b head_address = Some c"
  shows "\<exists>e. candidate_env qwen38_cfg qwen38_multi b = Some e \<and>
    c = container_candidate i g r qwen38_cfg qwen38_multi b head_address e"
  using assms by (auto simp: build_candidate_def qwen_multi_fields driver_head_recipe_def split: option.splits)

definition sent_request ::
  "string \<Rightarrow> int \<Rightarrow> create_request \<Rightarrow> binding \<Rightarrow> string \<Rightarrow> gomap \<Rightarrow> string \<Rightarrow> container_request" where
  "sent_request i g r b head_address e token =
     agent_request (launch_payload (container_candidate i g r qwen38_cfg qwen38_multi b head_address e)) token"

lemma sent_fields:
  "lr_image (sent_request i g r b h e t) = qwen38_image"
  "lr_model (sent_request i g r b h e t) = qwen38_container_model"
  "lr_extra_args (sent_request i g r b h e t) = []"
  "lr_args (sent_request i g r b h e t) = candidate_args r qwen38_multi b h"
  "lr_env (sent_request i g r b h e t) = Some e"
  "lr_volumes (sent_request i g r b h e t) =
     Some [(path_dir (path_dir (rq_model_path r)), qwen38_container_root @ '':ro'')]"
  "lr_ports (sent_request i g r b h e t) = Some [(''8888'', ''8888'')]"
  "lr_runtime (sent_request i g r b h e t) = candidate_runtime qwen38_cfg qwen38_multi"
  "lr_labels (sent_request i g r b h e t) = candidate_labels i g qwen38_cfg qwen38_multi b"
  "lr_network_mode (sent_request i g r b h e t) = ''host''"
  "lr_devices (sent_request i g r b h e t) = [''/dev/infiniband:/dev/infiniband'']"
  "lr_cap_add (sent_request i g r b h e t) = [''SYS_NICE'']"
  "lr_gpu_ids (sent_request i g r b h e t) = ''0''"
  "lr_entrypoint (sent_request i g r b h e t) = []"
  "lr_plugins (sent_request i g r b h e t) = None"
  "lr_gguf_files (sent_request i g r b h e t) = []"
  "lr_skip_pull (sent_request i g r b h e t) = True"
  by (simp_all add: sent_request_def agent_request_def launch_payload_request_def launch_request.defs
      container_request.defs launch_payload_def container_candidate_def candidate_model_def
      candidate_extra_args_def candidate_volumes_def qwen_cfg_fields qwen_multi_fields
      nonempty_constants Let_def)

lemmas label_defs =
  label_bkc_id_def label_role_def label_deployment_def label_generation_def label_managed_def
  label_ownership_def label_model_revision_def label_source_revision_def label_image_digest_def
  label_runtime_patch_def

lemma pinned_digest: "trim_prefix (image_reference qwen38_image) ''sha256:'' = qwen38_image_digest"
  by code_simp

lemma map_get_put_if: "map_get (put_if c k v m) k' = (if c \<and> k = k' then v else map_get m k')"
  by (simp add: put_if_def map_get_put)

lemma sent_labels:
  "map_get (lr_labels (sent_request i g r b h e t)) label_bkc_id = qwen38_dual_id"
  "map_get (lr_labels (sent_request i g r b h e t)) label_role = b_role b"
  "map_get (lr_labels (sent_request i g r b h e t)) label_deployment = i"
  "map_get (lr_labels (sent_request i g r b h e t)) label_generation = itoa g"
  "map_get (lr_labels (sent_request i g r b h e t)) label_model_revision = qwen38_revision"
  "map_get (lr_labels (sent_request i g r b h e t)) label_source_revision = qwen38_source_revision"
  "map_get (lr_labels (sent_request i g r b h e t)) label_image_digest = qwen38_image_digest"
  "map_get (lr_labels (sent_request i g r b h e t)) label_runtime_patch = runtime_patch_set_label qwen38_patches"
  unfolding sent_fields(9) candidate_labels_def Let_def map_get_put_if
  by (simp_all add: map_get_def label_defs qwen_cfg_fields qwen_multi_fields nonempty_constants pinned_digest)

lemma sent_provenance: "qwen38_provenance (sent_request i g r b h e t)"
  by (simp add: qwen38_provenance_def sent_labels sent_fields(1))

text \<open>What the vLLM rewriting makes of it: only the model argument is new.\<close>

lemma image_kinds:
  "is_vllm_image qwen38_image" "\<not> is_llamacpp_image qwen38_image" "\<not> is_sglang_image qwen38_image"
  by code_simp+

lemma model_argument: "with_vllm_model_arg [] qwen38_container_model = ''--model '' @ qwen38_container_model"
  "str_fields (''--model '' @ qwen38_container_model) = [''--model'', qwen38_container_model]"
  by code_simp+

definition prepared_request ::
  "string \<Rightarrow> int \<Rightarrow> create_request \<Rightarrow> binding \<Rightarrow> string \<Rightarrow> gomap \<Rightarrow> string \<Rightarrow> container_request" where
  "prepared_request i g r b head_address e token =
     (sent_request i g r b head_address e token)\<lparr>lr_extra_args := ''--model '' @ qwen38_container_model\<rparr>"

lemma model_set: "qwen38_container_model \<noteq> []"
  by (simp add: qwen38_container_model_def qwen38_container_root_def)

lemma rewrite_sent:
  "rewrite_sglang (rewrite_vllm [] (rewrite_llamacpp [] (sent_request i g r b h e t))) = prepared_request i g r b h e t"
proof -
  have q: "is_qwen_bkc (sent_request i g r b h e t)" by (simp add: is_qwen_bkc_def sent_labels)
  have v: "(sent_request i g r b h e t)\<lparr>lr_volumes := Some (made (lr_volumes (sent_request i g r b h e t)))\<rparr> =
      sent_request i g r b h e t"
    by (simp add: sent_fields(6) made_def)
  have "rewrite_llamacpp [] (sent_request i g r b h e t) = sent_request i g r b h e t"
    by (simp add: rewrite_llamacpp_def sent_fields(1) image_kinds)
  moreover have "rewrite_vllm [] (sent_request i g r b h e t) = prepared_request i g r b h e t"
    using q v by (simp add: rewrite_vllm_def sent_fields(1-3) image_kinds model_argument model_set
        prepared_request_def Let_def is_qwen_bkc_def)
  moreover have "rewrite_sglang (prepared_request i g r b h e t) = prepared_request i g r b h e t"
    by (simp add: rewrite_sglang_def prepared_request_def sent_fields(1) image_kinds)
  ultimately show ?thesis by simp
qed

lemma prepared_sglang:
  "apply_sglang_patch (prepared_request i g r b h e t) = Inr (prepared_request i g r b h e t)"
proof -
  have "trim_space (runtime_patch_set_label qwen38_patches) = runtime_patch_set_label qwen38_patches" by code_simp
  then show ?thesis by (simp add: apply_sglang_patch_def prepared_request_def sent_labels)
qed

lemma prepared_command:
  assumes "b_role b = role_head \<or> b_role b = role_worker" and "parse_ip h = Some x"
  shows "request_command (prepared_request i g r b h e t) =
    map (fill (head_for_arg h) (b_service_address b) (rq_api_key r)) (qwen_template (b_role b))"
  unfolding candidate_command [OF assms, symmetric]
  by (simp add: request_command_def prepared_request_def model_argument(2) [simplified] sent_fields(4))

lemma prepared_command_ok:
  assumes b: "fabric_binding b" and h: "parse_ip h = Some x"
  shows "qwen38_command_error (b_role b) (request_command (prepared_request i g r b h e t)) = None"
proof -
  note m = head_for_undashed [OF h]
  have role: "b_role b = role_head \<or> b_role b = role_worker" using b by (simp add: fabric_binding_def)
  show ?thesis
  proof (cases "b_role b = role_head")
    case True
    with b obtain y where y: "parse_ip (b_service_address b) = Some y" by (auto simp: fabric_binding_def)
    then have "undashed (b_service_address b)"
      using parse_ip_chars [OF y] address_char_plain by (cases "b_service_address b") (auto simp: undashed_def)
    with True y head_command_ok [OF m(1) _ m(3)] show ?thesis by (simp add: prepared_command [OF role h])
  next
    case False
    with role b have r: "b_role b = role_worker" "b_service_address b = []" by (auto simp: fabric_binding_def)
    have "undashed []" by (simp add: undashed_def)
    with r worker_command_ok [OF m(1) _ m(3)] show ?thesis by (simp add: prepared_command [OF role h])
  qed
qed

lemma binding_env:
  assumes "candidate_env qwen38_cfg qwen38_multi b = Some e" and "b_fabric_gid b = Some gid"
  shows "e = map_put ''VLLM_HOST_IP'' (b_fabric_address b)
                 (map_put ''NCCL_IB_GID_INDEX'' (itoa gid)
                 (map_put ''NCCL_IB_HCA'' (''='' @ b_fabric_hca b)
                 (map_put ''TP_SOCKET_IFNAME'' (b_fabric_interface b)
                 (map_put ''NCCL_SOCKET_IFNAME'' (b_fabric_interface b)
                 (map_put ''GLOO_SOCKET_IFNAME'' (b_fabric_interface b) qwen38_static_env)))))"
  using assms by (simp add: candidate_env_def qwen_multi_fields qwen_cfg_fields)

lemma binding_env_ok:
  assumes b: "fabric_binding b" and e: "candidate_env qwen38_cfg qwen38_multi b = Some e"
  shows "length e = length qwen38_required_env + 6"
    and "list_all (\<lambda>(k, v). map_get e k = v) qwen38_required_env"
    and "fabric_interface_ok e" and "fabric_hca_ok e" and "fabric_address_ok e"
proof -
  obtain gid where g: "b_fabric_gid b = Some gid" "0 \<le> gid" "gid \<le> 255" using b by (auto simp: fabric_binding_def)
  note e = binding_env [OF e g(1)]
  have names: "fabric_name_ok (b_fabric_interface b)" "fabric_name_ok (b_fabric_hca b)"
    using b by (simp_all add: fabric_binding_def fabric_name_def fabric_name_ok_def)
  show "length e = length qwen38_required_env + 6"
    by (simp add: e qwen38_required_env_def qwen38_static_env_def)
  show "list_all (\<lambda>(k, v). map_get e k = v) qwen38_required_env"
    unfolding e map_get_put by (simp add: qwen38_required_env_def qwen38_static_env_def map_get_def)
  show "fabric_interface_ok e" unfolding e fabric_interface_ok_def map_get_put Let_def using names by simp
  show "fabric_hca_ok e" unfolding e fabric_hca_ok_def map_get_put Let_def
    using names by (simp add: trim_prefix_def has_prefix_def)
  show "fabric_address_ok e" unfolding e fabric_address_ok_def map_get_put
    using b g by (simp add: atoi_itoa fabric_binding_def)
qed

lemma prepared_contract:
  assumes b: "fabric_binding b" and e: "candidate_env qwen38_cfg qwen38_multi b = Some e"
  shows "qwen38_contract_error (prepared_request i g r b h e t) = None"
proof -
  note env = binding_env_ok [OF assms]
  have device: "qwen38_device_contract (prepared_request i g r b h e t)"
    by (simp add: qwen38_device_contract_def prepared_request_def sent_fields(10-13))
  have runtime: "qwen38_runtime_contract (candidate_runtime qwen38_cfg qwen38_multi)"
    by (simp add: qwen38_runtime_contract_def candidate_runtime_def qwen_multi_fields qwen_cfg_fields
        runtime_default_def restart_policy_no_def map_get_def)
  have required: "find (\<lambda>(k, v). map_get e k \<noteq> v) qwen38_required_env = None"
    using env(2) by (auto simp: find_None_iff list_all_iff)
  show ?thesis
    using device runtime required env
    by (simp add: qwen38_contract_error_def prepared_request_def sent_fields(5,7,8) made_def map_get_def)
qed

section \<open>The mount\<close>

lemma path_clean_rooted:
  assumes "path_is_abs p"
  shows "path_is_abs (path_clean p)" and "path_clean (path_clean p) = path_clean p"
proof -
  have c: "path_clean p = slash # join_with ''/'' (clean_segments p)" using assms by (simp add: path_clean_def)
  then show a: "path_is_abs (path_clean p)" by (simp add: path_is_abs_def has_prefix_def)
  have n: "names_only (clean_segments p)" by (rule clean_segments_rooted [OF assms])
  have "clean_segments (path_clean p) = clean_segments p"
  proof (cases "clean_segments p = []")
    case True
    with c have "path_clean p = ''/''" by simp
    with True show ?thesis by (simp add: clean_segments_def clean_step_def)
  next
    case False
    have "split_char slash (join_with ''/'' (clean_segments p)) = clean_segments p"
      using split_join [OF False, of slash] clean_segments_no_slash by blast
    then have "split_char slash (path_clean p) = [] # clean_segments p" by (simp add: c)
    then have "clean_segments (path_clean p) = foldl (clean_step True) [] (clean_segments p)"
      using a by (simp add: clean_segments_def [of "path_clean p"] clean_step_def)
    with clean_names [OF n, of True "[]"] show ?thesis by simp
  qed
  then show "path_clean (path_clean p) = path_clean p" using a assms by (simp add: path_clean_def)
qed

lemma path_dir_rooted:
  assumes "path_is_abs p"
  shows "path_is_abs (path_dir p)" and "path_clean (path_dir p) = path_dir p"
proof -
  obtain s where s: "p = slash # s" using assms by (cases p) (auto simp: path_is_abs_def has_prefix_def)
  have "path_is_abs (rev (dropWhile (\<lambda>c. c \<noteq> slash) (rev p)))"
    using s by (auto simp: path_is_abs_def has_prefix_def dropWhile_append)
  then show "path_is_abs (path_dir p)" "path_clean (path_dir p) = path_dir p"
    using path_clean_rooted by (simp_all add: path_dir_def)
qed

lemma prepared_volume:
  assumes "path_is_abs (rq_model_path r)" and "snapshot_path_ok (rq_model_path r) revision"
  shows "exact_qwen_volume (lr_volumes (prepared_request i g r b h e t))"
  using path_dir_rooted(2) [OF path_dir_rooted(1) [OF assms(1)]] assms(2)
  by (simp add: exact_qwen_volume_def prepared_request_def sent_fields(6) made_def snapshot_path_ok_def)

section \<open>The agent's general checks\<close>

definition clean_token :: "string \<Rightarrow> bool" where
  "clean_token t \<longleftrightarrow> t \<noteq> [] \<and> \<not> contains_any t breaking"

lemma clean_chars: "\<forall>c \<in> set t. c \<notin> set breaking \<Longrightarrow> \<not> contains_any t breaking"
  by (auto simp: contains_any_def list_ex_iff)

lemma template_clean: "list_all clean_token (qwen_template role_head @ qwen_template role_worker)"
  by (simp add: template_defs clean_token_def contains_any_def breaking_def)

lemma address_clean: "parse_ip a = Some x \<Longrightarrow> clean_token a \<and> clean_token (head_for_arg a)"
proof -
  assume p: "parse_ip a = Some x"
  have c: "\<forall>c \<in> set a. c \<notin> set (''-{}[]'' @ breaking)" using parse_ip_chars [OF p] address_char_plain by blast
  then have "\<not> contains_any a breaking" by (intro clean_chars) auto
  moreover have "\<not> contains_any ''['' breaking" "\<not> contains_any '']'' breaking" by code_simp+
  ultimately show "clean_token a \<and> clean_token (head_for_arg a)"
    using parse_ip_nonempty [OF p] contains_any_append [of "''[''" "a @ '']''"] contains_any_append [of a "'']''"]
    by (simp add: clean_token_def head_for_arg_def)
qed

lemma control_clean: "\<not> has_control s \<Longrightarrow> \<not> contains_any s breaking"
  by (induction s) (auto simp: contains_any_def breaking_def Let_def)

lemma key_clean: "validate_api_key k = None \<Longrightarrow> clean_token (''--api-key='' @ k)"
proof -
  assume "validate_api_key k = None"
  then have "\<not> contains_any k breaking" using control_clean by (auto simp: validate_api_key_def split: if_splits)
  moreover have "\<not> contains_any ''--api-key='' breaking" by code_simp
  ultimately show ?thesis unfolding clean_token_def contains_any_append by simp
qed

lemma prepared_tokens:
  assumes b: "fabric_binding b" and h: "parse_ip h = Some x" and k: "validate_api_key (rq_api_key r) = None"
  shows "list_all clean_token (request_command (prepared_request i g r b h e t))"
proof -
  have role: "b_role b = role_head \<or> b_role b = role_worker" using b by (simp add: fabric_binding_def)
  have t: "clean_token (fill (head_for_arg h) (b_service_address b) (rq_api_key r) t)"
    if "t \<in> set (qwen_template (b_role b))" for t
  proof -
    have "clean_token t" using that role template_clean by (auto simp: list_all_iff)
    moreover have "clean_token (b_service_address b)" if "t = ''{SERVICE_ADDRESS}''"
    proof -
      have "''{SERVICE_ADDRESS}'' \<notin> set (qwen_template role_worker)"
        by (simp add: template_defs)
      with that \<open>t \<in> set (qwen_template (b_role b))\<close> role have "b_role b = role_head" by metis
      with b show ?thesis using address_clean by (auto simp: fabric_binding_def)
    qed
    ultimately show ?thesis
      using address_clean [OF h] key_clean [OF k] unfolding fill_def by simp
  qed
  then show ?thesis by (simp add: prepared_command [OF role h] list_all_iff)
qed

lemma list_all_put: "list_all P m \<Longrightarrow> P (k, v) \<Longrightarrow> list_all P (map_put k v m)"
  by (induction m) auto

lemma list_all_put_if: "list_all P m \<Longrightarrow> (c \<Longrightarrow> P (k, v)) \<Longrightarrow> list_all P (put_if c k v m)"
  by (simp add: put_if_def list_all_put)

lemma label_ok_clean:
  assumes "trim_space k \<noteq> []" and "\<not> contains_any k breaking" and "\<not> contains_any v breaking"
  shows "label_ok (k, v)"
  using assms unfolding label_ok_def contains_any_def by (auto simp: list_ex_iff breaking_def)

lemma itoa_clean: "\<not> contains_any (itoa n) breaking"
proof (rule clean_chars, rule ballI)
  fix c
  assume "c \<in> set (itoa n)"
  then have "is_digit c \<or> c = CHR ''-''" using nat_text_digits by (auto simp: itoa_def list_all_iff split: if_splits)
  then show "c \<notin> set breaking" by (auto simp: breaking_def is_digit_def)
qed

definition label_texts :: "string list" where
  "label_texts =
     [''io.yokai.managed'', ''io.yokai.ownership'', ''io.yokai.deployment.id'', ''io.yokai.deployment.generation'',
      ''io.yokai.deployment.role'', ''io.yokai.bkc.id'', ''io.yokai.model.revision'', ''io.yokai.image.digest'',
      ''io.yokai.source.revision'', ''io.yokai.runtime.patch'', ''io.yokai.service.address'', ''io.yokai.service.port'']"

lemma label_texts_ok: "list_all (\<lambda>k. trim_space k \<noteq> [] \<and> \<not> contains_any k breaking) label_texts"
  by code_simp

lemma label_values_ok:
  "list_all (\<lambda>v. \<not> contains_any v breaking)
     [''true'', ''managed'', role_head, role_worker, qwen38_dual_id, qwen38_revision, qwen38_image_digest,
      qwen38_source_revision, runtime_patch_set_label qwen38_patches, ''8888'']"
  by code_simp

lemma sent_labels_ok:
  assumes b: "fabric_binding b" and i: "\<not> contains_any i breaking"
  shows "list_all label_ok (lr_labels (sent_request i g r b h e t))"
proof -
  have role: "b_role b = role_head \<or> b_role b = role_worker" using b by (simp add: fabric_binding_def)
  have k: "label_ok (k, v)" if "k \<in> set label_texts" and "\<not> contains_any v breaking" for k v
    using label_texts_ok that by (intro label_ok_clean) (auto simp: list_all_iff)
  have a: "\<not> contains_any (b_service_address b) breaking" if "b_role b = role_head"
    using b that address_clean by (auto simp: fabric_binding_def clean_token_def)
  have v: "\<not> contains_any v breaking"
    if "v \<in> {''true'', ''managed'', b_role b, qwen38_dual_id, qwen38_revision, qwen38_image_digest,
      qwen38_source_revision, runtime_patch_set_label qwen38_patches, ''8888'', i, itoa g}" for v
    using that role i itoa_clean label_values_ok by auto
  show ?thesis
    unfolding sent_fields(9) candidate_labels_def Let_def
    by (intro list_all_put_if) (auto simp: qwen_cfg_fields qwen_multi_fields pinned_digest label_texts_def intro!: k v a)
qed

lemma runtime_valid:
  assumes "lr_network_mode s = ''host''" and "lr_devices s = [''/dev/infiniband:/dev/infiniband'']"
    and "lr_cap_add s = [''SYS_NICE'']" and "rt_restart_policy (lr_runtime s) = ''no''"
    and "list_all clean_token (lr_args s)" and "list_all label_ok (lr_labels s)"
    and "lr_entrypoint s = [] \<or> lr_entrypoint s = ''python3'' \<and> is_qwen_bkc s"
  shows "validate_container_runtime s = None"
proof -
  have "device_ok ''/dev/infiniband:/dev/infiniband''" "capability_ok ''SYS_NICE''" by code_simp+
  moreover have "\<not> list_ex (\<lambda>a. a = [] \<or> contains_any a [CHR 0x00, CHR 0x0D, CHR 0x0A]) (lr_args s)"
    using assms(5) by (auto simp: list_all_iff list_ex_iff clean_token_def breaking_def)
  moreover have "\<not> list_ex (\<lambda>kv. \<not> label_ok kv) (lr_labels s)"
    using assms(6) by (auto simp: list_all_iff list_ex_iff)
  ultimately show ?thesis
    using assms(1-4,7) by (auto simp: validate_container_runtime_def restart_policy_ok_def is_qwen_bkc_def)
qed

lemma candidate_policy: "rt_restart_policy (candidate_runtime qwen38_cfg qwen38_multi) = ''no''"
  by (simp add: candidate_runtime_def restart_policy_no_def)

section \<open>From the create request to the Docker command\<close>

lemma validated_fabric_binding:
  assumes "validate_create_request cat r = Inr qwen38_cfg" and "b \<in> set (rq_bindings r)"
  shows "fabric_binding b" and "validate_api_key (rq_api_key r) = None"
    and "path_is_abs (rq_model_path r)" and "snapshot_path_ok (rq_model_path r) qwen38_revision"
proof -
  obtain md where md: "cfg_multi qwen38_cfg = Some md" "request_bindings_ok qwen38_cfg md (rq_bindings r)"
    "validate_inputs r qwen38_cfg md = None"
    by (rule validate_create_Inr [OF assms(1)])
  then have m: "md = qwen38_multi" by (simp add: qwen_cfg_fields)
  have local: "md_requires_local_model qwen38_multi" by (simp only: qwen38_multi_def multi_device.select_convs)
  have work: "cfg_workload qwen38_cfg \<noteq> workload_tensorfold"
    by (simp only: qwen38_cfg_def bkc_config.select_convs) (simp add: workload_vllm_def workload_tensorfold_def)
  from md(2) assms(2) have ok: "binding_ok qwen38_cfg qwen38_multi b"
    and role: "b_role b \<in> {role_head, role_worker}"
    unfolding m by (auto simp: request_bindings_ok_def list_all_iff)
  then show "fabric_binding b"
    by (auto simp: fabric_binding_def binding_ok_def check_fabric_def qwen_multi_fields ip_usable_def
        split: if_splits option.splits)
  have path: "rq_model_path r \<noteq> []" "snapshot_path_ok (rq_model_path r) qwen38_revision"
      "validate_api_key (rq_api_key r) = None"
    using md(3) local work unfolding m by (auto simp: validate_inputs_def qwen_multi_fields split: if_splits)
  show "snapshot_path_ok (rq_model_path r) qwen38_revision" "validate_api_key (rq_api_key r) = None"
    by (rule path)+
  have "\<not> local_path_error (rq_model_path r)"
    using assms(1) by (auto simp: validate_create_request_def split: if_splits)
  with path(1) show "path_is_abs (rq_model_path r)" by (auto simp: local_path_error_def)
qed

text \<open>The request as it will be run: mounts, the reduced draft vocabulary, and the bootstrap.\<close>

definition patched_request :: "string \<Rightarrow> container_request \<Rightarrow> container_request" where
  "patched_request dir p =
     p\<lparr>lr_volumes := Some (map_put dir (qwen38_patch_container_dir @ '':ro'') (made (lr_volumes p))),
       lr_env := Some (map_put ''VLLM_MTP_DRAFT_VOCAB''
         (qwen38_patch_container_dir @ ''/draft_vocab_en_code_47k.txt'') (made (lr_env p))),
       lr_extra_args := [], lr_entrypoint := ''python3'',
       lr_args := [''-c'', qwen38_bootstrap_arg] @ request_command p\<rparr>"

lemma sent_accepted:
  fixes g :: int and token :: string
  assumes valid: "validate_create_request cat r = Inr qwen38_cfg" and b: "b \<in> set (rq_bindings r)"
    and h: "h \<in> set (rq_bindings r)" and i: "\<not> contains_any i breaking"
    and e: "candidate_env qwen38_cfg qwen38_multi b = Some e" and dir: "ru_qwen_assets a = Inr dir"
  defines "s \<equiv> sent_request i g r b (b_fabric_address h) e token"
    and "p \<equiv> prepared_request i g r b (b_fabric_address h) e token"
  shows "validate_container_runtime s = None" and "rewrite_request a s = Inr (patched_request dir p)"
    and "qwen38_command_error (b_role b) (request_command p) = None"
proof -
  note vb = validated_fabric_binding [OF valid b]
  obtain x where x: "parse_ip (b_fabric_address h) = Some x"
    using validated_fabric_binding(1) [OF valid h] by (auto simp: fabric_binding_def)
  have role: "b_role b = role_head \<or> b_role b = role_worker" using vb(1) by (simp add: fabric_binding_def)
  have tokens: "list_all clean_token (request_command p)"
    unfolding p_def by (rule prepared_tokens [OF vb(1) x vb(2)])
  have command: "request_command p = [''--model'', qwen38_container_model] @ lr_args s"
    unfolding p_def s_def prepared_command [OF role x] sent_fields(4) by (rule candidate_command [OF role x, symmetric])
  have labels: "list_all label_ok (lr_labels s)" unfolding s_def by (rule sent_labels_ok [OF vb(1) i])
  have bkc: "is_qwen_bkc s" "is_qwen_bkc p"
    by (simp_all add: s_def p_def is_qwen_bkc_def prepared_request_def sent_labels)
  show "validate_container_runtime s = None"
    using tokens command labels
    by (intro runtime_valid) (simp_all add: s_def sent_fields(8,10,11,12,14) candidate_policy)
  show cmd: "qwen38_command_error (b_role b) (request_command p) = None"
    unfolding p_def by (rule prepared_command_ok [OF vb(1) x])
  have patch: "apply_qwen38_patch (ru_qwen_assets a) p = Inr (patched_request dir p)"
  proof -
    have "qwen38_provenance p" "lr_model p = qwen38_container_model"
      using sent_provenance by (simp_all add: p_def prepared_request_def qwen38_provenance_def sent_fields(2))
    moreover have "exact_qwen_volume (lr_volumes p)" "qwen38_contract_error p = None"
      unfolding p_def by (rule prepared_volume [OF vb(3,4)], rule prepared_contract [OF vb(1) e])
    moreover have "map_get (lr_labels p) label_role = b_role b" by (simp add: p_def prepared_request_def sent_labels)
    ultimately show ?thesis
      using cmd bkc(2) dir
      by (simp add: apply_qwen38_patch_def Let_def is_qwen_bkc_def patched_request_def)
  qed
  let ?q = "patched_request dir p"
  have img: "lr_image s = qwen38_image" "lr_image ?q = qwen38_image"
    by (simp_all add: s_def p_def patched_request_def prepared_request_def sent_fields(1))
  have "list_all clean_token (lr_args ?q)"
    using tokens bootstrap_arg_clean bootstrap_arg_nonempty
    by (simp add: patched_request_def clean_token_def contains_any_def breaking_def)
  moreover have "is_qwen_bkc ?q" using bkc(2) by (simp add: patched_request_def is_qwen_bkc_def)
  ultimately have valid2: "validate_container_runtime ?q = None"
    using labels
    by (intro runtime_valid)
      (simp_all add: patched_request_def p_def s_def prepared_request_def sent_fields(8,9,10,11,12) candidate_policy)
  have "\<not> legacy_nonce_applies (lr_labels ?q)"
    using qwen_no_legacy_nonce role
    by (simp add: patched_request_def p_def prepared_request_def sent_labels)
  then have "prepare_legacy_nonce (ru_nonce a) (rewrite_comfyui ?q) = Inr ?q"
    using img qwen_image_plain by (simp add: prepare_legacy_nonce_def rewrite_comfyui_def)
  moreover have "apply_plugins (ru_assets a) (ru_plugin_root a) s = Inr s" "fst (ensure_gguf_files (ru_gguf a) s) = Inr []"
    by (simp_all add: s_def apply_plugins_def ensure_gguf_files_def sent_fields(15,16))
  moreover have "rewrite_sglang (rewrite_vllm [] (rewrite_llamacpp [] s)) = p"
    unfolding s_def p_def by (rule rewrite_sent)
  moreover have "apply_sglang_patch p = Inr p" unfolding p_def by (rule prepared_sglang)
  ultimately show "rewrite_request a s = Inr ?q"
    using patch valid2 by (simp add: rewrite_request_def Let_def)
qed

text \<open>
  C9: the candidate the coordinator builds for a validated Qwen3.8 request, for either rank, is
  accepted by its agent: it passes the runtime checks, every contract of the pinned recipe, and
  the checks of the rewritten request, which starts the bootstrap with the rank's command.
\<close>

theorem qwen_candidate_accepted:
  assumes "validate_create_request cat r = Inr qwen38_cfg" and "b \<in> set (rq_bindings r)"
    and "h \<in> set (rq_bindings r)" and "\<not> contains_any i breaking" and "ru_qwen_assets a = Inr dir"
  shows "\<exists>c q command. build_candidate i g r qwen38_cfg qwen38_multi b (b_fabric_address h) = Some c \<and>
    validate_container_runtime (agent_request (launch_payload c) token) = None \<and>
    rewrite_request a (agent_request (launch_payload c) token) = Inr q \<and>
    lr_entrypoint q = ''python3'' \<and> lr_args q = [''-c'', qwen38_bootstrap_arg] @ command \<and>
    qwen38_command_error (b_role b) command = None"
proof -
  obtain gid where "b_fabric_gid b = Some gid"
    using validated_fabric_binding(1) [OF assms(1,2)] by (auto simp: fabric_binding_def)
  then obtain e where e: "candidate_env qwen38_cfg qwen38_multi b = Some e"
    by (auto simp: candidate_env_def qwen_multi_fields)
  then have "build_candidate i g r qwen38_cfg qwen38_multi b (b_fabric_address h) =
      Some (container_candidate i g r qwen38_cfg qwen38_multi b (b_fabric_address h) e)"
    by (simp add: build_candidate_def qwen_multi_fields driver_head_recipe_def)
  moreover have "lr_entrypoint (patched_request dir p) = ''python3''"
    "lr_args (patched_request dir p) = [''-c'', qwen38_bootstrap_arg] @ request_command p" for p
    by (simp_all add: patched_request_def)
  ultimately show ?thesis
    using sent_accepted [OF assms(1-4) e assms(5), of g token] unfolding sent_request_def by blast
qed

text \<open>A validated request and its worker, for the witnesses.\<close>

definition qwen_head :: binding where
  "qwen_head = sample_head\<lparr>b_fabric_interface := ''ib0'', b_fabric_hca := ''mlx5_0'', b_fabric_gid := Some 3\<rparr>"

definition qwen_worker :: binding where
  "qwen_worker = sample_worker\<lparr>b_fabric_interface := ''ib0'', b_fabric_hca := ''mlx5_0'', b_fabric_gid := Some 3\<rparr>"

definition qwen_snapshot :: string where
  "qwen_snapshot = ''/hub/'' @ qwen38_hf_cache_dir @ ''/snapshots/'' @ qwen38_revision"

definition qwen_create :: create_request where
  "qwen_create = \<lparr>rq_bkc_id = qwen38_dual_id, rq_key = ''key-1'', rq_bindings = [qwen_head, qwen_worker],
     rq_api_key = ''key-1'', rq_model_path = qwen_snapshot\<rparr>"

lemma qwen_names: "fabric_name ''ib0''" "fabric_name ''mlx5_0''" "\<not> has_prefix ''mlx5_0'' ''=''"
  by code_simp+

lemma qwen_path: "\<not> local_path_error qwen_snapshot" "snapshot_path_ok qwen_snapshot qwen38_revision" "qwen_snapshot \<noteq> []"
  by code_simp+

lemma qwen_topology: "validate_topology qwen_create qwen38_cfg qwen38_multi = None"
  by (simp add: validate_topology_def qwen_create_def qwen_head_def qwen_worker_def sample_head_def sample_worker_def
      check_binding_def check_fabric_def check_service_def scan_empty_def qwen38_multi_def qwen38_service_port_def
      sample_addresses sample_addresses_usable [simplified] sample_ip_inj head_role_def worker_role_def qwen_names)

lemma qwen_lookup: "lookup_id [qwen38_cfg] qwen38_dual_id = Some qwen38_cfg"
proof -
  have "trim_space qwen38_dual_id = qwen38_dual_id" by code_simp
  then show ?thesis by (simp add: lookup_id_def qwen_cfg_fields)
qed

lemma qwen_key: "validate_api_key ''key-1'' = None" "\<not> has_control ''key-1''" "qwen38_dual_id \<noteq> []"
  by code_simp+

lemma qwen_create_valid: "validate_create_request [qwen38_cfg] qwen_create = Inr qwen38_cfg"
proof -
  have f: "rq_key qwen_create = ''key-1''" "rq_bkc_id qwen_create = qwen38_dual_id"
    "rq_model_path qwen_create = qwen_snapshot" "rq_api_key qwen_create = ''key-1''"
    by (simp_all only: qwen_create_def create_request.select_convs)
  have "cfg_workload qwen38_cfg \<noteq> workload_tensorfold"
    by (simp only: qwen38_cfg_def bkc_config.select_convs) (simp add: workload_vllm_def workload_tensorfold_def)
  then have "validate_inputs qwen_create qwen38_cfg qwen38_multi = None"
    by (simp add: validate_inputs_def f qwen_path qwen_multi_fields qwen_key)
  then show ?thesis
    by (simp add: validate_create_request_def f qwen_path qwen_key qwen_lookup qwen38_valid qwen_cfg_fields qwen_topology)
qed

lemma qwen_members: "qwen_worker \<in> set (rq_bindings qwen_create)" "qwen_head \<in> set (rq_bindings qwen_create)"
  by (simp_all add: qwen_create_def)

definition qwen_calm :: run_answers where
  "qwen_calm = calm_answers (\<lambda>argv. Inr ''0123456789abcdef'') []"

lemma qwen_calm_fields: "ru_qwen_assets qwen_calm = Inr ''/opt/assets''" "ru_cache_failure qwen_calm q = []"
  "ru_admission qwen_calm = None" "ru_tenants qwen_calm = Inr 0" "ru_platform qwen_calm = calm_platform"
  "ru_docker qwen_calm argv = Inr ''0123456789abcdef''"
  by (simp_all add: qwen_calm_def calm_answers_def)

lemma d1_clean: "\<not> contains_any ''d1'' breaking"
  by code_simp

theorem qwen_candidate_accepted_witness:
  "\<exists>c q. build_candidate ''d1'' 1 qwen_create qwen38_cfg qwen38_multi qwen_worker ''10.0.0.1'' = Some c \<and>
     rewrite_request qwen_calm (agent_request (launch_payload c) []) = Inr q \<and> lr_entrypoint q = ''python3''"
  using qwen_candidate_accepted [OF qwen_create_valid qwen_members d1_clean qwen_calm_fields(1), of 1 "[]"]
  by (auto simp: qwen_head_def sample_head_def)

text \<open>The run of that candidate, for the contract of a launch.\<close>

lemma qwen_run_issued:
  "\<exists>c r argv. build_candidate ''d1'' 1 qwen_create qwen38_cfg qwen38_multi qwen_worker ''10.0.0.1'' = Some c \<and>
     r = agent_request (launch_payload c) [] \<and> is_qwen_bkc r \<and> EvRun argv \<in> set (snd (run_container qwen_calm r))"
proof -
  obtain e where e: "candidate_env qwen38_cfg qwen38_multi qwen_worker = Some e"
    by (simp add: candidate_env_def qwen_multi_fields qwen_worker_def)
  let ?s = "sent_request ''d1'' 1 qwen_create qwen_worker (b_fabric_address qwen_head) e []"
  note acc = sent_accepted [OF qwen_create_valid qwen_members d1_clean e qwen_calm_fields(1), of 1 "[]"]
  have "b_fabric_address qwen_head = ''10.0.0.1''" by (simp add: qwen_head_def sample_head_def)
  with e have c: "build_candidate ''d1'' 1 qwen_create qwen38_cfg qwen38_multi qwen_worker ''10.0.0.1'' =
      Some (container_candidate ''d1'' 1 qwen_create qwen38_cfg qwen38_multi qwen_worker (b_fabric_address qwen_head) e)"
    by (simp add: build_candidate_def qwen_multi_fields driver_head_recipe_def)
  have "validate_image_platform calm_platform qwen38_image = None"
    by (simp add: validate_image_platform_def calm_platform_def)
  then have "EvRun (build_run_args (patched_request ''/opt/assets''
      (prepared_request ''d1'' 1 qwen_create qwen_worker (b_fabric_address qwen_head) e [])) (normalized_name (lr_name ?s)))
      \<in> set (snd (run_container qwen_calm ?s))"
    by (simp add: run_container_def acc(1,2) qwen_calm_fields sent_fields(1) qwen_launch_gate_def Let_def)
  moreover have "is_qwen_bkc ?s" by (simp add: is_qwen_bkc_def sent_labels)
  ultimately show ?thesis using c unfolding sent_request_def by blast
qed

theorem qwen_run_contract_witness:
  "\<exists>argv q command. argv = docker_options q (normalized_name (candidate_name ''d1'' 1 role_worker)) @
     [qwen38_image, ''-c'', qwen38_bootstrap_arg] @ command \<and> qwen38_device_contract q"
proof -
  obtain c r argv where c: "build_candidate ''d1'' 1 qwen_create qwen38_cfg qwen38_multi qwen_worker ''10.0.0.1'' = Some c"
    and r: "r = agent_request (launch_payload c) []" and q: "is_qwen_bkc r"
    and run: "EvRun argv \<in> set (snd (run_container qwen_calm r))"
    using qwen_run_issued by blast
  have "c_name c = candidate_name ''d1'' 1 role_worker"
    using build_candidate_qwen [OF c] by (auto simp: container_candidate_def qwen_worker_def sample_worker_def)
  then have "lr_name r = candidate_name ''d1'' 1 role_worker"
    by (simp add: r agent_request_def launch_payload_request_def launch_request.defs container_request.defs launch_payload_def)
  with qwen_run_contract [OF run q] show ?thesis by metis
qed

end
