(* ===== verification/Daemon_Properties.thy ===== *)
theory Daemon_Properties
  imports Daemon_Deploy
begin

text \<open>
  Properties of the coordinator's member operations (\<^verbatim>\<open>internal/daemon/deployments.go\<close>): what a
  preflight without error has established, which container an inspection returns, and when a
  removal counts as done.
\<close>

section \<open>Preflight\<close>

text \<open>The agent of a binding, as an accepted preflight has seen it.\<close>

definition identity_ok :: "preflight_env \<Rightarrow> preflight_request \<Rightarrow> agent_health \<Rightarrow> agent_info \<Rightarrow> bool" where
  "identity_ok env q h info \<longleftrightarrow> pf_bkc_id q \<noteq> qwen38_dual_id \<or>
     ah_device h = b_device (pf_binding q) \<and>
     (\<exists>key. pe_public_key env = Some key \<and> ai_fingerprint info = key_fingerprint key)"

definition hardware_ok :: "string list \<Rightarrow> agent_info \<Rightarrow> bool" where
  "hardware_ok targets info \<longleftrightarrow>
     (\<exists>gpu. ai_gpus info = [gpu] \<and> (requires_device targets device_gb10 \<longrightarrow> device_is_gb10 gpu))"

definition recipe_ok :: "preflight_env \<Rightarrow> preflight_request \<Rightarrow> bool" where
  "recipe_ok env q \<longleftrightarrow> pf_driver q \<noteq> driver_head_recipe \<or>
     (\<exists>rc i g. pf_recipe q = Some rc \<and>
        parse_tensorfold_name (pf_candidate_name q) = Some (i, g, b_role (pf_binding q)) \<and>
        (let base = tf_payload_base (pf_candidate_name q) i g (b_role (pf_binding q)) rc in
         if pf_head q
         then (\<exists>w. find_device (pe_config env) (rc_worker_device rc) = Some w \<and>
                    pe_tf_preflight env (tf_payload_head (dv_ssh_user w) rc base) = None)
         else pe_tf_preflight env base = None))"

lemma check_health_None:
  "check_health q caps h = None \<longleftrightarrow> ah_status h = ''ok'' \<and> set caps \<subseteq> set (ah_capabilities h) \<and>
     (pf_bkc_id q \<noteq> qwen38_dual_id \<or> ah_device h = b_device (pf_binding q))"
proof -
  have "find (\<lambda>c. c \<notin> set (ah_capabilities h)) caps = None \<longleftrightarrow> set caps \<subseteq> set (ah_capabilities h)"
    by (auto simp: find_None_iff)
  then show ?thesis
    by (cases "find (\<lambda>c. c \<notin> set (ah_capabilities h)) caps") (auto simp: check_health_def Let_def fail_def)
qed

lemma check_info_None:
  "check_info env q targets info = None \<longleftrightarrow> hardware_ok targets info \<and>
     (pf_bkc_id q \<noteq> qwen38_dual_id \<or>
      (\<exists>key. pe_public_key env = Some key \<and> ai_fingerprint info = key_fingerprint key))"
  by (auto simp: check_info_def Let_def fail_def hardware_ok_def split: option.splits list.splits if_splits)

lemma tensorfold_preflight_None:
  "tensorfold_preflight env q = None \<longleftrightarrow>
     (\<exists>rc i g. pf_recipe q = Some rc \<and>
        parse_tensorfold_name (pf_candidate_name q) = Some (i, g, b_role (pf_binding q)) \<and>
        (let base = tf_payload_base (pf_candidate_name q) i g (b_role (pf_binding q)) rc in
         if pf_head q
         then (\<exists>w. find_device (pe_config env) (rc_worker_device rc) = Some w \<and>
                    pe_tf_preflight env (tf_payload_head (dv_ssh_user w) rc base) = None)
         else pe_tf_preflight env base = None))"
  by (auto simp: tensorfold_preflight_def Let_def fail_def split: option.splits if_splits)

text \<open>
  A preflight passes exactly when the device is configured and reachable, its agent is healthy
  and has every capability, it exposes a single GPU of the kind asked for, its own preflight (and
  that of the pinned recipe) accepts the binding, and, for the Qwen3.8 recipe, it is the device
  bound and trusts the key the coordinator signs with.
\<close>

lemma daemon_preflight_accepts:
  "daemon_preflight env q caps targets = None \<longleftrightarrow>
     (\<exists>h info. find_device (pe_config env) (b_device (pf_binding q)) \<noteq> None \<and>
        pe_port env (b_device (pf_binding q)) \<noteq> 0 \<and>
        pe_health env = Inr h \<and> ah_status h = ''ok'' \<and> set caps \<subseteq> set (ah_capabilities h) \<and>
        pe_info env = Inr info \<and> identity_ok env q h info \<and> hardware_ok targets info \<and>
        pe_agent_preflight env (preflight_payload_of q) = None \<and> recipe_ok env q)"
proof -
  have recipe: "recipe_ok env q \<longleftrightarrow> (pf_driver q = driver_head_recipe \<longrightarrow> tensorfold_preflight env q = None)"
    by (auto simp: recipe_ok_def tensorfold_preflight_None)
  have checks: "check_health q caps h = None \<and> check_info env q targets info = None \<longleftrightarrow>
      ah_status h = ''ok'' \<and> set caps \<subseteq> set (ah_capabilities h) \<and> identity_ok env q h info \<and> hardware_ok targets info"
    for h info
    unfolding check_health_None check_info_None identity_ok_def by blast
  have "daemon_preflight env q caps targets = None \<longleftrightarrow>
     (\<exists>h info. find_device (pe_config env) (b_device (pf_binding q)) \<noteq> None \<and>
        pe_port env (b_device (pf_binding q)) \<noteq> 0 \<and> pe_health env = Inr h \<and> pe_info env = Inr info \<and>
        (check_health q caps h = None \<and> check_info env q targets info = None) \<and>
        pe_agent_preflight env (preflight_payload_of q) = None \<and> recipe_ok env q)"
    unfolding daemon_preflight_def fail_def Let_def recipe
    by (cases "pe_health env"; cases "pe_info env") (auto split: option.splits)
  then show ?thesis unfolding checks by blast
qed

section \<open>Inspection and removal\<close>

lemma filter_single: "filter p xs = [x] \<Longrightarrow> x \<in> set xs \<and> p x \<and> (\<forall>y \<in> set xs. p y \<longrightarrow> y = x)"
proof -
  assume "filter p xs = [x]"
  then have "set (filter p xs) = {x}" by simp
  then show ?thesis by auto
qed

text \<open>
  The container a selector is matched to is in the agent's inventory, and the only one with
  that name, or else the only one whose identifier starts with the selector, which then has at
  least twelve characters and is no container's name.
\<close>

lemma match_observed_unique:
  assumes "match_observed containers selector = Inr c"
  shows "c \<in> set containers \<and>
    (if \<exists>d \<in> set containers. ac_name d = trim_space selector
     then ac_name c = trim_space selector \<and> (\<forall>d \<in> set containers. ac_name d = trim_space selector \<longrightarrow> d = c)
     else 12 \<le> length (trim_space selector) \<and> has_prefix (ac_id c) (trim_space selector) \<and>
       (\<forall>d \<in> set containers. has_prefix (ac_id d) (trim_space selector) \<longrightarrow> d = c))"
proof (cases "filter (\<lambda>d. ac_name d = trim_space selector) containers")
  case Nil
  then have none: "\<not> (\<exists>d \<in> set containers. ac_name d = trim_space selector)" by (auto simp: filter_empty_conv)
  have "12 \<le> length (trim_space selector)"
    and one: "filter (\<lambda>d. has_prefix (ac_id d) (trim_space selector)) containers = [c]"
    using assms Nil by (auto simp: match_observed_def Let_def split: if_splits list.splits)
  with none filter_single [OF one] show ?thesis by simp
next
  case (Cons d ds)
  then have one: "filter (\<lambda>d. ac_name d = trim_space selector) containers = [c]"
    using assms by (auto simp: match_observed_def Let_def split: list.splits)
  with filter_single [OF one] show ?thesis by auto
qed

definition inventory_sample :: "agent_container list" where
  "inventory_sample =
     [\<lparr>ac_id = ''0123456789abcdef'', ac_name = ''yokai-a'', ac_status = ''running'', ac_ownership = [], ac_labels = []\<rparr>,
      \<lparr>ac_id = ''123456789abcdef0'', ac_name = ''0123456789ab'', ac_status = ''exited'', ac_ownership = [], ac_labels = []\<rparr>]"

lemma inventory_match: "match_observed inventory_sample ''0123456789ab'' = Inr (inventory_sample ! 1)"
  by code_simp

lemma match_observed_unique_witness: "inventory_sample ! 1 \<in> set inventory_sample"
  using match_observed_unique [OF inventory_match] by blast

end
