(* ===== verification/Agent_Inventory.thy ===== *)
theory Agent_Inventory
  imports Docker_Run
begin

text \<open>
  The container inventory of an agent, \<^verbatim>\<open>listContainersScope\<close> of \<^verbatim>\<open>internal/agent/docker.go\<close>:
  the lines of \<^verbatim>\<open>docker ps\<close>, the labels and ports read from their texts, the ownership of a
  container, and the base address of its service (\<^verbatim>\<open>serviceprobe.go\<close>). The output of Docker,
  the JSON decoder, the clock and the metrics scrape are arguments.
\<close>

section \<open>Labels and ownership\<close>

definition label_service_address :: string where "label_service_address = ''io.yokai.service.address''"
definition label_service_port :: string where "label_service_port = ''io.yokai.service.port''"

definition safe_inventory_keys :: "string list" where
  "safe_inventory_keys =
     [label_managed, label_ownership, label_service_address, label_service_port, label_deployment,
      label_generation, label_role, label_bkc_id, label_model_revision, label_image_digest,
      label_runtime_patch, label_source_revision]"

definition add_label_item :: "gomap \<Rightarrow> string \<Rightarrow> gomap" where
  "add_label_item labels item =
     (case str_cut item ''='' of
        None \<Rightarrow> labels
      | Some (k, v) \<Rightarrow> map_put (trim_space k) (trim_space v) labels)"

definition parse_docker_labels :: "string \<Rightarrow> gomap" where
  "parse_docker_labels raw = foldl add_label_item [] (split_char CHR '','' raw)"

definition sanitize_inventory_labels :: "gomap \<Rightarrow> gomap" where
  "sanitize_inventory_labels labels = filter (\<lambda>(k, v). k \<in> set safe_inventory_keys) labels"

definition inventory_ownership :: "string \<Rightarrow> gomap \<Rightarrow> string" where
  "inventory_ownership name labels =
     (if map_get labels label_ownership = ''adopted'' then ''adopted''
      else if map_get labels label_ownership = ''managed'' then ''managed''
      else if map_get labels label_managed = ''true'' \<or> has_prefix (trim_prefix name ''/'') ''yokai-''
        then ''managed''
      else ''observed'')"

definition parse_status :: "string \<Rightarrow> string" where
  "parse_status s =
     (if has_prefix s ''Up '' then ''running''
      else if has_prefix s ''Exited '' then ''stopped''
      else if str_contains s ''Created'' then ''created''
      else if str_contains s ''Restarting'' then ''restarting''
      else if str_contains s ''Dead'' then ''dead''
      else ''unknown'')"

section \<open>Ports\<close>

text \<open>
  The pattern \<^verbatim>\<open>0\.0\.0\.0:(\d+)->(\d+)/(tcp|udp)\<close> at the start of a text: the two numbers
  and what follows the match.
\<close>

definition digit_run :: "string \<Rightarrow> string \<times> string" where
  "digit_run s = (takeWhile is_digit s, dropWhile is_digit s)"

definition port_match :: "string \<Rightarrow> (string \<times> string \<times> string) option" where
  "port_match s =
     (if \<not> has_prefix s ''0.0.0.0:'' then None
      else (let (ext, r1) = digit_run (drop 8 s) in
        if ext = [] \<or> \<not> has_prefix r1 ''->'' then None
        else (let (int_port, r2) = digit_run (drop 2 r1) in
          if int_port = [] then None
          else if has_prefix r2 ''/tcp'' \<or> has_prefix r2 ''/udp'' then Some (int_port, ext, drop 4 r2)
          else None)))"

lemma port_match_shorter: "port_match s = Some (i, e, r) \<Longrightarrow> length r < length s"
proof -
  assume m: "port_match s = Some (i, e, r)"
  let ?r1 = "dropWhile is_digit (drop 8 s)"
  let ?r2 = "dropWhile is_digit (drop 2 ?r1)"
  have "has_prefix s ''0.0.0.0:''" and r: "r = drop 4 ?r2"
    using m by (simp_all add: port_match_def digit_run_def Let_def split: if_splits)
  then have "8 \<le> length s" by (auto simp: has_prefix_iff)
  then show ?thesis
    using r length_dropWhile_le [of is_digit "drop 8 s"] length_dropWhile_le [of is_digit "drop 2 ?r1"] by simp
qed

function port_matches :: "string \<Rightarrow> (string \<times> string) list" where
  "port_matches s =
     (case port_match s of
        Some (i, e, r) \<Rightarrow> (i, e) # port_matches r
      | None \<Rightarrow> (case s of [] \<Rightarrow> [] | _ # t \<Rightarrow> port_matches t))"
  by pat_completeness auto
termination by (relation "measure length") (auto dest: port_match_shorter)

declare port_matches.simps [simp del]

definition parse_ports :: "string \<Rightarrow> gomap" where
  "parse_ports text = foldl (\<lambda>m (i, e). map_put i e m) [] (port_matches text)"

section \<open>Containers\<close>

record ps_line =
  ps_id :: string
  ps_names :: string
  ps_image :: string
  ps_status :: string
  ps_ports :: string
  ps_created :: string
  ps_labels :: string

record 'm inv_container =
  ic_id :: string
  ic_name :: string
  ic_image :: string
  ic_status :: string
  ic_ports :: gomap
  ic_created :: "int option"
  ic_uptime :: int
  ic_labels :: gomap
  ic_ownership :: string
  ic_metrics :: "'m option"

text \<open>\<^verbatim>\<open>net.JoinHostPort\<close>.\<close>

definition join_host_port :: "string \<Rightarrow> string \<Rightarrow> string" where
  "join_host_port host port =
     (if CHR '':'' \<in> set host then ''['' @ host @ '']:'' @ port else host @ '':'' @ port)"

definition managed_service_address :: "'m inv_container \<Rightarrow> string" where
  "managed_service_address c =
     (let host = trim_space (map_get (ic_labels c) label_service_address) in
      if ic_ownership c \<noteq> ''managed'' \<and> ic_ownership c \<noteq> ''adopted'' then []
      else if parse_ip host = None then [] else host)"

text \<open>The port is the first of the map, whose order in the source is any.\<close>

definition container_base_url :: "'m inv_container \<Rightarrow> gerror + string" where
  "container_base_url c =
     (case find (\<lambda>(i, e). trim_space e \<noteq> []) (ic_ports c) of
        None \<Rightarrow> Inl (Errorf (''container '' @ ic_name c @ '' has no exposed ports''))
      | Some (i, e) \<Rightarrow>
          (let host = managed_service_address c in
           Inr (''http://'' @ join_host_port (if host = [] then ''127.0.0.1'' else host) (trim_space e))))"

text \<open>
  What an inventory sees: \<open>ps_answer\<close> for the arguments of \<^verbatim>\<open>docker ps\<close>, the decoder of a line,
  the parsed creation time in seconds, the clock, and the scrape of a metrics address. A time that
  does not parse is the zero time, whose distance to now saturates at the longest duration.
\<close>

record 'm inventory_env =
  ie_ps :: "string list \<Rightarrow> string + string"
  ie_decode :: "string \<Rightarrow> ps_line option"
  ie_created :: "string \<Rightarrow> int option"
  ie_now :: int
  ie_scrape :: "string \<Rightarrow> 'm option"

definition inventory_container :: "'m inventory_env \<Rightarrow> ps_line \<Rightarrow> 'm inv_container" where
  "inventory_container env p =
     (let labels = sanitize_inventory_labels (parse_docker_labels (ps_labels p));
          ports = parse_ports (ps_ports p); port = map_get labels label_service_port;
          created = ie_created env (ps_created p)
      in \<lparr>ic_id = ps_id p, ic_name = trim_prefix (ps_names p) ''/'', ic_image = ps_image p,
          ic_status = parse_status (ps_status p),
          ic_ports = (if port \<noteq> [] \<and> map_get ports port = [] then map_put port port ports else ports),
          ic_created = created,
          ic_uptime = (if \<not> str_contains (ps_status p) ''Up '' then 0
                       else case created of None \<Rightarrow> 9223372036 | Some t \<Rightarrow> ie_now env - t),
          ic_labels = labels, ic_ownership = inventory_ownership (ps_names p) labels, ic_metrics = None\<rparr>)"

definition with_metrics :: "'m inventory_env \<Rightarrow> 'm inv_container \<Rightarrow> 'm inv_container" where
  "with_metrics env c =
     (if (is_vllm_image (ic_image c) \<or> is_sglang_image (ic_image c)) \<and> ic_status c = ''running'' then
        (case container_base_url c of
           Inl e \<Rightarrow> c
         | Inr url \<Rightarrow> (case ie_scrape env (url @ ''/metrics'') of
             None \<Rightarrow> c | Some m \<Rightarrow> c\<lparr>ic_metrics := Some m\<rparr>))
      else c)"

definition inventory_args :: "string \<Rightarrow> string list" where
  "inventory_args scope =
     [''ps'', ''-a'', ''--no-trunc''] @ (if scope = ''managed'' then [''--filter'', ''name=yokai-''] else []) @
     [''--format'', ''json'']"

definition list_containers :: "'m inventory_env \<Rightarrow> string \<Rightarrow> gerror + 'm inv_container list" where
  "list_containers env scope =
     (if scope \<noteq> ''managed'' \<and> scope \<noteq> ''all''
      then Inl (Errorf (''invalid inventory scope '' @ go_quote scope))
      else (case ie_ps env (inventory_args scope) of
          Inl e \<Rightarrow> Inl (Wrapf ''docker ps failed: '' (Errorf e) [])
        | Inr out \<Rightarrow>
            (let ls = filter (\<lambda>l. l \<noteq> []) (split_char CHR 0x0A (trim_space out));
                 cs = map (inventory_container env) (List.map_filter (ie_decode env) ls)
             in Inr (if scope = ''managed''
                     then map (with_metrics env) (filter (\<lambda>c. ic_ownership c \<noteq> ''observed'') cs)
                     else cs))))"

section \<open>Facts\<close>

lemma inventory_labels_safe:
  "(k, v) \<in> set (ic_labels (inventory_container env p)) \<Longrightarrow> k \<in> set safe_inventory_keys"
  by (auto simp: inventory_container_def sanitize_inventory_labels_def Let_def)

end
