(* ===== verification/Go_Sha1.thy ===== *)
theory Go_Sha1
  imports Go_Sha256
begin

text \<open>
  SHA-1, computable, for the Git object identifiers by which a Hugging Face cache names its small
  files. Padding, big-endian words and the text of a digest are those of \<^verbatim>\<open>Go_Sha256\<close>.
\<close>

definition sha1_init :: "32 word list" where
  "sha1_init = [1732584193, 4023233417, 2562383102, 271733878, 3285377520]"

text \<open>The message schedule, newest word first.\<close>

fun sha1_schedule :: "nat \<Rightarrow> 32 word list \<Rightarrow> 32 word list" where
  "sha1_schedule 0 ws = rev ws"
| "sha1_schedule (Suc n) ws =
     sha1_schedule n (word_rotl 1 (ws ! 2 XOR ws ! 7 XOR ws ! 13 XOR ws ! 15) # ws)"

text \<open>The function and the constant of round \<open>t\<close>.\<close>

definition sha1_mix :: "nat \<Rightarrow> 32 word \<Rightarrow> 32 word \<Rightarrow> 32 word \<Rightarrow> 32 word" where
  "sha1_mix t b c d =
     (if t < 20 then ((b AND c) OR (NOT b AND d)) + 1518500249
      else if t < 40 then (b XOR c XOR d) + 1859775393
      else if t < 60 then ((b AND c) OR (b AND d) OR (c AND d)) + 2400959708
      else (b XOR c XOR d) + 3395469782)"

fun sha1_round :: "32 word list \<Rightarrow> nat \<times> 32 word \<Rightarrow> 32 word list" where
  "sha1_round [a, b, c, d, e] (t, w) =
     [word_rotl 5 a + sha1_mix t b c d + e + w, a, word_rotl 30 b, c, d]"
| "sha1_round s tw = s"

definition sha1_compress :: "32 word list \<Rightarrow> 32 word list \<Rightarrow> 32 word list" where
  "sha1_compress state ws =
     map2 (+) state (foldl sha1_round state (zip [0..<80] (sha1_schedule 64 (rev ws))))"

fun sha1_blocks :: "nat \<Rightarrow> 32 word list \<Rightarrow> 32 word list \<Rightarrow> 32 word list" where
  "sha1_blocks 0 state ws = state"
| "sha1_blocks (Suc n) state ws = sha1_blocks n (sha1_compress state (take 16 ws)) (drop 16 ws)"

definition sha1_hex :: "string \<Rightarrow> string" where
  "sha1_hex s =
     (let bs = sha_pad (map of_char s)
      in concat (map hex_byte (concat (map word_bytes
           (sha1_blocks (length bs div 64) sha1_init (be_words bs))))))"

end
