(* ===== verification/Agent_Snapshot.thy ===== *)
theory Agent_Snapshot
  imports Docker_Run Go_Sha1
begin

text \<open>
  The pinned Qwen3.8 snapshot on a host, \<^verbatim>\<open>internal/agent/deployment_preflight.go\<close> and
  \<^verbatim>\<open>page_cache.go\<close>: the 25 objects with their digests and sizes, the check of a Hugging Face
  cache directory against them, and the release of the page cache of its weights before a run.
  The file system is a record of answers. The sources range over the map of objects in any
  order; here the order is that of the list, which only decides which of several errors is given.
\<close>

section \<open>Relative paths\<close>

text \<open>\<^verbatim>\<open>filepath.Rel\<close> on segments: the common front is dropped, what is left of the base goes up.\<close>

fun rel_walk :: "string list \<Rightarrow> string list \<Rightarrow> string option" where
  "rel_walk [] ts = Some (join_with ''/'' ts)"
| "rel_walk (b # bs) [] = Some (join_with ''/'' (replicate (Suc (length bs)) ''..''))"
| "rel_walk (b # bs) (t # ts) =
     (if b = t then rel_walk bs ts
      else if b = ''..'' then None
      else Some (join_with ''/'' (replicate (Suc (length bs)) ''..'' @ t # ts)))"

definition rel_segments :: "string \<Rightarrow> string list" where
  "rel_segments p = (if path_clean p = ''.'' then [''.''] else clean_segments p)"

definition path_rel :: "string \<Rightarrow> string \<Rightarrow> string option" where
  "path_rel base target =
     (if path_clean base = path_clean target then Some ''.''
      else if path_is_abs (path_clean base) \<noteq> path_is_abs (path_clean target) then None
      else rel_walk (clean_segments base) (rel_segments target))"

section \<open>The objects of the snapshot\<close>

record snapshot_object =
  ob_blob :: string
  ob_size :: int

definition qwen38_objects :: "(string \<times> snapshot_object) list" where
  "qwen38_objects =
    [(''.gitattributes'', \<lparr>ob_blob = ''a09db2ea4d1bd1fc1c09f6fca45e8e4054953535'', ob_size = 1635\<rparr>),
     (''README.md'', \<lparr>ob_blob = ''f3edfc5b8f2cae8ae751162626d4c5aa3ed071a6'', ob_size = 12109\<rparr>),
     (''chat_template.jinja'', \<lparr>ob_blob = ''c0c686f9c38d70d179fb7b5f5aa7530bc913dda3'', ob_size = 8952\<rparr>),
     (''config.json'', \<lparr>ob_blob = ''d9df7636dc5b8bdab82655aba8ce0ebe25b22342'', ob_size = 30820\<rparr>),
     (''generation_config.json'', \<lparr>ob_blob = ''023756cfadf88e5bf69eefeee3e172f38c448d64'', ob_size = 202\<rparr>),
     (''hf_quant_config.json'', \<lparr>ob_blob = ''89bb1a48d2358f4b9ab7959bd4357a6d6d04020e'', ob_size = 23001\<rparr>),
     (''merges.txt'', \<lparr>ob_blob = ''a494e019ca1502219fd0128658b979e5f05ae8e8'', ob_size = 3353259\<rparr>),
     (''model-00001-of-00010.safetensors'', \<lparr>ob_blob = ''63fde954be6f08b49b876f4f70a0ad0bcfee71aff7b1faa33779b6b32feca2a2'', ob_size = 3115991696\<rparr>),
     (''model-00002-of-00010.safetensors'', \<lparr>ob_blob = ''4dafaef62a908e49e0d92c7c2a3fa99f4d9651fdeeb0ca09f09a9b40095af4e0'', ob_size = 10005510304\<rparr>),
     (''model-00003-of-00010.safetensors'', \<lparr>ob_blob = ''3218ddc129258e91a721a8e81329ca8f00588332ec721bd8d2cf7d20e324bf47'', ob_size = 10005364728\<rparr>),
     (''model-00004-of-00010.safetensors'', \<lparr>ob_blob = ''55e2bdf6a3a1f6e65270787f65c63b2a2a56b308b54eb1fb318dfabc9b48b141'', ob_size = 10006060112\<rparr>),
     (''model-00005-of-00010.safetensors'', \<lparr>ob_blob = ''d3c169d3694bfba846455d01e48f047d770f78d071c5a4d22f129389411d686e'', ob_size = 10005362392\<rparr>),
     (''model-00006-of-00010.safetensors'', \<lparr>ob_blob = ''38f65a9d11090428e139cc60d0587e8e5433ea2ce79820883c583d7cfcc53130'', ob_size = 10005375328\<rparr>),
     (''model-00007-of-00010.safetensors'', \<lparr>ob_blob = ''8cf3fa05c04cb2e060963b69bb01f7a7b9f43c58435fbe380836a0457a19cd3e'', ob_size = 10005956544\<rparr>),
     (''model-00008-of-00010.safetensors'', \<lparr>ob_blob = ''53d1f80746aa0cc0a7c2f4836587002a8a4dd72c827432cd2e43abae3c3899e4'', ob_size = 10005375200\<rparr>),
     (''model-00009-of-00010.safetensors'', \<lparr>ob_blob = ''eaff6a87ece6fbfd6ad0fbaa0a5cf9ff542f8076acba38e62410b1ed55e12cc3'', ob_size = 5679113808\<rparr>),
     (''model-00010-of-00010.safetensors'', \<lparr>ob_blob = ''0d49b0cf7c15bf9b5bd1e17403b36727315860a8f2a2e0f5a53655547084f640'', ob_size = 128587536\<rparr>),
     (''model-fp8-mtp-ple.safetensors'', \<lparr>ob_blob = ''3525520c8602d850003eb1960aec0b64291dae33b83f8b65dd639a451df78823'', ob_size = 53717551730\<rparr>),
     (''model.safetensors.index.json'', \<lparr>ob_blob = ''660414e8300728ba80062e6a3c81cb76a65e2ab136ac9e9ceb450ba0c51c3c0d'', ob_size = 31275518\<rparr>),
     (''preprocessor_config.json'', \<lparr>ob_blob = ''2ea84a437d448ff71b08df68fdd949d5cc4ebb64'', ob_size = 390\<rparr>),
     (''processor_config.json'', \<lparr>ob_blob = ''33818c7f9e991ad735fd240209f4fa73e6c28c50'', ob_size = 1191\<rparr>),
     (''tokenizer.json'', \<lparr>ob_blob = ''0997f410c57a1f4e53b09e4be8f4a172d90edd9564368fb0847030937229b9f3'', ob_size = 12809320\<rparr>),
     (''tokenizer_config.json'', \<lparr>ob_blob = ''5de744b3fca2129d7186979ae47c06be33903243'', ob_size = 17928\<rparr>),
     (''video_preprocessor_config.json'', \<lparr>ob_blob = ''3ba673a5ad7d4d13f54155ecd38b2a94a6dac8fe'', ob_size = 385\<rparr>),
     (''vocab.json'', \<lparr>ob_blob = ''0aa0ce0658d60ac4a5d609f4eadb0e8e43514176'', ob_size = 6722759\<rparr>)]"

definition weight_name :: "string \<Rightarrow> bool" where
  "weight_name name \<longleftrightarrow> has_suffix name ''.safetensors''"

section \<open>The file system\<close>

datatype file_type = SymbolicLink | RegularFile | DirectoryFile | OtherFile

record file_info =
  fi_type :: file_type
  fi_size :: int

text \<open>
  \<open>fs_link\<close> is \<^verbatim>\<open>filepath.EvalSymlinks\<close>, \<open>fs_entries\<close> the names \<^verbatim>\<open>os.ReadDir\<close> gives,
  \<open>fs_lstat\<close> is \<^verbatim>\<open>os.Lstat\<close>, \<open>fs_read\<close> opens and reads a whole file.
\<close>

record snapshot_fs =
  fs_link :: "string \<Rightarrow> gerror + string"
  fs_entries :: "string \<Rightarrow> gerror + string list"
  fs_lstat :: "string \<Rightarrow> file_info option"
  fs_read :: "string \<Rightarrow> gerror + string"

section \<open>One object\<close>

definition resolve_object ::
  "snapshot_fs \<Rightarrow> string \<Rightarrow> string \<Rightarrow> string \<times> snapshot_object \<Rightarrow> gerror + string" where
  "resolve_object fs snapshot home entry =
     (let path = path_join [snapshot, fst entry];
          bad = (\<lambda>what. Inl (Errorf (''pinned snapshot object '' @ fst entry @ what)))
      in case fs_lstat fs path of
           None \<Rightarrow> bad '' is not a Hugging Face cache symlink''
         | Some info \<Rightarrow>
             if fi_type info \<noteq> SymbolicLink then bad '' is not a Hugging Face cache symlink''
             else (case fs_link fs path of
                 Inl e \<Rightarrow> Inl (Wrapf (''resolve pinned snapshot object '' @ fst entry @ '': '') e [])
               | Inr resolved \<Rightarrow>
                   (case path_rel (path_join [home, ''blobs'']) resolved of
                      None \<Rightarrow> bad '' does not reference expected cache blob''
                    | Some relative \<Rightarrow>
                        if path_dir relative \<noteq> ''.'' \<or> path_base relative \<noteq> ob_blob (snd entry)
                        then bad '' does not reference expected cache blob''
                        else (case fs_lstat fs resolved of
                            None \<Rightarrow> bad '' has unexpected size or type''
                          | Some target \<Rightarrow>
                              if fi_type target \<noteq> RegularFile \<or> fi_size target \<noteq> ob_size (snd entry)
                              then bad '' has unexpected size or type'' else Inr resolved))))"

text \<open>A Git object identifier has 40 digits, the SHA-256 of a large file 64.\<close>

definition object_digest :: "snapshot_object \<Rightarrow> string \<Rightarrow> string option" where
  "object_digest ob content =
     (if length (ob_blob ob) = 40 then Some (sha1_hex (''blob '' @ itoa (ob_size ob) @ [CHR 0x00] @ content))
      else if length (ob_blob ob) = 64 then Some (sha256_hex content)
      else None)"

definition verify_object_file :: "gerror + string \<Rightarrow> snapshot_object \<Rightarrow> gerror option" where
  "verify_object_file content ob =
     (if length (ob_blob ob) \<noteq> 40 \<and> length (ob_blob ob) \<noteq> 64 then Some (Errorf ''unsupported expected digest'')
      else (case content of
          Inl e \<Rightarrow> Some e
        | Inr data \<Rightarrow>
            if object_digest ob data \<noteq> Some (ob_blob ob)
            then Some (Errorf (''content digest does not match '' @ ob_blob ob)) else None))"

definition validate_object ::
  "snapshot_fs \<Rightarrow> string \<Rightarrow> string \<Rightarrow> string \<times> snapshot_object \<Rightarrow> gerror option" where
  "validate_object fs snapshot home entry =
     (case resolve_object fs snapshot home entry of
        Inl e \<Rightarrow> Some e
      | Inr resolved \<Rightarrow>
          map_option (\<lambda>e. Wrapf (''pinned snapshot object '' @ fst entry @ '' hash mismatch: '') e [])
            (verify_object_file (fs_read fs resolved) (snd entry)))"

text \<open>The first error of a loop that stops at one.\<close>

fun first_error :: "('a \<Rightarrow> gerror option) \<Rightarrow> 'a list \<Rightarrow> gerror option" where
  "first_error f [] = None"
| "first_error f (x # xs) = (case f x of Some e \<Rightarrow> Some e | None \<Rightarrow> first_error f xs)"

lemma first_error_None: "first_error f xs = None \<longleftrightarrow> (\<forall>x \<in> set xs. f x = None)"
  by (induction xs) (auto split: option.splits)

section \<open>The whole snapshot\<close>

definition validate_object_set :: "snapshot_fs \<Rightarrow> string \<Rightarrow> gerror option" where
  "validate_object_set fs snapshot =
     (case fs_entries fs snapshot of
        Inl e \<Rightarrow> Some (Wrapf ''read pinned snapshot object set: '' e [])
      | Inr entries \<Rightarrow>
          if length entries \<noteq> length qwen38_objects
          then Some (Errorf (''pinned snapshot object set has '' @ itoa (int (length entries)) @
                 '' entries, expected '' @ itoa (int (length qwen38_objects))))
          else first_error (\<lambda>entry. if map_of qwen38_objects entry = None
                 then Some (Errorf (''pinned snapshot contains unexpected object '' @ entry)) else None) entries)"

definition validate_patched_config :: "snapshot_fs \<Rightarrow> string \<Rightarrow> runtime_patch \<Rightarrow> gerror option" where
  "validate_patched_config fs snapshot patch =
     (let name = path_base (patch_source_path patch) in
      if name \<noteq> ''config.json'' \<and> name \<noteq> ''hf_quant_config.json'' then None
      else (case fs_read fs (path_join [snapshot, name]) of
          Inl e \<Rightarrow> Some (Wrapf (''read pinned snapshot '' @ name @ '': '') e [])
        | Inr data \<Rightarrow>
            if sha256_hex data \<noteq> patch_original_sha patch
            then Some (Errorf (''pinned snapshot '' @ name @ '' hash mismatch'')) else None))"

text \<open>The values of the weight map, each looked at once; the result is the set of files seen.\<close>

definition unsafe_relative :: "string \<Rightarrow> bool" where
  "unsafe_relative r \<longleftrightarrow> path_clean r \<noteq> r \<or> path_is_abs (path_clean r) \<or> path_clean r = ''..'' \<or>
     has_prefix (path_clean r) ''../''"

fun scan_weight_map :: "string list \<Rightarrow> string list \<Rightarrow> gerror + string list" where
  "scan_weight_map seen [] = Inr seen"
| "scan_weight_map seen (r # rs) =
     (if r \<in> set seen then scan_weight_map seen rs
      else if unsafe_relative r then Inl (Errorf ''pinned snapshot weight index contains an unsafe path'')
      else if map_of qwen38_objects (path_clean r) = None \<or> \<not> weight_name (path_clean r)
        then Inl (Errorf (''pinned snapshot weight index references unexpected shard '' @ path_clean r))
      else scan_weight_map (seen @ [r]) rs)"

definition validate_weight_index :: "gomap option \<Rightarrow> gerror option" where
  "validate_weight_index index =
     (case index of
        None \<Rightarrow> Some (Errorf ''pinned snapshot has an invalid weight index'')
      | Some weights \<Rightarrow>
          if weights = [] then Some (Errorf ''pinned snapshot has an invalid weight index'')
          else (case scan_weight_map [] (map snd weights) of
              Inl e \<Rightarrow> Some e
            | Inr seen \<Rightarrow>
                (let expected = filter weight_name (map fst qwen38_objects) in
                 case find (\<lambda>name. name \<notin> set seen) expected of
                   Some name \<Rightarrow> Some (Errorf (''pinned snapshot weight index omits shard '' @ name))
                 | None \<Rightarrow>
                     if length seen \<noteq> length expected
                     then Some (Errorf ''pinned snapshot weight index shard set mismatch'') else None)))"

text \<open>\<open>dec_index\<close>: \<^verbatim>\<open>json.Unmarshal\<close> of the weight index; \<open>None\<close> when it fails.\<close>

definition validate_pinned_snapshot ::
  "(string \<Rightarrow> gomap option) \<Rightarrow> snapshot_fs \<Rightarrow> string \<Rightarrow> string \<Rightarrow> gerror option" where
  "validate_pinned_snapshot dec_index fs snapshot revision =
     (let clean = path_clean snapshot; repository = path_dir (path_dir clean) in
      if path_base clean \<noteq> revision \<or> path_base (path_dir clean) \<noteq> ''snapshots'' \<or>
         path_base repository \<noteq> qwen38_hf_cache_dir
      then Some (Errorf ''local snapshot is not the standard pinned Hugging Face cache path'')
      else (case fs_link fs repository of
          Inl e \<Rightarrow> Some (Wrapf ''resolve pinned Hugging Face repository: '' e [])
        | Inr home \<Rightarrow>
      (case validate_object_set fs clean of
          Some e \<Rightarrow> Some e
        | None \<Rightarrow>
      (case first_error (validate_object fs clean home) qwen38_objects of
          Some e \<Rightarrow> Some e
        | None \<Rightarrow>
      (case first_error (validate_patched_config fs snapshot) qwen38_patches of
          Some e \<Rightarrow> Some e
        | None \<Rightarrow>
      (case fs_read fs (path_join [clean, ''model.safetensors.index.json'']) of
          Inl e \<Rightarrow> Some (Wrapf ''read pinned snapshot weight index: '' e [])
        | Inr data \<Rightarrow> validate_weight_index (dec_index data)))))))"

section \<open>Releasing the page cache\<close>

record release_report =
  rr_attempted :: bool
  rr_expected :: int
  rr_verified :: int
  rr_files :: int
  rr_bytes :: int
  rr_skipped :: int
  rr_failure :: string

definition empty_report :: release_report where
  "empty_report = \<lparr>rr_attempted = False, rr_expected = 0, rr_verified = 0, rr_files = 0, rr_bytes = 0,
     rr_skipped = 0, rr_failure = []\<rparr>"

definition report_text :: "release_report \<Rightarrow> string" where
  "report_text r =
     (let summary = ''verified '' @ itoa (rr_verified r) @ '' of '' @ itoa (rr_expected r) @
            '' expected weight file(s); released '' @ itoa (rr_bytes r) @ '' B across '' @ itoa (rr_files r) @
            '' file(s)'' @ (if rr_skipped r \<noteq> 0 then '', '' @ itoa (rr_skipped r) @ '' skipped'' else [])
      in if rr_failure r \<noteq> [] then ''not completed: '' @ rr_failure r @ ''; '' @ summary else summary)"

text \<open>
  The answers on open files: \<open>oc_open\<close> opens without following a link (the error text, if any),
  \<open>oc_stat\<close> and \<open>oc_content\<close> are of the open file, \<open>oc_release\<close> says whether the advice and
  the close both succeed.
\<close>

record open_calls =
  oc_open :: "string \<Rightarrow> string option"
  oc_stat :: "string \<Rightarrow> file_info option"
  oc_content :: "string \<Rightarrow> gerror + string"
  oc_release :: "string \<Rightarrow> bool"

text \<open>The mount of the repository: \<open>None\<close> when two volumes have the same target.\<close>

fun repository_mount :: "string \<Rightarrow> gomap \<Rightarrow> string option" where
  "repository_mount found [] = Some found"
| "repository_mount found ((host, target) # vs) =
     (if target = qwen38_container_root @ '':ro''
      then (if found \<noteq> [] then None else repository_mount (path_clean host) vs)
      else repository_mount found vs)"

text \<open>One weight: the error text, or the resolved file with its size.\<close>

definition verify_weight ::
  "snapshot_fs \<Rightarrow> open_calls \<Rightarrow> string \<Rightarrow> string \<Rightarrow> string \<times> snapshot_object \<Rightarrow> string + string \<times> int" where
  "verify_weight fs oc snapshot home entry =
     (let changed = Inl (''pinned weight object '' @ fst entry @ '' changed type or size before cache release'') in
      case resolve_object fs snapshot home entry of
        Inl e \<Rightarrow> Inl (err_text e)
      | Inr resolved \<Rightarrow>
          (case oc_open oc resolved of
             Some why \<Rightarrow> Inl (''open pinned weight object '' @ fst entry @ '' safely: '' @ why)
           | None \<Rightarrow>
               (case oc_stat oc resolved of
                  None \<Rightarrow> changed
                | Some info \<Rightarrow>
                    if fi_type info \<noteq> RegularFile \<or> fi_size info \<noteq> ob_size (snd entry) then changed
                    else (case verify_object_file (oc_content oc resolved) (snd entry) of
                        Some e \<Rightarrow> Inl (''pinned weight object '' @ fst entry @
                                      '' hash mismatch before cache release: '' @ err_text e)
                      | None \<Rightarrow> Inr (resolved, fi_size info)))))"

text \<open>The weights verified, or the first failure with the number verified before it.\<close>

fun verify_weights ::
  "snapshot_fs \<Rightarrow> open_calls \<Rightarrow> string \<Rightarrow> string \<Rightarrow> (string \<times> snapshot_object) list \<Rightarrow>
   (string \<times> int) list \<Rightarrow> (string \<times> nat) + (string \<times> int) list" where
  "verify_weights fs oc snapshot home [] verified = Inr verified"
| "verify_weights fs oc snapshot home (entry # es) verified =
     (case verify_weight fs oc snapshot home entry of
        Inl why \<Rightarrow> Inl (why, length verified)
      | Inr w \<Rightarrow> verify_weights fs oc snapshot home es (verified @ [w]))"

definition release_one :: "open_calls \<Rightarrow> release_report \<Rightarrow> string \<times> int \<Rightarrow> release_report" where
  "release_one oc report weight =
     (if \<not> oc_release oc (fst weight) then report\<lparr>rr_skipped := rr_skipped report + 1\<rparr>
      else report\<lparr>rr_files := rr_files report + 1, rr_bytes := rr_bytes report + snd weight\<rparr>)"

definition release_page_cache ::
  "snapshot_fs \<Rightarrow> open_calls \<Rightarrow> (string \<times> snapshot_object) list \<Rightarrow> container_request \<Rightarrow> release_report" where
  "release_page_cache fs oc objects r =
     (if \<not> is_qwen_bkc r then empty_report
      else (let attempt = empty_report\<lparr>rr_attempted := True\<rparr> in
        case repository_mount [] (made (lr_volumes r)) of
          None \<Rightarrow> attempt\<lparr>rr_failure := ''multiple model repository mounts''\<rparr>
        | Some repository \<Rightarrow>
            if repository = [] \<or> \<not> path_is_abs repository \<or> path_base repository \<noteq> qwen38_hf_cache_dir \<or>
               map_get (lr_labels r) label_model_revision \<noteq> qwen38_revision
            then attempt\<lparr>rr_failure := ''validated pinned snapshot mount is unavailable''\<rparr>
            else (case fs_link fs repository of
                Inl e \<Rightarrow> attempt\<lparr>rr_failure := ''cannot resolve validated pinned repository''\<rparr>
              | Inr home \<Rightarrow>
                  (let weights = sort_key fst (filter (\<lambda>entry. weight_name (fst entry)) objects);
                       report = attempt\<lparr>rr_expected := int (length weights)\<rparr>
                   in if weights = []
                      then report\<lparr>rr_failure := ''pinned manifest contains no expected weight files''\<rparr>
                      else (case verify_weights fs oc
                              (path_join [repository, ''snapshots'', qwen38_revision]) home weights [] of
                          Inl (why, n) \<Rightarrow> report\<lparr>rr_verified := int n, rr_skipped := rr_expected report,
                                              rr_failure := why\<rparr>
                        | Inr verified \<Rightarrow> foldl (release_one oc)
                            (report\<lparr>rr_verified := int (length verified)\<rparr>) verified)))))"

end
