(* ===== verification/Agent_Preflight.thy ===== *)
theory Agent_Preflight
  imports Agent_Inventory Agent_Snapshot Daemon_Deploy
begin

text \<open>
  What an agent checks on its host before a deployment, \<^verbatim>\<open>deployment_preflight.go\<close>: the GPU
  compute tenants and their containers, the fabric binding, the addresses and ports, the owner of a
  listening port, and the handler that puts them together. The answers of \<^verbatim>\<open>nvidia-smi\<close>,
  \<^verbatim>\<open>ss\<close>, Docker, the kernel's files and the network are arguments; a problem is the HTTP status,
  the error code and the error.
\<close>

section \<open>GPU compute tenants\<close>

text \<open>\<^verbatim>\<open>boundedCommandOutput\<close>: the buffer and whether anything was dropped.\<close>

definition bounded_output_write :: "nat \<Rightarrow> string \<times> bool \<Rightarrow> string \<Rightarrow> string \<times> bool" where
  "bounded_output_write limit out chunk =
     (let (buf, overflow) = out; remaining = int limit - int (length buf) in
      if remaining < int (length chunk)
      then (buf @ take (nat (if remaining < 0 then 0 else remaining)) chunk, True)
      else (buf @ chunk, overflow))"

fun gpu_pid_lines :: "int list \<Rightarrow> string list \<Rightarrow> gerror + int list" where
  "gpu_pid_lines pids [] = Inr pids"
| "gpu_pid_lines pids (l # ls) =
     (if l = [] then gpu_pid_lines pids ls
      else if 1024 \<le> length pids \<or> trim_space l \<noteq> l \<or> \<not> list_all is_digit l
        then Inl (Errorf ''nvidia-smi returned malformed compute PID output'')
      else (case digits_value 0 l of
          None \<Rightarrow> Inl (Errorf ''nvidia-smi returned invalid compute PID'')
        | Some n \<Rightarrow>
            if n \<ge> 2 ^ 30 \<or> n < 1 then Inl (Errorf ''nvidia-smi returned invalid compute PID'')
            else if int n \<in> set pids then gpu_pid_lines pids ls
            else gpu_pid_lines (pids @ [int n]) ls))"

definition parse_gpu_pids :: "string \<Rightarrow> gerror + int list" where
  "parse_gpu_pids output =
     (if length output > 1048576 then Inl (Errorf ''nvidia-smi compute output exceeds limit'')
      else gpu_pid_lines [] (split_char CHR 0x0A (replace_all output [CHR 0x0D, CHR 0x0A] [CHR 0x0A])))"

text \<open>
  The pattern \<^verbatim>\<open>(?:^|[/:.-])([a-f0-9]{64})(?:$|[/.])\<close>: the first 64 hexadecimal digits between
  such borders; \<open>border\<close> says whether the text before ends in one.
\<close>

definition lower_hex :: "char \<Rightarrow> bool" where
  "lower_hex c \<longleftrightarrow> is_digit c \<or> (let n = of_char c :: nat in 97 \<le> n \<and> n \<le> 102)"

definition id_at :: "string \<Rightarrow> bool" where
  "id_at s \<longleftrightarrow> 64 \<le> length s \<and> list_all lower_hex (take 64 s) \<and>
     (drop 64 s = [] \<or> hd (drop 64 s) \<in> set ''/.'')"

fun cgroup_id :: "bool \<Rightarrow> string \<Rightarrow> string option" where
  "cgroup_id border [] = None"
| "cgroup_id border (c # s) =
     (if border \<and> id_at (c # s) then Some (take 64 (c # s)) else cgroup_id (c \<in> set ''/:.-'') s)"

text \<open>\<^verbatim>\<open>strings.SplitN(line, ":", 3)\<close>.\<close>

definition split_colons :: "string \<Rightarrow> string list" where
  "split_colons s = (let parts = split_char CHR '':'' s
     in take 2 parts @ (if 2 < length parts then [join_with '':'' (drop 2 parts)] else []))"

fun cgroup_lines :: "string \<Rightarrow> string list \<Rightarrow> gerror + string" where
  "cgroup_lines found [] =
     (if found = [] then Inl (Errorf ''compute process is not in a Docker container'') else Inr found)"
| "cgroup_lines found (l # ls) =
     (if l = [] then cgroup_lines found ls
      else (case split_colons l of
          [_, _, path] \<Rightarrow>
            (case cgroup_id True path of
               None \<Rightarrow> cgroup_lines found ls
             | Some i \<Rightarrow>
                 if found \<noteq> [] \<and> found \<noteq> i then Inl (Errorf ''ambiguous Docker process cgroup'')
                 else cgroup_lines i ls)
        | _ \<Rightarrow> Inl (Errorf ''malformed process cgroup'')))"

definition container_of_cgroup :: "string \<Rightarrow> gerror + string" where
  "container_of_cgroup data = cgroup_lines [] (split_char CHR 0x0A data)"

record tenant =
  tn_pid :: int
  tn_container :: string

definition read_bounded_file :: "nat \<Rightarrow> gerror + string \<Rightarrow> gerror + string" where
  "read_bounded_file limit content =
     (case content of
        Inl e \<Rightarrow> Inl e
      | Inr data \<Rightarrow>
          if length data > limit then Inl (Errorf (''file exceeds '' @ itoa (int limit) @ '' byte limit'')) else Inr data)"

fun tenants_of :: "(int \<Rightarrow> gerror + string) \<Rightarrow> int list \<Rightarrow> gerror + tenant list" where
  "tenants_of cgroup [] = Inr []"
| "tenants_of cgroup (pid # pids) =
     (case read_bounded_file 65536 (cgroup pid) of
        Inl e \<Rightarrow> Inl (Wrapf (''read compute process '' @ itoa pid @ '' cgroup: '') e [])
      | Inr data \<Rightarrow>
          (case tenants_of cgroup pids of
             Inl e \<Rightarrow> Inl e
           | Inr ts \<Rightarrow> Inr (\<lparr>tn_pid = pid,
               tn_container = (case container_of_cgroup data of Inl e \<Rightarrow> [] | Inr i \<Rightarrow> i)\<rparr> # ts)))"

text \<open>\<open>chunks\<close>: what the command wrote, if it ended well; \<open>cgroup\<close> reads the file of a process.\<close>

definition inspect_gpu_tenants ::
  "cmd_error + string list \<Rightarrow> (int \<Rightarrow> gerror + string) \<Rightarrow> gerror + tenant list" where
  "inspect_gpu_tenants answer cgroup =
     (case answer of
        Inl (Canceled s) \<Rightarrow> Inl (Wrapf ''nvidia-smi exceeded 5 second deadline: '' (Sentinel s) [])
      | Inl (Failed t) \<Rightarrow> Inl (Wrapf ''nvidia-smi compute query failed: '' (Errorf t) [])
      | Inr chunks \<Rightarrow>
          (let (buf, overflow) = foldl (bounded_output_write 1048576) ([], False) chunks in
           if overflow then Inl (Errorf ''nvidia-smi compute output exceeds limit'')
           else (case parse_gpu_pids buf of Inl e \<Rightarrow> Inl e | Inr pids \<Rightarrow> tenants_of cgroup pids)))"

section \<open>Who may hold the GPU\<close>

definition selected_by :: "string \<Rightarrow> 'm inv_container \<Rightarrow> bool" where
  "selected_by selector c \<longleftrightarrow> ic_id c = selector \<or> ic_name c = selector \<or>
     (12 \<le> length selector \<and> has_prefix (ic_id c) selector)"

definition rollback_owner :: "'m inv_container \<Rightarrow> bool" where
  "rollback_owner c \<longleftrightarrow> map_get (ic_labels c) label_managed = ''true'' \<and>
     map_get (ic_labels c) label_ownership = ''managed'' \<and> map_get (ic_labels c) label_deployment = []"

text \<open>The loop over the inventory: \<open>allowed\<close> is the identifier found so far.\<close>

fun allowed_tenant :: "string \<Rightarrow> string \<Rightarrow> 'm inv_container list \<Rightarrow> gerror + string" where
  "allowed_tenant selector allowed [] = Inr allowed"
| "allowed_tenant selector allowed (c # cs) =
     (if \<not> selected_by selector c then allowed_tenant selector allowed cs
      else if allowed \<noteq> []
        then Inl (Errorf ''active compute tenant cannot be attributed to an unambiguous rollback owner'')
      else if \<not> rollback_owner c then Inr allowed
      else allowed_tenant selector (ic_id c) cs)"

definition validate_no_tenants ::
  "string \<Rightarrow> 'm inv_container list \<Rightarrow> tenant list \<Rightarrow> gerror option" where
  "validate_no_tenants selector cs ts =
     (if ts = [] then None
      else (case (if selector = [] then Inr [] else allowed_tenant selector [] cs) of
          Inl e \<Rightarrow> Some e
        | Inr allowed \<Rightarrow>
            (case find (\<lambda>t. allowed = [] \<or> tn_container t \<noteq> allowed) ts of
               None \<Rightarrow> None
             | Some t \<Rightarrow> Some (Errorf (''active compute tenant PID '' @ itoa (tn_pid t) @
                           '' is not the exact Yokai-managed rollback owner'')))))"

section \<open>The fabric\<close>

definition fabric_text_ok :: "string \<Rightarrow> bool" where
  "fabric_text_ok s \<longleftrightarrow> 1 \<le> length s \<and> length s \<le> 64 \<and>
     list_all (\<lambda>c. is_letter c \<or> is_digit c \<or> c \<in> set ''_.:-'') s"

definition validate_gid_value :: "string \<Rightarrow> string \<Rightarrow> string \<Rightarrow> string \<Rightarrow> gerror option" where
  "validate_gid_value iface address gid ndev =
     (let want = parse_ip (trim_space address); got = parse_ip (trim_space gid) in
      if trim_space ndev \<noteq> iface then Some (Errorf (''GID network device does not match interface '' @ iface))
      else if want = None \<or> got = None \<or> got \<noteq> want
        then Some (Errorf (''GID does not encode fabric address '' @ address))
      else None)"

text \<open>
  \<open>ff_iface\<close> gives the addresses of a network interface (\<open>None\<close>: there is none), \<open>ff_exists\<close> is
  \<^verbatim>\<open>os.Stat\<close>, \<open>ff_glob\<close> \<^verbatim>\<open>filepath.Glob\<close> and \<open>ff_read\<close> \<^verbatim>\<open>os.ReadFile\<close> on the files of the kernel.
\<close>

record fabric_files =
  ff_iface :: "string \<Rightarrow> (gerror + string list) option"
  ff_exists :: "string \<Rightarrow> bool"
  ff_glob :: "string \<Rightarrow> string list option"
  ff_read :: "string \<Rightarrow> string option"

definition address_text :: "string \<Rightarrow> string" where
  "address_text s = (case str_cut s ''/'' of None \<Rightarrow> s | Some (a, _) \<Rightarrow> a)"

definition gid_matches :: "fabric_files \<Rightarrow> string \<Rightarrow> string \<Rightarrow> int \<Rightarrow> string \<Rightarrow> bool" where
  "gid_matches ff iface address index gid =
     (let port = path_dir (path_dir gid) in
      case (ff_read ff gid, ff_read ff (path_join [port, ''gid_attrs'', ''ndevs'', itoa index])) of
        (Some value, Some ndev) \<Rightarrow> validate_gid_value iface address value ndev = None
      | _ \<Rightarrow> False)"

definition validate_fabric_binding ::
  "fabric_files \<Rightarrow> string \<Rightarrow> string \<Rightarrow> int \<Rightarrow> string \<Rightarrow> gerror option" where
  "validate_fabric_binding ff iface hca index address =
     (if \<not> fabric_text_ok iface \<or> \<not> fabric_text_ok hca \<or> has_prefix hca ''=''
      then Some (Errorf ''invalid fabric interface or HCA name'')
      else (case ff_iface ff iface of
          None \<Rightarrow> Some (Errorf (''fabric interface '' @ iface @ '' does not exist''))
        | Some (Inl e) \<Rightarrow> Some (Wrapf (''inspect fabric interface '' @ iface @ '': '') e [])
        | Some (Inr addresses) \<Rightarrow>
            if \<not> list_ex (\<lambda>a. parse_ip (address_text a) \<noteq> None \<and> parse_ip (address_text a) = parse_ip address) addresses
            then Some (Errorf (''fabric address '' @ address @ '' is not assigned to interface '' @ iface))
            else if \<not> ff_exists ff (path_join [''/sys/class/infiniband'', hca, ''device'', ''net'', iface])
            then Some (Errorf (''fabric HCA '' @ hca @ '' is not associated with interface '' @ iface))
            else (case ff_glob ff (path_join [''/sys/class/infiniband'', hca, ''ports'', ''*'', ''gids'', itoa index]) of
                None \<Rightarrow> Some (Errorf (''fabric HCA '' @ hca @ '' has no GID index '' @ itoa index))
              | Some gids \<Rightarrow>
                  if gids = [] then Some (Errorf (''fabric HCA '' @ hca @ '' has no GID index '' @ itoa index))
                  else if list_ex (gid_matches ff iface address index) gids then None
                  else Some (Errorf (''fabric HCA '' @ hca @ '' GID index '' @ itoa index @
                         '' does not map address '' @ address @ '' to interface '' @ iface)))))"

section \<open>Addresses\<close>

text \<open>The text before and after the last colon.\<close>

definition last_cut :: "string \<Rightarrow> (string \<times> string) option" where
  "last_cut s =
     (if CHR '':'' \<notin> set s then None
      else let n = length (takeWhile (\<lambda>c. c \<noteq> CHR '':'') (rev s))
           in Some (take (length s - n - 1) s, drop (length s - n) s))"

text \<open>\<^verbatim>\<open>net.SplitHostPort\<close>, where only the host is used.\<close>

definition split_host :: "string \<Rightarrow> string option" where
  "split_host s =
     (case last_cut s of
        None \<Rightarrow> None
      | Some (front, port) \<Rightarrow>
          if has_prefix s ''['' then
            (let host = takeWhile (\<lambda>c. c \<noteq> CHR '']'') (tl s); rest = dropWhile (\<lambda>c. c \<noteq> CHR '']'') (tl s) in
             if rest = [] \<or> length front \<noteq> length host + 2 then None
             else if CHR ''['' \<in> set (tl s) \<or> CHR '']'' \<in> set (tl rest) then None
             else Some host)
          else if CHR '':'' \<in> set front \<or> CHR ''['' \<in> set s \<or> CHR '']'' \<in> set s then None
          else Some front)"

definition local_address :: "string \<Rightarrow> ip option" where
  "local_address value =
     (let host = (case split_host value of Some h \<Rightarrow> h | None \<Rightarrow> address_text value)
      in parse_ip (trim_chars ''[]'' host))"

text \<open>
  \<^verbatim>\<open>IP.String\<close>: dotted decimals, or hexadecimal groups with the first longest run of at least
  two zero groups left out.
\<close>

fun hex_text :: "nat \<Rightarrow> string" where
  "hex_text n = (if n < 16 then [hex_digit n] else hex_text (n div 16) @ [hex_digit (n mod 16)])"

declare hex_text.simps [simp del]

definition ip_groups :: "ip \<Rightarrow> nat list" where
  "ip_groups a = map (\<lambda>i. 256 * a ! (2 * i) + a ! (2 * i + 1)) [0..<8]"

definition zero_run :: "nat list \<Rightarrow> nat \<times> nat" where
  "zero_run gs = foldl (\<lambda>(start, n) i.
     let l = length (takeWhile (\<lambda>g. g = 0) (drop i gs)) in if 2 \<le> l \<and> n < l then (i, l) else (start, n)) (0, 0) [0..<8]"

definition ip_text :: "ip \<Rightarrow> string" where
  "ip_text a =
     (case to_v4 a of
        Some q \<Rightarrow> join_with ''.'' (map nat_text q)
      | None \<Rightarrow>
          (let gs = ip_groups a; (start, n) = zero_run gs; text = (\<lambda>xs. join_with '':'' (map hex_text xs)) in
           if n = 0 then text gs else text (take start gs) @ ''::'' @ text (drop (start + n) gs)))"

definition local_ip_set :: "string list \<Rightarrow> ip list" where
  "local_ip_set addresses = List.map_filter local_address addresses"

section \<open>The owner of a listening port\<close>

text \<open>\<open>Inl\<close> is the error text of the listen call, \<open>Inr\<close> the error of the close.\<close>

definition tcp_port_available :: "string + string option \<Rightarrow> gerror + bool" where
  "tcp_port_available listen =
     (case listen of
        Inl e \<Rightarrow> if str_contains (to_lower e) ''address already in use'' then Inr False else Inl (Errorf e)
      | Inr None \<Rightarrow> Inr True
      | Inr (Some e) \<Rightarrow> Inl (Errorf e))"

definition socket_line_matches :: "string \<Rightarrow> string \<Rightarrow> int \<Rightarrow> bool" where
  "socket_line_matches line address port =
     (let fields = str_fields line in
      if length fields < 4 then False
      else (case last_cut (fields ! 3) of
          None \<Rightarrow> False
        | Some (front, tail) \<Rightarrow>
            if tail \<noteq> itoa port then False
            else (let host = trim_chars ''[]'' front in
              if host = ''*'' \<or> host = ''0.0.0.0'' \<or> host = ''::'' then True
              else parse_ip host \<noteq> None \<and> parse_ip host = parse_ip (trim_chars ''[]'' address))))"

definition filter_socket_data :: "string \<Rightarrow> string \<Rightarrow> int \<Rightarrow> string" where
  "filter_socket_data output address port =
     join_with [CHR 0x0A] (filter (\<lambda>l. socket_line_matches l address port) (split_char CHR 0x0A output))"

text \<open>
  The pattern \<^verbatim>\<open>(?:^|[/\s])docker-([[:xdigit:]]{12,64})\.scope(?:\s|$)\<close>, all matches from left
  to right; a match consumes the border after it. \<open>scope_body\<close> reads from \<^verbatim>\<open>docker-\<close> on.
\<close>

definition re_space :: "char \<Rightarrow> bool" where
  "re_space c \<longleftrightarrow> (of_char c :: nat) \<in> {9, 10, 12, 13, 32}"

definition scope_body :: "string \<Rightarrow> (string \<times> string) option" where
  "scope_body s =
     (if \<not> has_prefix s ''docker-'' then None
      else (let run = takeWhile is_hex (drop 7 s); r = dropWhile is_hex (drop 7 s) in
        if 12 \<le> length run \<and> length run \<le> 64 \<and> has_prefix r ''.scope'' \<and>
           (drop 6 r = [] \<or> re_space (hd (drop 6 r)))
        then Some (run, drop 7 r) else None))"

lemma scope_body_shorter: "scope_body s = Some (i, r) \<Longrightarrow> length r < length s"
proof -
  assume m: "scope_body s = Some (i, r)"
  then have "has_prefix s ''docker-''" and r: "r = drop 7 (dropWhile is_hex (drop 7 s))"
    by (simp_all add: scope_body_def Let_def split: if_splits)
  then have "7 \<le> length s" by (auto simp: has_prefix_iff)
  then show ?thesis using r length_dropWhile_le [of is_hex "drop 7 s"] by simp
qed

function scope_ids :: "bool \<Rightarrow> string \<Rightarrow> string list" where
  "scope_ids start s =
     (case (if start then scope_body s else None) of
        Some (i, r) \<Rightarrow> i # scope_ids False r
      | None \<Rightarrow>
          (case s of
             [] \<Rightarrow> []
           | c # t \<Rightarrow>
               (case (if c = CHR ''/'' \<or> re_space c then scope_body t else None) of
                  Some (i, r) \<Rightarrow> i # scope_ids False r
                | None \<Rightarrow> scope_ids False t)))"
  by pat_completeness auto
termination
  by (relation "measure (length \<circ> snd)")
     (auto split: if_splits dest!: scope_body_shorter)

declare scope_ids.simps [simp del]

text \<open>The pattern \<^verbatim>\<open>pid=(\d+)\<close>.\<close>

function pid_texts :: "string \<Rightarrow> string list" where
  "pid_texts s =
     (if has_prefix s ''pid='' \<and> takeWhile is_digit (drop 4 s) \<noteq> []
      then takeWhile is_digit (drop 4 s) # pid_texts (dropWhile is_digit (drop 4 s))
      else (case s of [] \<Rightarrow> [] | _ # t \<Rightarrow> pid_texts t))"
  by pat_completeness auto
termination
proof (relation "measure length", goal_cases)
  case (2 s)
  then have "4 \<le> length s" by (auto simp: has_prefix_iff)
  then show ?case using length_dropWhile_le [of is_digit "drop 4 s"] by simp
qed auto

declare pid_texts.simps [simp del]

definition docker_prefix_unambiguous :: "(string \<Rightarrow> gerror + string) \<Rightarrow> string \<Rightarrow> string \<Rightarrow> gerror + bool" where
  "docker_prefix_unambiguous ps prefix exact =
     (if length prefix < 12 \<or> \<not> has_prefix exact prefix then Inr False
      else (case ps prefix of
          Inl e \<Rightarrow> Inl e
        | Inr out \<Rightarrow> Inr (str_fields (to_lower out) = [exact])))"

fun scope_owned :: "(string \<Rightarrow> string \<Rightarrow> gerror + bool) \<Rightarrow> string \<Rightarrow> string list \<Rightarrow> gerror + bool" where
  "scope_owned unambiguous exact [] = Inr False"
| "scope_owned unambiguous exact (m # ms) =
     (let candidate = to_lower m in
      if candidate = exact then Inr True
      else if length candidate < 12 \<or> \<not> has_prefix exact candidate then scope_owned unambiguous exact ms
      else (case unambiguous candidate exact of
          Inl e \<Rightarrow> Inl e
        | Inr True \<Rightarrow> Inr True
        | Inr False \<Rightarrow> scope_owned unambiguous exact ms))"

definition socket_cgroup_owned ::
  "(string \<Rightarrow> string \<Rightarrow> gerror + bool) \<Rightarrow> string \<Rightarrow> string \<Rightarrow> gerror + bool" where
  "socket_cgroup_owned unambiguous output exact =
     scope_owned unambiguous (to_lower (trim_space exact)) (scope_ids True output)"

definition socket_pid_owned :: "string \<Rightarrow> string list \<Rightarrow> bool" where
  "socket_pid_owned output pids = list_ex (\<lambda>p. p \<in> set pids) (pid_texts output)"

definition inspect_exact_id :: "gerror + string \<Rightarrow> gerror + string" where
  "inspect_exact_id answer =
     (case answer of
        Inl e \<Rightarrow> Inl e
      | Inr out \<Rightarrow>
          (let exact = to_lower (trim_space out) in
           if docker_id_ok exact then Inr exact
           else Inl (Errorf ''docker inspect returned invalid container identity'')))"

definition process_pids :: "string \<Rightarrow> string list" where
  "process_pids listing =
     (let fields = str_fields listing;
          rest = (case fields of [] \<Rightarrow> [] | f # fs \<Rightarrow> if equal_fold f ''pid'' then fs else f # fs)
      in filter (\<lambda>f. atoi f \<noteq> None) rest)"

text \<open>The commands behind the ownership check, by container or by prefix or by port.\<close>

record port_owner_env =
  po_inspect :: "string \<Rightarrow> gerror + string"
  po_top :: "string \<Rightarrow> gerror + string"
  po_sockets :: "int \<Rightarrow> gerror + string"
  po_prefix :: "string \<Rightarrow> gerror + string"

definition container_owns_port :: "port_owner_env \<Rightarrow> string \<Rightarrow> string \<Rightarrow> int \<Rightarrow> gerror + bool" where
  "container_owns_port env container address port =
     (case inspect_exact_id (po_inspect env container) of
        Inl e \<Rightarrow> Inl (Wrapf ''inspect observed container identity: '' e [])
      | Inr exact \<Rightarrow>
          (case po_sockets env port of
             Inl e \<Rightarrow> Inl (Wrapf ''inspect listening port owner: '' e [])
           | Inr out \<Rightarrow>
               (let output = filter_socket_data out address port in
                case socket_cgroup_owned (docker_prefix_unambiguous (po_prefix env)) output exact of
                  Inl e \<Rightarrow> Inl e
                | Inr True \<Rightarrow> Inr True
                | Inr False \<Rightarrow>
                    (case po_top env exact of
                       Inl e \<Rightarrow> Inl (Wrapf ''inspect observed container processes: '' e [])
                     | Inr listing \<Rightarrow> Inr (socket_pid_owned output (process_pids listing))))))"

section \<open>The preflight\<close>

type_synonym problem = "int \<times> string \<times> gerror"

definition bad_request :: "string \<Rightarrow> problem option" where
  "bad_request message = Some (400, ''invalid_preflight'', Errorf message)"

definition preflight_conflict :: "gerror \<Rightarrow> problem option" where
  "preflight_conflict e = Some (409, ''preflight_conflict'', e)"

definition unavailable :: "string \<Rightarrow> gerror \<Rightarrow> problem option" where
  "unavailable code e = Some (503, code, e)"

text \<open>
  \<open>pd_stat\<close> says of an existing path whether it is a directory; \<open>pd_admission\<close> is the error of
  waiting for the Qwen3.8 lock.
\<close>

record 'm preflight_deps =
  pd_addrs :: "gerror + string list"
  pd_stat :: "string \<Rightarrow> bool option"
  pd_open :: "string \<Rightarrow> bool"
  pd_containers :: "gerror + 'm inv_container list"
  pd_port :: "string \<Rightarrow> int \<Rightarrow> gerror + bool"
  pd_owns :: "string \<Rightarrow> string \<Rightarrow> int \<Rightarrow> gerror + bool"
  pd_fabric :: "string \<Rightarrow> string \<Rightarrow> int \<Rightarrow> string \<Rightarrow> gerror option"
  pd_snapshot :: "string \<Rightarrow> string \<Rightarrow> gerror option"
  pd_tenants :: "gerror + tenant list"
  pd_admission :: "gerror option"

definition is_qwen_preflight :: "preflight_payload \<Rightarrow> bool" where
  "is_qwen_preflight q \<longleftrightarrow> pp_bkc_id q = qwen38_dual_id"

definition valid_port :: "int \<Rightarrow> bool" where
  "valid_port p \<longleftrightarrow> 1 \<le> p \<and> p \<le> 65535"

definition check_shape :: "preflight_payload \<Rightarrow> problem option" where
  "check_shape q =
     (if trim_space (pp_fabric_address q) = [] \<or> trim_space (pp_candidate q) = []
        then bad_request ''fabric_address and candidate_name are required''
      else if is_qwen_preflight q \<and> \<not> pp_require_fabric q
        then bad_request ''pinned Qwen3.8 deployment requires exact fabric configuration''
      else if \<not> valid_port (pp_service_port q) \<or> \<not> valid_port (pp_rendezvous_port q)
        then bad_request ''service_port and rendezvous_port must be valid ports''
      else if pp_head q \<and> trim_space (pp_service_address q) = []
        then bad_request ''head preflight requires service_address''
      else if \<not> pp_head q \<and> pp_service_address q \<noteq> []
        then bad_request ''worker preflight must not define service_address''
      else None)"

definition requested_addresses :: "preflight_payload \<Rightarrow> string list" where
  "requested_addresses q = pp_fabric_address q # (if pp_head q then [pp_service_address q] else [])"

fun check_local :: "ip list \<Rightarrow> string list \<Rightarrow> problem option" where
  "check_local ips [] = None"
| "check_local ips (a # as) =
     (case parse_ip (trim_space a) of
        None \<Rightarrow> bad_request (''invalid requested address '' @ go_quote a)
      | Some i \<Rightarrow>
          if i \<notin> set ips
          then preflight_conflict (Errorf (''requested address '' @ ip_text i @ '' does not exist locally''))
          else check_local ips as)"

definition check_fabric :: "'m preflight_deps \<Rightarrow> preflight_payload \<Rightarrow> problem option" where
  "check_fabric d q =
     (if \<not> pp_require_fabric q then None
      else (case pp_fabric_gid q of
          None \<Rightarrow> bad_request ''fabric_interface, fabric_hca, and a valid fabric_gid_index are required''
        | Some gid \<Rightarrow>
            if pp_fabric_interface q = [] \<or> pp_fabric_hca q = [] \<or> gid < 0 \<or> gid > 255
            then bad_request ''fabric_interface, fabric_hca, and a valid fabric_gid_index are required''
            else (case pd_fabric d (pp_fabric_interface q) (pp_fabric_hca q) gid (pp_fabric_address q) of
                None \<Rightarrow> None | Some e \<Rightarrow> preflight_conflict e)))"

definition check_model_path :: "'m preflight_deps \<Rightarrow> preflight_payload \<Rightarrow> problem option" where
  "check_model_path d q =
     (if pp_model_path q = [] then None
      else if pd_stat d (pp_model_path q) \<noteq> Some True
        then preflight_conflict (Errorf ''local model path is not an existing directory'')
      else if \<not> pd_open d (pp_model_path q)
        then preflight_conflict (Errorf ''local model directory is not readable'')
      else None)"

definition check_snapshot :: "'m preflight_deps \<Rightarrow> preflight_payload \<Rightarrow> problem option" where
  "check_snapshot d q =
     (if \<not> is_qwen_preflight q then None
      else if pp_model_path q = [] \<or> pp_model_revision q \<noteq> qwen38_revision
        then bad_request ''pinned Qwen3.8 deployment requires its exact local snapshot revision''
      else (case pd_snapshot d (pp_model_path q) (pp_model_revision q) of
          None \<Rightarrow> None | Some e \<Rightarrow> preflight_conflict e))"

definition check_tenants ::
  "'m preflight_deps \<Rightarrow> preflight_payload \<Rightarrow> 'm inv_container list \<Rightarrow> problem option" where
  "check_tenants d q cs =
     (if \<not> is_qwen_preflight q then None
      else (case pd_admission d of
          Some e \<Rightarrow> unavailable ''gpu_admission_unavailable'' (Wrapf ''wait for Qwen3.8 GPU admission: '' e [])
        | None \<Rightarrow>
            (case pd_tenants d of
               Inl e \<Rightarrow> unavailable ''gpu_inventory_unavailable'' (Wrapf ''inspect active GPU compute tenants: '' e [])
             | Inr ts \<Rightarrow>
                 (case validate_no_tenants (pp_observed q) cs ts of
                    None \<Rightarrow> None | Some e \<Rightarrow> preflight_conflict e))))"

text \<open>A port that is free, or held by the container the request names; \<open>what\<close> is its name in messages.\<close>

definition check_port :: "'m preflight_deps \<Rightarrow> string \<Rightarrow> string \<Rightarrow> string \<Rightarrow> int \<Rightarrow> problem option" where
  "check_port d observed what address port =
     (case pd_port d address port of
        Inl e \<Rightarrow> unavailable ''port_check_unavailable'' e
      | Inr True \<Rightarrow> None
      | Inr False \<Rightarrow>
          if observed = [] then preflight_conflict (Errorf (what @ '' port '' @ itoa port @ '' is occupied''))
          else (case pd_owns d observed address port of
              Inl e \<Rightarrow> unavailable ''port_owner_unavailable'' e
            | Inr True \<Rightarrow> None
            | Inr False \<Rightarrow> preflight_conflict (Errorf (what @ '' port '' @ itoa port @
                '' is not owned by the explicitly observed container''))))"

definition validate_preflight :: "'m preflight_deps \<Rightarrow> preflight_payload \<Rightarrow> problem option" where
  "validate_preflight d q =
     (case check_shape q of Some p \<Rightarrow> Some p | None \<Rightarrow>
     (case pd_addrs d of
        Inl e \<Rightarrow> unavailable ''address_inventory_unavailable'' e
      | Inr addresses \<Rightarrow>
     (case check_local (local_ip_set addresses) (requested_addresses q) of Some p \<Rightarrow> Some p | None \<Rightarrow>
     (case check_fabric d q of Some p \<Rightarrow> Some p | None \<Rightarrow>
     (case check_model_path d q of Some p \<Rightarrow> Some p | None \<Rightarrow>
     (case check_snapshot d q of Some p \<Rightarrow> Some p | None \<Rightarrow>
     (case pd_containers d of
        Inl e \<Rightarrow> unavailable ''container_inventory_unavailable'' e
      | Inr cs \<Rightarrow>
          if list_ex (\<lambda>c. ic_name c = pp_candidate q) cs
          then preflight_conflict (Errorf ''deterministic candidate name already exists'')
          else
     (case check_tenants d q cs of Some p \<Rightarrow> Some p | None \<Rightarrow>
     (case (if pp_head q then check_port d (pp_observed q) ''service'' (pp_service_address q) (pp_service_port q)
            else None) of
        Some p \<Rightarrow> Some p
      | None \<Rightarrow>
          check_port d (pp_observed q) ''rendezvous'' (pp_fabric_address q) (pp_rendezvous_port q))))))))))"

text \<open>
  The handler: \<open>decoded\<close> is the request or the text of the decoder's error; the reply is the
  status, with the code and message of an error.
\<close>

definition preflight_handler ::
  "bool \<Rightarrow> 'm preflight_deps \<Rightarrow> string + preflight_payload \<Rightarrow> int \<times> (string \<times> string) option" where
  "preflight_handler authorization_available d decoded =
     (case decoded of
        Inl message \<Rightarrow> (400, Some (''invalid_preflight'', message))
      | Inr q \<Rightarrow>
          if is_qwen_preflight q \<and> \<not> authorization_available
          then (503, Some (''coordinator_authorization_unavailable'',
                 ''coordinator launch authorization is not configured''))
          else (case validate_preflight d q of
              None \<Rightarrow> (200, None)
            | Some (status, code, e) \<Rightarrow> (status, Some (code, err_text e))))"

section \<open>The live host\<close>

text \<open>What the kernel, Docker and the GPU driver of a host answer.\<close>

record 'm host_env =
  ho_addrs :: "gerror + string list"
  ho_stat :: "string \<Rightarrow> bool option"
  ho_open :: "string \<Rightarrow> bool"
  ho_inventory :: "'m inventory_env"
  ho_listen :: "string \<Rightarrow> int \<Rightarrow> string + string option"
  ho_ports :: port_owner_env
  ho_fabric :: fabric_files
  ho_index :: "string \<Rightarrow> gomap option"
  ho_files :: snapshot_fs
  ho_smi :: "cmd_error + string list"
  ho_cgroup :: "int \<Rightarrow> gerror + string"
  ho_lock :: "gerror option"

definition live_deps :: "'m host_env \<Rightarrow> 'm preflight_deps" where
  "live_deps h =
     \<lparr>pd_addrs = ho_addrs h, pd_stat = ho_stat h, pd_open = ho_open h,
      pd_containers = list_containers (ho_inventory h) ''all'',
      pd_port = (\<lambda>address port. tcp_port_available (ho_listen h address port)),
      pd_owns = container_owns_port (ho_ports h), pd_fabric = validate_fabric_binding (ho_fabric h),
      pd_snapshot = validate_pinned_snapshot (ho_index h) (ho_files h),
      pd_tenants = inspect_gpu_tenants (ho_smi h) (ho_cgroup h), pd_admission = ho_lock h\<rparr>"

end
