(* ===== verification/Agent_Snapshot_Properties.thy ===== *)
theory Agent_Snapshot_Properties
  imports Agent_Snapshot Docker_Properties
begin

text \<open>
  What the check of the pinned snapshot decides: exactly the directories that hold the pinned
  objects and nothing else. And the account of a release of the page cache.
\<close>

section \<open>Relative paths\<close>

lemma names_only_cleaned: "names_only xs \<Longrightarrow> cleaned xs"
  by (cases xs) auto

lemma cleaned_append: "cleaned (xs @ ys) \<Longrightarrow> cleaned ys"
  by (induction xs) (auto split: if_splits simp: names_only_append intro: names_only_cleaned)

lemma without_char:
  assumes "c \<notin> set x"
  shows "takeWhile (\<lambda>d. d \<noteq> c) x = x" and "dropWhile (\<lambda>d. d \<noteq> c) x = []"
    and "dropWhile (\<lambda>d. d \<noteq> c) (x @ c # y) = c # y"
  using assms by (induction x) auto

lemma names_only_butlast: "names_only xs \<Longrightarrow> names_only (butlast xs)"
  by (auto simp: names_only_iff dest: in_set_butlastD)

lemma cleaned_butlast: "cleaned xs \<Longrightarrow> cleaned (butlast xs)"
  by (induction xs) (auto split: if_splits dest: names_only_butlast)

lemma cleaned_ups: "cleaned (replicate n ''..'' @ xs) = cleaned xs"
  by (induction n) auto

lemma foldl_ups: "foldl (clean_step False) (replicate m ''..'') (replicate n ''..'') = replicate (m + n) ''..''"
proof (induction n arbitrary: m)
  case (Suc n)
  have "clean_step False (replicate m ''..'') ''..'' = replicate (Suc m) ''..''"
    by (cases m) (simp_all add: clean_step_def replicate_append_same)
  with Suc.IH [of "Suc m"] show ?case by simp
qed simp

lemma foldl_cleaned: "cleaned xs \<Longrightarrow> foldl (clean_step False) [] xs = xs"
  unfolding cleaned_iff using foldl_ups [of 0] by (auto simp: clean_names)

lemma single_of_dir:
  assumes zs: "zs \<noteq> []" "\<forall>z \<in> set zs. z \<noteq> [] \<and> slash \<notin> set z" "cleaned (butlast zs)"
    and dir: "path_dir (join_with ''/'' zs) = ''.''"
  shows "\<exists>x. zs = [x]"
proof (rule ccontr)
  assume "\<nexists>x. zs = [x]"
  with zs(1) obtain xs x where z: "zs = xs @ [x]" and xs: "xs \<noteq> []" by (cases zs rule: rev_cases) auto
  let ?p = "join_with ''/'' (xs @ [[]])"
  have j: "join_with ''/'' zs = join_with ''/'' xs @ slash # x" and p: "?p = join_with ''/'' xs @ ''/''"
    using join_with_append [OF xs, of _ "''/''"] by (simp_all add: z)
  have x: "slash \<notin> set x" using zs(2) z by simp
  have "rev (dropWhile (\<lambda>c. c \<noteq> slash) (rev (join_with ''/'' zs))) = ?p"
    using x unfolding j p by (simp add: without_char(3))
  then have d: "path_dir (join_with ''/'' zs) = path_clean ?p" by (simp add: path_dir_def)
  have "split_char slash ?p = xs @ [[]]"
    by (rule split_join) (use zs(2) z in auto)
  moreover obtain y ys where y: "xs = y # ys" "y \<noteq> []" "slash \<notin> set y"
    using xs zs(2) z by (cases xs) auto
  moreover have "\<not> path_is_abs ?p"
    using y by (cases y; cases ys) (auto simp: path_is_abs_def has_prefix_def)
  ultimately have seg: "clean_segments ?p = xs" and rel: "\<not> path_is_abs ?p"
    using foldl_cleaned [of xs] zs(3) z by (simp_all add: clean_segments_def clean_step_def)
  have "split_char slash (path_clean ?p) = xs"
    using path_clean_segments [OF _ rel] seg xs by simp
  then have "split_char slash ''.'' = xs" using d dir by simp
  then have "xs = [''.'']" by simp
  with zs(3) z show False by simp
qed

lemma rel_walk_Some:
  "rel_walk bs ts = Some r \<Longrightarrow>
   \<exists>pre bs' ts'. bs = pre @ bs' \<and> ts = pre @ ts' \<and> r = join_with ''/'' (replicate (length bs') ''..'' @ ts')"
proof (induction bs ts rule: rel_walk.induct)
  case (1 ts)
  then show ?case by auto
next
  case (2 b bs)
  show ?case by (rule exI [of _ "[]"], rule exI [of _ "b # bs"], rule exI [of _ "[]"]) (use 2 in auto)
next
  case (3 b bs t ts)
  show ?case
  proof (cases "b = t")
    case True
    with 3 obtain pre bs' ts' where "bs = pre @ bs'" "ts = pre @ ts'"
      "r = join_with ''/'' (replicate (length bs') ''..'' @ ts')" by auto
    with True show ?thesis by (intro exI [of _ "b # pre"] exI [of _ bs'] exI [of _ ts']) simp
  next
    case False
    with 3(2) show ?thesis
      by (intro exI [of _ "[]"] exI [of _ "b # bs"] exI [of _ "t # ts"]) (auto split: if_splits)
  qed
qed

lemma rel_walk_below: "rel_walk bs (bs @ [t]) = Some t"
  by (induction bs) auto

lemma path_base_single: "x \<noteq> [] \<Longrightarrow> slash \<notin> set x \<Longrightarrow> path_base x = x"
proof -
  assume x: "x \<noteq> []" "slash \<notin> set x"
  then have "dropWhile (\<lambda>c. c = slash) (rev x) = rev x" by (cases "rev x") auto
  then have "strip_slashes x = x" by (simp add: strip_slashes_def)
  then show ?thesis using x by (simp add: path_base_def without_char(1))
qed

lemma path_dir_single: "slash \<notin> set x \<Longrightarrow> path_dir x = ''.''"
  by (simp add: path_dir_def without_char(2) path_clean_def clean_segments_def path_is_abs_def has_prefix_def
    clean_step_def)

lemma path_is_abs_clean: "path_is_abs (path_clean p) = path_is_abs p"
proof (cases "path_is_abs p \<or> clean_segments p = []")
  case True
  then show ?thesis by (auto simp: path_clean_def path_is_abs_def has_prefix_def Let_def)
next
  case False
  then obtain s ss where s: "clean_segments p = s # ss" by (cases "clean_segments p") auto
  then have "s \<noteq> []" "slash \<notin> set s"
    using clean_segments_nonempty [of s p] clean_segments_no_slash [of s p] by simp_all
  with s False show ?thesis
    by (cases s; cases ss) (auto simp: path_clean_def path_is_abs_def has_prefix_def Let_def)
qed

text \<open>A name a cache gives to an object: a digest, one proper segment.\<close>

definition blob_name :: "string \<Rightarrow> bool" where
  "blob_name b \<longleftrightarrow> (length b = 40 \<or> length b = 64) \<and> slash \<notin> set b"

lemma blob_name_facts: "blob_name b \<Longrightarrow> b \<noteq> [] \<and> b \<noteq> ''.'' \<and> b \<noteq> ''..'' \<and> slash \<notin> set b"
  by (auto simp: blob_name_def)

lemma rel_segments_cases:
  "(path_clean t = ''.'' \<and> rel_segments t = [''.'']) \<or> rel_segments t = clean_segments t"
  by (simp add: rel_segments_def)

lemma rel_segments_nonempty: "z \<in> set (rel_segments t) \<Longrightarrow> z \<noteq> [] \<and> slash \<notin> set z"
  using rel_segments_cases [of t] clean_segments_nonempty [of z t] clean_segments_no_slash [of z t] by auto

lemma rel_segments_butlast: "rel_segments t = pre @ xs \<Longrightarrow> cleaned (butlast xs)"
proof -
  assume e: "rel_segments t = pre @ xs"
  show ?thesis
  proof (cases "rel_segments t = clean_segments t")
    case True
    with e clean_segments_cleaned [of t] have "cleaned (pre @ xs)" by simp
    then show ?thesis by (rule cleaned_butlast [OF cleaned_append])
  next
    case False
    with e rel_segments_cases [of t] have "pre @ xs = [''.'']" by auto
    then show ?thesis by (auto simp: append_eq_Cons_conv)
  qed
qed

lemma rel_blob_below:
  assumes b: "blob_name b" and r: "path_rel base t = Some r" and dir: "path_dir r = ''.''" and base: "path_base r = b"
  shows "path_is_abs base = path_is_abs t \<and> clean_segments t = clean_segments base @ [b]"
proof -
  note facts = blob_name_facts [OF b]
  have "r \<noteq> ''.''" "r \<noteq> []" using base facts by (auto simp: path_base_def strip_slashes_def)
  with r have ne: "path_is_abs base = path_is_abs t"
    and walk: "rel_walk (clean_segments base) (rel_segments t) = Some r"
    by (auto simp: path_rel_def path_is_abs_clean split: if_splits)
  from rel_walk_Some [OF walk] obtain pre bs ts where
    w: "clean_segments base = pre @ bs" "rel_segments t = pre @ ts"
      "r = join_with ''/'' (replicate (length bs) ''..'' @ ts)" by blast
  let ?zs = "replicate (length bs) ''..'' @ ts"
  have "cleaned (butlast ?zs)"
    using rel_segments_butlast [OF w(2)] cleaned_butlast [of "replicate (length bs) ''..''"] cleaned_ups [of "length bs" "[]"]
    by (cases "ts = []") (auto simp: butlast_append cleaned_ups)
  moreover have "\<forall>z \<in> set ?zs. z \<noteq> [] \<and> slash \<notin> set z"
    using rel_segments_nonempty [of _ t] w(2) by auto
  moreover have "?zs \<noteq> []" using \<open>r \<noteq> []\<close> w(3) by auto
  ultimately obtain x where x: "?zs = [x]"
    using single_of_dir [of ?zs] dir w(3) by blast
  then have "x = r" using w(3) by simp
  moreover have "path_base x = x"
    using x rel_segments_nonempty [of _ t] w(2) by (intro path_base_single) (cases bs; auto)+
  ultimately have "x = b" using base by simp
  with x facts have "bs = []" "ts = [b]" by (cases bs; auto)+
  with w have "rel_segments t = clean_segments base @ [b]" by simp
  moreover from this facts have "rel_segments t = clean_segments t"
    using rel_segments_cases [of t] by (auto simp: Cons_eq_append_conv)
  ultimately show ?thesis using ne by simp
qed

lemma join_with_Nil: "join_with ''/'' zs = [] \<Longrightarrow> (\<And>z. z \<in> set zs \<Longrightarrow> z \<noteq> []) \<Longrightarrow> zs = []"
  by (cases zs; cases "tl zs") auto

lemma below_rel_blob:
  assumes b: "blob_name b" and abs: "path_is_abs base = path_is_abs t"
    and seg: "clean_segments t = clean_segments base @ [b]"
  shows "path_rel base t = Some b" and "path_dir b = ''.''" and "path_base b = b"
proof -
  note facts = blob_name_facts [OF b]
  have "path_clean base \<noteq> path_clean t"
  proof
    assume e: "path_clean base = path_clean t"
    have "join_with ''/'' (clean_segments base) \<noteq> join_with ''/'' (clean_segments base @ [b])"
      using facts join_with_append [of "clean_segments base" "[b]" "''/''"]
      by (cases "clean_segments base = []") auto
    moreover have "join_with ''/'' (clean_segments base) = [] \<Longrightarrow> clean_segments base = []"
      using clean_segments_nonempty [of _ base] by (intro join_with_Nil) auto
    moreover have "join_with ''/'' (clean_segments base @ [b]) \<noteq> []"
      using join_with_Nil [of "clean_segments base @ [b]"] clean_segments_nonempty [of _ base] facts by auto
    ultimately show False
      using e abs seg facts by (auto simp: path_clean_def Let_def split: if_splits)
  qed
  moreover have "rel_segments t = clean_segments t"
  proof (rule ccontr)
    assume "rel_segments t \<noteq> clean_segments t"
    then have dot: "path_clean t = ''.''" using rel_segments_cases by blast
    then have "\<not> path_is_abs t" by (auto simp: path_clean_def)
    from path_clean_segments [OF _ this] seg dot have "clean_segments base @ [b] = [''.'']" by simp
    with facts show False by (simp add: Cons_eq_append_conv append_eq_Cons_conv)
  qed
  ultimately show "path_rel base t = Some b"
    using abs seg by (simp add: path_rel_def path_is_abs_clean rel_walk_below)
  show "path_dir b = ''.''" "path_base b = b" using facts by (simp_all add: path_dir_single path_base_single)
qed

section \<open>What the check of a snapshot decides\<close>

text \<open>
  An object of the snapshot is a symbolic link to the regular file of the blob directory that has
  the pinned digest for a name, the pinned size and a content of that digest.
\<close>

definition object_pinned :: "snapshot_fs \<Rightarrow> string \<Rightarrow> string \<Rightarrow> string \<times> snapshot_object \<Rightarrow> bool" where
  "object_pinned fs snapshot home entry \<longleftrightarrow>
     (\<exists>link resolved target data.
        fs_lstat fs (path_join [snapshot, fst entry]) = Some link \<and> fi_type link = SymbolicLink \<and>
        fs_link fs (path_join [snapshot, fst entry]) = Inr resolved \<and>
        path_is_abs (path_join [home, ''blobs'']) = path_is_abs resolved \<and>
        clean_segments resolved = clean_segments (path_join [home, ''blobs'']) @ [ob_blob (snd entry)] \<and>
        fs_lstat fs resolved = Some target \<and> fi_type target = RegularFile \<and> fi_size target = ob_size (snd entry) \<and>
        fs_read fs resolved = Inr data \<and> object_digest (snd entry) data = Some (ob_blob (snd entry)))"

lemma resolve_object_Inr:
  assumes "blob_name (ob_blob (snd entry))"
  shows "resolve_object fs snapshot home entry = Inr resolved \<longleftrightarrow>
    (\<exists>link target. fs_lstat fs (path_join [snapshot, fst entry]) = Some link \<and> fi_type link = SymbolicLink \<and>
       fs_link fs (path_join [snapshot, fst entry]) = Inr resolved \<and>
       path_is_abs (path_join [home, ''blobs'']) = path_is_abs resolved \<and>
       clean_segments resolved = clean_segments (path_join [home, ''blobs'']) @ [ob_blob (snd entry)] \<and>
       fs_lstat fs resolved = Some target \<and> fi_type target = RegularFile \<and> fi_size target = ob_size (snd entry))"
    (is "?L \<longleftrightarrow> ?R")
proof
  assume ?L
  then obtain link target rel where
    l: "fs_lstat fs (path_join [snapshot, fst entry]) = Some link" "fi_type link = SymbolicLink"
      "fs_link fs (path_join [snapshot, fst entry]) = Inr resolved"
      "path_rel (path_join [home, ''blobs'']) resolved = Some rel" "path_dir rel = ''.''"
      "path_base rel = ob_blob (snd entry)"
      "fs_lstat fs resolved = Some target" "fi_type target = RegularFile" "fi_size target = ob_size (snd entry)"
    by (auto simp: resolve_object_def Let_def split: option.splits sum.splits if_splits)
  with rel_blob_below [OF assms l(4-6)] show ?R by blast
next
  assume ?R
  then obtain link target where
    l: "fs_lstat fs (path_join [snapshot, fst entry]) = Some link" "fi_type link = SymbolicLink"
      "fs_link fs (path_join [snapshot, fst entry]) = Inr resolved"
      "path_is_abs (path_join [home, ''blobs'']) = path_is_abs resolved"
      "clean_segments resolved = clean_segments (path_join [home, ''blobs'']) @ [ob_blob (snd entry)]"
      "fs_lstat fs resolved = Some target" "fi_type target = RegularFile" "fi_size target = ob_size (snd entry)"
    by blast
  with below_rel_blob [OF assms l(4,5)] show ?L by (simp add: resolve_object_def)
qed

lemma validate_object_None:
  assumes "blob_name (ob_blob (snd entry))"
  shows "validate_object fs snapshot home entry = None \<longleftrightarrow> object_pinned fs snapshot home entry"
proof -
  have "length (ob_blob (snd entry)) = 40 \<or> length (ob_blob (snd entry)) = 64"
    using assms by (simp add: blob_name_def)
  then have "verify_object_file c (snd entry) = None \<longleftrightarrow>
      (\<exists>data. c = Inr data \<and> object_digest (snd entry) data = Some (ob_blob (snd entry)))" for c
    by (auto simp: verify_object_file_def split: sum.splits)
  then have "validate_object fs snapshot home entry = None \<longleftrightarrow>
      (\<exists>resolved data. resolve_object fs snapshot home entry = Inr resolved \<and>
         fs_read fs resolved = Inr data \<and> object_digest (snd entry) data = Some (ob_blob (snd entry)))"
    by (auto simp: validate_object_def split: sum.splits)
  then show ?thesis unfolding resolve_object_Inr [OF assms] object_pinned_def by blast
qed

lemma objects_blob_names: "list_all (\<lambda>entry. blob_name (ob_blob (snd entry))) qwen38_objects"
  by (simp add: qwen38_objects_def blob_name_def)

definition weight_files :: "string list" where
  "weight_files = filter weight_name (map fst qwen38_objects)"

lemma has_suffix_iff: "has_suffix s p \<longleftrightarrow> (\<exists>a. s = a @ p)"
proof -
  have "rev s = rev p @ t \<longleftrightarrow> s = rev t @ p" for t
    using rev_is_rev_conv [of s "rev t @ p"] by simp
  then show ?thesis unfolding has_suffix_def has_prefix_iff by (metis rev_rev_ident)
qed

lemma has_suffix_steps: "has_suffix [] (d # p) = False" "has_suffix (c # s) p = (c # s = p \<or> has_suffix s p)"
  by (auto simp: has_suffix_iff Cons_eq_append_conv)

lemma weight_files_eq:
  "weight_files =
     [''model-00001-of-00010.safetensors'',
      ''model-00002-of-00010.safetensors'',
      ''model-00003-of-00010.safetensors'',
      ''model-00004-of-00010.safetensors'',
      ''model-00005-of-00010.safetensors'',
      ''model-00006-of-00010.safetensors'',
      ''model-00007-of-00010.safetensors'',
      ''model-00008-of-00010.safetensors'',
      ''model-00009-of-00010.safetensors'',
      ''model-00010-of-00010.safetensors'',
      ''model-fp8-mtp-ple.safetensors'']"
  by (simp add: weight_files_def qwen38_objects_def weight_name_def has_suffix_steps)

text \<open>Two characters tell the weights apart.\<close>

lemma weight_files_distinct: "distinct weight_files"
proof -
  have "map (\<lambda>f. take 2 (drop 9 f)) weight_files =
    [''01'', ''02'', ''03'', ''04'', ''05'', ''06'', ''07'', ''08'', ''09'', ''10'', ''-m'']"
    by (simp add: weight_files_eq)
  then have "distinct (map (\<lambda>f. take 2 (drop 9 f)) weight_files)" by simp
  then show ?thesis using distinct_map by blast
qed

lemma names_only_plain:
  assumes "names_only (split_char slash f)" and "f \<noteq> []"
  shows "path_clean f = f" and "\<not> path_is_abs f"
proof -
  show abs: "\<not> path_is_abs f"
    using assms by (cases f) (auto simp: path_is_abs_def has_prefix_def)
  have "clean_segments f = split_char slash f"
    using clean_names [OF assms(1), of False "[]"] abs by (simp add: clean_segments_def)
  then show "path_clean f = f" using abs assms(2) by (simp add: path_clean_def join_split_char)
qed

lemma weight_file_safe: "f \<in> set weight_files \<Longrightarrow> \<not> unsafe_relative f \<and> path_clean f = f"
proof -
  assume f: "f \<in> set weight_files"
  have "\<forall>f \<in> set weight_files. names_only (split_char slash f) \<and> f \<noteq> [] \<and> f \<noteq> ''..'' \<and> \<not> has_prefix f ''../''"
    by (simp add: weight_files_eq has_prefix_def)
  with f names_only_plain [of f] show ?thesis by (auto simp: unsafe_relative_def)
qed

lemma weight_file_iff: "f \<in> set weight_files \<longleftrightarrow> map_of qwen38_objects f \<noteq> None \<and> weight_name f"
  by (auto simp: weight_files_def map_of_eq_None_iff)

lemma scan_known:
  "set rs \<subseteq> set weight_files \<Longrightarrow> distinct seen \<Longrightarrow>
   \<exists>out. scan_weight_map seen rs = Inr out \<and> distinct out \<and> set out = set seen \<union> set rs"
proof (induction rs arbitrary: seen)
  case (Cons r rs)
  then have r: "r \<in> set weight_files" and rs: "set rs \<subseteq> set weight_files" by auto
  show ?case
  proof (cases "r \<in> set seen")
    case True
    with Cons.IH [OF rs Cons.prems(2)] show ?thesis by auto
  next
    case False
    with Cons.prems(2) have "distinct (seen @ [r])" by simp
    from Cons.IH [OF rs this] False r weight_file_safe [OF r] show ?thesis
      by (auto simp: weight_file_iff)
  qed
qed simp

lemma scan_unknown:
  "set seen \<subseteq> set weight_files \<Longrightarrow> \<not> set rs \<subseteq> set weight_files \<Longrightarrow> \<exists>e. scan_weight_map seen rs = Inl e"
proof (induction rs arbitrary: seen)
  case (Cons r rs)
  show ?case
  proof (cases "r \<in> set weight_files")
    case True
    with Cons.prems have "\<not> set rs \<subseteq> set weight_files" "set (seen @ [r]) \<subseteq> set weight_files" by auto
    with Cons.IH [of seen] Cons.IH [of "seen @ [r]"] Cons.prems(1) weight_file_safe [OF True] show ?thesis by auto
  next
    case False
    with Cons.prems(1) show ?thesis by (auto simp: unsafe_relative_def weight_file_iff)
  qed
qed simp

lemma validate_weight_index_None:
  "validate_weight_index index = None \<longleftrightarrow>
     (case index of None \<Rightarrow> False | Some weights \<Rightarrow> snd ` set weights = set weight_files)"
proof (cases index)
  case None
  then show ?thesis by (simp add: validate_weight_index_def)
next
  case (Some weights)
  show ?thesis
  proof (cases "snd ` set weights \<subseteq> set weight_files")
    case True
    then obtain out where out: "scan_weight_map [] (map snd weights) = Inr out" "distinct out"
      "set out = snd ` set weights" using scan_known [of "map snd weights" "[]"] by auto
    have "set out = set weight_files \<Longrightarrow> length out = length weight_files"
      using distinct_card [OF out(2)] distinct_card [OF weight_files_distinct] by simp
    moreover have "weights = [] \<Longrightarrow> snd ` set weights \<noteq> set weight_files" by (simp add: weight_files_eq)
    ultimately show ?thesis
      using Some out True
      by (auto simp: validate_weight_index_def Let_def find_None_iff find_Some_iff
        simp flip: weight_files_def split: option.splits)
  next
    case False
    then obtain e where "scan_weight_map [] (map snd weights) = Inl e"
      using scan_unknown [of "[]" "map snd weights"] by auto
    with Some False show ?thesis by (auto simp: validate_weight_index_def)
  qed
qed

lemma validate_object_set_None:
  "validate_object_set fs p = None \<longleftrightarrow>
     (\<exists>entries. fs_entries fs p = Inr entries \<and> length entries = length qwen38_objects \<and>
        set entries \<subseteq> fst ` set qwen38_objects)"
  by (auto simp: validate_object_set_def first_error_None map_of_eq_None_iff split: sum.splits if_splits)

text \<open>A configuration file of the snapshot that has the text the runtime patch starts from.\<close>

definition config_pinned :: "snapshot_fs \<Rightarrow> string \<Rightarrow> string \<Rightarrow> string \<Rightarrow> bool" where
  "config_pinned fs snapshot name sha \<longleftrightarrow>
     (\<exists>data. fs_read fs (path_join [snapshot, name]) = Inr data \<and> sha256_hex data = sha)"

lemma patch_names:
  "map (\<lambda>p. path_base (patch_source_path p)) qwen38_patches =
    [''ple_layer.py'', ''modelopt.py'', ''mtp.py'', ''qsa.py'', ''qsa.py'', ''config.json'', ''hf_quant_config.json'']"
  by (simp add: qwen38_patches_def plain_patch_def path_base_def strip_slashes_def qwen38_patch_root_def
    qwen38_container_model_def qwen38_container_root_def)

lemma validate_patched_configs_None:
  "first_error (validate_patched_config fs snapshot) qwen38_patches = None \<longleftrightarrow>
     config_pinned fs snapshot ''config.json''
       ''deef67a61f3311faf051b23dc4192f442c7fee4f9cd2f38cbcbe4da55c763a80'' \<and>
     config_pinned fs snapshot ''hf_quant_config.json''
       ''331ad11d57c8bc374554579977198084e0d4d0933d5b3558f125f6f670aba0e8''"
proof -
  obtain a b c d e f g where ps: "qwen38_patches = [a, b, c, d, e, f, g]"
    and sha: "patch_original_sha f = ''deef67a61f3311faf051b23dc4192f442c7fee4f9cd2f38cbcbe4da55c763a80''"
      "patch_original_sha g = ''331ad11d57c8bc374554579977198084e0d4d0933d5b3558f125f6f670aba0e8''"
    by (simp add: qwen38_patches_def plain_patch_def)
  have other: "\<forall>p \<in> set [a, b, c, d, e]. validate_patched_config fs snapshot p = None"
    using patch_names unfolding ps by (simp add: validate_patched_config_def)
  have "validate_patched_config fs snapshot f = None \<longleftrightarrow> config_pinned fs snapshot ''config.json'' (patch_original_sha f)"
    "validate_patched_config fs snapshot g = None \<longleftrightarrow> config_pinned fs snapshot ''hf_quant_config.json'' (patch_original_sha g)"
    using patch_names unfolding ps
    by (auto simp: validate_patched_config_def config_pinned_def Let_def split: sum.splits)
  with other sha show ?thesis unfolding ps first_error_None by simp
qed

lemma if_Some_None: "((if b then Some e else x) = None) = (\<not> b \<and> x = None)"
  by simp

text \<open>
  C17: the check of the pinned snapshot passes exactly for a directory of the standard cache
  layout and the asked revision that has 25 entries, all of them names of pinned objects, where
  every pinned object is a link to a regular file of the blob directory with the pinned name, size
  and digest, the two configuration files hash to the text the runtime patches start from, and the
  weight index names exactly the eleven pinned weight files.
\<close>

theorem pinned_snapshot_iff:
  "validate_pinned_snapshot dec_index fs snapshot revision = None \<longleftrightarrow>
    (let clean = path_clean snapshot; repository = path_dir (path_dir clean) in
     path_base clean = revision \<and> path_base (path_dir clean) = ''snapshots'' \<and>
     path_base repository = qwen38_hf_cache_dir \<and>
     (\<exists>home entries data index.
        fs_link fs repository = Inr home \<and>
        fs_entries fs clean = Inr entries \<and> length entries = 25 \<and> set entries \<subseteq> fst ` set qwen38_objects \<and>
        list_all (object_pinned fs clean home) qwen38_objects \<and>
        config_pinned fs snapshot ''config.json''
          ''deef67a61f3311faf051b23dc4192f442c7fee4f9cd2f38cbcbe4da55c763a80'' \<and>
        config_pinned fs snapshot ''hf_quant_config.json''
          ''331ad11d57c8bc374554579977198084e0d4d0933d5b3558f125f6f670aba0e8'' \<and>
        fs_read fs (path_join [clean, ''model.safetensors.index.json'']) = Inr data \<and>
        dec_index data = Some index \<and> snd ` set index = set weight_files))"
proof -
  have chain: "((case x of None \<Rightarrow> y | Some e \<Rightarrow> Some e) = None) = (x = None \<and> y = None)"
    for x y :: "gerror option" by (cases x) auto
  have answer: "((case x of Inl e \<Rightarrow> Some (f e) | Inr a \<Rightarrow> g a) = None) = (\<exists>a. x = Inr a \<and> g a = None)"
    for x :: "gerror + 'b" and f and g :: "'b \<Rightarrow> gerror option" by (cases x) auto
  have index: "(case dec_index data of None \<Rightarrow> False | Some w \<Rightarrow> snd ` set w = set weight_files) =
    (\<exists>index. dec_index data = Some index \<and> snd ` set index = set weight_files)" for data
    by (cases "dec_index data") auto
  have 25: "length qwen38_objects = 25" by (simp add: qwen38_objects_def)
  have objects: "first_error (validate_object fs p home) qwen38_objects = None \<longleftrightarrow>
    list_all (object_pinned fs p home) qwen38_objects" for p home
    using objects_blob_names validate_object_None by (auto simp: first_error_None list_all_iff)
  show ?thesis
    unfolding validate_pinned_snapshot_def Let_def
    by (simp only: if_Some_None chain answer objects validate_object_set_None validate_patched_configs_None
      validate_weight_index_None index 25) auto
qed

end
