(* ===== verification/Agent_Preflight_Properties.thy ===== *)
theory Agent_Preflight_Properties
  imports Agent_Preflight Agent_Snapshot_Properties Daemon_Properties
begin

text \<open>
  What an agent's preflight decides, who may hold the GPU and a port while it passes, and what the
  daemon makes of its answer.
\<close>

section \<open>Compute tenants\<close>

text \<open>The buffer of a command keeps the first bytes of its output and tells when there were more.\<close>

lemma bounded_output_step:
  "length buf \<le> limit \<Longrightarrow>
   bounded_output_write limit (buf, overflow) chunk =
     (take limit (buf @ chunk), overflow \<or> limit < length buf + length chunk)"
  by (auto simp: bounded_output_write_def Let_def nat_diff_distrib)

lemma bounded_output_keeps_front:
  assumes "length buf \<le> limit"
  shows "foldl (bounded_output_write limit) (buf, overflow) chunks =
     (take limit (buf @ concat chunks), overflow \<or> (chunks \<noteq> [] \<and> limit < length buf + length (concat chunks)))"
  using assms
proof (induction chunks arbitrary: buf overflow)
  case (Cons c cs)
  have "length (take limit (buf @ c)) \<le> limit" by simp
  from Cons.IH [OF this] Cons.prems show ?case
    by (auto simp: bounded_output_step min_def)
qed auto

lemma gpu_pid_lines_Inr:
  "gpu_pid_lines pids ls = Inr out \<Longrightarrow> distinct pids \<Longrightarrow> (\<forall>p \<in> set pids. 1 \<le> p) \<Longrightarrow>
   distinct out \<and> set pids \<subseteq> set out \<and> (\<forall>p \<in> set out. 1 \<le> p) \<and>
   (\<forall>l \<in> set ls. l = [] \<or> (\<exists>n. digits_value 0 l = Some n \<and> int n \<in> set out)) \<and>
   (\<forall>p \<in> set out. p \<in> set pids \<or> (\<exists>l \<in> set ls. digits_value 0 l = Some (nat p)))"
proof (induction pids ls rule: gpu_pid_lines.induct)
  case (1 pids)
  then show ?case by simp
next
  case (2 pids l ls)
  show ?case
  proof (cases "l = []")
    case True
    with 2 show ?thesis by auto
  next
    case False
    with 2(4) obtain n where n: "digits_value 0 l = Some n" "1 \<le> n" "\<not> 2 ^ 30 \<le> n"
      and ok: "\<not> (1024 \<le> length pids \<or> trim_space l \<noteq> l \<or> \<not> list_all is_digit l)"
      by (auto split: if_splits option.splits)
    show ?thesis
    proof (cases "int n \<in> set pids")
      case True
      with 2(2) [OF False ok n(1)] 2(4-6) n False ok show ?thesis by auto
    next
      case fresh: False
      have "gpu_pid_lines (pids @ [int n]) ls = Inr out" using 2(4) n ok False fresh by simp
      moreover have "\<forall>p \<in> set (pids @ [int n]). 1 \<le> p" using 2(6) n by auto
      moreover have "distinct (pids @ [int n])" using 2(5) fresh by simp
      ultimately have "distinct out \<and> set (pids @ [int n]) \<subseteq> set out \<and> (\<forall>p \<in> set out. 1 \<le> p) \<and>
         (\<forall>l \<in> set ls. l = [] \<or> (\<exists>n. digits_value 0 l = Some n \<and> int n \<in> set out)) \<and>
         (\<forall>p \<in> set out. p \<in> set (pids @ [int n]) \<or> (\<exists>l \<in> set ls. digits_value 0 l = Some (nat p)))"
        using 2(3) [OF False ok n(1) _ fresh] n by (simp add: not_less_eq_eq)
      with n show ?thesis by auto
    qed
  qed
qed

lemma tenants_of_pids: "tenants_of cgroup pids = Inr ts \<Longrightarrow> map tn_pid ts = pids"
  by (induction pids arbitrary: ts) (auto split: sum.splits)

lemma tenants_of_container:
  "tenants_of cgroup pids = Inr ts \<Longrightarrow> t \<in> set ts \<Longrightarrow> tn_container t \<noteq> [] \<Longrightarrow>
   \<exists>data. cgroup (tn_pid t) = Inr data \<and> container_of_cgroup data = Inr (tn_container t)"
  by (induction pids arbitrary: ts)
    (auto simp: read_bounded_file_def split: sum.splits if_splits)

section \<open>Who may hold the GPU\<close>

lemma allowed_tenant_found:
  "allowed_tenant selector a cs = Inr b \<Longrightarrow> a \<noteq> [] \<Longrightarrow> b = a \<and> filter (selected_by selector) cs = []"
  by (induction cs) (auto split: if_splits)

lemma allowed_tenant_Inr:
  assumes "allowed_tenant selector [] cs = Inr b" and "b \<noteq> []" and "\<forall>c \<in> set cs. ic_id c \<noteq> []"
  shows "\<exists>c. filter (selected_by selector) cs = [c] \<and> rollback_owner c \<and> ic_id c = b"
  using assms
proof (induction cs)
  case (Cons c cs)
  show ?case
  proof (cases "selected_by selector c")
    case True
    with Cons.prems have "rollback_owner c" "allowed_tenant selector (ic_id c) cs = Inr b"
      by (auto split: if_splits)
    with allowed_tenant_found [of selector "ic_id c" cs b] Cons.prems(3) True show ?thesis by auto
  next
    case False
    with Cons show ?thesis by simp
  qed
qed simp

text \<open>
  C16: when the check of the GPU passes while processes compute on it, the request names a
  container, the inventory has exactly one that the name selects, that one is managed and belongs
  to no deployment, and every computing process runs in it.
\<close>

theorem gpu_tenants_exclusive:
  assumes "validate_no_tenants selector cs ts = None" and "ts \<noteq> []" and "\<forall>c \<in> set cs. ic_id c \<noteq> []"
  shows "selector \<noteq> [] \<and> (\<exists>c. filter (selected_by selector) cs = [c] \<and> rollback_owner c \<and>
    (\<forall>t \<in> set ts. tn_container t = ic_id c))"
proof -
  obtain allowed where a: "(if selector = [] then Inr [] else allowed_tenant selector [] cs) = Inr allowed"
    and all: "\<forall>t \<in> set ts. allowed \<noteq> [] \<and> tn_container t = allowed"
    using assms(1,2) by (auto simp: validate_no_tenants_def find_None_iff split: sum.splits option.splits)
  from all assms(2) have ne: "allowed \<noteq> []" by (cases ts) auto
  with a have "selector \<noteq> []" "allowed_tenant selector [] cs = Inr allowed" by (auto split: if_splits)
  with allowed_tenant_Inr [OF _ ne assms(3)] all show ?thesis by metis
qed

lemma tenant_sample_facts:
  "validate_no_tenants ''legacy''
     [\<lparr>ic_id = ''c1'', ic_name = ''legacy'', ic_image = [], ic_status = [], ic_ports = [], ic_created = None,
       ic_uptime = 0, ic_labels = [(label_managed, ''true''), (label_ownership, ''managed'')],
       ic_ownership = ''managed'', ic_metrics = None :: unit option\<rparr>]
     [\<lparr>tn_pid = 7, tn_container = ''c1''\<rparr>] = None"
  by (simp add: validate_no_tenants_def selected_by_def rollback_owner_def map_get_def label_managed_def
    label_ownership_def label_deployment_def)

theorem gpu_tenants_exclusive_witness:
  "rollback_owner \<lparr>ic_id = ''c1'', ic_name = ''legacy'', ic_image = [], ic_status = [], ic_ports = [],
     ic_created = None, ic_uptime = 0, ic_labels = [(label_managed, ''true''), (label_ownership, ''managed'')],
     ic_ownership = ''managed'', ic_metrics = None :: unit option\<rparr>"
  using gpu_tenants_exclusive [OF tenant_sample_facts]
  by (simp add: rollback_owner_def map_get_def label_managed_def label_ownership_def label_deployment_def)

section \<open>Who holds a port\<close>

lemma scope_owned_True:
  "scope_owned unambiguous exact ms = Inr True \<Longrightarrow>
   \<exists>m \<in> set ms. to_lower m = exact \<or> (12 \<le> length (to_lower m) \<and> has_prefix exact (to_lower m) \<and>
     unambiguous (to_lower m) exact = Inr True)"
  by (induction ms) (auto simp: Let_def not_less split: if_splits sum.splits bool.splits)

lemma prefix_unambiguous_True:
  "docker_prefix_unambiguous ps prefix exact = Inr True \<Longrightarrow>
   \<exists>out. ps prefix = Inr out \<and> str_fields (to_lower out) = [exact]"
  by (auto simp: docker_prefix_unambiguous_def split: if_splits sum.splits)

lemma to_lower_idem [simp]: "to_lower (to_lower s) = to_lower s"
proof -
  have "lower_char (lower_char c) = lower_char c" for c
    by (cases "(of_char c :: nat) \<in> {65..90}") (auto simp: lower_char_def of_char_of)
  then show ?thesis by (simp add: to_lower_def)
qed

text \<open>What the processes and control groups behind a socket line say.\<close>

definition socket_of_container :: "port_owner_env \<Rightarrow> string \<Rightarrow> string \<Rightarrow> bool" where
  "socket_of_container env exact output \<longleftrightarrow>
     (\<exists>i \<in> set (scope_ids True output). to_lower i = exact \<or>
        (12 \<le> length (to_lower i) \<and> has_prefix exact (to_lower i) \<and>
         (\<exists>out. po_prefix env (to_lower i) = Inr out \<and> str_fields (to_lower out) = [exact]))) \<or>
     (\<exists>pid \<in> set (pid_texts output). \<exists>out. po_top env exact = Inr out \<and> pid \<in> set (process_pids out))"

lemma owned_port_is_containers:
  assumes "container_owns_port env container address port = Inr True"
  shows "\<exists>exact sockets. inspect_exact_id (po_inspect env container) = Inr exact \<and>
    po_sockets env port = Inr sockets \<and>
    (socket_of_container env (to_lower (trim_space exact)) (filter_socket_data sockets address port) \<or>
     socket_of_container env exact (filter_socket_data sockets address port))"
proof -
  obtain exact sockets where e: "inspect_exact_id (po_inspect env container) = Inr exact"
    "po_sockets env port = Inr sockets"
    using assms by (auto simp: container_owns_port_def split: sum.splits)
  let ?out = "filter_socket_data sockets address port"
  let ?scan = "socket_cgroup_owned (docker_prefix_unambiguous (po_prefix env)) ?out exact"
  from assms e have "?scan = Inr True \<or>
      (\<exists>listing. po_top env exact = Inr listing \<and> socket_pid_owned ?out (process_pids listing))"
    by (auto simp: container_owns_port_def Let_def split: sum.splits bool.splits)
  then show ?thesis
  proof
    assume "?scan = Inr True"
    from scope_owned_True [OF this [unfolded socket_cgroup_owned_def]]
    have "socket_of_container env (to_lower (trim_space exact)) ?out"
      unfolding socket_of_container_def using prefix_unambiguous_True by blast
    with e show ?thesis by blast
  next
    assume "\<exists>listing. po_top env exact = Inr listing \<and> socket_pid_owned ?out (process_pids listing)"
    then have "socket_of_container env exact ?out"
      by (auto simp: socket_of_container_def socket_pid_owned_def list_ex_iff)
    with e show ?thesis by blast
  qed
qed

section \<open>What the preflight decides\<close>

definition port_granted :: "'m preflight_deps \<Rightarrow> string \<Rightarrow> string \<Rightarrow> int \<Rightarrow> bool" where
  "port_granted d observed address port \<longleftrightarrow> pd_port d address port = Inr True \<or>
     (pd_port d address port = Inr False \<and> observed \<noteq> [] \<and> pd_owns d observed address port = Inr True)"

lemma check_port_None: "check_port d observed what address port = None \<longleftrightarrow> port_granted d observed address port"
  by (auto simp: check_port_def port_granted_def preflight_conflict_def unavailable_def
    split: sum.splits bool.splits)

definition address_held :: "'m preflight_deps \<Rightarrow> string \<Rightarrow> bool" where
  "address_held d address \<longleftrightarrow>
     (\<exists>texts i t. pd_addrs d = Inr texts \<and> parse_ip (trim_space address) = Some i \<and>
        t \<in> set texts \<and> local_address t = Some i)"

lemma check_local_None:
  "check_local ips as = None \<longleftrightarrow> list_all (\<lambda>a. \<exists>i \<in> set ips. parse_ip (trim_space a) = Some i) as"
  by (induction as) (auto simp: bad_request_def preflight_conflict_def split: option.splits)

lemma set_local_ip_set: "set (local_ip_set texts) = {i. \<exists>t \<in> set texts. local_address t = Some i}"
  by (force simp: local_ip_set_def map_filter_def)

definition fabric_bound :: "'m preflight_deps \<Rightarrow> preflight_payload \<Rightarrow> bool" where
  "fabric_bound d q \<longleftrightarrow>
     (\<exists>gid. pp_fabric_gid q = Some gid \<and> 0 \<le> gid \<and> gid \<le> 255 \<and> pp_fabric_interface q \<noteq> [] \<and>
        pp_fabric_hca q \<noteq> [] \<and>
        pd_fabric d (pp_fabric_interface q) (pp_fabric_hca q) gid (pp_fabric_address q) = None)"

lemma check_fabric_None: "check_fabric d q = None \<longleftrightarrow> (if pp_require_fabric q then fabric_bound d q else True)"
  by (auto simp: check_fabric_def fabric_bound_def bad_request_def preflight_conflict_def split: option.splits)

definition qwen_admitted :: "'m preflight_deps \<Rightarrow> preflight_payload \<Rightarrow> 'm inv_container list \<Rightarrow> bool" where
  "qwen_admitted d q cs \<longleftrightarrow> pp_require_fabric q \<and> pp_model_path q \<noteq> [] \<and> pp_model_revision q = qwen38_revision \<and>
     pd_snapshot d (pp_model_path q) qwen38_revision = None \<and> pd_admission d = None \<and>
     (\<exists>ts. pd_tenants d = Inr ts \<and> validate_no_tenants (pp_observed q) cs ts = None)"

definition shape_ok :: "preflight_payload \<Rightarrow> bool" where
  "shape_ok q \<longleftrightarrow> trim_space (pp_fabric_address q) \<noteq> [] \<and> trim_space (pp_candidate q) \<noteq> [] \<and>
     valid_port (pp_service_port q) \<and> valid_port (pp_rendezvous_port q) \<and>
     (if pp_head q then trim_space (pp_service_address q) \<noteq> [] else pp_service_address q = [])"

lemma check_shape_None:
  "check_shape q = None \<longleftrightarrow> shape_ok q \<and> (if is_qwen_preflight q then pp_require_fabric q else True)"
  by (auto simp: check_shape_def shape_ok_def bad_request_def)

lemma check_model_path_None:
  "check_model_path d q = None \<longleftrightarrow>
     pp_model_path q = [] \<or> (pd_stat d (pp_model_path q) = Some True \<and> pd_open d (pp_model_path q))"
  by (auto simp: check_model_path_def preflight_conflict_def)

lemma check_snapshot_None:
  "check_snapshot d q = None \<longleftrightarrow>
     (if is_qwen_preflight q then pp_model_path q \<noteq> [] \<and> pp_model_revision q = qwen38_revision \<and>
        pd_snapshot d (pp_model_path q) qwen38_revision = None else True)"
  by (auto simp: check_snapshot_def bad_request_def preflight_conflict_def split: option.splits)

lemma check_tenants_None:
  "check_tenants d q cs = None \<longleftrightarrow>
     (if is_qwen_preflight q then pd_admission d = None \<and>
        (\<exists>ts. pd_tenants d = Inr ts \<and> validate_no_tenants (pp_observed q) cs ts = None) else True)"
  by (auto simp: check_tenants_def unavailable_def preflight_conflict_def split: option.splits sum.splits)


section \<open>What the daemon makes of the answer\<close>

lemma validate_preflight_status:
  "validate_preflight d q = Some (status, code, e) \<Longrightarrow> status \<in> {400, 409, 503}"
proof -
  have port: "check_port d x y a n = Some (s, c, g) \<Longrightarrow> s \<in> {400, 409, 503}" for x y a n s c g
    by (auto simp: check_port_def preflight_conflict_def unavailable_def split: sum.splits bool.splits if_splits)
  have locals: "check_local ips as = Some (s, c, g) \<Longrightarrow> s \<in> {400, 409, 503}" for ips as s c g
    by (induction as) (auto simp: bad_request_def preflight_conflict_def split: option.splits if_splits)
  have shape: "check_shape q = Some (s, c, g) \<Longrightarrow> s \<in> {400, 409, 503}" for s c g
    by (auto simp: check_shape_def bad_request_def split: if_splits)
  have fabric: "check_fabric d q = Some (s, c, g) \<Longrightarrow> s \<in> {400, 409, 503}" for s c g
    by (auto simp: check_fabric_def bad_request_def preflight_conflict_def split: if_splits option.splits)
  have model: "check_model_path d q = Some (s, c, g) \<Longrightarrow> s \<in> {400, 409, 503}" for s c g
    by (auto simp: check_model_path_def preflight_conflict_def split: if_splits)
  have snapshot: "check_snapshot d q = Some (s, c, g) \<Longrightarrow> s \<in> {400, 409, 503}" for s c g
    by (auto simp: check_snapshot_def bad_request_def preflight_conflict_def split: if_splits option.splits)
  have tenants: "check_tenants d q cs = Some (s, c, g) \<Longrightarrow> s \<in> {400, 409, 503}" for cs s c g
    by (auto simp: check_tenants_def unavailable_def preflight_conflict_def split: if_splits option.splits sum.splits)
  assume "validate_preflight d q = Some (status, code, e)"
  then show ?thesis
    unfolding validate_preflight_def
    by (auto split: option.splits sum.splits if_splits
      dest: shape locals fabric model snapshot tenants port
      simp: unavailable_def preflight_conflict_def simp del: insert_iff)
qed

text \<open>The answer of an agent on a host, as the daemon's client reads it.\<close>

definition agent_answer :: "bool \<Rightarrow> 'm preflight_deps \<Rightarrow> preflight_payload \<Rightarrow> agent_error option" where
  "agent_answer available d q =
     (case preflight_handler available d (Inr q) of
        (status, envelope) \<Rightarrow>
          if status < 200 \<or> status \<ge> 300 then Some (agent_response_error status envelope) else None)"

lemma agent_answer_None:
  "agent_answer available d q = None \<longleftrightarrow>
     validate_preflight d q = None \<and> (if is_qwen_preflight q then available else True)"
  by (auto simp: agent_answer_def preflight_handler_def split: option.splits dest: validate_preflight_status)

text \<open>
  A request the agent refuses as malformed is a validation error of the engine, a conflict on the
  host a conflict, and a host that cannot be inspected is unavailable.
\<close>

lemma agent_answer_kind:
  assumes "agent_answer available d q = Some err" and "validate_preflight d q = Some (status, code, e)"
    and "if is_qwen_preflight q then available else True"
  shows "error_kind_of (classify_preflight_error err) =
    Some (if status = 400 then ErrorValidation else if status = 409 then ErrorConflict else ErrorUnavailable)"
  using assms validate_preflight_status [OF assms(2)]
  by (auto simp: agent_answer_def preflight_handler_def agent_response_error_def classify_preflight_error_def
    Let_def agent_error_value_def wrap_error_kind split: if_splits)

text \<open>The preflight of a member passes on the daemon only when the host passes the agent's checks too.\<close>

lemma member_preflight_reaches_host:
  assumes "pe_agent_preflight env = agent_answer available d" and "daemon_preflight env q caps targets = None"
  shows "validate_preflight d (preflight_payload_of q) = None"
proof -
  have "pe_agent_preflight env (preflight_payload_of q) = None"
    using assms(2) by (auto simp: daemon_preflight_def fail_def Let_def split: if_splits sum.splits option.splits)
  then show ?thesis by (simp add: assms(1) agent_answer_None)
qed

section \<open>Labels with a comma\<close>

text \<open>
  Docker prints the labels of a container joined by commas, and the inventory splits the text at
  every comma: the value of a foreign label can end in labels of its own. The container of this line
  carries one label, \<^verbatim>\<open>note\<close>, and counts as managed by the program.
\<close>

lemma comma_in_label_value_forges_ownership:
  fixes env :: "'m inventory_env"
  defines "line \<equiv> \<lparr>ps_id = ''c1'', ps_names = ''foreign'', ps_image = ''nginx'', ps_status = ''Up 2 hours'',
      ps_ports = [], ps_created = [],
      ps_labels = ''note=tested,io.yokai.managed=true,io.yokai.ownership=managed''\<rparr>"
  shows "rollback_owner (inventory_container env line)" and "ic_ownership (inventory_container env line) = ''managed''"
proof -
  have "parse_docker_labels (ps_labels line) =
      [(''note'', ''tested''), (''io.yokai.managed'', ''true''), (''io.yokai.ownership'', ''managed'')]"
    by (simp add: line_def parse_docker_labels_def add_label_item_def go_str has_prefix_def trim_space_def)
  then have l: "ic_labels (inventory_container env line) =
      [(''io.yokai.managed'', ''true''), (''io.yokai.ownership'', ''managed'')]"
    by (simp add: inventory_container_def Let_def sanitize_inventory_labels_def safe_inventory_keys_def
      label_managed_def label_ownership_def label_service_address_def label_service_port_def label_deployment_def
      label_generation_def label_role_def label_bkc_id_def label_model_revision_def label_image_digest_def
      label_runtime_patch_def label_source_revision_def)
  then show "rollback_owner (inventory_container env line)"
    by (simp add: rollback_owner_def map_get_def label_managed_def label_ownership_def label_deployment_def)
  have "ic_ownership (inventory_container env line) = inventory_ownership (ps_names line) (ic_labels (inventory_container env line))"
    by (simp add: inventory_container_def Let_def)
  with l show "ic_ownership (inventory_container env line) = ''managed''"
    by (simp add: inventory_ownership_def map_get_def label_managed_def label_ownership_def)
qed

end
