(* ===== verification/Agent_Probe.thy ===== *)
theory Agent_Probe
  imports Agent_Inventory Go_Json
begin

text \<open>
  The metrics an agent scrapes from an inference server and the test of a service:
  \<^verbatim>\<open>scrapeVLLMMetricsURLWithClient\<close> of \<^verbatim>\<open>internal/agent/docker.go\<close>, \<^verbatim>\<open>serviceprobe.go\<close>, the
  handler \<^verbatim>\<open>handleContainerTest\<close> of \<^verbatim>\<open>server.go\<close>, and the samples \<^verbatim>\<open>prometheus.go\<close> writes. HTTP
  answers, decoded where a decoder is used, and floating point arithmetic are arguments.
\<close>

section \<open>A line of the Prometheus text format\<close>

text \<open>\<^verbatim>\<open>[-+]?(?:\d+\.?\d*|\.\d+)(?:[eE][-+]?\d+)?\<close>, all of the text.\<close>

definition drop_sign :: "string \<Rightarrow> string" where
  "drop_sign s = (if s \<noteq> [] \<and> hd s \<in> set ''-+'' then tl s else s)"

definition exponent_text :: "string \<Rightarrow> bool" where
  "exponent_text s \<longleftrightarrow> s = [] \<or> (hd s \<in> set ''eE'' \<and> drop_sign (tl s) \<noteq> [] \<and> list_all is_digit (drop_sign (tl s)))"

definition number_text :: "string \<Rightarrow> bool" where
  "number_text s \<longleftrightarrow>
     (let (whole, r) = digit_run (drop_sign s) in
      if whole \<noteq> []
      then exponent_text (if r \<noteq> [] \<and> hd r = CHR ''.'' then snd (digit_run (tl r)) else r)
      else r \<noteq> [] \<and> hd r = CHR ''.'' \<and> fst (digit_run (tl r)) \<noteq> [] \<and> exponent_text (snd (digit_run (tl r))))"

text \<open>
  The quoted text of \<^verbatim>\<open>"((?:\\.|[^"])*)"\<close> after its first quote, with what follows the last one. An
  escaped pair is preferred to a single character, and one more of either to the end.
\<close>

abbreviation quote :: char where "quote \<equiv> CHR 0x22"
abbreviation backslash :: char where "backslash \<equiv> CHR 0x5C"

fun quoted_text :: "string \<Rightarrow> (string \<times> string) option" where
  "quoted_text [] = None"
| "quoted_text (c # s) =
     (let pair = (case s of
            d # t \<Rightarrow> if c = backslash \<and> d \<noteq> CHR 0x0A
                     then map_option (\<lambda>(a, b). (c # d # a, b)) (quoted_text t) else None
          | [] \<Rightarrow> None);
          one = (if c \<noteq> quote then map_option (\<lambda>(a, b). (c # a, b)) (quoted_text s) else None)
      in case pair of Some p \<Rightarrow> Some p
         | None \<Rightarrow> (case one of Some p \<Rightarrow> Some p | None \<Rightarrow> if c = quote then Some ([], s) else None))"

definition key_start :: "char \<Rightarrow> bool" where "key_start c \<longleftrightarrow> is_letter c \<or> c = CHR ''_''"
definition key_char :: "char \<Rightarrow> bool" where "key_char c \<longleftrightarrow> key_start c \<or> is_digit c"

text \<open>\<^verbatim>\<open>([a-zA-Z_][a-zA-Z0-9_]*)="((?:\\.|[^"])*)"\<close> at the start of a text.\<close>

definition label_match :: "string \<Rightarrow> (string \<times> string \<times> string) option" where
  "label_match s =
     (let k = takeWhile key_char s; r = dropWhile key_char s in
      if k = [] \<or> \<not> key_start (hd k) \<or> \<not> has_prefix r [CHR ''='', quote] then None
      else (case quoted_text (drop 2 r) of None \<Rightarrow> None | Some (v, rest) \<Rightarrow> Some (k, v, rest)))"

lemma quoted_text_shorter: "quoted_text s = Some (v, r) \<Longrightarrow> length r < length s"
proof (induction s arbitrary: v r rule: quoted_text.induct)
  case (2 c s)
  show ?case
  proof (cases s)
    case Nil
    with 2 show ?thesis by (auto split: if_splits)
  next
    case (Cons d t)
    with 2 show ?thesis by (fastforce simp: Let_def split: if_splits option.splits)
  qed
qed simp

lemma label_match_shorter: "label_match s = Some (k, v, r) \<Longrightarrow> length r < length s"
proof -
  assume m: "label_match s = Some (k, v, r)"
  then obtain w where "quoted_text (drop 2 (dropWhile key_char s)) = Some (w, r)"
    by (auto simp: label_match_def Let_def split: if_splits option.splits)
  from quoted_text_shorter [OF this] show ?thesis
    using length_dropWhile_le [of key_char s] by simp
qed

function label_matches :: "string \<Rightarrow> (string \<times> string) list" where
  "label_matches s =
     (case label_match s of
        Some (k, v, r) \<Rightarrow> (k, v) # label_matches r
      | None \<Rightarrow> (case s of [] \<Rightarrow> [] | _ # t \<Rightarrow> label_matches t))"
  by pat_completeness auto
termination by (relation "measure length") (auto dest: label_match_shorter)

declare label_matches.simps [simp del]

definition parse_prometheus_labels :: "string \<Rightarrow> gomap" where
  "parse_prometheus_labels raw =
     foldl (\<lambda>m (k, v). map_put k (replace_all [backslash, quote] [quote] v) m) [] (label_matches raw)"

text \<open>
  \<^verbatim>\<open>^([^\s{]+)(?:\{([^}]*)\})?\s+(number)$\<close>: the name, the text of the labels and the number.
\<close>

definition re_blank :: "char \<Rightarrow> bool" where "re_blank c \<longleftrightarrow> (of_char c :: nat) \<in> {9, 10, 12, 13, 32}"

definition metric_parts :: "string \<Rightarrow> (string \<times> string \<times> string) option" where
  "metric_parts line =
     (let name = takeWhile (\<lambda>c. \<not> re_blank c \<and> c \<noteq> CHR ''{'') line; r = drop (length name) line;
          labelled = (r \<noteq> [] \<and> hd r = CHR ''{''); raw = takeWhile (\<lambda>c. c \<noteq> CHR ''}'') (tl r);
          rest = (if labelled then drop (Suc (Suc (length raw))) r else r); value = dropWhile re_blank rest
      in if name = [] \<or> (labelled \<and> CHR ''}'' \<notin> set (tl r)) \<or> rest = [] \<or> \<not> re_blank (hd rest) \<or>
            \<not> number_text value
         then None
         else Some (name, if labelled then raw else [], value))"

text \<open>Floating point: parsing, zero, addition, and the test for a positive value.\<close>

record 'f floats =
  fl_parse :: "string \<Rightarrow> 'f option"
  fl_zero :: 'f
  fl_add :: "'f \<Rightarrow> 'f \<Rightarrow> 'f"
  fl_positive :: "'f \<Rightarrow> bool"

definition parse_metric_line :: "'f floats \<Rightarrow> string \<Rightarrow> (string \<times> gomap \<times> 'f) option" where
  "parse_metric_line fl line =
     (case metric_parts line of
        None \<Rightarrow> None
      | Some (name, raw, value) \<Rightarrow>
          map_option (\<lambda>x. (name, parse_prometheus_labels raw, x)) (fl_parse fl value))"

fun first_label :: "gomap \<Rightarrow> string list \<Rightarrow> string" where
  "first_label labels [] = []"
| "first_label labels (k # ks) =
     (if trim_space (map_get labels k) \<noteq> [] then trim_space (map_get labels k) else first_label labels ks)"

section \<open>Scraping\<close>

text \<open>A value is absent until a line gives it, which is what the \<^verbatim>\<open>Has\<close> fields of the source record.\<close>

record 'f metrics =
  mt_model :: string
  mt_decode :: "'f option"
  mt_prefill :: "'f option"
  mt_running :: "'f option"
  mt_waiting :: "'f option"
  mt_prompt_total :: "'f option"
  mt_generated_total :: "'f option"
  mt_cached_total :: "'f option"
  mt_ttft_buckets :: "(string \<times> 'f) list"
  mt_ttft_sum :: 'f
  mt_ttft_count :: 'f
  mt_has_ttft :: bool
  mt_context :: "'f option"
  mt_streams :: "'f option"
  mt_pool :: "'f option"
  mt_sglang :: bool
  mt_vllm :: bool
  mt_tensorfold :: bool

definition no_metrics :: "'f floats \<Rightarrow> 'f metrics" where
  "no_metrics fl =
     \<lparr>mt_model = [], mt_decode = None, mt_prefill = None, mt_running = None, mt_waiting = None,
      mt_prompt_total = None, mt_generated_total = None, mt_cached_total = None, mt_ttft_buckets = [],
      mt_ttft_sum = fl_zero fl, mt_ttft_count = fl_zero fl, mt_has_ttft = False, mt_context = None,
      mt_streams = None, mt_pool = None, mt_sglang = False, mt_vllm = False, mt_tensorfold = False\<rparr>"

definition mark_native :: "string \<Rightarrow> 'f metrics \<Rightarrow> 'f metrics" where
  "mark_native name m =
     (if has_prefix name ''sglang:'' then m\<lparr>mt_sglang := True\<rparr>
      else if has_prefix name ''vllm:'' then m\<lparr>mt_vllm := True\<rparr>
      else if has_prefix name ''tensorfold:'' \<or> has_prefix name ''tensorfold_health:''
        then m\<lparr>mt_tensorfold := True\<rparr>
      else m)"

definition accumulate :: "'f floats \<Rightarrow> 'f \<Rightarrow> 'f option \<Rightarrow> 'f option" where
  "accumulate fl x before = Some (fl_add fl (case before of None \<Rightarrow> fl_zero fl | Some s \<Rightarrow> s) x)"

text \<open>One sample; the second component is the sum of the prefix cache hits.\<close>

definition add_sample ::
  "'f floats \<Rightarrow> string \<Rightarrow> gomap \<Rightarrow> 'f \<Rightarrow> 'f metrics \<times> 'f \<Rightarrow> 'f metrics \<times> 'f" where
  "add_sample fl name labels x state =
     (let (m, hits) = state; add = accumulate fl x in
      if name \<in> {''vllm:avg_generation_throughput_toks_per_s'', ''sglang:gen_throughput''}
        then (mark_native name (m\<lparr>mt_decode := add (mt_decode m)\<rparr>), hits)
      else if name = ''vllm:avg_prompt_throughput_toks_per_s''
        then (mark_native name (m\<lparr>mt_prefill := add (mt_prefill m)\<rparr>), hits)
      else if name \<in> {''vllm:num_requests_running'', ''sglang:num_running_reqs'', ''tensorfold:requests_running''}
        then (mark_native name (m\<lparr>mt_running := add (mt_running m)\<rparr>), hits)
      else if name \<in> {''vllm:num_requests_waiting'', ''sglang:num_queue_reqs'', ''tensorfold:requests_waiting''}
        then (mark_native name (m\<lparr>mt_waiting := add (mt_waiting m)\<rparr>), hits)
      else if name \<in> {''vllm:prompt_tokens_total'', ''vllm:prompt_tokens'', ''sglang:prompt_tokens_total'',
                       ''tensorfold:prompt_tokens_total''}
        then (mark_native name (m\<lparr>mt_prompt_total := add (mt_prompt_total m)\<rparr>), hits)
      else if name \<in> {''vllm:generation_tokens_total'', ''vllm:generation_tokens'', ''sglang:generation_tokens_total'',
                       ''tensorfold:generation_tokens_total''}
        then (mark_native name (m\<lparr>mt_generated_total := add (mt_generated_total m)\<rparr>), hits)
      else if name \<in> {''vllm:prompt_tokens_cached_total'', ''vllm:prompt_tokens_cached'', ''sglang:cached_tokens_total'',
                       ''tensorfold:cached_tokens_total''}
        then (mark_native name (m\<lparr>mt_cached_total := add (mt_cached_total m)\<rparr>), hits)
      else if name \<in> {''vllm:prefix_cache_hits_total'', ''vllm:prefix_cache_hits'',
                       ''vllm:external_prefix_cache_hits_total'', ''vllm:external_prefix_cache_hits''}
        then (mark_native name m, fl_add fl hits x)
      else if name \<in> {''vllm:time_to_first_token_seconds_bucket'', ''sglang:time_to_first_token_seconds_bucket'',
                       ''tensorfold:time_to_first_token_seconds_bucket''}
        then (let le = map_get labels ''le'';
                  old = (case map_of (mt_ttft_buckets m) le of None \<Rightarrow> fl_zero fl | Some s \<Rightarrow> s) in
              if le = [] then state
              else (mark_native name (m\<lparr>mt_ttft_buckets := map_put le (fl_add fl old x) (mt_ttft_buckets m),
                      mt_has_ttft := True\<rparr>), hits))
      else if name \<in> {''vllm:time_to_first_token_seconds_sum'', ''sglang:time_to_first_token_seconds_sum'',
                       ''tensorfold:time_to_first_token_seconds_sum''}
        then (mark_native name (m\<lparr>mt_ttft_sum := fl_add fl (mt_ttft_sum m) x, mt_has_ttft := True\<rparr>), hits)
      else if name \<in> {''vllm:time_to_first_token_seconds_count'', ''sglang:time_to_first_token_seconds_count'',
                       ''tensorfold:time_to_first_token_seconds_count''}
        then (mark_native name (m\<lparr>mt_ttft_count := fl_add fl (mt_ttft_count m) x, mt_has_ttft := True\<rparr>), hits)
      else if name = ''tensorfold_health:context_length''
        then (mark_native name (m\<lparr>mt_context := Some x\<rparr>), hits)
      else if name = ''tensorfold_health:streams_max''
        then (mark_native name (m\<lparr>mt_streams := Some x\<rparr>), hits)
      else if name = ''tensorfold_health:pool_tokens''
        then (mark_native name (m\<lparr>mt_pool := Some x\<rparr>), hits)
      else state)"

definition scrape_line :: "'f floats \<Rightarrow> 'f metrics \<times> 'f \<Rightarrow> string \<Rightarrow> 'f metrics \<times> 'f" where
  "scrape_line fl state raw =
     (let line = trim_space raw in
      if line = [] \<or> has_prefix line ''#'' then state
      else (case parse_metric_line fl line of
          None \<Rightarrow> state
        | Some (name, labels, x) \<Rightarrow>
            (let (m, hits) = state; model = first_label labels [''model_name'', ''model'']
             in add_sample fl name labels x
                  (if mt_model m = [] \<and> model \<noteq> [] then m\<lparr>mt_model := model\<rparr> else m, hits))))"

definition scrape_body :: "'f floats \<Rightarrow> string \<Rightarrow> 'f metrics" where
  "scrape_body fl body =
     (let (m, hits) = foldl (scrape_line fl) (no_metrics fl, fl_zero fl) (split_char CHR 0x0A (take 262144 body))
      in if mt_cached_total m = None \<and> fl_positive fl hits then m\<lparr>mt_cached_total := Some hits\<rparr> else m)"

section \<open>HTTP answers and their errors\<close>

text \<open>No answer, a status other than 200 with its body, a body that does not decode, or the document.\<close>

datatype 'a http_reply = NoAnswer string | BadStatus int string | BadBody string | Document 'a

text \<open>The error of a call: the HTTP status when there was one, and the message.\<close>

type_synonym probe_error = "int option \<times> string"

definition redacted :: string where "redacted = ''[REDACTED]''"

definition redact_secret :: "string \<Rightarrow> probe_error \<Rightarrow> probe_error" where
  "redact_secret secret e =
     (fst e, if secret = [] then snd e else replace_all secret redacted (snd e))"

definition decode_http_error :: "int \<Rightarrow> string \<Rightarrow> probe_error" where
  "decode_http_error status body =
     (let trimmed = trim_space (take 2048 body) in
      (Some status, ''service returned status '' @ itoa status @ (if trimmed = [] then [] else '': '' @ trimmed)))"

definition json_answer :: "string \<Rightarrow> 'a http_reply \<Rightarrow> probe_error + 'a" where
  "json_answer secret r =
     (case r of
        NoAnswer t \<Rightarrow> Inl (redact_secret secret (None, t))
      | BadStatus status body \<Rightarrow> Inl (redact_secret secret (decode_http_error status body))
      | BadBody t \<Rightarrow> Inl (redact_secret secret (None, t))
      | Document d \<Rightarrow> Inr d)"

definition scrape_answer :: "'f floats \<Rightarrow> string \<Rightarrow> string http_reply \<Rightarrow> probe_error + 'f metrics" where
  "scrape_answer fl secret r =
     (case r of
        NoAnswer t \<Rightarrow> Inl (redact_secret secret (None, t))
      | BadStatus status body \<Rightarrow>
          Inl (redact_secret secret (Some status, ''inference metrics returned '' @ itoa status))
      | BadBody t \<Rightarrow> Inl (None, t)
      | Document body \<Rightarrow> Inr (scrape_body fl body))"

definition wrap_probe :: "string \<Rightarrow> probe_error \<Rightarrow> probe_error" where
  "wrap_probe pre e = (fst e, pre @ snd e)"

definition is_authorization_error :: "probe_error \<Rightarrow> bool" where
  "is_authorization_error e \<longleftrightarrow> fst e = Some 401 \<or> fst e = Some 403"

section \<open>The test of a service\<close>

record service_result =
  sr_type :: string
  sr_message :: string
  sr_response :: string
  sr_model :: string
  sr_prompt :: string
  sr_metrics_ready :: bool

text \<open>A decoded JSON value, as far as the test looks into one.\<close>

datatype json_value = JsonString string | JsonArray "json_value list" | JsonOther

text \<open>
  The answers of a service, by address and, where one is sent, by request body and key: the
  identifiers of \<^verbatim>\<open>/v1/models\<close>, the contents of the chat choices, the required inputs by node of
  the ComfyUI metadata, the prompt identifier, and the metrics text.
\<close>

record service_env =
  sv_models :: "string \<Rightarrow> string \<Rightarrow> string list http_reply"
  sv_chat :: "string \<Rightarrow> string \<Rightarrow> string \<Rightarrow> string list http_reply"
  sv_nodes :: "string \<Rightarrow> (string \<times> (string \<times> json_value list) list) list http_reply"
  sv_prompt :: "string \<Rightarrow> string \<Rightarrow> string http_reply"
  sv_metrics :: "string \<Rightarrow> string \<Rightarrow> string http_reply"

definition infer_service_kind :: "string \<Rightarrow> string" where
  "infer_service_kind img =
     (if is_vllm_image img then ''vllm'' else if is_sglang_image img then ''sglang''
      else if is_tensorfold_image img then ''tensorfold'' else if is_llamacpp_image img then ''llamacpp''
      else if is_comfyui_image img then ''comfyui'' else ''unknown'')"

definition trim_for_display :: "string \<Rightarrow> nat \<Rightarrow> string" where
  "trim_for_display text n =
     (let s = join_with '' '' (str_fields text) in
      if n = 0 \<or> length s \<le> n then s else if n \<le> 3 then take n s else take (n - 3) s @ ''...'')"

definition served_model_id :: "service_env \<Rightarrow> string \<Rightarrow> string \<Rightarrow> probe_error + string" where
  "served_model_id env base key =
     (case json_answer key (sv_models env (base @ ''/v1/models'') key) of
        Inl e \<Rightarrow> Inl (wrap_probe ''fetching served models: '' e)
      | Inr ids \<Rightarrow>
          if ids = [] \<or> trim_space (hd ids) = [] then Inl (None, ''service did not report any served models'')
          else Inr (trim_space (hd ids)))"

text \<open>The chat request, its fields in the order of the encoder.\<close>

definition chat_body :: "string \<Rightarrow> string \<Rightarrow> string" where
  "chat_body kind model =
     json_object ([json_field ''max_tokens'' ''128'',
       json_field ''messages'' (json_array [json_object
         [json_field ''content'' (json_string ''Reply with exactly: ok''), json_field ''role'' (json_string ''user'')]]),
       json_field ''model'' (json_string model)] @
       (if kind = ''sglang'' then [json_field ''reasoning_effort'' (json_string ''low'')] else []) @
       [json_field ''temperature'' ''0''])"

definition openai_test :: "service_env \<Rightarrow> string \<Rightarrow> string \<Rightarrow> string \<Rightarrow> probe_error + service_result" where
  "openai_test env base kind key =
     (case served_model_id env base key of
        Inl e \<Rightarrow> Inl e
      | Inr model \<Rightarrow>
          (case json_answer key (sv_chat env (base @ ''/v1/chat/completions'') (chat_body kind model) key) of
             Inl e \<Rightarrow> Inl e
           | Inr choices \<Rightarrow>
               (let content = trim_space (if choices = [] then [] else hd choices) in
                if content = [] then Inl (None, kind @ '' test returned no response text'')
                else if \<not> equal_fold content ''ok''
                  then Inl (None, kind @ '' test response must be exactly ok, got '' @
                         go_quote (trim_for_display content 80))
                else Inr \<lparr>sr_type = kind, sr_message = kind @ '' chat test passed with model '' @ model,
                          sr_response = content, sr_model = model, sr_prompt = [], sr_metrics_ready = False\<rparr>)))"

definition comfy_checkpoint :: "(string \<times> (string \<times> json_value list) list) list \<Rightarrow> probe_error + string" where
  "comfy_checkpoint nodes =
     (case map_of nodes ''CheckpointLoaderSimple'' of
        None \<Rightarrow> Inl (None, ''ComfyUI did not return CheckpointLoaderSimple metadata'')
      | Some required \<Rightarrow>
          (case map_of required ''ckpt_name'' of
             None \<Rightarrow> Inl (None, ''ComfyUI did not report any checkpoint names'')
           | Some [] \<Rightarrow> Inl (None, ''ComfyUI did not report any checkpoint names'')
           | Some (JsonArray (JsonString name # _) # _) \<Rightarrow>
               if trim_space name = [] then Inl (None, ''ComfyUI reported an empty checkpoint name'') else Inr name
           | Some (JsonArray (_ # _) # _) \<Rightarrow> Inl (None, ''ComfyUI reported an empty checkpoint name'')
           | Some _ \<Rightarrow> Inl (None, ''ComfyUI checkpoint metadata was malformed'')))"

definition comfy_node :: "string \<Rightarrow> string \<Rightarrow> string list \<Rightarrow> string" where
  "comfy_node number kind inputs =
     json_field number (json_object [json_field ''class_type'' (json_string kind), json_field ''inputs'' (json_object inputs)])"

definition comfy_link :: "string \<Rightarrow> string \<Rightarrow> string \<Rightarrow> string" where
  "comfy_link name node port = json_field name (json_array [json_string node, port])"

definition comfy_body :: "string \<Rightarrow> string" where
  "comfy_body ckpt =
     json_object [json_field ''client_id'' (json_string ''yokai-smoketest''),
       json_field ''prompt'' (json_object
         [comfy_node ''3'' ''KSampler''
            [json_field ''cfg'' ''1'', json_field ''denoise'' ''1'', comfy_link ''latent_image'' ''5'' ''0'',
             comfy_link ''model'' ''4'' ''0'', comfy_link ''negative'' ''7'' ''0'', comfy_link ''positive'' ''6'' ''0'',
             json_field ''sampler_name'' (json_string ''euler''), json_field ''scheduler'' (json_string ''normal''),
             json_field ''seed'' ''1'', json_field ''steps'' ''1''],
          comfy_node ''4'' ''CheckpointLoaderSimple'' [json_field ''ckpt_name'' (json_string ckpt)],
          comfy_node ''5'' ''EmptyLatentImage''
            [json_field ''batch_size'' ''1'', json_field ''height'' ''512'', json_field ''width'' ''512''],
          comfy_node ''6'' ''CLIPTextEncode''
            [comfy_link ''clip'' ''4'' ''1'', json_field ''text'' (json_string ''a simple grey square'')],
          comfy_node ''7'' ''CLIPTextEncode'' [comfy_link ''clip'' ''4'' ''1'', json_field ''text'' (json_string [])],
          comfy_node ''8'' ''VAEDecode'' [comfy_link ''samples'' ''3'' ''0'', comfy_link ''vae'' ''4'' ''2''],
          comfy_node ''9'' ''SaveImage''
            [json_field ''filename_prefix'' (json_string ''yokai_test''), comfy_link ''images'' ''8'' ''0'']])]"

definition comfy_test :: "service_env \<Rightarrow> string \<Rightarrow> probe_error + service_result" where
  "comfy_test env base =
     (case json_answer [] (sv_nodes env (base @ ''/object_info/CheckpointLoaderSimple'')) of
        Inl e \<Rightarrow> Inl (wrap_probe ''fetching ComfyUI checkpoint metadata: '' e)
      | Inr nodes \<Rightarrow>
          (case comfy_checkpoint nodes of
             Inl e \<Rightarrow> Inl e
           | Inr ckpt \<Rightarrow>
               (case json_answer [] (sv_prompt env (base @ ''/prompt'') (comfy_body ckpt)) of
                  Inl e \<Rightarrow> Inl e
                | Inr prompt \<Rightarrow>
                    if trim_space prompt = [] then Inl (None, ''ComfyUI test was accepted without a prompt_id'')
                    else Inr \<lparr>sr_type = ''comfyui'',
                              sr_message = ''ComfyUI workflow test queued with checkpoint '' @ ckpt @ '' (prompt '' @ prompt @ '')'',
                              sr_response = [], sr_model = [], sr_prompt = prompt, sr_metrics_ready = False\<rparr>)))"

definition has_native_family :: "string \<Rightarrow> 'f metrics \<Rightarrow> bool" where
  "has_native_family kind m =
     (if kind = ''sglang'' then mt_sglang m else if kind = ''vllm'' then mt_vllm m
      else if kind = ''tensorfold'' then mt_tensorfold m
      else mt_sglang m \<or> mt_vllm m \<or> mt_tensorfold m)"

definition metrics_gate ::
  "'f floats \<Rightarrow> service_env \<Rightarrow> string \<Rightarrow> string \<Rightarrow> service_result \<Rightarrow> probe_error + service_result" where
  "metrics_gate fl env base key result =
     (case scrape_answer fl key (sv_metrics env (base @ ''/metrics'') key) of
        Inl e \<Rightarrow> Inl (wrap_probe ''required inference metrics gate failed: '' e)
      | Inr m \<Rightarrow>
          if has_native_family (sr_type result) m then Inr (result\<lparr>sr_metrics_ready := True\<rparr>)
          else Inl (None, ''required inference metrics gate failed: no recognized '' @ sr_type result @
                 '' native metric family''))"

definition test_service ::
  "'f floats \<Rightarrow> service_env \<Rightarrow> 'm inv_container \<Rightarrow> bool \<Rightarrow> string \<Rightarrow> probe_error + service_result" where
  "test_service fl env c require_metrics key =
     (case container_base_url c of
        Inl e \<Rightarrow> Inl (None, err_text e)
      | Inr base \<Rightarrow>
          (let img = ic_image c;
               tested = (if is_vllm_image img \<or> is_sglang_image img \<or> is_tensorfold_image img \<or> is_llamacpp_image img
                         then openai_test env base (infer_service_kind img) key
                         else if is_comfyui_image img then comfy_test env base
                         else Inl (None, ''service test is not supported for image '' @ img))
           in case tested of
                Inl e \<Rightarrow> Inl e
              | Inr result \<Rightarrow> if require_metrics then metrics_gate fl env base key result else Inr result))"

text \<open>
  \<^verbatim>\<open>handleContainerTest\<close>. \<open>recipe\<close> answers for a resource of the TensorFold driver (the error of
  observing it, or the outcome of its test) when that driver runs; \<open>body\<close> is the key of the request
  body, empty for an empty body and \<open>None\<close> when it does not decode.
\<close>

datatype test_reply = TestError int string string | TestPassed service_result

definition selects_container :: "string \<Rightarrow> 'm inv_container \<Rightarrow> bool" where
  "selects_container i c \<longleftrightarrow> ic_id c = i \<or> has_prefix (ic_id c) i \<or> ic_name c = i"

definition api_key_token :: "string \<Rightarrow> bool" where
  "api_key_token key \<longleftrightarrow> length key \<le> 512 \<and> \<not> has_space key \<and> \<not> has_control key"

definition container_test ::
  "'f floats \<Rightarrow> service_env \<Rightarrow> 'm inventory_env \<Rightarrow> (string \<Rightarrow> string + (string + service_result)) option \<Rightarrow>
   string \<Rightarrow> bool \<Rightarrow> string option \<Rightarrow> test_reply" where
  "container_test fl env docker recipe i require_metrics body =
     (if i = [] then TestError 400 ''missing_id'' ''Container ID is required''
      else case (if has_prefix i ''tensorfold:'' then recipe else None) of
        Some observe \<Rightarrow>
          (case observe (trim_prefix i ''tensorfold:'') of
             Inl e \<Rightarrow> TestError 409 ''tensorfold_resource_invalid'' e
           | Inr (Inl e) \<Rightarrow> TestError 502 ''tensorfold_readiness_failed'' e
           | Inr (Inr result) \<Rightarrow> TestPassed result)
      | None \<Rightarrow>
          (case list_containers docker ''all'' of
             Inl e \<Rightarrow> TestError 500 ''docker_error'' (err_text e)
           | Inr cs \<Rightarrow>
               (case find (selects_container i) cs of
                  None \<Rightarrow> TestError 404 ''container_not_found'' (''Container '' @ i @ '' not found'')
                | Some c \<Rightarrow>
                    (case body of
                       None \<Rightarrow> TestError 400 ''invalid_json'' ''Invalid JSON body''
                     | Some key \<Rightarrow>
                         if key \<noteq> [] \<and> \<not> api_key_token key
                         then TestError 400 ''invalid_api_key''
                                ''API key must be a single non-control token of at most 512 characters''
                         else (case test_service fl env c require_metrics key of
                             Inr result \<Rightarrow> TestPassed result
                           | Inl e \<Rightarrow>
                               if is_authorization_error e
                               then TestError 502 ''service_unauthorized'' ''model service rejected the API key''
                               else TestError 500 ''service_test_failed'' (snd e))))))"

section \<open>The samples an agent writes\<close>

definition escape_label_value :: "string \<Rightarrow> string" where
  "escape_label_value v =
     replace_all [CHR 0x0A] [backslash, CHR ''n'']
       (replace_all [quote] [backslash, quote] (replace_all [backslash] [backslash, backslash] v))"

definition label_sample :: "string \<times> string \<Rightarrow> string" where
  "label_sample kv = fst kv @ [CHR ''='', quote] @ escape_label_value (snd kv) @ [quote]"

text \<open>\<^verbatim>\<open>writePrometheusSample\<close>: the line without its newline; labels by key.\<close>

definition sample_line :: "string \<Rightarrow> gomap \<Rightarrow> string \<Rightarrow> string" where
  "sample_line name labels value =
     name @ (if labels = [] then []
             else ''{'' @ join_with '','' (map label_sample (sort_key fst labels)) @ ''}'') @ '' '' @ value"

end
