(* ===== verification/Agent_Probe_Properties.thy ===== *)
theory Agent_Probe_Properties
  imports Agent_Probe
begin

text \<open>
  The samples an agent writes are read back by its own parser, up to the characters that parser
  does not undo; the metrics gate needs a recognised sample; errors of a service test do not show
  the API key they were made with.
\<close>

section \<open>Replacing\<close>

lemma replace_all_char: "replace_all [x] new s = concat (map (\<lambda>c. if c = x then new else [c]) s)"
  by (induction s) (auto simp: has_prefix_def)

definition escape_quotes :: "string \<Rightarrow> string" where
  "escape_quotes v = concat (map (\<lambda>c. if c = quote then [backslash, quote] else [c]) v)"

text \<open>A label value the reader restores: no backslash, no newline, no closing brace.\<close>

definition plain_value :: "string \<Rightarrow> bool" where
  "plain_value v \<longleftrightarrow> backslash \<notin> set v \<and> CHR 0x0A \<notin> set v \<and> CHR ''}'' \<notin> set v"

lemma concat_map_same: "\<forall>c \<in> set s. f c = [c] \<Longrightarrow> concat (map f s) = s"
  by (induction s) auto

lemma escape_plain: "plain_value v \<Longrightarrow> escape_label_value v = escape_quotes v"
proof -
  assume v: "plain_value v"
  have "concat (map (\<lambda>c. if c = backslash then [backslash, backslash] else [c]) v) = v"
    by (rule concat_map_same) (use v in \<open>auto simp: plain_value_def\<close>)
  moreover have "concat (map (\<lambda>c. if c = CHR 0x0A then [backslash, CHR ''n''] else [c]) (escape_quotes v)) = escape_quotes v"
    by (rule concat_map_same) (use v in \<open>auto simp: plain_value_def escape_quotes_def\<close>)
  ultimately show ?thesis by (simp add: escape_label_value_def replace_all_char escape_quotes_def)
qed

lemma unescape_quotes: "backslash \<notin> set v \<Longrightarrow> replace_all [backslash, quote] [quote] (escape_quotes v) = v"
  by (induction v) (auto simp: escape_quotes_def has_prefix_def)

lemma quoted_text_escape:
  "plain_value v \<Longrightarrow> quoted_text (escape_quotes v @ quote # r) = Some (escape_quotes v, r)"
proof (induction v)
  case Nil
  show ?case by (cases r) (simp_all add: escape_quotes_def)
next
  case (Cons c v)
  then have "quoted_text (escape_quotes v @ quote # r) = Some (escape_quotes v, r)" and "c \<noteq> backslash"
    by (auto simp: plain_value_def)
  then show ?case by (cases "escape_quotes v") (auto simp: escape_quotes_def Let_def split: list.splits)
qed

section \<open>Reading a sample back\<close>

definition label_key :: "string \<Rightarrow> bool" where
  "label_key k \<longleftrightarrow> k \<noteq> [] \<and> key_start (hd k) \<and> list_all key_char k"

lemma key_char_separators [simp]: "\<not> key_char CHR ''=''" "\<not> key_char CHR '',''"
  by (simp_all add: key_char_def key_start_def is_letter_def is_digit_def)

lemma takeWhile_key: "label_key k \<Longrightarrow> takeWhile key_char (k @ CHR ''='' # s) = k \<and> dropWhile key_char (k @ CHR ''='' # s) = CHR ''='' # s"
  by (induction k) (auto simp: label_key_def list_all_iff takeWhile_append2 dropWhile_append2)

lemma label_match_sample:
  assumes "label_key k" and "plain_value v"
  shows "label_match (label_sample (k, v) @ r) = Some (k, escape_quotes v, r)"
proof -
  have t: "label_sample (k, v) @ r = k @ CHR ''='' # quote # escape_quotes v @ quote # r"
    by (simp add: label_sample_def escape_plain [OF assms(2)])
  show ?thesis
    unfolding t label_match_def
    using takeWhile_key [OF assms(1)] quoted_text_escape [OF assms(2)] assms(1)
    by (simp add: label_key_def has_prefix_def)
qed

lemma label_matches_Nil: "label_matches [] = []"
  by (simp add: label_matches.simps [of "[]"] label_match_def)

lemma label_matches_comma: "label_matches (CHR '','' # s) = label_matches s"
  by (simp add: label_matches.simps [of "CHR '','' # s"] label_match_def)

lemma label_matches_samples:
  "\<forall>(k, v) \<in> set kvs. label_key k \<and> plain_value v \<Longrightarrow>
   label_matches (join_with '','' (map label_sample kvs)) = map (\<lambda>(k, v). (k, escape_quotes v)) kvs"
proof (induction kvs)
  case Nil
  show ?case by (simp add: label_matches_Nil)
next
  case (Cons kv kvs)
  obtain k v where kv: "kv = (k, v)" by (cases kv)
  with Cons.prems have m: "label_match (label_sample kv @ r) = Some (k, escape_quotes v, r)" for r
    using label_match_sample [of k v r] by simp
  show ?case
  proof (cases kvs)
    case Nil
    with m [of "[]"] kv show ?thesis
      by (simp add: label_matches.simps [of "label_sample (k, v)"] label_matches_Nil)
  next
    case (Cons kv' kvs')
    let ?rest = "join_with '','' (map label_sample kvs)"
    have "join_with '','' (map label_sample (kv # kvs)) = label_sample kv @ CHR '','' # ?rest"
      using Cons by simp
    moreover have "label_matches (label_sample kv @ CHR '','' # ?rest) = (k, escape_quotes v) # label_matches ?rest"
      using m by (subst label_matches.simps) (simp add: label_matches_comma)
    moreover have "label_matches ?rest = map (\<lambda>(k, v). (k, escape_quotes v)) kvs"
      using Cons.IH Cons.prems by simp
    ultimately show ?thesis using kv by simp
  qed
qed

lemma foldl_put_fresh:
  "distinct (map fst (m @ kvs)) \<Longrightarrow> foldl (\<lambda>m (k, v). map_put k (f v) m) m kvs = m @ map (\<lambda>(k, v). (k, f v)) kvs"
proof (induction kvs arbitrary: m)
  case (Cons kv kvs)
  obtain k v where kv: "kv = (k, v)" by (cases kv)
  have "map_put k w m = m @ [(k, w)]" for w
    using Cons.prems kv by (induction m) auto
  with Cons kv show ?case by simp
qed simp

lemma parse_labels_samples:
  assumes "\<forall>(k, v) \<in> set kvs. label_key k \<and> plain_value v" and "distinct (map fst kvs)"
  shows "parse_prometheus_labels (join_with '','' (map label_sample kvs)) = kvs"
proof -
  have "map (\<lambda>(k, v). (k, replace_all [backslash, quote] [quote] v)) (map (\<lambda>(k, v). (k, escape_quotes v)) kvs) = kvs"
    using assms(1) by (induction kvs) (auto simp: unescape_quotes plain_value_def)
  moreover have "distinct (map fst ([] @ map (\<lambda>(k, v). (k, escape_quotes v)) kvs))"
    using assms(2) by (simp add: comp_def case_prod_unfold)
  ultimately show ?thesis
    using foldl_put_fresh [of "[]" "map (\<lambda>(k, v). (k, escape_quotes v)) kvs" "replace_all [backslash, quote] [quote]"]
    by (simp add: parse_prometheus_labels_def label_matches_samples [OF assms(1)] case_prod_unfold)
qed

definition metric_name :: "string \<Rightarrow> bool" where
  "metric_name n \<longleftrightarrow> n \<noteq> [] \<and> list_all (\<lambda>c. \<not> re_blank c \<and> c \<noteq> CHR ''{'') n"

lemma number_text_head: "number_text s \<Longrightarrow> s \<noteq> [] \<and> \<not> re_blank (hd s)"
proof -
  assume n: "number_text s"
  then have ne: "s \<noteq> []"
    by (auto simp: number_text_def drop_sign_def digit_run_def)
  then obtain c t where s: "s = c # t" by (cases s) auto
  show ?thesis
  proof (rule conjI [OF ne], rule notI)
    assume "re_blank (hd s)"
    then have b: "(of_char c :: nat) \<in> {9, 10, 12, 13, 32}" by (simp add: s re_blank_def)
    then have "c \<notin> set ''-+''" "\<not> is_digit c" "c \<noteq> CHR ''.''" by (auto simp: is_digit_def)
    with n show False by (simp add: s number_text_def drop_sign_def digit_run_def)
  qed
qed

lemma brace_not_key: "label_key k \<Longrightarrow> CHR ''}'' \<notin> set k"
  by (auto simp: label_key_def list_all_iff key_char_def key_start_def is_letter_def is_digit_def)

lemma not_in_join: "\<forall>t \<in> set ts. c \<notin> set t \<Longrightarrow> c \<notin> set sep \<Longrightarrow> c \<notin> set (join_with sep ts)"
  by (induction ts rule: induct_list012) auto

lemma brace_not_sample:
  assumes "\<forall>(k, v) \<in> set kvs. label_key k \<and> plain_value v"
  shows "CHR ''}'' \<notin> set (join_with '','' (map label_sample kvs))"
proof -
  have "CHR ''}'' \<notin> set (label_sample (k, v))" if "label_key k" "plain_value v" for k v
    using brace_not_key [OF that(1)] that(2)
    by (auto simp: label_sample_def escape_plain [OF that(2)] escape_quotes_def plain_value_def)
  with assms have "\<forall>t \<in> set (map label_sample kvs). CHR ''}'' \<notin> set t" by auto
  then show ?thesis by (intro not_in_join) auto
qed

lemma takeWhile_until: "c \<notin> set s \<Longrightarrow> takeWhile (\<lambda>d. d \<noteq> c) (s @ c # t) = s"
  by (induction s) auto

lemma metric_parts_sample:
  assumes n: "metric_name name" and v: "number_text value"
    and l: "labels = [] \<or> CHR ''}'' \<notin> set raw"
  shows "metric_parts (name @ (if labels = [] then [] else ''{'' @ raw @ ''}'') @ '' '' @ value) =
    Some (name, if labels = [] then [] else raw, value)"
proof -
  have head: "value \<noteq> []" "\<not> re_blank (hd value)" using number_text_head [OF v] by simp_all
  then have drop: "dropWhile re_blank (CHR '' '' # value) = value"
    by (cases "value") (auto simp: re_blank_def)
  have blank: "re_blank CHR '' ''" "\<not> re_blank CHR ''{''" by (simp_all add: re_blank_def)
  have take: "takeWhile (\<lambda>c. \<not> re_blank c \<and> c \<noteq> CHR ''{'') (name @ x # r) = name"
    if "re_blank x \<or> x = CHR ''{''" for x r
    using n that by (auto simp: metric_name_def list_all_iff takeWhile_append2)
  show ?thesis
  proof (cases "labels = []")
    case True
    then show ?thesis
      using take [of "CHR '' ''" "value"] n v drop blank
      by (simp add: metric_parts_def metric_name_def)
  next
    case False
    with l have "takeWhile (\<lambda>c. c \<noteq> CHR ''}'') (raw @ ''}'' @ '' '' @ value) = raw"
      by (simp add: takeWhile_until)
    then show ?thesis
      using False take [of "CHR ''{''" "raw @ ''}'' @ '' '' @ value"] n v drop blank
      by (simp add: metric_parts_def metric_name_def)
  qed
qed

text \<open>
  C22: the line an agent writes for a sample is read back by the parser of scraped metrics as the
  same name, the same labels (in the order of their keys) and the number its text denotes, when the
  label values have no backslash, newline or closing brace.
\<close>

theorem sample_line_read_back:
  assumes "metric_name name" and "number_text value" and "distinct (map fst labels)"
    and "\<forall>(k, v) \<in> set labels. label_key k \<and> plain_value v"
  shows "parse_metric_line fl (sample_line name labels value) =
    map_option (\<lambda>x. (name, sort_key fst labels, x)) (fl_parse fl value)"
proof -
  let ?raw = "join_with '','' (map label_sample (sort_key fst labels))"
  have l: "\<forall>(k, v) \<in> set (sort_key fst labels). label_key k \<and> plain_value v" using assms(4) by simp
  have d: "distinct (map fst (sort_key fst labels))"
    using assms(3) by (metis distinct_map distinct_sort set_sort)
  have "metric_parts (sample_line name labels value) = Some (name, if labels = [] then [] else ?raw, value)"
    unfolding sample_line_def
    by (rule metric_parts_sample [OF assms(1,2)]) (use brace_not_sample [OF l] in simp)
  moreover have "parse_prometheus_labels (if labels = [] then [] else ?raw) = sort_key fst labels"
    using parse_labels_samples [OF l d]
    by (simp add: parse_prometheus_labels_def label_matches_Nil)
  ultimately show ?thesis by (simp add: parse_metric_line_def)
qed

definition unit_floats :: "int floats" where
  "unit_floats = \<lparr>fl_parse = (\<lambda>s. if s = ''1'' then Some 1 else None), fl_zero = 0, fl_add = (+), fl_positive = (\<lambda>x. 0 < x)\<rparr>"

theorem sample_line_read_back_witness:
  "parse_metric_line unit_floats (sample_line ''yokai_service_up'' [(''model'', [CHR ''a'', quote]), (''backend'', ''vllm'')] ''1'') =
    Some (''yokai_service_up'', [(''backend'', ''vllm''), (''model'', [CHR ''a'', quote])], 1)"
proof -
  have n: "metric_name ''yokai_service_up''" by (simp add: metric_name_def re_blank_def)
  have v: "number_text ''1''" by (simp add: number_text_def drop_sign_def digit_run_def exponent_text_def is_digit_def)
  have l: "\<forall>(k, v) \<in> set [(''model'', [CHR ''a'', quote]), (''backend'', ''vllm'')]. label_key k \<and> plain_value v"
    by (simp add: label_key_def key_char_def key_start_def is_letter_def plain_value_def)
  show ?thesis
    using sample_line_read_back [OF n v _ l, of unit_floats] by (simp add: unit_floats_def)
qed

text \<open>
  Outside that: a closing brace in a label value loses the sample, and a backslash comes back
  doubled, since only the escape of a quote is undone.
\<close>

lemma brace_in_label_loses_sample:
  "parse_metric_line fl (sample_line ''up'' [(''model'', ''a}b'')] ''1'') = None"
proof -
  have e: "escape_label_value ''a}b'' = ''a}b''"
    by (simp add: escape_label_value_def replace_all_char has_prefix_def)
  have t: "sample_line ''up'' [(''model'', ''a}b'')] ''1'' = ''up'' @ CHR ''{'' # (''model='' @ quote # ''a'') @ CHR ''}'' # CHR ''b'' # quote # ''} 1''"
    by (simp add: sample_line_def label_sample_def e)
  have n: "takeWhile (\<lambda>c. \<not> re_blank c \<and> c \<noteq> CHR ''{'') (''up'' @ CHR ''{'' # r) = ''up''" for r
    by (simp add: re_blank_def)
  have l: "takeWhile (\<lambda>c. c \<noteq> CHR ''}'') ((''model='' @ quote # ''a'') @ CHR ''}'' # r) = ''model='' @ quote # ''a''" for r
    by simp
  have "metric_parts (sample_line ''up'' [(''model'', ''a}b'')] ''1'') = None"
    unfolding t metric_parts_def n Let_def by (simp add: re_blank_def)
  then show ?thesis by (simp add: parse_metric_line_def)
qed

lemma backslash_comes_back_doubled:
  "parse_prometheus_labels (label_sample (''model'', [backslash])) = [(''model'', [backslash, backslash])]"
proof -
  have t: "label_sample (''model'', [backslash]) = ''model'' @ CHR ''='' # quote # [backslash, backslash, quote]"
    by (simp add: label_sample_def escape_label_value_def replace_all_char has_prefix_def)
  have q: "quoted_text [backslash, backslash, quote] = Some ([backslash, backslash], [])"
    by (simp add: Let_def)
  have k: "label_key ''model''" by (simp add: label_key_def key_char_def key_start_def is_letter_def)
  have "label_match (label_sample (''model'', [backslash])) = Some (''model'', [backslash, backslash], [])"
    unfolding t label_match_def using takeWhile_key [OF k] q k by (simp add: label_key_def has_prefix_def)
  then show ?thesis
    by (simp add: parse_prometheus_labels_def label_matches.simps [of "label_sample (''model'', [backslash])"]
      label_matches_Nil has_prefix_def)
qed

section \<open>The key of a request\<close>

lemma replaced_prefix:
  "CHR ''['' \<notin> set t \<Longrightarrow> has_prefix (replace_all s redacted m) t \<Longrightarrow> has_prefix m t"
proof (induction s redacted m arbitrary: t rule: replace_all.induct)
  case (2 old c m)
  show ?case
  proof (cases "old \<noteq> [] \<and> has_prefix (c # m) old")
    case True
    with 2(3,4) show ?thesis by (cases t) (auto simp: redacted_def has_prefix_def)
  next
    case False
    with 2(4) have "t = [] \<or> (\<exists>u. t = c # u \<and> has_prefix (replace_all old redacted m) u)"
      by (cases t) (auto simp: has_prefix_def)
    with 2(2) [OF False] 2(3) show ?thesis by (auto simp: has_prefix_def)
  qed
qed simp

lemma redacted_hides_secret:
  assumes "s \<noteq> []" and "CHR ''['' \<notin> set s" and "CHR '']'' \<notin> set s" and "\<not> str_contains ''REDACTED'' s"
  shows "\<not> str_contains (replace_all s redacted m) s"
proof (induction m rule: measure_induct_rule [of length])
  case (less m)
  show ?case
  proof (cases m)
    case Nil
    with assms(1) show ?thesis by simp
  next
    case (Cons c m')
    show ?thesis
    proof (cases "has_prefix m s")
      case True
      let ?rest = "replace_all s redacted (drop (length s) m)"
      have r: "replace_all s redacted m = ([] @ CHR ''['' # (''REDACTED'' @ CHR '']'' # ?rest))"
        using True assms(1) Cons by (simp add: redacted_def)
      have "\<not> str_contains ?rest s"
        by (rule less.IH) (use assms(1) Cons in \<open>cases s; simp\<close>)
      then show ?thesis
        using assms unfolding r by (simp add: str_contains_sep del: append.simps)
    next
      case False
      have r: "replace_all s redacted m = c # replace_all s redacted m'" using False Cons by simp
      have "\<not> has_prefix (replace_all s redacted m) s"
        using replaced_prefix [OF assms(2)] False by blast
      moreover have "\<not> str_contains (replace_all s redacted m') s" by (rule less.IH) (simp add: Cons)
      ultimately show ?thesis unfolding r by simp
    qed
  qed
qed

text \<open>
  Where a test of a service sends its key: to an inference server, never in the test of ComfyUI
  itself, and nowhere when there is no address or no test for the image.
\<close>

definition inference_image :: "string \<Rightarrow> bool" where
  "inference_image img \<longleftrightarrow>
     is_vllm_image img \<or> is_sglang_image img \<or> is_tensorfold_image img \<or> is_llamacpp_image img"

definition keyless_error :: "service_env \<Rightarrow> 'm inv_container \<Rightarrow> probe_error \<Rightarrow> bool" where
  "keyless_error env c e \<longleftrightarrow>
     (case container_base_url c of
        Inl err \<Rightarrow> e = (None, err_text err)
      | Inr base \<Rightarrow> \<not> inference_image (ic_image c) \<and>
          (if is_comfyui_image (ic_image c) then comfy_test env base = Inl e
           else e = (None, ''service test is not supported for image '' @ ic_image c)))"

text \<open>
  The two errors that carry text of the service as it is: the answer of the chat that is not "ok",
  and a metrics body that could not be read.
\<close>

definition service_words :: "service_env \<Rightarrow> 'm inv_container \<Rightarrow> string \<Rightarrow> string \<Rightarrow> bool" where
  "service_words env c key message \<longleftrightarrow>
     (\<exists>base. container_base_url c = Inr base \<and>
        ((\<exists>model choices. choices \<noteq> [] \<and>
            sv_chat env (base @ ''/v1/chat/completions'') (chat_body (infer_service_kind (ic_image c)) model) key =
              Document choices \<and>
            message = infer_service_kind (ic_image c) @ '' test response must be exactly ok, got '' @
              go_quote (trim_for_display (trim_space (hd choices)) 80)) \<or>
         (\<exists>t. sv_metrics env (base @ ''/metrics'') key = BadBody t \<and>
            message = ''required inference metrics gate failed: '' @ t)))"

text \<open>A key that can be found only where it was put: long enough, one word, without brackets.\<close>

definition distinct_key :: "string \<Rightarrow> bool" where
  "distinct_key key \<longleftrightarrow> 11 \<le> length key \<and> CHR '' '' \<notin> set key \<and> CHR ''['' \<notin> set key \<and> CHR '']'' \<notin> set key"

definition short_words :: "string \<Rightarrow> bool" where
  "short_words t \<longleftrightarrow> list_all (\<lambda>w. length w < 11) (split_char CHR '' '' t)"

lemma short_words_free: "distinct_key key \<Longrightarrow> short_words t \<Longrightarrow> \<not> str_contains t key"
proof
  assume k: "distinct_key key" and t: "short_words t" and c: "str_contains t key"
  have key: "key \<noteq> []" "CHR '' '' \<notin> set key" using k by (auto simp: distinct_key_def)
  have "str_contains (join_with '' '' (split_char CHR '' '' t)) key" using c by (simp add: join_split_char)
  then obtain w where w: "w \<in> set (split_char CHR '' '' t)" "str_contains w key"
    using str_contains_join [OF key] by blast
  then obtain u v where "w = u @ key @ v" unfolding str_contains_iff by blast
  with w(1) t k show False by (auto simp: short_words_def list_all_iff distinct_key_def)
qed

lemma redacted_free: "distinct_key key \<Longrightarrow> \<not> str_contains (snd (redact_secret key e)) key"
proof -
  assume k: "distinct_key key"
  then have "\<not> str_contains ''REDACTED'' key"
    by (rule short_words_free) (simp add: short_words_def)
  then have "\<not> str_contains (replace_all key redacted (snd e)) key"
    using k by (intro redacted_hides_secret) (auto simp: distinct_key_def)
  moreover have "key \<noteq> []" using k by (auto simp: distinct_key_def)
  ultimately show ?thesis by (simp add: redact_secret_def)
qed

lemma wrapped_free:
  assumes "distinct_key key" "short_words (butlast pre)" "last pre = CHR '' ''" "pre \<noteq> []" and "\<not> str_contains m key"
  shows "\<not> str_contains (pre @ m) key"
proof -
  have eq: "pre @ m = butlast pre @ CHR '' '' # m"
    using append_butlast_last_id [OF assms(4)] assms(3) by (metis append.assoc append_Cons append_Nil)
  have key: "key \<noteq> []" "CHR '' '' \<notin> set key" using assms(1) by (auto simp: distinct_key_def)
  show ?thesis
    unfolding eq str_contains_sep [OF key] using assms(5) short_words_free [OF assms(1,2)] by simp
qed

lemma json_answer_free:
  "distinct_key key \<Longrightarrow> json_answer key r = Inl e \<Longrightarrow> \<not> str_contains (snd e) key"
  by (auto simp: json_answer_def redacted_free split: http_reply.splits)

lemma infer_kinds:
  "infer_service_kind img \<in> {''vllm'', ''sglang'', ''tensorfold'', ''llamacpp'', ''comfyui'', ''unknown''}"
  by (simp add: infer_service_kind_def)

lemma served_model_free:
  assumes "distinct_key key" "served_model_id env base key = Inl e"
  shows "\<not> str_contains (snd e) key"
proof -
  have wrap: "\<not> str_contains (''fetching served models: '' @ m) key" if "\<not> str_contains m key" for m
    by (rule wrapped_free [OF assms(1) _ _ _ that]) (simp_all add: short_words_def)
  have none: "\<not> str_contains ''service did not report any served models'' key"
    by (rule short_words_free [OF assms(1)]) (simp add: short_words_def)
  show ?thesis
  proof (cases "json_answer key (sv_models env (base @ ''/v1/models'') key)")
    case (Inl e')
    then have "e = wrap_probe ''fetching served models: '' e'" using assms(2) by (simp add: served_model_id_def)
    then have "snd e = ''fetching served models: '' @ snd e'" by (simp only: wrap_probe_def snd_conv)
    with wrap [OF json_answer_free [OF assms(1) Inl]] show ?thesis by (simp only: not_False_eq_True)
  next
    case (Inr ids)
    with assms(2) have "snd e = ''service did not report any served models''"
      by (auto simp: served_model_id_def split: if_splits)
    with none show ?thesis by (simp only: not_False_eq_True)
  qed
qed

lemma openai_test_free:
  assumes "distinct_key key" "container_base_url c = Inr base"
    and "openai_test env base (infer_service_kind (ic_image c)) key = Inl e"
  shows "\<not> str_contains (snd e) key \<or> service_words env c key (snd e)"
proof -
  let ?kind = "infer_service_kind (ic_image c)"
  have none: "\<not> str_contains (?kind @ '' test returned no response text'') key"
    by (rule short_words_free [OF assms(1)]) (use infer_kinds [of "ic_image c"] in \<open>auto simp: short_words_def\<close>)
  show ?thesis
  proof (cases "served_model_id env base key")
    case (Inl e')
    with assms(3) served_model_free [OF assms(1) Inl] show ?thesis by (simp add: openai_test_def)
  next
    case (Inr model)
    show ?thesis
    proof (cases "json_answer key (sv_chat env (base @ ''/v1/chat/completions'') (chat_body ?kind model) key)")
      case (Inl e')
      with assms(3) Inr json_answer_free [OF assms(1) Inl] show ?thesis by (simp add: openai_test_def)
    next
      case chat: (Inr choices)
      then have doc: "sv_chat env (base @ ''/v1/chat/completions'') (chat_body ?kind model) key = Document choices"
        by (simp add: json_answer_def split: http_reply.splits)
      show ?thesis
      proof (cases "trim_space (if choices = [] then [] else hd choices) = []")
        case True
        with assms(3) Inr chat have "snd e = ?kind @ '' test returned no response text''"
          by (auto simp: openai_test_def Let_def)
        with none show ?thesis by simp
      next
        case False
        then have "choices \<noteq> []" by (auto simp: trim_space_def go_str)
        with False assms(3) Inr chat
        have "snd e = ?kind @ '' test response must be exactly ok, got '' @
              go_quote (trim_for_display (trim_space (hd choices)) 80)"
          by (auto simp: openai_test_def Let_def split: if_splits)
        then show ?thesis
          using assms(2) doc \<open>choices \<noteq> []\<close> unfolding service_words_def by blast
      qed
    qed
  qed
qed

lemma metrics_gate_free:
  assumes "distinct_key key" "container_base_url c = Inr base"
    and "metrics_gate fl env base key result = Inl e" and "short_words (sr_type result)"
  shows "\<not> str_contains (snd e) key \<or> service_words env c key (snd e)"
proof -
  let ?pre = "''required inference metrics gate failed: ''"
  have wrap: "\<not> str_contains (?pre @ m) key" if "\<not> str_contains m key" for m
    by (rule wrapped_free [OF assms(1) _ _ _ that]) (simp_all add: short_words_def)
  have "key \<noteq> []" "CHR '' '' \<notin> set key" using assms(1) by (auto simp: distinct_key_def)
  then have "str_contains (''no recognized'' @ CHR '' '' # (sr_type result @ CHR '' '' # ''native metric family'')) key =
      (str_contains ''no recognized'' key \<or> str_contains (sr_type result) key \<or> str_contains ''native metric family'' key)"
    by (simp add: str_contains_sep del: append.simps)
  moreover have "\<not> str_contains ''no recognized'' key" "\<not> str_contains ''native metric family'' key"
    by (rule short_words_free [OF assms(1)], simp add: short_words_def)+
  ultimately have "\<not> str_contains (''no recognized '' @ sr_type result @ '' native metric family'') key"
    using short_words_free [OF assms(1,4)] by simp
  from wrap [OF this]
  have family: "\<not> str_contains (''required inference metrics gate failed: no recognized '' @ sr_type result @
      '' native metric family'') key"
    by simp
  show ?thesis
  proof (cases "sv_metrics env (base @ ''/metrics'') key")
    case (BadBody t)
    then have "snd e = ?pre @ t"
      using assms(3) by (auto simp: metrics_gate_def scrape_answer_def wrap_probe_def)
    with assms(2) BadBody have "service_words env c key (snd e)"
      unfolding service_words_def by blast
    then show ?thesis ..
  next
    case (NoAnswer t)
    then have "snd e = ?pre @ snd (redact_secret key (None, t))"
      using assms(3) by (auto simp: metrics_gate_def scrape_answer_def wrap_probe_def)
    with wrap [OF redacted_free [OF assms(1)]] show ?thesis by (simp only: not_False_eq_True simp_thms)
  next
    case (BadStatus st body)
    then have "snd e = ?pre @ snd (redact_secret key (Some st, ''inference metrics returned '' @ itoa st))"
      using assms(3) by (auto simp: metrics_gate_def scrape_answer_def wrap_probe_def)
    with wrap [OF redacted_free [OF assms(1)]] show ?thesis by (simp only: not_False_eq_True simp_thms)
  next
    case (Document body)
    then have "snd e = ''required inference metrics gate failed: no recognized '' @ sr_type result @
      '' native metric family''"
      using assms(3) by (auto simp: metrics_gate_def scrape_answer_def split: if_splits)
    with family show ?thesis by (simp only: not_False_eq_True simp_thms)
  qed
qed

lemma tested_types:
  "openai_test env base kind key = Inr result \<Longrightarrow> sr_type result = kind"
  "comfy_test env base = Inr result \<Longrightarrow> sr_type result = ''comfyui''"
  by (auto simp: openai_test_def comfy_test_def Let_def split: sum.splits if_splits)


definition probed_container :: "unit inv_container" where
  "probed_container = \<lparr>ic_id = ''c1'', ic_name = ''n1'', ic_image = ''vllm'', ic_status = ''running'',
     ic_ports = [(''8000'', ''8000'')], ic_created = None, ic_uptime = 0, ic_labels = [],
     ic_ownership = ''observed'', ic_metrics = None\<rparr>"

definition refusing_service :: service_env where
  "refusing_service = \<lparr>sv_models = (\<lambda>url key. BadStatus 401 ''bad key sk-secret123''),
     sv_chat = (\<lambda>url body key. NoAnswer []), sv_nodes = (\<lambda>url. NoAnswer []),
     sv_prompt = (\<lambda>url body. NoAnswer []), sv_metrics = (\<lambda>url key. NoAnswer [])\<rparr>"

definition echoing_service :: service_env where
  "echoing_service = refusing_service\<lparr>sv_models := (\<lambda>url key. Document [''m'']),
     sv_chat := (\<lambda>url body key. Document [''sk-secret123''])\<rparr>"

lemma probed_address: "container_base_url probed_container = Inr ''http://127.0.0.1:8000''"
  by (simp add: container_base_url_def probed_container_def managed_service_address_def join_host_port_def
      trim_space_def go_str Let_def)

lemma probed_image: "is_vllm_image (ic_image probed_container)"
  by (simp add: is_vllm_image_def probed_container_def to_lower_def go_str has_prefix_def)


text \<open>The first of the two exceptions is real: a service that repeats the key has it shown.\<close>

lemma chat_answer_shows_key:
  "\<exists>message. test_service unit_floats echoing_service probed_container False ''sk-secret123'' = Inl (None, message) \<and>
     str_contains message ''sk-secret123''"
proof -
  have "str_contains (infer_service_kind (ic_image probed_container) @ '' test response must be exactly ok, got '' @
      go_quote (trim_for_display ''sk-secret123'' 80)) ''sk-secret123''"
    by (simp add: infer_service_kind_def probed_image trim_for_display_def go_quote_def quote_char_def str_fields_def go_str has_prefix_def)
  moreover have "\<not> equal_fold ''sk-secret123'' ''ok''" by (simp add: equal_fold_def to_lower_def go_str)
  moreover have "trim_space ''sk-secret123'' = ''sk-secret123''" "trim_space ''m'' = ''m''"
    by (simp_all add: trim_space_def go_str)
  ultimately show ?thesis
    by (simp add: test_service_def probed_address probed_image openai_test_def served_model_id_def json_answer_def
        echoing_service_def refusing_service_def)
qed

section \<open>The metrics gate\<close>

lemma mark_native_vllm: "mt_vllm (mark_native name m) \<Longrightarrow> mt_vllm m \<or> has_prefix name ''vllm:''"
  by (auto simp: mark_native_def split: if_splits)

lemma add_sample_vllm:
  "mt_vllm (fst (add_sample fl name labels x (m, hits))) \<Longrightarrow> mt_vllm m \<or> has_prefix name ''vllm:''"
  unfolding add_sample_def Let_def prod.case
  by (split if_split_asm | drule mark_native_vllm | simp)+

lemma scrape_line_vllm:
  "mt_vllm (fst (scrape_line fl state raw)) \<Longrightarrow> mt_vllm (fst state) \<or>
   (\<exists>name labels x. parse_metric_line fl (trim_space raw) = Some (name, labels, x) \<and> has_prefix name ''vllm:'')"
  by (cases state)
    (auto simp: scrape_line_def Let_def split: if_splits option.splits dest!: add_sample_vllm)

text \<open>The gate of a vLLM service passes only on a line whose name has the prefix of the server.\<close>

lemma vllm_gate_needs_sample:
  assumes "mt_vllm (scrape_body fl body)"
  shows "\<exists>raw \<in> set (split_char CHR 0x0A (take 262144 body)). \<exists>name labels x.
    parse_metric_line fl (trim_space raw) = Some (name, labels, x) \<and> has_prefix name ''vllm:''"
proof -
  let ?P = "\<lambda>raw. \<exists>name labels x. parse_metric_line fl (trim_space raw) = Some (name, labels, x) \<and>
        has_prefix name ''vllm:''"
  have "mt_vllm (fst (foldl (scrape_line fl) state ls)) \<Longrightarrow> mt_vllm (fst state) \<or> (\<exists>raw \<in> set ls. ?P raw)" for state ls
  proof (induction ls arbitrary: state)
    case (Cons l ls)
    from Cons.IH [of "scrape_line fl state l"] Cons.prems
    have "mt_vllm (fst (scrape_line fl state l)) \<or> (\<exists>raw \<in> set ls. ?P raw)" by simp
    then show ?case by (elim disjE) (drule scrape_line_vllm, simp, blast, simp)
  qed simp
  note step = this [of "(no_metrics fl, fl_zero fl)" "split_char CHR 0x0A (take 262144 body)"]
  obtain m hits where f: "foldl (scrape_line fl) (no_metrics fl, fl_zero fl) (split_char CHR 0x0A (take 262144 body)) = (m, hits)"
    by (cases "foldl (scrape_line fl) (no_metrics fl, fl_zero fl) (split_char CHR 0x0A (take 262144 body))")
  have "mt_vllm (scrape_body fl body) = mt_vllm m" unfolding scrape_body_def f by simp
  with assms step f show ?thesis by (simp add: no_metrics_def)
qed

end
