(* ===== verification/Agent_Metrics.thy ===== *)
theory Agent_Metrics
  imports Agent_Probe
begin

text \<open>
  The metrics an agent reports: \<^verbatim>\<open>mergeContainerMetrics\<close>, \<^verbatim>\<open>handleMetrics\<close> and
  \<^verbatim>\<open>handleContainers\<close> of \<^verbatim>\<open>internal/agent/server.go\<close>, the GPUs and containers
  read from command output in \<^verbatim>\<open>metrics.go\<close>, and the Prometheus page of \<^verbatim>\<open>prometheus.go\<close>. Command
  output, floating point arithmetic and its texts are arguments.
\<close>

section \<open>Identifiers\<close>

definition short_container_id :: "string \<Rightarrow> string" where
  "short_container_id i =
     (let t = trim_space i in if has_prefix t ''tensorfold:'' then t else take 12 t)"

section \<open>Metrics of containers\<close>

record 'f container_metrics =
  cm_id :: string
  cm_name :: string
  cm_image :: string
  cm_status :: string
  cm_cpu :: 'f
  cm_memory :: int
  cm_uptime :: int
  cm_ports :: gomap
  cm_address :: string
  cm_health :: string
  cm_decode :: 'f
  cm_prefill :: 'f
  cm_prompt_total :: 'f
  cm_generated_total :: 'f
  cm_cached_total :: 'f

text \<open>
  The five service values are copied when there was a scrape; a value it did not see is zero.
\<close>

definition or_zero :: "'f floats \<Rightarrow> 'f option \<Rightarrow> 'f" where
  "or_zero fl x = (case x of None \<Rightarrow> fl_zero fl | Some y \<Rightarrow> y)"

definition copy_scrape :: "'f floats \<Rightarrow> 'f metrics option \<Rightarrow> 'f container_metrics \<Rightarrow> 'f container_metrics" where
  "copy_scrape fl scraped c =
     (case scraped of
        None \<Rightarrow> c
      | Some m \<Rightarrow> c\<lparr>cm_decode := or_zero fl (mt_decode m), cm_prefill := or_zero fl (mt_prefill m),
          cm_prompt_total := or_zero fl (mt_prompt_total m), cm_generated_total := or_zero fl (mt_generated_total m),
          cm_cached_total := or_zero fl (mt_cached_total m)\<rparr>)"

definition refresh_metrics ::
  "'f floats \<Rightarrow> 'f metrics inv_container \<Rightarrow> 'f container_metrics \<Rightarrow> 'f container_metrics" where
  "refresh_metrics fl c old =
     copy_scrape fl (ic_metrics c) (old\<lparr>
       cm_id := (if cm_id old = [] then short_container_id (ic_id c) else cm_id old),
       cm_name := (if cm_name old = [] then ic_name c else cm_name old),
       cm_status := ic_status c, cm_image := ic_image c, cm_uptime := ic_uptime c,
       cm_ports := ic_ports c, cm_address := managed_service_address c\<rparr>)"

definition fresh_metrics :: "'f floats \<Rightarrow> 'f metrics inv_container \<Rightarrow> 'f container_metrics" where
  "fresh_metrics fl c =
     copy_scrape fl (ic_metrics c)
       \<lparr>cm_id = short_container_id (ic_id c), cm_name = ic_name c, cm_image = ic_image c, cm_status = ic_status c,
        cm_cpu = fl_zero fl, cm_memory = 0, cm_uptime = ic_uptime c, cm_ports = ic_ports c,
        cm_address = managed_service_address c, cm_health = [], cm_decode = fl_zero fl, cm_prefill = fl_zero fl,
        cm_prompt_total = fl_zero fl, cm_generated_total = fl_zero fl, cm_cached_total = fl_zero fl\<rparr>"

text \<open>The list with the positions by short identifier and by name.\<close>

type_synonym 'f merge_state =
  "'f container_metrics list \<times> (string \<times> nat) list \<times> (string \<times> nat) list"

definition index_key :: "string \<Rightarrow> nat \<Rightarrow> (string \<times> nat) list \<Rightarrow> (string \<times> nat) list" where
  "index_key k i index = (if k = [] then index else map_put k i index)"

definition merge_start :: "'f container_metrics list \<Rightarrow> 'f merge_state" where
  "merge_start ms =
     (ms, foldl (\<lambda>index (i, m). index_key (short_container_id (cm_id m)) i index) [] (enumerate 0 ms),
      foldl (\<lambda>index (i, m). index_key (cm_name m) i index) [] (enumerate 0 ms))"

definition merge_step ::
  "'f floats \<Rightarrow> 'f merge_state \<Rightarrow> 'f metrics inv_container \<Rightarrow> 'f merge_state" where
  "merge_step fl state c =
     (let (ms, ids, names) = state; i = short_container_id (ic_id c) in
      case (case map_of ids i of Some k \<Rightarrow> Some k | None \<Rightarrow> map_of names (ic_name c)) of
        Some k \<Rightarrow> (ms[k := refresh_metrics fl c (ms ! k)], ids, names)
      | None \<Rightarrow> (ms @ [fresh_metrics fl c], index_key i (length ms) ids, index_key (ic_name c) (length ms) names))"

text \<open>
  What a probe of a container answers: \<open>hp_http\<close> the status of \<^verbatim>\<open>/health\<close> at an address, if the
  server answers; \<open>hp_dial\<close> whether the address accepts a connection.
\<close>

record health_env =
  hp_http :: "string \<Rightarrow> int option"
  hp_dial :: "string \<Rightarrow> bool"

text \<open>The port is the first of the map, whose order in the source is any.\<close>

definition probe_health :: "health_env \<Rightarrow> gomap \<Rightarrow> string \<Rightarrow> string \<Rightarrow> string" where
  "probe_health env ports img address =
     (if ports = [] \<or> snd (hd ports) = [] then []
      else (let host = (if trim_space address = [] then ''127.0.0.1'' else trim_space address);
                target = join_host_port host (snd (hd ports)); lower = to_lower img in
        if str_contains lower ''vllm'' \<or> str_contains lower ''sglang'' \<or> str_contains lower ''llama'' \<or>
           is_tensorfold_image img
        then (case hp_http env (''http://'' @ target @ ''/health'') of
                None \<Rightarrow> ''starting'' | Some status \<Rightarrow> if status = 200 then ''healthy'' else ''unhealthy'')
        else if hp_dial env target then ''healthy'' else ''starting''))"

definition with_health :: "health_env \<Rightarrow> 'f container_metrics \<Rightarrow> 'f container_metrics" where
  "with_health env m =
     (if cm_status m = ''running'' \<and> cm_ports m \<noteq> []
      then m\<lparr>cm_health := probe_health env (cm_ports m) (cm_image m) (cm_address m)\<rparr> else m)"

definition merge_containers ::
  "'f floats \<Rightarrow> health_env \<Rightarrow> 'f container_metrics list \<Rightarrow> 'f metrics inv_container list \<Rightarrow>
   'f container_metrics list" where
  "merge_containers fl env ms cs = map (with_health env) (fst (foldl (merge_step fl) (merge_start ms) cs))"

text \<open>\<open>resources\<close>: the TensorFold resources, when the driver runs and lists them.\<close>

definition metrics_containers ::
  "'f floats \<Rightarrow> health_env \<Rightarrow> gerror + 'f metrics inv_container list \<Rightarrow>
   (gerror + 'f metrics inv_container list) option \<Rightarrow> 'f container_metrics list \<Rightarrow> 'f container_metrics list" where
  "metrics_containers fl env listed resources ms =
     (case listed of
        Inl e \<Rightarrow> ms
      | Inr cs \<Rightarrow> merge_containers fl env ms (cs @ (case resources of Some (Inr rs) \<Rightarrow> rs | _ \<Rightarrow> [])))"

definition containers_handler ::
  "'m inventory_env \<Rightarrow> (gerror + 'm inv_container list) option \<Rightarrow> string \<Rightarrow>
   int \<times> string + 'm inv_container list" where
  "containers_handler docker resources query =
     (let given = trim_space query; scope = (if given = [] then ''managed'' else given) in
      if scope \<noteq> ''managed'' \<and> scope \<noteq> ''all'' then Inl (400, ''invalid_scope'')
      else (case list_containers docker scope of
          Inl e \<Rightarrow> Inl (500, ''docker_error'')
        | Inr cs \<Rightarrow>
            (case resources of
               None \<Rightarrow> Inr cs
             | Some (Inl e) \<Rightarrow> Inl (500, ''tensorfold_inventory_error'')
             | Some (Inr rs) \<Rightarrow> Inr (cs @ rs))))"

section \<open>Metrics from command output\<close>

text \<open>\<^verbatim>\<open>strconv.Atoi\<close> with its error ignored: 0 for a text that is no number, the nearest end of the range otherwise.\<close>

definition atoi_value :: "string \<Rightarrow> int" where
  "atoi_value s =
     (let t = (if has_prefix s ''-'' \<or> has_prefix s ''+'' then tl s else s) in
      case (if t = [] then None else digits_value 0 t) of
        None \<Rightarrow> 0
      | Some n \<Rightarrow> if has_prefix s ''-'' then max (- (2 ^ 63)) (- int n) else min (2 ^ 63 - 1) (int n))"

record gpu_metrics =
  gm_index :: int
  gm_name :: string
  gm_memory_type :: string
  gm_util :: int
  gm_used :: int
  gm_total :: int
  gm_temp :: int
  gm_power :: int
  gm_limit :: int
  gm_fan :: int

text \<open>
  \<open>trunc\<close> is the parsed number of a text cut to an integer; \<open>ram\<close> the total and used memory of the
  system, which a GPU without memory of its own reports.
\<close>

definition parse_gpu_line :: "(string \<Rightarrow> int) \<Rightarrow> int \<times> int \<Rightarrow> string \<Rightarrow> gpu_metrics option" where
  "parse_gpu_line trunc ram line =
     (let fields = map trim_space (split_char CHR '','' line) in
      if line = [] \<or> length fields < 9 then None
      else (let total_memory = atoi_value (fields ! 4); unified = (total_memory = 0) in
        Some \<lparr>gm_index = atoi_value (fields ! 0), gm_name = fields ! 1,
          gm_memory_type = (if unified then ''unified'' else ''dedicated''), gm_util = atoi_value (fields ! 2),
          gm_used = (if unified then snd ram else atoi_value (fields ! 3)),
          gm_total = (if unified then fst ram else total_memory), gm_temp = atoi_value (fields ! 5),
          gm_power = trunc (fields ! 6), gm_limit = trunc (fields ! 7), gm_fan = atoi_value (fields ! 8)\<rparr>))"

definition collect_gpus :: "(string \<Rightarrow> int) \<Rightarrow> int \<times> int \<Rightarrow> string option \<Rightarrow> gpu_metrics list" where
  "collect_gpus trunc ram answer =
     (case answer of
        None \<Rightarrow> []
      | Some out \<Rightarrow> List.map_filter (parse_gpu_line trunc ram) (split_char CHR 0x0A (trim_space out)))"

text \<open>
  A line of \<^verbatim>\<open>docker stats\<close>; \<open>scaled n t\<close> is the number of the text times \<open>n\<close>, cut to an integer. The
  slice of the identifier panics when it is shorter than twelve bytes.
\<close>

definition stats_memory :: "(int \<Rightarrow> string \<Rightarrow> int) \<Rightarrow> string \<Rightarrow> int" where
  "stats_memory scaled text =
     (let used = trim_space (hd (split_char CHR ''/'' text)) in
      if has_suffix used ''GiB'' then scaled 1024 (trim_suffix used ''GiB'')
      else if has_suffix used ''MiB'' then scaled 1 (trim_suffix used ''MiB'') else 0)"

definition parse_stats_line ::
  "'f floats \<Rightarrow> (int \<Rightarrow> string \<Rightarrow> int) \<Rightarrow> string \<Rightarrow> gerror + 'f container_metrics option" where
  "parse_stats_line fl scaled line =
     (let fields = split_char CHR 0x09 line in
      if line = [] \<or> length fields < 4 then Inr None
      else if length (fields ! 0) < 12 then Inl (GoPanic ''slice bounds out of range'')
      else Inr (Some \<lparr>cm_id = take 12 (fields ! 0), cm_name = fields ! 1, cm_image = [], cm_status = ''running'',
          cm_cpu = or_zero fl (fl_parse fl (trim_suffix (fields ! 2) ''%'')), cm_memory = stats_memory scaled (fields ! 3),
          cm_uptime = 0, cm_ports = [], cm_address = [], cm_health = [], cm_decode = fl_zero fl,
          cm_prefill = fl_zero fl, cm_prompt_total = fl_zero fl, cm_generated_total = fl_zero fl,
          cm_cached_total = fl_zero fl\<rparr>))"

section \<open>The Prometheus page\<close>

definition newline :: char where "newline = CHR 0x0A"

definition metric_header :: "string \<times> string \<times> string \<Rightarrow> string" where
  "metric_header h =
     (let (name, help, kind) = h in
      ''# HELP '' @ name @ '' '' @ help @ [newline] @ ''# TYPE '' @ name @ '' '' @ kind @ [newline])"

definition sample :: "string \<Rightarrow> gomap \<Rightarrow> string \<Rightarrow> string" where
  "sample name labels text = sample_line name labels text @ [newline]"

definition trim_service_label :: "string \<Rightarrow> string" where
  "trim_service_label name = (let t = trim_prefix name ''yokai-'' in if t = [] then name else t)"

definition inference_backend :: "string \<Rightarrow> string" where
  "inference_backend img = (if infer_service_kind img = ''unknown'' then [] else infer_service_kind img)"

definition is_monitoring :: "'m inv_container \<Rightarrow> bool" where
  "is_monitoring c \<longleftrightarrow> has_prefix (to_lower (ic_name c)) ''yokai-mon-'' \<or>
     (let img = to_lower (ic_image c) in
      str_contains img ''grafana'' \<or> str_contains img ''prometheus'' \<or> str_contains img ''node-exporter'' \<or>
      str_contains img ''dcgm-exporter'')"

definition model_label :: "'f metrics inv_container \<Rightarrow> string" where
  "model_label c = (case ic_metrics c of None \<Rightarrow> [] | Some m \<Rightarrow> trim_space (mt_model m))"

text \<open>\<open>bounds\<close>: the histogram bounds in the order of \<^verbatim>\<open>sortedHistogramBounds\<close>.\<close>

definition bound_before :: "'f floats \<Rightarrow> ('f \<Rightarrow> 'f \<Rightarrow> bool) \<Rightarrow> string \<Rightarrow> string \<Rightarrow> bool" where
  "bound_before fl below a b =
     (if a = ''+Inf'' then False else if b = ''+Inf'' then True
      else (case (fl_parse fl a, fl_parse fl b) of
          (Some x, Some y) \<Rightarrow> below x y
        | _ \<Rightarrow> a < b))"

definition optional_sample :: "('f \<Rightarrow> string) \<Rightarrow> string \<Rightarrow> gomap \<Rightarrow> 'f option \<Rightarrow> string" where
  "optional_sample fmt name labels x = (case x of None \<Rightarrow> [] | Some v \<Rightarrow> sample name labels (fmt v))"

definition llm_samples ::
  "('f \<Rightarrow> string) \<Rightarrow> 'f floats \<Rightarrow> (string list \<Rightarrow> string list) \<Rightarrow> gomap \<Rightarrow> 'f metrics \<Rightarrow> string" where
  "llm_samples fmt fl bounds labels m =
     optional_sample fmt ''yokai_llm_prefill_tokens_per_second'' labels (mt_prefill m) @
     optional_sample fmt ''yokai_llm_decode_tokens_per_second'' labels (mt_decode m) @
     optional_sample fmt ''yokai_llm_requests_in_flight'' labels (mt_running m) @
     optional_sample fmt ''yokai_llm_requests_queued'' labels (mt_waiting m) @
     optional_sample fmt ''yokai_llm_prompt_tokens_total'' labels (mt_prompt_total m) @
     optional_sample fmt ''yokai_llm_generated_tokens_total'' labels (mt_generated_total m) @
     optional_sample fmt ''yokai_llm_cached_prompt_tokens_total'' labels (mt_cached_total m) @
     (if \<not> mt_has_ttft m then []
      else concat (map (\<lambda>le. sample ''yokai_llm_ttft_seconds_bucket'' (map_put ''le'' le labels)
               (fmt (or_zero fl (map_of (mt_ttft_buckets m) le)))) (bounds (map fst (mt_ttft_buckets m)))) @
           sample ''yokai_llm_ttft_seconds_sum'' labels (fmt (mt_ttft_sum m)) @
           sample ''yokai_llm_ttft_seconds_count'' labels (fmt (mt_ttft_count m)))"

definition service_samples ::
  "('f \<Rightarrow> string) \<Rightarrow> 'f floats \<Rightarrow> (string list \<Rightarrow> string list) \<Rightarrow> 'f metrics inv_container \<Rightarrow> string" where
  "service_samples fmt fl bounds c =
     (let backend = inference_backend (ic_image c);
          labels = [(''service'', trim_service_label (ic_name c)), (''backend'', backend), (''model'', model_label c)]
      in if is_monitoring c \<or> backend = [] then []
         else sample ''yokai_service_up'' labels (if ic_status c = ''running'' then ''1'' else ''0'') @
              sample ''yokai_service_info'' (labels @ [(''image'', ic_image c)]) ''1'' @
              (if backend \<notin> {''vllm'', ''sglang'', ''tensorfold''} then []
               else (case ic_metrics c of None \<Rightarrow> [] | Some m \<Rightarrow> llm_samples fmt fl bounds labels m)))"

definition service_headers :: "(string \<times> string \<times> string) list" where
  "service_headers =
    [(''yokai_service_up'', ''Whether the inference service is running'', ''gauge''),
     (''yokai_service_info'', ''Static service metadata'', ''gauge''),
     (''yokai_llm_prefill_tokens_per_second'', ''Prompt prefill throughput in tokens per second'', ''gauge''),
     (''yokai_llm_decode_tokens_per_second'', ''Decode throughput in tokens per second'', ''gauge''),
     (''yokai_llm_requests_in_flight'', ''Current in-flight requests'', ''gauge''),
     (''yokai_llm_requests_queued'', ''Current queued requests'', ''gauge''),
     (''yokai_llm_prompt_tokens_total'', ''Total prompt tokens processed'', ''counter''),
     (''yokai_llm_generated_tokens_total'', ''Total generated output tokens'', ''counter''),
     (''yokai_llm_cached_prompt_tokens_total'', ''Total cached prompt tokens reused'', ''counter''),
     (''yokai_llm_ttft_seconds'', ''Time to first token'', ''histogram'')]"

text \<open>The services of the page, in the order of their names.\<close>

definition service_page ::
  "('f \<Rightarrow> string) \<Rightarrow> 'f floats \<Rightarrow> (string list \<Rightarrow> string list) \<Rightarrow> 'f metrics inv_container list \<Rightarrow> string" where
  "service_page fmt fl bounds cs =
     concat (map metric_header service_headers) @
     concat (map (service_samples fmt fl bounds) (sort_key ic_name cs))"

definition gpu_headers :: "(string \<times> string \<times> string) list" where
  "gpu_headers =
    [(''yokai_gpu_utilization'', ''GPU utilization percentage'', ''gauge''),
     (''yokai_gpu_vram_used_bytes'', ''GPU VRAM used in bytes'', ''gauge''),
     (''yokai_gpu_vram_total_bytes'', ''GPU VRAM total in bytes'', ''gauge''),
     (''yokai_gpu_temperature_celsius'', ''GPU temperature in Celsius'', ''gauge''),
     (''yokai_gpu_power_draw_watts'', ''GPU power draw in watts'', ''gauge''),
     (''yokai_gpu_power_limit_watts'', ''GPU power limit in watts'', ''gauge'')]"

text \<open>\<open>number\<close>: the text of an integer as a float; products are 64-bit.\<close>

definition gpu_samples :: "(int \<Rightarrow> string) \<Rightarrow> gpu_metrics \<Rightarrow> string" where
  "gpu_samples number g =
     (let labels = [(''gpu'', itoa (gm_index g)), (''name'', gm_name g)] in
      sample ''yokai_gpu_utilization'' labels (number (gm_util g)) @
      sample ''yokai_gpu_vram_used_bytes'' labels (number (wrap64 (gm_used g * 1024 * 1024))) @
      sample ''yokai_gpu_vram_total_bytes'' labels (number (wrap64 (gm_total g * 1024 * 1024))) @
      sample ''yokai_gpu_temperature_celsius'' labels (number (gm_temp g)) @
      sample ''yokai_gpu_power_draw_watts'' labels (number (gm_power g)) @
      sample ''yokai_gpu_power_limit_watts'' labels (number (gm_limit g)))"

definition gpu_page :: "(int \<Rightarrow> string) \<Rightarrow> gpu_metrics list \<Rightarrow> string" where
  "gpu_page number gpus = concat (map metric_header gpu_headers) @ concat (map (gpu_samples number) gpus)"

record 'f system_metrics =
  sy_cpu :: 'f
  sy_ram_used :: int
  sy_ram_total :: int
  sy_ram_percent :: 'f
  sy_disk_free :: int

definition gauge_sample :: "string \<Rightarrow> string \<Rightarrow> string \<Rightarrow> string" where
  "gauge_sample name help text = metric_header (name, help, ''gauge'') @ sample name [] text"

definition system_page :: "('f \<Rightarrow> string) \<Rightarrow> (int \<Rightarrow> string) \<Rightarrow> 'f system_metrics \<Rightarrow> string" where
  "system_page fmt number s =
     gauge_sample ''yokai_cpu_percent'' ''CPU utilization percentage'' (fmt (sy_cpu s)) @
     gauge_sample ''yokai_ram_used_bytes'' ''RAM used in bytes'' (number (wrap64 (sy_ram_used s * 1024 * 1024))) @
     gauge_sample ''yokai_ram_total_bytes'' ''RAM total in bytes'' (number (wrap64 (sy_ram_total s * 1024 * 1024))) @
     gauge_sample ''yokai_ram_percent'' ''RAM utilization percentage'' (fmt (sy_ram_percent s)) @
     gauge_sample ''yokai_disk_free_bytes'' ''Disk free space in bytes''
       (number (wrap64 (sy_disk_free s * 1024 * 1024 * 1024)))"

definition prometheus_page ::
  "('f \<Rightarrow> string) \<Rightarrow> (int \<Rightarrow> string) \<Rightarrow> 'f floats \<Rightarrow> (string list \<Rightarrow> string list) \<Rightarrow> 'f system_metrics \<Rightarrow>
   gpu_metrics list \<Rightarrow> 'f metrics inv_container list \<Rightarrow> string" where
  "prometheus_page fmt number fl bounds s gpus cs =
     system_page fmt number s @ gpu_page number gpus @ service_page fmt fl bounds cs"

section \<open>Facts\<close>

text \<open>
  Merging the inventory into the measured containers keeps every measurement at its position and
  appends the containers that were not measured.
\<close>

definition measured :: "'f container_metrics \<Rightarrow> 'f \<times> int" where
  "measured m = (cm_cpu m, cm_memory m)"

lemma measured_copy [simp]: "measured (copy_scrape fl x m) = measured m"
  by (simp add: copy_scrape_def measured_def split: option.split)

lemma measured_refresh [simp]: "measured (refresh_metrics fl c m) = measured m"
  by (simp add: refresh_metrics_def) (simp add: measured_def)

lemma measured_health [simp]: "measured (with_health env m) = measured m"
  by (simp add: with_health_def measured_def)

lemma merge_step_keeps:
  "take (length (fst state)) (map measured (fst (merge_step fl state c))) = map measured (fst state)"
  "length (fst state) \<le> length (fst (merge_step fl state c))"
proof -
  obtain ms ids names where s: "state = (ms, ids, names)" by (metis surj_pair)
  have "map measured (ms[k := refresh_metrics fl c (ms ! k)]) = map measured ms" for k
    by (cases "k < length ms") (simp_all add: map_update list_update_same_conv list_update_beyond)
  then show "take (length (fst state)) (map measured (fst (merge_step fl state c))) = map measured (fst state)"
    "length (fst state) \<le> length (fst (merge_step fl state c))"
    by (auto simp: s merge_step_def Let_def split: option.splits)
qed

lemma merge_keeps_measurements:
  "take (length ms) (map measured (merge_containers fl env ms cs)) = map measured ms"
proof -
  have "take (length (fst state)) (map measured (fst (foldl (merge_step fl) state cs))) = map measured (fst state) \<and>
     length (fst state) \<le> length (fst (foldl (merge_step fl) state cs))" for state
  proof (induction cs arbitrary: state)
    case (Cons c cs)
    let ?next = "merge_step fl state c"
    have ih: "take (length (fst ?next)) (map measured (fst (foldl (merge_step fl) ?next cs))) = map measured (fst ?next)"
      "length (fst ?next) \<le> length (fst (foldl (merge_step fl) ?next cs))" using Cons.IH [of ?next] by auto
    have "take (length (fst state)) (map measured (fst (foldl (merge_step fl) ?next cs))) =
        take (length (fst state)) (take (length (fst ?next)) (map measured (fst (foldl (merge_step fl) ?next cs))))"
      using merge_step_keeps(2) [of state fl c] by (simp add: min_def)
    also have "\<dots> = map measured (fst state)" unfolding ih(1) by (rule merge_step_keeps(1))
    finally show ?case using ih(2) merge_step_keeps(2) [of state fl c] by simp
  qed simp
  from this [of "merge_start ms"] show ?thesis
    by (simp add: merge_containers_def merge_start_def comp_def)
qed

end
