(* ===== verification/Agent_System.thy ===== *)
theory Agent_System
  imports Agent_Metrics Launch_Auth_Properties
begin

text \<open>
  The numbers an agent reads of its host: \<^verbatim>\<open>collectCPU\<close>, \<^verbatim>\<open>collectRAM\<close>, \<^verbatim>\<open>collectSwap\<close>,
  \<^verbatim>\<open>collectDisk\<close>, \<^verbatim>\<open>readSystemRAM\<close>, \<^verbatim>\<open>collectContainers\<close> and \<^verbatim>\<open>CollectMetrics\<close> of
  \<^verbatim>\<open>internal/agent/metrics.go\<close>, and \<^verbatim>\<open>getTotalRAM\<close> of \<^verbatim>\<open>server.go\<close>. The files of the kernel and
  the output of the commands are arguments, None when they cannot be read.
\<close>

section \<open>Scanning\<close>

text \<open>The verb \<^verbatim>\<open>%d\<close> of \<^verbatim>\<open>fmt.Sscanf\<close>: the number and what follows it.\<close>

definition scan_int :: "string \<Rightarrow> (int \<times> string) option" where
  "scan_int s =
     (let t = trim_left s; sign = (if t \<noteq> [] \<and> hd t \<in> set ''+-'' then [hd t] else []);
          (digits, rest) = digit_run (drop (length sign) t)
      in map_option (\<lambda>n. (n, rest)) (atoi (sign @ digits)))"

text \<open>
  \<^verbatim>\<open>fmt.Sscanf(line, key + " %d kB", &n)\<close> on a line that starts with the key: the number assigned,
  if any, and whether the whole format matched.
\<close>

definition scan_kb :: "string \<Rightarrow> string \<Rightarrow> int option \<times> bool" where
  "scan_kb key line =
     (let r = drop (length key) line in
      if space_len r = 0 then (None, False)
      else (case scan_int r of
          None \<Rightarrow> (None, False)
        | Some (n, rest) \<Rightarrow> (Some n, space_len rest \<noteq> 0 \<and> has_prefix (trim_left rest) ''kB'')))"

definition assign_kb :: "string \<Rightarrow> string \<Rightarrow> int \<Rightarrow> int" where
  "assign_kb key line old =
     (if has_prefix line key then (case fst (scan_kb key line) of None \<Rightarrow> old | Some n \<Rightarrow> n) else old)"

text \<open>The two values a loop over the lines of \<^verbatim>\<open>/proc/meminfo\<close> ends with.\<close>

definition meminfo_pair :: "string \<Rightarrow> string \<Rightarrow> string \<Rightarrow> int \<times> int" where
  "meminfo_pair first second data =
     foldl (\<lambda>(a, b) line. (assign_kb first line a, assign_kb second line b)) (0, 0) (split_char CHR 0x0A data)"

text \<open>Division of Go cuts towards zero.\<close>

definition kb_to_mb :: "int \<Rightarrow> int" where
  "kb_to_mb x = sgn x * (\<bar>x\<bar> div 1024)"

section \<open>Memory\<close>

definition used_and_total :: "int \<times> int \<Rightarrow> int \<times> int" where
  "used_and_total kb = (kb_to_mb (wrap64 (fst kb - snd kb)), kb_to_mb (fst kb))"

record 'f ram_metrics =
  rm_used :: int
  rm_total :: int
  rm_percent :: 'f

text \<open>\<open>ratio used whole\<close>: the floating point percentage.\<close>

definition collect_ram ::
  "'f floats \<Rightarrow> (int \<Rightarrow> int \<Rightarrow> 'f) \<Rightarrow> bool \<Rightarrow> string option \<Rightarrow> 'f ram_metrics" where
  "collect_ram fl ratio linux file =
     (case (if linux then file else None) of
        None \<Rightarrow> \<lparr>rm_used = 0, rm_total = 0, rm_percent = fl_zero fl\<rparr>
      | Some data \<Rightarrow>
          (let (used, whole) = used_and_total (meminfo_pair ''MemTotal:'' ''MemAvailable:'' data) in
           \<lparr>rm_used = used, rm_total = whole, rm_percent = (if whole > 0 then ratio used whole else fl_zero fl)\<rparr>))"

definition collect_swap :: "bool \<Rightarrow> string option \<Rightarrow> int \<times> int" where
  "collect_swap linux file =
     (case (if linux then file else None) of
        None \<Rightarrow> (0, 0)
      | Some data \<Rightarrow> used_and_total (meminfo_pair ''SwapTotal:'' ''SwapFree:'' data))"

text \<open>The total and the used memory.\<close>

definition read_system_ram :: "string option \<Rightarrow> int \<times> int" where
  "read_system_ram file =
     (case file of
        None \<Rightarrow> (0, 0)
      | Some data \<Rightarrow> prod.swap (used_and_total (meminfo_pair ''MemTotal:'' ''MemAvailable:'' data)))"

definition total_ram :: "string + string \<Rightarrow> int \<times> string option" where
  "total_ram file =
     (case file of
        Inl e \<Rightarrow> (0, Some e)
      | Inr data \<Rightarrow>
          (case List.map_filter
                  (\<lambda>line. if has_prefix line ''MemTotal:''
                          then (case scan_kb ''MemTotal:'' line of (Some n, True) \<Rightarrow> Some n | _ \<Rightarrow> None) else None)
                  (split_char CHR 0x0A data) of
             [] \<Rightarrow> (0, None)
           | n # _ \<Rightarrow> (kb_to_mb n, None)))"

section \<open>Processor and disk\<close>

text \<open>\<open>num\<close>: \<^verbatim>\<open>strconv.ParseFloat\<close> with its error ignored; \<open>percent used whole\<close> as in the source.\<close>

definition cpu_line ::
  "'f floats \<Rightarrow> (string \<Rightarrow> 'f) \<Rightarrow> ('f \<Rightarrow> 'f \<Rightarrow> 'f) \<Rightarrow> string \<Rightarrow> 'f option" where
  "cpu_line fl num percent line =
     (let fields = str_fields line in
      if \<not> has_prefix line ''cpu '' \<or> length fields < 5 then None
      else (let used = fl_add fl (fl_add fl (num (fields ! 1)) (num (fields ! 2))) (num (fields ! 3));
                whole = fl_add fl used (num (fields ! 4))
            in if fl_positive fl whole then Some (percent used whole) else None))"

definition collect_cpu ::
  "'f floats \<Rightarrow> (string \<Rightarrow> 'f) \<Rightarrow> ('f \<Rightarrow> 'f \<Rightarrow> 'f) \<Rightarrow> bool \<Rightarrow> string option \<Rightarrow> 'f" where
  "collect_cpu fl num percent linux file =
     (case (if linux then file else None) of
        None \<Rightarrow> fl_zero fl
      | Some data \<Rightarrow>
          (case List.map_filter (cpu_line fl num percent) (split_char CHR 0x0A data) of
             [] \<Rightarrow> fl_zero fl
           | x # _ \<Rightarrow> x))"

text \<open>The total, used and free gigabytes; all three must scan.\<close>

definition collect_disk :: "string option \<Rightarrow> int \<times> int \<times> int" where
  "collect_disk answer =
     (case answer of
        None \<Rightarrow> (0, 0, 0)
      | Some out \<Rightarrow>
          (let lines = split_char CHR 0x0A (trim_space out); fields = str_fields (lines ! 1);
               size = (\<lambda>i. map_option fst (scan_int (trim_suffix (fields ! i) ''G'')))
           in if length lines < 2 then (0, 0, 0)
              else if length fields < 3 then (0, 0, 0)
              else (case (size 0, size 1, size 2) of
                  (Some whole, Some used, Some free) \<Rightarrow> (whole, used, free)
                | _ \<Rightarrow> (0, 0, 0))))"

section \<open>Containers\<close>

definition stats_args :: "string list \<Rightarrow> string list" where
  "stats_args names =
     [''stats'', ''--no-stream'', ''--format'',
      ''{{.ID}}'' @ [CHR 0x09] @ ''{{.Name}}'' @ [CHR 0x09] @ ''{{.CPUPerc}}'' @ [CHR 0x09] @ ''{{.MemUsage}}''] @
     names"

fun scan_stats ::
  "'f floats \<Rightarrow> (int \<Rightarrow> string \<Rightarrow> int) \<Rightarrow> string list \<Rightarrow> gerror + 'f container_metrics list" where
  "scan_stats fl scaled [] = Inr []"
| "scan_stats fl scaled (l # ls) =
     (case parse_stats_line fl scaled l of
        Inl e \<Rightarrow> Inl e
      | Inr m \<Rightarrow>
          (case scan_stats fl scaled ls of
             Inl e \<Rightarrow> Inl e
           | Inr ms \<Rightarrow> Inr (case m of None \<Rightarrow> ms | Some c \<Rightarrow> c # ms)))"

text \<open>\<open>stats\<close> is the output of \<^verbatim>\<open>docker stats\<close> for its arguments.\<close>

definition collect_containers ::
  "'f floats \<Rightarrow> (int \<Rightarrow> string \<Rightarrow> int) \<Rightarrow> string option \<Rightarrow> (string list \<Rightarrow> string option) \<Rightarrow>
   gerror + 'f container_metrics list" where
  "collect_containers fl scaled names stats =
     (case names of
        None \<Rightarrow> Inr []
      | Some out \<Rightarrow>
          (let ns = str_fields (trim_space out) in
           if ns = [] then Inr []
           else (case stats (stats_args ns) of
               None \<Rightarrow> Inr []
             | Some text \<Rightarrow> scan_stats fl scaled (split_char CHR 0x0A (trim_space text)))))"

section \<open>Facts\<close>

lemma digit_plain: "is_digit c \<Longrightarrow> \<not> digit7 c \<and> \<not> ascii_space c"
proof -
  have "\<not> ascii_space c \<or> \<not> is_digit c" by (auto simp: ascii_space_def is_digit_def)
  moreover have "digit7 c \<Longrightarrow> 128 \<le> (of_char c :: nat)" by (cases c) simp
  then have "\<not> digit7 c \<or> \<not> is_digit c" by (auto simp: is_digit_def Let_def)
  ultimately show "is_digit c \<Longrightarrow> \<not> digit7 c \<and> \<not> ascii_space c" by blast
qed

lemma trim_left_blanks: "trim_left (replicate k CHR '' '' @ s) = trim_left s"
  by (induction k) (simp_all add: trim_left_plain ascii_space_def)

text \<open>A line as the kernel prints it is read back.\<close>

lemma scan_int_number:
  assumes "int n < 2 ^ 63" and "rest = [] \<or> \<not> is_digit (hd rest)"
  shows "scan_int (replicate k CHR '' '' @ nat_text n @ rest) = Some (int n, rest)"
proof -
  have d: "nat_text n \<noteq> []" "list_all is_digit (nat_text n)" using nat_text_digits [of n] by auto
  obtain c s where t: "nat_text n = c # s" using d(1) by (cases "nat_text n") auto
  have c: "is_digit c" using d(2) t by simp
  have sign: "c \<notin> set ''+-''" using digit_not_sign [OF c] by simp
  have left: "trim_left (replicate k CHR '' '' @ nat_text n @ rest) = nat_text n @ rest"
    using digit_plain [OF c] by (simp add: trim_left_blanks t trim_left_plain)
  have run: "digit_run (nat_text n @ rest) = (nat_text n, rest)"
    using d(2) assms(2) by (cases rest) (simp_all add: digit_run_def list_all_iff takeWhile_append dropWhile_append)
  have "atoi (nat_text n) = Some (int n)"
    using sign assms(1) digits_value_nat_text [of n]
    by (simp add: atoi_def t has_prefix_def Let_def)
  then show ?thesis using sign run left by (simp add: scan_int_def t Let_def)
qed

lemma scan_kb_line:
  assumes "int n < 2 ^ 63"
  shows "scan_kb key (key @ replicate (Suc k) CHR '' '' @ nat_text n @ '' kB'') = (Some (int n), True)"
proof -
  have "space_len (replicate (Suc k) CHR '' '' @ s) \<noteq> 0" for s
    by (simp add: space_len_plain ascii_space_def)
  moreover have "scan_int (replicate (Suc k) CHR '' '' @ nat_text n @ '' kB'') = Some (int n, '' kB'')"
    using assms by (rule scan_int_number) (simp add: is_digit_def)
  moreover have "space_len '' kB'' \<noteq> 0" "has_prefix (trim_left '' kB'') ''kB''"
    by (simp_all add: go_str ascii_space_def has_prefix_def)
  ultimately show ?thesis by (simp add: scan_kb_def Let_def del: replicate.simps)
qed

text \<open>
  As long as no more memory is available than there is, the used memory lies between 0 and the total.
\<close>

lemma used_within_total:
  assumes "0 \<le> free" "free \<le> whole" "whole < 2 ^ 63"
  shows "0 \<le> fst (used_and_total (whole, free))"
    and "fst (used_and_total (whole, free)) \<le> snd (used_and_total (whole, free))"
proof -
  have w: "wrap64 (whole - free) = whole - free" using assms by (simp add: wrap64_def)
  have pos: "0 \<le> x \<Longrightarrow> kb_to_mb x = x div 1024" for x by (cases "x = 0") (simp_all add: kb_to_mb_def)
  show "0 \<le> fst (used_and_total (whole, free))"
    "fst (used_and_total (whole, free)) \<le> snd (used_and_total (whole, free))"
    using assms by (simp_all add: used_and_total_def w pos zdiv_mono1)
qed

end
