(* ===== verification/Launch_Key.thy ===== *)
theory Launch_Key
  imports Go_Base64 Go_Json
begin

text \<open>
  The coordinator's signing key, \<^verbatim>\<open>internal/launchauth/keyfile.go\<close>, and the texts of keys in
  \<^verbatim>\<open>authorization.go\<close>. The state is the entry at the key's path; the faults of one call and the
  JSON decoder are arguments. Key generation is a parameter that gives 64 bytes.
\<close>

section \<open>Keys as text\<close>

definition encode_key :: "string \<Rightarrow> string" where
  "encode_key key = b64_encode b64_std key"

definition decode_key :: "nat \<Rightarrow> string \<Rightarrow> string option" where
  "decode_key n encoded =
     (case b64_decode b64_std (trim_space encoded) of
        None \<Rightarrow> None
      | Some key \<Rightarrow> if length key = n then Some key else None)"

definition public_key_size :: nat where "public_key_size = 32"
definition private_key_size :: nat where "private_key_size = 64"

section \<open>The file\<close>

text \<open>A regular file with its content and whether only its owner may access it, or anything else.\<close>

datatype key_entry = KeyFile string bool | KeyOther

definition key_version :: int where "key_version = 1"

definition key_document :: "string \<Rightarrow> string" where
  "key_document key =
     json_object [json_field ''version'' (itoa key_version), json_field ''private_key'' (json_string (encode_key key))] @
     [CHR 0x0A]"

text \<open>
  The faults of one call: an error of each system call, \<open>kf_write\<close> with the number of bytes that
  reached the file, \<open>kf_race\<close> an entry another process made in the meantime.
\<close>

record key_faults =
  kf_lstat :: "gerror option"
  kf_read :: "gerror option"
  kf_mkdir :: "gerror option"
  kf_generate :: "gerror + string"
  kf_race :: "key_entry option"
  kf_open :: "gerror option"
  kf_write :: "(nat \<times> gerror) option"
  kf_sync :: "gerror option"
  kf_close :: "gerror option"
  kf_sync_dir :: "gerror option"

text \<open>\<open>decode\<close>: the strict decoder, giving the version and the text of the key.\<close>

definition load_signing_key ::
  "(string \<Rightarrow> (int \<times> string) option) \<Rightarrow> key_faults \<Rightarrow> key_entry option \<Rightarrow> gerror + string" where
  "load_signing_key decode f disk =
     (case kf_lstat f of
        Some e \<Rightarrow> Inl e
      | None \<Rightarrow>
          (case disk of
             None \<Rightarrow> Inl (Sentinel OsNotExist)
           | Some KeyOther \<Rightarrow>
               Inl (Errorf ''coordinator signing key must be a regular file accessible only by its owner'')
           | Some (KeyFile content owner_only) \<Rightarrow>
               if \<not> owner_only
               then Inl (Errorf ''coordinator signing key must be a regular file accessible only by its owner'')
               else (case kf_read f of
                   Some e \<Rightarrow> Inl e
                 | None \<Rightarrow>
                     (case decode content of
                        None \<Rightarrow> Inl (Errorf ''parse coordinator signing key'')
                      | Some (version, text) \<Rightarrow>
                          if version \<noteq> key_version
                          then Inl (Errorf (''coordinator signing key has unsupported version '' @ itoa version))
                          else (case decode_key private_key_size text of
                              None \<Rightarrow> Inl (Errorf ''coordinator private key is invalid'')
                            | Some key \<Rightarrow> Inr key)))))"

text \<open>Writing the new file: the outcome and the entry left behind.\<close>

definition write_key_file :: "key_faults \<Rightarrow> string \<Rightarrow> (gerror + string) \<times> key_entry option" where
  "write_key_file f key =
     (let doc = key_document key; fault = (\<lambda>what e. Inl (Wrapf what e [])) in
      case kf_open f of
        Some e \<Rightarrow> (fault ''create coordinator signing key: '' e, None)
      | None \<Rightarrow>
          (case kf_write f of
             Some (n, e) \<Rightarrow> (fault ''write coordinator signing key: '' e, Some (KeyFile (take n doc) True))
           | None \<Rightarrow>
               (case (kf_sync f, kf_close f, kf_sync_dir f) of
                  (Some e, _, _) \<Rightarrow> fault ''write coordinator signing key: '' e
                | (None, Some e, _) \<Rightarrow> fault ''close coordinator signing key: '' e
                | (None, None, Some e) \<Rightarrow> fault ''sync coordinator key directory: '' e
                | (None, None, None) \<Rightarrow> Inr key,
                Some (KeyFile doc True))))"

definition load_or_create_key ::
  "(string \<Rightarrow> (int \<times> string) option) \<Rightarrow> key_faults \<Rightarrow> key_entry option \<Rightarrow>
   (gerror + string) \<times> key_entry option" where
  "load_or_create_key decode f disk =
     (case load_signing_key decode f disk of
        Inr key \<Rightarrow> (Inr key, disk)
      | Inl e \<Rightarrow>
          if \<not> err_is e OsNotExist then (Inl e, disk)
          else (case kf_mkdir f of
              Some g \<Rightarrow> (Inl (Wrapf ''create coordinator key directory: '' g []), disk)
            | None \<Rightarrow>
                (case kf_generate f of
                   Inl g \<Rightarrow> (Inl (Wrapf ''generate coordinator signing key: '' g []), disk)
                 | Inr key \<Rightarrow>
                     (case (case kf_race f of Some entry \<Rightarrow> Some entry | None \<Rightarrow> disk) of
                        Some entry \<Rightarrow> (load_signing_key decode f (Some entry), Some entry)
                      | None \<Rightarrow> write_key_file f key))))"

section \<open>The key is stable\<close>

lemma trim_plain: "list_all (\<lambda>c. \<not> digit7 c \<and> \<not> ascii_space c) s \<Longrightarrow> trim_space s = s"
proof -
  have right: "list_all (\<lambda>c. \<not> digit7 c \<and> \<not> ascii_space c) t \<Longrightarrow> trim_right t = t" for t
    by (induction t) (auto simp: go_str simp del: trim_right.simps(2))
  assume s: "list_all (\<lambda>c. \<not> digit7 c \<and> \<not> ascii_space c) s"
  then have "trim_left s = s" by (cases s) (simp_all add: go_str)
  with right [OF s] show ?thesis by (simp add: trim_space_def)
qed

lemma b64_std_plain: "\<forall>c \<in> set b64_std. \<not> digit7 c \<and> \<not> ascii_space c"
  by (simp add: b64_std_def b64_common_def go_str)

lemma decode_encode_key: "length key = n \<Longrightarrow> decode_key n (encode_key key) = Some key"
proof -
  assume l: "length key = n"
  have "trim_space (encode_key key) = encode_key key"
    by (rule trim_plain)
       (use b64_encode_chars [of b64_std key] b64_std_plain in \<open>auto simp: encode_key_def list_all_iff\<close>)
  with l show ?thesis by (simp add: decode_key_def encode_key_def b64_decode_encode)
qed

lemma load_written_key:
  assumes "decode (key_document key) = Some (key_version, encode_key key)" and "length key = private_key_size"
    and "kf_lstat f = None" and "kf_read f = None"
  shows "load_signing_key decode f (Some (KeyFile (key_document key) True)) = Inr key"
  using assms by (simp add: load_signing_key_def decode_encode_key)

lemma load_signing_key_again:
  assumes "load_signing_key decode f disk = Inr key" and "kf_lstat g = None" and "kf_read g = None"
  shows "load_signing_key decode g disk = Inr key"
  using assms by (auto simp: load_signing_key_def split: option.splits key_entry.splits prod.splits if_splits)

text \<open>
  C20: a call that gives a signing key leaves it on disk: whatever faults that call met, and whether
  it loaded, lost a race or generated the key, every later call that can read the file gives the
  same key and leaves the file alone.
\<close>

theorem signing_key_stable:
  assumes "load_or_create_key decode f disk = (Inr key, disk')"
    and "decode (key_document key) = Some (key_version, encode_key key)" and "length key = private_key_size"
    and "kf_lstat g = None" and "kf_read g = None"
  shows "load_or_create_key decode g disk' = (Inr key, disk')"
proof -
  have "load_signing_key decode g disk' = Inr key"
  proof (cases "load_signing_key decode f disk")
    case (Inr k)
    with assms(1) have "k = key" "disk' = disk" by (auto simp: load_or_create_key_def)
    with load_signing_key_again [OF Inr assms(4,5)] show ?thesis by simp
  next
    case (Inl e)
    with assms(1) obtain k where k: "kf_generate f = Inr k"
      and c: "(case (case kf_race f of Some entry \<Rightarrow> Some entry | None \<Rightarrow> disk) of
         Some entry \<Rightarrow> (load_signing_key decode f (Some entry), Some entry)
       | None \<Rightarrow> write_key_file f k) = (Inr key, disk')"
      by (auto simp: load_or_create_key_def split: if_splits option.splits sum.splits)
    show ?thesis
    proof (cases "case kf_race f of Some entry \<Rightarrow> Some entry | None \<Rightarrow> disk")
      case None
      with c have "k = key" "disk' = Some (KeyFile (key_document key) True)"
        by (auto simp: write_key_file_def Let_def split: option.splits)
      with load_written_key [of decode key g] assms(2-5) show ?thesis by simp
    next
      case (Some entry)
      with c have "load_signing_key decode f (Some entry) = Inr key" "disk' = Some entry" by auto
      with load_signing_key_again [OF _ assms(4,5)] show ?thesis by simp
    qed
  qed
  then show ?thesis by (simp add: load_or_create_key_def)
qed

definition no_key_faults :: "string \<Rightarrow> key_faults" where
  "no_key_faults key =
     \<lparr>kf_lstat = None, kf_read = None, kf_mkdir = None, kf_generate = Inr key, kf_race = None, kf_open = None,
      kf_write = None, kf_sync = None, kf_close = None, kf_sync_dir = None\<rparr>"

theorem signing_key_stable_witness:
  "load_or_create_key (\<lambda>text. Some (key_version, encode_key (replicate 64 CHR ''k''))) (no_key_faults [])
     (Some (KeyFile (key_document (replicate 64 CHR ''k'')) True)) =
     (Inr (replicate 64 CHR ''k''), Some (KeyFile (key_document (replicate 64 CHR ''k'')) True))"
proof -
  let ?key = "replicate 64 CHR ''k''"
  let ?decode = "\<lambda>text :: string. Some (key_version, encode_key ?key)"
  have "load_or_create_key ?decode (no_key_faults ?key) None = (Inr ?key, Some (KeyFile (key_document ?key) True))"
    by (simp add: load_or_create_key_def load_signing_key_def no_key_faults_def write_key_file_def)
  from signing_key_stable [OF this, of "no_key_faults []"] show ?thesis
    by (simp add: no_key_faults_def private_key_size_def)
qed

text \<open>
  A first write that fails leaves a truncated file, and no later start repairs it: every call fails
  until someone removes the file.
\<close>

lemma interrupted_key_write_sticks:
  assumes "kf_lstat f = None" "kf_mkdir f = None" "kf_generate f = Inr key" "kf_race f = None" "kf_open f = None"
    and "kf_write f = Some (n, e)" and "decode (take n (key_document key)) = None"
  shows "load_or_create_key decode f None =
      (Inl (Wrapf ''write coordinator signing key: '' e []), Some (KeyFile (take n (key_document key)) True))"
    and "kf_lstat g = None \<Longrightarrow> kf_read g = None \<Longrightarrow>
      \<exists>err. load_or_create_key decode g (Some (KeyFile (take n (key_document key)) True)) =
        (Inl err, Some (KeyFile (take n (key_document key)) True))"
  using assms by (simp_all add: load_or_create_key_def load_signing_key_def write_key_file_def)

end
