(* ===== verification/Agent_Server.thy ===== *)
theory Agent_Server
  imports Agent_Metrics Docker_Handlers Launch_Key
begin

text \<open>
  The HTTP server of an agent, \<^verbatim>\<open>internal/agent/server.go\<close>: the identity it loads when it
  starts, the bearer token every route but \<^verbatim>\<open>/health\<close> asks for, the capabilities it tells a
  coordinator and the facts of \<^verbatim>\<open>/system/info\<close>. The configuration files and the outputs of
  the commands it runs are arguments.
\<close>

section \<open>The identity of the agent\<close>

record auth_config =
  ac_token :: string
  ac_device :: string
  ac_public :: string

record agent_state =
  as_token :: string
  as_device :: string
  as_public :: string
  as_store :: "string option"

definition no_identity :: agent_state where
  "no_identity = \<lparr>as_token = [], as_device = [], as_public = [], as_store = None\<rparr>"

definition system_config_path :: string where "system_config_path = ''/etc/yokai/agent.json''"

definition replay_store_dir :: "string \<Rightarrow> string" where
  "replay_store_dir config_path = path_join [path_dir config_path, ''consumed-launch-authorizations'']"

definition config_paths :: "string \<Rightarrow> string option \<Rightarrow> string list" where
  "config_paths env home =
     (if env \<noteq> [] then [env] else []) @ [system_config_path] @
     (case home of
        None \<Rightarrow> []
      | Some dir \<Rightarrow> if dir \<noteq> [] then [path_join [dir, ''.config'', ''yokai'', ''agent.json'']] else [])"

text \<open>The verifier key is kept only with a replay store that could be prepared beside the file.\<close>

definition identity_of :: "(string \<Rightarrow> prepare_answers) \<Rightarrow> string \<Rightarrow> auth_config \<Rightarrow> agent_state" where
  "identity_of prepare path c =
     (let s = no_identity\<lparr>as_token := ac_token c,
            as_device := (if ac_device c \<noteq> trim_space (ac_device c) then [] else ac_device c)\<rparr> in
      if ac_public c = [] then s
      else (case decode_key public_key_size (ac_public c) of
          None \<Rightarrow> s
        | Some key \<Rightarrow>
            if prepare_store (prepare (replay_store_dir path)) \<noteq> None then s
            else s\<lparr>as_public := key, as_store := Some (replay_store_dir path)\<rparr>))"

text \<open>\<open>read\<close>: a file's configuration, None when it cannot be read or is no JSON of this shape.\<close>

fun load_identity ::
  "(string \<Rightarrow> prepare_answers) \<Rightarrow> (string \<Rightarrow> auth_config option) \<Rightarrow> string list \<Rightarrow> agent_state" where
  "load_identity prepare read [] = no_identity"
| "load_identity prepare read (path # paths) =
     (case read path of
        None \<Rightarrow> load_identity prepare read paths
      | Some c \<Rightarrow> identity_of prepare path c)"

definition load_auth_token ::
  "(string \<Rightarrow> prepare_answers) \<Rightarrow> (string \<Rightarrow> auth_config option) \<Rightarrow> string \<Rightarrow> string option \<Rightarrow> agent_state" where
  "load_auth_token prepare read env home = load_identity prepare read (config_paths env home)"

section \<open>The gate before every protected route\<close>

text \<open>None: the request reaches its handler.\<close>

definition require_auth :: "agent_state \<Rightarrow> string \<Rightarrow> reply option" where
  "require_auth s header =
     (if as_token s = [] then None
      else if header = [] then Some (Reply 401 ''missing_auth'')
      else if \<not> has_prefix header ''Bearer '' then Some (Reply 401 ''invalid_auth'')
      else if trim_prefix header ''Bearer '' \<noteq> as_token s then Some (Reply 401 ''invalid_token'')
      else None)"

section \<open>Capabilities\<close>

definition launch_capability :: string where "launch_capability = ''deployments.qwen_launch_authorization.v1''"

definition static_capabilities :: "string list" where
  "static_capabilities =
     [''deployments.v1'', ''deployments.preflight.v1'', ''deployments.members.v1'', ''deployments.logs.tail.v1'',
      ''deployments.recipe.tensorfold.v1'', ''deployments.recipe.reservations.v1'', ''deployments.recipe.logs.v1'',
      ''container.inventory.all'', ''container.labels'', ''container.network.host'', ''container.device_mounts'',
      ''container.cap_add'', ''deployments.fabric.v1'', ''container.runtime_patch.qwen38_flash_next.v1'']"

definition launch_available :: "(string \<Rightarrow> prepare_answers) \<Rightarrow> agent_state \<Rightarrow> bool" where
  "launch_available prepare s =
     (if trim_space (as_device s) = [] \<or> length (as_public s) \<noteq> public_key_size then False
      else (case as_store s of None \<Rightarrow> False | Some dir \<Rightarrow> prepare_store (prepare dir) = None))"

definition current_capabilities :: "(string \<Rightarrow> prepare_answers) \<Rightarrow> agent_state \<Rightarrow> string list" where
  "current_capabilities prepare s =
     static_capabilities @ (if launch_available prepare s then [launch_capability] else [])"

definition public_key_fingerprint :: "string \<Rightarrow> gerror + string" where
  "public_key_fingerprint key =
     (if length key \<noteq> public_key_size then Inl (Errorf ''coordinator public key is invalid'')
      else Inr (''sha256:'' @ sha256_hex key))"

definition verifier_fingerprint :: "agent_state \<Rightarrow> string" where
  "verifier_fingerprint s = (case public_key_fingerprint (as_public s) of Inl e \<Rightarrow> [] | Inr text \<Rightarrow> text)"

record health_body =
  hb_status :: string
  hb_version :: string
  hb_uptime :: int
  hb_hostname :: string
  hb_device :: string
  hb_capabilities :: "string list"

definition health_handler ::
  "(string \<Rightarrow> prepare_answers) \<Rightarrow> agent_state \<Rightarrow> string \<Rightarrow> int \<Rightarrow> string \<Rightarrow> health_body" where
  "health_handler prepare s version uptime hostname =
     \<lparr>hb_status = ''ok'', hb_version = version, hb_uptime = uptime, hb_hostname = hostname,
      hb_device = as_device s, hb_capabilities = current_capabilities prepare s\<rparr>"

section \<open>Facts of the system\<close>

text \<open>The files and the standard outputs are None when they cannot be read or the command fails.\<close>

definition trim_quotes :: "string \<Rightarrow> string" where
  "trim_quotes s =
     (let quote = (\<lambda>c. c = CHR 0x22) in rev (dropWhile quote (rev (dropWhile quote s))))"

definition os_info :: "string \<Rightarrow> string option \<Rightarrow> string" where
  "os_info goos file =
     (case file of
        None \<Rightarrow> goos
      | Some data \<Rightarrow>
          (case find (\<lambda>line. has_prefix line ''PRETTY_NAME='') (split_char CHR 0x0A data) of
             None \<Rightarrow> goos
           | Some line \<Rightarrow> trim_quotes (trim_prefix line ''PRETTY_NAME='')))"

definition kernel_version :: "string option \<Rightarrow> string" where
  "kernel_version answer = (case answer of None \<Rightarrow> ''unknown'' | Some out \<Rightarrow> trim_space out)"

definition cpu_model :: "string option \<Rightarrow> string" where
  "cpu_model file =
     (case file of
        None \<Rightarrow> ''unknown''
      | Some data \<Rightarrow>
          (case List.map_filter
                  (\<lambda>line. if has_prefix line ''model name''
                          then map_option (\<lambda>(key, value). trim_space value) (str_cut '':'' line) else None)
                  (split_char CHR 0x0A data) of
             [] \<Rightarrow> ''unknown''
           | name # _ \<Rightarrow> name))"

definition gpu_info_line :: "string \<Rightarrow> (int \<times> string \<times> int) option" where
  "gpu_info_line line =
     (let fields = map trim_space (split_char CHR '','' line) in
      if line = [] \<or> length fields < 3 then None
      else Some (atoi_value (fields ! 0), fields ! 1, atoi_value (fields ! 2)))"

definition gpu_info :: "string option \<Rightarrow> (int \<times> string \<times> int) list" where
  "gpu_info answer =
     (case answer of
        None \<Rightarrow> []
      | Some out \<Rightarrow> List.map_filter gpu_info_line (split_char CHR 0x0A (trim_space out)))"

definition docker_info :: "string + string \<Rightarrow> bool \<times> string" where
  "docker_info answer = (case answer of Inl e \<Rightarrow> (False, e) | Inr out \<Rightarrow> (True, trim_space out))"

definition total_disk :: "string + string \<Rightarrow> int \<times> string option" where
  "total_disk answer =
     (case answer of
        Inl e \<Rightarrow> (0, Some e)
      | Inr out \<Rightarrow>
          (let lines = split_char CHR 0x0A (trim_space out) in
           if 2 \<le> length lines then (atoi_value (trim_suffix (trim_space (lines ! 1)) ''G''), None) else (0, None)))"

section \<open>What the gate guarantees\<close>

text \<open>The configuration the agent runs with: the first file that can be read and decoded.\<close>

definition active_config ::
  "(string \<Rightarrow> auth_config option) \<Rightarrow> string \<Rightarrow> string option \<Rightarrow> auth_config option" where
  "active_config read env home =
     (case List.map_filter read (config_paths env home) of [] \<Rightarrow> None | c # _ \<Rightarrow> Some c)"

lemma identity_token [simp]: "as_token (identity_of prepare path c) = ac_token c"
  by (simp add: identity_of_def Let_def split: option.split)

lemma loaded_token:
  "as_token (load_auth_token prepare read env home) =
     (case active_config read env home of None \<Rightarrow> [] | Some c \<Rightarrow> ac_token c)"
proof -
  have "as_token (load_identity prepare read paths) =
    (case List.map_filter read paths of [] \<Rightarrow> [] | c # cs \<Rightarrow> ac_token c)" for paths
    by (induction paths) (auto simp: no_identity_def map_filter_simps split: option.split)
  then show ?thesis by (simp add: load_auth_token_def active_config_def split: list.split)
qed

lemma passes_iff: "require_auth s header = None \<longleftrightarrow> as_token s = [] \<or> header = ''Bearer '' @ as_token s"
  by (auto simp: require_auth_def has_prefix_iff trim_prefix_def)

text \<open>
  C18: a request reaches a protected route exactly when the first configuration file that can be read
  holds no token, or no file can be read at all, or its \<^verbatim>\<open>Authorization\<close> header is exactly \<^verbatim>\<open>Bearer\<close>,
  one space and that token.
\<close>

theorem agent_auth_gate:
  "require_auth (load_auth_token prepare read env home) header = None \<longleftrightarrow>
     (case active_config read env home of
        None \<Rightarrow> True
      | Some c \<Rightarrow> ac_token c = [] \<or> header = ''Bearer '' @ ac_token c)"
  by (simp add: passes_iff loaded_token split: option.split)

text \<open>A configuration file that exists but does not decode opens every route when no other file is there.\<close>

lemma broken_config_opens_agent:
  assumes "\<And>path. read path = None"
  shows "require_auth (load_auth_token prepare read env home) header = None"
  using assms by (simp add: passes_iff loaded_token active_config_def map_filter_def filter_False)

text \<open>
  The launch capability is advertised exactly when the launch authorization would not call itself
  unavailable and its replay store can be prepared.
\<close>

definition agent_of :: "crypto \<Rightarrow> agent_state \<Rightarrow> agent" where
  "agent_of crypto s =
     \<lparr>ag_crypto = crypto, ag_public = as_public s, ag_device = as_device s, ag_store = (as_store s \<noteq> None)\<rparr>"

lemma capability_means_available:
  "launch_capability \<in> set (current_capabilities prepare s) \<longleftrightarrow>
     check_request (agent_of crypto s) r \<noteq> Inl AuthUnavailable \<and>
     (\<forall>dir. as_store s = Some dir \<longrightarrow> prepare_store (prepare dir) = None)"
proof -
  have "launch_capability \<notin> set static_capabilities"
    by (simp add: launch_capability_def static_capabilities_def)
  then show ?thesis
    by (auto simp: current_capabilities_def launch_available_def check_request_def agent_of_def public_key_size_def
      split: option.split if_splits)
qed

end
