(* ===== verification/Upgrade_Install.thy ===== *)
theory Upgrade_Install
  imports Go_Path
begin

text \<open>
  The self-upgrade, \<^verbatim>\<open>internal/upgrade/upgrade.go\<close>: the release check, the extraction of the archive,
  the exchange of the two binaries with its rollback, and the run that composes them. The file system
  is a map from paths to contents; an error of each call is an argument. Renames either happen or leave
  everything as it was. The archive is the list of its decoded entries.
\<close>

section \<open>Files\<close>

type_synonym files = "string \<Rightarrow> string option"

definition rename_file :: "gerror option \<Rightarrow> string \<Rightarrow> string \<Rightarrow> files \<Rightarrow> gerror option \<times> files" where
  "rename_file fault a b fs =
     (case fault of
        Some e \<Rightarrow> (Some e, fs)
      | None \<Rightarrow>
          (case fs a of
             None \<Rightarrow> (Some (Sentinel OsNotExist), fs)
           | Some x \<Rightarrow> (None, fs(a := None, b := Some x))))"

definition remove_if_exists :: "gerror option \<Rightarrow> string \<Rightarrow> files \<Rightarrow> gerror option \<times> files" where
  "remove_if_exists fault p fs =
     (case fault of
        Some e \<Rightarrow> (if err_is e OsNotExist then None else Some e, fs)
      | None \<Rightarrow> (None, fs(p := None)))"

text \<open>\<^verbatim>\<open>_ = os.Remove(p)\<close>; \<open>kept\<close> says that the removal fails.\<close>

definition drop_file :: "bool \<Rightarrow> string \<Rightarrow> files \<Rightarrow> files" where
  "drop_file kept p fs = (if kept then fs else fs(p := None))"

section \<open>The release\<close>

text \<open>The answer of the release page: an error, or the status, the path it ended at and its address.\<close>

record release_answer =
  ra_known :: bool
  ra_status :: int
  ra_path :: string
  ra_url :: string

definition check_release :: "gerror + release_answer \<Rightarrow> string \<Rightarrow> gerror + string \<times> bool" where
  "check_release answer current =
     (case answer of
        Inl e \<Rightarrow> Inl (Wrapf ''failed to fetch release info: '' e [])
      | Inr r \<Rightarrow>
          if \<not> ra_known r then Inl (Errorf ''failed to resolve latest release URL'')
          else if ra_status r \<noteq> 200 then Inl (Errorf (''GitHub returned status '' @ itoa (ra_status r)))
          else (let tag = trim_prefix (path_base (ra_path r)) ''v'' in
            if tag = [] \<or> tag = ''latest''
            then Inl (Errorf (''failed to parse latest release version from '' @ go_quote (ra_url r)))
            else (let clean = trim_prefix current ''v''; latest = trim_prefix (''v'' @ tag) ''v'' in
              Inr (''v'' @ tag, clean = ''dev'' \<or> (latest \<noteq> clean \<and> latest \<noteq> [])))))"

definition binary_name :: "string \<Rightarrow> string \<Rightarrow> string" where
  "binary_name name goos = (if goos = ''windows'' then name @ ''.exe'' else name)"

definition asset_name :: "string \<Rightarrow> string \<Rightarrow> string \<Rightarrow> string" where
  "asset_name tag goos goarch =
     ''Yokai_'' @ trim_prefix tag ''v'' @ ''_'' @ goos @ ''_'' @ goarch @
     (if goos = ''windows'' then ''.zip'' else ''.tar.gz'')"

definition asset_url :: "string \<Rightarrow> string \<Rightarrow> string \<Rightarrow> string" where
  "asset_url tag goos goarch =
     ''https://github.com/spencerbull/yokai/releases/download/'' @ tag @ ''/'' @ asset_name tag goos goarch"

section \<open>Extraction\<close>

text \<open>An entry of a tar archive; links and devices are \<open>OtherEntry\<close>.\<close>

datatype entry_kind = DirEntry | FileEntry string | OtherEntry

text \<open>The errors while one file is written; the content read so far when the copy fails.\<close>

record extract_faults =
  xf_mkdir :: "gerror option"
  xf_create :: "gerror option"
  xf_copy :: "(string \<times> gerror) option"
  xf_close :: "gerror option"
  xf_chmod :: "gerror option"

definition below :: "string \<Rightarrow> string \<Rightarrow> bool" where
  "below dst path \<longleftrightarrow> has_prefix path (path_clean dst @ ''/'')"

definition extract_entry ::
  "string \<Rightarrow> extract_faults \<Rightarrow> string \<times> entry_kind \<Rightarrow> files \<Rightarrow> gerror option \<times> files" where
  "extract_entry dst f entry fs =
     (let path = path_join [dst, fst entry] in
      if \<not> below dst path then (Some (Errorf (''invalid file path: '' @ fst entry)), fs)
      else (case snd entry of
          DirEntry \<Rightarrow> (xf_mkdir f, fs)
        | OtherEntry \<Rightarrow> (None, fs)
        | FileEntry content \<Rightarrow>
            (case (xf_mkdir f, xf_create f) of
               (Some e, _) \<Rightarrow> (Some e, fs)
             | (None, Some e) \<Rightarrow> (Some e, fs)
             | (None, None) \<Rightarrow>
                 (let fs' = fs(path := Some (case xf_copy f of None \<Rightarrow> content | Some (part, e) \<Rightarrow> part)) in
                  (case (xf_close f, xf_copy f) of
                     (Some e, _) \<Rightarrow> Some e
                   | (None, Some (part, e)) \<Rightarrow> Some e
                   | (None, None) \<Rightarrow> xf_chmod f,
                   fs')))))"

text \<open>\<open>fault n\<close>: the errors met at the entry number \<open>n\<close>.\<close>

fun extract_tar ::
  "string \<Rightarrow> (nat \<Rightarrow> extract_faults) \<Rightarrow> nat \<Rightarrow> (string \<times> entry_kind) list \<Rightarrow> files \<Rightarrow> gerror option \<times> files" where
  "extract_tar dst fault n [] fs = (None, fs)"
| "extract_tar dst fault n (entry # es) fs =
     (case extract_entry dst (fault n) entry fs of
        (Some e, fs') \<Rightarrow> (Some e, fs')
      | (None, fs') \<Rightarrow> extract_tar dst fault (Suc n) es fs')"

text \<open>The walk of the extracted tree: each path with its base name and whether it is a regular file.\<close>

definition find_binary :: "string \<Rightarrow> gerror + (string \<times> bool) list \<Rightarrow> gerror + string" where
  "find_binary name walk =
     (case walk of
        Inl e \<Rightarrow> Inl (Wrapf (''finding '' @ name @ '' in archive: '') e [])
      | Inr paths \<Rightarrow>
          (case find (\<lambda>(p, regular). regular \<and> path_base p = name \<and> p \<noteq> []) paths of
             None \<Rightarrow> Inl (Errorf (name @ '' binary not found in archive''))
           | Some (p, regular) \<Rightarrow> Inr p))"

section \<open>Exchanging the pair\<close>

record stage_faults =
  sg_open :: "gerror option"
  sg_temp :: "gerror option"
  sg_copy :: "(string \<times> gerror) option"
  sg_close :: "gerror option"
  sg_chmod :: "gerror option"
  sg_kept :: bool

definition stage_binary :: "stage_faults \<Rightarrow> string \<Rightarrow> string \<Rightarrow> files \<Rightarrow> gerror option \<times> files" where
  "stage_binary f source temp fs =
     (case (sg_open f, fs source) of
        (Some e, _) \<Rightarrow> (Some e, fs)
      | (None, None) \<Rightarrow> (Some (Sentinel OsNotExist), fs)
      | (None, Some content) \<Rightarrow>
          (case sg_temp f of
             Some e \<Rightarrow> (Some e, fs)
           | None \<Rightarrow>
               (let undone = (\<lambda>x. drop_file (sg_kept f) temp (fs(temp := Some x))) in
                case (sg_copy f, sg_close f, sg_chmod f) of
                  (Some (part, e), _, _) \<Rightarrow> (Some e, undone part)
                | (None, Some e, _) \<Rightarrow> (Some e, undone content)
                | (None, None, Some e) \<Rightarrow> (Some e, undone content)
                | (None, None, None) \<Rightarrow> (None, fs(temp := Some content)))))"

text \<open>A free name beside the target: the error of creating, closing and removing the placeholder.\<close>

record backup_faults =
  bf_create :: "gerror option"
  bf_close :: "gerror option"
  bf_remove :: "gerror option"

definition backup_path :: "backup_faults \<Rightarrow> string \<Rightarrow> files \<Rightarrow> gerror option \<times> files" where
  "backup_path f path fs =
     (case (bf_create f, bf_close f, bf_remove f) of
        (Some e, _, _) \<Rightarrow> (Some e, fs)
      | (None, Some e, r) \<Rightarrow> (Some e, drop_file (r \<noteq> None) path (fs(path := Some [])))
      | (None, None, Some e) \<Rightarrow> (Some e, fs(path := Some []))
      | (None, None, None) \<Rightarrow> (None, fs(path := None)))"

text \<open>The paths of one exchange.\<close>

record pair_paths =
  px_new :: string
  px_new_tui :: string
  px_current :: string
  px_current_tui :: string
  px_staged :: string
  px_staged_tui :: string
  px_old :: string
  px_old_tui :: string

record pair_faults =
  pf_stage :: stage_faults
  pf_stage_tui :: stage_faults
  pf_reserve :: backup_faults
  pf_reserve_tui :: backup_faults
  pf_backup :: "gerror option"
  pf_backup_tui :: "gerror option"
  pf_install :: "gerror option"
  pf_install_tui :: "gerror option"
  pf_remove :: "gerror option"
  pf_remove_tui :: "gerror option"
  pf_restore :: "gerror option"
  pf_restore_tui :: "gerror option"
  pf_kept :: "string \<Rightarrow> bool"

definition wrap_fault :: "string \<Rightarrow> gerror option \<Rightarrow> gerror list" where
  "wrap_fault what e = (case e of None \<Rightarrow> [] | Some g \<Rightarrow> [Wrapf what g []])"

definition join_errors :: "gerror list \<Rightarrow> gerror option" where
  "join_errors es = (if es = [] then None else Some (JoinErr es))"

definition rollback_pair :: "pair_faults \<Rightarrow> pair_paths \<Rightarrow> bool \<Rightarrow> files \<Rightarrow> gerror option \<times> files" where
  "rollback_pair f p had_old fs =
     (let (e1, fs1) = remove_if_exists (pf_remove f) (px_current p) fs;
          (e2, fs2) = remove_if_exists (pf_remove_tui f) (px_current_tui p) fs1;
          (e3, fs3) = rename_file (pf_restore f) (px_old p) (px_current p) fs2;
          (e4, fs4) = (if had_old then rename_file (pf_restore_tui f) (px_old_tui p) (px_current_tui p) fs3
                       else (None, fs3))
      in (join_errors (wrap_fault ''removing new yokai binary: '' e1 @
            wrap_fault ''removing new yokai-tui binary: '' e2 @ wrap_fault ''restoring yokai binary: '' e3 @
            wrap_fault ''restoring yokai-tui binary: '' e4),
          fs4))"

definition with_rollback :: "gerror \<Rightarrow> gerror option \<Rightarrow> gerror" where
  "with_rollback cause e =
     (case e of None \<Rightarrow> cause | Some r \<Rightarrow> JoinErr [cause, Wrapf ''rollback failed: '' r []])"

text \<open>The renames, once both files are staged and both backup names are reserved.\<close>

definition exchange_rest :: "pair_faults \<Rightarrow> pair_paths \<Rightarrow> bool \<Rightarrow> files \<Rightarrow> gerror option \<times> files" where
  "exchange_rest f p had_old fs =
     (let undo = (\<lambda>what e fs. let (r, fs') = rollback_pair f p had_old fs
                               in (Some (with_rollback (Wrapf what e []) r), fs')) in
      case rename_file (pf_install f) (px_staged p) (px_current p) fs of
        (Some e, fs1) \<Rightarrow> undo ''installing yokai binary: '' e fs1
      | (None, fs1) \<Rightarrow>
          (case rename_file (pf_install_tui f) (px_staged_tui p) (px_current_tui p) fs1 of
             (Some e, fs2) \<Rightarrow> undo ''installing yokai-tui binary: '' e fs2
           | (None, fs2) \<Rightarrow>
               (let fs3 = drop_file (pf_kept f (px_old p)) (px_old p) fs2 in
                (None, if had_old then drop_file (pf_kept f (px_old_tui p)) (px_old_tui p) fs3 else fs3))))"

definition exchange_pair :: "pair_faults \<Rightarrow> pair_paths \<Rightarrow> files \<Rightarrow> gerror option \<times> files" where
  "exchange_pair f p fs =
     (case rename_file (pf_backup f) (px_current p) (px_old p) fs of
        (Some e, fs1) \<Rightarrow> (Some (Wrapf ''backing up current binary: '' e []), fs1)
      | (None, fs1) \<Rightarrow>
          (case rename_file (pf_backup_tui f) (px_current_tui p) (px_old_tui p) fs1 of
             (None, fs2) \<Rightarrow> exchange_rest f p True fs2
           | (Some e, fs2) \<Rightarrow>
               if err_is e OsNotExist then exchange_rest f p False fs2
               else (let (r, fs3) = rename_file (pf_restore f) (px_old p) (px_current p) fs2 in
                     (Some (with_rollback (Wrapf ''backing up yokai-tui binary: '' e []) r), fs3))))"

text \<open>The staged files are removed, as well as possible, on every way out.\<close>

definition install_pair :: "pair_faults \<Rightarrow> pair_paths \<Rightarrow> files \<Rightarrow> gerror option \<times> files" where
  "install_pair f p fs =
     (let unstage = drop_file (pf_kept f (px_staged p)) (px_staged p);
          unstage_both = (\<lambda>fs. unstage (drop_file (pf_kept f (px_staged_tui p)) (px_staged_tui p) fs)) in
      case stage_binary (pf_stage f) (px_new p) (px_staged p) fs of
        (Some e, fs1) \<Rightarrow> (Some (Wrapf ''staging yokai binary: '' e []), fs1)
      | (None, fs1) \<Rightarrow>
     (case stage_binary (pf_stage_tui f) (px_new_tui p) (px_staged_tui p) fs1 of
        (Some e, fs2) \<Rightarrow> (Some (Wrapf ''staging yokai-tui binary: '' e []), unstage fs2)
      | (None, fs2) \<Rightarrow>
     (case backup_path (pf_reserve f) (px_old p) fs2 of
        (Some e, fs3) \<Rightarrow> (Some (Wrapf ''reserving yokai backup path: '' e []), unstage_both fs3)
      | (None, fs3) \<Rightarrow>
     (case backup_path (pf_reserve_tui f) (px_old_tui p) fs3 of
        (Some e, fs4) \<Rightarrow> (Some (Wrapf ''reserving yokai-tui backup path: '' e []), unstage_both fs4)
      | (None, fs4) \<Rightarrow>
          (let (e, fs5) = exchange_pair f p fs4 in (e, unstage_both fs5))))))"

section \<open>The upgrade\<close>

text \<open>
  The answers around the calls above: the download by address, the temporary archive and its name,
  the decoded archive with the error that ends it, the walk of the extracted tree, the path of the
  running binary with its links resolved, and the restart of the daemon. Only the tar archives of
  Unix are modelled; a zip archive takes the same decisions.
\<close>

record upgrade_env =
  ue_release :: "gerror + release_answer"
  ue_goos :: string
  ue_goarch :: string
  ue_get :: "string \<Rightarrow> gerror + int"
  ue_temp :: "gerror option"
  ue_save :: "gerror option"
  ue_close :: "gerror option"
  ue_tempdir :: "gerror + string"
  ue_open :: "gerror option"
  ue_entries :: "(string \<times> entry_kind) list \<times> gerror option"
  ue_extract :: "nat \<Rightarrow> extract_faults"
  ue_walk :: "files \<Rightarrow> gerror + (string \<times> bool) list"
  ue_executable :: "gerror + string"
  ue_links :: "string \<Rightarrow> gerror + string"
  ue_names :: "string \<Rightarrow> string \<Rightarrow> string \<times> string \<times> string \<times> string"
  ue_faults :: pair_faults
  ue_restart :: "gerror option"
  ue_swept :: bool

datatype upgrade_outcome = UpgradeFailed gerror | UpToDate | Upgraded string "gerror option"

definition download_archive :: "upgrade_env \<Rightarrow> string \<Rightarrow> gerror option" where
  "download_archive env tag =
     (case ue_get env (asset_url tag (ue_goos env) (ue_goarch env)) of
        Inl e \<Rightarrow> Some (Wrapf ''failed to download update: '' e [])
      | Inr status \<Rightarrow>
          if status \<noteq> 200 then Some (Errorf (''download failed with status '' @ itoa status))
          else (case (ue_temp env, ue_close env, ue_save env) of
              (Some e, _, _) \<Rightarrow> Some (Wrapf ''failed to create temp file: '' e [])
            | (None, Some e, _) \<Rightarrow> Some (Wrapf ''failed to close temp file: '' e [])
            | (None, None, Some e) \<Rightarrow> Some (Wrapf ''failed to save download: '' e [])
            | (None, None, None) \<Rightarrow> None))"

definition extract_archive :: "upgrade_env \<Rightarrow> string \<Rightarrow> files \<Rightarrow> gerror option \<times> files" where
  "extract_archive env dst fs =
     (case ue_open env of
        Some e \<Rightarrow> (Some e, fs)
      | None \<Rightarrow>
          (case extract_tar dst (ue_extract env) 0 (fst (ue_entries env)) fs of
             (Some e, fs') \<Rightarrow> (Some e, fs')
           | (None, fs') \<Rightarrow> (snd (ue_entries env), fs')))"

text \<open>The extracted tree is removed on every way out, as well as possible.\<close>

definition sweep :: "bool \<Rightarrow> string \<Rightarrow> files \<Rightarrow> files" where
  "sweep swept dst fs = (if swept then (\<lambda>q. if below dst q then None else fs q) else fs)"

definition pair_of :: "upgrade_env \<Rightarrow> string \<Rightarrow> string \<Rightarrow> string \<Rightarrow> pair_paths" where
  "pair_of env new new_tui current =
     (let tui = path_join [path_dir current, binary_name ''yokai-tui'' (ue_goos env)];
          (s, st, old, old_tui) = ue_names env current tui
      in \<lparr>px_new = new, px_new_tui = new_tui, px_current = current, px_current_tui = tui, px_staged = s,
          px_staged_tui = st, px_old = old, px_old_tui = old_tui\<rparr>)"

definition replace_binaries :: "upgrade_env \<Rightarrow> string \<Rightarrow> files \<Rightarrow> upgrade_outcome \<times> files" where
  "replace_binaries env tag fs =
     (case find_binary (binary_name ''yokai'' (ue_goos env)) (ue_walk env fs) of
        Inl e \<Rightarrow> (UpgradeFailed e, fs)
      | Inr new \<Rightarrow>
     (case find_binary (binary_name ''yokai-tui'' (ue_goos env)) (ue_walk env fs) of
        Inl e \<Rightarrow> (UpgradeFailed e, fs)
      | Inr new_tui \<Rightarrow>
     (case ue_executable env of
        Inl e \<Rightarrow> (UpgradeFailed (Wrapf ''failed to find current binary path: '' e []), fs)
      | Inr binary \<Rightarrow>
     (case ue_links env binary of
        Inl e \<Rightarrow> (UpgradeFailed (Wrapf ''failed to resolve binary path: '' e []), fs)
      | Inr current \<Rightarrow>
          (case install_pair (ue_faults env) (pair_of env new new_tui current) fs of
             (Some e, fs') \<Rightarrow> (UpgradeFailed e, fs')
           | (None, fs') \<Rightarrow> (Upgraded tag (ue_restart env), fs'))))))"

definition run_upgrade :: "upgrade_env \<Rightarrow> string \<Rightarrow> files \<Rightarrow> upgrade_outcome \<times> files" where
  "run_upgrade env current fs =
     (case check_release (ue_release env) current of
        Inl e \<Rightarrow> (UpgradeFailed (Wrapf ''failed to check for updates: '' e []), fs)
      | Inr (tag, available) \<Rightarrow>
          if \<not> available then (UpToDate, fs)
          else (case download_archive env tag of
              Some e \<Rightarrow> (UpgradeFailed e, fs)
            | None \<Rightarrow>
                (case ue_tempdir env of
                   Inl e \<Rightarrow> (UpgradeFailed (Wrapf ''failed to create temp directory: '' e []), fs)
                 | Inr dst \<Rightarrow>
                     (case extract_archive env dst fs of
                        (Some e, fs') \<Rightarrow>
                          (UpgradeFailed (Wrapf ''failed to extract archive: '' e []), sweep (ue_swept env) dst fs')
                      | (None, fs') \<Rightarrow>
                          (let (outcome, fs'') = replace_binaries env tag fs'
                           in (outcome, sweep (ue_swept env) dst fs''))))))"

section \<open>Extraction stays in its directory\<close>

lemma extract_entry_confined:
  "extract_entry dst f entry fs = (e, fs') \<Longrightarrow> \<not> below dst q \<Longrightarrow> fs' q = fs q"
  by (auto simp: extract_entry_def Let_def split: if_splits entry_kind.splits option.splits)

lemma extract_tar_confined:
  "extract_tar dst fault n es fs = (e, fs') \<Longrightarrow> \<not> below dst q \<Longrightarrow> fs' q = fs q"
proof (induction es arbitrary: n fs)
  case (Cons entry es)
  obtain g fs1 where x: "extract_entry dst (fault n) entry fs = (g, fs1)" by (metis surj_pair)
  with Cons.IH [of "Suc n" fs1] Cons.prems extract_entry_confined [OF x Cons.prems(2)] show ?case
    by (cases g) auto
qed simp

text \<open>Any release that differs counts as an update, an older one too.\<close>

lemma older_release_is_update:
  "check_release (Inr \<lparr>ra_known = True, ra_status = 200, ra_path = ''/spencerbull/yokai/releases/tag/v1.0.0'', ra_url = []\<rparr>)
     ''v2.0.0'' = Inr (''v1.0.0'', True)"
  by code_simp

section \<open>What an exchange leaves behind\<close>

text \<open>The two binaries are where they were, with their contents.\<close>

definition pair_kept :: "pair_paths \<Rightarrow> files \<Rightarrow> files \<Rightarrow> bool" where
  "pair_kept p fs fs' \<longleftrightarrow> fs' (px_current p) = fs (px_current p) \<and> fs' (px_current_tui p) = fs (px_current_tui p)"

text \<open>Neither binary is lost: each is in its place or under its backup name.\<close>

definition pair_safe :: "pair_paths \<Rightarrow> files \<Rightarrow> files \<Rightarrow> bool" where
  "pair_safe p fs fs' \<longleftrightarrow>
     (fs' (px_current p) = fs (px_current p) \<or> fs' (px_old p) = fs (px_current p)) \<and>
     (fs' (px_current_tui p) = fs (px_current_tui p) \<or> fs' (px_old_tui p) = fs (px_current_tui p))"

definition paths_distinct :: "pair_paths \<Rightarrow> bool" where
  "paths_distinct p \<longleftrightarrow>
     distinct [px_new p, px_new_tui p, px_current p, px_current_tui p, px_staged p, px_staged_tui p,
       px_old p, px_old_tui p]"

text \<open>What a rollback that failed says.\<close>

fun says_rollback_failed :: "gerror \<Rightarrow> bool" where
  "says_rollback_failed (JoinErr [cause, Wrapf what r post]) = (what = ''rollback failed: '')"
| "says_rollback_failed e = False"

lemma rollback_pair_restores:
  assumes d: "paths_distinct p" and m: "fs (px_old p) = Some m"
    and t: "if had then fs (px_old_tui p) = t \<and> t \<noteq> None else t = None \<and> fs (px_current_tui p) = None"
    and r: "rollback_pair f p had fs = (r, fs')"
  shows "(r = None \<longrightarrow> fs' (px_current p) = Some m \<and> fs' (px_current_tui p) = t) \<and>
    (fs' (px_current p) = Some m \<or> fs' (px_old p) = Some m) \<and>
    (fs' (px_current_tui p) = t \<or> fs' (px_old_tui p) = t)"
  using d m t r
  by (cases "pf_restore f"; cases "pf_restore_tui f"; cases "pf_remove f"; cases "pf_remove_tui f"; cases had)
    (auto simp: rollback_pair_def rename_file_def remove_if_exists_def paths_distinct_def join_errors_def
      wrap_fault_def Let_def split: if_splits)

lemma with_rollback_says: "says_rollback_failed (with_rollback (Wrapf what e post) r) \<longleftrightarrow> r \<noteq> None"
  by (simp add: with_rollback_def split: option.split)

text \<open>The pair with contents \<open>m\<close> and \<open>t\<close> is restored, or kept in part under its backup names.\<close>

definition undone :: "pair_paths \<Rightarrow> string \<Rightarrow> string option \<Rightarrow> gerror \<Rightarrow> files \<Rightarrow> bool" where
  "undone p m t g fs' \<longleftrightarrow>
     (if says_rollback_failed g
      then (fs' (px_current p) = Some m \<or> fs' (px_old p) = Some m) \<and>
           (fs' (px_current_tui p) = t \<or> fs' (px_old_tui p) = t)
      else fs' (px_current p) = Some m \<and> fs' (px_current_tui p) = t)"

lemma rollback_undone:
  assumes "paths_distinct p" and "fs (px_old p) = Some m"
    and "if had then fs (px_old_tui p) = t \<and> t \<noteq> None else t = None \<and> fs (px_current_tui p) = None"
    and "rollback_pair f p had fs = (r, fs')"
  shows "undone p m t (with_rollback (Wrapf what e post) r) fs'"
  using rollback_pair_restores [OF assms] by (simp add: undone_def with_rollback_says)

lemma exchange_rest_outcome:
  assumes d: "paths_distinct p" and m: "fs (px_old p) = Some m"
    and t: "if had then fs (px_old_tui p) = t \<and> t \<noteq> None else t = None"
    and new: "fs (px_staged p) = Some a" "fs (px_staged_tui p) = Some b"
    and tui: "fs (px_current_tui p) = None"
    and r: "exchange_rest f p had fs = (e, fs')"
  shows "case e of None \<Rightarrow> fs' (px_current p) = Some a \<and> fs' (px_current_tui p) = Some b
    | Some g \<Rightarrow> undone p m t g fs'"
proof (cases "pf_install f")
  case (Some g)
  with r new obtain x where x: "rollback_pair f p had fs = (x, fs')"
    "e = Some (with_rollback (Wrapf ''installing yokai binary: '' g []) x)"
    by (auto simp: exchange_rest_def rename_file_def Let_def split: prod.splits)
  show ?thesis using rollback_undone [OF d m _ x(1)] t tui x(2) by simp
next
  case None
  let ?fs1 = "fs(px_staged p := None, px_current p := Some a)"
  show ?thesis
  proof (cases "pf_install_tui f")
    case (Some g)
    with None r new d obtain x where x: "rollback_pair f p had ?fs1 = (x, fs')"
    "e = Some (with_rollback (Wrapf ''installing yokai-tui binary: '' g []) x)"
    by (auto simp: exchange_rest_def rename_file_def Let_def split: prod.splits)
    have "?fs1 (px_old p) = Some m" "if had then ?fs1 (px_old_tui p) = t \<and> t \<noteq> None else t = None \<and> ?fs1 (px_current_tui p) = None"
      using d m t tui by (auto simp: paths_distinct_def split: if_splits)
    from rollback_undone [OF d this x(1)] show ?thesis by (simp add: x(2))
  next
    case None2: None
    from None None2 r new d show ?thesis
      by (auto simp: exchange_rest_def rename_file_def drop_file_def paths_distinct_def Let_def)
  qed
qed

lemma exchange_pair_outcome:
  assumes d: "paths_distinct p" and m: "fs (px_current p) = Some m"
    and new: "fs (px_staged p) = Some a" "fs (px_staged_tui p) = Some b"
    and backup: "\<And>g. pf_backup_tui f = Some g \<Longrightarrow> \<not> err_is g OsNotExist"
    and r: "exchange_pair f p fs = (e, fs')"
  shows "case e of None \<Rightarrow> fs' (px_current p) = Some a \<and> fs' (px_current_tui p) = Some b
    | Some g \<Rightarrow> undone p m (fs (px_current_tui p)) g fs'"
proof (cases "pf_backup f")
  case (Some g)
  with r m show ?thesis by (auto simp: exchange_pair_def rename_file_def undone_def)
next
  case None
  let ?fs1 = "fs(px_current p := None, px_old p := Some m)"
  let ?t = "fs (px_current_tui p)"
  have keep: "?fs1 (px_old p) = Some m" "?fs1 (px_staged p) = Some a" "?fs1 (px_staged_tui p) = Some b"
    "?fs1 (px_current_tui p) = ?t" using d new by (auto simp: paths_distinct_def)
  show ?thesis
  proof (cases "pf_backup_tui f")
    case (Some g)
    with backup have "\<not> err_is g OsNotExist" by simp
    with None Some r m keep(1,4) d show ?thesis
      by (cases "pf_restore f")
        (auto simp: exchange_pair_def rename_file_def undone_def with_rollback_def paths_distinct_def Let_def)
  next
    case None2: None
    show ?thesis
    proof (cases ?t)
      case absent: None
      have "exchange_rest f p False ?fs1 = (e, fs')"
        using r None None2 m keep(4) absent by (simp add: exchange_pair_def rename_file_def)
      from exchange_rest_outcome [OF d keep(1) _ keep(2,3) _ this, of None] absent show ?thesis using keep(4) by (cases e) simp_all
    next
      case (Some x)
      let ?fs2 = "?fs1(px_current_tui p := None, px_old_tui p := Some x)"
      have r2: "exchange_rest f p True ?fs2 = (e, fs')"
        using r None None2 m keep(4) Some by (simp add: exchange_pair_def rename_file_def)
      have "?fs2 (px_old p) = Some m" "?fs2 (px_staged p) = Some a" "?fs2 (px_staged_tui p) = Some b"
        "?fs2 (px_current_tui p) = None" "?fs2 (px_old_tui p) = Some x"
        using d new by (auto simp: paths_distinct_def)
      from exchange_rest_outcome [OF d this(1) _ this(2,3,4) r2, of "Some x"] this(5) Some show ?thesis by (cases e) simp_all
    qed
  qed
qed

lemma stage_binary_result:
  "stage_binary f source temp fs = (e, fs') \<Longrightarrow>
     (case e of None \<Rightarrow> fs source \<noteq> None \<and> fs' = fs(temp := fs source)
      | Some g \<Rightarrow> \<not> says_rollback_failed (Wrapf what g post) \<and> (\<forall>q. q \<noteq> temp \<longrightarrow> fs' q = fs q))"
  by (auto simp: stage_binary_def drop_file_def Let_def split: option.splits prod.splits if_splits)

lemma backup_path_result:
  "backup_path f path fs = (e, fs') \<Longrightarrow>
     (case e of None \<Rightarrow> fs' = fs(path := None) | Some g \<Rightarrow> \<forall>q. q \<noteq> path \<longrightarrow> fs' q = fs q)"
  by (auto simp: backup_path_def drop_file_def split: option.splits if_splits)

lemma drop_other: "q \<noteq> path \<Longrightarrow> drop_file kept path fs q = fs q"
  by (simp add: drop_file_def)

text \<open>An exchange fails before it moves anything, or moves the pair with both new files staged.\<close>

lemma install_pair_stages:
  assumes d: "paths_distinct p" and r: "install_pair f p fs = (e, fs')"
  shows "(\<exists>what g. e = Some (Wrapf what g []) \<and> pair_kept p fs fs') \<or>
    (\<exists>a b staged done. fs (px_new p) = Some a \<and> fs (px_new_tui p) = Some b \<and>
       staged (px_staged p) = Some a \<and> staged (px_staged_tui p) = Some b \<and>
       pair_kept p fs staged \<and> exchange_pair f p staged = (e, done) \<and>
       (\<forall>q \<in> {px_current p, px_current_tui p, px_old p, px_old_tui p}. fs' q = done q))"
proof -
  note drops = drop_other paths_distinct_def pair_kept_def
  have kept: ?thesis if "e = Some (Wrapf what g [])" "pair_kept p fs fs'" for what g
    using that by blast
  obtain e1 fs1 where s1: "stage_binary (pf_stage f) (px_new p) (px_staged p) fs = (e1, fs1)" by (metis surj_pair)
  show ?thesis
  proof (cases e1)
    case (Some g)
    with s1 r d show ?thesis
      by (intro kept) (auto simp: install_pair_def drops dest!: stage_binary_result [where what = "[]" and post = "[]"])
  next
    case None
    from stage_binary_result [OF s1] None obtain a where a: "fs (px_new p) = Some a" "fs1 = fs(px_staged p := Some a)"
      by auto
    obtain e2 fs2 where s2: "stage_binary (pf_stage_tui f) (px_new_tui p) (px_staged_tui p) fs1 = (e2, fs2)"
      by (metis surj_pair)
    show ?thesis
    proof (cases e2)
      case (Some g)
      from stage_binary_result [OF s2, of "[]" "[]"] Some None s1 s2 r d a show ?thesis
        by (intro kept) (auto simp: install_pair_def drops)
    next
      case None2: None
      from stage_binary_result [OF s2] None2 d a obtain b where b: "fs (px_new_tui p) = Some b"
        "fs2 = fs(px_staged p := Some a, px_staged_tui p := Some b)" by (auto simp: paths_distinct_def)
      obtain e3 fs3 where s3: "backup_path (pf_reserve f) (px_old p) fs2 = (e3, fs3)" by (metis surj_pair)
      show ?thesis
      proof (cases e3)
        case (Some g)
        from backup_path_result [OF s3] Some None None2 s1 s2 s3 r d b show ?thesis
          by (intro kept) (auto simp: install_pair_def drops)
      next
        case None3: None
        from backup_path_result [OF s3] None3 have fs3: "fs3 = fs2(px_old p := None)" by simp
        obtain e4 fs4 where s4: "backup_path (pf_reserve_tui f) (px_old_tui p) fs3 = (e4, fs4)" by (metis surj_pair)
        show ?thesis
        proof (cases e4)
          case (Some g)
          from backup_path_result [OF s4] Some None None2 None3 s1 s2 s3 s4 r d b fs3 show ?thesis
            by (intro kept) (auto simp: install_pair_def drops)
        next
          case None4: None
          from backup_path_result [OF s4] None4 have fs4: "fs4 = fs3(px_old_tui p := None)" by simp
          obtain fs5 where s5: "exchange_pair f p fs4 = (e, fs5)" and
            out: "fs' = drop_file (pf_kept f (px_staged p)) (px_staged p)
              (drop_file (pf_kept f (px_staged_tui p)) (px_staged_tui p) fs5)"
            using r s1 s2 s3 s4 None None2 None3 None4 by (auto simp: install_pair_def Let_def split: prod.splits)
          have "\<forall>q \<in> {px_current p, px_current_tui p, px_old p, px_old_tui p}. fs' q = fs5 q"
            using d by (auto simp: out drops)
          moreover have "fs4 (px_staged p) = Some a" "fs4 (px_staged_tui p) = Some b" "pair_kept p fs fs4"
            using d b by (auto simp: fs4 fs3 drops)
          ultimately show ?thesis using a(1) b(1) s5 by blast
        qed
      qed
    qed
  qed
qed

text \<open>
  C19: an upgrade ends in one of three ways, whatever calls fail. It reports success, and both
  binaries are the new ones. It reports an error, and both are what they were. Or it reports a failed
  rollback, and each old binary is in its place or under its backup name.
\<close>

theorem upgrade_exchange:
  assumes d: "paths_distinct p" and m: "fs (px_current p) = Some m"
    and backup: "\<forall>g \<in> set_option (pf_backup_tui f). \<not> err_is g OsNotExist"
    and r: "install_pair f p fs = (e, fs')"
  shows "case e of
      None \<Rightarrow> fs (px_new p) \<noteq> None \<and> fs' (px_current p) = fs (px_new p) \<and>
              fs (px_new_tui p) \<noteq> None \<and> fs' (px_current_tui p) = fs (px_new_tui p)
    | Some g \<Rightarrow> if says_rollback_failed g then pair_safe p fs fs' else pair_kept p fs fs'"
  using install_pair_stages [OF d r]
proof (elim disjE exE conjE)
  fix a b staged "done"
  assume new: "fs (px_new p) = Some a" "fs (px_new_tui p) = Some b" "staged (px_staged p) = Some a"
    "staged (px_staged_tui p) = Some b" and kept: "pair_kept p fs staged"
    and x: "exchange_pair f p staged = (e, done)"
    and same: "\<forall>q \<in> {px_current p, px_current_tui p, px_old p, px_old_tui p}. fs' q = done q"
  have "staged (px_current p) = Some m" using kept m by (simp add: pair_kept_def)
  from exchange_pair_outcome [OF d this new(3,4) _ x] backup same kept new(1,2) m show ?thesis
    by (cases e) (auto simp: undone_def pair_safe_def pair_kept_def)
qed simp

definition sample_pair :: pair_paths where
  "sample_pair = \<lparr>px_new = ''n'', px_new_tui = ''nt'', px_current = ''c'', px_current_tui = ''ct'',
     px_staged = ''s'', px_staged_tui = ''st'', px_old = ''o'', px_old_tui = ''ot''\<rparr>"

definition sample_faults :: pair_faults where
  "sample_faults =
     (let stage = \<lparr>sg_open = None, sg_temp = None, sg_copy = None, sg_close = None, sg_chmod = None, sg_kept = False\<rparr>;
          reserve = \<lparr>bf_create = None, bf_close = None, bf_remove = None\<rparr> in
      \<lparr>pf_stage = stage, pf_stage_tui = stage, pf_reserve = reserve, pf_reserve_tui = reserve, pf_backup = None,
       pf_backup_tui = None, pf_install = None, pf_install_tui = Some (Errorf ''busy''), pf_remove = None,
       pf_remove_tui = None, pf_restore = None, pf_restore_tui = None, pf_kept = (\<lambda>p. False)\<rparr>)"

definition sample_files :: files where
  "sample_files = map_of [(''n'', ''new''), (''nt'', ''new tui''), (''c'', ''old''), (''ct'', ''old tui'')]"

text \<open>The second rename fails: both old binaries are back.\<close>

theorem upgrade_exchange_witness:
  "pair_kept sample_pair sample_files (snd (install_pair sample_faults sample_pair sample_files))"
proof -
  have e: "fst (install_pair sample_faults sample_pair sample_files) =
      Some (Wrapf ''installing yokai-tui binary: '' (Errorf ''busy'') [])" by code_simp
  have "paths_distinct sample_pair" "sample_files (px_current sample_pair) = Some ''old''"
    "\<forall>g \<in> set_option (pf_backup_tui sample_faults). \<not> err_is g OsNotExist"
    by (simp_all add: paths_distinct_def sample_pair_def sample_files_def sample_faults_def Let_def)
  from upgrade_exchange [of sample_pair sample_files "''old''" sample_faults, OF this prod.collapse [symmetric]]
  show ?thesis by (simp add: e)
qed

end
