(* ===== verification/Spec2Isabelle.thy ===== *)
theory Spec2Isabelle
  imports Bkc_Shipped Log_Tail Deploy_Reconcile Launch_Auth_Properties Recipe_Rollout Docker_Launch Daemon_Properties
    Agent_Preflight_Properties Agent_Probe_Properties Agent_System Agent_Server Upgrade_Install
begin

text \<open>
  \<^bold>\<open>Yokai\<close> deploys inference engines on a fleet of GPU hosts. A daemon keeps the fleet's
  configuration, a catalog of known recipes and the deployments; an agent on every host runs
  Docker. This library models the decision logic of both, as HOL functions that follow the Go
  sources branch by branch, and proves what it guarantees.

  \<^bold>\<open>Parts and theories.\<close>

  \<^item> Go and its standard library. \<^verbatim>\<open>Go_Prelude\<close>: byte strings, \<^verbatim>\<open>strings\<close>,
    \<^verbatim>\<open>strconv\<close>, maps, error values. \<^verbatim>\<open>Go_Path\<close>: \<^verbatim>\<open>path/filepath\<close>. \<^verbatim>\<open>Go_Net\<close>:
    IPv4 and IPv6 texts. \<^verbatim>\<open>Go_Sha256\<close>: SHA-256 on 32-bit words,
    \<^verbatim>\<open>Go_Sha1\<close>: SHA-1. \<^verbatim>\<open>Go_Json\<close>: UTF-8 and
    JSON encoding. \<^verbatim>\<open>Go_Base64\<close>: base64, with its round trip.
  \<^item> The recipe catalog, \<^verbatim>\<open>internal/bkc\<close>. \<^verbatim>\<open>Bkc_Types\<close> (entries, two-node recipes),
    \<^verbatim>\<open>Bkc_Validate\<close> (\<^verbatim>\<open>multi_device.go\<close> and the checks of the three pinned recipes, in
    source order), \<^verbatim>\<open>Bkc_Recipes\<close> (those recipes), \<^verbatim>\<open>Bkc_Catalog\<close> (registration, lookups,
    suggestions, use cases), \<^verbatim>\<open>Bkc_Catalog_Names\<close>, \<^verbatim>\<open>Bkc_Vendors_A\<close>, \<^verbatim>\<open>Bkc_Vendors_B\<close>,
    \<^verbatim>\<open>Bkc_Vendors_Qwen\<close> (every entry of the \<^verbatim>\<open>catalog_*.go\<close> files), \<^verbatim>\<open>Bkc_Shipped\<close> (what
    program start registers).
  \<^item> The deployment engine, \<^verbatim>\<open>internal/deployments\<close>. \<^verbatim>\<open>Deploy_Types\<close> (\<^verbatim>\<open>types.go\<close>,
    \<^verbatim>\<open>errors.go\<close>), \<^verbatim>\<open>Deploy_World\<close> (the store of \<^verbatim>\<open>store.go\<close> in memory and on disk, the
    clock, the history of calls, a weakest precondition calculus), \<^verbatim>\<open>Deploy_Validate\<close>,
    \<^verbatim>\<open>Deploy_Candidate\<close>, \<^verbatim>\<open>Deploy_Rollback\<close>, \<^verbatim>\<open>Deploy_Create\<close>, \<^verbatim>\<open>Deploy_Lifecycle\<close> (the
    operations of \<^verbatim>\<open>engine.go\<close>), then the properties: \<^verbatim>\<open>Deploy_Safety\<close>,
    \<^verbatim>\<open>Deploy_Create_Safety\<close>, \<^verbatim>\<open>Deploy_Outcome\<close>, \<^verbatim>\<open>Deploy_Properties\<close>,
    \<^verbatim>\<open>Deploy_Lifecycle_Properties\<close>, \<^verbatim>\<open>Deploy_Recovery\<close>, \<^verbatim>\<open>Deploy_Reconcile\<close>. \<^verbatim>\<open>Log_Tail\<close>
    is \<^verbatim>\<open>logs.go\<close> and \<^verbatim>\<open>internal/agent/log_tail.go\<close>.
  \<^item> Launch authorization, \<^verbatim>\<open>internal/launchauth\<close> and
    \<^verbatim>\<open>internal/agent/launch_authorization.go\<close>: \<^verbatim>\<open>Launch_Auth\<close>,
    \<^verbatim>\<open>Launch_Auth_Properties\<close>; the signing key, \<^verbatim>\<open>keyfile.go\<close>: \<^verbatim>\<open>Launch_Key\<close>.
  \<^item> Configuration and history files, \<^verbatim>\<open>internal/config\<close>: \<^verbatim>\<open>Config_Store\<close>.
  \<^item> The self-upgrade, \<^verbatim>\<open>internal/upgrade/upgrade.go\<close>: \<^verbatim>\<open>Upgrade_Install\<close>.
  \<^item> The recipe overlay and the endpoints for external agents, \<^verbatim>\<open>internal/recipes\<close> and the
    files \<^verbatim>\<open>agent_*.go\<close> of \<^verbatim>\<open>internal/daemon\<close>: \<^verbatim>\<open>Recipe_Types\<close>, \<^verbatim>\<open>Recipe_Store\<close>,
    \<^verbatim>\<open>Recipe_Agent\<close>, \<^verbatim>\<open>Recipe_Agent_Properties\<close>, \<^verbatim>\<open>Recipe_Rollout\<close>.
  \<^item> Containers on a host, \<^verbatim>\<open>internal/agent\<close>. \<^verbatim>\<open>Docker_Args\<close> (\<^verbatim>\<open>docker.go\<close>: how a request
    becomes arguments; plugins; \<^verbatim>\<open>gguf.go\<close>), \<^verbatim>\<open>Docker_Patch\<close> (\<^verbatim>\<open>runtime_patch.go\<close>,
    \<^verbatim>\<open>runtime_patch_qwen38.go\<close>), \<^verbatim>\<open>Docker_Run\<close> (run, cleanup after a failure, restart),
    \<^verbatim>\<open>Docker_Handlers\<close> (\<^verbatim>\<open>server.go\<close>), \<^verbatim>\<open>Docker_Barrier\<close> (\<^verbatim>\<open>deployment_launch.go\<close>), then
    \<^verbatim>\<open>Docker_Properties\<close>, \<^verbatim>\<open>Docker_Qwen\<close>, \<^verbatim>\<open>Docker_Template\<close> and \<^verbatim>\<open>Docker_Launch\<close>, where the
    candidate of the engine meets the checks of the agent.
  \<^item> The agent around its containers. \<^verbatim>\<open>Agent_Snapshot\<close> (the pinned snapshot and
    \<^verbatim>\<open>page_cache.go\<close>), \<^verbatim>\<open>Agent_Inventory\<close> (listing), \<^verbatim>\<open>Agent_Preflight\<close>
    (\<^verbatim>\<open>deployment_preflight.go\<close>), \<^verbatim>\<open>Agent_Probe\<close> (\<^verbatim>\<open>serviceprobe.go\<close>, reading metrics),
    \<^verbatim>\<open>Agent_Metrics\<close> and \<^verbatim>\<open>Agent_System\<close> (\<^verbatim>\<open>metrics.go\<close>, \<^verbatim>\<open>prometheus.go\<close>), \<^verbatim>\<open>Agent_Server\<close>
    (identity, bearer token, capabilities), with \<^verbatim>\<open>Agent_Snapshot_Properties\<close>,
    \<^verbatim>\<open>Agent_Preflight_Properties\<close>, \<^verbatim>\<open>Agent_Probe_Properties\<close>.
  \<^item> The calls of the engine to the agents, \<^verbatim>\<open>internal/daemon/deployments.go\<close>:
    \<^verbatim>\<open>Daemon_Deploy\<close>, \<^verbatim>\<open>Daemon_Properties\<close>.

  \<^bold>\<open>How state and effects are modelled.\<close> The engine holds its mutex during an operation, so an
  operation is one state transformer over \<^verbatim>\<open>world\<close>: store, disk, clock, history of calls.
  Every answer from outside (devices, file system, timers, contexts) is an arbitrary function of
  the history so far; a theorem about all environments covers every failure at every point. The
  trace invariant of \<^verbatim>\<open>Deploy_Safety\<close> holds for every suffix of a history, hence also for a
  process that dies at any moment. Other components take the answers of one request as
  arguments and record their calls in order. Errors are values of \<^verbatim>\<open>gerror\<close> or of a sum type;
  a run-time panic is a value too, so absence of panics is a theorem. Integers are \<^typ>\<open>int\<close>
  with the wrap written out where the code can reach it (\<^verbatim>\<open>wrap64\<close>), 64-bit floats that are
  only compared are rationals, SHA-256 works on 32-bit words.

  \<^bold>\<open>Loops.\<close> All loops of the model end: the readiness loop of the engine runs as often as its
  timer ticks before a deadline or the end of the context, a number the environment gives; the
  loops that rewrite a slice in place are recursive with the measure of the unread part; a polling
  loop (the wait for a member, the cleanup after a failed run) consumes one answer per poll and
  ends with its deadline. No definition uses fuel.

  The barriers of concurrent handlers are a step relation; its theorems hold for every
  interleaving.

  \<^bold>\<open>Interfaces.\<close> The locale \<^verbatim>\<open>keyed_store\<close> is the contract of every list keyed by an
  identifier; it is interpreted by the deployments, the devices, the services and the recipes.

  \<^bold>\<open>What is shown.\<close> Every effect of the engine on a container is announced on disk, and managed
  containers are touched only after an identity check; creating never panics and ends in one of
  three described states, and succeeds in a healthy environment; starting, stopping, rolling
  back and reconciling do what they report; a launch authorization is used once and accepted by
  exactly its target; recipes are promoted on evidence only, a swap touches a device only for a
  recipe validated there; an agent changes a container only with the authority its interface
  states, removes after a failed run only what that run made, and runs the pinned recipe only as
  pinned, idle and checked, while every candidate the coordinator builds for an admitted request
  passes those checks; a removal never overtakes a launch, and every wait ends; the preflight of
  an agent accepts exactly the hosts it describes, with the pinned snapshot and no foreign tenant
  on the GPU; a request needs the token of the configuration in force; the signing key stays what
  it was; an upgrade replaces both binaries or neither, or says that its rollback failed; logs are
  bounded and redacted, and so are the errors of a service test; the catalog is well formed. Where
  the code does not do what its comments promise, a theorem shows the case.

  \<^bold>\<open>Parameters.\<close> ed25519, random bytes, JSON decoding, Docker, HTTP, SSH, the file system
  and floating point arithmetic are arguments; what a theorem needs of them is a premise of it. Case mapping is that of ASCII.
  \<^verbatim>\<open>sort.Slice\<close> is any ordered rearrangement. A Go map is an association list with distinct
  keys; where the code ranges over a map the order is that of the list.

  \<^bold>\<open>Not modelled.\<close> Flag parsing, process management (the restart after an upgrade too), HTTP routing and clients, SSH and
  Tailscale, the terminal UI, the editing of third-party configuration files, monitoring:
  they hold little logic beyond the calls. Of the agent, the streaming of logs and the supervisor
  of the TensorFold driver.
\<close>

section \<open>The engine on the shipped catalog\<close>

lemma lookup_id_mem: "lookup_id cat i = Some cfg \<Longrightarrow> cfg \<in> set cat"
  by (auto simp: lookup_id_def find_Some_iff)

text \<open>
  C33: with the catalog the program ships, creating a deployment under an unused key never
  panics, whatever the request contains and whatever the devices, the file system and the
  contexts answer; when it does not create, it returns an error and either no container was
  touched or the deployment is rolled back or marked rollback-failed.
\<close>

theorem shipped_create_total:
  assumes "safe w" and "en_catalog env = shipped_catalog"
    and "store_find_key (w_docs w) (rq_key (normalize_request req)) = None"
    and "run_state (create env req) w = ((outcome, err), w')"
  shows "no_panic err \<and> (co_created outcome \<longleftrightarrow> err = None) \<and>
    (co_created outcome \<or> untouched w w' \<or>
     d_state (co_deployment outcome) \<in> {StateRolledBack, StateRollbackFailed})"
proof -
  let ?Q = "\<lambda>(outcome, err) w'. no_panic err \<and> (co_created outcome \<longleftrightarrow> err = None) \<and>
    (co_created outcome \<or> untouched w w' \<or>
     d_state (co_deployment outcome) \<in> {StateRolledBack, StateRollbackFailed})"
  have "wp (create env req) ?Q w"
  proof (cases "validate_create_request (en_catalog env) (normalize_request req)")
    case (Inl e)
    then show ?thesis by (simp add: create_def wp_simp Let_def reads_untouched)
  next
    case (Inr cfg)
    then obtain md where md: "cfg_multi cfg = Some md" "validated_topology md"
      "request_bindings_ok cfg md (rq_bindings (normalize_request req))"
      "lookup_id (en_catalog env) (rq_bkc_id (normalize_request req)) = Some cfg"
      by (rule validate_create_Inr)
    then have driver: "md_driver md = driver_head_recipe \<longrightarrow> md_recipe_opt md \<noteq> None"
      using lookup_id_mem assms(2) shipped_driver by metis
    show ?thesis
      unfolding create_admitted [OF Inr assms(3) md(1)]
      by (rule wp_mono [OF wp_create_fresh [OF assms(1) md(3,2) driver]])
        (auto simp: fresh_outcome_def split: if_splits)
  qed
  from run_wp [OF this assms(4)] show ?thesis by auto
qed

theorem shipped_create_total_witness:
  "no_panic (snd (fst (run_state (create (sample_env\<lparr>en_catalog := shipped_catalog\<rparr>) sample_request) initial_world)))"
proof -
  obtain outcome err w' where r:
    "run_state (create (sample_env\<lparr>en_catalog := shipped_catalog\<rparr>) sample_request) initial_world = ((outcome, err), w')"
    by (metis surj_pair)
  have "safe initial_world" by (rule reachable_safe [OF reach_initial])
  from shipped_create_total [OF this _ sample_find_key r] show ?thesis by (simp add: r)
qed

end
